(* ===== verification/Prelude.thy ===== *)
theory Prelude
  imports Complex_Main "HOL-Library.Word" "HOL-Library.AList" "HOL-Library.Char_ord"
    "HOL-Library.List_Lexorder"
begin

text \<open>
  What every component of the development shares: the names of the machine integers, the
  two map containers of the Rust standard library with their common interface, the loop
  that updates one map from the entries of another, bounded queues, saturating
  arithmetic and the few string functions the sources call.

  A \<^verbatim>\<open>BTreeMap\<close> is an association list sorted by key, so that its iteration order is the
  one of the source; a \<^verbatim>\<open>HashMap\<close> is an association list with distinct keys whose order
  no definition relies on. A \<^verbatim>\<open>String\<close> is the list of its bytes.
\<close>

type_synonym u8 = "8 word"
type_synonym u16 = "16 word"
type_synonym u32 = "32 word"
type_synonym u64 = "64 word"

named_theorems container_simps \<open>laws of the container models\<close>
named_theorems string_simps \<open>equations of the string helpers\<close>

section \<open>Maps\<close>

type_synonym ('k, 'v) btree = "('k \<times> 'v) list"
type_synonym ('k, 'v) hmap = "('k \<times> 'v) list"

text \<open>\<^verbatim>\<open>BTreeMap\<close>: insertion keeps the keys in ascending order.\<close>

fun bt_put :: "'k::linorder \<Rightarrow> 'v \<Rightarrow> ('k, 'v) btree \<Rightarrow> ('k, 'v) btree" where
  "bt_put k v [] = [(k, v)]"
| "bt_put k v (e # es) =
     (if fst e < k then e # bt_put k v es
      else if fst e = k then (k, v) # es
      else (k, v) # e # es)"

definition bt_ok :: "('k::linorder, 'v) btree \<Rightarrow> bool" where
  "bt_ok m \<longleftrightarrow> sorted_wrt (<) (map fst m)"

text \<open>\<^verbatim>\<open>HashMap\<close>: insertion replaces the value of a key that is present.\<close>

definition hm_put :: "'k \<Rightarrow> 'v \<Rightarrow> ('k, 'v) hmap \<Rightarrow> ('k, 'v) hmap" where
  "hm_put k v m = AList.update k v m"

definition hm_ok :: "('k, 'v) hmap \<Rightarrow> bool" where
  "hm_ok m \<longleftrightarrow> distinct (map fst m)"

text \<open>Removal of a key and \<^verbatim>\<open>retain\<close> are the same on both.\<close>

definition m_del :: "'k \<Rightarrow> ('k \<times> 'v) list \<Rightarrow> ('k \<times> 'v) list" where
  "m_del k m = filter (\<lambda>e. fst e \<noteq> k) m"

definition m_retain :: "('k \<Rightarrow> 'v \<Rightarrow> bool) \<Rightarrow> ('k \<times> 'v) list \<Rightarrow> ('k \<times> 'v) list" where
  "m_retain P m = filter (\<lambda>(k, v). P k v) m"

text \<open>
  The loop \<^verbatim>\<open>for (k, v) in &other\<close> whose body reads the own entry of \<open>k\<close> and either leaves
  it (\<open>None\<close>) or overwrites it (\<open>Some w\<close>).
\<close>

fun upd_loop :: "('m \<Rightarrow> 'k \<Rightarrow> 'v option) \<Rightarrow> ('k \<Rightarrow> 'v \<Rightarrow> 'm \<Rightarrow> 'm) \<Rightarrow>
    ('v option \<Rightarrow> 'w \<Rightarrow> 'v option) \<Rightarrow> ('k \<times> 'w) list \<Rightarrow> 'm \<Rightarrow> 'm" where
  "upd_loop get put f [] m = m"
| "upd_loop get put f ((k, v) # es) m =
     upd_loop get put f es
       (case f (get m k) v of None \<Rightarrow> m | Some w \<Rightarrow> put k w m)"

locale keyed_map =
  fixes get :: "'m \<Rightarrow> 'k \<Rightarrow> 'v option"
    and put :: "'k \<Rightarrow> 'v \<Rightarrow> 'm \<Rightarrow> 'm"
    and del :: "'k \<Rightarrow> 'm \<Rightarrow> 'm"
    and entries :: "'m \<Rightarrow> ('k \<times> 'v) list"
    and ok :: "'m \<Rightarrow> bool"
  assumes get_put: "get (put k v m) k' = (if k' = k then Some v else get m k')"
    and get_del: "get (del k m) k' = (if k' = k then None else get m k')"
    and entries_get: "map_of (entries m) k = get m k"
    and entries_distinct: "ok m \<Longrightarrow> distinct (map fst (entries m))"
    and ok_put: "ok m \<Longrightarrow> ok (put k v m)"
    and ok_del: "ok m \<Longrightarrow> ok (del k m)"
begin

lemma upd_loop_ok: "ok m \<Longrightarrow> ok (upd_loop get put f es m)"
proof (induction es arbitrary: m)
  case (Cons e es)
  obtain k v where e: "e = (k, v)" by force
  have "ok (case f (get m k) v of None \<Rightarrow> m | Some w \<Rightarrow> put k w m)"
    using Cons.prems ok_put by (auto split: option.split)
  from Cons.IH[OF this] show ?case
    by (simp add: e)
qed simp

lemma upd_loop_get:
  "distinct (map fst es) \<Longrightarrow>
   get (upd_loop get put f es m) k =
     (case map_of es k of
        None \<Rightarrow> get m k
      | Some v \<Rightarrow> (case f (get m k) v of None \<Rightarrow> get m k | Some w \<Rightarrow> Some w))"
proof (induction es arbitrary: m)
  case Nil
  then show ?case by simp
next
  case (Cons e es)
  obtain k' v' where e: "e = (k', v')" by force
  define m' where "m' = (case f (get m k') v' of None \<Rightarrow> m | Some w \<Rightarrow> put k' w m)"
  have m': "get m' k = (if k = k' then (case f (get m k') v' of None \<Rightarrow> get m k | Some w \<Rightarrow> Some w)
                        else get m k)"
    by (auto simp: m'_def get_put split: option.splits)
  have fresh: "map_of es k' = None"
    using Cons.prems e by (auto simp: map_of_eq_None_iff)
  have IH: "get (upd_loop get put f es m') k =
     (case map_of es k of
        None \<Rightarrow> get m' k
      | Some v \<Rightarrow> (case f (get m' k) v of None \<Rightarrow> get m' k | Some w \<Rightarrow> Some w))"
    using Cons by simp
  have step: "upd_loop get put f (e # es) m = upd_loop get put f es m'"
    by (simp add: e m'_def)
  show ?case
    using fresh unfolding step IH m'
    by (cases "k = k'") (auto simp: e split: option.split)
qed

end

lemma map_of_bt_put: "map_of (bt_put k v m) k' = (if k' = k then Some v else map_of m k')"
  by (induction m) auto

lemma fst_bt_put: "fst ` set (bt_put k v m) = insert k (fst ` set m)"
  by (induction m) auto

lemma bt_ok_put: "bt_ok m \<Longrightarrow> bt_ok (bt_put k v m)"
proof (induction m)
  case (Cons e es)
  have "\<forall>x \<in> fst ` set (bt_put k v es). fst e < k \<longrightarrow> fst e < x"
    using Cons.prems by (auto simp: fst_bt_put bt_ok_def)
  then show ?case
    using Cons by (auto simp: bt_ok_def)
qed (simp add: bt_ok_def)

lemma map_of_m_del: "map_of (m_del k m) k' = (if k' = k then None else map_of m k')"
  by (induction m) (auto simp: m_del_def)

lemma bt_ok_filter: "bt_ok m \<Longrightarrow> bt_ok (filter P m)"
  by (induction m) (auto simp: bt_ok_def)

lemma bt_ok_distinct: "bt_ok m \<Longrightarrow> distinct (map fst m)"
  unfolding bt_ok_def by (induction m) auto

lemma hm_ok_filter: "hm_ok m \<Longrightarrow> hm_ok (filter P m)"
  by (induction m) (auto simp: hm_ok_def)

lemma hm_ok_put: "hm_ok m \<Longrightarrow> hm_ok (hm_put k v m)"
  by (simp add: hm_ok_def hm_put_def distinct_update)

lemma map_of_hm_put: "map_of (hm_put k v m) k' = (if k' = k then Some v else map_of m k')"
  by (simp add: hm_put_def update_conv)

lemma bt_ok_del: "bt_ok m \<Longrightarrow> bt_ok (m_del k m)"
  by (simp add: m_del_def bt_ok_filter)

lemma hm_ok_del: "hm_ok m \<Longrightarrow> hm_ok (m_del k m)"
  by (simp add: m_del_def hm_ok_filter)

interpretation bt: keyed_map map_of bt_put m_del "\<lambda>m. m" bt_ok
  by unfold_locales
    (simp_all add: map_of_bt_put map_of_m_del bt_ok_distinct bt_ok_put bt_ok_del)

interpretation hm: keyed_map map_of hm_put m_del "\<lambda>m. m" hm_ok
  by unfold_locales
    (simp_all add: map_of_hm_put map_of_m_del hm_ok_put hm_ok_del, simp add: hm_ok_def)

lemma hm_ok_Nil [simp, intro]: "hm_ok []"
  by (simp add: hm_ok_def)

lemma bt_ok_Nil [simp, intro]: "bt_ok []"
  by (simp add: bt_ok_def)

lemma hm_ok_m_retain: "hm_ok m \<Longrightarrow> hm_ok (m_retain P m)"
  by (simp add: m_retain_def hm_ok_filter)

lemma bt_ok_m_retain: "bt_ok m \<Longrightarrow> bt_ok (m_retain P m)"
  by (simp add: m_retain_def bt_ok_filter)

lemma map_of_m_retain:
  "distinct (map fst m) \<Longrightarrow>
   map_of (m_retain P m) k =
     (case map_of m k of Some v \<Rightarrow> if P k v then Some v else None | None \<Rightarrow> None)"
proof (induction m)
  case (Cons e m)
  obtain k' v' where e: "e = (k', v')" by force
  have "map_of m k' = None"
    using Cons.prems e by (auto simp: map_of_eq_None_iff)
  then show ?case
    using Cons by (auto simp: e m_retain_def split: option.splits)
qed (simp add: m_retain_def)

text \<open>A sorted map is determined by its lookups.\<close>

lemma bt_ext:
  assumes "bt_ok a" and "bt_ok b" and "map_of a = map_of b"
  shows "a = b"
  using assms
proof (induction a arbitrary: b)
  case Nil
  then show ?case by (cases b) (auto dest: fun_cong[of _ _ "fst (hd b)"] split: if_splits)
next
  case (Cons e a)
  obtain k v where e: "e = (k, v)" by force
  have hd_a: "map_of (e # a) k = Some v" by (simp add: e)
  then have in_b: "map_of b k = Some v" using Cons.prems(3) by metis
  then obtain k' v' b' where b: "b = (k', v') # b'" by (cases b) auto
  have ka: "\<forall>x \<in> fst ` set a. k < x" using Cons.prems(1) by (auto simp: bt_ok_def e)
  have kb: "\<forall>x \<in> fst ` set b'. k' < x" using Cons.prems(2) by (auto simp: bt_ok_def b)
  have "map_of (e # a) k' = Some v'" using Cons.prems(3) b by (metis map_of_Cons_code(2) )
  then have "k' \<in> insert k (fst ` set a)"
    by (auto simp: e split: if_splits dest!: map_of_SomeD intro: rev_image_eqI)
  then have le: "k \<le> k'" using ka by auto
  have "k \<in> insert k' (fst ` set b')"
    using in_b by (auto simp: b split: if_splits dest!: map_of_SomeD intro: rev_image_eqI)
  then have "k' \<le> k" using kb by auto
  with le have kk: "k' = k" by simp
  with in_b b have vv: "v' = v" by simp
  have na: "map_of a k = None" using ka by (auto simp: map_of_eq_None_iff)
  have nb: "map_of b' k = None" using kb kk by (auto simp: map_of_eq_None_iff)
  have "map_of a x = map_of b' x" for x
    using fun_cong[OF Cons.prems(3), of x] na nb kk by (auto simp: e b split: if_splits)
  then have "a = b'"
    using Cons.prems by (intro Cons.IH) (auto simp: bt_ok_def b)
  then show ?case by (simp add: e b kk vv)
qed

lemmas container_laws [container_simps] =
  map_of_bt_put map_of_hm_put map_of_m_del map_of_m_retain

section \<open>Bounded queues and saturating arithmetic\<close>

text \<open>\<^verbatim>\<open>while q.len() > n { q.pop_front(); }\<close> on a queue whose front is the head of the list.\<close>

fun trim_front :: "nat \<Rightarrow> 'a list \<Rightarrow> 'a list" where
  "trim_front n [] = []"
| "trim_front n (x # xs) = (if length (x # xs) > n then trim_front n xs else x # xs)"

lemma trim_front_drop: "trim_front n xs = drop (length xs - n) xs"
proof (induction xs)
  case (Cons x xs)
  then show ?case by (cases "length xs - n") (auto simp: Suc_diff_le)
qed simp

lemma length_trim_front [simp]: "length (trim_front n xs) = min n (length xs)"
  by (simp add: trim_front_drop)

text \<open>\<^verbatim>\<open>u64::abs_diff\<close> on the values of two unsigned integers.\<close>

definition abs_diff :: "nat \<Rightarrow> nat \<Rightarrow> nat" where
  "abs_diff a b = (if a \<le> b then b - a else a - b)"

lemma abs_diff_le_iff: "abs_diff a b \<le> w \<longleftrightarrow> a \<le> b + w \<and> b \<le> a + w"
  by (auto simp: abs_diff_def)

section \<open>Strings\<close>

definition is_ws :: "char \<Rightarrow> bool" where
  "is_ws c \<longleftrightarrow> of_char c \<in> {9, 10, 11, 12, 13, 32 :: nat}"

text \<open>\<^verbatim>\<open>str::trim\<close> on ASCII text.\<close>

definition str_trim :: "string \<Rightarrow> string" where
  "str_trim s = rev (dropWhile is_ws (rev (dropWhile is_ws s)))"

text \<open>\<^verbatim>\<open>to_ascii_lowercase\<close> and \<^verbatim>\<open>to_ascii_uppercase\<close>.\<close>

definition to_lower :: "char \<Rightarrow> char" where
  "to_lower c = (let n = of_char c :: nat in if 65 \<le> n \<and> n \<le> 90 then char_of (n + 32) else c)"

definition to_upper :: "char \<Rightarrow> char" where
  "to_upper c = (let n = of_char c :: nat in if 97 \<le> n \<and> n \<le> 122 then char_of (n - 32) else c)"

definition str_lower :: "string \<Rightarrow> string" where
  "str_lower s = map to_lower s"

definition str_upper :: "string \<Rightarrow> string" where
  "str_upper s = map to_upper s"

text \<open>Decimal rendering of an unsigned integer, as \<^verbatim>\<open>format!("{}", n)\<close> does it.\<close>

fun dec_digits :: "nat \<Rightarrow> nat list" where
  "dec_digits n = (if n < 10 then [n] else dec_digits (n div 10) @ [n mod 10])"

declare dec_digits.simps [simp del]

definition dec_str :: "nat \<Rightarrow> string" where
  "dec_str n = map (\<lambda>d. char_of (48 + d :: nat)) (dec_digits n)"

fun dec_val :: "nat list \<Rightarrow> nat \<Rightarrow> nat" where
  "dec_val [] acc = acc"
| "dec_val (d # ds) acc = dec_val ds (10 * acc + d)"

lemma dec_val_append: "dec_val (xs @ ys) acc = dec_val ys (dec_val xs acc)"
  by (induction xs arbitrary: acc) auto

lemma dec_val_digits: "dec_val (dec_digits n) 0 = n"
proof (induction n rule: dec_digits.induct)
  case (1 n)
  then show ?case by (subst dec_digits.simps) (auto simp: dec_val_append)
qed

lemma dec_digits_lt: "d \<in> set (dec_digits n) \<Longrightarrow> d < 10"
proof (induction n arbitrary: d rule: dec_digits.induct)
  case (1 n)
  then show ?case by (subst (asm) dec_digits.simps) (auto split: if_splits)
qed

lemma dec_digits_inj: "dec_digits a = dec_digits b \<Longrightarrow> a = b"
  by (metis dec_val_digits)

lemma digit_char_inj: "a < 10 \<Longrightarrow> b < 10 \<Longrightarrow>
    (char_of (48 + a :: nat) :: char) = char_of (48 + b) \<longleftrightarrow> a = b"
  by (auto dest!: arg_cong[of "char_of (48 + a)" _ "of_char :: char \<Rightarrow> nat"])

lemma dec_str_inj: "dec_str a = dec_str b \<longleftrightarrow> a = b"
proof
  assume eq: "dec_str a = dec_str b"
  have inj: "inj_on (\<lambda>d. char_of (48 + d :: nat) :: char) {d. d < 10}"
    by (rule inj_onI) (simp add: digit_char_inj)
  have "dec_digits a = dec_digits b"
    by (rule map_inj_on[OF eq[unfolded dec_str_def] inj_on_subset[OF inj]])
       (auto dest: dec_digits_lt)
  then show "a = b" by (rule dec_digits_inj)
qed simp

lemma dec_str_digit: "c \<in> set (dec_str n) \<Longrightarrow> 48 \<le> (of_char c :: nat) \<and> of_char c \<le> (57 :: nat)"
proof -
  assume "c \<in> set (dec_str n)"
  then obtain d where d: "d \<in> set (dec_digits n)" "c = char_of (48 + d)"
    by (auto simp: dec_str_def)
  then have "d < 10" by (simp add: dec_digits_lt)
  with d(2) show ?thesis by simp
qed

lemmas string_defs [string_simps] =
  str_trim_def str_lower_def str_upper_def to_lower_def to_upper_def is_ws_def Let_def

section \<open>Effectful operations\<close>

text \<open>
  A method that updates its object and sends messages is a function from the object to the
  new object and the list of what it sent, in order.
\<close>

type_synonym ('s, 'o) op = "'s \<Rightarrow> 's \<times> 'o list"

definition op_skip :: "('s, 'o) op" where
  "op_skip s = (s, [])"

definition op_upd :: "('s \<Rightarrow> 's) \<Rightarrow> ('s, 'o) op" where
  "op_upd f s = (f s, [])"

definition op_emit :: "('s \<Rightarrow> 'o list) \<Rightarrow> ('s, 'o) op" where
  "op_emit f s = (s, f s)"

definition op_seq :: "('s, 'o) op \<Rightarrow> ('s, 'o) op \<Rightarrow> ('s, 'o) op" where
  "op_seq f g s = (let (s1, o1) = f s; (s2, o2) = g s1 in (s2, o1 @ o2))"

definition op_when :: "('s \<Rightarrow> bool) \<Rightarrow> ('s, 'o) op \<Rightarrow> ('s, 'o) op" where
  "op_when c f s = (if c s then f s else (s, []))"

text \<open>The argument of the operation is read from the object when it runs.\<close>

definition op_with :: "('s \<Rightarrow> 'a) \<Rightarrow> ('a \<Rightarrow> ('s, 'o) op) \<Rightarrow> ('s, 'o) op" where
  "op_with r f s = f (r s) s"

fun op_all :: "('a \<Rightarrow> ('s, 'o) op) \<Rightarrow> 'a list \<Rightarrow> ('s, 'o) op" where
  "op_all f [] = op_skip"
| "op_all f (x # xs) = op_seq (f x) (op_all f xs)"

fun op_block :: "('s, 'o) op list \<Rightarrow> ('s, 'o) op" where
  "op_block [] = op_skip"
| "op_block [f] = f"
| "op_block (f # fs) = op_seq f (op_block fs)"

text \<open>
  A specification of an operation relates the object before, the messages and the object
  after; the ones that are closed under sequencing hold of a method when they hold of its
  parts.
\<close>

definition op_sat :: "('s \<Rightarrow> 'o list \<Rightarrow> 's \<Rightarrow> bool) \<Rightarrow> ('s, 'o) op \<Rightarrow> bool" where
  "op_sat R f \<longleftrightarrow> (\<forall>s. R s (snd (f s)) (fst (f s)))"

locale op_spec =
  fixes R :: "'s \<Rightarrow> 'o list \<Rightarrow> 's \<Rightarrow> bool"
  assumes R_refl: "R s [] s"
    and R_trans: "R s o1 s1 \<Longrightarrow> R s1 o2 s2 \<Longrightarrow> R s (o1 @ o2) s2"
begin

lemma sat_skip: "op_sat R op_skip"
  by (simp add: op_sat_def op_skip_def R_refl)

lemma sat_seq: "op_sat R f \<Longrightarrow> op_sat R g \<Longrightarrow> op_sat R (op_seq f g)"
  by (simp add: op_sat_def op_seq_def split_def Let_def, metis R_trans)

lemma sat_when: "(\<And>s. c s \<Longrightarrow> R s (snd (f s)) (fst (f s))) \<Longrightarrow> op_sat R (op_when c f)"
  by (simp add: op_sat_def op_when_def R_refl)

lemma sat_when': "op_sat R f \<Longrightarrow> op_sat R (op_when c f)"
  by (simp add: op_sat_def op_when_def R_refl)

lemma sat_when_seq:
  "(\<And>s. c s \<Longrightarrow> R s (snd (f s)) (fst (f s))) \<Longrightarrow> op_sat R g \<Longrightarrow>
   op_sat R (op_when c (op_seq f g))"
  by (simp add: op_sat_def op_when_def op_seq_def split_def Let_def, metis R_refl R_trans)

lemma sat_with: "(\<And>a. op_sat R (f a)) \<Longrightarrow> op_sat R (op_with r f)"
  by (simp add: op_sat_def op_with_def)

lemma sat_all: "(\<And>x. op_sat R (f x)) \<Longrightarrow> op_sat R (op_all f xs)"
  by (induction xs) (simp_all add: sat_skip sat_seq)

lemma sat_block: "\<forall>f\<in>set fs. op_sat R f \<Longrightarrow> op_sat R (op_block fs)"
  by (induction fs rule: op_block.induct) (simp_all add: sat_skip sat_seq)

lemma sat_upd: "(\<And>s. R s [] (f s)) \<Longrightarrow> op_sat R (op_upd f)"
  by (simp add: op_sat_def op_upd_def)

lemma sat_emit: "(\<And>s. R s (g s) s) \<Longrightarrow> op_sat R (op_emit g)"
  by (simp add: op_sat_def op_emit_def)

lemmas sat_intros = sat_skip sat_seq sat_when' sat_with sat_all sat_block sat_upd sat_emit

end

lemma op_satD: "op_sat R f \<Longrightarrow> f s = (s', os) \<Longrightarrow> R s os s'"
  unfolding op_sat_def by (metis fst_conv snd_conv)

lemmas op_defs = op_skip_def op_upd_def op_emit_def op_seq_def op_when_def op_with_def

section \<open>More strings\<close>

definition starts_with :: "string \<Rightarrow> string \<Rightarrow> bool" where
  "starts_with p s \<longleftrightarrow> take (length p) s = p"

text \<open>Lower-case hexadecimal rendering.\<close>

definition hex_digit :: "nat \<Rightarrow> char" where
  "hex_digit d = (if d < 10 then char_of (48 + d) else char_of (87 + d))"

definition hex_fixed :: "nat \<Rightarrow> nat \<Rightarrow> string" where
  "hex_fixed w n = map (\<lambda>i. hex_digit (n div 16 ^ (w - 1 - i) mod 16)) [0..<w]"

definition hex_encode :: "u8 list \<Rightarrow> string" where
  "hex_encode bs = concat (map (\<lambda>b. [hex_digit (unat b div 16), hex_digit (unat b mod 16)]) bs)"

lemma length_hex_encode [simp]: "length (hex_encode bs) = 2 * length bs"
  by (induction bs) (simp_all add: hex_encode_def)

lemma hex_digit_inj: "a < 16 \<Longrightarrow> b < 16 \<Longrightarrow> hex_digit a = hex_digit b \<longleftrightarrow> a = b"
  by (auto simp: hex_digit_def dest!: arg_cong[of "char_of _" _ "of_char :: char \<Rightarrow> nat"] split: if_splits)

lemma hex_encode_inj: "hex_encode a = hex_encode b \<Longrightarrow> a = b"
proof (induction a arbitrary: b)
  case Nil
  then show ?case by (cases b) (simp_all add: hex_encode_def)
next
  case (Cons x a)
  from Cons.prems obtain y b' where b: "b = y # b'" by (cases b) (simp_all add: hex_encode_def)
  have lt: "unat z div 16 < 16" "unat z mod 16 < 16" for z :: u8
  proof -
    have "unat z < 2 ^ LENGTH(8)" by (rule unsigned_less)
    then show "unat z div 16 < 16" by simp
  qed simp
  have "unat x div 16 = unat y div 16" "unat x mod 16 = unat y mod 16" "hex_encode a = hex_encode b'"
    using Cons.prems lt by (simp_all add: b hex_encode_def hex_digit_inj)
  then show ?case
    using Cons.IH[of b'] by (metis b div_mod_decomp word_unat_eq_iff)
qed

text \<open>\<^verbatim>\<open>as_bytes\<close>: a character is its byte.\<close>

definition as_bytes :: "string \<Rightarrow> u8 list" where
  "as_bytes s = map of_char s"

lemma as_bytes_append [simp]: "as_bytes (s @ t) = as_bytes s @ as_bytes t"
  by (simp add: as_bytes_def)

lemma of_char_u8_inj: "(of_char a :: u8) = of_char b \<longleftrightarrow> a = b"
proof
  assume eq: "(of_char a :: u8) = of_char b"
  have u: "unat (of_char c :: u8) = of_char c" for c
  proof -
    have "(of_char c :: u8) = of_nat (of_char c)" by (simp add: of_nat_of_char)
    moreover have "(of_char c :: nat) < 256" by simp
    ultimately show ?thesis by (simp add: unat_of_nat)
  qed
  from eq have "(of_char a :: nat) = of_char b" using u by metis
  then show "a = b" by simp
qed simp

lemma as_bytes_inj: "as_bytes s = as_bytes t \<longleftrightarrow> s = t"
proof -
  have "inj (of_char :: char \<Rightarrow> u8)" by (simp add: inj_def of_char_u8_inj)
  then show ?thesis by (simp add: as_bytes_def inj_map_eq_map)
qed

text \<open>\<^verbatim>\<open>u64::to_le_bytes\<close>.\<close>

definition to_le_bytes :: "u64 \<Rightarrow> u8 list" where
  "to_le_bytes v = map (\<lambda>i. ucast (drop_bit (8 * i) v)) [0..<8]"

lemma length_to_le_bytes [simp]: "length (to_le_bytes v) = 8"
  by (simp add: to_le_bytes_def)

lemma to_le_bytes_inj: "to_le_bytes v = to_le_bytes w \<longleftrightarrow> v = w"
proof
  assume eq: "to_le_bytes v = to_le_bytes w"
  have "bit v n \<longleftrightarrow> bit w n" if n: "n < 64" for n
  proof -
    have "n div 8 < 8" using n by simp
    then have "(ucast (drop_bit (8 * (n div 8)) v) :: u8) = ucast (drop_bit (8 * (n div 8)) w)"
      using arg_cong[OF eq, of "\<lambda>l. l ! (n div 8)"] by (simp add: to_le_bytes_def del: upt_Suc upt_rec_numeral)
    then have "bit (ucast (drop_bit (8 * (n div 8)) v) :: u8) (n mod 8) \<longleftrightarrow>
        bit (ucast (drop_bit (8 * (n div 8)) w) :: u8) (n mod 8)" by simp
    then show ?thesis by (simp add: bit_ucast_iff bit_drop_bit_eq)
  qed
  then show "v = w" by (auto intro!: bit_word_eqI)
qed simp

text \<open>\<^verbatim>\<open>format!("{n:x}")\<close>, and the bytes of an integer of \<open>k\<close> bytes in little-endian order.\<close>

fun hex_str :: "nat \<Rightarrow> string" where
  "hex_str n = (if n < 16 then [hex_digit n] else hex_str (n div 16) @ [hex_digit (n mod 16)])"

declare hex_str.simps [simp del]

definition le_bytes :: "nat \<Rightarrow> 'a::len word \<Rightarrow> u8 list" where
  "le_bytes k v = map (\<lambda>i. ucast (drop_bit (8 * i) v)) [0..<k]"

lemma length_le_bytes [simp]: "length (le_bytes k v) = k"
  by (simp add: le_bytes_def)

definition bool_text :: "bool \<Rightarrow> string" where
  "bool_text b = (if b then ''true'' else ''false'')"

text \<open>Fields joined with a separator, as \<^verbatim>\<open>format!("{}|{}|...")\<close>.\<close>

fun join_with :: "'a \<Rightarrow> 'a list list \<Rightarrow> 'a list" where
  "join_with sep [] = []"
| "join_with sep [x] = x"
| "join_with sep (x # xs) = x @ sep # join_with sep xs"

text \<open>Splitting at the separator undoes joining when no field contains it.\<close>

lemma join_with_inj:
  "length xs = length ys \<Longrightarrow> \<forall>x\<in>set xs \<union> set ys. sep \<notin> set x \<Longrightarrow>
   join_with sep xs = join_with sep ys \<Longrightarrow> xs = ys"
proof (induction xs ys rule: list_induct2)
  case (Cons x xs y ys)
  show ?case
  proof (cases xs)
    case Nil
    with Cons show ?thesis by simp
  next
    case (Cons x' xs')
    then obtain y' ys' where ys: "ys = y' # ys'" using Cons.hyps by (cases ys) auto
    have eq: "x @ sep # join_with sep xs = y @ sep # join_with sep ys"
      using \<open>join_with sep (x # xs) = join_with sep (y # ys)\<close> by (simp add: Cons ys)
    have nx: "sep \<notin> set x" and ny: "sep \<notin> set y"
      using \<open>\<forall>x\<in>set (x # xs) \<union> set (y # ys). sep \<notin> set x\<close> by auto
    have t: "takeWhile (\<lambda>c. c \<noteq> sep) (z @ sep # r) = z" if "sep \<notin> set z" for z r
      using that by (induction z) auto
    have xy: "x = y" using arg_cong[OF eq, of "takeWhile (\<lambda>c. c \<noteq> sep)"] t[OF nx] t[OF ny] by simp
    then have "join_with sep xs = join_with sep ys" using eq by simp
    then show ?thesis using Cons.IH \<open>\<forall>x\<in>set (x # xs) \<union> set (y # ys). sep \<notin> set x\<close> xy by auto
  qed
qed simp

text \<open>\<^verbatim>\<open>str::split\<close> at a character.\<close>

fun split_on :: "'a \<Rightarrow> 'a list \<Rightarrow> 'a list list" where
  "split_on c [] = [[]]"
| "split_on c (x # xs) =
     (if x = c then [] # split_on c xs
      else case split_on c xs of [] \<Rightarrow> [[x]] | y # ys \<Rightarrow> (x # y) # ys)"

lemma split_on_nonempty [simp]: "split_on c xs \<noteq> []"
  by (induction xs) (auto split: list.split)

lemma split_on_no_sep: "c \<notin> set x \<Longrightarrow> split_on c x = [x]"
  by (induction x) auto

lemma split_on_append: "c \<notin> set x \<Longrightarrow> split_on c (x @ c # ys) = x # split_on c ys"
  by (induction x) auto

lemma split_on_join:
  "xs \<noteq> [] \<Longrightarrow> \<forall>x\<in>set xs. c \<notin> set x \<Longrightarrow> split_on c (join_with c xs) = xs"
proof (induction xs rule: join_with.induct)
  case (2 sep x)
  then show ?case by (simp add: split_on_no_sep)
next
  case (3 sep x y ys)
  then show ?case by (simp add: split_on_append)
qed simp

lemma join_split_on: "join_with c (split_on c xs) = xs"
proof (induction xs)
  case (Cons x xs)
  obtain y ys where "split_on c xs = y # ys" by (cases "split_on c xs") auto
  with Cons show ?case by (cases ys) auto
qed simp

end
