(* ===== verification/Gf256.thy ===== *)
theory Gf256
  imports Prelude
begin

text \<open>
  The field GF(2^8) of \<^verbatim>\<open>sss.rs\<close>: the carry-less multiplication \<^verbatim>\<open>gf256_raw_mul\<close>, the
  exponential and logarithm tables built with the generator 3, and the table-driven
  operations \<^verbatim>\<open>gf_add\<close>, \<^verbatim>\<open>gf_sub\<close>, \<^verbatim>\<open>gf_mul\<close> and \<^verbatim>\<open>gf_div\<close>. The lemmas show that 3
  generates all 255 nonzero bytes, what every table entry holds, and that the operations
  make the bytes a field; the last section states this as an instance of the type class
  of fields, which the interpolation argument of theory \<open>Sss\<close> rests on.
\<close>

unbundle bit_operations_syntax

section \<open>Definitions\<close>

definition POLY :: u16 where
  "POLY = 0x11B"

function raw_mul_loop :: "u16 \<Rightarrow> u16 \<Rightarrow> u16 \<Rightarrow> u16" where
  "raw_mul_loop result a b =
     (if b > 0 then
        let result = (if b AND 1 = 1 then result XOR a else result);
            a = push_bit 1 a;
            a = (if a AND 0x100 \<noteq> 0 then a XOR POLY else a);
            b = drop_bit 1 b
        in raw_mul_loop result a b
      else result)"
  by pat_completeness auto

lemma unat_drop_bit_1_less: "0 < (b :: u16) \<Longrightarrow> unat (drop_bit 1 b) < unat b"
  by (simp add: drop_bit_eq_div unat_div_distrib unat_gt_0 word_gt_0)

termination raw_mul_loop
  by (relation "measure (\<lambda>(r, a, b). unat b)") (auto simp: unat_drop_bit_1_less[unfolded One_nat_def])

declare raw_mul_loop.simps [simp del]

definition gf256_raw_mul :: "u16 \<Rightarrow> u16 \<Rightarrow> u16" where
  "gf256_raw_mul a b = raw_mul_loop 0 a b AND 0xFF"

record GF256Tables =
  exp_tab :: "u8 list"
  log_tab :: "u8 list"

text \<open>One iteration of each of the two loops of \<^verbatim>\<open>GF256Tables::generate\<close>.\<close>

definition gen_step :: "u8 list \<times> u8 list \<times> u16 \<Rightarrow> nat \<Rightarrow> u8 list \<times> u8 list \<times> u16" where
  "gen_step st i =
     (let (ex, lg, x) = st in (ex[i := ucast x], lg[unat x := of_nat i], gf256_raw_mul x 3))"

definition dup_step :: "u8 list \<Rightarrow> nat \<Rightarrow> u8 list" where
  "dup_step ex i = ex[i := ex ! (i - 255)]"

definition generate :: GF256Tables where
  "generate =
     (let (ex, lg, x) = foldl gen_step (replicate 512 0, replicate 256 0, 1) [0..<255];
          ex = foldl dup_step ex [255..<512]
      in \<lparr> exp_tab = ex, log_tab = lg \<rparr>)"

definition tables :: GF256Tables where
  "tables = generate"

datatype SssError = InvalidThreshold | NotEnoughShards | DuplicateX | EmptySecret | DivisionByZero

definition gf_add :: "u8 \<Rightarrow> u8 \<Rightarrow> u8" where
  "gf_add a b = a XOR b"

definition gf_sub :: "u8 \<Rightarrow> u8 \<Rightarrow> u8" where
  "gf_sub a b = a XOR b"

definition gf_mul :: "u8 \<Rightarrow> u8 \<Rightarrow> u8" where
  "gf_mul a b =
     (if a = 0 \<or> b = 0 then 0
      else let log_a = unat (log_tab tables ! unat a);
               log_b = unat (log_tab tables ! unat b)
           in exp_tab tables ! ((log_a + log_b) mod 255))"

definition gf_div :: "u8 \<Rightarrow> u8 \<Rightarrow> SssError + u8" where
  "gf_div a b =
     (if b = 0 then Inl DivisionByZero
      else if a = 0 then Inr 0
      else let log_a = unat (log_tab tables ! unat a);
               log_b = unat (log_tab tables ! unat b)
           in Inr (exp_tab tables ! ((log_a + 255 - log_b) mod 255)))"

section \<open>One multiplication by the generator\<close>

text \<open>Doubling of a byte, and the product with 3, in terms of single bits.\<close>

definition xtime :: "u8 \<Rightarrow> u8" where
  "xtime x = push_bit 1 x XOR (if bit x 7 then 0x1B else 0)"

definition step3 :: "u8 \<Rightarrow> u8" where
  "step3 x = x XOR xtime x"

lemma bit_push1: "bit (push_bit 1 (x::'a::len word)) n \<longleftrightarrow> 0 < n \<and> n < LENGTH('a) \<and> bit x (n - 1)"
  unfolding bit_push_bit_iff by auto

lemma bit_1B: "bit (0x1B :: u8) n \<longleftrightarrow> n = 0 \<or> n = 1 \<or> n = 3 \<or> n = 4"
proof -
  have "(0x1B :: u8) = 2 ^ 0 OR 2 ^ 1 OR 2 ^ 3 OR 2 ^ 4" by simp
  then show ?thesis
    by (simp only: bit_or_iff bit_exp_iff) auto
qed

lemma bit_POLY: "bit POLY n \<longleftrightarrow> n = 0 \<or> n = 1 \<or> n = 3 \<or> n = 4 \<or> n = 8"
proof -
  have *: "POLY = 2 ^ 0 OR 2 ^ 1 OR 2 ^ 3 OR 2 ^ 4 OR 2 ^ 8"
    by (simp add: POLY_def)
  show ?thesis
    unfolding * bit_or_iff bit_exp_iff by auto
qed

lemma bit_FF: "bit (0xFF :: u16) n \<longleftrightarrow> n < 8"
proof -
  have "(0xFF :: u16) = mask 8" by (simp add: mask_eq_exp_minus_1)
  then show ?thesis by (simp only: bit_mask_iff) auto
qed

lemma bit_u8_less: "bit (x :: u8) n \<Longrightarrow> n < 8"
  using bit_imp_le_length[of x n] by simp

lemma bit_xtime: "bit (xtime x) n \<longleftrightarrow> n < 8 \<and>
   ((0 < n \<and> bit x (n - 1)) \<noteq> (bit x 7 \<and> (n = 0 \<or> n = 1 \<or> n = 3 \<or> n = 4)))"
proof (cases "bit x 7")
  case True
  then have "xtime x = push_bit 1 x XOR 0x1B" by (simp only: xtime_def if_True)
  with True show ?thesis by (simp only: bit_xor_iff bit_push1 bit_1B) auto
next
  case False
  then have "xtime x = push_bit 1 x" by (simp only: xtime_def if_False xor.right_neutral)
  with False show ?thesis by (simp only: bit_push1) auto
qed

lemma bit_step3: "bit (step3 x) n \<longleftrightarrow> n < 8 \<and>
   ((bit x n \<noteq> (0 < n \<and> bit x (n - 1))) \<noteq> (bit x 7 \<and> (n = 0 \<or> n = 1 \<or> n = 3 \<or> n = 4)))"
  unfolding step3_def bit_xor_iff bit_xtime using bit_u8_less[of x n] by auto

lemma step3_0 [simp]: "step3 0 = 0"
  by (rule bit_word_eqI) (simp add: bit_step3)

lemma step3_eq_0: "step3 x = 0 \<longleftrightarrow> x = 0"
proof
  assume "step3 x = 0"
  then have *: "\<not> bit (step3 x) n" for n by simp
  have "\<not> bit x 7 \<and> \<not> bit x 0 \<and> \<not> bit x 1 \<and> \<not> bit x 2 \<and> \<not> bit x 3 \<and> \<not> bit x 4 \<and>
      \<not> bit x 5 \<and> \<not> bit x 6"
    using *[of 0] *[of 1] *[of 2] *[of 3] *[of 4] *[of 5] *[of 6] *[of 7]
    by (simp add: bit_step3) blast
  then have "\<not> bit x n" if "n < 8" for n
    using that by (auto simp: less_Suc_eq numeral_eq_Suc)
  then show "x = 0" by (auto intro!: bit_word_eqI)
qed simp

lemma step3_xor: "step3 (x XOR y) = step3 x XOR step3 y"
  by (rule bit_word_eqI) (auto simp: bit_step3 bit_xor_iff)

lemma step3_inj: "step3 x = step3 y \<longleftrightarrow> x = y"
proof
  assume "step3 x = step3 y"
  then have "x XOR y = 0" by (simp add: step3_xor flip: step3_eq_0)
  then show "x = y" by (metis xor.assoc xor.right_neutral xor_self_eq)
qed simp

section \<open>The raw multiplication\<close>

definition xtime16 :: "u16 \<Rightarrow> u16" where
  "xtime16 a = (if push_bit 1 a AND 0x100 \<noteq> 0 then push_bit 1 a XOR POLY else push_bit 1 a)"

lemma raw_mul_loop_0: "raw_mul_loop r a 0 = r"
  by (subst raw_mul_loop.simps) simp

lemma raw_mul_loop_step:
  "b \<noteq> 0 \<Longrightarrow> raw_mul_loop r a b =
     raw_mul_loop (if b AND 1 = 1 then r XOR a else r) (xtime16 a) (drop_bit 1 b)"
  by (subst raw_mul_loop.simps) (simp add: Let_def xtime16_def word_gt_0)

lemma raw_mul_3: "gf256_raw_mul a 3 = (a XOR xtime16 a) AND 0xFF"
  by (simp add: gf256_raw_mul_def raw_mul_loop_step raw_mul_loop_0)

lemma bit_xtime16: "bit (xtime16 a) n \<longleftrightarrow>
    (0 < n \<and> n < 16 \<and> bit a (n - 1)) \<noteq> (bit a 7 \<and> (n = 0 \<or> n = 1 \<or> n = 3 \<or> n = 4 \<or> n = 8))"
proof -
  have "push_bit 1 a AND 2 ^ 8 \<noteq> 0 \<longleftrightarrow> bit (push_bit 1 a) 8"
    unfolding and_exp_eq_0_iff_not_bit by simp
  moreover have "(2 :: u16) ^ 8 = 0x100" by simp
  ultimately have c: "push_bit 1 a AND 0x100 \<noteq> 0 \<longleftrightarrow> bit a 7"
    unfolding bit_push1 by simp
  show ?thesis
  proof (cases "bit a 7")
    case True
    then have "xtime16 a = push_bit 1 a XOR POLY" unfolding xtime16_def c by simp
    with True show ?thesis by (simp only: bit_xor_iff bit_push1 bit_POLY) auto
  next
    case False
    then have "xtime16 a = push_bit 1 a" unfolding xtime16_def c by simp
    with False show ?thesis by (simp only: bit_push1) auto
  qed
qed

lemma xtime16_ucast: "xtime16 (ucast x) = ucast (xtime x)"
proof (rule bit_word_eqI)
  fix n assume "n < LENGTH(16)"
  then show "bit (xtime16 (ucast x)) n \<longleftrightarrow> bit (ucast (xtime x) :: u16) n"
    using bit_u8_less[of x n] bit_u8_less[of x "n - 1"]
    by (cases "n = 8") (simp_all add: bit_xtime16 bit_xtime bit_ucast_iff, auto)
qed

lemma raw_mul_3_ucast: "gf256_raw_mul (ucast x) 3 = ucast (step3 x)"
proof (rule bit_word_eqI)
  fix n assume "n < LENGTH(16)"
  then show "bit (gf256_raw_mul (ucast x) 3) n \<longleftrightarrow> bit (ucast (step3 x) :: u16) n"
    unfolding raw_mul_3 xtime16_ucast step3_def
    by (simp only: bit_and_iff bit_FF bit_xor_iff bit_ucast_iff) (auto dest: bit_u8_less)
qed

section \<open>The generator\<close>

text \<open>
  The orbit of 1 under \<^const>\<open>step3\<close> is followed on integers, where the simplifier computes
  with it.
\<close>

definition stepi :: "int \<Rightarrow> int" where
  "stepi x = (if x < 128 then x XOR (2 * x) else (x XOR (2 * x)) XOR 0x11B)"

fun avoids_1 :: "nat \<Rightarrow> int \<Rightarrow> bool" where
  "avoids_1 n x = (if n = 0 then True else x \<noteq> 1 \<and> avoids_1 (n - 1) (stepi x))"

fun orbit :: "nat \<Rightarrow> int \<Rightarrow> int" where
  "orbit n x = (if n = 0 then x else orbit (n - 1) (stepi x))"

declare avoids_1.simps [simp del] orbit.simps [simp del]

lemma avoids_1_254: "avoids_1 254 3"
  by (simp add: avoids_1.simps stepi_def)

lemma orbit_255: "orbit 255 1 = 1"
  by (simp add: orbit.simps stepi_def)

lemma bit_7_uint: "bit (x::u8) 7 \<longleftrightarrow> 128 \<le> uint x"
proof -
  have "bit x 7 \<longleftrightarrow> odd (uint x div 128)"
    using bit_uint_iff[of x 7] by (simp add: bit_iff_odd)
  moreover have "0 \<le> uint x" "uint x < 256" using uint_lt2p[of x] by simp_all
  then have "uint x div 128 = (if 128 \<le> uint x then 1 else 0)" by auto
  ultimately show ?thesis by simp
qed

lemma bit_11B_int: "bit (0x11B :: int) n \<longleftrightarrow> n = 0 \<or> n = 1 \<or> n = 3 \<or> n = 4 \<or> n = 8"
proof -
  have *: "(0x11B :: int) = 2 ^ 0 OR 2 ^ 1 OR 2 ^ 3 OR 2 ^ 4 OR 2 ^ 8" by simp
  show ?thesis
    unfolding * bit_or_iff bit_exp_iff by auto
qed

lemma uint_step3: "uint (step3 x) = stepi (uint x)"
proof (rule bit_eqI)
  fix n
  have d: "bit (2 * uint x) n \<longleftrightarrow> 0 < n \<and> bit x (n - 1)"
    using bit_double_iff[of "uint x" n] by (auto simp: bit_uint_iff dest: bit_imp_le_length)
  have u: "bit (uint x) n \<longleftrightarrow> bit x n"
    by (auto simp: bit_uint_iff dest: bit_imp_le_length)
  have "bit (stepi (uint x)) n \<longleftrightarrow> ((bit x n \<noteq> (0 < n \<and> bit x (n - 1))) \<noteq>
      (bit x 7 \<and> (n = 0 \<or> n = 1 \<or> n = 3 \<or> n = 4 \<or> n = 8)))"
  proof (cases "bit x 7")
    case True
    then have "stepi (uint x) = (uint x XOR (2 * uint x)) XOR 0x11B"
      by (simp add: stepi_def bit_7_uint)
    with True show ?thesis by (simp only: bit_xor_iff bit_11B_int d u) simp
  next
    case False
    then have "stepi (uint x) = (uint x XOR (2 * uint x))"
      by (simp add: stepi_def bit_7_uint)
    with False show ?thesis by (simp only: bit_xor_iff d u) simp
  qed
  then show "bit (uint (step3 x)) n \<longleftrightarrow> bit (stepi (uint x)) n"
    using bit_u8_less[of x n] bit_u8_less[of x "n - 1"]
    by (cases "n = 8") (simp_all add: bit_uint_iff bit_step3, auto)
qed

lemma uint_orbit: "uint ((step3 ^^ n) x) = orbit n (uint x)"
proof (induction n arbitrary: x)
  case 0
  then show ?case by (simp add: orbit.simps)
next
  case (Suc n)
  then show ?case by (subst orbit.simps) (simp add: funpow_swap1 uint_step3)
qed

lemma avoids_1_orbit: "avoids_1 n (uint x) \<Longrightarrow> i < n \<Longrightarrow> (step3 ^^ i) x \<noteq> 1"
proof (induction n arbitrary: x i)
  case (Suc n)
  have x: "uint x \<noteq> 1" and n: "avoids_1 n (uint (step3 x))"
    using Suc.prems(1) by (subst (asm) avoids_1.simps, simp add: uint_step3)+
  show ?case
  proof (cases i)
    case 0
    with x show ?thesis by auto
  next
    case (Suc j)
    with Suc.IH[OF n, of j] Suc.prems(2) show ?thesis by (simp add: funpow_swap1)
  qed
qed simp

definition E :: "nat \<Rightarrow> u8" where
  "E i = (step3 ^^ i) 1"

lemma E_0 [simp]: "E 0 = 1"
  by (simp add: E_def)

lemma E_Suc: "E (Suc i) = step3 (E i)"
  by (simp add: E_def)

lemma step3_pow_inj: "(step3 ^^ i) x = (step3 ^^ i) y \<longleftrightarrow> x = y"
  by (induction i) (simp_all add: step3_inj)

lemma step3_pow_0 [simp]: "(step3 ^^ i) 0 = 0"
  by (induction i) simp_all

lemma step3_pow_xor: "(step3 ^^ i) (x XOR y) = (step3 ^^ i) x XOR (step3 ^^ i) y"
  by (induction i) (simp_all add: step3_xor)

lemma step3_pow_E: "(step3 ^^ i) (E j) = E (i + j)"
  by (simp add: E_def funpow_add)

lemma E_neq_0 [simp]: "E i \<noteq> 0"
  using step3_pow_inj[of i 1 0] by (simp add: E_def)

lemma E_255: "E 255 = 1"
proof -
  have "uint (E 255) = uint (1 :: u8)"
    unfolding E_def uint_orbit using orbit_255 by simp
  then show ?thesis by (simp only: word_uint_eq_iff)
qed

lemma E_mod: "E (i mod 255) = E i"
proof (induction i rule: less_induct)
  case (less i)
  show ?case
  proof (cases "i < 255")
    case False
    then have "E i = (step3 ^^ (i - 255)) (E 255)"
      unfolding step3_pow_E by simp
    also have "\<dots> = E (i - 255)"
      unfolding E_255 by (simp add: E_def)
    also have "\<dots> = E ((i - 255) mod 255)"
      using False less.IH[of "i - 255"] by simp
    also have "(i - 255) mod 255 = i mod 255"
      using False by (simp add: le_mod_geq)
    finally show ?thesis by simp
  qed simp
qed

lemma E_neq_1: "0 < i \<Longrightarrow> i < 255 \<Longrightarrow> E i \<noteq> 1"
proof -
  assume "0 < i" "i < 255"
  then obtain j where i: "i = Suc j" "j < 254" by (cases i) auto
  have "step3 1 = 3"
    by (rule word_uint_eqI) (simp add: uint_step3 stepi_def)
  then have "E i = (step3 ^^ j) 3"
    by (simp add: E_def i(1) funpow_swap1)
  moreover have "avoids_1 254 (uint (3 :: u8))"
    using avoids_1_254 by simp
  ultimately show ?thesis
    using avoids_1_orbit[of 254 3 j] i(2) by simp
qed

lemma E_inj: "i < 255 \<Longrightarrow> j < 255 \<Longrightarrow> E i = E j \<longleftrightarrow> i = j"
proof (induction i j rule: linorder_wlog)
  case (le i j)
  have "E j = (step3 ^^ i) (E (j - i))"
    using le(1) by (simp add: step3_pow_E)
  then have "E i = E j \<longleftrightarrow> E (j - i) = 1"
    unfolding E_def[of i] by (metis step3_pow_inj)
  then show ?case
    using E_neq_1[of "j - i"] le by (cases "i = j") auto
qed auto

lemma E_image: "E ` {..<255} = - {0}"
proof (rule card_subset_eq)
  have "card (E ` {..<255}) = 255"
    by (subst card_image) (auto simp: inj_on_def E_inj)
  also have "\<dots> = card (- {0 :: u8})"
    by (simp add: Compl_eq_Diff_UNIV card_Diff_singleton card_word)
  finally show "card (E ` {..<255}) = card (- {0 :: u8})" .
qed auto

lemma nonzero_E:
  assumes "x \<noteq> 0"
  obtains i where "i < 255" "x = E i"
proof -
  have "x \<in> E ` {..<255}" using assms by (simp add: E_image)
  then show ?thesis using that by blast
qed

section \<open>The tables\<close>

text \<open>What the first loop of \<^const>\<open>generate\<close> has established after \<open>n\<close> iterations.\<close>

definition gen_inv :: "nat \<Rightarrow> u8 list \<times> u8 list \<times> u16 \<Rightarrow> bool" where
  "gen_inv n st \<longleftrightarrow>
     (case st of (ex, lg, x) \<Rightarrow>
        length ex = 512 \<and> length lg = 256 \<and> x = ucast (E n) \<and>
        (\<forall>i<n. ex ! i = E i \<and> lg ! unat (E i) = of_nat i))"

lemma unat_u8_less: "unat (x :: u8) < 256"
proof -
  have "unat x < 2 ^ LENGTH(8)" by (rule unsigned_less)
  then show ?thesis by simp
qed

lemma unat_ucast_u8: "unat (ucast (x :: u8) :: u16) = unat x"
  using unat_u8_less[of x] by (simp add: unsigned_ucast_eq take_bit_nat_eq_self)

lemma ucast_ucast_u8: "ucast (ucast (x :: u8) :: u16) = x"
  by (simp add: ucast_up_ucast_id is_up)

lemma gen_inv_step:
  assumes "gen_inv n st" and n: "n < 255"
  shows "gen_inv (Suc n) (gen_step st n)"
proof -
  obtain ex lg x where st: "st = (ex, lg, x)" by (cases st)
  have len: "length ex = 512" "length lg = 256" and x: "x = ucast (E n)"
    and tab: "\<forall>i<n. ex ! i = E i \<and> lg ! unat (E i) = of_nat i"
    using assms by (auto simp: gen_inv_def st)
  have fresh: "i < n \<Longrightarrow> unat (E n) \<noteq> unat (E i)" for i
    using n by (simp add: word_unat_eq_iff[symmetric] E_inj)
  show ?thesis
    using len tab fresh n
    by (auto simp: gen_inv_def gen_step_def st x raw_mul_3_ucast E_Suc unat_ucast_u8
        ucast_ucast_u8 less_Suc_eq nth_list_update unat_u8_less)
qed

lemma gen_loop: "n \<le> 255 \<Longrightarrow>
    gen_inv n (foldl gen_step (replicate 512 0, replicate 256 0, 1) [0..<n])"
proof (induction n)
  case 0
  then show ?case by (simp add: gen_inv_def)
next
  case (Suc n)
  then show ?case by (simp add: gen_inv_step)
qed

lemma dup_loop:
  assumes "length ex = 512" and "\<forall>i<255. ex ! i = E i" and "m \<le> 257"
  shows "length (foldl dup_step ex [255..<255 + m]) = 512 \<and>
    (\<forall>i<255 + m. foldl dup_step ex [255..<255 + m] ! i = E i)"
  using assms
proof (induction m)
  case (Suc m)
  let ?ex = "foldl dup_step ex [255..<255 + m]"
  have IH: "length ?ex = 512" "\<forall>i<255 + m. ?ex ! i = E i"
    using Suc by auto
  have "E (255 + m) = E m"
    using E_mod[of "255 + m"] E_mod[of m] by simp
  moreover have "foldl dup_step ex [255..<255 + Suc m] = ?ex[255 + m := ?ex ! m]"
    unfolding add_Suc_right by (subst upt_Suc_append) (simp_all add: dup_step_def)
  ultimately show ?case
    using IH Suc.prems by (auto simp: nth_list_update less_Suc_eq simp del: upt_Suc)
qed simp

lemma generate_tables:
  "length (exp_tab tables) = 512 \<and> length (log_tab tables) = 256 \<and>
   (\<forall>i<512. exp_tab tables ! i = E i) \<and>
   (\<forall>i<255. log_tab tables ! unat (E i) = of_nat i)"
proof -
  obtain ex lg x where
    st: "foldl gen_step (replicate 512 0, replicate 256 0, 1) [0..<255] = (ex, lg, x)"
    by (cases "foldl gen_step (replicate 512 0, replicate 256 0, 1) [0..<255]")
  have "gen_inv 255 (ex, lg, x)"
    using gen_loop[of 255] unfolding st by simp
  then have inv: "length ex = 512" "length lg = 256"
      "\<forall>i<255. ex ! i = E i" "\<forall>i<255. lg ! unat (E i) = of_nat i"
    by (auto simp: gen_inv_def)
  have tb: "tables = \<lparr> exp_tab = foldl dup_step ex [255..<512], log_tab = lg \<rparr>"
    unfolding tables_def generate_def st by simp
  have "length (foldl dup_step ex [255..<512]) = 512 \<and>
      (\<forall>i<512. foldl dup_step ex [255..<512] ! i = E i)"
    using dup_loop[OF inv(1,3) order_refl, unfolded numeral_plus_numeral add_num_simps] .
  then show ?thesis
    using inv unfolding tb GF256Tables.select_convs by blast
qed

lemma exp_nth: "i < 512 \<Longrightarrow> exp_tab tables ! i = E i"
  and log_E: "i < 255 \<Longrightarrow> log_tab tables ! unat (E i) = of_nat i"
  using generate_tables by blast+

lemma unat_log_E: "i < 255 \<Longrightarrow> unat (log_tab tables ! unat (E i)) = i"
  by (simp add: log_E unat_of_nat)

section \<open>Products and quotients\<close>

lemma gf_mul_E: "gf_mul (E i) (E j) = E (i + j)"
proof -
  have "gf_mul (E (i mod 255)) (E (j mod 255)) = E ((i mod 255 + j mod 255) mod 255)"
    by (simp add: gf_mul_def unat_log_E exp_nth)
  then show ?thesis by (simp add: E_mod mod_add_eq)
qed

lemma gf_mul_0 [simp]: "gf_mul 0 a = 0" "gf_mul a 0 = 0"
  by (simp_all add: gf_mul_def)

lemma gf_mul_pow: "gf_mul a (E j) = (step3 ^^ j) a"
proof (cases "a = 0")
  case False
  then obtain i where "i < 255" "a = E i" by (rule nonzero_E)
  then show ?thesis by (simp add: gf_mul_E step3_pow_E add.commute)
qed simp

lemma gf_mul_1 [simp]: "gf_mul a 1 = a" "gf_mul 1 a = a"
proof -
  show *: "gf_mul a 1 = a" for a using gf_mul_pow[of a 0] by simp
  show "gf_mul 1 a = a"
  proof (cases "a = 0")
    case False
    then obtain i where "i < 255" "a = E i" by (rule nonzero_E)
    then show ?thesis using gf_mul_E[of 0 i] by simp
  qed simp
qed

lemma gf_mul_comm: "gf_mul a b = gf_mul b a"
proof (cases "a = 0 \<or> b = 0")
  case False
  then obtain i j where "a = E i" "b = E j" by (metis nonzero_E)
  then show ?thesis by (simp add: gf_mul_E add.commute)
qed auto

lemma gf_mul_assoc: "gf_mul (gf_mul a b) c = gf_mul a (gf_mul b c)"
proof (cases "a = 0 \<or> b = 0 \<or> c = 0")
  case False
  then obtain i j k where "a = E i" "b = E j" "c = E k" by (metis nonzero_E)
  then show ?thesis by (simp add: gf_mul_E add.assoc)
qed auto

lemma gf_mul_xor: "gf_mul (a XOR b) c = gf_mul a c XOR gf_mul b c"
proof (cases "c = 0")
  case False
  then obtain i where "c = E i" by (metis nonzero_E)
  then show ?thesis by (simp add: gf_mul_pow step3_pow_xor)
qed simp

definition gf_inv :: "u8 \<Rightarrow> u8" where
  "gf_inv a = (case gf_div 1 a of Inl e \<Rightarrow> 0 | Inr r \<Rightarrow> r)"

lemma gf_div_E: "gf_div (E i) (E j) = Inr (E (i mod 255 + (255 - j mod 255)))"
proof -
  have "gf_div (E (i mod 255)) (E (j mod 255)) = Inr (E ((i mod 255 + 255 - j mod 255) mod 255))"
    by (simp add: gf_div_def unat_log_E exp_nth)
  moreover have "j mod 255 < 255" by simp
  then have "i mod 255 + 255 - j mod 255 = i mod 255 + (255 - j mod 255)"
    by (intro Nat.diff_add_assoc) simp
  ultimately show ?thesis by (simp only: E_mod)
qed

lemma gf_inv_E: "gf_inv (E j) = E (255 - j mod 255)"
  using gf_div_E[of 0 j] by (simp add: gf_inv_def)

lemma gf_inv_right: "a \<noteq> 0 \<Longrightarrow> gf_mul a (gf_inv a) = 1"
proof -
  assume "a \<noteq> 0"
  then obtain i where i: "i < 255" "a = E i" by (rule nonzero_E)
  then show ?thesis using E_255 by (simp add: gf_inv_E gf_mul_E)
qed

lemma gf_div_inv: "b \<noteq> 0 \<Longrightarrow> gf_div a b = Inr (gf_mul a (gf_inv b))"
proof (cases "a = 0")
  case False
  moreover assume "b \<noteq> 0"
  ultimately obtain i j where ij: "a = E i" "b = E j" by (metis nonzero_E)
  have "E (i mod 255 + (255 - j mod 255)) = E (i + (255 - j mod 255))"
    by (metis E_mod mod_add_left_eq)
  then show ?thesis by (simp add: ij gf_div_E gf_inv_E gf_mul_E)
qed (simp add: gf_div_def)

section \<open>The tables compute the raw product\<close>

lemma step3_gf_mul: "step3 a = gf_mul a 3"
proof -
  have "E 1 = 3"
    by (rule word_uint_eqI) (simp add: E_Suc uint_step3 stepi_def)
  then show ?thesis using gf_mul_pow[of a 1] by simp
qed

lemma xtime_gf_mul: "xtime a = gf_mul a 2"
proof -
  have "xtime a = a XOR step3 a"
    unfolding step3_def by (metis xor.assoc xor.left_neutral xor_self_eq)
  also have "\<dots> = gf_mul 1 a XOR gf_mul 3 a"
    by (simp add: step3_gf_mul gf_mul_comm)
  also have "\<dots> = gf_mul (1 XOR 3) a"
    by (simp only: gf_mul_xor)
  finally show ?thesis by (simp add: gf_mul_comm)
qed

lemma byte_halves: "(b :: u8) = (b AND 1) XOR gf_mul (drop_bit 1 b) 2"
proof -
  have "\<not> bit (drop_bit 1 b) 7"
    by (auto simp: bit_drop_bit_eq dest: bit_u8_less)
  then have "xtime (drop_bit 1 b) = push_bit 1 (drop_bit 1 b)"
    by (simp only: xtime_def if_False xor.right_neutral)
  moreover have "b = (b AND 1) XOR push_bit 1 (drop_bit 1 b)"
    by (rule bit_word_eqI)
       (auto simp: bit_xor_iff bit_and_iff bit_1_iff bit_push_bit_iff bit_drop_bit_eq simp del: push_bit_Suc drop_bit_Suc)
  ultimately show ?thesis by (simp only: xtime_gf_mul)
qed

lemma and_1_cases: "(b :: 'a::len word) AND 1 = (if bit b 0 then 1 else 0)"
  by (simp add: and_one_eq mod_2_eq_odd bit_0)

lemma drop_bit_ucast_u8: "drop_bit 1 (ucast (b :: u8) :: u16) = ucast (drop_bit 1 b)"
  by (rule bit_word_eqI) (auto simp: bit_drop_bit_eq bit_ucast_iff dest: bit_u8_less)

lemma xor_ucast_u8: "ucast (a :: u8) XOR ucast b = (ucast (a XOR b) :: u16)"
  by (rule bit_word_eqI) (auto simp: bit_xor_iff bit_ucast_iff)

lemma ucast_eq_0_u8: "(ucast (b :: u8) :: u16) = 0 \<longleftrightarrow> b = 0"
  by (metis ucast_ucast_u8 ucast_0)

lemma raw_mul_loop_ucast:
  "raw_mul_loop (ucast r) (ucast a) (ucast (b :: u8)) = ucast (r XOR gf_mul a b)"
proof (induction "unat b" arbitrary: r a b rule: less_induct)
  case less
  show ?case
  proof (cases "b = 0")
    case False
    define r' where "r' = (if bit b 0 then r XOR a else r)"
    have bit0: "ucast b AND 1 = (1 :: u16) \<longleftrightarrow> bit b 0"
      unfolding and_1_cases by (simp add: bit_ucast_iff)
    have smaller: "unat (drop_bit 1 b) < unat b"
      using False by (simp add: drop_bit_eq_div unat_div_distrib unat_gt_0)
    have "raw_mul_loop (ucast r) (ucast a) (ucast b) =
        raw_mul_loop (ucast r') (ucast (xtime a)) (ucast (drop_bit 1 b))"
      using False
      by (simp only: raw_mul_loop_step ucast_eq_0_u8 bit0 xtime16_ucast drop_bit_ucast_u8
          xor_ucast_u8 r'_def if_distrib[of ucast] not_False_eq_True simp_thms)
    also have "\<dots> = ucast (r' XOR gf_mul a (gf_mul (drop_bit 1 b) 2))"
      unfolding less.hyps[OF smaller]
      by (simp add: xtime_gf_mul gf_mul_assoc gf_mul_comm[of 2])
    also have "r' = r XOR gf_mul a (b AND 1)"
      unfolding r'_def and_1_cases by simp
    also have "(r XOR gf_mul a (b AND 1)) XOR gf_mul a (gf_mul (drop_bit 1 b) 2) =
        r XOR gf_mul a ((b AND 1) XOR gf_mul (drop_bit 1 b) 2)"
      unfolding gf_mul_comm[of a] gf_mul_xor xor.assoc ..
    finally show ?thesis unfolding byte_halves[of b, symmetric] .
  qed (simp add: raw_mul_loop_0)
qed

lemma gf256_raw_mul_ucast: "gf256_raw_mul (ucast a) (ucast b) = ucast (gf_mul a b)"
proof (rule bit_word_eqI)
  fix n assume "n < LENGTH(16)"
  have "raw_mul_loop 0 (ucast a) (ucast b) = ucast (gf_mul a b)"
    using raw_mul_loop_ucast[of 0 a b] by simp
  then show "bit (gf256_raw_mul (ucast a) (ucast b)) n \<longleftrightarrow> bit (ucast (gf_mul a b) :: u16) n"
    unfolding gf256_raw_mul_def bit_and_iff bit_FF bit_ucast_iff by (auto simp: bit_ucast_iff dest: bit_u8_less)
qed

section \<open>The field of bytes\<close>

typedef gf = "UNIV :: u8 set"
  morphisms byte_of gf_of ..

lemma gf_of_inverse' [simp]: "byte_of (gf_of x) = x"
  by (simp add: gf_of_inverse)

lemma byte_of_inverse' [simp]: "gf_of (byte_of x) = x"
  by (rule byte_of_inverse)

lemma gf_eq_iff: "x = y \<longleftrightarrow> byte_of x = byte_of y"
  by (simp add: byte_of_inject)

instantiation gf :: field
begin

definition zero_gf :: gf where "0 = gf_of 0"
definition one_gf :: gf where "1 = gf_of 1"
definition plus_gf :: "gf \<Rightarrow> gf \<Rightarrow> gf" where "x + y = gf_of (gf_add (byte_of x) (byte_of y))"
definition minus_gf :: "gf \<Rightarrow> gf \<Rightarrow> gf" where "x - y = gf_of (gf_sub (byte_of x) (byte_of y))"
definition uminus_gf :: "gf \<Rightarrow> gf" where "- x = (x :: gf)"
definition times_gf :: "gf \<Rightarrow> gf \<Rightarrow> gf" where "x * y = gf_of (gf_mul (byte_of x) (byte_of y))"
definition inverse_gf :: "gf \<Rightarrow> gf" where "inverse x = gf_of (gf_inv (byte_of x))"
definition divide_gf :: "gf \<Rightarrow> gf \<Rightarrow> gf" where "x div y = x * inverse (y :: gf)"

instance
proof
  fix a b c :: gf
  show "a * b * c = a * (b * c)" "a * b = b * a" "1 * a = a"
    by (simp_all add: times_gf_def one_gf_def gf_eq_iff gf_mul_assoc gf_mul_comm[of "byte_of b" "byte_of a"])
  show "a + b + c = a + (b + c)" "a + b = b + a" "0 + a = a" "- a + a = 0" "a - b = a + - b"
    by (simp_all add: plus_gf_def minus_gf_def uminus_gf_def zero_gf_def gf_eq_iff gf_add_def
        gf_sub_def ac_simps)
  show "(a + b) * c = a * c + b * c"
    by (simp add: times_gf_def plus_gf_def gf_eq_iff gf_add_def gf_mul_xor)
  show "(0 :: gf) \<noteq> 1"
    by (simp add: zero_gf_def one_gf_def gf_eq_iff)
  show "a \<noteq> 0 \<Longrightarrow> inverse a * a = 1"
    by (simp add: gf_eq_iff times_gf_def inverse_gf_def zero_gf_def one_gf_def gf_mul_comm
        gf_inv_right)
  show "a div b = a * inverse b"
    by (rule divide_gf_def)
  show "inverse (0 :: gf) = 0"
    by (simp add: gf_eq_iff inverse_gf_def zero_gf_def gf_inv_def gf_div_def)
qed

end

text \<open>Reading the code's operations as field operations.\<close>

lemma gf_of_add: "gf_of (gf_add a b) = gf_of a + gf_of b"
  and gf_of_sub: "gf_of (gf_sub a b) = gf_of a - gf_of b"
  and gf_of_mul: "gf_of (gf_mul a b) = gf_of a * gf_of b"
  by (simp_all add: plus_gf_def minus_gf_def times_gf_def)

lemma gf_of_0: "gf_of 0 = 0" and gf_of_1: "gf_of 1 = 1"
  by (simp_all add: zero_gf_def one_gf_def)

lemma gf_of_eq: "gf_of a = gf_of b \<longleftrightarrow> a = b"
  by (simp add: gf_eq_iff)

lemma gf_of_eq_0: "gf_of a = 0 \<longleftrightarrow> a = 0"
  by (metis gf_of_0 gf_of_eq)

lemma gf_of_div: "b \<noteq> 0 \<Longrightarrow> gf_div a b = Inr (byte_of (gf_of a / gf_of b))"
  by (simp add: gf_div_inv divide_gf_def inverse_gf_def times_gf_def)

lemmas gf_of_simps = gf_of_add gf_of_sub gf_of_mul gf_of_0 gf_of_1

lemma gf_uminus [simp]: "- (x :: gf) = x"
  by (simp add: uminus_gf_def)

lemma inj_gf_of: "inj gf_of"
  by (simp add: inj_def gf_of_eq)

lemma bij_gf_of: "bij gf_of"
  by (metis bij_def inj_gf_of byte_of_inverse' surjI)

lemma finite_gf: "finite (UNIV :: gf set)" and card_gf: "card (UNIV :: gf set) = 256"
proof -
  have "card (UNIV :: u8 set) = 256" by (simp add: card_word)
  then show "card (UNIV :: gf set) = 256"
    using bij_betw_same_card[OF bij_gf_of] by simp
  then show "finite (UNIV :: gf set)" using card_ge_0_finite by force
qed

end
