(* ===== verification/Sss.thy ===== *)
theory Sss
  imports Gf256
begin

text \<open>
  Shamir secret sharing, \<^verbatim>\<open>sss.rs\<close>: \<^verbatim>\<open>poly_eval\<close>, \<^verbatim>\<open>split\<close>, \<^verbatim>\<open>reconstruct\<close> and the two
  helpers that keep the shards in files. The operating system's random bytes, the JSON
  encoding of a shard and the failures of the file system are arguments. Interpolation is
  proved once for an arbitrary field and then read off the byte operations: any \<open>k\<close> shards
  give the secret back, and \<open>k - 1\<close> shards are compatible with every secret.
\<close>

unbundle bit_operations_syntax

section \<open>Definitions\<close>

record Shard =
  shard_x :: u8
  shard_y :: "u8 list"

text \<open>
  A call ends with an error of the code or with the panic of a slice index out of range.
\<close>

datatype SssFail = SssErr SssError | IndexPanic

fun poly_eval_loop :: "u8 \<Rightarrow> u8 list \<Rightarrow> u8 \<Rightarrow> u8 \<Rightarrow> u8" where
  "poly_eval_loop x [] result x_pow = result"
| "poly_eval_loop x (coeff # coeffs) result x_pow =
     poly_eval_loop x coeffs (gf_add result (gf_mul coeff x_pow)) (gf_mul x_pow x)"

definition poly_eval :: "u8 list \<Rightarrow> u8 \<Rightarrow> u8" where
  "poly_eval coeffs x = poly_eval_loop x coeffs 0 1"

text \<open>
  \<open>rng b i\<close> is the \<open>i\<close>-th byte that \<^verbatim>\<open>OsRng::fill_bytes\<close> writes for the secret byte \<open>b\<close>.
\<close>

definition all_coeffs :: "(nat \<Rightarrow> nat \<Rightarrow> u8) \<Rightarrow> u8 list \<Rightarrow> nat \<Rightarrow> u8 list list" where
  "all_coeffs rng secret k =
     map (\<lambda>(b, secret_byte). secret_byte # map (rng b) [0..<k - 1]) (List.enumerate 0 secret)"

definition split :: "(nat \<Rightarrow> nat \<Rightarrow> u8) \<Rightarrow> u8 list \<Rightarrow> nat \<Rightarrow> nat \<Rightarrow> SssError + Shard list" where
  "split rng secret k n =
     (if k < 2 \<or> k > n \<or> n > 255 then Inl InvalidThreshold
      else if secret = [] then Inl EmptySecret
      else Inr (map (\<lambda>i. \<lparr> shard_x = of_nat i,
                             shard_y = map (\<lambda>coeffs. poly_eval coeffs (of_nat i))
                                         (all_coeffs rng secret k) \<rparr>) [1..<n + 1]))"

fun basis_loop :: "nat \<Rightarrow> u8 \<Rightarrow> (nat \<times> Shard) list \<Rightarrow> u8 \<Rightarrow> u8 \<Rightarrow> u8 \<times> u8" where
  "basis_loop i xi [] numerator denominator = (numerator, denominator)"
| "basis_loop i xi ((j, shard_j) # rest) numerator denominator =
     (if i = j then basis_loop i xi rest numerator denominator
      else basis_loop i xi rest (gf_mul numerator (shard_x shard_j))
             (gf_mul denominator (gf_sub xi (shard_x shard_j))))"

fun value_loop :: "Shard list \<Rightarrow> nat \<Rightarrow> (nat \<times> Shard) list \<Rightarrow> u8 \<Rightarrow> SssFail + u8" where
  "value_loop shards byte_idx [] val = Inr val"
| "value_loop shards byte_idx ((i, shard_i) # rest) val =
     (if byte_idx \<ge> length (shard_y shard_i) then Inl IndexPanic
      else
        let yi = shard_y shard_i ! byte_idx;
            (numerator, denominator) =
              basis_loop i (shard_x shard_i) (List.enumerate 0 shards) 1 1
        in case gf_div numerator denominator of
             Inl e \<Rightarrow> Inl (SssErr e)
           | Inr basis \<Rightarrow> value_loop shards byte_idx rest (gf_add val (gf_mul yi basis)))"

fun byte_loop :: "Shard list \<Rightarrow> nat list \<Rightarrow> u8 list \<Rightarrow> SssFail + u8 list" where
  "byte_loop shards [] secret = Inr secret"
| "byte_loop shards (byte_idx # rest) secret =
     (case value_loop shards byte_idx (List.enumerate 0 shards) 0 of
        Inl e \<Rightarrow> Inl e
      | Inr val \<Rightarrow> byte_loop shards rest (secret[byte_idx := val]))"

definition reconstruct :: "Shard list \<Rightarrow> SssFail + u8 list" where
  "reconstruct shards =
     (if shards = [] then Inl (SssErr NotEnoughShards)
      else let xs = map shard_x shards; orig_len = length xs in
        if length (remdups_adj (sort xs)) \<noteq> orig_len then Inl (SssErr DuplicateX)
        else let num_bytes = length (shard_y (shards ! 0)) in
          byte_loop shards [0..<num_bytes] (replicate num_bytes 0))"

text \<open>
  The file helpers. \<open>to_vec\<close> and \<open>from_slice\<close> are the JSON encoder and decoder, \<open>wr_fails\<close>
  says which paths cannot be written; the file system maps a path to the bytes it holds.
\<close>

type_synonym file_system = "string \<rightharpoonup> u8 list"

datatype FileError = SssFileErr SssFail | JsonError | IoError | ShardNotFound string

definition shard_path :: "string \<Rightarrow> nat \<Rightarrow> string" where
  "shard_path dir i = dir @ ''/shard_'' @ dec_str i @ ''.bin''"

fun write_loop :: "(Shard \<Rightarrow> u8 list option) \<Rightarrow> (string \<Rightarrow> bool) \<Rightarrow> string \<Rightarrow>
    (nat \<times> Shard) list \<Rightarrow> string list \<Rightarrow> file_system \<Rightarrow> (FileError + string list) \<times> file_system" where
  "write_loop to_vec wr_fails output_dir [] paths fs = (Inr paths, fs)"
| "write_loop to_vec wr_fails output_dir ((i, shard) # rest) paths fs =
     (let path = shard_path output_dir i in
      case to_vec shard of
        None \<Rightarrow> (Inl JsonError, fs)
      | Some data \<Rightarrow>
          if wr_fails path then (Inl IoError, fs)
          else write_loop to_vec wr_fails output_dir rest (paths @ [path]) (fs(path \<mapsto> data)))"

definition split_key_to_files :: "(nat \<Rightarrow> nat \<Rightarrow> u8) \<Rightarrow> (Shard \<Rightarrow> u8 list option) \<Rightarrow>
    (string \<Rightarrow> bool) \<Rightarrow> u8 list \<Rightarrow> nat \<Rightarrow> nat \<Rightarrow> string \<Rightarrow> file_system \<Rightarrow>
    (FileError + string list) \<times> file_system" where
  "split_key_to_files rng to_vec wr_fails secret k n output_dir fs =
     (case split rng secret k n of
        Inl e \<Rightarrow> (Inl (SssFileErr (SssErr e)), fs)
      | Inr shards \<Rightarrow> write_loop to_vec wr_fails output_dir (List.enumerate 0 shards) [] fs)"

fun read_loop :: "(u8 list \<Rightarrow> Shard option) \<Rightarrow> file_system \<Rightarrow> string list \<Rightarrow> Shard list \<Rightarrow>
    FileError + Shard list" where
  "read_loop from_slice fs [] shards = Inr shards"
| "read_loop from_slice fs (path # rest) shards =
     (case fs path of
        None \<Rightarrow> Inl (ShardNotFound path)
      | Some data \<Rightarrow>
          (case from_slice data of
             None \<Rightarrow> Inl JsonError
           | Some shard \<Rightarrow> read_loop from_slice fs rest (shards @ [shard])))"

definition reconstruct_from_files ::
    "(u8 list \<Rightarrow> Shard option) \<Rightarrow> file_system \<Rightarrow> string list \<Rightarrow> FileError + u8 list" where
  "reconstruct_from_files from_slice fs paths =
     (case read_loop from_slice fs paths [] of
        Inl e \<Rightarrow> Inl e
      | Inr shards \<Rightarrow>
          (case reconstruct shards of
             Inl e \<Rightarrow> Inl (SssFileErr e)
           | Inr secret \<Rightarrow> Inr secret))"

section \<open>Interpolation over a field\<close>

text \<open>The polynomial with the coefficients \<open>cs\<close>, lowest first.\<close>

fun pol :: "'a::field list \<Rightarrow> 'a \<Rightarrow> 'a" where
  "pol [] x = 0"
| "pol (c # cs) x = c + x * pol cs x"

definition lag :: "'a::field \<Rightarrow> 'a set \<Rightarrow> ('a \<Rightarrow> 'a) \<Rightarrow> 'a" where
  "lag t X f = (\<Sum>a\<in>X. f a * (\<Prod>b\<in>X - {a}. (t - b) / (a - b)))"

lemma lag_add: "lag t X (\<lambda>x. f x + g x) = lag t X f + lag t X g"
  by (simp add: lag_def distrib_right sum.distrib)

lemma lag_scale: "lag t X (\<lambda>x. c * f x) = c * lag t X f"
  by (simp add: lag_def sum_distrib_left mult.assoc)

lemma lag_cong: "(\<And>x. x \<in> X \<Longrightarrow> f x = g x) \<Longrightarrow> lag t X f = lag t X g"
  by (simp add: lag_def)

lemma lag_shift:
  assumes "finite X" and "a \<in> X"
  shows "lag t X (\<lambda>x. (x - a) * g x) = (t - a) * lag t (X - {a}) g"
proof -
  have summand: "(x - a) * g x * (\<Prod>b\<in>X - {x}. (t - b) / (x - b)) =
      (t - a) * (g x * (\<Prod>b\<in>X - {a} - {x}. (t - b) / (x - b)))" if "x \<in> X - {a}" for x
  proof -
    have "X - {x} = insert a (X - {a} - {x})" using that assms by auto
    then have "(\<Prod>b\<in>X - {x}. (t - b) / (x - b)) =
        (t - a) / (x - a) * (\<Prod>b\<in>X - {a} - {x}. (t - b) / (x - b))"
      using assms by (simp add: prod.insert)
    then show ?thesis using that by simp
  qed
  have "lag t X (\<lambda>x. (x - a) * g x) =
      (\<Sum>x\<in>X - {a}. (x - a) * g x * (\<Prod>b\<in>X - {x}. (t - b) / (x - b)))"
    unfolding lag_def using assms by (subst sum.remove[of X a]) simp_all
  also have "\<dots> = (t - a) * lag t (X - {a}) g"
    unfolding lag_def sum_distrib_left by (rule sum.cong) (auto simp only: summand)
  finally show ?thesis .
qed

lemma unit_split:
  assumes "b \<noteq> (a :: 'a::field)"
  shows "inverse (b - a) * ((x - a) * 1) + - inverse (b - a) * ((x - b) * 1) = 1"
proof -
  have "inverse (b - a) * ((x - a) * 1) + - inverse (b - a) * ((x - b) * 1) =
      inverse (b - a) * (b - a)"
    by (simp add: algebra_simps)
  then show ?thesis using assms by simp
qed

lemma lag_1: "finite X \<Longrightarrow> X \<noteq> {} \<Longrightarrow> lag t X (\<lambda>x. 1) = 1"
proof (induction "card X" arbitrary: X)
  case (Suc n)
  obtain a where a: "a \<in> X" using Suc.prems by blast
  show ?case
  proof (cases "X = {a}")
    case False
    then obtain b where b: "b \<in> X" "b \<noteq> a" using a by blast
    have one: "lag t (X - {c}) (\<lambda>x. 1) = 1" if "c \<in> X" "X \<noteq> {c}" for c
      using that Suc.prems Suc.hyps by (intro Suc.hyps(1)) auto
    have "lag t X (\<lambda>x. 1) =
        lag t X (\<lambda>x. inverse (b - a) * ((x - a) * 1) + - inverse (b - a) * ((x - b) * 1))"
      unfolding unit_split[OF b(2)] ..
    also have "\<dots> = inverse (b - a) * ((t - a) * 1) + - inverse (b - a) * ((t - b) * 1)"
      unfolding lag_add lag_scale lag_shift[OF Suc.prems(1) a] lag_shift[OF Suc.prems(1) b(1)]
      using one[OF a False] one[OF b(1)] a b by auto
    also have "\<dots> = 1"
      by (rule unit_split[OF b(2)])
    finally show ?thesis .
  qed (simp add: lag_def)
qed simp

text \<open>Interpolation through as many points as there are coefficients is exact.\<close>

lemma lag_pol: "finite X \<Longrightarrow> length cs \<le> card X \<Longrightarrow> lag t X (pol cs) = pol cs t"
proof (induction cs arbitrary: X)
  case (Cons c cs)
  then obtain a where a: "a \<in> X" by fastforce
  have "lag t X (pol (c # cs)) =
      lag t X (\<lambda>x. c * 1 + ((x - a) * pol cs x + a * pol cs x))"
    by (intro lag_cong) (simp add: algebra_simps)
  also have "\<dots> = c * 1 + ((t - a) * pol cs t + a * pol cs t)"
  proof -
    have "lag t X (\<lambda>x. 1) = 1" using Cons.prems(1) a by (intro lag_1) auto
    moreover have "lag t X (pol cs) = pol cs t" "lag t (X - {a}) (pol cs) = pol cs t"
      using Cons.prems a by (auto intro!: Cons.IH simp: card_Diff_singleton)
    ultimately show ?thesis
      unfolding lag_add lag_scale lag_shift[OF Cons.prems(1) a] by simp
  qed
  also have "\<dots> = pol (c # cs) t"
    by (simp add: algebra_simps)
  finally show ?case .
qed (simp add: lag_def)

section \<open>The code's loops\<close>

lemma poly_eval_loop_pol:
  "gf_of (poly_eval_loop x cs r p) = gf_of r + gf_of p * pol (map gf_of cs) (gf_of x)"
  by (induction cs arbitrary: r p) (simp_all add: gf_of_simps algebra_simps)

lemma poly_eval_pol: "gf_of (poly_eval cs x) = pol (map gf_of cs) (gf_of x)"
  by (simp add: poly_eval_def poly_eval_loop_pol gf_of_simps)

lemma basis_loop_prod:
  "basis_loop i xi es nu de = (nu', de') \<Longrightarrow>
     gf_of nu' = gf_of nu * prod_list (map (\<lambda>e. gf_of (shard_x (snd e))) (filter (\<lambda>e. fst e \<noteq> i) es)) \<and>
     gf_of de' = gf_of de *
       prod_list (map (\<lambda>e. gf_of xi - gf_of (shard_x (snd e))) (filter (\<lambda>e. fst e \<noteq> i) es))"
  by (induction i xi es nu de rule: basis_loop.induct)
     (auto simp: gf_of_simps algebra_simps split: if_splits)

definition points :: "Shard list \<Rightarrow> gf set" where
  "points shards = (\<lambda>s. gf_of (shard_x s)) ` set shards"

definition weight :: "gf set \<Rightarrow> gf \<Rightarrow> gf" where
  "weight X a = (\<Prod>b\<in>X - {a}. (0 - b) / (a - b))"

lemma enumerate_others:
  assumes "distinct (map shard_x shards)" and "i < length shards"
  shows "(\<lambda>e. gf_of (shard_x (snd e))) ` set (filter (\<lambda>e. fst e \<noteq> i) (List.enumerate 0 shards)) =
      points shards - {gf_of (shard_x (shards ! i))}"
    and "distinct (map (\<lambda>e. gf_of (shard_x (snd e))) (filter (\<lambda>e. fst e \<noteq> i) (List.enumerate 0 shards)))"
proof -
  have inj: "shard_x (shards ! a) = shard_x (shards ! b) \<longleftrightarrow> a = b"
    if "a < length shards" "b < length shards" for a b
    using that assms(1) nth_eq_iff_index_eq[of "map shard_x shards" a b] by simp
  show "(\<lambda>e. gf_of (shard_x (snd e))) ` set (filter (\<lambda>e. fst e \<noteq> i) (List.enumerate 0 shards)) =
      points shards - {gf_of (shard_x (shards ! i))}" (is "?l = ?r")
  proof
    show "?l \<subseteq> ?r"
      using inj assms(2) by (auto simp: points_def in_set_enumerate_eq gf_of_eq)
    show "?r \<subseteq> ?l"
    proof
      fix v assume v: "v \<in> ?r"
      then obtain j where j: "j < length shards" "v = gf_of (shard_x (shards ! j))"
        by (auto simp: points_def in_set_conv_nth)
      with v have "j \<noteq> i" by auto
      with j have "(j, shards ! j) \<in> set (filter (\<lambda>e. fst e \<noteq> i) (List.enumerate 0 shards))"
        by (simp add: in_set_enumerate_eq)
      then show "v \<in> ?l" using j(2) by (metis (no_types, lifting) image_iff snd_conv)
    qed
  qed
  have inj_e: "inj_on (\<lambda>e. gf_of (shard_x (snd e))) (set (List.enumerate 0 shards))"
    by (rule inj_onI) (auto simp: in_set_enumerate_eq gf_of_eq inj)
  show "distinct (map (\<lambda>e. gf_of (shard_x (snd e))) (filter (\<lambda>e. fst e \<noteq> i) (List.enumerate 0 shards)))"
    unfolding distinct_map
    by (auto intro!: distinct_filter inj_on_subset[OF inj_e])
qed

lemma prod_list_map_distinct:
  "distinct (map h es) \<Longrightarrow> prod_list (map (\<lambda>e. g (h e)) es) = (\<Prod>b\<in>h ` set es. (g b :: gf))"
  using prod.distinct_set_conv_list[of "map h es" g] by (simp add: comp_def)

lemma basis_weight:
  assumes d: "distinct (map shard_x shards)" and i: "i < length shards"
    and bl: "basis_loop i (shard_x (shards ! i)) (List.enumerate 0 shards) 1 1 = (nu, de)"
  shows "gf_div nu de = Inr (byte_of (weight (points shards) (gf_of (shard_x (shards ! i)))))"
proof -
  let ?xi = "gf_of (shard_x (shards ! i))"
  let ?es = "filter (\<lambda>e. fst e \<noteq> i) (List.enumerate 0 shards)"
  note others = enumerate_others[OF d i]
  have nu: "gf_of nu = (\<Prod>b\<in>points shards - {?xi}. 0 - b)"
    using basis_loop_prod[OF bl] prod_list_map_distinct[OF others(2), of "\<lambda>b. 0 - b", unfolded others(1)]
    by (simp add: gf_of_1)
  have de: "gf_of de = (\<Prod>b\<in>points shards - {?xi}. ?xi - b)"
    using basis_loop_prod[OF bl] prod_list_map_distinct[OF others(2), of "\<lambda>b. ?xi - b", unfolded others(1)]
    by (simp add: gf_of_1)
  have "finite (points shards)" by (simp add: points_def)
  then have "gf_of de \<noteq> 0" by (auto simp: de)
  then have "de \<noteq> 0" by (simp add: gf_of_eq_0)
  then show ?thesis
    by (simp add: gf_of_div nu de weight_def prod_dividef)
qed

lemma value_loop_sum:
  assumes d: "distinct (map shard_x shards)"
    and len: "\<forall>s\<in>set shards. byte_idx < length (shard_y s)"
  shows "set es \<subseteq> set (List.enumerate 0 shards) \<Longrightarrow>
    value_loop shards byte_idx es v =
      Inr (byte_of (gf_of v + sum_list (map (\<lambda>e. gf_of (shard_y (snd e) ! byte_idx) *
        weight (points shards) (gf_of (shard_x (snd e)))) es)))"
proof (induction es arbitrary: v)
  case (Cons e es)
  obtain i s where e: "e = (i, s)" by force
  have i: "i < length shards" "s = shards ! i"
    using Cons.prems by (auto simp: e in_set_enumerate_eq)
  obtain nu de where bl: "basis_loop i (shard_x s) (List.enumerate 0 shards) 1 1 = (nu, de)"
    by force
  have "gf_div nu de = Inr (byte_of (weight (points shards) (gf_of (shard_x s))))"
    using basis_weight[OF d i(1)] bl i(2) by simp
  moreover have "byte_idx < length (shard_y s)"
    using len i by simp
  ultimately show ?case
    using Cons by (simp add: e bl gf_of_simps add.assoc)
qed simp

lemma value_loop_lag:
  assumes "distinct (map shard_x shards)"
    and "\<forall>s\<in>set shards. byte_idx < length (shard_y s)"
    and f: "\<forall>s\<in>set shards. gf_of (shard_y s ! byte_idx) = f (gf_of (shard_x s))"
  shows "value_loop shards byte_idx (List.enumerate 0 shards) 0 = Inr (byte_of (lag 0 (points shards) f))"
proof -
  let ?h = "\<lambda>s. gf_of (shard_x s)"
  have "distinct (map ?h shards)"
    using assms(1) distinct_map[of gf_of "map shard_x shards"] inj_on_subset[OF inj_gf_of]
    by (auto simp: comp_def)
  then have "sum_list (map (\<lambda>s. f (?h s) * weight (points shards) (?h s)) shards) =
      lag 0 (points shards) f"
    using sum.distinct_set_conv_list[of "map ?h shards" "\<lambda>a. f a * weight (points shards) a"]
    by (simp add: lag_def points_def weight_def comp_def)
  moreover have "map (\<lambda>e. gf_of (shard_y (snd e) ! byte_idx) * weight (points shards) (?h (snd e)))
        (List.enumerate 0 shards) = map (\<lambda>s. f (?h s) * weight (points shards) (?h s)) shards"
    using f by (intro nth_equalityI) (simp_all add: nth_enumerate_eq)
  ultimately show ?thesis
    using value_loop_sum[OF assms(1,2), of "List.enumerate 0 shards" 0]
    by (simp add: gf_of_0)
qed

lemma foldl_update_upt:
  "n \<le> length xs \<Longrightarrow> foldl (\<lambda>s b. s[b := v b]) xs [0..<n] = map v [0..<n] @ drop n xs"
proof (induction n)
  case (Suc n)
  then have "drop n xs = xs ! n # drop (Suc n) xs" by (simp add: Cons_nth_drop_Suc)
  with Suc show ?case by (simp add: list_update_append)
qed simp

lemma byte_loop_foldl:
  "\<forall>b\<in>set bs. value_loop shards b (List.enumerate 0 shards) 0 = Inr (v b) \<Longrightarrow>
   byte_loop shards bs sec = Inr (foldl (\<lambda>s b. s[b := v b]) sec bs)"
  by (induction bs arbitrary: sec) auto

lemma distinct_adj_sorted: "sorted xs \<Longrightarrow> distinct_adj xs \<longleftrightarrow> distinct (xs :: u8 list)"
proof (induction xs)
  case (Cons a xs)
  then show ?case by (cases xs) auto
qed simp

lemma dedup_length: "length (remdups_adj (sort xs)) = length xs \<longleftrightarrow> distinct (xs :: u8 list)"
  using distinct_adj_conv_length_remdups_adj[of "sort xs"] distinct_adj_sorted[of "sort xs"]
  by simp

lemma reconstruct_lag:
  assumes "shards \<noteq> []" and d: "distinct (map shard_x shards)"
    and len: "\<forall>s\<in>set shards. length (shard_y s) = m"
    and f: "\<forall>b<m. \<forall>s\<in>set shards. gf_of (shard_y s ! b) = f b (gf_of (shard_x s))"
  shows "reconstruct shards = Inr (map (\<lambda>b. byte_of (lag 0 (points shards) (f b))) [0..<m])"
proof -
  have "\<forall>b\<in>set [0..<m]. value_loop shards b (List.enumerate 0 shards) 0 =
      Inr (byte_of (lag 0 (points shards) (f b)))"
    using value_loop_lag[OF d] len f by simp
  from byte_loop_foldl[OF this, of "replicate m 0"]
  have "byte_loop shards [0..<m] (replicate m 0) =
      Inr (map (\<lambda>b. byte_of (lag 0 (points shards) (f b))) [0..<m])"
    by (simp add: foldl_update_upt)
  moreover have "length (shard_y (shards ! 0)) = m"
    using assms(1) len by simp
  moreover have "length (remdups_adj (sort (map shard_x shards))) = length (map shard_x shards)"
    using d by (simp only: dedup_length)
  ultimately show ?thesis
    using assms(1) by (simp add: reconstruct_def Let_def)
qed

section \<open>Splitting and reconstructing\<close>

lemma split_ok:
  assumes "2 \<le> k" "k \<le> n" "n \<le> 255" "secret \<noteq> []"
  obtains shards where "split rng secret k n = Inr shards" "length shards = n"
    and "\<And>i. i < n \<Longrightarrow> shards ! i = \<lparr> shard_x = of_nat (Suc i),
           shard_y = map (\<lambda>coeffs. poly_eval coeffs (of_nat (Suc i))) (all_coeffs rng secret k) \<rparr>"
  using assms by (simp add: split_def nth_append del: upt_Suc)

lemma length_all_coeffs [simp]: "length (all_coeffs rng secret k) = length secret"
  by (simp add: all_coeffs_def)

lemma all_coeffs_nth: "b < length secret \<Longrightarrow>
    all_coeffs rng secret k ! b = secret ! b # map (rng b) [0..<k - 1]"
  by (simp add: all_coeffs_def nth_enumerate_eq)

lemma of_nat_u8_inj: "i < 256 \<Longrightarrow> j < 256 \<Longrightarrow> (of_nat i :: u8) = of_nat j \<longleftrightarrow> i = j"
proof
  assume "i < 256" "j < 256" "(of_nat i :: u8) = of_nat j"
  then have "unat (of_nat i :: u8) = unat (of_nat j :: u8)" by simp
  then show "i = j" using \<open>i < 256\<close> \<open>j < 256\<close> by (simp add: unat_of_nat)
qed simp

lemma reconstruct_split:
  assumes k: "2 \<le> k" "k \<le> n" "n \<le> 255" "secret \<noteq> []"
    and sp: "split rng secret k n = Inr shards"
    and idx: "distinct idx" "set idx \<subseteq> {..<n}" "k \<le> length idx"
  shows "reconstruct (map (nth shards) idx) = Inr secret"
proof -
  obtain shards' where "split rng secret k n = Inr shards'" "length shards' = n"
    and "\<And>i. i < n \<Longrightarrow> shards' ! i = \<lparr> shard_x = of_nat (Suc i),
           shard_y = map (\<lambda>coeffs. poly_eval coeffs (of_nat (Suc i))) (all_coeffs rng secret k) \<rparr>"
    by (rule split_ok[OF k, of rng]) blast
  then have sh: "\<And>i. i < n \<Longrightarrow> shards ! i = \<lparr> shard_x = of_nat (Suc i),
           shard_y = map (\<lambda>coeffs. poly_eval coeffs (of_nat (Suc i))) (all_coeffs rng secret k) \<rparr>"
    using sp by simp
  let ?s = "map (nth shards) idx"
  let ?f = "\<lambda>b. pol (map gf_of (all_coeffs rng secret k ! b))"
  have ne: "?s \<noteq> []" using idx k by auto
  have X: "map shard_x ?s = map (\<lambda>i. of_nat (Suc i)) idx"
    using idx(2) sh by auto
  have d: "distinct (map shard_x ?s)"
    unfolding X distinct_map using idx k(3)
    by (auto intro!: inj_onI dest!: of_nat_u8_inj[THEN iffD1, rotated -1] simp del: of_nat_Suc)
  have "points ?s = gf_of ` set (map shard_x ?s)"
    by (simp only: points_def set_map image_image)
  then have "card (points ?s) = length idx"
    using card_image[OF inj_on_subset[OF inj_gf_of subset_UNIV], of "set (map shard_x ?s)"]
      distinct_card[OF d] by (simp only: length_map)
  then have c: "length (map gf_of (all_coeffs rng secret k ! b)) \<le> card (points ?s)"
    if "b < length secret" for b
    using that idx k by (simp add: all_coeffs_nth)
  have "reconstruct ?s = Inr (map (\<lambda>b. byte_of (lag 0 (points ?s) (?f b))) [0..<length secret])"
    using idx(2) sh by (intro reconstruct_lag[OF ne d]) (auto simp: poly_eval_pol)
  also have "map (\<lambda>b. byte_of (lag 0 (points ?s) (?f b))) [0..<length secret] = secret"
    using c by (intro nth_equalityI) (simp_all add: lag_pol points_def all_coeffs_nth)
  finally show ?thesis .
qed

section \<open>Secrecy\<close>

lemma pol_zero_everywhere:
  "length cs \<le> 255 \<Longrightarrow> \<forall>x. pol cs (x :: gf) = 0 \<Longrightarrow> cs = replicate (length cs) 0"
proof (induction cs)
  case (Cons c cs)
  have c: "c = 0" using spec[OF Cons.prems(2), of 0] by simp
  have nz: "pol cs x = 0" if "x \<noteq> 0" for x
    using spec[OF Cons.prems(2), of x] that c by simp
  have fin: "finite (- {0 :: gf})" using finite_gf by (rule rev_finite_subset) simp
  have card: "card (- {0 :: gf}) = 255"
    by (simp add: Compl_eq_Diff_UNIV card_Diff_singleton card_gf)
  have "pol cs t = 0" for t
    using lag_pol[OF fin, of cs t] Cons.prems(1) card nz by (simp add: lag_def)
  with Cons c show ?case by simp
qed simp

lemma pol_diff: "length cs = length ds \<Longrightarrow>
    pol (map2 (-) cs ds) x = pol cs x - pol ds (x :: 'a::field)"
  by (induction cs ds rule: list_induct2) (simp_all, simp add: algebra_simps)

text \<open>The values at \<open>m\<close> nonzero points and the constant term fix the other \<open>m\<close> coefficients.\<close>

lemma shares_inj:
  assumes xs: "distinct xs" "0 \<notin> set xs" and len: "length xs \<le> 255"
  shows "inj_on (\<lambda>cs. map (poly_eval (s # cs)) xs) {cs. length cs = length xs}"
proof (rule inj_onI)
  fix cs ds assume "cs \<in> {cs. length cs = length xs}" "ds \<in> {cs. length cs = length xs}"
    and eq: "map (poly_eval (s # cs)) xs = map (poly_eval (s # ds)) xs"
  then have l: "length cs = length xs" "length ds = length xs" by simp_all
  let ?c = "map gf_of cs" and ?d = "map gf_of ds" and ?X = "gf_of ` set xs"
  let ?e = "map2 (-) ?c ?d"
  have zero: "pol ?e x = 0" if x: "x \<in> ?X" for x
  proof -
    obtain x' where x': "x' \<in> set xs" "x = gf_of x'" using x by blast
    then have "poly_eval (s # cs) x' = poly_eval (s # ds) x'" using eq by simp
    then have "pol (map gf_of (s # cs)) x = pol (map gf_of (s # ds)) x"
      by (simp only: poly_eval_pol[symmetric] x'(2))
    moreover have "x \<noteq> 0" using x' xs(2) by (auto simp: gf_of_eq_0)
    ultimately show ?thesis by (simp add: pol_diff l)
  qed
  have "card ?X = length xs"
    using card_image[OF inj_on_subset[OF inj_gf_of subset_UNIV]] distinct_card[OF xs(1)] by simp
  then have "pol ?e t = 0" for t
    using lag_pol[of ?X ?e t] zero l by (simp add: lag_def)
  then have e: "?e = replicate (length ?e) 0"
    by (intro pol_zero_everywhere) (simp_all add: l len)
  have "gf_of (cs ! i) = gf_of (ds ! i)" if "i < length xs" for i
    using arg_cong[OF e, of "\<lambda>es. es ! i"] that l by simp
  then show "cs = ds" by (intro nth_equalityI) (simp_all add: l gf_of_eq)
qed

lemma shares_surj:
  assumes "distinct xs" "0 \<notin> set xs" "length xs \<le> 255" and ys: "length ys = length xs"
  obtains cs where "length cs = length xs" "map (poly_eval (s # cs)) xs = ys"
proof -
  let ?L = "{cs :: u8 list. length cs = length xs}"
  let ?f = "\<lambda>cs. map (poly_eval (s # cs)) xs"
  have "finite ?L" using finite_lists_length_eq[of "UNIV :: u8 set" "length xs"] by simp
  moreover have "?f ` ?L \<subseteq> ?L" by auto
  ultimately have "?f ` ?L = ?L"
    using endo_inj_surj[of ?L ?f] shares_inj[OF assms(1-3)] by blast
  then have "ys \<in> ?f ` ?L" using ys by simp
  then show ?thesis using that by blast
qed

section \<open>Shard files\<close>

lemma shard_path_inj: "shard_path dir i = shard_path dir j \<longleftrightarrow> i = j"
  by (simp add: shard_path_def dec_str_inj)

lemma write_loop_ok:
  assumes "\<And>s. \<exists>d. to_vec s = Some d" and "\<And>p. \<not> wr_fails p"
  shows "write_loop to_vec wr_fails dir (List.enumerate m shards) paths fs =
    (Inr (paths @ map (shard_path dir) [m..<m + length shards]),
     \<lambda>p. case map_of (map (\<lambda>(i, s). (shard_path dir i, s)) (List.enumerate m shards)) p of
           None \<Rightarrow> fs p | Some s \<Rightarrow> to_vec s)"
proof (induction shards arbitrary: m paths fs)
  case (Cons s shards)
  obtain d where d: "to_vec s = Some d" using assms(1) by blast
  let ?m = "map_of (map (\<lambda>(i, s). (shard_path dir i, s)) (List.enumerate (Suc m) shards))"
  have fresh: "?m (shard_path dir m) = None"
    by (auto simp: map_of_eq_None_iff in_set_enumerate_eq shard_path_inj)
  have fs: "(\<lambda>p. case ?m p of None \<Rightarrow> (fs(shard_path dir m \<mapsto> d)) p | Some s \<Rightarrow> to_vec s) =
      (\<lambda>p. case (?m(shard_path dir m \<mapsto> s)) p of None \<Rightarrow> fs p | Some s \<Rightarrow> to_vec s)"
    using fresh d by (auto simp: fun_eq_iff split: option.split)
  have upt: "[m..<m + length (s # shards)] = m # [Suc m..<Suc m + length shards]"
    using upt_conv_Cons[of m "m + length (s # shards)"] by (simp del: upt_Suc)
  have "write_loop to_vec wr_fails dir (List.enumerate m (s # shards)) paths fs =
      write_loop to_vec wr_fails dir (List.enumerate (Suc m) shards) (paths @ [shard_path dir m])
        (fs(shard_path dir m \<mapsto> d))"
    using assms(2) d by (simp add: Let_def)
  also note Cons.IH
  finally show ?case unfolding upt fs by simp
qed (simp add: fun_eq_iff)

lemma read_loop_ok:
  "\<forall>i\<in>set idx. fs (path i) = to_vec (sh i) \<and> (\<exists>d. to_vec (sh i) = Some d \<and> from_slice d = Some (sh i)) \<Longrightarrow>
   read_loop from_slice fs (map path idx) acc = Inr (acc @ map sh idx)"
  by (induction idx arbitrary: acc) auto

lemma map_of_shard_path: "i < length shards \<Longrightarrow>
    map_of (map (\<lambda>(i, s). (shard_path dir i, s)) (List.enumerate 0 shards)) (shard_path dir i) = Some (shards ! i)"
  by (rule map_of_is_SomeI)
     (auto simp: distinct_map in_set_enumerate_eq shard_path_inj intro!: inj_onI image_eqI[of _ _ "(i, shards ! i)"])

section \<open>Properties\<close>

text \<open>
  C1: \<^verbatim>\<open>split\<close> with a valid threshold returns \<open>n\<close> shards, and \<^verbatim>\<open>reconstruct\<close> returns the
  secret from every selection of at least \<open>k\<close> of them, in any order, whatever the random bytes.
\<close>

theorem sss_roundtrip:
  assumes "2 \<le> k" "k \<le> n" "n \<le> 255" "secret \<noteq> []"
  shows "\<exists>shards. split rng secret k n = Inr shards \<and> length shards = n \<and>
    (\<forall>idx. distinct idx \<and> set idx \<subseteq> {..<n} \<and> k \<le> length idx \<longrightarrow>
       reconstruct (map (nth shards) idx) = Inr secret)"
proof (rule split_ok[OF assms, of rng])
  fix shards assume "split rng secret k n = Inr shards" "length shards = n"
  with reconstruct_split[OF assms] show ?thesis by blast
qed

theorem sss_roundtrip_witness:
  "\<exists>shards. split (\<lambda>b i. 7) [1, 2, 3] 2 3 = Inr shards \<and>
     reconstruct (map (nth shards) [2, 0]) = Inr [1, 2, 3]"
proof -
  obtain shards where "split (\<lambda>b i. 7) [1, 2, 3] 2 3 = Inr shards"
    and all: "\<forall>idx. distinct idx \<and> set idx \<subseteq> {..<3} \<and> 2 \<le> length idx \<longrightarrow>
       reconstruct (map (nth shards) idx) = Inr [1, 2, 3]"
    using sss_roundtrip[of 2 3 "[1, 2, 3]" "\<lambda>b i. 7"] by auto
  moreover have "reconstruct (map (nth shards) [2, 0]) = Inr [1, 2, 3]"
    using all[rule_format, of "[2, 0]"] by simp
  ultimately show ?thesis by blast
qed

text \<open>
  C10: fewer than \<open>k\<close> shards say nothing about the secret: for every selection of \<open>k - 1\<close>
  shards and every other secret of the same length there are random bytes under which
  \<^verbatim>\<open>split\<close> of that secret produces exactly the selected shards.
\<close>

theorem sss_secrecy:
  assumes k: "2 \<le> k" "k \<le> n" "n \<le> 255" "secret \<noteq> []"
    and sp: "split rng secret k n = Inr shards"
    and idx: "distinct idx" "set idx \<subseteq> {..<n}" "length idx = k - 1"
    and other: "length secret' = length secret"
  shows "\<exists>rng' shards'. split rng' secret' k n = Inr shards' \<and>
    map (nth shards') idx = map (nth shards) idx"
proof -
  let ?xs = "map (\<lambda>i. of_nat (Suc i) :: u8) idx"
  have xs: "distinct ?xs" "0 \<notin> set ?xs" "length ?xs \<le> 255"
    using idx k of_nat_u8_inj[of _ 0]
    by (auto simp: distinct_map simp del: of_nat_Suc intro!: inj_onI
        dest!: of_nat_u8_inj[THEN iffD1, rotated -1])
  have "\<exists>cs. length cs = k - 1 \<and> map (poly_eval (secret' ! b # cs)) ?xs =
      map (poly_eval (secret ! b # map (rng b) [0..<k - 1])) ?xs" for b
    using shares_surj[OF xs, of "map (poly_eval (secret ! b # map (rng b) [0..<k - 1])) ?xs"
      "secret' ! b"] idx(3) by (metis length_map)
  then obtain C where C: "\<And>b. length (C b) = k - 1"
    "\<And>b. map (poly_eval (secret' ! b # C b)) ?xs =
      map (poly_eval (secret ! b # map (rng b) [0..<k - 1])) ?xs" by metis
  have rng': "map (\<lambda>i. C b ! i) [0..<k - 1] = C b" for b
    using C(1)[of b] by (intro nth_equalityI) simp_all
  have ne: "secret' \<noteq> []" using other k(4) by auto
  obtain shards' where s': "split (\<lambda>b i. C b ! i) secret' k n = Inr shards'"
    and nth': "\<And>i. i < n \<Longrightarrow> shards' ! i = \<lparr> shard_x = of_nat (Suc i),
      shard_y = map (\<lambda>coeffs. poly_eval coeffs (of_nat (Suc i))) (all_coeffs (\<lambda>b i. C b ! i) secret' k) \<rparr>"
    by (rule split_ok[OF k(1-3) ne, of "\<lambda>b i. C b ! i"]) blast
  have nth: "shards ! i = \<lparr> shard_x = of_nat (Suc i),
      shard_y = map (\<lambda>coeffs. poly_eval coeffs (of_nat (Suc i))) (all_coeffs rng secret k) \<rparr>"
    if "i < n" for i
    by (rule split_ok[OF k, of rng]) (use sp that in auto)
  have "shards' ! i = shards ! i" if i: "i \<in> set idx" for i
  proof -
    have "poly_eval (secret' ! b # C b) (of_nat (Suc i)) =
        poly_eval (secret ! b # map (rng b) [0..<k - 1]) (of_nat (Suc i))" for b
      using C(2)[of b] i by simp
    moreover have "i < n" using i idx(2) by auto
    ultimately show ?thesis
      by (simp add: nth nth' other all_coeffs_nth rng'[unfolded One_nat_def] list_eq_iff_nth_eq del: of_nat_Suc)
  qed
  with s' show ?thesis by auto
qed

theorem sss_secrecy_witness:
  "\<exists>shards rng' shards'. split (\<lambda>b i. 7) [1, 2] 2 3 = Inr shards \<and>
     split rng' [200, 100] 2 3 = Inr shards' \<and> shards' ! 1 = shards ! 1"
  using sss_secrecy[of 2 3 "[1, 2]" "\<lambda>b i. 7" _ "[1]" "[200, 100]"]
  by (simp add: split_def[of "\<lambda>b i. 7"])

text \<open>
  The file helpers compose to the identity. When the JSON decoder inverts the encoder and
  no write fails, \<^verbatim>\<open>split_key_to_files\<close> returns \<open>n\<close> paths and \<^verbatim>\<open>reconstruct_from_files\<close> on any
  \<open>k\<close> or more of them returns the key.
\<close>

theorem shard_files_roundtrip:
  assumes k: "2 \<le> k" "k \<le> n" "n \<le> 255" "secret \<noteq> []"
    and json: "\<And>s. \<exists>d. to_vec s = Some d \<and> from_slice d = Some s"
    and io: "\<And>p. \<not> wr_fails p"
  shows "\<exists>paths fs'. split_key_to_files rng to_vec wr_fails secret k n dir fs = (Inr paths, fs') \<and>
    length paths = n \<and>
    (\<forall>idx. distinct idx \<and> set idx \<subseteq> {..<n} \<and> k \<le> length idx \<longrightarrow>
       reconstruct_from_files from_slice fs' (map (nth paths) idx) = Inr secret)"
proof (rule split_ok[OF k, of rng])
  fix shards assume sp: "split rng secret k n = Inr shards" and len: "length shards = n"
  let ?fs = "\<lambda>p. case map_of (map (\<lambda>(i, s). (shard_path dir i, s)) (List.enumerate 0 shards)) p of
      None \<Rightarrow> fs p | Some s \<Rightarrow> to_vec s"
  let ?paths = "map (shard_path dir) [0..<n]"
  have enc: "\<exists>d. to_vec s = Some d" for s using json by blast
  have "split_key_to_files rng to_vec wr_fails secret k n dir fs = (Inr ?paths, ?fs)"
    using write_loop_ok[of to_vec wr_fails dir 0 shards "[]" fs, OF enc io] sp len
    by (simp add: split_key_to_files_def)
  moreover have "reconstruct_from_files from_slice ?fs (map (nth ?paths) idx) = Inr secret"
    if "distinct idx" "set idx \<subseteq> {..<n}" "k \<le> length idx" for idx
  proof -
    have p: "map (nth ?paths) idx = map (shard_path dir) idx" using that(2) by auto
    have "read_loop from_slice ?fs (map (shard_path dir) idx) [] = Inr (map (nth shards) idx)"
      using read_loop_ok[of idx ?fs "shard_path dir" to_vec "nth shards" from_slice "[]"]
        that(2) len json by (auto simp: map_of_shard_path subset_iff)
    then show ?thesis
      unfolding reconstruct_from_files_def p using reconstruct_split[OF k sp that] by simp
  qed
  ultimately show ?thesis by (intro exI[of _ ?paths] exI[of _ ?fs]) simp
qed

text \<open>A codec that satisfies the hypotheses of the previous property.\<close>

definition demo_to_vec :: "Shard \<Rightarrow> u8 list option" where
  "demo_to_vec s = Some (shard_x s # shard_y s)"

definition demo_from_slice :: "u8 list \<Rightarrow> Shard option" where
  "demo_from_slice d =
     (case d of [] \<Rightarrow> None | b # bs \<Rightarrow> Some \<lparr> shard_x = b, shard_y = bs \<rparr>)"

theorem shard_files_roundtrip_witness:
  "\<exists>paths fs'.
     split_key_to_files (\<lambda>b i. 9) demo_to_vec (\<lambda>p. False) [5, 6] 2 3 ''out'' Map.empty = (Inr paths, fs') \<and>
     reconstruct_from_files demo_from_slice fs' (map (nth paths) [2, 1]) = Inr [5, 6]"
proof -
  have "\<exists>d. demo_to_vec s = Some d \<and> demo_from_slice d = Some s" for s :: Shard
    by (simp add: demo_to_vec_def demo_from_slice_def)
  from shard_files_roundtrip[of 2 3 "[5, 6]", OF _ _ _ _ this, of "\<lambda>p. False" "\<lambda>b i. 9" "''out''" Map.empty]
  obtain paths fs' where
    "split_key_to_files (\<lambda>b i. 9) demo_to_vec (\<lambda>p. False) [5, 6] 2 3 ''out'' Map.empty = (Inr paths, fs')"
    and all: "\<forall>idx. distinct idx \<and> set idx \<subseteq> {..<3} \<and> 2 \<le> length idx \<longrightarrow>
       reconstruct_from_files demo_from_slice fs' (map (nth paths) idx) = Inr [5, 6]"
    by auto
  moreover have "reconstruct_from_files demo_from_slice fs' (map (nth paths) [2, 1]) = Inr [5, 6]"
    using all[rule_format, of "[2, 1]"] by simp
  ultimately show ?thesis by blast
qed

text \<open>
  The table-driven multiplication computes the carry-less product modulo the reduction
  polynomial: \<^verbatim>\<open>gf_mul\<close> agrees with \<^verbatim>\<open>gf256_raw_mul\<close> on all bytes, division undoes it, and
  only a zero divisor is an error.
\<close>

theorem gf_mul_raw:
  "gf_mul a b = ucast (gf256_raw_mul (ucast a) (ucast b)) \<and>
   gf_div a 0 = Inl DivisionByZero \<and>
   (b \<noteq> 0 \<longrightarrow> gf_div (gf_mul a b) b = Inr a)"
proof -
  have "gf_div (gf_mul a b) b = Inr a" if "b \<noteq> 0"
    using that by (simp add: gf_div_inv gf_mul_assoc gf_inv_right)
  then show ?thesis
    by (simp add: gf256_raw_mul_ucast ucast_ucast_u8 gf_div_def)
qed

theorem gf_mul_raw_witness: "gf_div (gf_mul 0x53 0xCA) 0xCA = Inr 0x53"
  using gf_mul_raw[of "0x53" "0xCA", THEN conjunct2, THEN conjunct2] by simp

end
