(* ===== verification/Authority.thy ===== *)
theory Authority
  imports Prelude "HOL-Library.Multiset"
begin

text \<open>
  The authority, \<^verbatim>\<open>authority.rs\<close>: the signed state that lists supernodes, the roles of allowed
  peers and the permission policy, and the manager that guards it with a lock. A peer is
  named by the text of its id. SHA-256, the Ed25519 library and the decoders of the stored
  file are arguments; a poisoned lock is a flag of the manager.
\<close>

section \<open>Data\<close>

datatype AuthorityError =
    IoError string | SerializationError string | LockPoisoned | Denied string | InvalidSignature
  | VersionRejected u64 u64 | InvalidFormat string

datatype AuthorityRefreshOutcome =
    Success | Updated u64 u64 | Unchanged | Failed AuthorityError

datatype Action =
    Connect | Route | GatewayAccess | GatewayEgress | WebTraffic | AdminUpdate | ComputeSubmit

datatype NodeRole = Blocked | Observer | Client | Standard | Gateway | Validator | Supernode

text \<open>The derived order of \<^verbatim>\<open>NodeRole\<close> is the order of the declaration.\<close>

fun role_rank :: "NodeRole \<Rightarrow> nat" where
  "role_rank Blocked = 0"
| "role_rank Observer = 1"
| "role_rank Client = 2"
| "role_rank Standard = 3"
| "role_rank Gateway = 4"
| "role_rank Validator = 5"
| "role_rank Supernode = 6"

lemma role_rank_inj: "role_rank a = role_rank b \<longleftrightarrow> a = b"
  by (cases a; cases b) simp_all

instantiation NodeRole :: linorder
begin

definition less_eq_NodeRole :: "NodeRole \<Rightarrow> NodeRole \<Rightarrow> bool" where
  "a \<le> b \<longleftrightarrow> role_rank a \<le> role_rank b"

definition less_NodeRole :: "NodeRole \<Rightarrow> NodeRole \<Rightarrow> bool" where
  "a < b \<longleftrightarrow> role_rank a < role_rank b"

instance
  by standard (auto simp: less_eq_NodeRole_def less_NodeRole_def role_rank_inj)

end

fun role_as_str :: "NodeRole \<Rightarrow> string" where
  "role_as_str Supernode = ''supernode''"
| "role_as_str Validator = ''validator''"
| "role_as_str Gateway = ''relay''"
| "role_as_str Blocked = ''blocked''"
| "role_as_str _ = ''client''"

record PermissionPolicy =
  max_connections :: nat
  allow_unknown_peers :: bool
  require_signed_messages :: bool
  allow_gateway_traffic :: bool
  allow_route_transit :: bool
  allow_web_traffic :: bool

definition default_policy :: PermissionPolicy where
  "default_policy = \<lparr> max_connections = 100, allow_unknown_peers = False,
     require_signed_messages = True, allow_gateway_traffic = True, allow_route_transit = True,
     allow_web_traffic = True \<rparr>"

record AuthorityRoot =
  root_name :: string
  issuer :: string
  active :: bool
  updated_at :: nat

record AuthorityState =
  version :: u64
  root :: AuthorityRoot
  supernodes :: "string list"
  allowed_peers :: "(string, NodeRole) hmap"
  trust_graph :: "(string, string list) btree"
  policies :: PermissionPolicy
  hash :: "u8 list"
  signature :: "u8 list"
  pending_peers :: "string set"

record AuthorityDecision =
  ad_peer_id :: string
  ad_action :: Action
  ad_allowed :: bool
  ad_reason :: string
  ad_role :: "NodeRole option"
  ad_timestamp :: nat

record AuthorityManager =
  inner :: AuthorityState
  poisoned :: bool

text \<open>The code outside the repository that the module calls.\<close>

record 'pk AuthEnv =
  sha256 :: "u8 list \<Rightarrow> u8 list"
  sig_from_bytes :: "u8 list \<Rightarrow> u8 list option"
  pk_verify :: "'pk \<Rightarrow> u8 list \<Rightarrow> u8 list \<Rightarrow> bool"
  de_bincode :: "u8 list \<Rightarrow> AuthorityState option"
  de_json :: "u8 list \<Rightarrow> AuthorityState option"

section \<open>The state\<close>

definition compute_hash :: "'pk AuthEnv \<Rightarrow> AuthorityState \<Rightarrow> u8 list" where
  "compute_hash env s =
     sha256 env (to_le_bytes (version s) @ as_bytes (issuer (root s)) @
       concat (map as_bytes (sort (supernodes s))))"

definition canonicalize :: "'pk AuthEnv \<Rightarrow> AuthorityState \<Rightarrow> AuthorityState" where
  "canonicalize env s =
     (let s = s\<lparr> supernodes := remdups_adj (sort (supernodes s)) \<rparr>
      in s\<lparr> hash := compute_hash env s \<rparr>)"

definition verify :: "'pk AuthEnv \<Rightarrow> 'pk \<Rightarrow> AuthorityState \<Rightarrow> AuthorityError + unit" where
  "verify env pubkey s =
     (if signature s = [] then Inl InvalidSignature
      else case sig_from_bytes env (signature s) of
        None \<Rightarrow> Inl InvalidSignature
      | Some sig \<Rightarrow>
          if pk_verify env pubkey (compute_hash env s) sig then Inr () else Inl InvalidSignature)"

definition get_role :: "AuthorityState \<Rightarrow> string \<Rightarrow> NodeRole option" where
  "get_role s peer_id =
     (if peer_id \<in> set (supernodes s) then Some Supernode else map_of (allowed_peers s) peer_id)"

definition check_role_permission :: "AuthorityState \<Rightarrow> NodeRole \<Rightarrow> Action \<Rightarrow> bool \<times> string" where
  "check_role_permission s role action =
     (case action of
        Connect \<Rightarrow> (role > Blocked, ''connectivity_check'')
      | Route \<Rightarrow> (allow_route_transit (policies s) \<and> role \<ge> Gateway, ''route_check'')
      | GatewayAccess \<Rightarrow> (allow_gateway_traffic (policies s) \<and> role \<ge> Gateway, ''gateway_check'')
      | GatewayEgress \<Rightarrow> (allow_gateway_traffic (policies s) \<and> role \<ge> Gateway, ''egress_check'')
      | AdminUpdate \<Rightarrow> (role \<ge> Validator, ''admin_check'')
      | WebTraffic \<Rightarrow> (allow_web_traffic (policies s), ''web_policy_check'')
      | ComputeSubmit \<Rightarrow> (role \<ge> Client, ''compute_submit_allowed''))"

definition evaluate_action :: "nat \<Rightarrow> AuthorityState \<Rightarrow> string \<Rightarrow> Action \<Rightarrow> AuthorityDecision" where
  "evaluate_action now s peer action =
     (let role = get_role s peer;
          (allowed, reason) =
            (case role of
               Some r \<Rightarrow>
                 (if r = Blocked then (False, ''explicitly_blocked'')
                  else if r = Supernode then (True, ''supernode_unlimited'')
                  else check_role_permission s r action)
             | None \<Rightarrow>
                 (if allow_unknown_peers (policies s) then (True, ''unknown_allowed_by_policy'')
                  else (False, ''unregistered_peer_denied'')))
      in \<lparr> ad_peer_id = peer, ad_action = action, ad_allowed = allowed, ad_reason = reason,
           ad_role = role, ad_timestamp = now \<rparr>)"

definition default_state :: AuthorityState where
  "default_state = \<lparr> version = 1,
     root = \<lparr> root_name = ''ess-foundation'', issuer = [], active = True, updated_at = 0 \<rparr>,
     supernodes = [], allowed_peers = [], trust_graph = [], policies = default_policy,
     hash = [], signature = [], pending_peers = {} \<rparr>"

definition default_authority :: "'pk AuthEnv \<Rightarrow> AuthorityState" where
  "default_authority env =
     canonicalize env (default_state\<lparr> policies := default_policy\<lparr> allow_unknown_peers := False \<rparr> \<rparr>)"

section \<open>The manager\<close>

definition mgr_get :: "AuthorityManager \<Rightarrow> AuthorityState" where
  "mgr_get m = (if poisoned m then default_state else inner m)"

definition get_snapshot :: "AuthorityManager \<Rightarrow> AuthorityError + AuthorityState" where
  "get_snapshot m = (if poisoned m then Inl LockPoisoned else Inr (inner m))"

definition is_allowed :: "AuthorityManager \<Rightarrow> string \<Rightarrow> Action \<Rightarrow> bool" where
  "is_allowed m peer action =
     (if poisoned m then False else ad_allowed (evaluate_action 0 (inner m) peer action))"

definition role_of :: "AuthorityManager \<Rightarrow> string \<Rightarrow> NodeRole option" where
  "role_of m peer = (if poisoned m then None else get_role (inner m) peer)"

definition update_state :: "'pk AuthEnv \<Rightarrow> 'pk \<Rightarrow> AuthorityState \<Rightarrow> AuthorityManager \<Rightarrow>
    (AuthorityError + unit) \<times> AuthorityManager" where
  "update_state env pubkey new_state m =
     (case verify env pubkey new_state of
        Inl e \<Rightarrow> (Inl e, m)
      | Inr u \<Rightarrow>
          if poisoned m then (Inl LockPoisoned, m)
          else if version new_state \<le> version (inner m)
          then (Inl (VersionRejected (version (inner m)) (version new_state)), m)
          else (Inr (), m\<lparr> inner := new_state \<rparr>))"

definition load_authority :: "'pk AuthEnv \<Rightarrow> u8 list option \<Rightarrow> AuthorityError + AuthorityState" where
  "load_authority env file =
     (case file of
        None \<Rightarrow> Inl (IoError [])
      | Some data \<Rightarrow>
          (case de_bincode env data of
             Some s \<Rightarrow> Inr s
           | None \<Rightarrow> (case de_json env data of Some s \<Rightarrow> Inr s | None \<Rightarrow> Inl (InvalidFormat []))))"

definition refresh_from_file :: "'pk AuthEnv \<Rightarrow> 'pk \<Rightarrow> u8 list option \<Rightarrow> AuthorityManager \<Rightarrow>
    AuthorityRefreshOutcome \<times> AuthorityManager" where
  "refresh_from_file env pubkey file m =
     (let current_v = version (mgr_get m) in
      case load_authority env file of
        Inl e \<Rightarrow> (Failed e, m)
      | Inr new_state \<Rightarrow>
          if version new_state \<le> current_v then (Unchanged, m)
          else
            (case update_state env pubkey new_state m of
               (Inr u, m') \<Rightarrow> (Updated current_v (version new_state), m')
             | (Inl e, m') \<Rightarrow> (Failed e, m')))"

definition can_route :: "AuthorityManager \<Rightarrow> string \<Rightarrow> bool" where
  "can_route m peer = is_allowed m peer Route"

definition can_gateway :: "AuthorityManager \<Rightarrow> string \<Rightarrow> bool" where
  "can_gateway m peer = is_allowed m peer GatewayAccess"

definition trust_path_exists :: "AuthorityManager \<Rightarrow> string \<Rightarrow> bool" where
  "trust_path_exists m peer \<longleftrightarrow> role_of m peer \<noteq> None"

definition decision_for_gateway_peer :: "nat \<Rightarrow> AuthorityManager \<Rightarrow> string \<Rightarrow> AuthorityDecision" where
  "decision_for_gateway_peer now m peer =
     (if poisoned m then
        \<lparr> ad_peer_id = peer, ad_action = GatewayAccess, ad_allowed = False,
          ad_reason = ''internal_lock_error'', ad_role = None, ad_timestamp = now \<rparr>
      else evaluate_action now (inner m) peer GatewayAccess)"

fun stage_loop :: "string list \<Rightarrow> AuthorityState \<Rightarrow> nat \<Rightarrow> AuthorityState \<times> nat" where
  "stage_loop [] s staged = (s, staged)"
| "stage_loop (peer_id # rest) s staged =
     (if map_of (allowed_peers s) peer_id = None \<and> peer_id \<notin> pending_peers s
      then stage_loop rest (s\<lparr> pending_peers := insert peer_id (pending_peers s) \<rparr>) (staged + 1)
      else stage_loop rest s staged)"

definition apply_config_bundle :: "string list \<Rightarrow> AuthorityManager \<Rightarrow> bool \<times> AuthorityManager" where
  "apply_config_bundle bundle_peers m =
     (if poisoned m then (False, m)
      else (True, m\<lparr> inner := fst (stage_loop bundle_peers (inner m) 0) \<rparr>))"

definition confirm_pending_peers :: "'pk AuthEnv \<Rightarrow> string \<Rightarrow> string list \<Rightarrow> nat \<Rightarrow>
    AuthorityManager \<Rightarrow> (AuthorityError + bool) \<times> AuthorityManager" where
  "confirm_pending_peers env peer_id confirming required m =
     (if length confirming < required then (Inr False, m)
      else if poisoned m then (Inl LockPoisoned, m)
      else let s = inner m in
        if peer_id \<in> pending_peers s then
          (Inr True, m\<lparr> inner := canonicalize env
             (s\<lparr> pending_peers := pending_peers s - {peer_id},
                  allowed_peers := hm_put peer_id Client (allowed_peers s) \<rparr>) \<rparr>)
        else (Inr False, m))"

text \<open>The calls that change the manager, and what a sequence of them does.\<close>

datatype 'pk AuthCall =
    CallUpdate 'pk AuthorityState
  | CallRefresh 'pk "u8 list option"
  | CallBundle "string list"
  | CallConfirm string "string list" nat

fun auth_call :: "'pk AuthEnv \<Rightarrow> 'pk AuthCall \<Rightarrow> AuthorityManager \<Rightarrow> AuthorityManager" where
  "auth_call env (CallUpdate pk s) m = snd (update_state env pk s m)"
| "auth_call env (CallRefresh pk content) m = snd (refresh_from_file env pk content m)"
| "auth_call env (CallBundle ps) m = snd (apply_config_bundle ps m)"
| "auth_call env (CallConfirm p sns n) m = snd (confirm_pending_peers env p sns n m)"

section \<open>Lemmas\<close>

lemma stage_loop_frame:
  "stage_loop ps s n = (s', n') \<Longrightarrow>
   s' = s\<lparr> pending_peers := pending_peers s \<union> {p \<in> set ps. map_of (allowed_peers s) p = None} \<rparr> \<and>
   n' = n + card ({p \<in> set ps. map_of (allowed_peers s) p = None} - pending_peers s)"
proof (induction ps s n rule: stage_loop.induct)
  case (2 peer_id rest s staged)
  show ?case
  proof (cases "map_of (allowed_peers s) peer_id = None \<and> peer_id \<notin> pending_peers s")
    case True
    let ?A = "{p \<in> set rest. map_of (allowed_peers s) p = None} - insert peer_id (pending_peers s)"
    have "{p \<in> set (peer_id # rest). map_of (allowed_peers s) p = None} - pending_peers s = insert peer_id ?A"
      using True by auto
    moreover have "finite ?A" "peer_id \<notin> ?A" by auto
    ultimately have card: "card ({p \<in> set (peer_id # rest). map_of (allowed_peers s) p = None} - pending_peers s)
        = Suc (card ?A)" by simp
    have un: "insert peer_id (pending_peers s) \<union> {p \<in> set rest. map_of (allowed_peers s) p = None} =
        pending_peers s \<union> {p \<in> set (peer_id # rest). map_of (allowed_peers s) p = None}"
      using True by auto
    show ?thesis using 2 True card un by simp
  next
    case False
    then have "{p \<in> set (peer_id # rest). map_of (allowed_peers s) p = None} - pending_peers s =
        {p \<in> set rest. map_of (allowed_peers s) p = None} - pending_peers s"
      "pending_peers s \<union> {p \<in> set (peer_id # rest). map_of (allowed_peers s) p = None} =
        pending_peers s \<union> {p \<in> set rest. map_of (allowed_peers s) p = None}" by auto
    then show ?thesis using 2 False by auto
  qed
qed simp

lemma canonicalize_fields [simp]:
  "version (canonicalize env s) = version s" "allowed_peers (canonicalize env s) = allowed_peers s"
  "policies (canonicalize env s) = policies s" "pending_peers (canonicalize env s) = pending_peers s"
  "set (supernodes (canonicalize env s)) = set (supernodes s)"
  by (simp_all add: canonicalize_def Let_def)

lemma remdups_adj_sorted_distinct: "sorted (xs :: string list) \<Longrightarrow> distinct (remdups_adj xs)"
  by (induction xs rule: remdups_adj.induct) (auto simp: order.order_iff_strict)

lemma get_role_canonicalize [simp]: "get_role (canonicalize env s) p = get_role s p"
  by (simp add: get_role_def)

lemma check_role_mono:
  "r \<le> r' \<Longrightarrow> fst (check_role_permission s r a) \<Longrightarrow> fst (check_role_permission s r' a)"
  by (auto simp: check_role_permission_def split: Action.splits)

lemma evaluate_action_cong:
  "get_role s p = get_role s' p \<Longrightarrow> policies s = policies s' \<Longrightarrow>
   evaluate_action now s p a = evaluate_action now s' p a"
proof -
  assume role: "get_role s p = get_role s' p" and pol: "policies s = policies s'"
  have perm: "check_role_permission s = check_role_permission s'"
    by (intro ext) (simp add: check_role_permission_def pol split: Action.split)
  show ?thesis unfolding evaluate_action_def role pol perm ..
qed

lemma evaluate_allowed:
  "ad_allowed (evaluate_action now s p a) \<longleftrightarrow>
     (case get_role s p of
        None \<Rightarrow> allow_unknown_peers (policies s)
      | Some r \<Rightarrow> r \<noteq> Blocked \<and> (r = Supernode \<or> fst (check_role_permission s r a)))"
  by (auto simp: evaluate_action_def Let_def split: option.split prod.split)

section \<open>Properties\<close>


definition demo_authority :: AuthorityState where
  "demo_authority = default_state\<lparr> supernodes := [''sn''],
     allowed_peers := [(''c'', Client), (''g'', Gateway), (''x'', Blocked)] \<rparr>"



definition demo_auth_env :: "unit AuthEnv" where
  "demo_auth_env = \<lparr> sha256 = (\<lambda>bs. bs), sig_from_bytes = Some, pk_verify = (\<lambda>pk h sig. sig = h),
     de_bincode = (\<lambda>d. None), de_json = (\<lambda>d. None) \<rparr>"


text \<open>
  What the signature protects. Verification depends only on the version, the issuer and
  the multiset of supernodes: two states that differ in the allowed peers, the policy, the
  trust graph or the pending peers carry the same hash, so a signature for one verifies the
  other.
\<close>

theorem authority_hash_scope:
  assumes "version s = version s'" "issuer (root s) = issuer (root s')"
    and "mset (supernodes s) = mset (supernodes s')"
  shows "compute_hash env s = compute_hash env s' \<and>
    (signature s = signature s' \<longrightarrow> verify env pk s = verify env pk s')"
proof -
  have "sort (supernodes s) = sort (supernodes s')"
    by (intro properties_for_sort) (simp_all add: assms(3))
  then have "compute_hash env s = compute_hash env s'"
    using assms by (simp add: compute_hash_def)
  then show ?thesis by (simp add: verify_def split: option.split)
qed

theorem authority_hash_scope_witness:
  "compute_hash demo_auth_env demo_authority =
   compute_hash demo_auth_env (demo_authority\<lparr> allowed_peers := [(''evil'', Validator)],
     policies := (default_policy\<lparr> allow_unknown_peers := True \<rparr>) \<rparr>)"
  using authority_hash_scope[of demo_authority "demo_authority\<lparr> allowed_peers := [(''evil'', Validator)],
     policies := (default_policy\<lparr> allow_unknown_peers := True \<rparr>) \<rparr>" demo_auth_env "()"] by simp

text \<open>
  A confirmation counts the entries of the list it is given: one supernode named twice is
  enough where two confirmations are required.
\<close>

lemma confirm_counts_duplicates:
  "\<not> poisoned m \<Longrightarrow> p \<in> pending_peers (inner m) \<Longrightarrow>
   fst (confirm_pending_peers env p [sn, sn] 2 m) = Inr True"
  by (simp add: confirm_pending_peers_def Let_def)

end
