(* ===== verification/Message.thy ===== *)
theory Message
  imports Authority
begin

text \<open>
  The messages peers exchange and the bytes they sign: \<^verbatim>\<open>message.rs\<close> (direct requests and
  responses), \<^verbatim>\<open>config.rs\<close> (configuration bundles and their messages), the message types of
  \<^verbatim>\<open>gateway.rs\<close> and \<^verbatim>\<open>web.rs\<close>, and the signing material of \<^verbatim>\<open>security.rs\<close>. A constructor takes
  the clock (seconds and nanoseconds) as arguments. The native byte order is little-endian.
\<close>

section \<open>Direct messages\<close>

definition short_nonce :: "nat \<Rightarrow> string" where
  "short_nonce nanos = hex_str nanos"

definition normalize_message_type :: "string \<Rightarrow> string" where
  "normalize_message_type t = (if str_lower (str_trim t) = ''control'' then ''control'' else ''data'')"

record DirectRequest =
  rq_message_id :: string
  rq_from :: string
  rq_to :: string
  rq_kind :: string
  rq_message_type :: string
  rq_priority :: u8
  rq_batch_id :: string
  rq_batch_index :: u32
  rq_batch_size :: u32
  rq_body :: "u8 list"
  rq_nonce :: string
  rq_ts :: u64
  rq_encrypted :: bool
  rq_sender_pubkey :: string
  rq_sender_role :: "NodeRole option"
  rq_signature :: string

definition rq_normalized :: "DirectRequest \<Rightarrow> DirectRequest" where
  "rq_normalized r = r\<lparr> rq_message_id := str_trim (rq_message_id r), rq_from := str_trim (rq_from r),
     rq_to := str_trim (rq_to r), rq_kind := str_trim (rq_kind r),
     rq_message_type := normalize_message_type (rq_message_type r),
     rq_signature := str_trim (rq_signature r) \<rparr>"

definition rq_plain_bytes :: "u64 \<Rightarrow> nat \<Rightarrow> string \<Rightarrow> string \<Rightarrow> u8 list \<Rightarrow> DirectRequest" where
  "rq_plain_bytes ts nanos from to body = rq_normalized
     \<lparr> rq_message_id = ''dm-'' @ dec_str (unat ts) @ ''-'' @ short_nonce nanos,
       rq_from = from, rq_to = to, rq_kind = ''message'', rq_message_type = ''data'',
       rq_priority = 5, rq_batch_id = [], rq_batch_index = 0, rq_batch_size = 0, rq_body = body,
       rq_nonce = [], rq_ts = ts, rq_encrypted = False, rq_sender_pubkey = [],
       rq_sender_role = None, rq_signature = [] \<rparr>"

definition rq_plain :: "u64 \<Rightarrow> nat \<Rightarrow> string \<Rightarrow> string \<Rightarrow> string \<Rightarrow> DirectRequest" where
  "rq_plain ts nanos from to body = rq_plain_bytes ts nanos from to (as_bytes body)"

definition BAR :: u8 where
  "BAR = 0x7C"

definition rq_signature_material :: "DirectRequest \<Rightarrow> u8 list \<Rightarrow> u8 list" where
  "rq_signature_material r clear_body = join_with BAR
     [as_bytes (rq_message_id r), as_bytes (rq_from r), as_bytes (rq_to r), as_bytes (rq_kind r),
      as_bytes (rq_message_type r), le_bytes 1 (rq_priority r), as_bytes (rq_batch_id r),
      le_bytes 4 (rq_batch_index r), le_bytes 4 (rq_batch_size r), le_bytes 8 (rq_ts r),
      as_bytes (rq_nonce r), as_bytes (rq_sender_pubkey r), clear_body]"

record DirectResponse =
  rs_message_id :: string
  rs_in_reply_to :: string
  rs_from :: string
  rs_to :: string
  rs_ok :: bool
  rs_kind :: string
  rs_message_type :: string
  rs_priority :: u8
  rs_batch_id :: string
  rs_batch_index :: u32
  rs_batch_size :: u32
  rs_body :: "u8 list"
  rs_nonce :: string
  rs_ts :: u64
  rs_encrypted :: bool
  rs_sender_pubkey :: string
  rs_sender_role :: "NodeRole option"
  rs_signature :: string

definition rs_normalized :: "DirectResponse \<Rightarrow> DirectResponse" where
  "rs_normalized r = r\<lparr> rs_message_id := str_trim (rs_message_id r),
     rs_in_reply_to := str_trim (rs_in_reply_to r), rs_from := str_trim (rs_from r),
     rs_to := str_trim (rs_to r), rs_kind := str_trim (rs_kind r),
     rs_signature := str_trim (rs_signature r) \<rparr>"

definition rs_plain_ok_bytes :: "u64 \<Rightarrow> nat \<Rightarrow> string \<Rightarrow> string \<Rightarrow> string \<Rightarrow> u8 list \<Rightarrow> DirectResponse" where
  "rs_plain_ok_bytes ts nanos in_reply_to from to body = rs_normalized
     \<lparr> rs_message_id = ''dm-resp-'' @ dec_str (unat ts) @ ''-'' @ short_nonce nanos,
       rs_in_reply_to = in_reply_to, rs_from = from, rs_to = to, rs_ok = True,
       rs_kind = ''response'', rs_message_type = ''data'', rs_priority = 5, rs_batch_id = [],
       rs_batch_index = 0, rs_batch_size = 0, rs_body = body, rs_nonce = [], rs_ts = ts,
       rs_encrypted = False, rs_sender_pubkey = [], rs_sender_role = None, rs_signature = [] \<rparr>"

definition rs_plain_ok :: "u64 \<Rightarrow> nat \<Rightarrow> string \<Rightarrow> string \<Rightarrow> string \<Rightarrow> string \<Rightarrow> DirectResponse" where
  "rs_plain_ok ts nanos in_reply_to from to body =
     rs_plain_ok_bytes ts nanos in_reply_to from to (as_bytes body)"

definition rs_plain_error :: "u64 \<Rightarrow> nat \<Rightarrow> string \<Rightarrow> string \<Rightarrow> string \<Rightarrow> string \<Rightarrow> DirectResponse" where
  "rs_plain_error ts nanos in_reply_to from to body = rs_normalized
     \<lparr> rs_message_id = ''dm-resp-'' @ dec_str (unat ts) @ ''-'' @ short_nonce nanos,
       rs_in_reply_to = in_reply_to, rs_from = from, rs_to = to, rs_ok = False,
       rs_kind = ''error'', rs_message_type = ''control'', rs_priority = 1, rs_batch_id = [],
       rs_batch_index = 0, rs_batch_size = 0, rs_body = as_bytes body, rs_nonce = [], rs_ts = ts,
       rs_encrypted = False, rs_sender_pubkey = [], rs_sender_role = None, rs_signature = [] \<rparr>"

definition rs_signature_material :: "DirectResponse \<Rightarrow> u8 list \<Rightarrow> u8 list" where
  "rs_signature_material r clear_body = join_with BAR
     [as_bytes (rs_message_id r), as_bytes (rs_in_reply_to r), as_bytes (rs_from r),
      as_bytes (rs_to r), as_bytes (bool_text (rs_ok r)), as_bytes (rs_kind r),
      as_bytes (rs_message_type r), le_bytes 1 (rs_priority r), as_bytes (rs_batch_id r),
      le_bytes 4 (rs_batch_index r), le_bytes 4 (rs_batch_size r), le_bytes 8 (rs_ts r),
      as_bytes (rs_nonce r), as_bytes (rs_sender_pubkey r), clear_body]"

section \<open>Configuration messages\<close>

definition normalize_string_list :: "string list \<Rightarrow> string list" where
  "normalize_string_list items =
     remdups_adj (sort (filter (\<lambda>s. s \<noteq> []) (map str_trim items)))"

definition normalize_role :: "string \<Rightarrow> string" where
  "normalize_role r = str_lower (str_trim r)"

record ConfigBundle =
  cb_role :: string
  cb_policy_version :: u64
  cb_allowed_peers :: "string list"
  cb_bootstrap_addrs :: "string list"
  cb_issued_at :: u64

definition cb_normalized :: "ConfigBundle \<Rightarrow> ConfigBundle" where
  "cb_normalized b = b\<lparr> cb_role := normalize_role (cb_role b),
     cb_allowed_peers := normalize_string_list (cb_allowed_peers b),
     cb_bootstrap_addrs := normalize_string_list (cb_bootstrap_addrs b) \<rparr>"

record ConfigRequest =
  cq_message_id :: string
  cq_from :: string
  cq_to :: string
  cq_kind :: string
  cq_body :: string
  cq_nonce :: string
  cq_ts :: u64
  cq_encrypted :: bool
  cq_sender_pubkey :: string
  cq_signature :: string

definition cq_plain :: "u64 \<Rightarrow> string \<Rightarrow> string \<Rightarrow> string \<Rightarrow> ConfigRequest" where
  "cq_plain ts from to body =
     \<lparr> cq_message_id = ''cfg-'' @ dec_str (unat ts), cq_from = from, cq_to = to,
       cq_kind = ''config_request'', cq_body = body, cq_nonce = [], cq_ts = ts,
       cq_encrypted = False, cq_sender_pubkey = [], cq_signature = [] \<rparr>"

record ConfigResponse =
  cs_message_id :: string
  cs_in_reply_to :: string
  cs_from :: string
  cs_to :: string
  cs_ok :: bool
  cs_kind :: string
  cs_body :: string
  cs_nonce :: string
  cs_ts :: u64
  cs_encrypted :: bool
  cs_sender_pubkey :: string
  cs_signature :: string

definition cs_plain :: "bool \<Rightarrow> u64 \<Rightarrow> string \<Rightarrow> string \<Rightarrow> string \<Rightarrow> string \<Rightarrow> ConfigResponse" where
  "cs_plain ok ts in_reply_to from to body =
     \<lparr> cs_message_id = ''cfg-resp-'' @ dec_str (unat ts), cs_in_reply_to = in_reply_to,
       cs_from = from, cs_to = to, cs_ok = ok, cs_kind = ''config_response'', cs_body = body,
       cs_nonce = [], cs_ts = ts, cs_encrypted = False, cs_sender_pubkey = [], cs_signature = [] \<rparr>"

definition cs_plain_ok :: "u64 \<Rightarrow> string \<Rightarrow> string \<Rightarrow> string \<Rightarrow> string \<Rightarrow> ConfigResponse" where
  "cs_plain_ok = cs_plain True"

definition cs_plain_error :: "u64 \<Rightarrow> string \<Rightarrow> string \<Rightarrow> string \<Rightarrow> string \<Rightarrow> ConfigResponse" where
  "cs_plain_error = cs_plain False"

section \<open>Gateway messages\<close>

record GatewayRequest =
  gq_message_id :: string
  gq_tracing_id :: string
  gq_from :: string
  gq_to :: string
  gq_kind :: string
  gq_method :: string
  gq_url :: string
  gq_headers :: "(string \<times> string) list"
  gq_body :: string
  gq_route :: "string list"
  gq_nonce :: string
  gq_ts :: u64
  gq_encrypted :: bool
  gq_sender_pubkey :: string
  gq_signature :: string

definition gq_plain :: "u64 \<Rightarrow> nat \<Rightarrow> string \<Rightarrow> string \<Rightarrow> string \<Rightarrow> string \<Rightarrow>
    (string \<times> string) list \<Rightarrow> string \<Rightarrow> string list \<Rightarrow> GatewayRequest" where
  "gq_plain ts nanos from to method url h body route =
     (let mid = ''gw-'' @ short_nonce nanos in
      \<lparr> gq_message_id = mid, gq_tracing_id = ''trace-'' @ mid, gq_from = from, gq_to = to,
        gq_kind = ''gateway_request'', gq_method = str_upper method, gq_url = url, gq_headers = h,
        gq_body = body, gq_route = route, gq_nonce = [], gq_ts = ts, gq_encrypted = False,
        gq_sender_pubkey = [], gq_signature = [] \<rparr>)"

record GatewayResponse =
  gs_message_id :: string
  gs_tracing_id :: string
  gs_in_reply_to :: string
  gs_from :: string
  gs_to :: string
  gs_kind :: string
  gs_ok :: bool
  gs_status :: u16
  gs_headers :: "(string \<times> string) list"
  gs_body :: string
  gs_nonce :: string
  gs_ts :: u64
  gs_encrypted :: bool
  gs_sender_pubkey :: string
  gs_signature :: string

definition gs_plain_ok :: "u64 \<Rightarrow> nat \<Rightarrow> string \<Rightarrow> string \<Rightarrow> string \<Rightarrow> u16 \<Rightarrow>
    (string \<times> string) list \<Rightarrow> string \<Rightarrow> GatewayResponse" where
  "gs_plain_ok ts nanos in_reply from to status h body =
     \<lparr> gs_message_id = ''gw-res-'' @ short_nonce nanos, gs_tracing_id = [], gs_in_reply_to = in_reply,
       gs_from = from, gs_to = to, gs_kind = ''gateway_response'', gs_ok = True, gs_status = status,
       gs_headers = h, gs_body = body, gs_nonce = [], gs_ts = ts, gs_encrypted = False,
       gs_sender_pubkey = [], gs_signature = [] \<rparr>"

definition gs_plain_error :: "u64 \<Rightarrow> nat \<Rightarrow> string \<Rightarrow> string \<Rightarrow> string \<Rightarrow> string \<Rightarrow> GatewayResponse" where
  "gs_plain_error ts nanos in_reply from to err_msg =
     \<lparr> gs_message_id = ''gw-err-'' @ short_nonce nanos, gs_tracing_id = [], gs_in_reply_to = in_reply,
       gs_from = from, gs_to = to, gs_kind = ''gateway_response'', gs_ok = False, gs_status = 502,
       gs_headers = [], gs_body = err_msg, gs_nonce = [], gs_ts = ts, gs_encrypted = False,
       gs_sender_pubkey = [], gs_signature = [] \<rparr>"

section \<open>Web messages\<close>

record WebRequest =
  wq_message_id :: string
  wq_from :: string
  wq_to :: string
  wq_kind :: string
  wq_method :: string
  wq_url :: string
  wq_headers :: "(string \<times> string) list"
  wq_body :: string
  wq_route :: "string list"
  wq_nonce :: string
  wq_ts :: u64
  wq_encrypted :: bool
  wq_sender_pubkey :: string
  wq_signature :: string

record WebResponse =
  ws_message_id :: string
  ws_in_reply_to :: string
  ws_from :: string
  ws_to :: string
  ws_kind :: string
  ws_ok :: bool
  ws_status :: u16
  ws_content_type :: string
  ws_headers :: "(string \<times> string) list"
  ws_body :: string
  ws_nonce :: string
  ws_ts :: u64
  ws_encrypted :: bool
  ws_sender_pubkey :: string
  ws_signature :: string

text \<open>
  The headers are sorted by lower-case name and then by value, stably, and adjacent equal
  pairs are merged.
\<close>

definition header_key :: "string \<times> string \<Rightarrow> string list" where
  "header_key h = [str_lower (fst h), snd h]"

definition normalize_headers :: "(string \<times> string) list \<Rightarrow> (string \<times> string) list" where
  "normalize_headers headers =
     remdups_adj (sort_key header_key
       (filter (\<lambda>(k, v). k \<noteq> [] \<and> v \<noteq> [])
         (map (\<lambda>(k, v). (str_trim k, str_trim v)) headers)))"

definition normalize_content_type :: "string \<Rightarrow> string" where
  "normalize_content_type ct =
     (let ct = str_trim ct in if ct = [] then ''text/plain; charset=utf-8'' else ct)"

definition ws_normalized :: "WebResponse \<Rightarrow> WebResponse" where
  "ws_normalized r = r\<lparr> ws_message_id := str_trim (ws_message_id r),
     ws_in_reply_to := str_trim (ws_in_reply_to r),
     ws_content_type := normalize_content_type (ws_content_type r),
     ws_headers := normalize_headers (ws_headers r),
     ws_signature := str_trim (ws_signature r) \<rparr>"

definition ws_plain_ok :: "u64 \<Rightarrow> nat \<Rightarrow> string \<Rightarrow> string \<Rightarrow> string \<Rightarrow> u16 \<Rightarrow> string \<Rightarrow>
    (string \<times> string) list \<Rightarrow> string \<Rightarrow> WebResponse" where
  "ws_plain_ok ts nanos in_reply_to from to status content_type headers body = ws_normalized
     \<lparr> ws_message_id = ''web-resp-'' @ dec_str (unat ts) @ ''-'' @ short_nonce nanos,
       ws_in_reply_to = in_reply_to, ws_from = from, ws_to = to, ws_kind = ''web_response'',
       ws_ok = True, ws_status = status, ws_content_type = content_type, ws_headers = headers,
       ws_body = body, ws_nonce = [], ws_ts = ts, ws_encrypted = False, ws_sender_pubkey = [],
       ws_signature = [] \<rparr>"

definition ws_plain_error :: "u64 \<Rightarrow> nat \<Rightarrow> string \<Rightarrow> string \<Rightarrow> string \<Rightarrow> u16 \<Rightarrow> string \<Rightarrow> WebResponse" where
  "ws_plain_error ts nanos in_reply_to from to status body = ws_normalized
     \<lparr> ws_message_id = ''web-resp-'' @ dec_str (unat ts) @ ''-'' @ short_nonce nanos,
       ws_in_reply_to = in_reply_to, ws_from = from, ws_to = to, ws_kind = ''web_response'',
       ws_ok = False, ws_status = status, ws_content_type = ''text/plain; charset=utf-8'',
       ws_headers = [], ws_body = body, ws_nonce = [], ws_ts = ts, ws_encrypted = False,
       ws_sender_pubkey = [], ws_signature = [] \<rparr>"

section \<open>Signing material\<close>

definition signing_bytes_request :: "DirectRequest \<Rightarrow> u8 list \<Rightarrow> u8 list" where
  "signing_bytes_request req clear_body = rq_signature_material req clear_body"

definition signing_bytes_response :: "DirectResponse \<Rightarrow> u8 list \<Rightarrow> u8 list" where
  "signing_bytes_response resp clear_body = rs_signature_material resp clear_body"

definition signing_bytes_gateway_request :: "GatewayRequest \<Rightarrow> string \<Rightarrow> u8 list" where
  "signing_bytes_gateway_request r clear_body = as_bytes (join_with CHR ''|''
     [gq_message_id r, gq_from r, gq_to r, gq_method r, gq_url r, dec_str (unat (gq_ts r)), clear_body])"

definition signing_bytes_gateway_response :: "GatewayResponse \<Rightarrow> string \<Rightarrow> u8 list" where
  "signing_bytes_gateway_response r clear_body = as_bytes (join_with CHR ''|''
     [gs_message_id r, gs_in_reply_to r, gs_from r, gs_to r, dec_str (unat (gs_status r)),
      dec_str (unat (gs_ts r)), gs_nonce r, clear_body])"

definition signing_bytes_web_request :: "WebRequest \<Rightarrow> string \<Rightarrow> u8 list" where
  "signing_bytes_web_request r clear_body = as_bytes (join_with CHR ''|''
     [wq_message_id r, wq_from r, wq_to r, wq_method r, wq_url r, dec_str (unat (wq_ts r)), clear_body])"

definition signing_bytes_web_response :: "WebResponse \<Rightarrow> string \<Rightarrow> u8 list" where
  "signing_bytes_web_response r clear_body = as_bytes (join_with CHR ''|''
     [ws_message_id r, ws_in_reply_to r, ws_from r, ws_to r, dec_str (unat (ws_status r)),
      ws_content_type r, dec_str (unat (ws_ts r)), ws_nonce r, clear_body])"

definition signing_bytes_config_request :: "ConfigRequest \<Rightarrow> u8 list" where
  "signing_bytes_config_request r = as_bytes (join_with CHR ''|''
     [cq_message_id r, cq_from r, cq_to r, cq_kind r, dec_str (unat (cq_ts r)), cq_nonce r])"

definition signing_bytes_config_response :: "ConfigResponse \<Rightarrow> u8 list" where
  "signing_bytes_config_response r = as_bytes (join_with CHR ''|''
     [cs_message_id r, cs_in_reply_to r, cs_from r, cs_to r, bool_text (cs_ok r),
      dec_str (unat (cs_ts r)), cs_nonce r, cs_body r])"

section \<open>Lemmas\<close>

lemma is_ws_hd_dropWhile: "dropWhile is_ws s = [] \<or> \<not> is_ws (hd (dropWhile is_ws s))"
  by (induction s) auto

lemma str_trim_idem [simp]: "str_trim (str_trim s) = str_trim s"
proof -
  have dd: "dropWhile is_ws (dropWhile is_ws s) = dropWhile is_ws s" for s
    by (simp add: dropWhile_idem comp_def)
  let ?a = "dropWhile is_ws s"
  let ?t = "rev (dropWhile is_ws (rev ?a))"
  have "dropWhile is_ws ?t = ?t"
  proof (cases "?t = []")
    case False
    obtain p where p: "?a = ?t @ p"
      by (metis rev_append rev_rev_ident takeWhile_dropWhile_id)
    then have "hd ?a = hd ?t" "?a \<noteq> []"
      using False by (metis hd_append2, metis append_is_Nil_conv)
    then have "\<not> is_ws (hd ?t)" using is_ws_hd_dropWhile[of s] by metis
    then show ?thesis using False by (cases ?t) auto
  next
    case True
    then show ?thesis by (simp only: dropWhile.simps)
  qed
  then show ?thesis by (simp add: str_trim_def dd)
qed

lemma normalize_message_type_idem: "normalize_message_type (normalize_message_type t) = normalize_message_type t"
proof -
  have "str_lower (str_trim ''control'') = ''control''" "str_lower (str_trim ''data'') = ''data''"
    by code_simp+
  then show ?thesis by (simp add: normalize_message_type_def)
qed

lemma rq_normalized_idem: "rq_normalized (rq_normalized r) = rq_normalized r"
  by (simp add: rq_normalized_def normalize_message_type_idem)

text \<open>The body of a request is kept as it is, leading and trailing blanks included.\<close>

lemma rq_plain_body [simp]: "rq_body (rq_plain ts nanos from to body) = as_bytes body"
  by (simp add: rq_plain_def rq_plain_bytes_def rq_normalized_def)

lemma normalize_string_list_props:
  "sorted (normalize_string_list l)" "distinct (normalize_string_list l)"
  "set (normalize_string_list l) = str_trim ` set l - {[]}"
proof -
  show "sorted (normalize_string_list l)" by (simp add: normalize_string_list_def)
  show "distinct (normalize_string_list l)"
    by (simp add: normalize_string_list_def remdups_adj_sorted_distinct)
  show "set (normalize_string_list l) = str_trim ` set l - {[]}"
    by (auto simp: normalize_string_list_def)
qed

lemma normalize_string_list_idem:
  "normalize_string_list (normalize_string_list l) = normalize_string_list l"
proof (rule sorted_distinct_set_unique)
  define A where "A = str_trim ` set l - {[]}"
  have "str_trim ` A = (\<lambda>x. x) ` A" by (rule image_cong) (auto simp: A_def)
  then have "str_trim ` A - {[]} = A" by (simp add: A_def)
  then show "set (normalize_string_list (normalize_string_list l)) = set (normalize_string_list l)"
    by (simp only: normalize_string_list_props(3) A_def)
qed (simp_all add: normalize_string_list_props)

section \<open>Properties\<close>

text \<open>
  The text-based signing material is unambiguous and names what it does not protect. Two
  gateway responses whose fields contain no separator and that have the same signing bytes
  agree on id, reply id, sender, receiver, status, time, nonce and body; whereas the signing
  bytes of gateway and web requests do not depend on the nonce, the headers or the route, and
  those of configuration requests not on the body.
\<close>

theorem signing_material_scope:
  "((\<forall>x\<in>{gs_message_id r, gs_in_reply_to r, gs_from r, gs_to r, gs_nonce r, b,
         gs_message_id r', gs_in_reply_to r', gs_from r', gs_to r', gs_nonce r', b'}. CHR ''|'' \<notin> set x) \<and>
    signing_bytes_gateway_response r b = signing_bytes_gateway_response r' b' \<longrightarrow>
      gs_message_id r = gs_message_id r' \<and> gs_in_reply_to r = gs_in_reply_to r' \<and> gs_from r = gs_from r' \<and>
      gs_to r = gs_to r' \<and> gs_status r = gs_status r' \<and> gs_ts r = gs_ts r' \<and> gs_nonce r = gs_nonce r' \<and> b = b') \<and>
   signing_bytes_gateway_request (q\<lparr> gq_nonce := n, gq_headers := h, gq_route := rt \<rparr>) c =
     signing_bytes_gateway_request q c \<and>
   signing_bytes_web_request (w\<lparr> wq_nonce := n, wq_headers := h, wq_route := rt \<rparr>) c =
     signing_bytes_web_request w c \<and>
   signing_bytes_config_request (cr\<lparr> cq_body := bd \<rparr>) = signing_bytes_config_request cr"
proof -
  have dig: "CHR ''|'' \<notin> set (dec_str n)" for n
    using dec_str_digit[of "CHR ''|''" n] by auto
  note inj = join_with_inj[of "[gs_message_id r, gs_in_reply_to r, gs_from r, gs_to r,
        dec_str (unat (gs_status r)), dec_str (unat (gs_ts r)), gs_nonce r, b]"
        "[gs_message_id r', gs_in_reply_to r', gs_from r', gs_to r',
        dec_str (unat (gs_status r')), dec_str (unat (gs_ts r')), gs_nonce r', b']" "CHR ''|''"]
  show ?thesis
    using dig inj
    by (simp add: signing_bytes_gateway_response_def signing_bytes_gateway_request_def
        signing_bytes_web_request_def signing_bytes_config_request_def as_bytes_inj dec_str_inj
        word_unat_eq_iff del: join_with.simps)
qed

theorem signing_material_scope_witness:
  "let r = gs_plain_ok 5 17 ''m'' ''a'' ''b'' 200 [] ''hi''; r' = gs_plain_ok 6 17 ''m'' ''a'' ''b'' 200 [] ''hi''
   in signing_bytes_gateway_response r ''hi'' \<noteq> signing_bytes_gateway_response r' ''hi''"
proof -
  let ?r = "gs_plain_ok 5 17 ''m'' ''a'' ''b'' 200 [] ''hi''"
  let ?r' = "gs_plain_ok 6 17 ''m'' ''a'' ''b'' 200 [] ''hi''"
  have "CHR ''|'' \<notin> set (short_nonce 17)"
    by (simp add: short_nonce_def hex_str.simps hex_digit_def char_of_def)
  then show ?thesis
    using signing_material_scope[of ?r "''hi''" ?r' "''hi''"]
    by (auto simp: gs_plain_ok_def)
qed

text \<open>
  Normalization is idempotent and canonical. A normalized list of addresses or peers is
  sorted, free of duplicates and blanks, has exactly the trimmed non-empty entries, and
  normalizing twice changes nothing; the same holds of a direct request, whose body is kept
  unchanged.
\<close>

theorem normalization_canonical:
  "sorted (normalize_string_list l) \<and> distinct (normalize_string_list l) \<and>
   set (normalize_string_list l) = str_trim ` set l - {[]} \<and>
   normalize_string_list (normalize_string_list l) = normalize_string_list l \<and>
   rq_normalized (rq_normalized r) = rq_normalized r \<and> rq_body (rq_normalized r) = rq_body r"
  using normalize_string_list_props normalize_string_list_idem rq_normalized_idem
  by (simp add: rq_normalized_def)

end
