(* ===== verification/Onboarding.thy ===== *)
theory Onboarding
  imports Prelude
begin

text \<open>
  Serial numbers and the signed onboarding message: \<^verbatim>\<open>verify_sn_checksum\<close> and
  \<^verbatim>\<open>auto_generate_sn\<close> of \<^verbatim>\<open>onboarding.rs\<close>, \<^verbatim>\<open>OnboardRequest\<close> of \<^verbatim>\<open>network/runtime/types.rs\<close>
  and the request that \<^verbatim>\<open>send_onboarding_request\<close> builds. The environment (master secret, host
  name), HMAC-SHA-256 and the key pair are arguments.
\<close>

definition DASH :: char where
  "DASH = CHR ''-''"

definition sn_checksum :: "(u8 list \<Rightarrow> u8 list \<Rightarrow> u8 list) \<Rightarrow> u8 list \<Rightarrow> string \<Rightarrow> string" where
  "sn_checksum hmac key base_sn =
     (let h = hex_encode (hmac key (as_bytes base_sn)) in str_upper (drop (length h - 4) h))"

definition verify_sn_checksum :: "(u8 list \<Rightarrow> u8 list \<Rightarrow> u8 list) \<Rightarrow> u8 list option \<Rightarrow> string \<Rightarrow> bool" where
  "verify_sn_checksum hmac master_secret sn =
     (let parts = split_on DASH sn in
      if length parts \<noteq> 4 \<or> parts ! 0 \<noteq> ''ESSBB'' then False
      else
        let base_sn = join_with DASH [parts ! 0, parts ! 1, parts ! 2];
            provided = parts ! 3
        in case master_secret of
             None \<Rightarrow> False
           | Some key \<Rightarrow> str_upper provided = sn_checksum hmac key base_sn)"

definition is_alphanumeric :: "char \<Rightarrow> bool" where
  "is_alphanumeric c \<longleftrightarrow>
     (let n = of_char c :: nat in 48 \<le> n \<and> n \<le> 57 \<or> 65 \<le> n \<and> n \<le> 90 \<or> 97 \<le> n \<and> n \<le> 122)"

definition auto_generate_sn :: "(u8 list \<Rightarrow> u8 list \<Rightarrow> u8 list) \<Rightarrow> u8 list option \<Rightarrow> string option \<Rightarrow> string" where
  "auto_generate_sn hmac master_secret hostname =
     (let host = (case hostname of Some h \<Rightarrow> str_upper h | None \<Rightarrow> ''NODE'');
          host_part = take 3 (filter is_alphanumeric host);
          host_part = (if host_part = [] then ''NOD'' else host_part);
          base_sn = join_with DASH [''ESSBB'', host_part, ''001'']
      in case master_secret of
           None \<Rightarrow> base_sn @ ''-0000''
         | Some key \<Rightarrow> base_sn @ DASH # sn_checksum hmac key base_sn)"

record OnboardRequest =
  ob_peer_id :: string
  ob_serial_number :: string
  ob_signature :: "u8 list"
  ob_public_key :: "u8 list"
  ob_nonce :: "u8 list"
  ob_timestamp :: u64
  ob_x25519_pubkey :: "string option"

text \<open>The \<^verbatim>\<open>Debug\<close> rendering of a byte array.\<close>

fun debug_items :: "u8 list \<Rightarrow> string" where
  "debug_items [] = []"
| "debug_items [b] = dec_str (unat b)"
| "debug_items (b # bs) = dec_str (unat b) @ '', '' @ debug_items bs"

definition debug_bytes :: "u8 list \<Rightarrow> string" where
  "debug_bytes bs = CHR ''['' # debug_items bs @ '']''"

definition build_signed_message :: "OnboardRequest \<Rightarrow> string" where
  "build_signed_message r = join_with CHR '':''
     [ob_peer_id r, ob_serial_number r, debug_bytes (ob_nonce r), dec_str (unat (ob_timestamp r)),
      (case ob_x25519_pubkey r of None \<Rightarrow> [] | Some k \<Rightarrow> k)]"

record LocalProfile =
  lp_name :: string
  lp_email :: string
  lp_peer_id :: string
  lp_serial_number :: string
  lp_is_activated :: bool
  lp_x25519_pubkey :: string

text \<open>
  One attempt of \<^verbatim>\<open>send_onboarding_request\<close>: \<open>sign\<close> is the node's key pair and \<open>encoded_pk\<close> its
  public key in the protobuf encoding.
\<close>

definition onboarding_attempt :: "(u8 list \<Rightarrow> u8 list) \<Rightarrow> u8 list \<Rightarrow> LocalProfile \<Rightarrow> u8 list \<Rightarrow> u64 \<Rightarrow>
    OnboardRequest" where
  "onboarding_attempt sign encoded_pk profile nonce timestamp =
     (let request = \<lparr> ob_peer_id = lp_peer_id profile, ob_serial_number = lp_serial_number profile,
            ob_signature = [], ob_public_key = [], ob_nonce = nonce, ob_timestamp = timestamp,
            ob_x25519_pubkey = Some (lp_x25519_pubkey profile) \<rparr>;
          message = build_signed_message request
      in request\<lparr> ob_signature := sign (as_bytes message), ob_public_key := encoded_pk \<rparr>)"

section \<open>Lemmas\<close>

lemma str_upper_idem: "str_upper (str_upper s) = str_upper s"
proof -
  have "to_upper (to_upper c) = to_upper c" for c
    by (auto simp: to_upper_def Let_def)
  then show ?thesis by (simp add: str_upper_def)
qed

lemma to_upper_dash: "to_upper c = DASH \<longleftrightarrow> c = DASH"
proof -
  have "to_upper c = CHR ''-'' \<Longrightarrow> c = CHR ''-''"
    by (auto simp: to_upper_def Let_def split: if_splits
        dest!: arg_cong[of "char_of _" _ "of_char :: char \<Rightarrow> nat"])
  moreover have "to_upper CHR ''-'' = CHR ''-''" by code_simp
  ultimately show ?thesis by (auto simp: DASH_def)
qed

lemma hex_digit_not_dash: "hex_digit d \<noteq> DASH" if "d < 16"
  using that by (auto simp: hex_digit_def DASH_def dest!: arg_cong[of "char_of _" _ "of_char :: char \<Rightarrow> nat"] split: if_splits)

lemma hex_encode_no_dash: "DASH \<notin> set (hex_encode bs)"
proof -
  have d: "hex_digit (unat b div 16) \<noteq> DASH" "hex_digit (unat b mod 16) \<noteq> DASH" for b :: u8
  proof -
    have "unat b < 2 ^ LENGTH(8)" by (rule unsigned_less)
    then show "hex_digit (unat b div 16) \<noteq> DASH" by (intro hex_digit_not_dash) simp
    show "hex_digit (unat b mod 16) \<noteq> DASH" by (intro hex_digit_not_dash) simp
  qed
  show ?thesis by (induction bs) (simp_all add: hex_encode_def d d[symmetric])
qed

lemma checksum_no_dash: "DASH \<notin> set (sn_checksum hmac key base)"
proof
  assume "DASH \<in> set (sn_checksum hmac key base)"
  then obtain c where "c \<in> set (drop (length (hex_encode (hmac key (as_bytes base))) - 4)
      (hex_encode (hmac key (as_bytes base))))" "to_upper c = DASH"
    by (auto simp: sn_checksum_def Let_def str_upper_def)
  then show False using hex_encode_no_dash in_set_dropD to_upper_dash by metis
qed

lemma host_no_dash: "DASH \<notin> set (take n (filter is_alphanumeric h))"
proof
  assume "DASH \<in> set (take n (filter is_alphanumeric h))"
  then have "is_alphanumeric DASH" by (auto dest: in_set_takeD)
  then show False by (simp add: is_alphanumeric_def DASH_def)
qed

lemma serial_number_accepted:
  "verify_sn_checksum hmac (Some key) (auto_generate_sn hmac (Some key) hostname)"
proof -
  define hp where "hp = (let host = (case hostname of Some h \<Rightarrow> str_upper h | None \<Rightarrow> ''NODE'');
          host_part = take 3 (filter is_alphanumeric host)
      in if host_part = [] then ''NOD'' else host_part)"
  have hp: "DASH \<notin> set hp"
    using host_no_dash by (auto simp: hp_def Let_def DASH_def)
  let ?base = "join_with DASH [''ESSBB'', hp, ''001'']"
  let ?parts = "[''ESSBB'', hp, ''001'', sn_checksum hmac key ?base]"
  have gen: "auto_generate_sn hmac (Some key) hostname = join_with DASH ?parts"
    by (simp add: auto_generate_sn_def hp_def Let_def)
  have "DASH \<notin> set ''ESSBB''" "DASH \<notin> set ''001''" by (simp_all add: DASH_def)
  then have "\<forall>x\<in>set ?parts. DASH \<notin> set x"
    using hp checksum_no_dash[of hmac key ?base] by (simp del: join_with.simps)
  then have "split_on DASH (auto_generate_sn hmac (Some key) hostname) = ?parts"
    unfolding gen by (intro split_on_join) simp_all
  moreover have "str_upper (sn_checksum hmac key ?base) = sn_checksum hmac key ?base"
    by (simp only: sn_checksum_def Let_def str_upper_idem)
  ultimately show ?thesis
    by (simp add: verify_sn_checksum_def del: join_with.simps)
qed

section \<open>Properties\<close>

text \<open>
  Serial numbers. The number a node generates for itself is accepted by the checksum test
  under the same master secret, whatever the host name; a number is accepted only when it has
  four parts, the prefix \<^verbatim>\<open>ESSBB\<close>, and the checksum of its first three parts, and nothing is
  accepted when the master secret is missing.
\<close>

theorem serial_number_roundtrip:
  "verify_sn_checksum hmac (Some key) (auto_generate_sn hmac (Some key) hostname) \<and>
   \<not> verify_sn_checksum hmac None sn \<and>
   (verify_sn_checksum hmac (Some key) sn \<longrightarrow>
      (\<exists>a b c. sn = join_with DASH [''ESSBB'', a, b, c] \<and>
         str_upper c = sn_checksum hmac key (join_with DASH [''ESSBB'', a, b])))"
proof (intro conjI impI)
  show "verify_sn_checksum hmac (Some key) (auto_generate_sn hmac (Some key) hostname)"
    by (rule serial_number_accepted)
  show "\<not> verify_sn_checksum hmac None sn"
    by (simp add: verify_sn_checksum_def Let_def)
  assume v: "verify_sn_checksum hmac (Some key) sn"
  then have "length (split_on DASH sn) = 4"
    by (auto simp: verify_sn_checksum_def Let_def split: if_splits)
  then obtain e a b c where p: "split_on DASH sn = [e, a, b, c]"
    by (auto simp: length_Suc_conv numeral_eq_Suc)
  then have "sn = join_with DASH [e, a, b, c]" by (metis join_split_on)
  with v p show "\<exists>a b c. sn = join_with DASH [''ESSBB'', a, b, c] \<and>
         str_upper c = sn_checksum hmac key (join_with DASH [''ESSBB'', a, b])"
    by (auto simp: verify_sn_checksum_def Let_def split: if_splits)
qed

theorem serial_number_roundtrip_witness:
  "\<exists>a b c. auto_generate_sn (\<lambda>k d. d) (Some [1]) (Some ''box'') = join_with DASH [''ESSBB'', a, b, c]"
  using serial_number_roundtrip[of "\<lambda>k d. d" "[1]" "Some ''box''"
      "auto_generate_sn (\<lambda>k d. d) (Some [1]) (Some ''box'')"] by blast

end
