(* ===== verification/Governance.thy ===== *)
theory Governance
  imports Prelude
begin

text \<open>
  Governance, \<^verbatim>\<open>governance/engine.rs\<close>, \<^verbatim>\<open>messages.rs\<close> and \<^verbatim>\<open>store.rs\<close>: proposals, votes,
  the quorum rule with its bootstrap mode, and the HMAC-protected file the engine is saved
  to. A floating-point ratio is a real number and \<open>rnd\<close> is the rounding of a division; the
  clock is a 64-bit value, so that the elapsed time wraps as in the code. The UUID, the HMAC
  function and the JSON library are arguments.
\<close>

section \<open>Data\<close>

datatype ProposalType = ActivatePeer string | BanPeer string

record Proposal =
  proposal_id :: string
  proposal_type :: ProposalType
  target :: string
  created_at :: u64
  supernode_count :: nat
  votes :: "(string, bool) hmap"
  executed :: bool

record GovernanceSnapshot =
  snap_proposals :: "Proposal list"
  quorum_percent :: real
  snap_bootstrap_exited :: bool

record GovernanceEngine =
  proposals :: "(string, Proposal) hmap"
  supernodes :: "string set"
  quorum_ratio :: real
  is_bootstrap_mode :: bool
  bootstrap_exited :: bool
  hmac_key :: "u8 list"
  bootstrap_deadline :: u64

text \<open>The libraries behind the store, and whether the file can be written.\<close>

record GovEnv =
  hmac_sha256 :: "u8 list \<Rightarrow> u8 list \<Rightarrow> u8 list"
  snap_to_json :: "GovernanceSnapshot \<Rightarrow> string option"
  snap_from_json :: "string \<Rightarrow> GovernanceSnapshot option"
  envelope_to_json :: "string \<Rightarrow> string \<Rightarrow> string"
  envelope_from_json :: "string \<Rightarrow> (string \<times> string) option"
  write_ok :: bool

text \<open>The file \<^verbatim>\<open>data/governance.json\<close>.\<close>

type_synonym gov_disk = "string option"

section \<open>The store\<close>

definition GOV_HMAC_DOMAIN :: string where
  "GOV_HMAC_DOMAIN = ''ESS-GOVERNANCE-HMAC-v1''"

definition compute_governance_hmac :: "GovEnv \<Rightarrow> string \<Rightarrow> u8 list \<Rightarrow> string" where
  "compute_governance_hmac env json key =
     hex_encode (hmac_sha256 env key (as_bytes GOV_HMAC_DOMAIN @ as_bytes json))"

definition snapshot :: "GovernanceEngine \<Rightarrow> GovernanceSnapshot" where
  "snapshot e = \<lparr> snap_proposals = map snd (proposals e), quorum_percent = quorum_ratio e,
     snap_bootstrap_exited = bootstrap_exited e \<rparr>"

definition save_governance :: "GovEnv \<Rightarrow> GovernanceEngine \<Rightarrow> u8 list \<Rightarrow> gov_disk \<Rightarrow> gov_disk" where
  "save_governance env e key disk =
     (if key = [] then disk
      else case snap_to_json env (snapshot e) of
        None \<Rightarrow> disk
      | Some json \<Rightarrow>
          let mac = compute_governance_hmac env json key;
              protected_str = envelope_to_json env json mac
          in if write_ok env then Some protected_str else disk)"

definition new_engine :: "u64 \<Rightarrow> string list \<Rightarrow> real \<Rightarrow> GovernanceEngine" where
  "new_engine now sns ratio =
     \<lparr> proposals = [], supernodes = set sns, quorum_ratio = ratio,
       is_bootstrap_mode = card (set sns) < 2, bootstrap_exited = False, hmac_key = [],
       bootstrap_deadline = now + 3600 \<rparr>"

fun restore_loop :: "Proposal list \<Rightarrow> (string, Proposal) hmap \<Rightarrow> (string, Proposal) hmap" where
  "restore_loop [] m = m"
| "restore_loop (p # ps) m = restore_loop ps (hm_put (proposal_id p) p m)"

definition restore_from_snapshot :: "GovernanceSnapshot \<Rightarrow> GovernanceEngine \<Rightarrow> GovernanceEngine" where
  "restore_from_snapshot s e =
     e\<lparr> proposals := restore_loop (snap_proposals s) (proposals e),
        quorum_ratio := quorum_percent s, bootstrap_exited := snap_bootstrap_exited s \<rparr>"

definition load_governance :: "GovEnv \<Rightarrow> u64 \<Rightarrow> u8 list \<Rightarrow> gov_disk \<Rightarrow> GovernanceEngine option" where
  "load_governance env now key disk =
     (case disk of
        None \<Rightarrow> None
      | Some content \<Rightarrow>
          (case envelope_from_json env content of
             None \<Rightarrow> None
           | Some (stored_data, stored_mac) \<Rightarrow>
               if compute_governance_hmac env stored_data key \<noteq> stored_mac then None
               else
                 (case snap_from_json env stored_data of
                    None \<Rightarrow> None
                  | Some s \<Rightarrow> Some (restore_from_snapshot s (new_engine now [] (66 / 100))))))"

section \<open>The engine\<close>

definition set_hmac_key :: "u8 list \<Rightarrow> GovernanceEngine \<Rightarrow> GovernanceEngine" where
  "set_hmac_key key e = e\<lparr> hmac_key := key \<rparr>"

definition has_hmac_key :: "GovernanceEngine \<Rightarrow> bool" where
  "has_hmac_key e \<longleftrightarrow> hmac_key e \<noteq> []"

definition evaluate_bootstrap :: "u64 \<Rightarrow> GovernanceEngine \<Rightarrow> GovernanceEngine" where
  "evaluate_bootstrap now e =
     (if is_bootstrap_mode e \<and> now > bootstrap_deadline e
      then e\<lparr> is_bootstrap_mode := False, bootstrap_exited := True \<rparr> else e)"

definition save_if_possible :: "GovEnv \<Rightarrow> GovernanceEngine \<Rightarrow> gov_disk \<Rightarrow> gov_disk" where
  "save_if_possible env e disk =
     (if hmac_key e = [] then disk else save_governance env e (hmac_key e) disk)"

text \<open>The \<^verbatim>\<open>Debug\<close> rendering of a string and of a proposal type.\<close>

definition debug_char :: "char \<Rightarrow> string" where
  "debug_char c =
     (let n = of_char c :: nat; bs = CHR 0x5C in
      if n = 0 then [bs, CHR ''0''] else if n = 9 then [bs, CHR ''t'']
      else if n = 10 then [bs, CHR ''n''] else if n = 13 then [bs, CHR ''r'']
      else if c = CHR 0x22 \<or> c = bs then [bs, c]
      else if n < 32 \<or> n = 127 then bs # ''u{'' @ hex_fixed (if n < 16 then 1 else 2) n @ ''}''
      else [c])"

definition str_debug :: "string \<Rightarrow> string" where
  "str_debug s = CHR 0x22 # concat (map debug_char s) @ [CHR 0x22]"

fun ptype_debug :: "ProposalType \<Rightarrow> string" where
  "ptype_debug (ActivatePeer p) = ''ActivatePeer('' @ str_debug p @ '')''"
| "ptype_debug (BanPeer p) = ''BanPeer('' @ str_debug p @ '')''"

definition make_id :: "ProposalType \<Rightarrow> string \<Rightarrow> string \<Rightarrow> string" where
  "make_id ptype tgt uuid = ptype_debug ptype @ ''-'' @ tgt @ ''-'' @ uuid"

definition create_proposal :: "GovEnv \<Rightarrow> u64 \<Rightarrow> string \<Rightarrow> ProposalType \<Rightarrow> string \<Rightarrow>
    GovernanceEngine \<times> gov_disk \<Rightarrow> string \<times> GovernanceEngine \<times> gov_disk" where
  "create_proposal env now uuid ptype tgt st =
     (let (e, disk) = st;
          e = evaluate_bootstrap now e;
          id = make_id ptype tgt uuid
      in if is_bootstrap_mode e \<and> \<not> bootstrap_exited e then
           let e = e\<lparr> proposals := hm_put id
                 \<lparr> proposal_id = id, proposal_type = ptype, target = tgt, created_at = now,
                   supernode_count = 1, votes = [], executed = True \<rparr> (proposals e) \<rparr>
           in (id, e, save_if_possible env e disk)
         else
           let e = e\<lparr> proposals := hm_put id
                 \<lparr> proposal_id = id, proposal_type = ptype, target = tgt, created_at = now,
                   supernode_count = card (supernodes e), votes = [], executed = False \<rparr>
                 (proposals e) \<rparr>
           in (id, e, save_if_possible env e disk))"

datatype VoteError = ProposalNotFound | AlreadyExecuted | NotASupernode

definition record_vote :: "GovEnv \<Rightarrow> u64 \<Rightarrow> string \<Rightarrow> string \<Rightarrow> bool \<Rightarrow>
    GovernanceEngine \<times> gov_disk \<Rightarrow> (VoteError + unit) \<times> GovernanceEngine \<times> gov_disk" where
  "record_vote env now pid voter approve st =
     (let (e, disk) = st; e = evaluate_bootstrap now e in
      case map_of (proposals e) pid of
        None \<Rightarrow> (Inl ProposalNotFound, e, disk)
      | Some prop \<Rightarrow>
          if executed prop then (Inl AlreadyExecuted, e, disk)
          else if voter \<notin> supernodes e then (Inl NotASupernode, e, disk)
          else
            let e = e\<lparr> proposals := hm_put pid
                   (prop\<lparr> votes := hm_put voter approve (votes prop) \<rparr>) (proposals e) \<rparr>
            in (Inr (), e, save_if_possible env e disk))"

definition yes_votes :: "Proposal \<Rightarrow> nat" where
  "yes_votes p = length (filter id (map snd (votes p)))"

definition check_quorum :: "(real \<Rightarrow> real) \<Rightarrow> u64 \<Rightarrow> GovernanceEngine \<Rightarrow> string \<Rightarrow> u64 \<Rightarrow> bool option" where
  "check_quorum rnd now e pid timeout_secs =
     (case map_of (proposals e) pid of
        None \<Rightarrow> None
      | Some prop \<Rightarrow>
          if executed prop then None
          else
            let total = real (supernode_count prop) in
            if total = 0 then Some False
            else
              let yes = real (yes_votes prop); no = real (length (votes prop)) - yes in
              if rnd (yes / total) \<ge> quorum_ratio e then Some True
              else if rnd (no / total) \<ge> quorum_ratio e then Some False
              else if total = 2 \<and> length (votes prop) = 1 then
                let elapsed = now - created_at prop in
                if elapsed > timeout_secs then Some True else None
              else None)"

definition mark_executed :: "GovEnv \<Rightarrow> u64 \<Rightarrow> string \<Rightarrow> GovernanceEngine \<times> gov_disk \<Rightarrow>
    GovernanceEngine \<times> gov_disk" where
  "mark_executed env now pid st =
     (let (e, disk) = st; e = evaluate_bootstrap now e in
      case map_of (proposals e) pid of
        None \<Rightarrow> (e, disk)
      | Some p \<Rightarrow>
          let e = e\<lparr> proposals := hm_put pid (p\<lparr> executed := True \<rparr>) (proposals e) \<rparr>
          in (e, save_if_possible env e disk))"

definition update_supernodes :: "u64 \<Rightarrow> string list \<Rightarrow> GovernanceEngine \<Rightarrow> GovernanceEngine" where
  "update_supernodes now new_list e =
     (let e = evaluate_bootstrap now e;
          old_len = card (supernodes e);
          e = e\<lparr> supernodes := set new_list \<rparr>;
          count = card (supernodes e)
      in if count \<ge> 2 \<and> old_len < 2
         then e\<lparr> is_bootstrap_mode := False, bootstrap_exited := True \<rparr>
         else if count < 2 \<and> \<not> bootstrap_exited e then e\<lparr> is_bootstrap_mode := True \<rparr>
         else e\<lparr> is_bootstrap_mode := False \<rparr>)"

text \<open>The calls that change the engine.\<close>

datatype GovCall =
    Create string ProposalType string
  | Vote string string bool
  | MarkExecuted string
  | SetSupernodes "string list"

fun gov_call :: "GovEnv \<Rightarrow> u64 \<Rightarrow> GovCall \<Rightarrow> GovernanceEngine \<times> gov_disk \<Rightarrow>
    GovernanceEngine \<times> gov_disk" where
  "gov_call env now (Create uuid ptype tgt) st = snd (create_proposal env now uuid ptype tgt st)"
| "gov_call env now (Vote pid voter approve) st = snd (record_vote env now pid voter approve st)"
| "gov_call env now (MarkExecuted pid) st = mark_executed env now pid st"
| "gov_call env now (SetSupernodes l) st = (update_supernodes now l (fst st), snd st)"

inductive gov_reach :: "GovEnv \<Rightarrow> GovernanceEngine \<times> gov_disk \<Rightarrow> bool" for env where
  init: "gov_reach env (set_hmac_key key (new_engine now sns ratio), None)"
| call: "gov_reach env st \<Longrightarrow> gov_reach env (gov_call env now c st)"

section \<open>Lemmas\<close>

lemma evaluate_bootstrap_fields [simp]:
  "proposals (evaluate_bootstrap now e) = proposals e" "supernodes (evaluate_bootstrap now e) = supernodes e"
  "quorum_ratio (evaluate_bootstrap now e) = quorum_ratio e" "hmac_key (evaluate_bootstrap now e) = hmac_key e"
  "bootstrap_deadline (evaluate_bootstrap now e) = bootstrap_deadline e"
  by (simp_all add: evaluate_bootstrap_def)

lemma update_supernodes_proposals [simp]: "proposals (update_supernodes now l e) = proposals e"
  by (simp add: update_supernodes_def Let_def)

definition gov_ok :: "GovernanceEngine \<Rightarrow> bool" where
  "gov_ok e \<longleftrightarrow> hm_ok (proposals e) \<and> finite (supernodes e) \<and>
     (\<forall>pid p. map_of (proposals e) pid = Some p \<longrightarrow> proposal_id p = pid \<and> hm_ok (votes p)) \<and>
     \<not> (is_bootstrap_mode e \<and> bootstrap_exited e)"

lemma gov_ok_bootstrap: "gov_ok e \<Longrightarrow> gov_ok (evaluate_bootstrap now e)"
  by (auto simp: gov_ok_def evaluate_bootstrap_def)

lemma gov_ok_put:
  "gov_ok e \<Longrightarrow> m = proposals e \<Longrightarrow> proposal_id p = pid \<Longrightarrow> hm_ok (votes p) \<Longrightarrow>
   gov_ok (e\<lparr> proposals := hm_put pid p m \<rparr>)"
  by (auto simp: gov_ok_def hm_ok_put map_of_hm_put)

lemma gov_ok_get: "gov_ok e \<Longrightarrow> map_of (proposals e) pid = Some p \<Longrightarrow> proposal_id p = pid \<and> hm_ok (votes p)"
  by (simp add: gov_ok_def)

lemma gov_ok_call: "gov_ok (fst st) \<Longrightarrow> gov_ok (fst (gov_call env now c st))"
proof (cases c)
  case (Create uuid ptype tgt)
  assume "gov_ok (fst st)"
  then show ?thesis
    using gov_ok_bootstrap[of "fst st" now] Create
    by (auto simp: create_proposal_def Let_def split: prod.splits intro!: gov_ok_put)
next
  case (Vote pid voter approve)
  assume "gov_ok (fst st)"
  then have "gov_ok (evaluate_bootstrap now (fst st))" by (rule gov_ok_bootstrap)
  then show ?thesis
    using Vote gov_ok_get[of "evaluate_bootstrap now (fst st)" pid]
    by (cases st) (auto simp: record_vote_def Let_def split: option.splits intro!: gov_ok_put hm_ok_put)
next
  case (MarkExecuted pid)
  assume "gov_ok (fst st)"
  then have "gov_ok (evaluate_bootstrap now (fst st))" by (rule gov_ok_bootstrap)
  then show ?thesis
    using MarkExecuted gov_ok_get[of "evaluate_bootstrap now (fst st)" pid]
    by (cases st) (auto simp: mark_executed_def Let_def split: option.splits intro!: gov_ok_put)
next
  case (SetSupernodes l)
  assume "gov_ok (fst st)"
  then have "gov_ok (evaluate_bootstrap now (fst st))" by (rule gov_ok_bootstrap)
  then show ?thesis
    using SetSupernodes by (auto simp: update_supernodes_def Let_def gov_ok_def)
qed

lemma gov_reach_ok: "gov_reach env st \<Longrightarrow> gov_ok (fst st)"
proof (induction rule: gov_reach.induct)
  case (init key now sns ratio)
  then show ?case by (simp add: gov_ok_def set_hmac_key_def new_engine_def)
qed (rule gov_ok_call)

lemma restore_loop_get:
  "distinct (map proposal_id ps) \<Longrightarrow>
   map_of (restore_loop ps m) k =
     (case map_of (map (\<lambda>p. (proposal_id p, p)) ps) k of Some p \<Rightarrow> Some p | None \<Rightarrow> map_of m k)"
proof (induction ps arbitrary: m)
  case (Cons p ps)
  have "map_of (map (\<lambda>p. (proposal_id p, p)) ps) (proposal_id p) = None"
    using Cons.prems by (auto simp: map_of_eq_None_iff)
  then show ?case
    using Cons.prems Cons.IH[of "hm_put (proposal_id p) p m"]
    by (cases "k = proposal_id p") (simp_all add: map_of_hm_put split: option.split)
qed simp

lemma proposal_keys:
  assumes "gov_ok e" and "x \<in> set (proposals e)"
  shows "proposal_id (snd x) = fst x"
proof -
  have "map_of (proposals e) (fst x) = Some (snd x)"
    using assms by (simp add: gov_ok_def hm_ok_def)
  then show ?thesis using gov_ok_get[OF assms(1)] by blast
qed

lemma proposals_by_id:
  assumes "gov_ok e"
  shows "map (\<lambda>p. (proposal_id p, p)) (map snd (proposals e)) = proposals e"
    and "map proposal_id (map snd (proposals e)) = map fst (proposals e)"
  using proposal_keys[OF assms] by (simp_all add: map_idI)

lemma load_save:
  assumes "gov_ok e" and "snap_to_json env (snapshot e) = Some json"
    and "snap_from_json env json = Some (snapshot e)"
    and "\<And>d m. envelope_from_json env (envelope_to_json env d m) = Some (d, m)"
    and "key \<noteq> []" "write_ok env"
  shows "\<exists>e'. load_governance env now key (save_governance env e key disk) = Some e' \<and>
    map_of (proposals e') = map_of (proposals e) \<and> quorum_ratio e' = quorum_ratio e \<and>
    bootstrap_exited e' = bootstrap_exited e"
proof -
  have d: "distinct (map proposal_id (map snd (proposals e)))"
    using assms(1) unfolding proposals_by_id(2)[OF assms(1)] by (simp add: gov_ok_def hm_ok_def)
  have "map_of (restore_loop (map snd (proposals e)) []) = map_of (proposals e)"
    unfolding fun_eq_iff restore_loop_get[OF d, of "[]"] proposals_by_id(1)[OF assms(1)]
    by (simp split: option.split)
  then show ?thesis
    using assms by (simp add: load_governance_def save_governance_def Let_def
        restore_from_snapshot_def new_engine_def snapshot_def)
qed

section \<open>Properties\<close>

text \<open>
  C3: proposals are decided by votes of supernodes. For every call on a reachable engine: a
  proposal that is executed stays as it is; a proposal becomes executed only by
  \<^verbatim>\<open>mark_executed\<close> or by being created in bootstrap mode, before its deadline and before
  bootstrap was ever left; a vote is recorded only for an open proposal and only from a
  current supernode, and replaces at most that voter's own vote. (A fresh UUID gives a new
  proposal a new id.)
\<close>

theorem governance_step:
  assumes "gov_reach env (e, disk)" and "gov_call env now c (e, disk) = (e', disk')"
    and fresh: "\<And>uuid pt tgt. c = Create uuid pt tgt \<Longrightarrow> map_of (proposals e) (make_id pt tgt uuid) = None"
  shows "(\<forall>pid p. map_of (proposals e) pid = Some p \<longrightarrow>
      (\<exists>p'. map_of (proposals e') pid = Some p' \<and>
         (executed p \<longrightarrow> p' = p) \<and>
         (executed p' \<and> \<not> executed p \<longrightarrow> c = MarkExecuted pid) \<and>
         (votes p' \<noteq> votes p \<longrightarrow> (\<exists>voter approve. c = Vote pid voter approve \<and> \<not> executed p \<and>
            voter \<in> supernodes e \<and> votes p' = hm_put voter approve (votes p))))) \<and>
    (\<forall>pid p. map_of (proposals e) pid = None \<and> map_of (proposals e') pid = Some p \<longrightarrow>
      votes p = [] \<and>
      (executed p \<longrightarrow> is_bootstrap_mode e \<and> \<not> bootstrap_exited e \<and> now \<le> bootstrap_deadline e))"
proof -
  have ok: "gov_ok e" using gov_reach_ok[OF assms(1)] by simp
  show ?thesis
  proof (cases c)
    case (Create uuid pt tgt)
    then show ?thesis
      using assms(2) fresh[OF Create] ok
      by (auto simp: create_proposal_def Let_def map_of_hm_put evaluate_bootstrap_def split: if_splits)
  next
    case (Vote pid voter approve)
    then show ?thesis
      using assms(2) by (auto simp: record_vote_def Let_def map_of_hm_put split: option.splits if_splits)
  next
    case (MarkExecuted pid)
    then show ?thesis
      using assms(2) by (auto simp: mark_executed_def Let_def map_of_hm_put split: option.splits if_splits)
  next
    case (SetSupernodes l)
    then show ?thesis
      using assms(2) by auto
  qed
qed

text \<open>Codecs with which the store round trips.\<close>

definition demo_gov_env :: GovEnv where
  "demo_gov_env = \<lparr> hmac_sha256 = (\<lambda>k d. k @ d),
     snap_to_json = (\<lambda>s. if snap_bootstrap_exited s then None else Some ''s''),
     snap_from_json = (\<lambda>j. Some \<lparr> snap_proposals = [], quorum_percent = 1 / 2, snap_bootstrap_exited = False \<rparr>),
     envelope_to_json = (\<lambda>d m. replicate (length d) CHR ''x'' @ '':'' @ d @ m),
     envelope_from_json = (\<lambda>s.
       let k = length (takeWhile (\<lambda>c. c = CHR ''x'') s); rest = drop (k + 1) s
       in Some (take k rest, drop k rest)),
     write_ok = True \<rparr>"

theorem governance_step_witness:
  "\<exists>p. map_of (proposals (fst (gov_call demo_gov_env 7 (Create ''u'' (BanPeer ''x'') ''x'')
       (set_hmac_key [] (new_engine 5 [''sn''] (2 / 3)), None)))) (make_id (BanPeer ''x'') ''x'' ''u'') = Some p \<and>
     votes p = []"
proof -
  let ?e = "set_hmac_key [] (new_engine 5 [''sn''] (2 / 3))"
  let ?c = "Create ''u'' (BanPeer ''x'') ''x''"
  have r: "gov_reach demo_gov_env (?e, None)" by (rule gov_reach.init)
  have none: "map_of (proposals ?e) k = None" for k by (simp add: set_hmac_key_def new_engine_def)
  obtain e' disk' where s: "gov_call demo_gov_env 7 ?c (?e, None) = (e', disk')" by force
  then obtain p where "map_of (proposals e') (make_id (BanPeer ''x'') ''x'' ''u'') = Some p"
    by (auto simp: create_proposal_def Let_def map_of_hm_put split: if_splits)
  then show ?thesis using governance_step[OF r s] none s by auto
qed

text \<open>
  The quorum rule is a majority rule. When the quorum ratio is above one half, and rounding
  is monotone and exact on one half, every decision is about a known proposal that is not
  executed, each voter counts once, an approval has yes votes from more than half of the
  supernodes counted at its creation (unless it is the two-supernode timeout), and a rejection
  has no votes from more than half of them (unless there were none).
\<close>

theorem quorum_majority:
  assumes rnd: "mono rnd" "rnd (1 / 2) = 1 / 2" and ratio: "quorum_ratio e > 1 / 2"
    and reach: "gov_reach env (e, disk)"
    and dec: "check_quorum rnd now e pid timeout = Some verdict"
  shows "\<exists>p. map_of (proposals e) pid = Some p \<and> \<not> executed p \<and> distinct (map fst (votes p)) \<and>
    (verdict \<and> \<not> (supernode_count p = 2 \<and> length (votes p) = 1) \<longrightarrow>
       supernode_count p < 2 * yes_votes p) \<and>
    (\<not> verdict \<and> supernode_count p \<noteq> 0 \<longrightarrow>
       supernode_count p < 2 * (length (votes p) - yes_votes p))"
proof -
  obtain p where p: "map_of (proposals e) pid = Some p"
    using dec by (auto simp: check_quorum_def split: option.splits)
  have d: "distinct (map fst (votes p))"
    using gov_reach_ok[OF reach] gov_ok_get[OF _ p] by (simp add: hm_ok_def)
  have le: "yes_votes p \<le> length (votes p)"
    by (simp add: yes_votes_def)
  have major: "real t < 2 * y" if "rnd (y / real t) \<ge> quorum_ratio e" "t \<noteq> 0" for y t
  proof (rule ccontr)
    assume "\<not> real t < 2 * y"
    then have "y / real t \<le> 1 / 2" using that(2) by (simp add: field_simps)
    then have "rnd (y / real t) \<le> 1 / 2" using monoD[OF rnd(1), of "y / real t" "1 / 2"] rnd(2) by simp
    with that(1) ratio show False by simp
  qed
  have yes: "supernode_count p < 2 * yes_votes p"
    if v: verdict "\<not> (supernode_count p = 2 \<and> length (votes p) = 1)"
  proof -
    have "rnd (real (yes_votes p) / real (supernode_count p)) \<ge> quorum_ratio e" "supernode_count p \<noteq> 0"
      using dec p v by (simp_all add: check_quorum_def Let_def split: if_splits)
    from major[OF this] have "real (supernode_count p) < real (2 * yes_votes p)" by simp
    then show ?thesis by (simp only: of_nat_less_iff)
  qed
  have no: "supernode_count p < 2 * (length (votes p) - yes_votes p)"
    if v: "\<not> verdict" "supernode_count p \<noteq> 0"
  proof -
    have "rnd ((real (length (votes p)) - real (yes_votes p)) / real (supernode_count p)) \<ge> quorum_ratio e"
      using dec p v by (simp add: check_quorum_def Let_def split: if_splits)
    from major[OF this v(2)] have "real (supernode_count p) < real (2 * (length (votes p) - yes_votes p))"
      using le by (simp add: of_nat_diff)
    then show ?thesis by (simp only: of_nat_less_iff)
  qed
  have "\<not> executed p" using dec p by (auto simp: check_quorum_def)
  with p d yes no show ?thesis by blast
qed

text \<open>Three supernodes and a proposal with two votes for it.\<close>

definition demo_gov_run :: "GovernanceEngine \<times> gov_disk" where
  "demo_gov_run =
     gov_call demo_gov_env 2 (Vote (make_id (BanPeer ''x'') ''x'' ''u'') ''b'' True)
      (gov_call demo_gov_env 1 (Vote (make_id (BanPeer ''x'') ''x'' ''u'') ''a'' True)
       (gov_call demo_gov_env 0 (Create ''u'' (BanPeer ''x'') ''x'')
         (set_hmac_key [] (new_engine 0 [''a'', ''b'', ''c''] (3 / 5)), None)))"

theorem quorum_majority_witness:
  "\<exists>p. map_of (proposals (fst demo_gov_run)) (make_id (BanPeer ''x'') ''x'' ''u'') = Some p \<and>
     supernode_count p < 2 * yes_votes p"
proof -
  let ?id = "make_id (BanPeer ''x'') ''x'' ''u''"
  have reach: "gov_reach demo_gov_env (fst demo_gov_run, snd demo_gov_run)"
    unfolding demo_gov_run_def prod.collapse by (intro gov_reach.intros)
  have e: "fst demo_gov_run = (new_engine 0 [''a'', ''b'', ''c''] (3 / 5))
      \<lparr> proposals := [(?id, \<lparr> proposal_id = ?id, proposal_type = BanPeer ''x'', target = ''x'', created_at = 0,
          supernode_count = 3, votes = [(''a'', True), (''b'', True)], executed = False \<rparr>)] \<rparr>"
    by (simp add: demo_gov_run_def create_proposal_def record_vote_def Let_def new_engine_def set_hmac_key_def
        evaluate_bootstrap_def hm_put_def save_if_possible_def)
  have "check_quorum (\<lambda>x. x) 5 (fst demo_gov_run) ?id 60 = Some True"
    "quorum_ratio (fst demo_gov_run) > 1 / 2"
    by (simp_all add: e check_quorum_def Let_def yes_votes_def new_engine_def)
  from quorum_majority[OF _ _ this(2) reach this(1)]
  show ?thesis by (auto simp: e mono_def)
qed

text \<open>
  The two-supernode timeout approves without approval. With two supernodes, an open
  proposal that has a single vote is approved after the timeout even when that vote is
  against it, unless one vote alone reaches the quorum.
\<close>

theorem two_node_timeout_approves_no:
  assumes "map_of (proposals e) pid = Some p" "\<not> executed p" "supernode_count p = 2"
    and "votes p = [(voter, False)]" "rnd 0 = 0" "rnd (1 / 2) < quorum_ratio e" "0 < quorum_ratio e"
    and "now - created_at p > timeout"
  shows "check_quorum rnd now e pid timeout = Some True"
  using assms by (simp add: check_quorum_def yes_votes_def Let_def)

theorem two_node_timeout_approves_no_witness:
  "check_quorum (\<lambda>x. x) 100
     ((new_engine 0 [''a'', ''b''] (66 / 100))\<lparr> proposals := [(''p'', \<lparr> proposal_id = ''p'',
        proposal_type = ActivatePeer ''x'', target = ''x'', created_at = 0, supernode_count = 2,
        votes = [(''a'', False)], executed = False \<rparr>)] \<rparr>) ''p'' 60 = Some True"
  by (rule two_node_timeout_approves_no[where p = "\<lparr> proposal_id = ''p'',
        proposal_type = ActivatePeer ''x'', target = ''x'', created_at = 0, supernode_count = 2,
        votes = [(''a'', False)], executed = False \<rparr>" and voter = "''a''"])
     (simp_all add: new_engine_def)

text \<open>
  C22: the governance file. With codecs that invert each other, an engine that is saved under
  a key and loaded under the same key comes back with the same proposals, quorum ratio and
  bootstrap flag; and nothing is loaded from a file whose recorded MAC is not the HMAC of its
  data under the given key.
\<close>

theorem governance_store_roundtrip:
  assumes "gov_reach env (e, disk)" and "snap_to_json env (snapshot e) = Some json"
    and "snap_from_json env json = Some (snapshot e)"
    and "\<And>d m. envelope_from_json env (envelope_to_json env d m) = Some (d, m)"
    and "key \<noteq> []" "write_ok env"
  shows "(\<exists>e'. load_governance env now key (save_governance env e key disk) = Some e' \<and>
      map_of (proposals e') = map_of (proposals e) \<and> quorum_ratio e' = quorum_ratio e \<and>
      bootstrap_exited e' = bootstrap_exited e) \<and>
    (\<forall>data mac. mac \<noteq> compute_governance_hmac env data key \<longrightarrow>
       load_governance env now key (Some (envelope_to_json env data mac)) = None)"
  using load_save[OF _ assms(2-6)] gov_reach_ok[OF assms(1)] assms(4)
  by (auto simp: load_governance_def)

lemma demo_envelope:
  "envelope_from_json demo_gov_env (envelope_to_json demo_gov_env d m) = Some (d, m)"
proof -
  have "takeWhile (\<lambda>c. c = CHR ''x'') (replicate (length d) CHR ''x'' @ CHR '':'' # d @ m) =
      replicate (length d) CHR ''x''" by (simp add: takeWhile_append)
  then show ?thesis by (simp add: demo_gov_env_def Let_def)
qed

theorem governance_store_roundtrip_witness:
  "\<exists>e'. load_governance demo_gov_env 9 [1, 2]
     (save_governance demo_gov_env (set_hmac_key [1, 2] (new_engine 5 [''sn''] (1 / 2))) [1, 2] None) = Some e' \<and>
     quorum_ratio e' = 1 / 2"
proof -
  let ?e = "set_hmac_key [1, 2] (new_engine 5 [''sn''] (1 / 2))"
  have r: "gov_reach demo_gov_env (?e, None)" by (rule gov_reach.init)
  have "snap_to_json demo_gov_env (snapshot ?e) = Some ''s''"
    "snap_from_json demo_gov_env ''s'' = Some (snapshot ?e)" "write_ok demo_gov_env"
    by (simp_all add: demo_gov_env_def snapshot_def set_hmac_key_def new_engine_def)
  from governance_store_roundtrip[OF r this(1,2) demo_envelope _ this(3), of "[1, 2]" 9]
  show ?thesis by (auto simp: set_hmac_key_def new_engine_def)
qed

end
