(* ===== verification/Security_Runtime.thy ===== *)
theory Security_Runtime
  imports Message Onboarding Governance
begin

text \<open>
  The security runtime, \<^verbatim>\<open>security_runtime.rs\<close>: the policy object behind its lock (replay
  cache, peer keys, authority, policy configuration), the builders and verifiers of every
  message type, the nonce cache and the rate limiter of the onboarding check. Signatures,
  Base64, JSON and SHA-256 are arguments, collected in a record; a peer is named by the text
  of its id; the clock is an argument of every call.
\<close>

section \<open>Data\<close>

datatype SecurityError =
    TimestampOutOfWindow | ReplayDetected | UnknownPeerKey | BadPeerIdentity | BadSignature
  | CryptoError string | DecodeError string

record PolicyConfig =
  pc_allowed_peers :: "string set"
  pc_allowed_actions :: "string set"
  pc_bootstrap_addrs :: "string list"
  pc_trusted_bundle_hash :: "string option"
  pc_response_verification :: bool

definition default_policy_config :: PolicyConfig where
  "default_policy_config = \<lparr> pc_allowed_peers = {}, pc_allowed_actions = {}, pc_bootstrap_addrs = [],
     pc_trusted_bundle_hash = None, pc_response_verification = True \<rparr>"

type_synonym VerifiedGatewayResponse = "u16 \<times> string"

text \<open>A registered closure; \<open>None\<close> is a panic.\<close>

type_synonym ResponseVerifier = "VerifiedGatewayResponse \<Rightarrow> (SecurityError + unit) option"

record 'pk SecEnv =
  sec_sign :: "u8 list \<Rightarrow> u8 list option"
  sec_verify :: "'pk \<Rightarrow> u8 list \<Rightarrow> u8 list \<Rightarrow> bool"
  b64_encode :: "u8 list \<Rightarrow> string"
  b64_decode :: "string \<Rightarrow> u8 list option"
  utf8_lossy :: "u8 list \<Rightarrow> string"
  bundle_to_json :: "ConfigBundle \<Rightarrow> string option"
  bundle_from_json :: "string \<Rightarrow> ConfigBundle option"
  policy_from_json :: "string \<Rightarrow> PolicyConfig option"
  sec_sha256 :: "u8 list \<Rightarrow> u8 list"

record 'pk PolicyInner =
  replay_window_secs :: nat
  replay_seen :: "(string, (string, nat) hmap) hmap"
  peer_public_keys :: "(string, 'pk) hmap"
  pi_authority :: "AuthorityManager option"
  policy_config :: PolicyConfig
  response_verifiers :: "ResponseVerifier list"

definition pi_new :: "'pk PolicyInner" where
  "pi_new = \<lparr> replay_window_secs = 300, replay_seen = [], peer_public_keys = [], pi_authority = None,
     policy_config = default_policy_config, response_verifiers = [] \<rparr>"

section \<open>Policy\<close>

definition attach_authority :: "AuthorityManager \<Rightarrow> 'pk PolicyInner \<Rightarrow> 'pk PolicyInner" where
  "attach_authority a p = p\<lparr> pi_authority := Some a \<rparr>"

definition local_role :: "string \<Rightarrow> 'pk PolicyInner \<Rightarrow> NodeRole" where
  "local_role local_id p =
     (case pi_authority p of
        None \<Rightarrow> Standard
      | Some a \<Rightarrow> (case role_of a local_id of None \<Rightarrow> Standard | Some r \<Rightarrow> r))"

definition pi_is_allowed :: "'pk PolicyInner \<Rightarrow> string \<Rightarrow> Action \<Rightarrow> bool" where
  "pi_is_allowed p peer action =
     (case pi_authority p of Some a \<Rightarrow> is_allowed a peer action | None \<Rightarrow> False)"

definition register_peer_public_key :: "string \<Rightarrow> 'pk \<Rightarrow> 'pk PolicyInner \<Rightarrow> 'pk PolicyInner" where
  "register_peer_public_key peer pk p = p\<lparr> peer_public_keys := hm_put peer pk (peer_public_keys p) \<rparr>"

definition export_config_bundle :: "u64 \<Rightarrow> 'pk PolicyInner \<Rightarrow> SecurityError + ConfigBundle" where
  "export_config_bundle now p =
     (case pi_authority p of
        None \<Rightarrow> Inl (CryptoError ''authority not attached'')
      | Some a \<Rightarrow>
          (case get_snapshot a of
             Inl e \<Rightarrow> Inl (CryptoError ''Internal Lock Poisoned'')
           | Inr s \<Rightarrow> Inr \<lparr> cb_role = [], cb_policy_version = version s,
               cb_allowed_peers = map fst (allowed_peers s), cb_bootstrap_addrs = [], cb_issued_at = now \<rparr>))"

definition pi_apply_config_bundle :: "ConfigBundle \<Rightarrow> 'pk PolicyInner \<Rightarrow> 'pk PolicyInner" where
  "pi_apply_config_bundle b p =
     p\<lparr> policy_config := (policy_config p)\<lparr>
          pc_allowed_peers := pc_allowed_peers (policy_config p) \<union> set (cb_allowed_peers b),
          pc_bootstrap_addrs := cb_bootstrap_addrs b \<rparr> \<rparr>"

definition load_policy_from_file :: "'pk SecEnv \<Rightarrow> string option \<Rightarrow> 'pk PolicyInner \<Rightarrow>
    (SecurityError + unit) \<times> 'pk PolicyInner" where
  "load_policy_from_file env content p =
     (case content of
        None \<Rightarrow> (Inl (CryptoError ''Cannot read policy file''), p)
      | Some c \<Rightarrow>
          (case policy_from_json env c of
             None \<Rightarrow> (Inl (DecodeError ''Invalid policy JSON''), p)
           | Some cfg \<Rightarrow> (Inr (), p\<lparr> policy_config := cfg \<rparr>)))"

definition verify_peer :: "'pk PolicyInner \<Rightarrow> string \<Rightarrow> SecurityError + unit" where
  "verify_peer p peer =
     (if peer \<in> pc_allowed_peers (policy_config p) then Inr ()
      else case pi_authority p of
        Some a \<Rightarrow> if is_allowed a peer Connect then Inr () else Inl BadPeerIdentity
      | None \<Rightarrow> Inl BadPeerIdentity)"

definition verify_access :: "'pk PolicyInner \<Rightarrow> string \<Rightarrow> SecurityError + unit" where
  "verify_access p action =
     (if action \<in> pc_allowed_actions (policy_config p) then Inr ()
      else Inl (CryptoError (''Action '' @ CHR 0x27 # action @ [CHR 0x27] @ '' not allowed by policy'')))"

definition verify_bundle_config :: "'pk SecEnv \<Rightarrow> u64 \<Rightarrow> 'pk PolicyInner \<Rightarrow> SecurityError + unit" where
  "verify_bundle_config env now p =
     (case pc_trusted_bundle_hash (policy_config p) of
        None \<Rightarrow> Inl (CryptoError ''trusted_bundle_hash not configured'')
      | Some h \<Rightarrow>
          (case export_config_bundle now p of
             Inl e \<Rightarrow> Inl e
           | Inr bundle \<Rightarrow>
               (case bundle_to_json env bundle of
                  None \<Rightarrow> Inl (DecodeError [])
                | Some s \<Rightarrow>
                    if hex_encode (sec_sha256 env (as_bytes s)) \<noteq> h
                    then Inl (CryptoError ''Bundle config hash mismatch'') else Inr ())))"

definition register_response_verifier ::
    "ResponseVerifier \<Rightarrow> 'pk PolicyInner \<Rightarrow> 'pk PolicyInner" where
  "register_response_verifier f p = p\<lparr> response_verifiers := response_verifiers p @ [f] \<rparr>"

fun run_response_verifiers ::
    "ResponseVerifier list \<Rightarrow> VerifiedGatewayResponse \<Rightarrow> (SecurityError + unit) option" where
  "run_response_verifiers [] v = Some (Inr ())"
| "run_response_verifiers (f # fs) v =
     (case f v of
        None \<Rightarrow> None
      | Some (Inl e) \<Rightarrow> Some (Inl e)
      | Some (Inr u) \<Rightarrow> run_response_verifiers fs v)"

definition verify_peer_key :: "'pk PolicyInner \<Rightarrow> string \<Rightarrow> 'pk \<Rightarrow> SecurityError + unit" where
  "verify_peer_key p peer pk =
     (case map_of (peer_public_keys p) peer of
        Some stored \<Rightarrow> if stored = pk then Inr () else Inl BadPeerIdentity
      | None \<Rightarrow> Inl UnknownPeerKey)"

definition verify_timestamp :: "nat \<Rightarrow> 'pk PolicyInner \<Rightarrow> u64 \<Rightarrow> SecurityError + unit" where
  "verify_timestamp now p ts =
     (if abs_diff now (unat ts) > replay_window_secs p then Inl TimestampOutOfWindow else Inr ())"

section \<open>The replay check\<close>

definition MAX_NONCES_PER_PEER :: nat where
  "MAX_NONCES_PER_PEER = 1000"

definition MAX_TRACKED_PEERS :: nat where
  "MAX_TRACKED_PEERS = 10000"

definition fresh_bucket :: "nat \<Rightarrow> nat \<Rightarrow> (string, nat) hmap \<Rightarrow> (string, nat) hmap" where
  "fresh_bucket now window bucket = m_retain (\<lambda>n t. abs_diff now t \<le> window) bucket"

definition sweep :: "nat \<Rightarrow> nat \<Rightarrow> (string, (string, nat) hmap) hmap \<Rightarrow> (string, (string, nat) hmap) hmap" where
  "sweep now window seen =
     filter (\<lambda>(peer, b). b \<noteq> []) (map (\<lambda>(peer, b). (peer, fresh_bucket now window b)) seen)"

definition bucket_of :: "(string, (string, nat) hmap) hmap \<Rightarrow> string \<Rightarrow> (string, nat) hmap" where
  "bucket_of seen peer = (case map_of seen peer of None \<Rightarrow> [] | Some b \<Rightarrow> b)"

definition check_common :: "nat \<Rightarrow> string \<Rightarrow> u64 \<Rightarrow> string \<Rightarrow> 'pk PolicyInner \<Rightarrow>
    (SecurityError + unit) \<times> 'pk PolicyInner" where
  "check_common now peer ts nonce p =
     (if abs_diff now (unat ts) > replay_window_secs p then (Inl TimestampOutOfWindow, p)
      else
        let window = replay_window_secs p;
            seen = (if length (replay_seen p) > MAX_TRACKED_PEERS
                    then sweep now window (replay_seen p) else replay_seen p);
            bucket = fresh_bucket now window (bucket_of seen peer);
            p1 = p\<lparr> replay_seen := hm_put peer bucket seen \<rparr>
        in if map_of bucket nonce \<noteq> None then (Inl ReplayDetected, p1)
           else if length bucket \<ge> MAX_NONCES_PER_PEER then (Inl ReplayDetected, p1)
           else (Inr (), p\<lparr> replay_seen := hm_put peer (hm_put nonce now bucket) seen \<rparr>))"

definition verify_nonce_uniqueness :: "nat \<Rightarrow> string \<Rightarrow> string \<Rightarrow> 'pk PolicyInner \<Rightarrow>
    (SecurityError + unit) \<times> 'pk PolicyInner" where
  "verify_nonce_uniqueness now peer nonce p =
     (let bucket = fresh_bucket now (replay_window_secs p) (bucket_of (replay_seen p) peer) in
      if map_of bucket nonce \<noteq> None
      then (Inl ReplayDetected, p\<lparr> replay_seen := hm_put peer bucket (replay_seen p) \<rparr>)
      else (Inr (), p\<lparr> replay_seen := hm_put peer (hm_put nonce now bucket) (replay_seen p) \<rparr>))"

section \<open>Builders\<close>

definition sign_data :: "'pk SecEnv \<Rightarrow> u8 list \<Rightarrow> SecurityError + string" where
  "sign_data env data =
     (case sec_sign env data of None \<Rightarrow> Inl (CryptoError []) | Some sig \<Rightarrow> Inr (b64_encode env sig))"

text \<open>\<open>nonce\<close> is the random nonce, \<open>ts\<close> the clock and \<open>nanos\<close> its nanosecond reading.\<close>

definition build_request_bytes :: "'pk SecEnv \<Rightarrow> u64 \<Rightarrow> nat \<Rightarrow> string \<Rightarrow> string \<Rightarrow> string \<Rightarrow> u8 list \<Rightarrow>
    SecurityError + DirectRequest" where
  "build_request_bytes env ts nanos nonce from to body =
     (let req = (rq_plain_bytes ts nanos from to body)\<lparr> rq_nonce := nonce, rq_ts := ts \<rparr> in
      case sign_data env (signing_bytes_request req (rq_body req)) of
        Inl e \<Rightarrow> Inl e
      | Inr s \<Rightarrow> Inr (req\<lparr> rq_signature := s \<rparr>))"

definition build_request :: "'pk SecEnv \<Rightarrow> u64 \<Rightarrow> nat \<Rightarrow> string \<Rightarrow> string \<Rightarrow> string \<Rightarrow> string \<Rightarrow>
    SecurityError + DirectRequest" where
  "build_request env ts nanos nonce from to body =
     (let req = (rq_plain ts nanos from to body)\<lparr> rq_nonce := nonce, rq_ts := ts \<rparr> in
      case sign_data env (signing_bytes_request req (rq_body req)) of
        Inl e \<Rightarrow> Inl e
      | Inr s \<Rightarrow> Inr (req\<lparr> rq_signature := s \<rparr>))"

definition finish_response :: "'pk SecEnv \<Rightarrow> u64 \<Rightarrow> string \<Rightarrow> DirectResponse \<Rightarrow> SecurityError + DirectResponse" where
  "finish_response env ts nonce resp =
     (let resp = resp\<lparr> rs_nonce := nonce, rs_ts := ts \<rparr> in
      case sign_data env (signing_bytes_response resp (rs_body resp)) of
        Inl e \<Rightarrow> Inl e
      | Inr s \<Rightarrow> Inr (resp\<lparr> rs_signature := s \<rparr>))"

definition build_response_ok :: "'pk SecEnv \<Rightarrow> u64 \<Rightarrow> nat \<Rightarrow> string \<Rightarrow> string \<Rightarrow> string \<Rightarrow> string \<Rightarrow> string \<Rightarrow>
    SecurityError + DirectResponse" where
  "build_response_ok env ts nanos nonce from to in_reply_to body =
     finish_response env ts nonce (rs_plain_ok ts nanos in_reply_to from to body)"

definition build_response_error :: "'pk SecEnv \<Rightarrow> u64 \<Rightarrow> nat \<Rightarrow> string \<Rightarrow> string \<Rightarrow> string \<Rightarrow> string \<Rightarrow> string \<Rightarrow>
    SecurityError + DirectResponse" where
  "build_response_error env ts nanos nonce from to in_reply_to body =
     finish_response env ts nonce (rs_plain_error ts nanos in_reply_to from to body)"

definition build_config_request :: "'pk SecEnv \<Rightarrow> u64 \<Rightarrow> string \<Rightarrow> string \<Rightarrow> string \<Rightarrow> string \<Rightarrow>
    SecurityError + ConfigRequest" where
  "build_config_request env ts nonce from to role =
     (let req = (cq_plain ts from to role)\<lparr> cq_nonce := nonce, cq_ts := ts \<rparr> in
      case sign_data env (signing_bytes_config_request req) of
        Inl e \<Rightarrow> Inl e
      | Inr s \<Rightarrow> Inr (req\<lparr> cq_signature := s \<rparr>))"

definition finish_config_response :: "'pk SecEnv \<Rightarrow> u64 \<Rightarrow> string \<Rightarrow> ConfigResponse \<Rightarrow> SecurityError + ConfigResponse" where
  "finish_config_response env ts nonce resp =
     (let resp = resp\<lparr> cs_nonce := nonce, cs_ts := ts \<rparr> in
      case sign_data env (signing_bytes_config_response resp) of
        Inl e \<Rightarrow> Inl e
      | Inr s \<Rightarrow> Inr (resp\<lparr> cs_signature := s \<rparr>))"

definition build_config_response_ok :: "'pk SecEnv \<Rightarrow> u64 \<Rightarrow> string \<Rightarrow> string \<Rightarrow> string \<Rightarrow> string \<Rightarrow> ConfigBundle \<Rightarrow>
    SecurityError + ConfigResponse" where
  "build_config_response_ok env ts nonce from to in_reply_to bundle =
     (case bundle_to_json env bundle of
        None \<Rightarrow> Inl (DecodeError [])
      | Some body \<Rightarrow> finish_config_response env ts nonce (cs_plain_ok ts in_reply_to from to body))"

definition build_config_response_error :: "'pk SecEnv \<Rightarrow> u64 \<Rightarrow> string \<Rightarrow> string \<Rightarrow> string \<Rightarrow> string \<Rightarrow> string \<Rightarrow>
    SecurityError + ConfigResponse" where
  "build_config_response_error env ts nonce from to in_reply_to err =
     finish_config_response env ts nonce (cs_plain_error ts in_reply_to from to err)"

definition finish_gateway_response :: "'pk SecEnv \<Rightarrow> u64 \<Rightarrow> string \<Rightarrow> GatewayResponse \<Rightarrow> string \<Rightarrow> SecurityError + GatewayResponse" where
  "finish_gateway_response env ts nonce resp body =
     (let resp = resp\<lparr> gs_nonce := nonce, gs_ts := ts \<rparr> in
      case sign_data env (signing_bytes_gateway_response resp body) of
        Inl e \<Rightarrow> Inl e
      | Inr s \<Rightarrow> Inr (resp\<lparr> gs_signature := s \<rparr>))"

definition build_gateway_response_ok :: "'pk SecEnv \<Rightarrow> u64 \<Rightarrow> nat \<Rightarrow> string \<Rightarrow> string \<Rightarrow> string \<Rightarrow> string \<Rightarrow> u16 \<Rightarrow>
    (string \<times> string) list \<Rightarrow> string \<Rightarrow> SecurityError + GatewayResponse" where
  "build_gateway_response_ok env ts nanos nonce from to in_reply_to status headers body =
     finish_gateway_response env ts nonce (gs_plain_ok ts nanos in_reply_to from to status headers body) body"

definition build_gateway_response_error :: "'pk SecEnv \<Rightarrow> u64 \<Rightarrow> nat \<Rightarrow> string \<Rightarrow> string \<Rightarrow> string \<Rightarrow> string \<Rightarrow> u16 \<Rightarrow>
    string \<Rightarrow> SecurityError + GatewayResponse" where
  "build_gateway_response_error env ts nanos nonce from to in_reply_to status err =
     finish_gateway_response env ts nonce (gs_plain_error ts nanos in_reply_to from to err) err"

definition finish_web_response :: "'pk SecEnv \<Rightarrow> u64 \<Rightarrow> string \<Rightarrow> WebResponse \<Rightarrow> string \<Rightarrow> SecurityError + WebResponse" where
  "finish_web_response env ts nonce resp body =
     (let resp = resp\<lparr> ws_nonce := nonce, ws_ts := ts \<rparr> in
      case sign_data env (signing_bytes_web_response resp body) of
        Inl e \<Rightarrow> Inl e
      | Inr s \<Rightarrow> Inr (resp\<lparr> ws_signature := s \<rparr>))"

definition build_web_response_ok :: "'pk SecEnv \<Rightarrow> u64 \<Rightarrow> nat \<Rightarrow> string \<Rightarrow> string \<Rightarrow> string \<Rightarrow> string \<Rightarrow> u16 \<Rightarrow> string \<Rightarrow>
    (string \<times> string) list \<Rightarrow> string \<Rightarrow> SecurityError + WebResponse" where
  "build_web_response_ok env ts nanos nonce from to in_reply_to status content_type headers body =
     finish_web_response env ts nonce
       (ws_plain_ok ts nanos in_reply_to from to status content_type headers body) body"

definition build_web_response_error :: "'pk SecEnv \<Rightarrow> u64 \<Rightarrow> nat \<Rightarrow> string \<Rightarrow> string \<Rightarrow> string \<Rightarrow> string \<Rightarrow> u16 \<Rightarrow>
    string \<Rightarrow> SecurityError + WebResponse" where
  "build_web_response_error env ts nanos nonce from to in_reply_to status err =
     finish_web_response env ts nonce (ws_plain_error ts nanos in_reply_to from to status err) err"

section \<open>Verifiers\<close>

text \<open>
  The part that direct messages share: key lookup, decoding of the signature, comparison of
  the addresses, signature check, in the order of the source.
\<close>

definition check_addressed :: "'pk SecEnv \<Rightarrow> 'pk PolicyInner \<Rightarrow> string \<Rightarrow> string \<Rightarrow> string \<Rightarrow> string \<Rightarrow>
    string \<Rightarrow> u8 list \<Rightarrow> SecurityError + unit" where
  "check_addressed env p local remote to from b64sig material =
     (case map_of (peer_public_keys p) remote of
        None \<Rightarrow> Inl UnknownPeerKey
      | Some pk \<Rightarrow>
          (case b64_decode env b64sig of
             None \<Rightarrow> Inl (DecodeError [])
           | Some sig \<Rightarrow>
               if to \<noteq> local \<or> from \<noteq> remote then Inl BadPeerIdentity
               else if sec_verify env pk material sig then Inr () else Inl BadSignature))"

text \<open>Configuration, gateway and web responses compare the addresses first.\<close>

definition check_addressed_first :: "'pk SecEnv \<Rightarrow> 'pk PolicyInner \<Rightarrow> string \<Rightarrow> string \<Rightarrow> string \<Rightarrow> string \<Rightarrow>
    string \<Rightarrow> u8 list \<Rightarrow> SecurityError + unit" where
  "check_addressed_first env p local remote to from b64sig material =
     (if to \<noteq> local \<or> from \<noteq> remote then Inl BadPeerIdentity
      else case map_of (peer_public_keys p) remote of
        None \<Rightarrow> Inl UnknownPeerKey
      | Some pk \<Rightarrow>
          (case b64_decode env b64sig of
             None \<Rightarrow> Inl (DecodeError [])
           | Some sig \<Rightarrow> if \<not> sec_verify env pk material sig then Inl BadSignature else Inr ()))"

text \<open>Gateway and web requests do not compare the addresses.\<close>

definition check_unaddressed :: "'pk SecEnv \<Rightarrow> 'pk PolicyInner \<Rightarrow> string \<Rightarrow> string \<Rightarrow> u8 list \<Rightarrow>
    SecurityError + unit" where
  "check_unaddressed env p remote b64sig material =
     (case map_of (peer_public_keys p) remote of
        None \<Rightarrow> Inl UnknownPeerKey
      | Some pk \<Rightarrow>
          (case b64_decode env b64sig of
             None \<Rightarrow> Inl (DecodeError [])
           | Some sig \<Rightarrow> if sec_verify env pk material sig then Inr () else Inl BadSignature))"

definition after_common :: "nat \<Rightarrow> string \<Rightarrow> u64 \<Rightarrow> string \<Rightarrow> ('pk PolicyInner \<Rightarrow> SecurityError + 'a) \<Rightarrow>
    'pk PolicyInner \<Rightarrow> (SecurityError + 'a) \<times> 'pk PolicyInner" where
  "after_common now remote ts nonce k p =
     (case check_common now remote ts nonce p of
        (Inl e, p') \<Rightarrow> (Inl e, p')
      | (Inr u, p') \<Rightarrow> (k p', p'))"

definition map_ok :: "'a \<Rightarrow> SecurityError + unit \<Rightarrow> SecurityError + 'a" where
  "map_ok a r = (case r of Inl e \<Rightarrow> Inl e | Inr u \<Rightarrow> Inr a)"

definition verify_request :: "'pk SecEnv \<Rightarrow> nat \<Rightarrow> string \<Rightarrow> string \<Rightarrow> DirectRequest \<Rightarrow> 'pk PolicyInner \<Rightarrow>
    (SecurityError + string) \<times> 'pk PolicyInner" where
  "verify_request env now local remote req = after_common now remote (rq_ts req) (rq_nonce req)
     (\<lambda>p. map_ok (utf8_lossy env (rq_body req))
        (check_addressed env p local remote (rq_to req) (rq_from req) (rq_signature req)
           (signing_bytes_request req (rq_body req))))"

definition verify_response :: "'pk SecEnv \<Rightarrow> nat \<Rightarrow> string \<Rightarrow> string \<Rightarrow> DirectResponse \<Rightarrow> 'pk PolicyInner \<Rightarrow>
    (SecurityError + string) \<times> 'pk PolicyInner" where
  "verify_response env now local remote resp = after_common now remote (rs_ts resp) (rs_nonce resp)
     (\<lambda>p. map_ok (utf8_lossy env (rs_body resp))
        (check_addressed env p local remote (rs_to resp) (rs_from resp) (rs_signature resp)
           (signing_bytes_response resp (rs_body resp))))"

definition verify_response_bytes :: "'pk SecEnv \<Rightarrow> nat \<Rightarrow> string \<Rightarrow> string \<Rightarrow> DirectResponse \<Rightarrow> 'pk PolicyInner \<Rightarrow>
    (SecurityError + u8 list) \<times> 'pk PolicyInner" where
  "verify_response_bytes env now local remote resp = after_common now remote (rs_ts resp) (rs_nonce resp)
     (\<lambda>p. map_ok (rs_body resp)
        (check_addressed env p local remote (rs_to resp) (rs_from resp) (rs_signature resp)
           (signing_bytes_response resp (rs_body resp))))"

definition verify_config_request :: "'pk SecEnv \<Rightarrow> nat \<Rightarrow> string \<Rightarrow> string \<Rightarrow> ConfigRequest \<Rightarrow> 'pk PolicyInner \<Rightarrow>
    (SecurityError + unit) \<times> 'pk PolicyInner" where
  "verify_config_request env now local remote req = after_common now remote (cq_ts req) (cq_nonce req)
     (\<lambda>p. check_addressed_first env p local remote (cq_to req) (cq_from req) (cq_signature req)
        (signing_bytes_config_request req))"

definition verify_config_response :: "'pk SecEnv \<Rightarrow> nat \<Rightarrow> string \<Rightarrow> string \<Rightarrow> ConfigResponse \<Rightarrow> 'pk PolicyInner \<Rightarrow>
    (SecurityError + ConfigBundle) \<times> 'pk PolicyInner" where
  "verify_config_response env now local remote resp = after_common now remote (cs_ts resp) (cs_nonce resp)
     (\<lambda>p. case check_addressed_first env p local remote (cs_to resp) (cs_from resp) (cs_signature resp)
             (signing_bytes_config_response resp) of
        Inl e \<Rightarrow> Inl e
      | Inr u \<Rightarrow>
          if cs_ok resp then
            (case bundle_from_json env (cs_body resp) of None \<Rightarrow> Inl (DecodeError []) | Some b \<Rightarrow> Inr b)
          else Inl (CryptoError (cs_body resp)))"

definition verify_gateway_request :: "'pk SecEnv \<Rightarrow> nat \<Rightarrow> string \<Rightarrow> string \<Rightarrow> GatewayRequest \<Rightarrow> 'pk PolicyInner \<Rightarrow>
    (SecurityError + string) \<times> 'pk PolicyInner" where
  "verify_gateway_request env now local remote req = after_common now remote (gq_ts req) (gq_nonce req)
     (\<lambda>p. map_ok (gq_body req)
        (check_unaddressed env p remote (gq_signature req) (signing_bytes_gateway_request req (gq_body req))))"

definition verify_gateway_response :: "'pk SecEnv \<Rightarrow> nat \<Rightarrow> string \<Rightarrow> string \<Rightarrow> GatewayResponse \<Rightarrow> 'pk PolicyInner \<Rightarrow>
    (SecurityError + VerifiedGatewayResponse) \<times> 'pk PolicyInner" where
  "verify_gateway_response env now local remote resp = after_common now remote (gs_ts resp) (gs_nonce resp)
     (\<lambda>p. map_ok (gs_status resp, gs_body resp)
        (check_addressed_first env p local remote (gs_to resp) (gs_from resp) (gs_signature resp)
           (signing_bytes_gateway_response resp (gs_body resp))))"

definition verify_web_request :: "'pk SecEnv \<Rightarrow> nat \<Rightarrow> string \<Rightarrow> string \<Rightarrow> WebRequest \<Rightarrow> 'pk PolicyInner \<Rightarrow>
    (SecurityError + string) \<times> 'pk PolicyInner" where
  "verify_web_request env now local remote req = after_common now remote (wq_ts req) (wq_nonce req)
     (\<lambda>p. map_ok (wq_body req)
        (check_unaddressed env p remote (wq_signature req) (signing_bytes_web_request req (wq_body req))))"

definition verify_web_response :: "'pk SecEnv \<Rightarrow> nat \<Rightarrow> string \<Rightarrow> string \<Rightarrow> WebResponse \<Rightarrow> 'pk PolicyInner \<Rightarrow>
    (SecurityError + (u16 \<times> string \<times> string)) \<times> 'pk PolicyInner" where
  "verify_web_response env now local remote resp = after_common now remote (ws_ts resp) (ws_nonce resp)
     (\<lambda>p. map_ok (ws_status resp, ws_content_type resp, ws_body resp)
        (check_addressed_first env p local remote (ws_to resp) (ws_from resp) (ws_signature resp)
           (signing_bytes_web_response resp (ws_body resp))))"

record VoteMessage =
  vm_proposal_id :: string
  vm_voter :: string
  vm_approve :: bool
  vm_nonce :: string
  vm_timestamp :: u64
  vm_signature :: string

definition verify_governance_vote :: "'pk SecEnv \<Rightarrow> 'pk PolicyInner \<Rightarrow> VoteMessage \<Rightarrow> string \<Rightarrow> SecurityError + unit" where
  "verify_governance_vote env p vote voter_peer_id =
     (case map_of (peer_public_keys p) voter_peer_id of
        None \<Rightarrow> Inl UnknownPeerKey
      | Some pk \<Rightarrow>
          let payload = join_with CHR '':'' [vm_proposal_id vote, vm_voter vote, bool_text (vm_approve vote),
                vm_nonce vote, dec_str (unat (vm_timestamp vote))]
          in (case b64_decode env (vm_signature vote) of
                None \<Rightarrow> Inl (DecodeError ''bad sig'')
              | Some sig \<Rightarrow> if sec_verify env pk (as_bytes payload) sig then Inr () else Inl BadSignature))"

section \<open>Nonce cache and rate limiter of the onboarding check\<close>

text \<open>Instants and durations are in nanoseconds.\<close>

definition secs :: "nat \<Rightarrow> nat" where
  "secs n = n * 10 ^ 9"

definition NONCE_TTL_SECS :: nat where
  "NONCE_TTL_SECS = 900"

definition MAX_CACHE_SIZE :: nat where
  "MAX_CACHE_SIZE = 10000"

type_synonym NonceCache = "(u8 list, nat) hmap"

fun min_by_key :: "('a \<Rightarrow> nat) \<Rightarrow> 'a list \<Rightarrow> 'a option" where
  "min_by_key f [] = None"
| "min_by_key f (x # xs) =
     (case min_by_key f xs of None \<Rightarrow> Some x | Some y \<Rightarrow> if f x \<le> f y then Some x else Some y)"

definition nc_record :: "nat \<Rightarrow> u8 list \<Rightarrow> NonceCache \<Rightarrow> bool \<times> NonceCache" where
  "nc_record now nonce seen =
     (let seen = m_retain (\<lambda>k t. now - t < secs NONCE_TTL_SECS) seen in
      if map_of seen nonce \<noteq> None then (False, seen)
      else
        let seen = (if length seen \<ge> MAX_CACHE_SIZE then
              (case min_by_key snd seen of Some (oldest_key, t) \<Rightarrow> m_del oldest_key seen | None \<Rightarrow> seen)
              else seen)
        in (True, hm_put nonce now seen))"

record RateLimiter =
  rl_attempts :: "(string, nat list) hmap"
  rl_max_attempts :: nat
  rl_window :: nat

definition rl_new :: "nat \<Rightarrow> nat \<Rightarrow> RateLimiter" where
  "rl_new max_attempts window_secs =
     \<lparr> rl_attempts = [], rl_max_attempts = max_attempts, rl_window = secs window_secs \<rparr>"

definition rl_entry :: "RateLimiter \<Rightarrow> string \<Rightarrow> nat list" where
  "rl_entry l key = (case map_of (rl_attempts l) key of None \<Rightarrow> [] | Some ts \<Rightarrow> ts)"

definition rl_check :: "nat \<Rightarrow> string \<Rightarrow> RateLimiter \<Rightarrow> bool \<times> RateLimiter" where
  "rl_check now key l =
     (let entry = filter (\<lambda>t. now - t < rl_window l) (rl_entry l key) in
      if length entry \<ge> rl_max_attempts l
      then (False, l\<lparr> rl_attempts := hm_put key entry (rl_attempts l) \<rparr>)
      else (True, l\<lparr> rl_attempts := hm_put key (entry @ [now]) (rl_attempts l) \<rparr>))"

section \<open>The runtime\<close>

record 'pk SecurityRuntime =
  rt_inner :: "'pk PolicyInner"
  rt_poisoned :: bool
  total_failures :: u64
  nonce_cache :: NonceCache
  sn_rate_limiter :: RateLimiter

definition rt_new :: "'pk SecurityRuntime" where
  "rt_new = \<lparr> rt_inner = pi_new, rt_poisoned = False, total_failures = 0, nonce_cache = [],
     sn_rate_limiter = rl_new 5 60 \<rparr>"

text \<open>The closures run under the lock; the result \<open>None\<close> of a closure is a panic, which is caught.\<close>

definition read_protected :: "('pk PolicyInner \<Rightarrow> (SecurityError + 'a) option) \<Rightarrow> 'pk SecurityRuntime \<Rightarrow>
    SecurityError + 'a" where
  "read_protected f rt =
     (if rt_poisoned rt then Inl (CryptoError ''Lock poisoned'')
      else case f (rt_inner rt) of Some r \<Rightarrow> r | None \<Rightarrow> Inl (CryptoError ''Security read panic''))"

definition write_protected :: "('pk PolicyInner \<Rightarrow> (SecurityError + 'a) option \<times> 'pk PolicyInner) \<Rightarrow>
    'pk SecurityRuntime \<Rightarrow> (SecurityError + 'a) \<times> 'pk SecurityRuntime" where
  "write_protected f rt =
     (if rt_poisoned rt then (Inl (CryptoError ''Lock poisoned''), rt)
      else case f (rt_inner rt) of
        (Some r, p) \<Rightarrow> (r, rt\<lparr> rt_inner := p \<rparr>)
      | (None, p) \<Rightarrow> (Inl (CryptoError ''Security write panic''),
            rt\<lparr> rt_inner := p, total_failures := total_failures rt + 1 \<rparr>))"

definition returning :: "('s \<Rightarrow> 'r \<times> 's) \<Rightarrow> 's \<Rightarrow> 'r option \<times> 's" where
  "returning f s = (case f s of (r, s') \<Rightarrow> (Some r, s'))"

definition rt_attach_authority :: "AuthorityManager \<Rightarrow> 'pk SecurityRuntime \<Rightarrow> 'pk SecurityRuntime" where
  "rt_attach_authority a rt =
     (if rt_poisoned rt then rt else rt\<lparr> rt_inner := attach_authority a (rt_inner rt) \<rparr>)"

definition current_role :: "string \<Rightarrow> 'pk SecurityRuntime \<Rightarrow> NodeRole" where
  "current_role local_id rt = (if rt_poisoned rt then Observer else local_role local_id (rt_inner rt))"

definition rt_is_allowed :: "'pk SecurityRuntime \<Rightarrow> string \<Rightarrow> Action \<Rightarrow> bool" where
  "rt_is_allowed rt peer action = (\<not> rt_poisoned rt \<and> pi_is_allowed (rt_inner rt) peer action)"

definition apply_bundle :: "ConfigBundle \<Rightarrow> 'pk SecurityRuntime \<Rightarrow> (SecurityError + unit) \<times> 'pk SecurityRuntime" where
  "apply_bundle b = write_protected (\<lambda>p. (Some (Inr ()), pi_apply_config_bundle b p))"

definition register_peer_key :: "string \<Rightarrow> 'pk \<Rightarrow> 'pk SecurityRuntime \<Rightarrow>
    (SecurityError + unit) \<times> 'pk SecurityRuntime" where
  "register_peer_key peer pk = write_protected (\<lambda>p. (Some (Inr ()), register_peer_public_key peer pk p))"

definition verify_direct_request :: "'pk SecEnv \<Rightarrow> nat \<Rightarrow> string \<Rightarrow> string \<Rightarrow> DirectRequest \<Rightarrow>
    'pk SecurityRuntime \<Rightarrow> (SecurityError + string) \<times> 'pk SecurityRuntime" where
  "verify_direct_request env now local remote req =
     write_protected (returning (verify_request env now local remote req))"

definition verify_direct_response :: "'pk SecEnv \<Rightarrow> nat \<Rightarrow> string \<Rightarrow> string \<Rightarrow> DirectResponse \<Rightarrow>
    'pk SecurityRuntime \<Rightarrow> (SecurityError + string) \<times> 'pk SecurityRuntime" where
  "verify_direct_response env now local remote resp =
     write_protected (returning (verify_response env now local remote resp))"

definition verify_direct_response_bytes :: "'pk SecEnv \<Rightarrow> nat \<Rightarrow> string \<Rightarrow> string \<Rightarrow> DirectResponse \<Rightarrow>
    'pk SecurityRuntime \<Rightarrow> (SecurityError + u8 list) \<times> 'pk SecurityRuntime" where
  "verify_direct_response_bytes env now local remote resp =
     write_protected (returning (verify_response_bytes env now local remote resp))"

definition rt_verify_config_request :: "'pk SecEnv \<Rightarrow> nat \<Rightarrow> string \<Rightarrow> string \<Rightarrow> ConfigRequest \<Rightarrow>
    'pk SecurityRuntime \<Rightarrow> (SecurityError + unit) \<times> 'pk SecurityRuntime" where
  "rt_verify_config_request env now local remote req =
     write_protected (returning (verify_config_request env now local remote req))"

definition rt_verify_config_response :: "'pk SecEnv \<Rightarrow> nat \<Rightarrow> string \<Rightarrow> string \<Rightarrow> ConfigResponse \<Rightarrow>
    'pk SecurityRuntime \<Rightarrow> (SecurityError + ConfigBundle) \<times> 'pk SecurityRuntime" where
  "rt_verify_config_response env now local remote resp =
     write_protected (returning (verify_config_response env now local remote resp))"

definition rt_verify_gateway_request :: "'pk SecEnv \<Rightarrow> nat \<Rightarrow> string \<Rightarrow> string \<Rightarrow> GatewayRequest \<Rightarrow>
    'pk SecurityRuntime \<Rightarrow> (SecurityError + string) \<times> 'pk SecurityRuntime" where
  "rt_verify_gateway_request env now local remote req =
     write_protected (returning (verify_gateway_request env now local remote req))"

text \<open>The gateway response also passes the registered verifiers.\<close>

definition rt_verify_gateway_response :: "'pk SecEnv \<Rightarrow> nat \<Rightarrow> string \<Rightarrow> string \<Rightarrow> GatewayResponse \<Rightarrow>
    'pk SecurityRuntime \<Rightarrow> (SecurityError + VerifiedGatewayResponse) \<times> 'pk SecurityRuntime" where
  "rt_verify_gateway_response env now local remote resp = write_protected (\<lambda>p.
     (case verify_gateway_response env now local remote resp p of
        (Inl e, p') \<Rightarrow> (Some (Inl e), p')
      | (Inr v, p') \<Rightarrow>
          (map_option (map_ok v) (run_response_verifiers (response_verifiers p') v), p')))"

definition rt_verify_web_request :: "'pk SecEnv \<Rightarrow> nat \<Rightarrow> string \<Rightarrow> string \<Rightarrow> WebRequest \<Rightarrow>
    'pk SecurityRuntime \<Rightarrow> (SecurityError + string) \<times> 'pk SecurityRuntime" where
  "rt_verify_web_request env now local remote req =
     write_protected (returning (verify_web_request env now local remote req))"

definition rt_verify_web_response :: "'pk SecEnv \<Rightarrow> nat \<Rightarrow> string \<Rightarrow> string \<Rightarrow> WebResponse \<Rightarrow>
    'pk SecurityRuntime \<Rightarrow> (SecurityError + (u16 \<times> string \<times> string)) \<times> 'pk SecurityRuntime" where
  "rt_verify_web_response env now local remote resp =
     write_protected (returning (verify_web_response env now local remote resp))"

definition build_direct_request :: "'pk SecEnv \<Rightarrow> u64 \<Rightarrow> nat \<Rightarrow> string \<Rightarrow> string \<Rightarrow> string \<Rightarrow> string \<Rightarrow>
    'pk SecurityRuntime \<Rightarrow> SecurityError + DirectRequest" where
  "build_direct_request env ts nanos nonce from to body =
     read_protected (\<lambda>p. Some (build_request env ts nanos nonce from to body))"

definition build_direct_request_bytes :: "'pk SecEnv \<Rightarrow> u64 \<Rightarrow> nat \<Rightarrow> string \<Rightarrow> string \<Rightarrow> string \<Rightarrow> u8 list \<Rightarrow>
    'pk SecurityRuntime \<Rightarrow> SecurityError + DirectRequest" where
  "build_direct_request_bytes env ts nanos nonce from to body =
     read_protected (\<lambda>p. Some (build_request_bytes env ts nanos nonce from to body))"

definition rt_build_config_request :: "'pk SecEnv \<Rightarrow> u64 \<Rightarrow> string \<Rightarrow> string \<Rightarrow> string \<Rightarrow> string \<Rightarrow>
    'pk SecurityRuntime \<Rightarrow> SecurityError + ConfigRequest" where
  "rt_build_config_request env ts nonce from to role =
     read_protected (\<lambda>p. Some (build_config_request env ts nonce from to role))"

definition build_direct_response_ok :: "'pk SecEnv \<Rightarrow> u64 \<Rightarrow> nat \<Rightarrow> string \<Rightarrow> string \<Rightarrow> string \<Rightarrow> string \<Rightarrow> string \<Rightarrow>
    'pk SecurityRuntime \<Rightarrow> SecurityError + DirectResponse" where
  "build_direct_response_ok env ts nanos nonce from to mid body =
     read_protected (\<lambda>p. Some (build_response_ok env ts nanos nonce from to mid body))"

definition build_direct_response_error :: "'pk SecEnv \<Rightarrow> u64 \<Rightarrow> nat \<Rightarrow> string \<Rightarrow> string \<Rightarrow> string \<Rightarrow> string \<Rightarrow> string \<Rightarrow>
    'pk SecurityRuntime \<Rightarrow> SecurityError + DirectResponse" where
  "build_direct_response_error env ts nanos nonce from to mid err =
     read_protected (\<lambda>p. Some (build_response_error env ts nanos nonce from to mid err))"

definition rt_build_config_response_ok :: "'pk SecEnv \<Rightarrow> u64 \<Rightarrow> string \<Rightarrow> string \<Rightarrow> string \<Rightarrow> string \<Rightarrow> ConfigBundle \<Rightarrow>
    'pk SecurityRuntime \<Rightarrow> SecurityError + ConfigResponse" where
  "rt_build_config_response_ok env ts nonce from to mid bundle =
     read_protected (\<lambda>p. Some (build_config_response_ok env ts nonce from to mid bundle))"

definition rt_build_config_response_error :: "'pk SecEnv \<Rightarrow> u64 \<Rightarrow> string \<Rightarrow> string \<Rightarrow> string \<Rightarrow> string \<Rightarrow> string \<Rightarrow>
    'pk SecurityRuntime \<Rightarrow> SecurityError + ConfigResponse" where
  "rt_build_config_response_error env ts nonce from to mid err =
     read_protected (\<lambda>p. Some (build_config_response_error env ts nonce from to mid err))"

definition rt_build_gateway_response_ok :: "'pk SecEnv \<Rightarrow> u64 \<Rightarrow> nat \<Rightarrow> string \<Rightarrow> string \<Rightarrow> string \<Rightarrow> string \<Rightarrow> u16 \<Rightarrow> (string \<times> string) list \<Rightarrow> string \<Rightarrow>
    'pk SecurityRuntime \<Rightarrow> SecurityError + GatewayResponse" where
  "rt_build_gateway_response_ok env ts nanos nonce from to mid s h b =
     read_protected (\<lambda>p. Some (build_gateway_response_ok env ts nanos nonce from to mid s h b))"

definition rt_build_gateway_response_error :: "'pk SecEnv \<Rightarrow> u64 \<Rightarrow> nat \<Rightarrow> string \<Rightarrow> string \<Rightarrow> string \<Rightarrow> string \<Rightarrow> u16 \<Rightarrow> string \<Rightarrow>
    'pk SecurityRuntime \<Rightarrow> SecurityError + GatewayResponse" where
  "rt_build_gateway_response_error env ts nanos nonce from to mid s err =
     read_protected (\<lambda>p. Some (build_gateway_response_error env ts nanos nonce from to mid s err))"

definition rt_build_web_response_ok :: "'pk SecEnv \<Rightarrow> u64 \<Rightarrow> nat \<Rightarrow> string \<Rightarrow> string \<Rightarrow> string \<Rightarrow> string \<Rightarrow> u16 \<Rightarrow> string \<Rightarrow> (string \<times> string) list \<Rightarrow> string \<Rightarrow>
    'pk SecurityRuntime \<Rightarrow> SecurityError + WebResponse" where
  "rt_build_web_response_ok env ts nanos nonce from to mid s ct h b =
     read_protected (\<lambda>p. Some (build_web_response_ok env ts nanos nonce from to mid s ct h b))"

definition rt_build_web_response_error :: "'pk SecEnv \<Rightarrow> u64 \<Rightarrow> nat \<Rightarrow> string \<Rightarrow> string \<Rightarrow> string \<Rightarrow> string \<Rightarrow> u16 \<Rightarrow> string \<Rightarrow>
    'pk SecurityRuntime \<Rightarrow> SecurityError + WebResponse" where
  "rt_build_web_response_error env ts nanos nonce from to mid s err =
     read_protected (\<lambda>p. Some (build_web_response_error env ts nanos nonce from to mid s err))"

definition rt_verify_peer :: "string \<Rightarrow>
    'pk SecurityRuntime \<Rightarrow> SecurityError + unit" where
  "rt_verify_peer peer =
     read_protected (\<lambda>p. Some (verify_peer p peer))"

definition rt_verify_access :: "string \<Rightarrow>
    'pk SecurityRuntime \<Rightarrow> SecurityError + unit" where
  "rt_verify_access action =
     read_protected (\<lambda>p. Some (verify_access p action))"

definition rt_verify_bundle_config :: "'pk SecEnv \<Rightarrow> u64 \<Rightarrow>
    'pk SecurityRuntime \<Rightarrow> SecurityError + unit" where
  "rt_verify_bundle_config env now =
     read_protected (\<lambda>p. Some (verify_bundle_config env now p))"

definition rt_verify_peer_key :: "string \<Rightarrow> 'pk \<Rightarrow>
    'pk SecurityRuntime \<Rightarrow> SecurityError + unit" where
  "rt_verify_peer_key peer pk =
     read_protected (\<lambda>p. Some (verify_peer_key p peer pk))"

definition sign_governance_payload :: "'pk SecEnv \<Rightarrow> string \<Rightarrow>
    'pk SecurityRuntime \<Rightarrow> SecurityError + string" where
  "sign_governance_payload env payload =
     read_protected (\<lambda>p. Some (sign_data env (as_bytes payload)))"

definition rt_verify_governance_vote :: "'pk SecEnv \<Rightarrow> VoteMessage \<Rightarrow> string \<Rightarrow>
    'pk SecurityRuntime \<Rightarrow> SecurityError + unit" where
  "rt_verify_governance_vote env vote voter =
     read_protected (\<lambda>p. Some (verify_governance_vote env p vote voter))"

definition rt_load_policy_from_file :: "'pk SecEnv \<Rightarrow> string option \<Rightarrow> 'pk SecurityRuntime \<Rightarrow>
    (SecurityError + unit) \<times> 'pk SecurityRuntime" where
  "rt_load_policy_from_file env content = write_protected (returning (load_policy_from_file env content))"

definition rt_register_response_verifier :: "ResponseVerifier \<Rightarrow> 'pk SecurityRuntime \<Rightarrow>
    (SecurityError + unit) \<times> 'pk SecurityRuntime" where
  "rt_register_response_verifier f = write_protected (\<lambda>p. (Some (Inr ()), register_response_verifier f p))"

definition policy_status :: "'pk SecurityRuntime \<Rightarrow> PolicyConfig" where
  "policy_status rt = (if rt_poisoned rt then default_policy_config else policy_config (rt_inner rt))"

text \<open>
  The onboarding check: \<open>now\<close> is the wall clock in seconds, \<open>inst\<close> the monotonic clock, \<open>key_ok\<close>,
  \<open>sig_ok\<close> say that ed25519 accepts the encoding, \<open>ed_verify\<close> is its verification. The peer is the
  one the connection authenticates; the name inside the request is not used.
\<close>

record EdEnv =
  ed_key_ok :: "u8 list \<Rightarrow> bool"
  ed_sig_ok :: "u8 list \<Rightarrow> bool"
  ed_verify :: "u8 list \<Rightarrow> u8 list \<Rightarrow> u8 list \<Rightarrow> bool"

definition ed25519_public_key_from_bytes :: "EdEnv \<Rightarrow> u8 list \<Rightarrow> SecurityError + u8 list" where
  "ed25519_public_key_from_bytes ed bytes =
     (if length bytes \<noteq> 32 then Inl (DecodeError ''invalid public key length'')
      else if ed_key_ok ed bytes then Inr bytes else Inl (DecodeError []))"

definition ed25519_signature_from_bytes :: "EdEnv \<Rightarrow> u8 list \<Rightarrow> SecurityError + u8 list" where
  "ed25519_signature_from_bytes ed bytes =
     (if length bytes \<noteq> 64 then Inl (DecodeError ''invalid signature length'')
      else if ed_sig_ok ed bytes then Inr bytes else Inl (DecodeError []))"

definition onboard_message :: "string \<Rightarrow> OnboardRequest \<Rightarrow> string" where
  "onboard_message remote_peer_id r = join_with CHR '':''
     [remote_peer_id, ob_serial_number r, hex_encode (ob_nonce r), dec_str (unat (ob_timestamp r)),
      (case ob_x25519_pubkey r of None \<Rightarrow> [] | Some k \<Rightarrow> k)]"

definition verify_remote_identity :: "EdEnv \<Rightarrow> (u8 list \<Rightarrow> u8 list \<Rightarrow> u8 list) \<Rightarrow> u8 list option \<Rightarrow>
    nat \<Rightarrow> nat \<Rightarrow> string \<Rightarrow> OnboardRequest \<Rightarrow> 'pk SecurityRuntime \<Rightarrow> bool \<times> 'pk SecurityRuntime" where
  "verify_remote_identity ed hmac master_secret now inst remote_peer_id req rt =
     (case rl_check inst (ob_serial_number req) (sn_rate_limiter rt) of
        (False, l) \<Rightarrow> (False, rt\<lparr> sn_rate_limiter := l \<rparr>)
      | (True, l) \<Rightarrow>
          let rt = rt\<lparr> sn_rate_limiter := l \<rparr> in
          if abs_diff now (unat (ob_timestamp req)) > 900 then (False, rt)
          else case nc_record inst (ob_nonce req) (nonce_cache rt) of
            (False, c) \<Rightarrow> (False, rt\<lparr> nonce_cache := c \<rparr>)
          | (True, c) \<Rightarrow>
              let rt = rt\<lparr> nonce_cache := c \<rparr> in
              if \<not> verify_sn_checksum hmac master_secret (ob_serial_number req) then (False, rt)
              else
                (case ed25519_public_key_from_bytes ed (ob_public_key req) of
                   Inl e \<Rightarrow> (False, rt)
                 | Inr pk \<Rightarrow>
                     (case ed25519_signature_from_bytes ed (ob_signature req) of
                        Inl e \<Rightarrow> (False, rt)
                      | Inr sig \<Rightarrow> (ed_verify ed pk (as_bytes (onboard_message remote_peer_id req)) sig, rt))))"

end
