(* ===== verification/Security_Proofs.thy ===== *)
theory Security_Proofs
  imports Security_Runtime
begin

text \<open>
  What the security runtime guarantees: every accepted message is signed with the registered
  key of its sender and is inside the replay window; a message is accepted once; the replay
  cache and the attempts of the rate limiter are bounded; a message built by one node is
  accepted by another; and what the onboarding check accepts.
\<close>

section \<open>All state-changing calls on the policy object\<close>

datatype 'pk SecCall =
    VRequest string string DirectRequest
  | VResponse string string DirectResponse
  | VResponseBytes string string DirectResponse
  | VConfigRequest string string ConfigRequest
  | VConfigResponse string string ConfigResponse
  | VGatewayRequest string string GatewayRequest
  | VGatewayResponse string string GatewayResponse
  | VWebRequest string string WebRequest
  | VWebResponse string string WebResponse
  | Attach AuthorityManager
  | RegisterKey string 'pk
  | ApplyBundle ConfigBundle
  | LoadPolicy "string option"
  | RegisterVerifier ResponseVerifier

fun sec_call :: "'pk SecEnv \<Rightarrow> nat \<Rightarrow> 'pk SecCall \<Rightarrow> 'pk PolicyInner \<Rightarrow> 'pk PolicyInner" where
  "sec_call env now (VRequest l r m) p = snd (verify_request env now l r m p)"
| "sec_call env now (VResponse l r m) p = snd (verify_response env now l r m p)"
| "sec_call env now (VResponseBytes l r m) p = snd (verify_response_bytes env now l r m p)"
| "sec_call env now (VConfigRequest l r m) p = snd (verify_config_request env now l r m p)"
| "sec_call env now (VConfigResponse l r m) p = snd (verify_config_response env now l r m p)"
| "sec_call env now (VGatewayRequest l r m) p = snd (verify_gateway_request env now l r m p)"
| "sec_call env now (VGatewayResponse l r m) p = snd (verify_gateway_response env now l r m p)"
| "sec_call env now (VWebRequest l r m) p = snd (verify_web_request env now l r m p)"
| "sec_call env now (VWebResponse l r m) p = snd (verify_web_response env now l r m p)"
| "sec_call env now (Attach a) p = attach_authority a p"
| "sec_call env now (RegisterKey peer pk) p = register_peer_public_key peer pk p"
| "sec_call env now (ApplyBundle b) p = pi_apply_config_bundle b p"
| "sec_call env now (LoadPolicy c) p = snd (load_policy_from_file env c p)"
| "sec_call env now (RegisterVerifier f) p = register_response_verifier f p"

fun sec_run :: "'pk SecEnv \<Rightarrow> (nat \<times> 'pk SecCall) list \<Rightarrow> 'pk PolicyInner \<Rightarrow> 'pk PolicyInner" where
  "sec_run env [] p = p"
| "sec_run env ((now, c) # cs) p = sec_run env cs (sec_call env now c p)"

inductive sec_reach :: "'pk SecEnv \<Rightarrow> 'pk PolicyInner \<Rightarrow> bool" for env where
  init: "sec_reach env pi_new"
| call: "sec_reach env p \<Longrightarrow> sec_reach env (sec_call env now c p)"

section \<open>The replay cache\<close>

definition replay_ok :: "'pk PolicyInner \<Rightarrow> bool" where
  "replay_ok p \<longleftrightarrow> replay_window_secs p = 300 \<and> hm_ok (replay_seen p) \<and>
     (\<forall>peer b. map_of (replay_seen p) peer = Some b \<longrightarrow> hm_ok b \<and> length b \<le> MAX_NONCES_PER_PEER)"

lemma snd_after_common [simp]: "snd (after_common now r ts n k p) = snd (check_common now r ts n p)"
  by (simp add: after_common_def split: prod.split sum.split)

lemmas verify_defs = verify_request_def verify_response_def verify_response_bytes_def
  verify_config_request_def verify_config_response_def verify_gateway_request_def
  verify_gateway_response_def verify_web_request_def verify_web_response_def

text \<open>Every call is a replay check or leaves the cache alone.\<close>

lemma sec_call_cases:
  "(\<exists>peer ts n. sec_call env now c p = snd (check_common now peer ts n p)) \<or>
   (replay_seen (sec_call env now c p) = replay_seen p \<and>
    replay_window_secs (sec_call env now c p) = replay_window_secs p)"
  by (cases c) (auto simp: verify_defs attach_authority_def register_peer_public_key_def
      pi_apply_config_bundle_def load_policy_from_file_def register_response_verifier_def
      split: option.split)

lemma hm_ok_map_snd: "hm_ok (map (\<lambda>(k, v). (k, f v)) m) \<longleftrightarrow> hm_ok m"
  by (simp add: hm_ok_def comp_def case_prod_beta)

lemma map_of_map_snd: "map_of (map (\<lambda>(k, v). (k, f v)) m) k = map_option f (map_of m k)"
  by (induction m) auto

lemma hm_ok_sweep: "hm_ok m \<Longrightarrow> hm_ok (sweep now w m)"
  by (simp add: sweep_def hm_ok_filter hm_ok_map_snd)

lemma map_of_sweep:
  "hm_ok m \<Longrightarrow> map_of (sweep now w m) peer =
     (case map_of m peer of None \<Rightarrow> None
      | Some b \<Rightarrow> if fresh_bucket now w b = [] then None else Some (fresh_bucket now w b))"
proof -
  assume "hm_ok m"
  then have "distinct (map fst (map (\<lambda>(peer, b). (peer, fresh_bucket now w b)) m))"
    by (simp add: hm_ok_def comp_def case_prod_beta)
  from map_of_m_retain[OF this, of "\<lambda>_ b. b \<noteq> []"]
  show ?thesis
    by (simp add: sweep_def m_retain_def map_of_map_snd split: option.split)
qed

lemma fresh_bucket_idem [simp]: "fresh_bucket now w (fresh_bucket now w b) = fresh_bucket now w b"
  by (simp add: fresh_bucket_def m_retain_def)

lemma fresh_bucket_Nil [simp]: "fresh_bucket now w [] = []"
  by (simp add: fresh_bucket_def m_retain_def)

lemma hm_ok_fresh: "hm_ok b \<Longrightarrow> hm_ok (fresh_bucket now w b)"
  by (simp add: fresh_bucket_def hm_ok_m_retain)

lemma length_fresh: "length (fresh_bucket now w b) \<le> length b"
  by (simp add: fresh_bucket_def m_retain_def)

lemma map_of_fresh:
  "hm_ok b \<Longrightarrow> map_of (fresh_bucket now w b) n =
     (case map_of b n of Some t \<Rightarrow> if abs_diff now t \<le> w then Some t else None | None \<Rightarrow> None)"
  by (simp add: fresh_bucket_def hm_ok_def map_of_m_retain)

lemma fresh_bucket_sweep:
  "hm_ok m \<Longrightarrow> fresh_bucket now w (bucket_of (sweep now w m) peer) = fresh_bucket now w (bucket_of m peer)"
  by (simp add: bucket_of_def map_of_sweep split: option.split)

lemma update_triv_append: "k \<notin> fst ` set m \<Longrightarrow> AList.update k v m = m @ [(k, v)]"
  by (induction m) auto

lemma bucket_of_put: "bucket_of (hm_put peer b m) peer' = (if peer' = peer then b else bucket_of m peer')"
  by (simp add: bucket_of_def map_of_hm_put)

lemma length_hm_put: "length (hm_put k v m) = (if k \<in> fst ` set m then length m else Suc (length m))"
  unfolding hm_put_def by (induction m) auto

lemma hm_ok_bucket: "replay_ok p \<Longrightarrow> hm_ok (bucket_of (replay_seen p) peer)"
  by (auto simp: replay_ok_def bucket_of_def split: option.split)

text \<open>The replay check in terms of the fresh part of the sender's bucket.\<close>

definition swept :: "nat \<Rightarrow> 'pk PolicyInner \<Rightarrow> (string, (string, nat) hmap) hmap" where
  "swept now p = (if length (replay_seen p) > MAX_TRACKED_PEERS
     then sweep now (replay_window_secs p) (replay_seen p) else replay_seen p)"

lemma check_common_alt:
  assumes "hm_ok (replay_seen p)"
  shows "check_common now peer ts n p =
    (let w = replay_window_secs p; b = fresh_bucket now w (bucket_of (replay_seen p) peer) in
     if abs_diff now (unat ts) > w then (Inl TimestampOutOfWindow, p)
     else if n \<in> fst ` set b \<or> length b \<ge> MAX_NONCES_PER_PEER
     then (Inl ReplayDetected, p\<lparr> replay_seen := hm_put peer b (swept now p) \<rparr>)
     else (Inr (), p\<lparr> replay_seen := hm_put peer (hm_put n now b) (swept now p) \<rparr>))"
  using assms
  by (auto simp: check_common_def swept_def Let_def fresh_bucket_sweep map_of_eq_None_iff)

lemma swept_bucket:
  "hm_ok (replay_seen p) \<Longrightarrow> bucket_of (swept now p) peer = bucket_of (replay_seen p) peer \<or>
     bucket_of (swept now p) peer = fresh_bucket now (replay_window_secs p) (bucket_of (replay_seen p) peer)"
  by (auto simp: swept_def bucket_of_def map_of_sweep split: option.split)

lemma replay_ok_swept:
  assumes "replay_ok p" and "map_of (swept now p) peer = Some b"
  shows "hm_ok b \<and> length b \<le> MAX_NONCES_PER_PEER"
proof -
  have kept: "hm_ok (fresh_bucket now w c) \<and> length (fresh_bucket now w c) \<le> MAX_NONCES_PER_PEER"
    if "map_of (replay_seen p) peer = Some c" for c w
    using that assms(1) length_fresh[of now w c] by (auto simp: replay_ok_def intro: hm_ok_fresh order_trans)
  have "hm_ok (replay_seen p)" using assms(1) by (simp add: replay_ok_def)
  then show ?thesis
    using assms kept by (auto simp: swept_def replay_ok_def map_of_sweep split: if_splits option.splits)
qed

lemma replay_ok_common:
  assumes ok: "replay_ok p"
  shows "replay_ok (snd (check_common now peer ts n p))"
proof -
  have hm: "hm_ok (replay_seen p)" and w: "replay_window_secs p = 300" using ok by (auto simp: replay_ok_def)
  let ?b = "fresh_bucket now 300 (bucket_of (replay_seen p) peer)"
  have put: "replay_ok (p\<lparr> replay_seen := hm_put peer b (swept now p) \<rparr>)"
    if "hm_ok b" "length b \<le> MAX_NONCES_PER_PEER" for b
    using that ok replay_ok_swept[OF ok] hm_ok_sweep[OF hm]
    by (auto simp: replay_ok_def map_of_hm_put hm_ok_put swept_def)
  have "length (bucket_of (replay_seen p) peer) \<le> MAX_NONCES_PER_PEER"
    using ok by (auto simp: replay_ok_def bucket_of_def split: option.splits)
  then have b: "hm_ok ?b" "length ?b \<le> MAX_NONCES_PER_PEER"
    using hm_ok_fresh[OF hm_ok_bucket[OF ok]] length_fresh[of now 300 "bucket_of (replay_seen p) peer"]
    by (auto intro: order_trans)
  show ?thesis
    using put[OF b] put[of "hm_put n now ?b"] b ok
    by (auto simp: check_common_alt[OF hm] Let_def w length_hm_put hm_ok_put)
qed

lemma replay_ok_call: "replay_ok p \<Longrightarrow> replay_ok (sec_call env now c p)"
proof -
  assume ok: "replay_ok p"
  consider peer ts n where "sec_call env now c p = snd (check_common now peer ts n p)"
    | "replay_seen (sec_call env now c p) = replay_seen p"
      "replay_window_secs (sec_call env now c p) = replay_window_secs p"
    using sec_call_cases by blast
  then show ?thesis using ok by cases (simp_all add: replay_ok_common, simp add: replay_ok_def)
qed

lemma replay_ok_reach: "sec_reach env p \<Longrightarrow> replay_ok p"
proof (induction rule: sec_reach.induct)
  case init
  show ?case by (simp add: replay_ok_def pi_new_def)
qed (rule replay_ok_call)

lemma replay_ok_run: "replay_ok p \<Longrightarrow> replay_ok (sec_run env cs p)"
  by (induction env cs p rule: sec_run.induct) (auto intro: replay_ok_call)

text \<open>A nonce accepted at \<open>t\<close> stays in the cache while the clock is at most a window later.\<close>

definition remembered :: "nat \<Rightarrow> string \<Rightarrow> string \<Rightarrow> 'pk PolicyInner \<Rightarrow> bool" where
  "remembered t peer n p \<longleftrightarrow> map_of (bucket_of (replay_seen p) peer) n = Some t"

lemma remembered_fresh:
  "replay_ok p \<Longrightarrow> remembered t peer n p \<Longrightarrow> abs_diff now t \<le> replay_window_secs p \<Longrightarrow>
   map_of (fresh_bucket now (replay_window_secs p) (bucket_of (replay_seen p) peer)) n = Some t"
  by (simp add: remembered_def map_of_fresh hm_ok_bucket)

lemma remembered_common:
  assumes ok: "replay_ok p" and rem: "remembered t peer n p" and near: "abs_diff now t \<le> replay_window_secs p"
  shows "remembered t peer n (snd (check_common now peer' ts n' p))"
proof -
  have hm: "hm_ok (replay_seen p)" using ok by (simp add: replay_ok_def)
  have fresh: "map_of (fresh_bucket now (replay_window_secs p) (bucket_of (replay_seen p) peer)) n = Some t"
    by (rule remembered_fresh[OF ok rem near])
  then have in_b: "n \<in> fst ` set (fresh_bucket now (replay_window_secs p) (bucket_of (replay_seen p) peer))"
    by (metis map_of_eq_None_iff option.distinct(1))
  have sw: "map_of (bucket_of (swept now p) peer) n = Some t"
    using swept_bucket[OF hm, of now peer] fresh rem by (auto simp: remembered_def)
  show ?thesis
    using rem fresh sw in_b
    by (auto simp: check_common_alt[OF hm] Let_def remembered_def bucket_of_put map_of_hm_put)
qed

lemma remembered_run:
  "replay_ok p \<Longrightarrow> remembered t peer n p \<Longrightarrow> \<forall>s\<in>fst ` set cs. t \<le> s \<and> s \<le> t + 300 \<Longrightarrow>
   remembered t peer n (sec_run env cs p)"
proof (induction env cs p rule: sec_run.induct)
  case (2 env now c cs p)
  have near: "abs_diff now t \<le> replay_window_secs p"
    using 2 by (simp add: abs_diff_le_iff replay_ok_def)
  have "remembered t peer n (sec_call env now c p)"
    using sec_call_cases[of env now c p] remembered_common[OF "2.prems"(1,2) near] "2.prems"(2)
    by (auto simp: remembered_def)
  then show ?case
    using 2 by (auto intro: replay_ok_call)
qed simp

lemma accepted_remembered:
  assumes "hm_ok (replay_seen p)" "check_common now peer ts n p = (Inr (), p')"
  shows "remembered now peer n p'"
  using assms by (auto simp: check_common_alt Let_def remembered_def bucket_of_put map_of_hm_put split: if_splits)

lemma remembered_rejected:
  assumes ok: "replay_ok p" and rem: "remembered t peer n p" and near: "abs_diff now t \<le> replay_window_secs p"
  shows "\<exists>e p'. check_common now peer ts n p = (Inl e, p')"
proof -
  have "n \<in> fst ` set (fresh_bucket now (replay_window_secs p) (bucket_of (replay_seen p) peer))"
    using remembered_fresh[OF assms] by (metis map_of_eq_None_iff option.distinct(1))
  then show ?thesis using ok by (auto simp: check_common_alt replay_ok_def Let_def)
qed

section \<open>The contract of a verifier\<close>

text \<open>
  What the nine verifiers share: the replay check on the timestamp and nonce of the message
  comes first, and what follows accepts only a message whose signing material carries a
  signature of the registered key of the remote peer.
\<close>

locale verifier =
  fixes env :: "'pk SecEnv"
    and vfy :: "nat \<Rightarrow> string \<Rightarrow> string \<Rightarrow> 'm \<Rightarrow> 'pk PolicyInner \<Rightarrow> (SecurityError + 'a) \<times> 'pk PolicyInner"
    and ts :: "'m \<Rightarrow> u64"
    and nonce :: "'m \<Rightarrow> string"
    and b64sig :: "'m \<Rightarrow> string"
    and material :: "'m \<Rightarrow> u8 list"
    and body :: "string \<Rightarrow> string \<Rightarrow> 'm \<Rightarrow> 'pk PolicyInner \<Rightarrow> SecurityError + 'a"
  assumes common_first: "vfy now l r m p = after_common now r (ts m) (nonce m) (body l r m) p"
    and body_signed: "body l r m p = Inr a \<Longrightarrow>
      \<exists>pk sig. map_of (peer_public_keys p) r = Some pk \<and> b64_decode env (b64sig m) = Some sig \<and>
        sec_verify env pk (material m) sig"
begin

lemma accept_common:
  assumes "vfy now l r m p = (Inr a, p')"
  shows "check_common now r (ts m) (nonce m) p = (Inr (), p') \<and> body l r m p' = Inr a"
  using assms by (auto simp: common_first after_common_def split: prod.splits sum.splits)

lemma accept_authentic:
  assumes "vfy now l r m p = (Inr a, p')"
  shows "abs_diff now (unat (ts m)) \<le> replay_window_secs p \<and>
    (\<exists>pk sig. map_of (peer_public_keys p) r = Some pk \<and> b64_decode env (b64sig m) = Some sig \<and>
       sec_verify env pk (material m) sig)"
proof -
  have keys: "peer_public_keys (snd (check_common now r (ts m) (nonce m) p)) = peer_public_keys p"
    by (simp add: check_common_def Let_def)
  from accept_common[OF assms] keys show ?thesis
    using body_signed[of l r m p' a] by (auto simp: check_common_def split: if_splits)
qed

lemma reject_replay:
  assumes ok: "replay_ok p" and acc: "vfy t l r m p = (Inr a, p')"
    and past: "unat (ts m) \<le> t" and between: "\<forall>s\<in>fst ` set cs. t \<le> s \<and> s \<le> now" and later: "t \<le> now"
  shows "\<exists>e. fst (vfy now l' r m (sec_run env cs p')) = Inl e"
proof -
  let ?q = "sec_run env cs p'"
  have hm: "hm_ok (replay_seen p)" using ok by (simp add: replay_ok_def)
  have c: "check_common t r (ts m) (nonce m) p = (Inr (), p')"
    using accept_common[OF acc] by blast
  have ok': "replay_ok p'" using replay_ok_common[OF ok, of t r "ts m" "nonce m"] c by simp
  have okq: "replay_ok ?q" by (rule replay_ok_run[OF ok'])
  then have w: "replay_window_secs ?q = 300" by (simp add: replay_ok_def)
  have "\<exists>e q'. check_common now r (ts m) (nonce m) ?q = (Inl e, q')"
  proof (cases "now \<le> t + 300")
    case True
    then have "remembered t r (nonce m) ?q"
      using between by (intro remembered_run[OF ok' accepted_remembered[OF hm c]]) auto
    then show ?thesis
      using True later by (intro remembered_rejected[OF okq]) (auto simp: w abs_diff_le_iff)
  next
    case False
    then have "\<not> abs_diff now (unat (ts m)) \<le> 300" using past by (simp add: abs_diff_le_iff)
    then show ?thesis by (simp add: check_common_def w)
  qed
  then show ?thesis by (auto simp: common_first after_common_def)
qed

end

lemma map_ok_Inr [simp]: "map_ok a r = Inr b \<longleftrightarrow> r = Inr () \<and> a = b"
  by (auto simp: map_ok_def split: sum.splits)

lemmas check_defs = check_addressed_def check_addressed_first_def check_unaddressed_def

interpretation vq: verifier env "verify_request env" rq_ts rq_nonce rq_signature
  "\<lambda>m. signing_bytes_request m (rq_body m)"
  "\<lambda>l r m p. map_ok (utf8_lossy env (rq_body m))
     (check_addressed env p l r (rq_to m) (rq_from m) (rq_signature m) (signing_bytes_request m (rq_body m)))"
  for env
  by unfold_locales (auto simp: verify_request_def check_defs split: option.splits if_splits)

interpretation vs: verifier env "verify_response_bytes env" rs_ts rs_nonce rs_signature
  "\<lambda>m. signing_bytes_response m (rs_body m)"
  "\<lambda>l r m p. map_ok (rs_body m)
     (check_addressed env p l r (rs_to m) (rs_from m) (rs_signature m) (signing_bytes_response m (rs_body m)))"
  for env
  by unfold_locales (auto simp: verify_response_bytes_def check_defs split: option.splits if_splits)

interpretation vcq: verifier env "verify_config_request env" cq_ts cq_nonce cq_signature
  signing_bytes_config_request
  "\<lambda>l r m p. check_addressed_first env p l r (cq_to m) (cq_from m) (cq_signature m)
     (signing_bytes_config_request m)"
  for env
  by unfold_locales (auto simp: verify_config_request_def check_defs split: option.splits if_splits)

interpretation vgq: verifier env "verify_gateway_request env" gq_ts gq_nonce gq_signature
  "\<lambda>m. signing_bytes_gateway_request m (gq_body m)"
  "\<lambda>l r m p. map_ok (gq_body m)
     (check_unaddressed env p r (gq_signature m) (signing_bytes_gateway_request m (gq_body m)))"
  for env
  by unfold_locales (auto simp: verify_gateway_request_def check_defs split: option.splits if_splits)

interpretation vgs: verifier env "verify_gateway_response env" gs_ts gs_nonce gs_signature
  "\<lambda>m. signing_bytes_gateway_response m (gs_body m)"
  "\<lambda>l r m p. map_ok (gs_status m, gs_body m)
     (check_addressed_first env p l r (gs_to m) (gs_from m) (gs_signature m)
        (signing_bytes_gateway_response m (gs_body m)))"
  for env
  by unfold_locales (auto simp: verify_gateway_response_def check_defs split: option.splits if_splits)

interpretation vwq: verifier env "verify_web_request env" wq_ts wq_nonce wq_signature
  "\<lambda>m. signing_bytes_web_request m (wq_body m)"
  "\<lambda>l r m p. map_ok (wq_body m)
     (check_unaddressed env p r (wq_signature m) (signing_bytes_web_request m (wq_body m)))"
  for env
  by unfold_locales (auto simp: verify_web_request_def check_defs split: option.splits if_splits)

interpretation vws: verifier env "verify_web_response env" ws_ts ws_nonce ws_signature
  "\<lambda>m. signing_bytes_web_response m (ws_body m)"
  "\<lambda>l r m p. map_ok (ws_status m, ws_content_type m, ws_body m)
     (check_addressed_first env p l r (ws_to m) (ws_from m) (ws_signature m)
        (signing_bytes_web_response m (ws_body m)))"
  for env
  by unfold_locales (auto simp: verify_web_response_def check_defs split: option.splits if_splits)

section \<open>Delivery\<close>

text \<open>The replay check accepts a nonce that is not in a bucket with room.\<close>

definition nonce_fresh :: "nat \<Rightarrow> string \<Rightarrow> string \<Rightarrow> 'pk PolicyInner \<Rightarrow> bool" where
  "nonce_fresh now peer n p \<longleftrightarrow>
     (let b = fresh_bucket now (replay_window_secs p) (bucket_of (replay_seen p) peer) in
      map_of b n = None \<and> length b < MAX_NONCES_PER_PEER)"

lemma common_accepts:
  assumes "hm_ok (replay_seen p)" "abs_diff now (unat ts) \<le> replay_window_secs p" "nonce_fresh now peer n p"
  shows "\<exists>p'. check_common now peer ts n p = (Inr (), p') \<and> peer_public_keys p' = peer_public_keys p"
  using assms by (auto simp: check_common_alt Let_def nonce_fresh_def map_of_eq_None_iff)

lemma rq_plain_fields:
  "rq_from (rq_plain ts nanos a b body) = str_trim a" "rq_to (rq_plain ts nanos a b body) = str_trim b"
  "rq_body (rq_plain ts nanos a b body) = as_bytes body"
  by (simp_all add: rq_plain_def rq_plain_bytes_def rq_normalized_def)

lemma signing_bytes_signature [simp]:
  "signing_bytes_request (req\<lparr> rq_signature := s \<rparr>) b = signing_bytes_request req b"
  by (simp add: signing_bytes_request_def rq_signature_material_def)

lemma build_request_ok:
  assumes "\<forall>d. \<exists>sig. sec_sign ea d = Some sig" "str_trim a = a" "str_trim b = b"
  shows "\<exists>req sig. build_request ea ts nanos nonce a b body = Inr req \<and> rq_from req = a \<and> rq_to req = b \<and>
    rq_ts req = ts \<and> rq_nonce req = nonce \<and> rq_body req = as_bytes body \<and>
    rq_signature req = b64_encode ea sig \<and>
    sec_sign ea (signing_bytes_request req (rq_body req)) = Some sig"
proof -
  let ?q = "(rq_plain ts nanos a b body)\<lparr> rq_nonce := nonce, rq_ts := ts \<rparr>"
  obtain sig where "sec_sign ea (signing_bytes_request ?q (as_bytes body)) = Some sig" using assms by blast
  then show ?thesis
    using assms by (simp add: build_request_def Let_def sign_data_def rq_plain_fields)
qed

definition u8_char :: "u8 \<Rightarrow> char" where
  "u8_char b = char_of (unat b)"

definition demo_sec_env :: "unit SecEnv" where
  "demo_sec_env = \<lparr> sec_sign = (\<lambda>d. Some (1 # d)), sec_verify = (\<lambda>_ d s. s = 1 # d),
     b64_encode = map u8_char, b64_decode = (\<lambda>s. Some (as_bytes s)),
     utf8_lossy = map u8_char, bundle_to_json = (\<lambda>_. None), bundle_from_json = (\<lambda>_. None),
     policy_from_json = (\<lambda>_. None), sec_sha256 = (\<lambda>b. b) \<rparr>"

lemma of_char_u8_char: "(of_char (u8_char b) :: u8) = b"
proof -
  have "unat b < 2 ^ LENGTH(8)" by (rule unsigned_less)
  then have "(of_char (char_of (unat b)) :: nat) = unat b" by simp
  then have "(of_nat (of_char (char_of (unat b))) :: u8) = b" by simp
  then show ?thesis by (metis of_nat_of_char u8_char_def)
qed

lemma u8_char_of_char: "u8_char (of_char c) = c"
proof -
  have "(of_char (u8_char (of_char c)) :: u8) = of_char c" by (rule of_char_u8_char)
  then show ?thesis by (simp only: of_char_u8_inj)
qed

lemma demo_b64: "b64_decode demo_sec_env (b64_encode demo_sec_env x) = Some x"
  by (simp add: demo_sec_env_def as_bytes_def comp_def of_char_u8_char)

lemma demo_utf8: "utf8_lossy demo_sec_env (as_bytes s) = s"
  by (induction s) (simp_all add: demo_sec_env_def as_bytes_def u8_char_of_char)

definition demo_receiver :: "unit PolicyInner" where
  "demo_receiver = register_peer_public_key ''alice'' () pi_new"

lemma gateway_signing_unused [simp]:
  "signing_bytes_gateway_request (r\<lparr> gq_signature := s \<rparr>) b = signing_bytes_gateway_request r b"
  "signing_bytes_gateway_request (r\<lparr> gq_nonce := n \<rparr>) b = signing_bytes_gateway_request r b"
  by (simp_all add: signing_bytes_gateway_request_def)

section \<open>Properties\<close>

text \<open>
  C8: a direct request that is accepted is authentic: its timestamp is inside the replay
  window, it is addressed to the local node, names the remote peer as its sender, and its
  signature over the whole signing material verifies under the key registered for that peer;
  the text returned is the decoded body. Otherwise nothing but the replay cache changes.
\<close>

theorem direct_request_authentic:
  assumes "verify_request env now l r req p = (res, p')"
  shows "(\<forall>msg. res = Inr msg \<longrightarrow>
      abs_diff now (unat (rq_ts req)) \<le> replay_window_secs p \<and> rq_to req = l \<and> rq_from req = r \<and>
      msg = utf8_lossy env (rq_body req) \<and>
      (\<exists>pk sig. map_of (peer_public_keys p) r = Some pk \<and> b64_decode env (rq_signature req) = Some sig \<and>
         sec_verify env pk (signing_bytes_request req (rq_body req)) sig)) \<and>
    p' = p\<lparr> replay_seen := replay_seen p' \<rparr>"
proof -
  have "p' = p\<lparr> replay_seen := replay_seen p' \<rparr>"
    using assms snd_after_common[of now r "rq_ts req" "rq_nonce req" _ p]
    by (auto simp: verify_request_def check_common_def Let_def dest!: arg_cong[of _ "(_, _)" snd])
  moreover have "abs_diff now (unat (rq_ts req)) \<le> replay_window_secs p \<and> rq_to req = l \<and> rq_from req = r \<and>
      msg = utf8_lossy env (rq_body req) \<and>
      (\<exists>pk sig. map_of (peer_public_keys p) r = Some pk \<and> b64_decode env (rq_signature req) = Some sig \<and>
         sec_verify env pk (signing_bytes_request req (rq_body req)) sig)" if "res = Inr msg" for msg
  proof -
    have acc: "verify_request env now l r req p = (Inr msg, p')" using assms that by simp
    from vq.accept_common[OF acc] have "rq_to req = l \<and> rq_from req = r \<and> msg = utf8_lossy env (rq_body req)"
      by (auto simp: check_addressed_def split: option.splits if_splits)
    with vq.accept_authentic[OF acc] show ?thesis by blast
  qed
  ultimately show ?thesis by blast
qed

lemma demo_accepts:
  "abs_diff now (unat ts) \<le> 300 \<Longrightarrow> \<exists>req p'. build_request demo_sec_env ts 7 ''n1'' ''alice'' ''bob'' ''hi'' = Inr req \<and> rq_ts req = ts \<and>
     verify_request demo_sec_env now ''bob'' ''alice'' req demo_receiver = (Inr ''hi'', p')"
proof -
  assume near: "abs_diff now (unat ts) \<le> 300"
  have trim: "str_trim ''alice'' = ''alice''" "str_trim ''bob'' = ''bob''" by code_simp+
  have "\<forall>d. \<exists>sig. sec_sign demo_sec_env d = Some sig" by (simp add: demo_sec_env_def)
  from build_request_ok[OF this trim, of ts 7 "''n1''" "''hi''"] obtain req sig where
    req: "build_request demo_sec_env ts 7 ''n1'' ''alice'' ''bob'' ''hi'' = Inr req" "rq_from req = ''alice''"
      "rq_to req = ''bob''" "rq_ts req = ts" "rq_nonce req = ''n1''" "rq_body req = as_bytes ''hi''"
      "rq_signature req = b64_encode demo_sec_env sig"
      "sec_sign demo_sec_env (signing_bytes_request req (rq_body req)) = Some sig" by blast
  have "nonce_fresh now ''alice'' ''n1'' demo_receiver"
    by (simp add: nonce_fresh_def demo_receiver_def register_peer_public_key_def pi_new_def bucket_of_def
        MAX_NONCES_PER_PEER_def)
  then obtain p' where p': "check_common now ''alice'' ts ''n1'' demo_receiver = (Inr (), p')"
      "peer_public_keys p' = peer_public_keys demo_receiver"
    using common_accepts[of demo_receiver now ts "''alice''" "''n1''"]
    by (auto simp: demo_receiver_def register_peer_public_key_def pi_new_def near)
  have key: "map_of (peer_public_keys p') ''alice'' = Some ()"
    by (simp add: p' demo_receiver_def register_peer_public_key_def map_of_hm_put)
  have "sec_verify demo_sec_env () (signing_bytes_request req (as_bytes ''hi'')) sig"
    using req by (simp add: demo_sec_env_def)
  then show ?thesis
    using req p' key demo_b64 demo_utf8
    by (simp add: verify_request_def after_common_def check_addressed_def map_ok_def)
qed

theorem direct_request_authentic_witness:
  "\<exists>req p' msg. verify_request demo_sec_env 1010 ''bob'' ''alice'' req demo_receiver = (Inr msg, p') \<and>
     rq_from req = ''alice''"
proof -
  obtain req p' where "verify_request demo_sec_env 1010 ''bob'' ''alice'' req demo_receiver = (Inr ''hi'', p')"
    using demo_accepts[of 1010 1000] by (auto simp: abs_diff_def)
  with direct_request_authentic[OF this] show ?thesis by blast
qed

text \<open>
  C13: a direct request built by one node reaches another that has registered its key: with
  peer ids free of blanks, the clocks at most the replay window apart and a fresh nonce, the
  receiver returns the body, and a second delivery of the same request is refused.
\<close>

theorem direct_request_delivered:
  assumes "\<not> rt_poisoned A" "\<not> rt_poisoned B" "sec_reach eb (rt_inner B)"
    and signs: "\<forall>d. \<exists>sig. sec_sign ea d = Some sig \<and> sec_verify eb pk d sig"
    and b64: "\<forall>x. b64_decode eb (b64_encode ea x) = Some x"
    and utf8: "utf8_lossy eb (as_bytes body) = body"
    and ids: "str_trim a = a" "str_trim b = b" and key: "map_of (peer_public_keys (rt_inner B)) a = Some pk"
    and clock: "abs_diff now (unat ts) \<le> 300" and fresh: "nonce_fresh now a nonce (rt_inner B)"
  shows "\<exists>req B'. build_direct_request ea ts nanos nonce a b body A = Inr req \<and>
    verify_direct_request eb now b a req B = (Inr body, B') \<and>
    (\<exists>e. fst (verify_direct_request eb now b a req B') = Inl e)"
proof -
  let ?p = "rt_inner B"
  have ok: "replay_ok ?p" by (rule replay_ok_reach) fact
  then have hm: "hm_ok (replay_seen ?p)" and w: "replay_window_secs ?p = 300" by (auto simp: replay_ok_def)
  have "\<forall>d. \<exists>sig. sec_sign ea d = Some sig" using signs by blast
  from build_request_ok[OF this ids, of ts nanos nonce body] obtain req sig where
    req: "build_request ea ts nanos nonce a b body = Inr req" "rq_from req = a" "rq_to req = b" "rq_ts req = ts"
      "rq_nonce req = nonce" "rq_body req = as_bytes body" "rq_signature req = b64_encode ea sig"
      "sec_sign ea (signing_bytes_request req (rq_body req)) = Some sig" by blast
  obtain p' where p': "check_common now a ts nonce ?p = (Inr (), p')" "peer_public_keys p' = peer_public_keys ?p"
    using common_accepts[OF hm _ fresh] clock w by auto
  have "sec_verify eb pk (signing_bytes_request req (as_bytes body)) sig"
    using signs req(6,8) by (metis option.inject)
  then have acc: "verify_request eb now b a req ?p = (Inr body, p')"
    using req p' key b64 utf8
    by (simp add: verify_request_def after_common_def check_addressed_def map_ok_def)
  have ok': "replay_ok p'" using replay_ok_common[OF ok, of now a ts nonce] p'(1) by simp
  have "\<exists>e q. check_common now a ts nonce p' = (Inl e, q)"
    using accepted_remembered[OF hm p'(1)] by (rule remembered_rejected[OF ok']) (simp add: abs_diff_def)
  then have "\<exists>e. fst (verify_request eb now b a req p') = Inl e"
    using req by (auto simp: verify_request_def after_common_def)
  then show ?thesis
    using acc req(1) assms(1,2)
    by (auto simp: build_direct_request_def read_protected_def verify_direct_request_def write_protected_def
        returning_def split: prod.splits)
qed

definition demo_node :: "unit SecurityRuntime" where
  "demo_node = rt_new\<lparr> rt_inner := demo_receiver \<rparr>"

theorem direct_request_delivered_witness:
  "\<exists>req B'. build_direct_request demo_sec_env 1000 7 ''n1'' ''alice'' ''bob'' ''hi'' rt_new = Inr req \<and>
    verify_direct_request demo_sec_env 1010 ''bob'' ''alice'' req demo_node = (Inr ''hi'', B') \<and>
    (\<exists>e. fst (verify_direct_request demo_sec_env 1010 ''bob'' ''alice'' req B') = Inl e)"
proof (rule direct_request_delivered[where pk = "()"])
  show "sec_reach demo_sec_env (rt_inner demo_node)"
    using sec_reach.call[OF sec_reach.init, of demo_sec_env 0 "RegisterKey ''alice'' ()"]
    by (simp add: demo_node_def demo_receiver_def)
  show "\<forall>d. \<exists>sig. sec_sign demo_sec_env d = Some sig \<and> sec_verify demo_sec_env () d sig"
    by (simp add: demo_sec_env_def)
  show "str_trim ''alice'' = ''alice''" "str_trim ''bob'' = ''bob''" by code_simp+
qed (simp_all add: rt_new_def demo_node_def demo_receiver_def register_peer_public_key_def pi_new_def
    demo_b64 demo_utf8 abs_diff_def nonce_fresh_def bucket_of_def MAX_NONCES_PER_PEER_def hm_put_def)

text \<open>
  C2: replay protection. Whatever calls of any kind, from any peers, come in between at times
  from the acceptance on, a direct request whose timestamp was not ahead of the receiver's clock
  when it was accepted is refused at every later time: inside the window because its nonce is
  still cached, after it because its timestamp has expired.
\<close>

theorem replay_protection:
  assumes "sec_reach env p" and "verify_request env t l r req p = (Inr body, p')"
    and "unat (rq_ts req) \<le> t" and "t \<le> now" and "\<forall>s\<in>fst ` set cs. t \<le> s \<and> s \<le> now"
  shows "\<exists>e. fst (verify_request env now l' r req (sec_run env cs p')) = Inl e"
  using vq.reject_replay[OF replay_ok_reach[OF assms(1)] assms(2,3,5,4)] .

theorem replay_protection_witness:
  "\<exists>req p' e. verify_request demo_sec_env 1010 ''bob'' ''alice'' req demo_receiver = (Inr ''hi'', p') \<and>
     fst (verify_request demo_sec_env 1020 ''bob'' ''alice'' req
       (sec_run demo_sec_env [(1015, RegisterKey ''carol'' ())] p')) = Inl e"
proof -
  obtain req p' where acc: "verify_request demo_sec_env 1010 ''bob'' ''alice'' req demo_receiver = (Inr ''hi'', p')"
    and ts: "rq_ts req = 1000" using demo_accepts[of 1010 1000] by (auto simp: abs_diff_def)
  have "sec_reach demo_sec_env demo_receiver"
    using sec_reach.call[OF sec_reach.init, of demo_sec_env 0 "RegisterKey ''alice'' ()"]
    by (simp add: demo_receiver_def)
  from replay_protection[OF this acc, of 1020 "[(1015, RegisterKey ''carol'' ())]" "''bob''"] ts acc
  show ?thesis by auto
qed

text \<open>
  The protection does not extend to timestamps ahead of the receiver's clock: an accepted
  direct request is accepted a second time when the clock has moved past the window of its
  acceptance but not past the window of its timestamp, because the cached nonce has expired.
\<close>

theorem future_timestamp_replayed:
  assumes "sec_reach env p" and "verify_request env t l r req p = (Inr body, p')"
    and "t + 300 < now" and "now \<le> unat (rq_ts req) + 300"
  shows "fst (verify_request env now l r req p') = Inr body"
proof -
  have ok: "replay_ok p" by (rule replay_ok_reach) fact
  then have hm: "hm_ok (replay_seen p)" and w: "replay_window_secs p = 300" by (auto simp: replay_ok_def)
  have c: "check_common t r (rq_ts req) (rq_nonce req) p = (Inr (), p')"
    using vq.accept_common[OF assms(2)] by blast
  have ok': "replay_ok p'" using replay_ok_common[OF ok, of t r "rq_ts req" "rq_nonce req"] c by simp
  then have hm': "hm_ok (replay_seen p')" and w': "replay_window_secs p' = 300" by (auto simp: replay_ok_def)
  let ?b = "fresh_bucket t 300 (bucket_of (replay_seen p) r)"
  have b': "bucket_of (replay_seen p') r = hm_put (rq_nonce req) t ?b"
    and room: "length ?b < MAX_NONCES_PER_PEER" and new: "rq_nonce req \<notin> fst ` set ?b"
    and near: "abs_diff t (unat (rq_ts req)) \<le> 300"
    and keys: "peer_public_keys p' = peer_public_keys p"
    using c by (auto simp: check_common_alt[OF hm] Let_def bucket_of_put w split: if_splits)
  let ?f = "fresh_bucket now 300 (hm_put (rq_nonce req) t ?b)"
  have gone: "?f = fresh_bucket now 300 ?b"
    using new assms(3) unfolding hm_put_def fresh_bucket_def m_retain_def
    by (simp add: update_triv_append abs_diff_le_iff)
  have "length ?f < MAX_NONCES_PER_PEER" "map_of ?f (rq_nonce req) = None"
    using room new length_fresh[of now 300 ?b] unfolding gone
    by (auto simp: map_of_eq_None_iff fresh_bucket_def m_retain_def image_iff)
  then have "nonce_fresh now r (rq_nonce req) p'"
    by (simp add: nonce_fresh_def Let_def w' b')
  moreover have "abs_diff now (unat (rq_ts req)) \<le> replay_window_secs p'"
    using near assms(3,4) by (simp add: w' abs_diff_le_iff)
  ultimately obtain q where "check_common now r (rq_ts req) (rq_nonce req) p' = (Inr (), q)"
    "peer_public_keys q = peer_public_keys p'" using common_accepts[OF hm'] by blast
  then show ?thesis
    using vq.accept_common[OF assms(2)] by (simp add: verify_request_def after_common_def check_addressed_def)
qed

theorem future_timestamp_replayed_witness:
  "\<exists>req p'. rq_ts req = 1300 \<and>
     verify_request demo_sec_env 1000 ''bob'' ''alice'' req demo_receiver = (Inr ''hi'', p') \<and>
     fst (verify_request demo_sec_env 1301 ''bob'' ''alice'' req p') = Inr ''hi''"
proof -
  obtain req p' where acc: "verify_request demo_sec_env 1000 ''bob'' ''alice'' req demo_receiver = (Inr ''hi'', p')"
    and ts: "rq_ts req = 1300" using demo_accepts[of 1000 1300] by (auto simp: abs_diff_def)
  have "sec_reach demo_sec_env demo_receiver"
    using sec_reach.call[OF sec_reach.init, of demo_sec_env 0 "RegisterKey ''alice'' ()"]
    by (simp add: demo_receiver_def)
  from future_timestamp_replayed[OF this acc, of 1301] ts acc show ?thesis by auto
qed

text \<open>
  The replay cache of each peer is bounded in every state that calls can reach: it holds
  at most 1000 nonces, each once, and a message that arrives when the fresh part of it is full
  is refused, whatever its nonce.
\<close>

theorem replay_cache_bounded:
  assumes "sec_reach env p"
  shows "length (bucket_of (replay_seen p) peer) \<le> 1000 \<and> distinct (map fst (bucket_of (replay_seen p) peer)) \<and>
    (length (fresh_bucket now 300 (bucket_of (replay_seen p) peer)) = 1000 \<longrightarrow>
       (\<exists>e. fst (check_common now peer ts n p) = Inl e))"
proof -
  have ok: "replay_ok p" by (rule replay_ok_reach) fact
  have "length (bucket_of (replay_seen p) peer) \<le> 1000"
    using ok by (auto simp: replay_ok_def bucket_of_def MAX_NONCES_PER_PEER_def split: option.split)
  moreover have "distinct (map fst (bucket_of (replay_seen p) peer))"
    using hm_ok_bucket[OF ok] by (simp add: hm_ok_def)
  moreover have "\<exists>e. fst (check_common now peer ts n p) = Inl e"
    if "length (fresh_bucket now 300 (bucket_of (replay_seen p) peer)) = 1000"
    using that ok by (auto simp: replay_ok_def check_common_alt Let_def MAX_NONCES_PER_PEER_def)
  ultimately show ?thesis by blast
qed

theorem replay_cache_bounded_witness:
  "\<exists>req. length (bucket_of (replay_seen (sec_call demo_sec_env 1010 (VRequest ''bob'' ''alice'' req) demo_receiver)) ''alice'')
     \<le> 1000 \<and> fst (verify_request demo_sec_env 1010 ''bob'' ''alice'' req demo_receiver) = Inr ''hi''"
proof -
  obtain req p' where acc: "verify_request demo_sec_env 1010 ''bob'' ''alice'' req demo_receiver = (Inr ''hi'', p')"
    using demo_accepts[of 1010 1000] by (auto simp: abs_diff_def)
  have "sec_reach demo_sec_env demo_receiver"
    using sec_reach.call[OF sec_reach.init, of demo_sec_env 0 "RegisterKey ''alice'' ()"]
    by (simp add: demo_receiver_def)
  from replay_cache_bounded[OF sec_reach.call[OF this, of 1010 "VRequest ''bob'' ''alice'' req"], of "''alice''"]
  have "length (bucket_of (replay_seen (sec_call demo_sec_env 1010 (VRequest ''bob'' ''alice'' req) demo_receiver))
    ''alice'') \<le> 1000" by blast
  then show ?thesis using acc by (intro exI[of _ req]) simp
qed

text \<open>
  A gateway request can be replayed under another nonce and to another node: the signature
  does not cover the nonce and the recipient is not compared with the local node, so a request
  that was accepted once is accepted again with every fresh nonce in the place of its own,
  whatever the id of the local node.
\<close>

theorem gateway_request_renonced:
  assumes "verify_gateway_request env t l r req p = (Inr body, p')" and "hm_ok (replay_seen p')"
    and "nonce_fresh now r n p'" and "abs_diff now (unat (gq_ts req)) \<le> replay_window_secs p'"
  shows "fst (verify_gateway_request env now l' r (req\<lparr> gq_nonce := n \<rparr>) p') = Inr body"
proof -
  obtain q where "check_common now r (gq_ts req) n p' = (Inr (), q)" "peer_public_keys q = peer_public_keys p'"
    using common_accepts[OF assms(2,4,3)] by blast
  then show ?thesis
    using vgq.accept_common[OF assms(1)]
    by (auto simp: verify_gateway_request_def after_common_def check_unaddressed_def)
qed

definition demo_gateway_request :: GatewayRequest where
  "demo_gateway_request = (let r = (gq_plain 1000 7 ''alice'' ''bob'' ''GET'' ''http://x'' [] ''hi'' [])\<lparr> gq_nonce := ''n1'' \<rparr> in
     r\<lparr> gq_signature := b64_encode demo_sec_env (1 # signing_bytes_gateway_request r (gq_body r)) \<rparr>)"

lemma demo_gateway_accepts:
  "\<exists>p'. verify_gateway_request demo_sec_env 1000 ''bob'' ''alice'' demo_gateway_request demo_receiver = (Inr ''hi'', p') \<and>
     p' = demo_receiver\<lparr> replay_seen := [(''alice'', [(''n1'', 1000)])] \<rparr>"
  using demo_b64
  by (simp add: verify_gateway_request_def after_common_def check_common_def check_unaddressed_def map_ok_def
      demo_gateway_request_def gq_plain_def demo_receiver_def register_peer_public_key_def pi_new_def hm_put_def
      abs_diff_def bucket_of_def MAX_TRACKED_PEERS_def MAX_NONCES_PER_PEER_def Let_def)
    (simp add: demo_sec_env_def signing_bytes_gateway_request_def)

theorem gateway_request_renonced_witness:
  "fst (verify_gateway_request demo_sec_env 1001 ''carol'' ''alice'' (demo_gateway_request\<lparr> gq_nonce := ''n2'' \<rparr>)
     (snd (verify_gateway_request demo_sec_env 1000 ''bob'' ''alice'' demo_gateway_request demo_receiver))) = Inr ''hi''"
proof -
  obtain p' where acc: "verify_gateway_request demo_sec_env 1000 ''bob'' ''alice'' demo_gateway_request demo_receiver = (Inr ''hi'', p')"
    and p': "p' = demo_receiver\<lparr> replay_seen := [(''alice'', [(''n1'', 1000)])] \<rparr>"
    using demo_gateway_accepts by blast
  have "hm_ok (replay_seen p')" "nonce_fresh 1001 ''alice'' ''n2'' p'"
    "abs_diff 1001 (unat (gq_ts demo_gateway_request)) \<le> replay_window_secs p'"
    by (simp_all add: p' hm_ok_def nonce_fresh_def bucket_of_def fresh_bucket_def m_retain_def abs_diff_def
        demo_receiver_def register_peer_public_key_def pi_new_def MAX_NONCES_PER_PEER_def
        demo_gateway_request_def gq_plain_def Let_def)
  from gateway_request_renonced[OF acc this] acc show ?thesis by simp
qed

section \<open>Rate limiter\<close>

text \<open>The accepted attempts of a sequence of checks at the given instants.\<close>

fun rl_run :: "(nat \<times> string) list \<Rightarrow> RateLimiter \<Rightarrow> (nat \<times> string) list \<times> RateLimiter" where
  "rl_run [] l = ([], l)"
| "rl_run ((now, k) # cs) l =
     (case rl_check now k l of (ok, l') \<Rightarrow>
        (case rl_run cs l' of (acc, l'') \<Rightarrow> (if ok then (now, k) # acc else acc, l'')))"

definition recent :: "nat \<Rightarrow> nat \<Rightarrow> string \<Rightarrow> (nat \<times> string) list \<Rightarrow> (nat \<times> string) list" where
  "recent w x k acc = filter (\<lambda>(t, k'). k' = k \<and> t \<le> x \<and> x - t < w) acc"

definition times_of :: "string \<Rightarrow> (nat \<times> string) list \<Rightarrow> nat list" where
  "times_of k acc = map fst (filter (\<lambda>e. snd e = k) acc)"

lemma recent_times: "length (recent w x k acc) = length (filter (\<lambda>t. t \<le> x \<and> x - t < w) (times_of k acc))"
  by (induction acc) (auto simp: recent_def times_of_def)

definition rl_inv :: "string \<Rightarrow> nat list \<Rightarrow> nat \<Rightarrow> RateLimiter \<Rightarrow> bool" where
  "rl_inv k A T l \<longleftrightarrow> (\<forall>t\<in>set A. t \<le> T) \<and>
     (\<forall>x\<ge>T. filter (\<lambda>t. x - t < rl_window l) (rl_entry l k) = filter (\<lambda>t. x - t < rl_window l) A) \<and>
     (\<forall>x. length (filter (\<lambda>t. t \<le> x \<and> x - t < rl_window l) A) \<le> rl_max_attempts l)"

lemma rl_check_fields [simp]:
  "rl_window (snd (rl_check now k l)) = rl_window l" "rl_max_attempts (snd (rl_check now k l)) = rl_max_attempts l"
  by (simp_all add: rl_check_def Let_def)

lemma rl_check_entry:
  "rl_entry (snd (rl_check now k l)) k' =
     (if k' = k then filter (\<lambda>t. now - t < rl_window l) (rl_entry l k) @ (if fst (rl_check now k l) then [now] else [])
      else rl_entry l k')"
  by (simp add: rl_check_def Let_def rl_entry_def map_of_hm_put)

lemma rl_check_iff:
  "fst (rl_check now k l) \<longleftrightarrow> length (filter (\<lambda>t. now - t < rl_window l) (rl_entry l k)) < rl_max_attempts l"
  by (simp add: rl_check_def Let_def)

lemma length_filter_mono:
  "(\<And>x. x \<in> set xs \<Longrightarrow> P x \<Longrightarrow> Q x) \<Longrightarrow> length (filter P xs) \<le> length (filter Q xs)"
  by (induction xs) (auto intro: le_SucI)

lemma rl_inv_check:
  assumes inv: "rl_inv k A T l" and "T \<le> now"
  shows "rl_inv k (A @ (if k' = k \<and> fst (rl_check now k' l) then [now] else [])) now (snd (rl_check now k' l))"
proof -
  let ?W = "rl_window l"
  have le: "\<forall>t\<in>set A. t \<le> now" using assms by (fastforce simp: rl_inv_def)
  have E: "filter (\<lambda>t. x - t < ?W) (rl_entry l k) = filter (\<lambda>t. x - t < ?W) A" if "now \<le> x" for x
    using inv that assms(2) by (auto simp: rl_inv_def)
  have shrink: "filter (\<lambda>t. x - t < ?W) (filter (\<lambda>t. now - t < ?W) B) = filter (\<lambda>t. x - t < ?W) B"
    if "now \<le> x" for x B using that by (auto simp: filter_filter intro!: filter_cong)
  have bound: "length (filter (\<lambda>t. t \<le> x \<and> x - t < ?W) (A @ [now])) \<le> rl_max_attempts l"
    if acc: "fst (rl_check now k l)" for x
  proof (cases "now \<le> x")
    case True
    have "length (filter (\<lambda>t. t \<le> x \<and> x - t < ?W) A) \<le> length (filter (\<lambda>t. now - t < ?W) A)"
      using True by (intro length_filter_mono) auto
    then show ?thesis using acc True E[of now] by (simp add: rl_check_iff)
  next
    case False
    then show ?thesis using inv by (simp add: rl_inv_def)
  qed
  show ?thesis
    using le E shrink bound inv unfolding rl_inv_def
    by (auto simp: rl_check_entry)
qed

lemma rl_inv_run:
  "sorted (map fst cs) \<Longrightarrow> (\<forall>e\<in>set cs. T \<le> fst e) \<Longrightarrow> rl_inv k A T l \<Longrightarrow> rl_run cs l = (acc, l') \<Longrightarrow>
   (\<forall>e\<in>set cs. fst e \<le> U) \<Longrightarrow> T \<le> U \<Longrightarrow>
   rl_inv k (A @ times_of k acc) U l' \<and> rl_window l' = rl_window l \<and> rl_max_attempts l' = rl_max_attempts l"
proof (induction cs arbitrary: A T l acc)
  case Nil
  then show ?case by (auto simp: times_of_def rl_inv_def intro: order_trans)
next
  case (Cons c cs)
  obtain now k' where c: "c = (now, k')" by force
  obtain ok l1 where ck: "rl_check now k' l = (ok, l1)" by force
  obtain acc1 where r: "rl_run cs l1 = (acc1, l')" and acc: "acc = (if ok then (now, k') # acc1 else acc1)"
    using Cons.prems(4) by (auto simp: c ck split: prod.splits)
  let ?A = "A @ (if k' = k \<and> ok then [now] else [])"
  have "rl_inv k ?A now l1"
    using rl_inv_check[of k A T l now k'] Cons.prems by (auto simp: c ck)
  moreover have "\<forall>e\<in>set cs. now \<le> fst e" "sorted (map fst cs)" "now \<le> U" "\<forall>e\<in>set cs. fst e \<le> U"
    using Cons.prems by (auto simp: c)
  moreover have "times_of k acc = (if k' = k \<and> ok then [now] else []) @ times_of k acc1"
    by (simp add: acc times_of_def)
  ultimately show ?case
    using Cons.IH[of now ?A l1 acc1] r rl_check_fields[of now k' l] by (simp add: ck)
qed

text \<open>
  C29: the limiter of the onboarding check is an exact sliding window. For every sequence of
  attempts at non-decreasing instants, of any keys, no window contains more than the allowed
  number of accepted attempts of a key, and the next attempt is accepted exactly when the window
  that ends with it contains fewer.
\<close>

theorem rate_limit_window:
  assumes "sorted (map fst cs)" and "rl_run cs (rl_new n w) = (acc, l)"
  shows "length (recent (secs w) x k acc) \<le> n \<and>
    ((\<forall>e\<in>set cs. fst e \<le> now) \<longrightarrow>
      (fst (rl_check now k l) \<longleftrightarrow> length (recent (secs w) now k acc) < n))"
proof -
  have init: "rl_inv k [] 0 (rl_new n w)" by (simp add: rl_inv_def rl_new_def rl_entry_def)
  have inv: "rl_inv k (times_of k acc) U l \<and> rl_window l = secs w \<and> rl_max_attempts l = n"
    if "\<forall>e\<in>set cs. fst e \<le> U" for U
    using rl_inv_run[OF assms(1) _ init assms(2) that] by (simp add: rl_new_def)
  define U where "U = (if cs = [] then 0 else Max (fst ` set cs))"
  have "\<forall>e\<in>set cs. fst e \<le> U" by (auto simp: U_def)
  note at = inv[OF this]
  moreover have "fst (rl_check now k l) \<longleftrightarrow> length (recent (secs w) now k acc) < n"
    if "\<forall>e\<in>set cs. fst e \<le> now"
  proof -
    have "filter (\<lambda>t. now - t < secs w) (rl_entry l k) = filter (\<lambda>t. now - t < secs w) (times_of k acc)"
      using inv[OF that] by (auto simp: rl_inv_def)
    also have "\<dots> = filter (\<lambda>t. t \<le> now \<and> now - t < secs w) (times_of k acc)"
      using inv[OF that] by (intro filter_cong) (auto simp: rl_inv_def)
    finally have "filter (\<lambda>t. now - t < secs w) (rl_entry l k) =
      filter (\<lambda>t. t \<le> now \<and> now - t < secs w) (times_of k acc)" .
    then show ?thesis using inv[OF that] by (simp add: rl_check_iff recent_times)
  qed
  ultimately show ?thesis by (auto simp: recent_times rl_inv_def)
qed

theorem rate_limit_window_witness:
  "let (acc, l) = rl_run [(0, ''a''), (1, ''a''), (2, ''b''), (3, ''a'')] (rl_new 2 60) in
     length (recent (secs 60) 3 ''a'' acc) \<le> 2 \<and> acc = [(0, ''a''), (1, ''a''), (2, ''b'')]"
proof -
  have run: "rl_run [(0, ''a''), (1, ''a''), (2, ''b''), (3, ''a'')] (rl_new 2 60) =
    ([(0, ''a''), (1, ''a''), (2, ''b'')], \<lparr> rl_attempts = [(''a'', [0, 1]), (''b'', [2])], rl_max_attempts = 2,
      rl_window = secs 60 \<rparr>)"
    by (simp add: rl_check_def rl_new_def rl_entry_def hm_put_def secs_def)
  from rate_limit_window[OF _ run, of 3 "''a''"] show ?thesis unfolding run by simp
qed

section \<open>Onboarding\<close>

text \<open>
  The onboarding check accepts exactly the requests that pass the rate limiter of their
  serial number, are at most 900 seconds from the local clock, carry a nonce that is not in the
  cache, a serial number with a valid checksum, a well-formed 32-byte key and 64-byte signature,
  and whose signature over the onboarding message verifies. After an acceptance the same nonce is
  refused for 900 seconds.
\<close>

theorem onboarding_identity:
  "(fst (verify_remote_identity ed hmac ms now inst peer req rt) \<longleftrightarrow>
      fst (rl_check inst (ob_serial_number req) (sn_rate_limiter rt)) \<and>
      abs_diff now (unat (ob_timestamp req)) \<le> 900 \<and> fst (nc_record inst (ob_nonce req) (nonce_cache rt)) \<and>
      verify_sn_checksum hmac ms (ob_serial_number req) \<and>
      length (ob_public_key req) = 32 \<and> ed_key_ok ed (ob_public_key req) \<and>
      length (ob_signature req) = 64 \<and> ed_sig_ok ed (ob_signature req) \<and>
      ed_verify ed (ob_public_key req) (as_bytes (onboard_message peer req)) (ob_signature req)) \<and>
   (verify_remote_identity ed hmac ms now inst peer req rt = (True, rt') \<and> hm_ok (nonce_cache rt) \<and>
      ob_nonce req' = ob_nonce req \<and> inst \<le> inst' \<and> inst' < inst + secs 900 \<longrightarrow>
      \<not> fst (verify_remote_identity ed hmac ms now' inst' peer' req' rt'))"
  (is "?iff \<and> _")
proof -
  have iff: "fst (verify_remote_identity ed hmac ms now inst peer req rt) \<longleftrightarrow>
      fst (rl_check inst (ob_serial_number req) (sn_rate_limiter rt)) \<and>
      abs_diff now (unat (ob_timestamp req)) \<le> 900 \<and> fst (nc_record inst (ob_nonce req) (nonce_cache rt)) \<and>
      verify_sn_checksum hmac ms (ob_serial_number req) \<and>
      length (ob_public_key req) = 32 \<and> ed_key_ok ed (ob_public_key req) \<and>
      length (ob_signature req) = 64 \<and> ed_sig_ok ed (ob_signature req) \<and>
      ed_verify ed (ob_public_key req) (as_bytes (onboard_message peer req)) (ob_signature req)"
    for now inst peer req and rt :: "'a SecurityRuntime"
    by (auto simp: verify_remote_identity_def Let_def ed25519_public_key_from_bytes_def
        ed25519_signature_from_bytes_def split: prod.splits bool.splits)
  have "\<not> fst (verify_remote_identity ed hmac ms now' inst' peer' req' rt')"
    if acc: "verify_remote_identity ed hmac ms now inst peer req rt = (True, rt')" and hm: "hm_ok (nonce_cache rt)"
      and same: "ob_nonce req' = ob_nonce req" and later: "inst \<le> inst'" "inst' < inst + secs 900"
  proof -
    have "nonce_cache rt' = snd (nc_record inst (ob_nonce req) (nonce_cache rt))"
      using acc by (auto simp: verify_remote_identity_def Let_def ed25519_public_key_from_bytes_def
          ed25519_signature_from_bytes_def split: prod.splits bool.splits if_splits)
    moreover have "fst (nc_record inst (ob_nonce req) (nonce_cache rt))" using iff[of now inst peer req rt] acc by simp
    ultimately have "map_of (nonce_cache rt') (ob_nonce req) = Some inst \<and> hm_ok (nonce_cache rt')"
      using hm by (auto simp: nc_record_def Let_def map_of_hm_put hm_ok_put hm_ok_del hm_ok_m_retain
          split: if_splits option.splits prod.splits)
    then have "\<not> fst (nc_record inst' (ob_nonce req) (nonce_cache rt'))"
      using later by (auto simp: nc_record_def Let_def map_of_m_retain hm_ok_def NONCE_TTL_SECS_def)
    then show ?thesis by (simp add: iff same)
  qed
  with iff show ?thesis by blast
qed

definition demo_ed :: EdEnv where
  "demo_ed = \<lparr> ed_key_ok = (\<lambda>_. True), ed_sig_ok = (\<lambda>_. True), ed_verify = (\<lambda>pk m s. length s = 64) \<rparr>"

definition demo_onboard :: OnboardRequest where
  "demo_onboard = \<lparr> ob_peer_id = ''p'', ob_serial_number = auto_generate_sn (\<lambda>k d. d) (Some [1]) (Some ''box''),
     ob_signature = replicate 64 7, ob_public_key = replicate 32 9, ob_nonce = [1, 2, 3], ob_timestamp = 1000,
     ob_x25519_pubkey = None \<rparr>"

lemma demo_onboard_passes:
  "fst (rl_check 5 sn (sn_rate_limiter rt_new)) \<and> abs_diff 1010 (unat (ob_timestamp demo_onboard)) \<le> 900 \<and>
   fst (nc_record 5 (ob_nonce demo_onboard) (nonce_cache rt_new)) \<and>
   verify_sn_checksum (\<lambda>k d. d) (Some [1]) (ob_serial_number demo_onboard)"
  using serial_number_accepted
  by (simp add: rl_check_def rt_new_def rl_new_def rl_entry_def demo_onboard_def abs_diff_def nc_record_def
      m_retain_def)

theorem onboarding_identity_witness:
  "\<exists>rt'. verify_remote_identity demo_ed (\<lambda>k d. d) (Some [1]) 1010 5 ''p'' demo_onboard (rt_new :: unit SecurityRuntime) = (True, rt') \<and>
     \<not> fst (verify_remote_identity demo_ed (\<lambda>k d. d) (Some [1]) 1011 9 ''p'' demo_onboard rt')"
proof -
  let ?v = "verify_remote_identity demo_ed (\<lambda>k d. d) (Some [1]) 1010 5 ''p'' demo_onboard (rt_new :: unit SecurityRuntime)"
  note id = onboarding_identity[of demo_ed "\<lambda>k d. d" "Some [1]" 1010 5 "''p''" demo_onboard "rt_new :: unit SecurityRuntime"
      "snd ?v" demo_onboard 9 1011 "''p''"]
  have "fst ?v"
    using id demo_onboard_passes by (simp add: demo_ed_def demo_onboard_def)
  then have v: "?v = (True, snd ?v)" by (metis prod.collapse)
  have "hm_ok (nonce_cache (rt_new :: unit SecurityRuntime))" by (simp add: rt_new_def)
  then have "\<not> fst (verify_remote_identity demo_ed (\<lambda>k d. d) (Some [1]) 1011 9 ''p'' demo_onboard (snd ?v))"
    using id v by (simp add: secs_def)
  with v show ?thesis by blast
qed

text \<open>
  The request that a node sends for its own onboarding is refused for two reasons. The sender
  puts the protobuf encoding of its public key into the request, which is 36 bytes for an ed25519 key,
  and the check accepts only a raw key of 32 bytes. And the sender signs the nonce in the notation of a
  list of numbers where the check verifies it in hexadecimal: the signed text and the verified text
  always differ.
\<close>

theorem own_onboarding_refused:
  assumes "length encoded_pk = 36" and "nonce \<noteq> []" and "req = onboarding_attempt sign encoded_pk profile nonce ts"
  shows "\<not> fst (verify_remote_identity ed hmac ms now inst peer req rt) \<and>
    build_signed_message req \<noteq> onboard_message (lp_peer_id profile) req"
proof
  show "\<not> fst (verify_remote_identity ed hmac ms now inst peer req rt)"
    using assms(1) unfolding assms(3)
    by (auto simp: verify_remote_identity_def onboarding_attempt_def Let_def ed25519_public_key_from_bytes_def
        split: prod.splits bool.splits)
  obtain b bs where n: "nonce = b # bs" using assms(2) by (cases nonce) auto
  have "unat b div 16 < 16" using unsigned_less[of b, where 'a=nat] by simp
  then have "hex_digit (unat b div 16) \<noteq> CHR ''[''"
    by (auto simp: hex_digit_def dest!: arg_cong[of "char_of _" _ "of_char :: char \<Rightarrow> nat"] split: if_splits)
  then show "build_signed_message req \<noteq> onboard_message (lp_peer_id profile) req"
    by (auto simp: assms(3) n build_signed_message_def onboard_message_def onboarding_attempt_def debug_bytes_def hex_encode_def)
qed

theorem own_onboarding_refused_witness:
  "\<not> fst (verify_remote_identity demo_ed (\<lambda>k d. d) (Some [1]) 1010 5 ''p''
     (onboarding_attempt (\<lambda>_. replicate 64 7) ([8, 1, 0x12, 0x20] @ replicate 32 9)
        \<lparr> lp_name = ''n'', lp_email = ''e'', lp_peer_id = ''p'',
          lp_serial_number = auto_generate_sn (\<lambda>k d. d) (Some [1]) (Some ''box''),
          lp_is_activated = False, lp_x25519_pubkey = ''k'' \<rparr> [1, 2] 1000) (rt_new :: unit SecurityRuntime))"
  by (rule own_onboarding_refused[THEN conjunct1, OF _ _ refl]) simp_all

end
