(* ===== verification/Gateway_Limiter.thy ===== *)
theory Gateway_Limiter
  imports Message
begin

text \<open>
  The gateway's own checks of \<^verbatim>\<open>gateway.rs\<close>: the authority guards of a request, the audit
  entry and the token-bucket rate limiter. Floating-point results are reals passed through a
  rounding function \<open>rnd\<close>, an argument: every arithmetic operation of the source is rounded
  where the source rounds.
\<close>

section \<open>Guards and audit\<close>

definition validate_gateway_access :: "nat \<Rightarrow> string \<Rightarrow> AuthorityManager \<Rightarrow> string + unit" where
  "validate_gateway_access now peer a =
     (let d = decision_for_gateway_peer now a peer in
      if ad_allowed d then Inr () else Inl (''Access Denied: '' @ ad_reason d))"

definition validate_gateway_route :: "string \<Rightarrow> AuthorityManager \<Rightarrow> string + unit" where
  "validate_gateway_route peer a =
     (if can_route a peer \<and> trust_path_exists a peer then Inr () else Inl ''Route Trust Failed'')"

record GatewayAuditEntry =
  ga_tracing_id :: string
  ga_request_id :: string
  ga_peer_id :: string
  ga_method :: string
  ga_url :: string
  ga_route :: "string list"
  ga_allowed :: bool
  ga_status :: "u16 option"
  ga_reason :: string
  ga_ts :: u64

definition audit_entry :: "u64 \<Rightarrow> GatewayRequest \<Rightarrow> string \<Rightarrow> bool \<Rightarrow> u16 option \<Rightarrow> string \<Rightarrow> GatewayAuditEntry" where
  "audit_entry now r peer_id allowed st reason =
     \<lparr> ga_tracing_id = gq_tracing_id r, ga_request_id = gq_message_id r, ga_peer_id = peer_id,
       ga_method = gq_method r, ga_url = gq_url r, ga_route = gq_route r, ga_allowed = allowed,
       ga_status = st, ga_reason = reason, ga_ts = now \<rparr>"

section \<open>Token buckets\<close>

record GatewayRateLimitDecision =
  gd_allowed :: bool
  gd_remaining :: u32
  gd_retry_after_secs :: u64
  gd_reason :: string

record GatewayRateLimitConfig =
  max_requests_per_minute :: u32
  burst :: u32

definition default_gateway_rate :: GatewayRateLimitConfig where
  "default_gateway_rate = \<lparr> max_requests_per_minute = 120, burst = 30 \<rparr>"

record GatewayTokenBucket =
  tokens :: real
  last_refill_secs :: nat

record GatewayRateLimiter =
  gl_config :: GatewayRateLimitConfig
  gl_buckets :: "(string, GatewayTokenBucket) hmap"

definition gl_new :: "GatewayRateLimitConfig \<Rightarrow> GatewayRateLimiter" where
  "gl_new c = \<lparr> gl_config = c, gl_buckets = [] \<rparr>"

text \<open>The casts \<^verbatim>\<open>as u32\<close> and \<^verbatim>\<open>as u64\<close> of a float saturate.\<close>

definition sat_u32 :: "int \<Rightarrow> u32" where
  "sat_u32 i = word_of_int (max 0 (min i (2 ^ 32 - 1)))"

definition sat_u64 :: "int \<Rightarrow> u64" where
  "sat_u64 i = word_of_int (max 0 (min i (2 ^ 64 - 1)))"

definition u32_real :: "u32 \<Rightarrow> real" where
  "u32_real w = real (unat w)"

definition refill :: "(real \<Rightarrow> real) \<Rightarrow> GatewayRateLimitConfig \<Rightarrow> nat \<Rightarrow> GatewayTokenBucket \<Rightarrow> GatewayTokenBucket" where
  "refill rnd c now b =
     (let rate = rnd (u32_real (max_requests_per_minute c) / 60);
          elapsed = rnd (real (now - last_refill_secs b))
      in b\<lparr> tokens := min (rnd (tokens b + rnd (elapsed * rate))) (u32_real (burst c)),
            last_refill_secs := now \<rparr>)"

text \<open>A zero refill rate divides a positive float by zero: infinity, which saturates.\<close>

definition retry_after :: "(real \<Rightarrow> real) \<Rightarrow> GatewayRateLimitConfig \<Rightarrow> u32 \<Rightarrow> real \<Rightarrow> u64" where
  "retry_after rnd c weight toks =
     (let rate = rnd (u32_real (max_requests_per_minute c) / 60) in
      if rate = 0 then sat_u64 (2 ^ 64)
      else sat_u64 \<lceil>rnd (rnd (u32_real weight - toks) / rate)\<rceil>)"

definition gl_allow :: "(real \<Rightarrow> real) \<Rightarrow> nat \<Rightarrow> string \<Rightarrow> u32 \<Rightarrow> GatewayRateLimiter \<Rightarrow>
    GatewayRateLimitDecision \<times> GatewayRateLimiter" where
  "gl_allow rnd now peer weight l =
     (let c = gl_config l;
          b0 = (case map_of (gl_buckets l) peer of
                  Some b \<Rightarrow> b
                | None \<Rightarrow> \<lparr> tokens = u32_real (burst c), last_refill_secs = now \<rparr>);
          b = refill rnd c now b0
      in if tokens b \<ge> u32_real weight
         then (let b' = b\<lparr> tokens := rnd (tokens b - u32_real weight) \<rparr> in
               (\<lparr> gd_allowed = True, gd_remaining = sat_u32 \<lfloor>tokens b'\<rfloor>, gd_retry_after_secs = 0, gd_reason = [] \<rparr>,
                l\<lparr> gl_buckets := hm_put peer b' (gl_buckets l) \<rparr>))
         else (\<lparr> gd_allowed = False, gd_remaining = 0,
                 gd_retry_after_secs = retry_after rnd c weight (tokens b),
                 gd_reason = ''rate_limit_exceeded'' \<rparr>,
               l\<lparr> gl_buckets := hm_put peer b (gl_buckets l) \<rparr>))"

section \<open>The integer token bucket\<close>

text \<open>
  The specification: a bucket of \<open>burst\<close> tokens that gains \<open>r\<close> tokens a second. A rounding that is
  monotone and exact on the integers up to \<open>2 ^ 53\<close>, as that of a 64-bit float is, makes the
  limiter compute exactly this bucket when the rate is a whole number of tokens a second.
\<close>

definition f64_like :: "(real \<Rightarrow> real) \<Rightarrow> bool" where
  "f64_like rnd \<longleftrightarrow> mono rnd \<and> (\<forall>n::nat. n \<le> 2 ^ 53 \<longrightarrow> rnd (real n) = real n)"

definition tb_refill :: "nat \<Rightarrow> nat \<Rightarrow> nat \<Rightarrow> nat \<times> nat \<Rightarrow> nat \<times> nat" where
  "tb_refill r b now s = (min b (fst s + r * (now - snd s)), now)"

definition tb_allow :: "nat \<Rightarrow> nat \<Rightarrow> nat \<Rightarrow> nat \<Rightarrow> nat \<times> nat \<Rightarrow> bool \<times> (nat \<times> nat)" where
  "tb_allow r b now w s =
     (case tb_refill r b now s of (k, t) \<Rightarrow> if w \<le> k then (True, (k - w, t)) else (False, (k, t)))"

definition tb_of :: "GatewayRateLimitConfig \<Rightarrow> nat \<Rightarrow> GatewayTokenBucket option \<Rightarrow> nat \<times> nat \<Rightarrow> bool" where
  "tb_of c now ob s \<longleftrightarrow>
     (case ob of
        None \<Rightarrow> s = (unat (burst c), now)
      | Some b \<Rightarrow> tokens b = real (fst s) \<and> fst s \<le> unat (burst c) \<and> last_refill_secs b = snd s)"

declare of_nat_unat [simp del]

lemma u32_lt: "unat (w :: u32) < 4294967296"
  using unsigned_less[of w] by simp

lemma f64_exact: "f64_like rnd \<Longrightarrow> n \<le> 9007199254740992 \<Longrightarrow> rnd (real n) = real n"
  by (simp add: f64_like_def)

lemma f64_ge: "f64_like rnd \<Longrightarrow> n \<le> 9007199254740992 \<Longrightarrow> real n \<le> x \<Longrightarrow> real n \<le> rnd x"
  using monoD[of rnd "real n" x] by (simp add: f64_like_def)

lemma refill_exact:
  assumes f: "f64_like rnd" and r: "unat (max_requests_per_minute c) = 60 * r"
    and b: "tokens b = real k" "k \<le> unat (burst c)"
  shows "tokens (refill rnd c now b) = real (min (unat (burst c)) (k + r * (now - last_refill_secs b)))"
proof -
  let ?B = "unat (burst c)" and ?e = "now - last_refill_secs b"
  have B: "?B < 4294967296" by (rule u32_lt)
  have r32: "r < 4294967296" using u32_lt[of "max_requests_per_minute c"] r by linarith
  have "u32_real (max_requests_per_minute c) / 60 = real r" by (simp add: u32_real_def r)
  then have rate: "rnd (u32_real (max_requests_per_minute c) / 60) = real r"
    using r32 by (simp add: f64_exact[OF f])
  have unfold: "tokens (refill rnd c now b) = min (rnd (real k + rnd (rnd (real ?e) * real r))) (real ?B)"
    by (simp add: refill_def Let_def rate b) (simp add: u32_real_def)
  show ?thesis
  proof (cases "k + r * ?e \<le> ?B")
    case True
    have "rnd (rnd (real ?e) * real r) = real (r * ?e)"
    proof (cases "r = 0")
      case True
      then show ?thesis using f64_exact[OF f, of 0] by simp
    next
      case False
      then have "?e \<le> r * ?e" by simp
      then have "?e < 4294967296" using True B by linarith
      then have "rnd (real ?e) = real ?e" by (simp add: f64_exact[OF f])
      moreover have "real ?e * real r = real (r * ?e)" by (simp add: mult.commute)
      moreover have "r * ?e \<le> 9007199254740992" using True B by linarith
      ultimately show ?thesis using f64_exact[OF f] by metis
    qed
    moreover have "rnd (real (k + r * ?e)) = real (k + r * ?e)" using True B by (intro f64_exact[OF f]) linarith
    moreover have "real (k + r * ?e) \<le> real ?B" using True by (simp only: of_nat_le_iff)
    ultimately show ?thesis using True unfolding unfold by (simp add: min_absorb1 min_absorb2)
  next
    case False
    then have r0: "0 < r" using b(2) by (cases r) auto
    define m where "m = min (r * min ?e ?B) ?B"
    have "?B \<le> k + m"
    proof (cases "?e \<le> ?B")
      case True
      then show ?thesis using False by (simp add: m_def min_def)
    next
      case False
      then have "?B \<le> r * min ?e ?B" using r0 by simp
      then show ?thesis by (simp add: m_def)
    qed
    have "real (min ?e ?B) \<le> rnd (real ?e)" using B by (intro f64_ge[OF f]) auto
    then have "real m \<le> rnd (real ?e) * real r"
    proof -
      assume le: "real (min ?e ?B) \<le> rnd (real ?e)"
      have "real m \<le> real (min ?e ?B) * real r"
        unfolding of_nat_mult[symmetric] of_nat_le_iff by (simp add: m_def mult.commute)
      also have "\<dots> \<le> rnd (real ?e) * real r" using le by (intro mult_right_mono) auto
      finally show ?thesis .
    qed
    then have "real m \<le> rnd (rnd (real ?e) * real r)" using B by (intro f64_ge[OF f]) (auto simp: m_def)
    then have "real ?B \<le> real k + rnd (rnd (real ?e) * real r)" using \<open>?B \<le> k + m\<close> by linarith
    then have "real ?B \<le> rnd (real k + rnd (rnd (real ?e) * real r))" using B by (intro f64_ge[OF f]) auto
    then show ?thesis using False unfolding unfold by simp
  qed
qed

lemma last_refill [simp]: "last_refill_secs (refill rnd c now b) = now"
  by (simp add: refill_def Let_def)

text \<open>One call simulates the integer bucket.\<close>

lemma gl_allow_refines:
  assumes f: "f64_like rnd" and r: "unat (max_requests_per_minute (gl_config l)) = 60 * r"
    and tb: "tb_of (gl_config l) now (map_of (gl_buckets l) peer) s"
    and call: "gl_allow rnd now peer weight l = (d, l')"
    and spec: "tb_allow r (unat (burst (gl_config l))) now (unat weight) s = (ok, s')"
  shows "gd_allowed d = ok \<and> gl_config l' = gl_config l \<and> tb_of (gl_config l') now' (map_of (gl_buckets l') peer) s' \<and>
    (\<forall>q. q \<noteq> peer \<longrightarrow> map_of (gl_buckets l') q = map_of (gl_buckets l) q)"
proof -
  let ?c = "gl_config l"
  define b0 where "b0 = (case map_of (gl_buckets l) peer of
      Some b \<Rightarrow> b | None \<Rightarrow> \<lparr> tokens = u32_real (burst ?c), last_refill_secs = now \<rparr>)"
  have b0: "tokens b0 = real (fst s)" "fst s \<le> unat (burst ?c)" "last_refill_secs b0 = snd s"
    using tb by (auto simp: tb_of_def b0_def u32_real_def split: option.splits)
  define k where "k = min (unat (burst ?c)) (fst s + r * (now - snd s))"
  have t: "tokens (refill rnd ?c now b0) = real k"
    unfolding k_def using refill_exact[OF f r b0(1,2)] by (simp add: b0(3))
  have kB: "k \<le> unat (burst ?c)" by (simp add: k_def)
  have sub: "rnd (real k - real (unat weight)) = real (k - unat weight)" if "unat weight \<le> k"
  proof -
    have "k - unat weight \<le> 9007199254740992" using kB u32_lt[of "burst ?c"] by linarith
    then show ?thesis using f64_exact[OF f, of "k - unat weight"] that by (simp add: of_nat_diff)
  qed
  have tbr: "tb_refill r (unat (burst ?c)) now s = (k, now)" by (simp add: tb_refill_def k_def)
  show ?thesis
    using call spec sub kB
    by (auto simp: gl_allow_def Let_def b0_def[symmetric] t u32_real_def tb_allow_def tbr tb_of_def map_of_hm_put
        split: if_splits)
qed

fun gl_run :: "(real \<Rightarrow> real) \<Rightarrow> (nat \<times> string \<times> u32) list \<Rightarrow> GatewayRateLimiter \<Rightarrow>
    (nat \<times> string \<times> u32) list \<times> GatewayRateLimiter" where
  "gl_run rnd [] l = ([], l)"
| "gl_run rnd ((now, peer, w) # cs) l =
     (case gl_allow rnd now peer w l of (d, l') \<Rightarrow>
        (case gl_run rnd cs l' of (acc, l'') \<Rightarrow> (if gd_allowed d then (now, peer, w) # acc else acc, l'')))"

definition spent :: "string \<Rightarrow> (nat \<times> string \<times> u32) list \<Rightarrow> nat" where
  "spent peer acc = sum_list (map (\<lambda>(t, q, w). if q = peer then unat w else 0) acc)"

lemma tb_allow_budget:
  "tb_allow r b now w (k, t) = (ok, (k', t')) \<Longrightarrow> t \<le> now \<Longrightarrow>
   t' = now \<and> (if ok then w else 0) + k' \<le> k + r * (now - t)"
  by (auto simp: tb_allow_def tb_refill_def split: if_splits)

lemma gl_run_budget:
  "f64_like rnd \<Longrightarrow> unat (max_requests_per_minute (gl_config l)) = 60 * r \<Longrightarrow> sorted (map fst cs) \<Longrightarrow>
   \<forall>e\<in>set cs. t0 \<le> fst e \<and> fst e \<le> t1 \<Longrightarrow>
   tb_of (gl_config l) t0 (map_of (gl_buckets l) peer) (k, t0) \<Longrightarrow> t0 \<le> t1 \<Longrightarrow>
   spent peer (fst (gl_run rnd cs l)) \<le> k + r * (t1 - t0)"
proof (induction cs arbitrary: l k t0)
  case Nil
  then show ?case by (simp add: spent_def)
next
  case (Cons c cs)
  obtain now q w where c: "c = (now, q, w)" by (cases c) auto
  obtain d l1 where call: "gl_allow rnd now q w l = (d, l1)" by force
  let ?B = "unat (burst (gl_config l))"
  have now: "t0 \<le> now" "now \<le> t1" using Cons.prems by (auto simp: c)
  have rest: "sorted (map fst cs)" "\<forall>e\<in>set cs. now \<le> fst e \<and> fst e \<le> t1" "\<forall>e\<in>set cs. t0 \<le> fst e \<and> fst e \<le> t1"
    using Cons.prems by (auto simp: c)
  have cfg: "gl_config l1 = gl_config l"
    using call by (auto simp: gl_allow_def Let_def split: if_splits)
  have step: "spent peer (fst (gl_run rnd (c # cs) l)) =
      (if q = peer \<and> gd_allowed d then unat w else 0) + spent peer (fst (gl_run rnd cs l1))"
    by (simp add: c call spent_def split: prod.split)
  show ?case
  proof (cases "q = peer")
    case True
    have tb: "tb_of (gl_config l) now (map_of (gl_buckets l) peer) (k, if map_of (gl_buckets l) peer = None then now else t0)"
      using Cons.prems(5) by (auto simp: tb_of_def split: option.splits)
    let ?t = "if map_of (gl_buckets l) peer = None then now else t0"
    obtain ok k' t' where spec: "tb_allow r ?B now (unat w) (k, ?t) = (ok, (k', t'))"
      by (metis surj_pair)
    from gl_allow_refines[OF Cons.prems(1,2) tb call[unfolded True] spec]
    have ok: "gd_allowed d = ok" and tb': "tb_of (gl_config l1) now (map_of (gl_buckets l1) peer) (k', t')"
      by blast+
    have bud: "t' = now" "(if ok then unat w else 0) + k' \<le> k + r * (now - ?t)"
      using tb_allow_budget[OF spec] now by auto
    have "spent peer (fst (gl_run rnd cs l1)) \<le> k' + r * (t1 - now)"
      using Cons.IH[of l1 now k'] Cons.prems(1,2) rest tb' bud(1) now by (simp add: cfg)
    moreover have "r * (now - ?t) + r * (t1 - now) \<le> r * (t1 - t0)"
      using now by (auto simp: add_mult_distrib2[symmetric] intro: diff_le_mono2)
    ultimately show ?thesis
      using bud(2) unfolding step ok by (cases ok) (simp_all add: True)
  next
    case False
    have "map_of (gl_buckets l1) peer = map_of (gl_buckets l) peer"
      using call False by (auto simp: gl_allow_def Let_def map_of_hm_put split: if_splits)
    then have "tb_of (gl_config l1) t0 (map_of (gl_buckets l1) peer) (k, t0)" using Cons.prems(5) cfg by simp
    then have "spent peer (fst (gl_run rnd cs l1)) \<le> k + r * (t1 - t0)"
      using Cons.IH[of l1 t0 k] Cons.prems(1,2,6) rest by (simp add: cfg)
    then show ?thesis using False unfolding step by simp
  qed
qed

text \<open>
  C28: the gateway limiter enforces its rate. With a rate of \<open>r\<close> whole tokens a second and a
  rounding like that of 64-bit floats, the weight a peer gets allowed by any sequence of calls of
  any peers between two instants, starting from a fresh limiter, is at most the burst plus \<open>r\<close>
  times the elapsed seconds.
\<close>

theorem gateway_rate_bound:
  assumes "f64_like rnd" and "unat (max_requests_per_minute c) = 60 * r" and "sorted (map fst cs)"
    and "\<forall>e\<in>set cs. t0 \<le> fst e \<and> fst e \<le> t1" and "t0 \<le> t1"
  shows "spent peer (fst (gl_run rnd cs (gl_new c))) \<le> unat (burst c) + r * (t1 - t0)"
  using assms by (intro gl_run_budget) (simp_all add: gl_new_def tb_of_def)

theorem gateway_rate_bound_witness:
  "spent ''p'' (fst (gl_run (\<lambda>x. x) [(10, ''p'', 20), (10, ''q'', 5), (11, ''p'', 12), (12, ''p'', 5)]
     (gl_new default_gateway_rate))) \<le> 34"
proof -
  have "f64_like (\<lambda>x. x)" by (simp add: f64_like_def mono_def)
  from gateway_rate_bound[OF this, of default_gateway_rate 2
      "[(10, ''p'', 20), (10, ''q'', 5), (11, ''p'', 12), (12, ''p'', 5)]" 10 12 "''p''"]
  show ?thesis by (simp add: default_gateway_rate_def)
qed

declare of_nat_unat [simp]

end
