(* ===== verification/World_State.thy ===== *)
theory World_State
  imports Onboarding Authority
begin

text \<open>
  The shared world state, \<^verbatim>\<open>world_state.rs\<close>, and the reputation record of
  \<^verbatim>\<open>network_controller.rs\<close> that its peer entries carry: the peer registry and the counters
  derived from it, the bounded event log, the activation flags with their file, snapshots. The
  clock reading (seconds and RFC 3339 text) and the JSON codec of the flags are arguments; the
  revision counter wraps at its width.
\<close>

section \<open>Data\<close>

record PeerReputation =
  rep_score :: real
  is_quarantined :: bool
  successful_ops :: u64
  last_latency :: real

definition default_reputation :: PeerReputation where
  "default_reputation = \<lparr> rep_score = 1 / 2, is_quarantined = False, successful_ops = 0, last_latency = 200 \<rparr>"

record RouteScore =
  hop_count :: u32
  reliability :: real
  last_used :: u64
  failure_count :: u32

record PolicyViolation =
  pv_timestamp :: u64
  pv_action :: Action
  pv_reason :: string
  pv_severity :: u8

record AuthorityPolicySnapshot =
  ap_version :: u64
  ap_supernodes :: "string list"
  ap_allowed_peer_count :: nat
  ap_max_connections :: nat
  ap_allow_unknown_peers :: bool
  ap_require_signed_messages :: bool

record PeerState =
  ps_peer_id :: string
  ps_role :: "string option"
  ps_reputation :: PeerReputation
  ps_routes :: "(string, RouteScore) btree"
  ps_violations :: "PolicyViolation list"
  ps_connected :: bool
  ps_trusted :: bool
  ps_last_seen :: u64
  activation_cert :: "u8 list option"

record ServiceState =
  ss_service_id :: string
  ss_status :: string
  ss_healthy :: bool
  ss_last_signal :: "string option"
  ss_last_error :: "string option"
  ss_updated_at :: string

record WsGhost =
  gh_state :: string
  gh_health_level :: string
  gh_decision_count :: u64
  connected_count :: nat
  known_count :: nat
  route_count :: nat
  trusted_count :: nat

definition default_ghost :: WsGhost where
  "default_ghost = \<lparr> gh_state = [], gh_health_level = [], gh_decision_count = 0, connected_count = 0,
     known_count = 0, route_count = 0, trusted_count = 0 \<rparr>"

record WorldEvent =
  we_ts :: string
  we_source :: string
  we_signal :: string
  we_revision :: u64

record WorldState =
  revision :: u64
  last_updated :: u64
  ws_authority :: AuthorityPolicySnapshot
  authority_hash :: "string option"
  peer_registry :: "(string, PeerState) btree"
  service_registry :: "(string, ServiceState) btree"
  ws_ghost :: WsGhost
  event_log :: "WorldEvent list"
  network_status :: string
  local_profile :: "LocalProfile option"
  activated_peers :: "(string, bool) hmap"
  peer_x25519_pubkeys :: "(string, u8 list) hmap"

record WorldStateSnapshot =
  sn_authority_version :: u64
  sn_authority_hash :: "string option"
  sn_ghost_state :: string
  sn_health_level :: string
  sn_connected_peers :: nat
  sn_known_peers :: nat
  sn_route_peers :: nat
  sn_trusted_peers :: nat
  sn_peer_count :: nat
  sn_service_count :: nat
  sn_network_status :: string
  sn_last_signal :: "string option"
  sn_last_updated_at :: "string option"
  sn_revision :: u64

record WsClock =
  wc_secs :: u64
  wc_rfc3339 :: string

text \<open>The activation file: absent, or its text.\<close>

type_synonym activation_file = "string option"

record ActivationCodec =
  to_json_flags :: "(string, bool) hmap \<Rightarrow> string option"
  from_json_flags :: "string \<Rightarrow> (string, bool) hmap option"

section \<open>Operations\<close>

definition authority_policy_snapshot :: "AuthorityState \<Rightarrow> AuthorityPolicySnapshot" where
  "authority_policy_snapshot a =
     \<lparr> ap_version = version a, ap_supernodes = supernodes a, ap_allowed_peer_count = length (allowed_peers a),
       ap_max_connections = max_connections (policies a),
       ap_allow_unknown_peers = allow_unknown_peers (policies a),
       ap_require_signed_messages = require_signed_messages (policies a) \<rparr>"

definition bump :: "WsClock \<Rightarrow> WorldState \<Rightarrow> WorldState" where
  "bump ck w = w\<lparr> revision := revision w + 1, last_updated := wc_secs ck \<rparr>"

definition load_activated_peers :: "ActivationCodec \<Rightarrow> activation_file \<Rightarrow> WorldState \<Rightarrow> bool \<times> WorldState" where
  "load_activated_peers cd file w =
     (case file of
        None \<Rightarrow> (True, w)
      | Some json \<Rightarrow>
          (case from_json_flags cd json of
             None \<Rightarrow> (False, w)
           | Some loaded \<Rightarrow> (True, w\<lparr> activated_peers := loaded \<rparr>)))"

definition save_activated_peers :: "ActivationCodec \<Rightarrow> WorldState \<Rightarrow> activation_file \<Rightarrow> activation_file" where
  "save_activated_peers cd w file =
     (case to_json_flags cd (activated_peers w) of None \<Rightarrow> file | Some json \<Rightarrow> Some json)"

definition world_new :: "'pk AuthEnv \<Rightarrow> ActivationCodec \<Rightarrow> WsClock \<Rightarrow> activation_file \<Rightarrow> AuthorityState \<Rightarrow> WorldState" where
  "world_new env cd ck file a =
     snd (load_activated_peers cd file
       \<lparr> revision = 0, last_updated = wc_secs ck, ws_authority = authority_policy_snapshot a,
         authority_hash = Some (hex_encode (compute_hash env a)), peer_registry = [], service_registry = [],
         ws_ghost = default_ghost, event_log = [], network_status = ''booting'', local_profile = None,
         activated_peers = [], peer_x25519_pubkeys = [] \<rparr>)"

definition register_peer_pubkey :: "string \<Rightarrow> u8 list \<Rightarrow> WorldState \<Rightarrow> WorldState" where
  "register_peer_pubkey peer pk w = w\<lparr> peer_x25519_pubkeys := hm_put peer pk (peer_x25519_pubkeys w) \<rparr>"

definition apply_snapshot :: "WsClock \<Rightarrow> WorldStateSnapshot \<Rightarrow> WorldState \<Rightarrow> WorldState" where
  "apply_snapshot ck s w = bump ck
     (w\<lparr> revision := sn_revision s,
         ws_ghost := (ws_ghost w)\<lparr> gh_state := sn_ghost_state s, gh_health_level := sn_health_level s \<rparr>,
         network_status := sn_network_status s,
         ws_authority := (ws_authority w)\<lparr> ap_version := sn_authority_version s \<rparr> \<rparr>)"

definition from_snapshot :: "'pk AuthEnv \<Rightarrow> ActivationCodec \<Rightarrow> WsClock \<Rightarrow> activation_file \<Rightarrow> WorldStateSnapshot \<Rightarrow>
    AuthorityState \<Rightarrow> WorldState" where
  "from_snapshot env cd ck file s a = apply_snapshot ck s (world_new env cd ck file a)"

definition peer_counts_from_registry :: "WorldState \<Rightarrow> nat \<times> nat \<times> nat \<times> nat" where
  "peer_counts_from_registry w =
     (let g = ws_ghost w; ps = map snd (peer_registry w) in
      if peer_registry w = [] then (connected_count g, known_count g, route_count g, trusted_count g)
      else (length (filter ps_connected ps), length (peer_registry w),
            length (filter (\<lambda>p. ps_routes p \<noteq> []) ps), length (filter ps_trusted ps)))"

definition ws_snapshot :: "WsClock \<Rightarrow> WorldState \<Rightarrow> WorldStateSnapshot" where
  "ws_snapshot ck w =
     (case peer_counts_from_registry w of (c, k, r, t) \<Rightarrow>
        \<lparr> sn_authority_version = ap_version (ws_authority w), sn_authority_hash = authority_hash w,
          sn_ghost_state = gh_state (ws_ghost w), sn_health_level = gh_health_level (ws_ghost w),
          sn_connected_peers = c, sn_known_peers = k, sn_route_peers = r, sn_trusted_peers = t,
          sn_peer_count = k, sn_service_count = length (service_registry w),
          sn_network_status = network_status w,
          sn_last_signal = (if event_log w = [] then None else Some (we_signal (last (event_log w)))),
          sn_last_updated_at = Some (wc_rfc3339 ck), sn_revision = revision w \<rparr>)"

definition observe_signal :: "WsClock \<Rightarrow> string \<Rightarrow> WorldState \<Rightarrow> WorldState" where
  "observe_signal ck signal w =
     (let event = \<lparr> we_ts = wc_rfc3339 ck, we_source = ''system'', we_signal = signal, we_revision = revision w \<rparr>;
          log = event_log w @ [event];
          log = (if length log > 256 then tl log else log)
      in bump ck (w\<lparr> event_log := log \<rparr>))"

definition set_authority :: "'pk AuthEnv \<Rightarrow> WsClock \<Rightarrow> AuthorityState \<Rightarrow> WorldState \<Rightarrow> WorldState" where
  "set_authority env ck a w = bump ck
     (w\<lparr> ws_authority := authority_policy_snapshot a, authority_hash := Some (hex_encode (compute_hash env a)) \<rparr>)"

definition set_ghost_state :: "WsClock \<Rightarrow> string \<Rightarrow> WorldState \<Rightarrow> WorldState" where
  "set_ghost_state ck st w = bump ck (w\<lparr> ws_ghost := (ws_ghost w)\<lparr> gh_state := st \<rparr> \<rparr>)"

definition set_health_level :: "WsClock \<Rightarrow> string \<Rightarrow> WorldState \<Rightarrow> WorldState" where
  "set_health_level ck lv w = bump ck (w\<lparr> ws_ghost := (ws_ghost w)\<lparr> gh_health_level := lv \<rparr> \<rparr>)"

definition set_counts :: "nat \<times> nat \<times> nat \<times> nat \<Rightarrow> WorldState \<Rightarrow> WorldState" where
  "set_counts n w = (case n of (c, k, r, t) \<Rightarrow>
     w\<lparr> ws_ghost := (ws_ghost w)\<lparr> connected_count := c, known_count := k, route_count := r, trusted_count := t \<rparr> \<rparr>)"

definition update_peers :: "WsClock \<Rightarrow> nat \<Rightarrow> nat \<Rightarrow> nat \<Rightarrow> nat \<Rightarrow> WorldState \<Rightarrow> WorldState" where
  "update_peers ck c k r t w = bump ck (set_counts (c, k, r, t) w)"

definition sync_ghost_from_registry :: "WorldState \<Rightarrow> WorldState" where
  "sync_ghost_from_registry w = set_counts (peer_counts_from_registry w) w"

definition active_supernode_count :: "WorldState \<Rightarrow> nat" where
  "active_supernode_count w =
     length (filter (\<lambda>p. ps_connected p \<and>
       (case ps_role p of None \<Rightarrow> False | Some r \<Rightarrow> str_lower (str_trim r) = ''supernode''))
       (map snd (peer_registry w)))"

definition new_peer_state :: "u64 \<Rightarrow> string \<Rightarrow> PeerState" where
  "new_peer_state now peer_id =
     \<lparr> ps_peer_id = peer_id, ps_role = None, ps_reputation = default_reputation, ps_routes = [],
       ps_violations = [], ps_connected = False, ps_trusted = False, ps_last_seen = now,
       activation_cert = None \<rparr>"

definition upsert_peer_state :: "WsClock \<Rightarrow> string \<Rightarrow> string option \<Rightarrow> bool \<Rightarrow> bool option \<Rightarrow> WorldState \<Rightarrow> WorldState" where
  "upsert_peer_state ck peer_id role conn trust w =
     (let now = wc_secs ck;
          entry = (case map_of (peer_registry w) peer_id of Some p \<Rightarrow> p | None \<Rightarrow> new_peer_state now peer_id);
          entry = (case role of Some r \<Rightarrow> entry\<lparr> ps_role := Some r \<rparr> | None \<Rightarrow> entry);
          entry = entry\<lparr> ps_connected := conn \<rparr>;
          entry = (case trust of Some t \<Rightarrow> entry\<lparr> ps_trusted := t \<rparr> | None \<Rightarrow> entry);
          entry = entry\<lparr> ps_last_seen := now \<rparr>
      in bump ck (sync_ghost_from_registry (w\<lparr> peer_registry := bt_put peer_id entry (peer_registry w) \<rparr>)))"

definition set_peer_connected :: "WsClock \<Rightarrow> string \<Rightarrow> bool \<Rightarrow> WorldState \<Rightarrow> WorldState" where
  "set_peer_connected ck peer_id conn w =
     (let p = map_of (peer_registry w) peer_id in
      upsert_peer_state ck peer_id (Option.bind p ps_role) conn (map_option ps_trusted p) w)"

definition set_peer_role :: "WsClock \<Rightarrow> string \<Rightarrow> string \<Rightarrow> WorldState \<Rightarrow> WorldState" where
  "set_peer_role ck peer_id role w =
     (let p = map_of (peer_registry w) peer_id in
      upsert_peer_state ck peer_id (Some role) (case p of Some q \<Rightarrow> ps_connected q | None \<Rightarrow> False)
        (map_option ps_trusted p) w)"

definition set_peer_trusted :: "WsClock \<Rightarrow> string \<Rightarrow> bool \<Rightarrow> WorldState \<Rightarrow> WorldState" where
  "set_peer_trusted ck peer_id trust w =
     (let p = map_of (peer_registry w) peer_id in
      upsert_peer_state ck peer_id (Option.bind p ps_role) (case p of Some q \<Rightarrow> ps_connected q | None \<Rightarrow> False)
        (Some trust) w)"

definition add_route :: "WsClock \<Rightarrow> string \<Rightarrow> string \<Rightarrow> WorldState \<Rightarrow> WorldState" where
  "add_route ck peer_id via w = bump ck (sync_ghost_from_registry
     (case map_of (peer_registry w) peer_id of
        None \<Rightarrow> w
      | Some p \<Rightarrow> w\<lparr> peer_registry := bt_put peer_id
          (p\<lparr> ps_routes := bt_put via \<lparr> hop_count = 1, reliability = 1, last_used = wc_secs ck, failure_count = 0 \<rparr>
             (ps_routes p) \<rparr>) (peer_registry w) \<rparr>))"

definition remove_route :: "WsClock \<Rightarrow> string \<Rightarrow> string \<Rightarrow> WorldState \<Rightarrow> WorldState" where
  "remove_route ck peer_id via w = bump ck (sync_ghost_from_registry
     (case map_of (peer_registry w) peer_id of
        None \<Rightarrow> w
      | Some p \<Rightarrow> w\<lparr> peer_registry := bt_put peer_id (p\<lparr> ps_routes := m_del via (ps_routes p) \<rparr>) (peer_registry w) \<rparr>))"

definition set_local_profile :: "ActivationCodec \<Rightarrow> LocalProfile \<Rightarrow> WorldState \<times> activation_file \<Rightarrow>
    WorldState \<times> activation_file" where
  "set_local_profile cd profile st =
     (let w = (fst st)\<lparr> local_profile := Some profile,
            activated_peers := hm_put (lp_peer_id profile) (lp_is_activated profile) (activated_peers (fst st)) \<rparr>
      in (w, save_activated_peers cd w (snd st)))"

definition mark_peer_activated :: "ActivationCodec \<Rightarrow> string \<Rightarrow> WorldState \<times> activation_file \<Rightarrow>
    WorldState \<times> activation_file" where
  "mark_peer_activated cd peer_id st =
     (let w = (fst st)\<lparr> activated_peers := hm_put peer_id True (activated_peers (fst st)) \<rparr>
      in (w, save_activated_peers cd w (snd st)))"

definition is_peer_activated :: "WorldState \<Rightarrow> string \<Rightarrow> bool" where
  "is_peer_activated w peer_id =
     (map_of (activated_peers w) peer_id = Some True \<and>
      (case map_of (peer_registry w) peer_id of None \<Rightarrow> False | Some p \<Rightarrow> activation_cert p \<noteq> None))"

definition get_allowed_peers_list :: "WorldState \<Rightarrow> string list" where
  "get_allowed_peers_list w = map fst (peer_registry w)"

definition get_bootstrap_addrs :: "WorldState \<Rightarrow> string list" where
  "get_bootstrap_addrs w = ap_supernodes (ws_authority w)"

definition prime_control_center :: "'pk AuthEnv \<Rightarrow> WsClock \<Rightarrow> AuthorityState \<Rightarrow> WorldState \<Rightarrow>
    WorldStateSnapshot \<times> WorldState" where
  "prime_control_center env ck a w =
     (let w = observe_signal ck ''control_center_primed'' (set_authority env ck a w) in (ws_snapshot ck w, w))"

section \<open>Runs\<close>

datatype WsOp =
    OpSignal string
  | OpAuthority AuthorityState
  | OpGhost string
  | OpHealth string
  | OpCounts nat nat nat nat
  | OpUpsert string "string option" bool "bool option"
  | OpConnected string bool
  | OpRole string string
  | OpTrusted string bool
  | OpAddRoute string string
  | OpRemoveRoute string string

fun ws_step :: "'pk AuthEnv \<Rightarrow> WsClock \<Rightarrow> WsOp \<Rightarrow> WorldState \<Rightarrow> WorldState" where
  "ws_step env ck (OpSignal s) w = observe_signal ck s w"
| "ws_step env ck (OpAuthority a) w = set_authority env ck a w"
| "ws_step env ck (OpGhost s) w = set_ghost_state ck s w"
| "ws_step env ck (OpHealth s) w = set_health_level ck s w"
| "ws_step env ck (OpCounts c k r t) w = update_peers ck c k r t w"
| "ws_step env ck (OpUpsert p r c t) w = upsert_peer_state ck p r c t w"
| "ws_step env ck (OpConnected p c) w = set_peer_connected ck p c w"
| "ws_step env ck (OpRole p r) w = set_peer_role ck p r w"
| "ws_step env ck (OpTrusted p t) w = set_peer_trusted ck p t w"
| "ws_step env ck (OpAddRoute p v) w = add_route ck p v w"
| "ws_step env ck (OpRemoveRoute p v) w = remove_route ck p v w"

fun ws_run :: "'pk AuthEnv \<Rightarrow> (WsClock \<times> WsOp) list \<Rightarrow> WorldState \<Rightarrow> WorldState" where
  "ws_run env [] w = w"
| "ws_run env ((ck, x) # xs) w = ws_run env xs (ws_step env ck x w)"

fun signal_of :: "WsOp \<Rightarrow> string list" where
  "signal_of (OpSignal s) = [s]"
| "signal_of _ = []"

definition signals :: "(WsClock \<times> WsOp) list \<Rightarrow> string list" where
  "signals xs = concat (map (\<lambda>(ck, x). signal_of x) xs)"

fun registry_op :: "WsOp \<Rightarrow> bool" where
  "registry_op (OpUpsert p r c t) = True"
| "registry_op (OpConnected p c) = True"
| "registry_op (OpRole p r) = True"
| "registry_op (OpTrusted p t) = True"
| "registry_op (OpAddRoute p v) = True"
| "registry_op (OpRemoveRoute p v) = True"
| "registry_op _ = False"

section \<open>Lemmas\<close>

lemma set_counts_fields [simp]:
  "revision (set_counts n w) = revision w" "event_log (set_counts n w) = event_log w"
  "peer_registry (set_counts n w) = peer_registry w" "activated_peers (set_counts n w) = activated_peers w"
  by (simp_all add: set_counts_def split: prod.split)

lemma bump_fields [simp]:
  "revision (bump ck w) = revision w + 1" "event_log (bump ck w) = event_log w"
  "peer_registry (bump ck w) = peer_registry w" "activated_peers (bump ck w) = activated_peers w"
  "ws_ghost (bump ck w) = ws_ghost w"
  by (simp_all add: bump_def)

lemma sync_fields [simp]:
  "revision (sync_ghost_from_registry w) = revision w" "event_log (sync_ghost_from_registry w) = event_log w"
  "peer_registry (sync_ghost_from_registry w) = peer_registry w"
  by (simp_all add: sync_ghost_from_registry_def)

definition counters :: "WorldState \<Rightarrow> nat \<times> nat \<times> nat \<times> nat" where
  "counters w = (let g = ws_ghost w in (connected_count g, known_count g, route_count g, trusted_count g))"

lemma counters_sync: "counters (sync_ghost_from_registry w) = peer_counts_from_registry w"
  by (auto simp: counters_def sync_ghost_from_registry_def set_counts_def Let_def split: prod.split)

lemma counts_bump [simp]: "peer_counts_from_registry (bump ck w) = peer_counts_from_registry w"
  "counters (bump ck w) = counters w"
  by (simp_all add: peer_counts_from_registry_def counters_def Let_def)

lemma counts_sync [simp]: "peer_counts_from_registry (sync_ghost_from_registry w) = peer_counts_from_registry w"
  by (auto simp: peer_counts_from_registry_def sync_ghost_from_registry_def set_counts_def Let_def split: prod.split)

lemmas registry_op_defs = upsert_peer_state_def set_peer_connected_def set_peer_role_def set_peer_trusted_def
  add_route_def remove_route_def

lemmas ws_op_defs = observe_signal_def set_authority_def set_ghost_state_def set_health_level_def
  update_peers_def registry_op_defs

lemma revision_step [simp]: "revision (ws_step env ck x w) = revision w + 1"
  by (cases x) (simp_all add: ws_op_defs Let_def split: option.split)

lemma revision_run: "revision (ws_run env xs w) = revision w + of_nat (length xs)"
  by (induction env xs w rule: ws_run.induct) (simp_all add: algebra_simps)

lemma pop_front_trim:
  assumes "length xs \<le> n" "0 < n"
  shows "(if n < Suc (length xs) then tl (xs @ [x]) else xs @ [x]) = trim_front n (xs @ [x])"
proof (cases "length xs = n")
  case True
  then show ?thesis by (cases xs) (auto simp: trim_front_drop)
next
  case False
  then show ?thesis using assms by (simp add: trim_front_drop)
qed

lemma map_trim_front: "map f (trim_front n xs) = trim_front n (map f xs)"
  by (simp add: trim_front_drop drop_map)

lemma trim_front_trim: "trim_front n (trim_front n xs @ ys) = trim_front n (xs @ ys)"
  by (cases "length xs \<le> n") (auto simp: trim_front_drop add.commute)

lemma log_step:
  assumes "length (event_log w) \<le> 256"
  shows "map we_signal (event_log (ws_step env ck x w)) = trim_front 256 (map we_signal (event_log w) @ signal_of x)"
proof (cases x)
  case (OpSignal sg)
  define ev where "ev = \<lparr> we_ts = wc_rfc3339 ck, we_source = ''system'', we_signal = sg, we_revision = revision w \<rparr>"
  have "event_log (ws_step env ck x w) = trim_front 256 (event_log w @ [ev])"
    using assms by (simp add: OpSignal observe_signal_def Let_def pop_front_trim[symmetric] ev_def)
  then show ?thesis by (simp add: OpSignal map_trim_front ev_def)
qed (use assms in \<open>simp_all add: ws_op_defs Let_def trim_front_drop split: option.split\<close>)

lemma log_run:
  "length (event_log w) \<le> 256 \<Longrightarrow>
   map we_signal (event_log (ws_run env xs w)) = trim_front 256 (map we_signal (event_log w) @ signals xs)"
proof (induction xs arbitrary: w)
  case Nil
  then show ?case by (simp add: trim_front_drop signals_def)
next
  case (Cons e xs)
  obtain ck x where e: "e = (ck, x)" by force
  have st: "map we_signal (event_log (ws_step env ck x w)) = trim_front 256 (map we_signal (event_log w) @ signal_of x)"
    by (rule log_step[OF Cons.prems])
  then have "length (map we_signal (event_log (ws_step env ck x w))) \<le> 256" by simp
  then have "length (event_log (ws_step env ck x w)) \<le> 256" by simp
  from Cons.IH[OF this] show ?case by (simp add: e st trim_front_trim signals_def)
qed

definition registry_ok :: "WorldState \<Rightarrow> bool" where
  "registry_ok w \<longleftrightarrow> bt_ok (peer_registry w) \<and>
     (\<forall>k p. map_of (peer_registry w) k = Some p \<longrightarrow> ps_peer_id p = k \<and> bt_ok (ps_routes p))"

lemma registry_ok_put:
  "registry_ok w \<Longrightarrow> ps_peer_id p = k \<Longrightarrow> bt_ok (ps_routes p) \<Longrightarrow>
   peer_registry w' = bt_put k p (peer_registry w) \<Longrightarrow> registry_ok w'"
  by (auto simp: registry_ok_def map_of_bt_put bt_ok_put)

lemma registry_ok_same: "registry_ok w \<Longrightarrow> peer_registry w' = peer_registry w \<Longrightarrow> registry_ok w'"
  by (simp add: registry_ok_def)

lemma registry_ok_step: "registry_ok w \<Longrightarrow> registry_ok (ws_step env ck x w)"
proof -
  assume ok: "registry_ok w"
  have get: "ps_peer_id p = k \<and> bt_ok (ps_routes p)" if "map_of (peer_registry w) k = Some p" for k p
    using ok that by (simp add: registry_ok_def)
  have ups: "registry_ok (upsert_peer_state ck k r c t w)" for k r c t
  proof -
    define base where "base = (case map_of (peer_registry w) k of Some p \<Rightarrow> p | None \<Rightarrow> new_peer_state (wc_secs ck) k)"
    have b: "ps_peer_id base = k" "bt_ok (ps_routes base)"
      using get by (auto simp: base_def new_peer_state_def split: option.split)
    obtain q where q: "peer_registry (upsert_peer_state ck k r c t w) = bt_put k q (peer_registry w)"
      "ps_peer_id q = ps_peer_id base" "ps_routes q = ps_routes base"
      by (auto simp: upsert_peer_state_def Let_def base_def[symmetric] split: option.split)
    show ?thesis by (rule registry_ok_put[OF ok _ _ q(1)]) (simp_all add: q b)
  qed
  show ?thesis
  proof (cases x)
    case (OpAddRoute k v)
    show ?thesis
    proof (cases "map_of (peer_registry w) k")
      case None
      then show ?thesis using ok by (auto simp: OpAddRoute add_route_def intro: registry_ok_same)
    next
      case (Some q)
      show ?thesis
        unfolding OpAddRoute ws_step.simps
        by (rule registry_ok_put[OF ok, of "q\<lparr> ps_routes := bt_put v \<lparr> hop_count = 1, reliability = 1,
              last_used = wc_secs ck, failure_count = 0 \<rparr> (ps_routes q) \<rparr>" k])
          (use get[OF Some] in \<open>auto simp: add_route_def Some bt_ok_put\<close>)
    qed
  next
    case (OpRemoveRoute k v)
    show ?thesis
    proof (cases "map_of (peer_registry w) k")
      case None
      then show ?thesis using ok by (auto simp: OpRemoveRoute remove_route_def intro: registry_ok_same)
    next
      case (Some q)
      show ?thesis
        unfolding OpRemoveRoute ws_step.simps
        by (rule registry_ok_put[OF ok, of "q\<lparr> ps_routes := m_del v (ps_routes q) \<rparr>" k])
          (use get[OF Some] in \<open>auto simp: remove_route_def Some bt_ok_del\<close>)
    qed
  qed (use ok ups in \<open>auto simp: set_peer_connected_def set_peer_role_def set_peer_trusted_def Let_def
        observe_signal_def set_authority_def set_ghost_state_def set_health_level_def update_peers_def
        intro: registry_ok_same\<close>)
qed

lemma registry_ok_run: "registry_ok w \<Longrightarrow> registry_ok (ws_run env xs w)"
  by (induction env xs w rule: ws_run.induct) (auto intro: registry_ok_step)

lemma counters_registry_op: "registry_op x \<Longrightarrow> counters (ws_step env ck x w) = peer_counts_from_registry (ws_step env ck x w)"
  by (cases x) (simp_all add: registry_op_defs Let_def counters_sync)

lemma world_new_fields:
  "revision (world_new env cd ck file a) = 0" "event_log (world_new env cd ck file a) = []"
  "peer_registry (world_new env cd ck file a) = []"
  "activated_peers (world_new env cd ck file a) =
     (case Option.bind file (from_json_flags cd) of None \<Rightarrow> [] | Some m \<Rightarrow> m)"
  by (auto simp: world_new_def load_activated_peers_def split: option.split)

section \<open>Properties\<close>


definition demo_ws_env :: "unit AuthEnv" where
  "demo_ws_env = \<lparr> sha256 = (\<lambda>_. []), sig_from_bytes = (\<lambda>_. None), pk_verify = (\<lambda>_ _ _. False),
     de_bincode = (\<lambda>_. None), de_json = (\<lambda>_. None) \<rparr>"

definition demo_ws_clock :: WsClock where
  "demo_ws_clock = \<lparr> wc_secs = 7, wc_rfc3339 = ''t'' \<rparr>"

definition demo_codec :: ActivationCodec where
  "demo_codec = \<lparr> to_json_flags = (\<lambda>m. if m = [(''p'', True)] then Some ''j'' else None),
     from_json_flags = (\<lambda>s. if s = ''j'' then Some [(''p'', True)] else None) \<rparr>"


text \<open>
  Activation. A peer counts as activated only with both its flag and an activation
  certificate in the registry. The flag survives a restart through the activation file; the
  certificate does not, so that after a restart no peer is activated until a certificate is
  recorded again.
\<close>

theorem activation_restart:
  assumes codec: "\<exists>s. to_json_flags cd (activated_peers w') = Some s \<and> from_json_flags cd s = Some (activated_peers w')"
    and "mark_peer_activated cd peer (w, file) = (w', file')"
  shows "(is_peer_activated w' peer \<longleftrightarrow> (\<exists>p. map_of (peer_registry w') peer = Some p \<and> activation_cert p \<noteq> None)) \<and>
    map_of (activated_peers (world_new env cd ck file' a)) peer = Some True \<and>
    \<not> is_peer_activated (world_new env cd ck file' a) q"
proof -
  have w': "activated_peers w' = hm_put peer True (activated_peers w)"
    and file': "file' = save_activated_peers cd w' file"
    using assms(2) by (auto simp: mark_peer_activated_def Let_def)
  obtain s where "to_json_flags cd (activated_peers w') = Some s" "from_json_flags cd s = Some (activated_peers w')"
    using codec by blast
  then have "activated_peers (world_new env cd ck file' a) = activated_peers w'"
    by (simp add: world_new_fields file' save_activated_peers_def)
  then show ?thesis
    by (auto simp: w' map_of_hm_put is_peer_activated_def world_new_fields split: option.splits)
qed

theorem activation_restart_witness:
  "map_of (activated_peers (world_new demo_ws_env demo_codec demo_ws_clock
     (snd (mark_peer_activated demo_codec ''p'' (world_new demo_ws_env demo_codec demo_ws_clock None default_state, None)))
     default_state)) ''p'' = Some True \<and>
   \<not> is_peer_activated (world_new demo_ws_env demo_codec demo_ws_clock
     (snd (mark_peer_activated demo_codec ''p'' (world_new demo_ws_env demo_codec demo_ws_clock None default_state, None)))
     default_state) ''p''"
proof -
  let ?w = "world_new demo_ws_env demo_codec demo_ws_clock None default_state"
  let ?m = "mark_peer_activated demo_codec ''p'' (?w, None)"
  have "activated_peers (fst ?m) = [(''p'', True)]"
    by (simp add: mark_peer_activated_def Let_def world_new_fields hm_put_def)
  then have "\<exists>s. to_json_flags demo_codec (activated_peers (fst ?m)) = Some s \<and>
      from_json_flags demo_codec s = Some (activated_peers (fst ?m))"
    by (simp add: demo_codec_def)
  from activation_restart[OF this surjective_pairing] show ?thesis by blast
qed

end
