(* ===== verification/Id_Rotation.thy ===== *)
theory Id_Rotation
  imports Prelude
begin

text \<open>
  Rotation of the internal keys, \<^verbatim>\<open>id_rotation.rs\<close>: the epochs of 24 hours, the seed chain and
  the background task, as a function of the clock readings it makes. SHA-256 is an argument.
\<close>

definition ROTATION_PERIOD :: nat where
  "ROTATION_PERIOD = 86400"

definition current_epoch :: "nat \<Rightarrow> nat" where
  "current_epoch now = now div ROTATION_PERIOD"

definition next_rotation_in_secs :: "nat \<Rightarrow> nat" where
  "next_rotation_in_secs now = (current_epoch now + 1) * ROTATION_PERIOD - now"

definition initial_seed_from_secret :: "(u8 list \<Rightarrow> u8 list) \<Rightarrow> u8 list \<Rightarrow> u64 \<Rightarrow> u8 list" where
  "initial_seed_from_secret sha secret_seed epoch =
     sha (as_bytes ''ESS-ID-ROTATION-INIT-v1'' @ secret_seed @ to_le_bytes epoch)"

definition next_epoch_seed :: "(u8 list \<Rightarrow> u8 list) \<Rightarrow> u8 list \<Rightarrow> u8 list" where
  "next_epoch_seed sha current_seed = sha (as_bytes ''ESS-ID-ROTATION-CHAIN-v1'' @ current_seed)"

definition should_rotate :: "nat \<Rightarrow> nat \<Rightarrow> bool" where
  "should_rotate now last_rotation_epoch \<longleftrightarrow> current_epoch now > last_rotation_epoch"

text \<open>
  The loop of \<^verbatim>\<open>rotation_task\<close>: each element of the list is the clock reading after one sleep;
  the result is the seeds handed to the callback.
\<close>

fun rotation_loop :: "(u8 list \<Rightarrow> u8 list) \<Rightarrow> nat \<Rightarrow> u8 list \<Rightarrow> nat list \<Rightarrow> u8 list list" where
  "rotation_loop sha last_epoch seed [] = []"
| "rotation_loop sha last_epoch seed (now # rest) =
     (let current = current_epoch now in
      if current > last_epoch
      then (let seed = next_epoch_seed sha seed in seed # rotation_loop sha current seed rest)
      else rotation_loop sha last_epoch seed rest)"

definition rotation_task :: "(u8 list \<Rightarrow> u8 list) \<Rightarrow> u8 list \<Rightarrow> nat \<Rightarrow> nat list \<Rightarrow> u8 list list" where
  "rotation_task sha secret_seed start readings =
     (let last_epoch = current_epoch start;
          seed = initial_seed_from_secret sha secret_seed (word_of_nat last_epoch)
      in seed # rotation_loop sha last_epoch seed readings)"

section \<open>Properties\<close>

text \<open>The sleep never overshoots: the computed wake-up time is the start of the next epoch.\<close>

lemma next_rotation_bounds: "0 < next_rotation_in_secs now \<and> next_rotation_in_secs now \<le> ROTATION_PERIOD \<and>
    current_epoch (now + next_rotation_in_secs now) = current_epoch now + 1"
proof -
  define q m where "q = now div 86400" and "m = now mod 86400"
  have now: "now = 86400 * q + m" and m: "m < 86400" by (simp_all add: q_def m_def)
  have n: "next_rotation_in_secs now = 86400 * (q + 1) - now"
    by (simp add: next_rotation_in_secs_def current_epoch_def ROTATION_PERIOD_def q_def)
  have "now \<le> 86400 * (q + 1)" using now m by simp
  then have "now + next_rotation_in_secs now = 86400 * (q + 1)" by (simp add: n)
  moreover have "next_rotation_in_secs now = 86400 - m" unfolding n using now by simp
  ultimately show ?thesis
    using m by (simp add: current_epoch_def ROTATION_PERIOD_def q_def)
qed

lemma rotation_loop_chain:
  "i < length (rotation_loop sha e seed rs) \<Longrightarrow>
   rotation_loop sha e seed rs ! i = (next_epoch_seed sha ^^ Suc i) seed"
proof (induction rs arbitrary: e seed i)
  case (Cons r rs)
  then show ?case
    by (cases i) (auto simp: Let_def funpow_swap1 split: if_splits)
qed simp

lemma rotation_loop_length:
  "sorted (e # map current_epoch rs) \<Longrightarrow>
   length (rotation_loop sha e seed rs) = card (current_epoch ` set rs - {e})"
proof (induction rs arbitrary: e seed)
  case (Cons r rs)
  show ?case
  proof (cases "current_epoch r > e")
    case True
    have "e \<notin> current_epoch ` set (r # rs)" using Cons.prems True by auto
    then have "card (current_epoch ` set (r # rs) - {e}) = card (insert (current_epoch r) (current_epoch ` set rs))"
      by simp
    also have "\<dots> = Suc (card (current_epoch ` set rs - {current_epoch r}))"
      by (simp add: card_insert_if card_Diff_singleton_if card_gt_0_iff)
        (metis Suc_pred card_gt_0_iff empty_iff finite_imageI finite_set image_eqI)
    finally show ?thesis using True Cons by (simp add: Let_def)
  next
    case False
    then have "current_epoch r = e" using Cons.prems by auto
    then show ?thesis using Cons by simp
  qed
qed simp

text \<open>
  The rotation chain. The task hands out the seed derived from the secret and the starting
  epoch, and then, for clock readings that do not go back, one new seed for each further epoch in
  which it woke up, each the hash of the one before it; an epoch in which the task did not wake up
  (a suspended machine) is skipped without a step of the chain.
\<close>

theorem rotation_chain:
  assumes "sorted (start # readings)" and "seeds = rotation_task sha secret start readings"
  shows "length seeds = card (current_epoch ` set (start # readings)) \<and>
    (\<forall>i < length seeds. seeds ! i = (next_epoch_seed sha ^^ i)
       (initial_seed_from_secret sha secret (word_of_nat (current_epoch start))))"
proof -
  let ?e = "current_epoch start"
  have mono: "a \<le> b \<Longrightarrow> current_epoch a \<le> current_epoch b" for a b
    by (simp add: current_epoch_def div_le_mono)
  have "sorted (map current_epoch (start # readings))"
    using assms(1) by (intro sorted_map_mono[of _ "current_epoch"]) (auto simp: mono mono_on_def)
  then have len: "length (rotation_loop sha ?e s readings) = card (current_epoch ` set readings - {?e})" for s
    by (intro rotation_loop_length) simp
  have "length seeds = card (current_epoch ` set (start # readings))"
    unfolding assms(2) rotation_task_def Let_def
    by (simp add: len card_insert_if card_Diff_singleton_if card_gt_0_iff)
      (metis Suc_pred card_gt_0_iff empty_iff finite_imageI finite_set image_eqI)
  moreover have "seeds ! i = (next_epoch_seed sha ^^ i) (initial_seed_from_secret sha secret (word_of_nat ?e))"
    if "i < length seeds" for i
    using that rotation_loop_chain unfolding assms(2) rotation_task_def Let_def
    by (cases i) (simp_all add: nth_Cons')
  ultimately show ?thesis by blast
qed

theorem rotation_chain_witness:
  "length (rotation_task (\<lambda>b. take 2 (rev b)) [1, 2] 10 [86500, 259300]) = 3"
  using rotation_chain[OF _ refl, of 10 "[86500, 259300]" "\<lambda>b. take 2 (rev b)" "[1, 2]"]
  by (simp add: current_epoch_def ROTATION_PERIOD_def)

end
