(* ===== verification/Controller.thy ===== *)
theory Controller
  imports Security_Proofs Gateway_Limiter World_State Id_Rotation
begin

text \<open>
  The network controller, \<^verbatim>\<open>network_controller.rs\<close>, less its swarm: peer reputation and
  quarantine, the enforcement of actions, the gateway limiter, the requests that wait for a
  reply, the key rotation and the sink for the decisions of the ghost runtime. A lock that a
  panic has poisoned is a flag; the events and replies the controller sends are lists in its
  state; floating-point results are rounded by the argument \<open>rnd\<close>.
\<close>

section \<open>Data\<close>

datatype SystemEventKind =
    PeerConnected string
  | PeerDisconnected string
  | HighLatency string real
  | SecurityReject string string
  | AnomalyDetected string
  | RoutePressure string
  | AuthorityViolation string Action
  | GhostDecisionExecuted string string
  | WorldStateSynced u64
  | SyncCompleted
  | GhostRecommendation string
  | GatewayAudit string string bool
  | ComputeJobQueued string string
  | ComputeJobStarted string
  | ComputeJobCompleted string u64
  | ComputeJobFailed string string
  | ComputeJobCancelled string

record SystemEvent =
  se_timestamp :: u64
  se_source :: string
  se_kind :: SystemEventKind

record 'pk Controller =
  ct_local :: string
  ct_authority :: "AuthorityManager option"
  ct_security :: "'pk SecurityRuntime option"
  ct_reputation :: "(string, PeerReputation) hmap"
  ct_limiter :: GatewayRateLimiter
  ct_has_event_tx :: bool
  ct_events :: "SystemEvent list"
  ct_pending_direct :: "nat list"
  ct_replies :: "(nat \<times> (string + u8 list)) list"
  ct_onion_secret :: "u8 list option"
  ct_rotation_seed :: "u8 list option"
  rep_poisoned :: bool
  sec_poisoned :: bool
  auth_poisoned :: bool

definition ct_new :: "string \<Rightarrow> bool \<Rightarrow> 'pk Controller" where
  "ct_new peer has_tx =
     \<lparr> ct_local = peer, ct_authority = None, ct_security = None, ct_reputation = [],
       ct_limiter = gl_new default_gateway_rate, ct_has_event_tx = has_tx, ct_events = [],
       ct_pending_direct = [], ct_replies = [], ct_onion_secret = None, ct_rotation_seed = None,
       rep_poisoned = False, sec_poisoned = False, auth_poisoned = False \<rparr>"

section \<open>Events\<close>

definition system_event :: "u64 \<Rightarrow> string \<Rightarrow> SystemEventKind \<Rightarrow> SystemEvent" where
  "system_event now source kind = \<lparr> se_timestamp = now, se_source = source, se_kind = kind \<rparr>"

definition consume_event :: "SystemEvent \<Rightarrow> 'pk Controller \<Rightarrow> 'pk Controller" where
  "consume_event e c = (if ct_has_event_tx c then c\<lparr> ct_events := ct_events c @ [e] \<rparr> else c)"

definition push_ghost_signal :: "u64 \<Rightarrow> string \<Rightarrow> 'pk Controller \<Rightarrow> 'pk Controller" where
  "push_ghost_signal now signal = consume_event (system_event now ''ghost'' (GhostRecommendation signal))"

definition push_ghost_sync :: "u64 \<Rightarrow> 'pk Controller \<Rightarrow> 'pk Controller" where
  "push_ghost_sync now = consume_event (system_event now ''controller'' SyncCompleted)"

definition record_gateway_audit :: "(string \<Rightarrow> string option) \<Rightarrow> u64 \<Rightarrow> GatewayAuditEntry \<Rightarrow> 'pk Controller \<Rightarrow> 'pk Controller" where
  "record_gateway_audit parse_peer now entry c =
     (case parse_peer (ga_peer_id entry) of
        None \<Rightarrow> c
      | Some pid \<Rightarrow>
          consume_event (system_event now ''gateway'' (GatewayAudit pid (ga_method entry) (ga_allowed entry))) c)"

section \<open>Reputation\<close>

definition rep_of :: "'pk Controller \<Rightarrow> string \<Rightarrow> PeerReputation" where
  "rep_of c peer = (case map_of (ct_reputation c) peer of None \<Rightarrow> default_reputation | Some r \<Rightarrow> r)"

definition upd_rep :: "string \<Rightarrow> (PeerReputation \<Rightarrow> PeerReputation) \<Rightarrow> 'pk Controller \<Rightarrow> 'pk Controller" where
  "upd_rep peer f c =
     (if rep_poisoned c then c
      else c\<lparr> ct_reputation := hm_put peer (f (rep_of c peer)) (ct_reputation c) \<rparr>)"

definition update_peer_success :: "(real \<Rightarrow> real) \<Rightarrow> string \<Rightarrow> real \<Rightarrow> 'pk Controller \<Rightarrow> 'pk Controller" where
  "update_peer_success rnd peer latency = upd_rep peer (\<lambda>e.
     e\<lparr> rep_score := min (rnd (rep_score e + rnd (1 / 100))) 1, last_latency := latency,
        successful_ops := successful_ops e + 1 \<rparr>)"

definition update_peer_failure :: "(real \<Rightarrow> real) \<Rightarrow> string \<Rightarrow> 'pk Controller \<Rightarrow> 'pk Controller" where
  "update_peer_failure rnd peer = upd_rep peer (\<lambda>e.
     let e = e\<lparr> rep_score := max (rnd (rep_score e - rnd (1 / 10))) 0 \<rparr> in
     if rep_score e < rnd (1 / 10) then e\<lparr> is_quarantined := True \<rparr> else e)"

definition set_peer_quarantine :: "(real \<Rightarrow> real) \<Rightarrow> string \<Rightarrow> 'pk Controller \<Rightarrow> 'pk Controller" where
  "set_peer_quarantine rnd peer = upd_rep peer (\<lambda>e. e\<lparr> is_quarantined := True, rep_score := rnd (1 / 20) \<rparr>)"

definition adjust_reputation :: "(real \<Rightarrow> real) \<Rightarrow> string \<Rightarrow> real \<Rightarrow> 'pk Controller \<Rightarrow> 'pk Controller" where
  "adjust_reputation rnd peer delta = upd_rep peer (\<lambda>e.
     e\<lparr> rep_score := max 0 (min 1 (rnd (rep_score e + delta))) \<rparr>)"

section \<open>Enforcement\<close>

fun action_text :: "Action \<Rightarrow> string" where
  "action_text Connect = ''connect''"
| "action_text Route = ''route''"
| "action_text GatewayAccess = ''gatewayaccess''"
| "action_text GatewayEgress = ''gatewayegress''"
| "action_text WebTraffic = ''webtraffic''"
| "action_text AdminUpdate = ''adminupdate''"
| "action_text ComputeSubmit = ''computesubmit''"

definition quarantined :: "'pk Controller \<Rightarrow> string \<Rightarrow> bool" where
  "quarantined c peer =
     (\<not> rep_poisoned c \<and>
      (case map_of (ct_reputation c) peer of None \<Rightarrow> False | Some r \<Rightarrow> is_quarantined r))"

definition the_security :: "'pk Controller \<Rightarrow> 'pk SecurityRuntime option" where
  "the_security c = (if sec_poisoned c then None else ct_security c)"

definition the_authority :: "'pk Controller \<Rightarrow> AuthorityManager option" where
  "the_authority c = (if auth_poisoned c then None else ct_authority c)"

definition violation :: "u64 \<Rightarrow> string \<Rightarrow> Action \<Rightarrow> 'pk Controller \<Rightarrow> 'pk Controller" where
  "violation now peer action = consume_event (system_event now ''controller'' (AuthorityViolation peer action))"

definition enforce :: "u64 \<Rightarrow> string \<Rightarrow> Action \<Rightarrow> 'pk Controller \<Rightarrow> bool \<times> 'pk Controller" where
  "enforce now peer action c =
     (if quarantined c peer then (False, c)
      else if (case the_security c of
                 Some sec \<Rightarrow> (case rt_verify_access (action_text action) sec of Inl e \<Rightarrow> True | Inr u \<Rightarrow> False)
               | None \<Rightarrow> False) then (False, c)
      else if (case the_security c of Some sec \<Rightarrow> \<not> rt_is_allowed sec peer action | None \<Rightarrow> False)
      then (False, violation now peer action c)
      else if (case the_authority c of Some auth \<Rightarrow> \<not> is_allowed auth peer action | None \<Rightarrow> False)
      then (False, violation now peer action c)
      else (True, c))"

definition enforce_peer :: "u64 \<Rightarrow> string \<Rightarrow> 'pk Controller \<Rightarrow> bool \<times> 'pk Controller" where
  "enforce_peer now peer c =
     (case enforce now peer Connect c of
        (False, c) \<Rightarrow> (False, c)
      | (True, c) \<Rightarrow>
          (case the_security c of
             Some sec \<Rightarrow> (case rt_verify_peer peer sec of Inl e \<Rightarrow> (False, c) | Inr u \<Rightarrow> (True, c))
           | None \<Rightarrow> (True, c)))"

definition enforce_gateway_peer :: "u64 \<Rightarrow> string \<Rightarrow> 'pk Controller \<Rightarrow> bool \<times> 'pk Controller" where
  "enforce_gateway_peer now peer c =
     (if (case the_authority c of
            Some auth \<Rightarrow>
              (case validate_gateway_access (unat now) peer auth of
                 Inl e \<Rightarrow> True
               | Inr u \<Rightarrow> (case validate_gateway_route peer auth of Inl e \<Rightarrow> True | Inr u \<Rightarrow> False))
          | None \<Rightarrow> False)
      then (False, c) else enforce now peer GatewayAccess c)"

definition check_gateway_rate_limit :: "(real \<Rightarrow> real) \<Rightarrow> nat \<Rightarrow> string \<Rightarrow> 'pk Controller \<Rightarrow>
    GatewayRateLimitDecision \<times> 'pk Controller" where
  "check_gateway_rate_limit rnd now peer c =
     (case gl_allow rnd now peer 1 (ct_limiter c) of (d, l) \<Rightarrow> (d, c\<lparr> ct_limiter := l \<rparr>))"

section \<open>Replies\<close>

definition reply :: "nat \<Rightarrow> string + u8 list \<Rightarrow> 'pk Controller \<Rightarrow> 'pk Controller" where
  "reply rid res c =
     (if rid \<in> set (ct_pending_direct c)
      then c\<lparr> ct_pending_direct := filter (\<lambda>r. r \<noteq> rid) (ct_pending_direct c),
              ct_replies := ct_replies c @ [(rid, res)] \<rparr>
      else c)"

definition send_direct :: "nat \<Rightarrow> 'pk Controller \<Rightarrow> 'pk Controller" where
  "send_direct rid c = c\<lparr> ct_pending_direct := rid # filter (\<lambda>r. r \<noteq> rid) (ct_pending_direct c) \<rparr>"

definition complete_pending_direct_request :: "'pk SecEnv \<Rightarrow> (real \<Rightarrow> real) \<Rightarrow> (string \<Rightarrow> string option) \<Rightarrow> nat \<Rightarrow>
    nat \<Rightarrow> DirectResponse \<Rightarrow> 'pk Controller \<Rightarrow> 'pk Controller" where
  "complete_pending_direct_request env rnd parse_peer now rid resp c =
     (case the_security c of
        None \<Rightarrow> reply rid (Inl ''Security not attached'') c
      | Some sec \<Rightarrow>
          (case parse_peer (rs_from resp) of
             None \<Rightarrow> reply rid (Inl ''Invalid from peer id'') c
           | Some from_peer \<Rightarrow>
               (case verify_direct_response_bytes env now (ct_local c) from_peer resp sec of
                  (Inl e, sec) \<Rightarrow> reply rid (Inl ''Verification error'') (c\<lparr> ct_security := Some sec \<rparr>)
                | (Inr body, sec) \<Rightarrow>
                    reply rid (Inr body)
                      (update_peer_success rnd from_peer (rnd (real (unat (rs_ts resp))))
                        (c\<lparr> ct_security := Some sec \<rparr>)))))"

section \<open>Attachment and key rotation\<close>

definition ct_attach_authority :: "AuthorityManager \<Rightarrow> 'pk Controller \<Rightarrow> 'pk Controller" where
  "ct_attach_authority a c = (if auth_poisoned c then c else c\<lparr> ct_authority := Some a \<rparr>)"

definition attach_security :: "'pk SecurityRuntime \<Rightarrow> 'pk Controller \<Rightarrow> 'pk Controller" where
  "attach_security s c = (if sec_poisoned c then c else c\<lparr> ct_security := Some s \<rparr>)"

definition derive_static_secret_from_seed :: "(u8 list \<Rightarrow> u8 list) \<Rightarrow> u8 list \<Rightarrow> u8 list \<Rightarrow> u8 list" where
  "derive_static_secret_from_seed sha seed label = sha (as_bytes ''ESS-EPOCH-DERIVE-V1'' @ seed @ label)"

definition update_epoch_keys :: "(u8 list \<Rightarrow> u8 list) \<Rightarrow> u8 list \<Rightarrow> 'pk Controller \<Rightarrow> 'pk Controller" where
  "update_epoch_keys sha new_seed c =
     c\<lparr> ct_onion_secret := Some (derive_static_secret_from_seed sha new_seed (as_bytes ''onion-key'')) \<rparr>"

definition set_rotation_seed :: "u8 list \<Rightarrow> 'pk Controller \<Rightarrow> 'pk Controller" where
  "set_rotation_seed seed c = c\<lparr> ct_rotation_seed := Some seed \<rparr>"

definition rotate_id_seed :: "(u8 list \<Rightarrow> u8 list) \<Rightarrow> 'pk Controller \<Rightarrow> 'pk Controller" where
  "rotate_id_seed sha c =
     (case ct_rotation_seed c of
        None \<Rightarrow> c
      | Some seed \<Rightarrow>
          let next = next_epoch_seed sha seed in update_epoch_keys sha next (c\<lparr> ct_rotation_seed := Some next \<rparr>))"

section \<open>The sink of the ghost runtime\<close>

text \<open>The swarm disconnects are outputs: the peers dropped.\<close>

definition limit_peer :: "(real \<Rightarrow> real) \<Rightarrow> (string \<Rightarrow> string option) \<Rightarrow> string \<Rightarrow> 'pk Controller \<Rightarrow> 'pk Controller" where
  "limit_peer rnd parse_peer peer_id c =
     (case parse_peer peer_id of None \<Rightarrow> c | Some pid \<Rightarrow> update_peer_failure rnd pid c)"

definition drop_peer :: "(string \<Rightarrow> string option) \<Rightarrow> string \<Rightarrow> string list" where
  "drop_peer parse_peer peer_id = (case parse_peer peer_id of None \<Rightarrow> [] | Some pid \<Rightarrow> [pid])"

definition quarantine_peer :: "(real \<Rightarrow> real) \<Rightarrow> (string \<Rightarrow> string option) \<Rightarrow> string \<Rightarrow> 'pk Controller \<Rightarrow>
    string list \<times> 'pk Controller" where
  "quarantine_peer rnd parse_peer peer_id c =
     (case parse_peer peer_id of
        None \<Rightarrow> ([], c)
      | Some pid \<Rightarrow> (drop_peer parse_peer peer_id, set_peer_quarantine rnd pid c))"

definition adjust_reputation_score :: "(real \<Rightarrow> real) \<Rightarrow> (string \<Rightarrow> string option) \<Rightarrow> string \<Rightarrow> real \<Rightarrow> 'pk Controller \<Rightarrow> 'pk Controller" where
  "adjust_reputation_score rnd parse_peer peer_id delta c =
     (case parse_peer peer_id of None \<Rightarrow> c | Some pid \<Rightarrow> adjust_reputation rnd pid delta c)"

section \<open>Runs\<close>

record CtEnv =
  ce_rnd :: "real \<Rightarrow> real"
  ce_parse :: "string \<Rightarrow> string option"
  ce_sha :: "u8 list \<Rightarrow> u8 list"

datatype 'pk CtOp =
    CtSuccess string real
  | CtFailure string
  | CtQuarantine string
  | CtAdjust string real
  | CtEnforce string Action
  | CtEnforcePeer string
  | CtEnforceGateway string
  | CtRateLimit string
  | CtSend nat
  | CtComplete nat DirectResponse
  | CtAudit GatewayAuditEntry
  | CtSetSeed "u8 list"
  | CtRotate
  | CtAttachAuthority AuthorityManager
  | CtAttachSecurity "'pk SecurityRuntime"
  | CtLimit string
  | CtGhostQuarantine string
  | CtGhostAdjust string real
  | CtSignal string

fun ct_step :: "'pk SecEnv \<Rightarrow> CtEnv \<Rightarrow> u64 \<Rightarrow> 'pk CtOp \<Rightarrow> 'pk Controller \<Rightarrow> 'pk Controller" where
  "ct_step se ce now (CtSuccess p l) c = update_peer_success (ce_rnd ce) p l c"
| "ct_step se ce now (CtFailure p) c = update_peer_failure (ce_rnd ce) p c"
| "ct_step se ce now (CtQuarantine p) c = set_peer_quarantine (ce_rnd ce) p c"
| "ct_step se ce now (CtAdjust p d) c = adjust_reputation (ce_rnd ce) p d c"
| "ct_step se ce now (CtEnforce p a) c = snd (enforce now p a c)"
| "ct_step se ce now (CtEnforcePeer p) c = snd (enforce_peer now p c)"
| "ct_step se ce now (CtEnforceGateway p) c = snd (enforce_gateway_peer now p c)"
| "ct_step se ce now (CtRateLimit p) c = snd (check_gateway_rate_limit (ce_rnd ce) (unat now) p c)"
| "ct_step se ce now (CtSend r) c = send_direct r c"
| "ct_step se ce now (CtComplete r m) c = complete_pending_direct_request se (ce_rnd ce) (ce_parse ce) (unat now) r m c"
| "ct_step se ce now (CtAudit e) c = record_gateway_audit (ce_parse ce) now e c"
| "ct_step se ce now (CtSetSeed s) c = set_rotation_seed s c"
| "ct_step se ce now CtRotate c = rotate_id_seed (ce_sha ce) c"
| "ct_step se ce now (CtAttachAuthority a) c = ct_attach_authority a c"
| "ct_step se ce now (CtAttachSecurity s) c = attach_security s c"
| "ct_step se ce now (CtLimit p) c = limit_peer (ce_rnd ce) (ce_parse ce) p c"
| "ct_step se ce now (CtGhostQuarantine p) c = snd (quarantine_peer (ce_rnd ce) (ce_parse ce) p c)"
| "ct_step se ce now (CtGhostAdjust p d) c = adjust_reputation_score (ce_rnd ce) (ce_parse ce) p d c"
| "ct_step se ce now (CtSignal s) c = push_ghost_signal now s c"

fun ct_run :: "'pk SecEnv \<Rightarrow> CtEnv \<Rightarrow> (u64 \<times> 'pk CtOp) list \<Rightarrow> 'pk Controller \<Rightarrow> 'pk Controller" where
  "ct_run se ce [] c = c"
| "ct_run se ce ((now, x) # xs) c = ct_run se ce xs (ct_step se ce now x c)"

section \<open>Lemmas\<close>

lemma rep_frame [simp]:
  "ct_reputation (consume_event e c) = ct_reputation c" "rep_poisoned (consume_event e c) = rep_poisoned c"
  "ct_reputation (reply r m c) = ct_reputation c" "rep_poisoned (reply r m c) = rep_poisoned c"
  by (simp_all add: consume_event_def reply_def)

lemma enforce_frame [simp]:
  "ct_reputation (snd (enforce now p a c)) = ct_reputation c" "rep_poisoned (snd (enforce now p a c)) = rep_poisoned c"
  by (simp_all add: enforce_def violation_def)

lemma enforce_peer_state [simp]: "snd (enforce_peer now p c) = snd (enforce now p Connect c)"
  by (auto simp: enforce_peer_def split: prod.splits bool.splits option.splits sum.splits)

lemma enforce_peer_le: "fst (enforce_peer now p c) \<Longrightarrow> fst (enforce now p Connect c)"
  by (simp add: enforce_peer_def split: prod.splits bool.splits)

lemma enforce_gateway_frame [simp]:
  "ct_reputation (snd (enforce_gateway_peer now p c)) = ct_reputation c"
  "rep_poisoned (snd (enforce_gateway_peer now p c)) = rep_poisoned c"
  by (simp_all add: enforce_gateway_peer_def)

lemma rate_frame [simp]:
  "ct_reputation (snd (check_gateway_rate_limit rnd n p c)) = ct_reputation c"
  "rep_poisoned (snd (check_gateway_rate_limit rnd n p c)) = rep_poisoned c"
  by (simp_all add: check_gateway_rate_limit_def split: prod.split)

text \<open>Every operation leaves the reputations alone or applies one of the four updates.\<close>

definition rep_success :: "(real \<Rightarrow> real) \<Rightarrow> real \<Rightarrow> PeerReputation \<Rightarrow> PeerReputation" where
  "rep_success rnd latency e = e\<lparr> rep_score := min (rnd (rep_score e + rnd (1 / 100))) 1, last_latency := latency,
     successful_ops := successful_ops e + 1 \<rparr>"

definition rep_failure :: "(real \<Rightarrow> real) \<Rightarrow> PeerReputation \<Rightarrow> PeerReputation" where
  "rep_failure rnd e = (let e = e\<lparr> rep_score := max (rnd (rep_score e - rnd (1 / 10))) 0 \<rparr> in
     if rep_score e < rnd (1 / 10) then e\<lparr> is_quarantined := True \<rparr> else e)"

definition rep_updates :: "(real \<Rightarrow> real) \<Rightarrow> (PeerReputation \<Rightarrow> PeerReputation) set" where
  "rep_updates rnd = {f. (\<exists>l. f = rep_success rnd l) \<or> f = rep_failure rnd \<or>
     f = (\<lambda>e. e\<lparr> is_quarantined := True, rep_score := rnd (1 / 20) \<rparr>) \<or>
     (\<exists>d. f = (\<lambda>e. e\<lparr> rep_score := max 0 (min 1 (rnd (rep_score e + d))) \<rparr>))}"

lemma update_defs:
  "update_peer_success rnd p l = upd_rep p (rep_success rnd l)"
  "update_peer_failure rnd p = upd_rep p (rep_failure rnd)"
  by (simp_all add: update_peer_success_def update_peer_failure_def rep_success_def[abs_def] rep_failure_def[abs_def])

definition same_reps :: "'pk Controller \<Rightarrow> 'pk Controller \<Rightarrow> bool" where
  "same_reps c c' \<longleftrightarrow> ct_reputation c' = ct_reputation c \<and> rep_poisoned c' = rep_poisoned c"

definition upd_reps :: "(real \<Rightarrow> real) \<Rightarrow> 'pk Controller \<Rightarrow> 'pk Controller \<Rightarrow> bool" where
  "upd_reps rnd c c' \<longleftrightarrow> (\<exists>p f d. f \<in> rep_updates rnd \<and> same_reps (upd_rep p f d) c' \<and> same_reps c d)"

lemma upd_repsI: "f \<in> rep_updates rnd \<Longrightarrow> upd_reps rnd c (upd_rep p f c)"
  by (auto simp: upd_reps_def same_reps_def)

lemma ct_step_reps: "same_reps c (ct_step se ce now x c) \<or> upd_reps (ce_rnd ce) c (ct_step se ce now x c)"
proof (cases x)
  case (CtComplete r m)
  show ?thesis
  proof (cases "\<exists>sec peer body sec'. the_security c = Some sec \<and> ce_parse ce (rs_from m) = Some peer \<and>
      verify_direct_response_bytes se (unat now) (ct_local c) peer m sec = (Inr body, sec')")
    case True
    then obtain sec peer body sec' where "the_security c = Some sec" "ce_parse ce (rs_from m) = Some peer"
      "verify_direct_response_bytes se (unat now) (ct_local c) peer m sec = (Inr body, sec')" by blast
    then have "ct_step se ce now x c = reply r (Inr body)
        (upd_rep peer (rep_success (ce_rnd ce) (ce_rnd ce (real (unat (rs_ts m))))) (c\<lparr> ct_security := Some sec' \<rparr>))"
      by (simp add: CtComplete complete_pending_direct_request_def update_defs)
    moreover have "rep_success (ce_rnd ce) (ce_rnd ce (real (unat (rs_ts m)))) \<in> rep_updates (ce_rnd ce)"
      by (auto simp: rep_updates_def)
    ultimately show ?thesis
      by (intro disjI2) (auto simp: upd_reps_def same_reps_def intro!: exI[of _ peer]
          exI[of _ "rep_success (ce_rnd ce) (ce_rnd ce (real (unat (rs_ts m))))"] exI[of _ "c\<lparr> ct_security := Some sec' \<rparr>"])
  next
    case False
    then have "same_reps c (ct_step se ce now x c)"
      by (auto simp: CtComplete complete_pending_direct_request_def same_reps_def
          split: option.splits prod.splits sum.splits)
    then show ?thesis ..
  qed
qed (auto simp: same_reps_def set_peer_quarantine_def adjust_reputation_def update_defs limit_peer_def
    quarantine_peer_def adjust_reputation_score_def send_direct_def record_gateway_audit_def set_rotation_seed_def
    rotate_id_seed_def update_epoch_keys_def ct_attach_authority_def attach_security_def push_ghost_signal_def
    Let_def intro!: upd_repsI split: option.split | auto simp: rep_updates_def)+

lemma updates_keep_quarantine: "f \<in> rep_updates rnd \<Longrightarrow> is_quarantined e \<Longrightarrow> is_quarantined (f e)"
  by (auto simp: rep_updates_def rep_success_def rep_failure_def Let_def)

lemma upd_rep_lookup:
  "\<not> rep_poisoned c \<Longrightarrow> map_of (ct_reputation (upd_rep p f c)) q =
     (if q = p then Some (f (rep_of c p)) else map_of (ct_reputation c) q)"
  by (simp add: upd_rep_def map_of_hm_put)

lemma quarantine_step: "quarantined c peer \<Longrightarrow> quarantined (ct_step se ce now x c) peer"
proof -
  assume q: "quarantined c peer"
  consider "same_reps c (ct_step se ce now x c)" | "upd_reps (ce_rnd ce) c (ct_step se ce now x c)"
    using ct_step_reps by blast
  then show ?thesis
  proof cases
    case 1
    then show ?thesis using q by (simp add: quarantined_def same_reps_def)
  next
    case 2
    then obtain p f d where f: "f \<in> rep_updates (ce_rnd ce)" and s1: "same_reps (upd_rep p f d) (ct_step se ce now x c)"
      and s2: "same_reps c d" by (auto simp: upd_reps_def)
    have np: "\<not> rep_poisoned d" using q s2 by (auto simp: quarantined_def same_reps_def)
    obtain r where r: "map_of (ct_reputation d) peer = Some r" "is_quarantined r"
      using q s2 by (auto simp: quarantined_def same_reps_def split: option.splits)
    have "rep_poisoned (upd_rep p f d) = rep_poisoned d" by (simp add: upd_rep_def)
    then show ?thesis
      using s1 np r updates_keep_quarantine[OF f r(2)]
      by (auto simp: quarantined_def same_reps_def upd_rep_lookup rep_of_def)
  qed
qed

lemma quarantine_run: "quarantined c peer \<Longrightarrow> quarantined (ct_run se ce xs c) peer"
  by (induction se ce xs c rule: ct_run.induct) (auto intro: quarantine_step)

text \<open>Rounding of small magnitudes, as for 64-bit floats.\<close>

definition f64_unit :: "(real \<Rightarrow> real) \<Rightarrow> bool" where
  "f64_unit rnd \<longleftrightarrow> mono rnd \<and> rnd 0 = 0 \<and> rnd 1 = 1 \<and> (\<forall>x. \<bar>x\<bar> \<le> 2 \<longrightarrow> \<bar>rnd x - x\<bar> \<le> 1 / 1000000)"

lemma f64_unit_near: "f64_unit rnd \<Longrightarrow> \<bar>x\<bar> \<le> 2 \<Longrightarrow> rnd x \<le> x + 1 / 1000000 \<and> x - 1 / 1000000 \<le> rnd x"
proof -
  assume "f64_unit rnd" and "\<bar>x\<bar> \<le> 2"
  then have "\<bar>rnd x - x\<bar> \<le> 1 / 1000000" unfolding f64_unit_def by blast
  then show ?thesis unfolding abs_le_iff by linarith
qed

lemma f64_unit_nonneg: "f64_unit rnd \<Longrightarrow> 0 \<le> x \<Longrightarrow> 0 \<le> rnd x"
  using monoD[of rnd 0 x] by (simp add: f64_unit_def)

lemma updates_bounds:
  assumes rnd: "f64_unit rnd" and f: "f \<in> rep_updates rnd" and e: "0 \<le> rep_score e" "rep_score e \<le> 1"
  shows "0 \<le> rep_score (f e) \<and> rep_score (f e) \<le> 1"
proof -
  have c: "0 \<le> rnd (1 / 100)" "0 \<le> rnd (1 / 20)" "rnd (1 / 20) \<le> 1" "0 \<le> rnd (1 / 10)"
    using f64_unit_nonneg[OF rnd] f64_unit_near[OF rnd, of "1 / 20"] by auto
  have d: "rnd (rep_score e - rnd (1 / 10)) \<le> 1"
    using monoD[of rnd "rep_score e - rnd (1 / 10)" 1] rnd e c by (simp add: f64_unit_def)
  have s: "0 \<le> rnd (rep_score e + rnd (1 / 100))" using e c by (intro f64_unit_nonneg[OF rnd]) simp
  show ?thesis
    using f e c d s by (auto simp: rep_updates_def rep_success_def rep_failure_def Let_def)
qed

definition scores_ok :: "'pk Controller \<Rightarrow> bool" where
  "scores_ok c \<longleftrightarrow> (\<forall>p r. map_of (ct_reputation c) p = Some r \<longrightarrow> 0 \<le> rep_score r \<and> rep_score r \<le> 1)"

lemma scores_step: "f64_unit (ce_rnd ce) \<Longrightarrow> scores_ok c \<Longrightarrow> scores_ok (ct_step se ce now x c)"
proof -
  assume rnd: "f64_unit (ce_rnd ce)" and ok: "scores_ok c"
  consider "same_reps c (ct_step se ce now x c)" | "upd_reps (ce_rnd ce) c (ct_step se ce now x c)"
    using ct_step_reps by blast
  then show ?thesis
  proof cases
    case 1
    then show ?thesis using ok by (simp add: scores_ok_def same_reps_def)
  next
    case 2
    then obtain p f d where f: "f \<in> rep_updates (ce_rnd ce)" and s1: "same_reps (upd_rep p f d) (ct_step se ce now x c)"
      and s2: "same_reps c d" by (auto simp: upd_reps_def)
    have "0 \<le> rep_score (rep_of d p) \<and> rep_score (rep_of d p) \<le> 1"
      using ok s2 by (auto simp: rep_of_def scores_ok_def same_reps_def default_reputation_def split: option.split)
    then have "0 \<le> rep_score (f (rep_of d p)) \<and> rep_score (f (rep_of d p)) \<le> 1"
      by (intro updates_bounds[OF rnd f]) auto
    then show ?thesis
      using s1 s2 ok by (auto simp: scores_ok_def same_reps_def upd_rep_def map_of_hm_put split: if_splits)
  qed
qed

lemma scores_run: "f64_unit (ce_rnd ce) \<Longrightarrow> scores_ok c \<Longrightarrow> scores_ok (ct_run se ce xs c)"
  by (induction se ce xs c rule: ct_run.induct) (auto intro: scores_step)

lemma failures_score:
  assumes rnd: "f64_unit rnd" and np: "\<not> rep_poisoned c" and "rep_score (rep_of c peer) \<le> 1" "0 \<le> rep_score (rep_of c peer)"
  shows "\<not> rep_poisoned ((update_peer_failure rnd peer ^^ n) c) \<and>
    0 \<le> rep_score (rep_of ((update_peer_failure rnd peer ^^ n) c) peer) \<and>
    rep_score (rep_of ((update_peer_failure rnd peer ^^ n) c) peer) \<le> max 0 (1 - real n * (99 / 1000))"
proof (induction n)
  case 0
  then show ?case using assms by simp
next
  case (Suc n)
  let ?c = "(update_peer_failure rnd peer ^^ n) c"
  let ?s = "rep_score (rep_of ?c peer)"
  have s: "0 \<le> ?s" "?s \<le> max 0 (1 - real n * (99 / 1000))" "\<not> rep_poisoned ?c" using Suc by auto
  have t: "rnd (1 / 10) \<le> 1 / 10 + 1 / 1000000" "1 / 10 - 1 / 1000000 \<le> rnd (1 / 10)"
    using f64_unit_near[OF rnd, of "1 / 10"] by auto
  have s1: "?s \<le> 1" using s(2) by (simp add: max_def split: if_splits)
  have "rnd (?s - rnd (1 / 10)) \<le> ?s - rnd (1 / 10) + 1 / 1000000"
    using s s1 t f64_unit_near[OF rnd, of "?s - rnd (1 / 10)"] by (auto simp: abs_le_iff)
  then have "rnd (?s - rnd (1 / 10)) \<le> ?s - 99 / 1000" using t by linarith
  moreover have "real (Suc n) * (99 / 1000) = real n * (99 / 1000) + 99 / 1000" by (simp add: algebra_simps)
  then have "?s - 99 / 1000 \<le> max 0 (1 - real (Suc n) * (99 / 1000))"
    using s(2) by linarith
  ultimately have "max (rnd (?s - rnd (1 / 10))) 0 \<le> max 0 (1 - real (Suc n) * (99 / 1000))"
    by linarith
  moreover have "rep_score (rep_of ((update_peer_failure rnd peer ^^ Suc n) c) peer) = max (rnd (?s - rnd (1 / 10))) 0"
    using s(3) by (simp add: update_defs rep_of_def[of "upd_rep _ _ _"] upd_rep_lookup rep_failure_def Let_def)
  moreover have "\<not> rep_poisoned ((update_peer_failure rnd peer ^^ Suc n) c)"
    using s(3) by (simp add: update_defs upd_rep_def)
  ultimately show ?case by simp
qed

lemma reply_pending: "ct_pending_direct (reply rid m c) = filter (\<lambda>r. r \<noteq> rid) (ct_pending_direct c)"
  by (auto simp: reply_def intro!: filter_True[symmetric])

lemma complete_removes: "rid \<notin> set (ct_pending_direct (complete_pending_direct_request env rnd pp now rid resp c))"
  by (simp add: complete_pending_direct_request_def reply_pending split: option.split prod.split sum.split)

lemma complete_absent:
  "rid \<notin> set (ct_pending_direct c) \<Longrightarrow>
   ct_replies (complete_pending_direct_request env rnd pp now rid resp c) = ct_replies c"
  by (auto simp: complete_pending_direct_request_def reply_def update_defs upd_rep_def
      split: option.split prod.split sum.split)

lemma response_bytes_authentic:
  assumes "verify_direct_response_bytes env now l r resp sec = (Inr body, sec')"
  shows "body = rs_body resp \<and> rs_to resp = l \<and> rs_from resp = r \<and>
    abs_diff now (unat (rs_ts resp)) \<le> replay_window_secs (rt_inner sec) \<and>
    (\<exists>pk sig. map_of (peer_public_keys (rt_inner sec)) r = Some pk \<and> b64_decode env (rs_signature resp) = Some sig \<and>
       sec_verify env pk (signing_bytes_response resp (rs_body resp)) sig)"
proof -
  obtain p' where acc: "verify_response_bytes env now l r resp (rt_inner sec) = (Inr body, p')"
    using assms by (auto simp: verify_direct_response_bytes_def write_protected_def returning_def
        split: if_splits prod.splits option.splits)
  from vs.accept_common[OF acc] have "body = rs_body resp \<and> rs_to resp = l \<and> rs_from resp = r"
    by (auto simp: check_addressed_def split: option.splits if_splits)
  with vs.accept_authentic[OF acc] show ?thesis by blast
qed

section \<open>Properties\<close>

text \<open>
  C17: quarantine is permanent. Once a peer is quarantined, whatever the controller does
  afterwards, good conduct, positive adjustments and new policies included, every action of the
  peer stays refused, as do its connection and its gateway access.
\<close>

theorem quarantine_permanent:
  assumes "quarantined c peer"
  shows "quarantined (ct_run se ce xs c) peer \<and>
    (\<forall>action. \<not> fst (enforce now peer action (ct_run se ce xs c))) \<and>
    \<not> fst (enforce_peer now peer (ct_run se ce xs c)) \<and> \<not> fst (enforce_gateway_peer now peer (ct_run se ce xs c))"
proof -
  have q: "quarantined (ct_run se ce xs c) peer" by (rule quarantine_run) fact
  then have e: "\<not> fst (enforce now peer action (ct_run se ce xs c))" for action by (simp add: enforce_def)
  then have "\<not> fst (enforce_peer now peer (ct_run se ce xs c))" "\<not> fst (enforce_gateway_peer now peer (ct_run se ce xs c))"
    using enforce_peer_le by (blast, simp add: enforce_gateway_peer_def)
  with q e show ?thesis by blast
qed

theorem quarantine_permanent_witness:
  "\<not> fst (enforce 5 ''p'' Connect (ct_run demo_sec_env \<lparr> ce_rnd = (\<lambda>x. x), ce_parse = Some, ce_sha = (\<lambda>b. b) \<rparr>
     [(1, CtAdjust ''p'' 1), (2, CtSuccess ''p'' 10)] (set_peer_quarantine (\<lambda>x. x) ''p'' (ct_new ''me'' True))))"
proof -
  have "quarantined (set_peer_quarantine (\<lambda>x. x) ''p'' (ct_new ''me'' True)) ''p''"
    by (simp add: quarantined_def set_peer_quarantine_def upd_rep_def ct_new_def map_of_hm_put)
  from quarantine_permanent[OF this] show ?thesis by blast
qed

text \<open>
  Reputation. With the rounding of floats, every score a controller ever holds is between
  0 and 1, and from every such state ten failures of a peer in a row put it into quarantine.
\<close>

theorem reputation_bounds:
  assumes rnd: "f64_unit (ce_rnd ce)" and c: "c = ct_run se ce xs (ct_new me tx)"
  shows "(\<forall>p r. map_of (ct_reputation c) p = Some r \<longrightarrow> 0 \<le> rep_score r \<and> rep_score r \<le> 1) \<and>
    (\<not> rep_poisoned c \<longrightarrow> quarantined ((update_peer_failure (ce_rnd ce) peer ^^ 10) c) peer)"
proof -
  have "scores_ok (ct_new me tx)" by (simp add: scores_ok_def ct_new_def)
  then have ok: "scores_ok c" unfolding c by (rule scores_run[OF rnd])
  have b: "0 \<le> rep_score (rep_of c peer)" "rep_score (rep_of c peer) \<le> 1"
    using ok by (auto simp: rep_of_def scores_ok_def default_reputation_def split: option.split)
  have "quarantined ((update_peer_failure (ce_rnd ce) peer ^^ 10) c) peer" if np: "\<not> rep_poisoned c"
  proof -
    let ?d = "(update_peer_failure (ce_rnd ce) peer ^^ 9) c"
    let ?s = "rep_score (rep_of ?d peer)"
    have f: "\<not> rep_poisoned ?d" "0 \<le> ?s" "?s \<le> 109 / 1000"
      using failures_score[OF rnd np b(2,1), of 9] by auto
    have t: "rnd (1 / 10) \<le> 1 / 10 + 1 / 1000000 \<and> 1 / 10 - 1 / 1000000 \<le> rnd (1 / 10)"
      if "rnd = ce_rnd ce" for rnd using f64_unit_near[OF rnd, of "1 / 10"] that by auto
    have "ce_rnd ce (?s - ce_rnd ce (1 / 10)) \<le> ?s - ce_rnd ce (1 / 10) + 1 / 1000000"
      using f t[OF refl] f64_unit_near[OF rnd, of "?s - ce_rnd ce (1 / 10)"] by (auto simp: abs_le_iff)
    then have "max (ce_rnd ce (?s - ce_rnd ce (1 / 10))) 0 < ce_rnd ce (1 / 10)"
      using f t[OF refl] by linarith
    moreover have "(update_peer_failure (ce_rnd ce) peer ^^ 10) c = update_peer_failure (ce_rnd ce) peer ?d"
      by (simp add: numeral_eq_Suc)
    ultimately show ?thesis
      using f(1) by (simp add: quarantined_def update_defs upd_rep_lookup rep_failure_def Let_def)
        (simp add: upd_rep_def)
  qed
  with ok show ?thesis unfolding scores_ok_def by blast
qed

lemma f64_unit_id: "f64_unit (\<lambda>x. x)"
  by (simp add: f64_unit_def mono_def)

theorem reputation_bounds_witness:
  "quarantined ((update_peer_failure (\<lambda>x. x) ''p'' ^^ 10) (ct_new ''me'' True :: unit Controller)) ''p''"
  using reputation_bounds[of "\<lparr> ce_rnd = (\<lambda>x. x), ce_parse = Some, ce_sha = (\<lambda>b. b) \<rparr>" _ demo_sec_env "[]" "''me''" True "''p''"]
    f64_unit_id by (simp add: ct_new_def)

text \<open>
  Enforcement is the conjunction of its guards. With healthy locks an action of a peer is
  admitted exactly when the peer is not quarantined, the policy of the attached security runtime
  lists the action and its authority admits it, and the attached authority admits it; a refusal by
  an authority is reported as a violation, and nothing else changes.
\<close>

theorem enforce_guards:
  assumes "\<not> rep_poisoned c" "\<not> sec_poisoned c" "\<not> auth_poisoned c" and "enforce now peer action c = (ok, c')"
  shows "(ok \<longleftrightarrow> \<not> (\<exists>r. map_of (ct_reputation c) peer = Some r \<and> is_quarantined r) \<and>
      (\<forall>sec. ct_security c = Some sec \<longrightarrow>
         \<not> rt_poisoned sec \<and> action_text action \<in> pc_allowed_actions (policy_config (rt_inner sec)) \<and>
         (\<exists>a. pi_authority (rt_inner sec) = Some a \<and> is_allowed a peer action)) \<and>
      (\<forall>a. ct_authority c = Some a \<longrightarrow> is_allowed a peer action)) \<and>
    (ok \<longrightarrow> c' = c) \<and> c' = c\<lparr> ct_events := ct_events c' \<rparr> \<and>
    (\<exists>es. ct_events c' = ct_events c @ es \<and> set es \<subseteq> {system_event now ''controller'' (AuthorityViolation peer action)})"
proof -
  have access: "(case rt_verify_access (action_text action) sec of Inl e \<Rightarrow> True | Inr u \<Rightarrow> False) \<longleftrightarrow>
      rt_poisoned sec \<or> action_text action \<notin> pc_allowed_actions (policy_config (rt_inner sec))" for sec :: "'a SecurityRuntime"
    by (simp add: rt_verify_access_def read_protected_def verify_access_def)
  have allowed: "rt_is_allowed sec peer action \<longleftrightarrow> \<not> rt_poisoned sec \<and>
      (\<exists>a. pi_authority (rt_inner sec) = Some a \<and> is_allowed a peer action)" for sec :: "'a SecurityRuntime"
    by (auto simp: rt_is_allowed_def pi_is_allowed_def split: option.split)
  show ?thesis
    using assms
    by (auto simp: enforce_def quarantined_def the_security_def the_authority_def access allowed violation_def
        consume_event_def split: option.splits if_splits)
qed

theorem enforce_guards_witness:
  "fst (enforce 5 ''p'' Connect (ct_new ''me'' True :: unit Controller))"
  using enforce_guards[OF _ _ _ surjective_pairing, of "ct_new ''me'' True :: unit Controller" 5 "''p''" Connect]
  by (simp add: ct_new_def)

text \<open>
  C18: replies to direct requests. Completing a request answers it at most once and takes it
  off the waiting list; the caller gets the bytes of a response only when that response carries a
  signature of the key registered for the peer it names as its sender, is addressed to this node
  and is inside the replay window, and then exactly the bytes of its body; otherwise an error.
\<close>

theorem direct_reply_verified:
  assumes "rid \<in> set (ct_pending_direct c)"
    and c': "c' = complete_pending_direct_request env rnd parse_peer now rid resp c"
  shows "rid \<notin> set (ct_pending_direct c') \<and>
    ct_replies (complete_pending_direct_request env rnd parse_peer now' rid resp' c') = ct_replies c' \<and>
    (\<exists>res. ct_replies c' = ct_replies c @ [(rid, res)] \<and>
       (\<forall>body. res = Inr body \<longrightarrow> body = rs_body resp \<and> rs_to resp = ct_local c \<and>
          (\<exists>sec pk sig. ct_security c = Some sec \<and> parse_peer (rs_from resp) = Some (rs_from resp) \<and>
             map_of (peer_public_keys (rt_inner sec)) (rs_from resp) = Some pk \<and>
             b64_decode env (rs_signature resp) = Some sig \<and>
             sec_verify env pk (signing_bytes_response resp (rs_body resp)) sig \<and>
             abs_diff now (unat (rs_ts resp)) \<le> replay_window_secs (rt_inner sec))))"
proof (intro conjI)
  show gone: "rid \<notin> set (ct_pending_direct c')"
    unfolding c' by (rule complete_removes)
  show "ct_replies (complete_pending_direct_request env rnd parse_peer now' rid resp' c') = ct_replies c'"
    by (rule complete_absent[OF gone])
  show "\<exists>res. ct_replies c' = ct_replies c @ [(rid, res)] \<and>
       (\<forall>body. res = Inr body \<longrightarrow> body = rs_body resp \<and> rs_to resp = ct_local c \<and>
          (\<exists>sec pk sig. ct_security c = Some sec \<and> parse_peer (rs_from resp) = Some (rs_from resp) \<and>
             map_of (peer_public_keys (rt_inner sec)) (rs_from resp) = Some pk \<and>
             b64_decode env (rs_signature resp) = Some sig \<and>
             sec_verify env pk (signing_bytes_response resp (rs_body resp)) sig \<and>
             abs_diff now (unat (rs_ts resp)) \<le> replay_window_secs (rt_inner sec)))"
  proof (cases "\<exists>sec peer body sec'. the_security c = Some sec \<and> parse_peer (rs_from resp) = Some peer \<and>
      verify_direct_response_bytes env now (ct_local c) peer resp sec = (Inr body, sec')")
    case True
    then obtain sec peer body sec' where ok: "the_security c = Some sec" "parse_peer (rs_from resp) = Some peer"
      "verify_direct_response_bytes env now (ct_local c) peer resp sec = (Inr body, sec')" by blast
    have "ct_replies c' = ct_replies c @ [(rid, Inr body)]"
      using assms(1) ok unfolding c'
      by (simp add: complete_pending_direct_request_def reply_def update_defs upd_rep_def)
    moreover have "ct_security c = Some sec" using ok(1) by (simp add: the_security_def split: if_splits)
    ultimately show ?thesis using response_bytes_authentic[OF ok(3)] ok(2) by auto
  next
    case False
    then have "\<exists>e. ct_replies c' = ct_replies c @ [(rid, Inl e)]"
      using assms(1) unfolding c'
      by (auto simp: complete_pending_direct_request_def reply_def split: option.splits prod.splits sum.splits)
    then show ?thesis by blast
  qed
qed

theorem direct_reply_verified_witness:
  "7 \<notin> set (ct_pending_direct (complete_pending_direct_request demo_sec_env (\<lambda>x. x) Some 5 7
     (rs_plain_ok 5 1 ''m'' ''a'' ''b'' ''hi'') (send_direct 7 (ct_new ''b'' True))))"
  using direct_reply_verified[OF _ refl, of 7 "send_direct 7 (ct_new ''b'' True)" demo_sec_env "\<lambda>x. x" Some 5
      "rs_plain_ok 5 1 ''m'' ''a'' ''b'' ''hi''"]
  by (simp add: send_direct_def)

end
