(* ===== verification/Ghost.thy ===== *)
theory Ghost
  imports Prelude
begin

text \<open>
  The ghost engine, \<^verbatim>\<open>ghost.rs\<close>: the task that owns a \<^verbatim>\<open>GhostEngine\<close>, reacts to its two
  timers and to the commands of its handle, and reports through an event channel and the
  shared world state. Every method is an operation on the engine record that returns what
  it sent, in order: events on the channel and updates of the world state. A clock value
  \<open>now\<close> (seconds and milliseconds) is an argument of every handler. The task itself is an
  inductively defined set of reachable engines, closed under the handlers of the
  \<^verbatim>\<open>select!\<close> loop.
\<close>

unbundle bit_operations_syntax

section \<open>Data\<close>

datatype GhostState = StInit | StSleep | StWake | StBeacon | StSync | StIdle | StPanic | StZeroized

fun ghost_state_str :: "GhostState \<Rightarrow> string" where
  "ghost_state_str StInit = ''init''"
| "ghost_state_str StSleep = ''sleep''"
| "ghost_state_str StWake = ''wake''"
| "ghost_state_str StBeacon = ''beacon''"
| "ghost_state_str StSync = ''sync''"
| "ghost_state_str StIdle = ''idle''"
| "ghost_state_str StPanic = ''panic''"
| "ghost_state_str StZeroized = ''zeroized''"

record GhostConfig =
  beacon_interval :: nat
  sync_interval :: nat
  idle_to_sleep_after_cycles :: nat
  sync_batch_limit :: nat
  zeroize_on_panic :: bool
  auto_sleep_when_idle :: bool

record GhostMetrics =
  connected_peers :: nat
  known_peers :: nat
  route_peers :: nat
  last_beacon_ts :: "nat option"
  last_sync_ts :: "nat option"
  last_pulse_ts :: "nat option"

definition default_metrics :: GhostMetrics where
  "default_metrics = \<lparr> connected_peers = 0, known_peers = 0, route_peers = 0,
     last_beacon_ts = None, last_sync_ts = None, last_pulse_ts = None \<rparr>"

datatype GhostCommand =
    CmdWake | CmdSleep | CmdEnqueueSync string | CmdTriggerSync | CmdTriggerBeacon
  | CmdTriggerPanic string | CmdZeroize | CmdUpdateMetrics nat nat nat | CmdSetTamper bool
  | CmdObserveSignal string

datatype GhostEvent =
    EvStateChanged string GhostState GhostState
  | EvBeacon string string GhostState string nat nat nat nat
  | EvSyncBatch string "string list" nat
  | EvPanic string string nat
  | EvZeroized string nat
  | EvLog string string nat

text \<open>
  What a handler sends: an event, or the update of the shared world state made by
  \<^verbatim>\<open>sync_world_state\<close> (ghost state, health level, observed signal).
\<close>

datatype GhostOut = Ev GhostEvent | World string string "string option"

record GhostObservation =
  obs_state :: GhostState
  obs_tamper :: bool
  obs_connected :: nat
  obs_known :: nat
  obs_route :: nat
  obs_pending :: nat
  obs_wake_left :: nat
  obs_beacon_ts :: "nat option"
  obs_sync_ts :: "nat option"
  obs_pulse_ts :: "nat option"

datatype GhostHealthBand = BandInit | BandReady | BandActive | BandDegraded | BandCritical | BandOffline

record GhostAssessment =
  band :: GhostHealthBand
  reasons :: "string list"

datatype GhostDecision = DecBeacon | DecSync bool | DecPanic string | DecSleep | DecIdle

datatype CycleTrigger =
    TrigPulse | TrigSyncTick | TrigWake | TrigForceSync | TrigForceBeacon | TrigPanic string
  | TrigManual

record GhostEngine =
  node_id :: string
  role :: string
  config :: GhostConfig
  state :: GhostState
  metrics :: GhostMetrics
  pending_sync :: "string list"
  wake_cycles_left :: nat
  tamper_detected :: bool
  has_world :: bool

type_synonym ghost_op = "(GhostEngine, GhostOut) op"

record Clock =
  now_s :: nat
  now_ms :: nat

section \<open>Methods of the engine\<close>

definition fnv_step :: "128 word \<Rightarrow> char \<Rightarrow> 128 word" where
  "fnv_step acc b =
     (let acc = acc XOR of_char b; acc = acc * 0x100000001B3 in acc XOR drop_bit 33 acc)"

definition simple_fingerprint :: "string list \<Rightarrow> string" where
  "simple_fingerprint parts =
     hex_fixed 32 (unat (foldl (foldl fnv_step) (0x9E3779B97F4A7C15 :: 128 word) parts))"

definition health_label :: "GhostEngine \<Rightarrow> string" where
  "health_label e =
     (case state e of
        StZeroized \<Rightarrow> ''offline''
      | StPanic \<Rightarrow> ''active'' | StWake \<Rightarrow> ''active'' | StBeacon \<Rightarrow> ''active'' | StSync \<Rightarrow> ''active''
      | StSleep \<Rightarrow> ''sleeping''
      | _ \<Rightarrow> ''ready'')"

definition sync_world_state :: "string option \<Rightarrow> ghost_op" where
  "sync_world_state signal = op_emit (\<lambda>e.
     if has_world e then [World (ghost_state_str (state e)) (health_label e) signal] else [])"

definition emit_event :: "(GhostEngine \<Rightarrow> GhostEvent) \<Rightarrow> ghost_op" where
  "emit_event ev = op_emit (\<lambda>e. [Ev (ev e)])"

definition quiet_message :: "string \<Rightarrow> bool" where
  "quiet_message m \<longleftrightarrow>
     starts_with ''ghost_stay_awake_with_peers'' m \<or> starts_with ''ghost_observe:'' m \<or>
     starts_with ''ghost_metrics_update'' m"

definition publish :: "Clock \<Rightarrow> string \<Rightarrow> ghost_op" where
  "publish c message =
     op_seq (emit_event (\<lambda>e. EvLog (node_id e) message (now_s c)))
       (if \<not> quiet_message message then sync_world_state (Some message) else op_skip)"

definition transition :: "GhostState \<Rightarrow> ghost_op" where
  "transition to e =
     (let from = state e in
      if from = StZeroized then (e, [])
      else if from = StPanic \<and> to = StBeacon then (e, [])
      else if from \<noteq> to then (e\<lparr> state := to \<rparr>, [Ev (EvStateChanged (node_id e) from to)])
      else (e, []))"

definition observe :: "GhostEngine \<Rightarrow> GhostObservation" where
  "observe e =
     \<lparr> obs_state = state e, obs_tamper = tamper_detected e,
       obs_connected = connected_peers (metrics e), obs_known = known_peers (metrics e),
       obs_route = route_peers (metrics e), obs_pending = length (pending_sync e),
       obs_wake_left = wake_cycles_left e, obs_beacon_ts = last_beacon_ts (metrics e),
       obs_sync_ts = last_sync_ts (metrics e), obs_pulse_ts = last_pulse_ts (metrics e) \<rparr>"

definition assess :: "GhostConfig \<Rightarrow> GhostObservation \<Rightarrow> GhostAssessment" where
  "assess cfg obs =
     (let (rs, health) =
        (if obs_state obs = StZeroized then ([], BandOffline)
         else if obs_state obs = StInit then ([''booting''], BandInit)
         else if obs_state obs = StPanic \<or> obs_tamper obs then ([''tamper_or_panic''], BandCritical)
         else if obs_connected obs = 0 \<and> auto_sleep_when_idle cfg
           then ([''no_connected_peers''], BandDegraded)
         else if obs_pending obs > 0 then ([''pending_sync_items''], BandActive)
         else if obs_state obs = StSleep then ([], BandReady)
         else ([], BandActive))
      in \<lparr> band = health,
           reasons = rs
             @ (if obs_known obs = 0 then [''no_known_peers''] else [])
             @ (if obs_route obs = 0 then [''no_route_peers''] else [])
             @ (if obs_pulse_ts obs = None then [''pulse_not_started''] else [])
             @ (if obs_beacon_ts obs = None then [''no_beacon_yet''] else [])
             @ (if obs_sync_ts obs = None then [''no_sync_yet''] else []) \<rparr>)"

definition decide :: "GhostConfig \<Rightarrow> GhostObservation \<Rightarrow> GhostAssessment \<Rightarrow> CycleTrigger \<Rightarrow>
    GhostDecision list" where
  "decide cfg obs a trigger =
     (if obs_state obs = StZeroized then []
      else case trigger of
        TrigPanic reason \<Rightarrow> [DecPanic reason]
      | TrigForceBeacon \<Rightarrow> [DecBeacon]
      | TrigForceSync \<Rightarrow> [DecSync True]
      | TrigWake \<Rightarrow> [DecBeacon]
      | _ \<Rightarrow>
         (if obs_tamper obs \<or> band a = BandCritical then [DecPanic ''tamper_detected'']
          else if obs_state obs = StSleep then [DecSleep]
          else if obs_pending obs > 0 \<or> trigger = TrigSyncTick then [DecSync (obs_pending obs > 0)]
          else if trigger = TrigPulse then [DecBeacon]
          else if auto_sleep_when_idle cfg \<and> obs_wake_left obs = 0 then
            (if obs_connected obs = 0 then [DecSleep] else [DecIdle])
          else [DecIdle]))"

definition decision_name :: "GhostDecision \<Rightarrow> string" where
  "decision_name d =
     (case d of DecBeacon \<Rightarrow> ''beacon'' | DecSync f \<Rightarrow> ''sync'' | DecPanic r \<Rightarrow> ''panic''
      | DecSleep \<Rightarrow> ''sleep'' | DecIdle \<Rightarrow> ''idle'')"

definition perform_beacon :: "Clock \<Rightarrow> ghost_op" where
  "perform_beacon c = op_when (\<lambda>e. state e \<noteq> StZeroized) (op_block [
     transition StBeacon,
     op_with (\<lambda>e. simple_fingerprint
         [node_id e, role e, ghost_state_str (state e),
          dec_str (connected_peers (metrics e)), dec_str (known_peers (metrics e)),
          dec_str (route_peers (metrics e)), dec_str (length (pending_sync e)),
          dec_str (now_ms c)])
       (\<lambda>fingerprint. op_seq
          (op_upd (\<lambda>e. e\<lparr> metrics := (metrics e)\<lparr> last_beacon_ts := Some (now_s c) \<rparr> \<rparr>))
          (emit_event (\<lambda>e. EvBeacon (node_id e) (role e) (state e) fingerprint
             (connected_peers (metrics e)) (known_peers (metrics e)) (route_peers (metrics e))
             (now_s c))))])"

text \<open>The loop that moves items from the queue into the batch.\<close>

fun drain :: "nat \<Rightarrow> string list \<Rightarrow> string list \<Rightarrow> string list \<times> string list" where
  "drain limit batch [] = (batch, [])"
| "drain limit batch (item # queue) =
     (if length batch < limit then drain limit (batch @ [item]) queue else (batch, item # queue))"

definition take_batch :: "Clock \<Rightarrow> bool \<Rightarrow> ghost_op" where
  "take_batch c force =
     op_with (\<lambda>e. drain (sync_batch_limit (config e)) [] (pending_sync e))
       (\<lambda>(batch, queue). op_seq
          (op_upd (\<lambda>e. e\<lparr> pending_sync := queue,
             metrics := (metrics e)\<lparr> last_sync_ts := Some (now_s c) \<rparr> \<rparr>))
          (op_when (\<lambda>e. batch \<noteq> [] \<or> force)
             (emit_event (\<lambda>e. EvSyncBatch (node_id e) batch (now_s c)))))"

definition perform_sync_if_needed :: "Clock \<Rightarrow> bool \<Rightarrow> ghost_op" where
  "perform_sync_if_needed c force = op_when
     (\<lambda>e. \<not> (state e = StZeroized \<or> state e = StPanic) \<and> \<not> (pending_sync e = [] \<and> \<not> force))
     (op_block [
        transition StSync,
        take_batch c force,
        transition StIdle])"

definition perform_zeroize :: "Clock \<Rightarrow> ghost_op" where
  "perform_zeroize c = op_block [
     op_upd (\<lambda>e. e\<lparr> pending_sync := [], metrics := default_metrics, wake_cycles_left := 0,
                    tamper_detected := False \<rparr>),
     transition StZeroized,
     emit_event (\<lambda>e. EvZeroized (node_id e) (now_s c)),
     sync_world_state (Some ''ghost_zeroized'')]"

definition perform_panic :: "Clock \<Rightarrow> string \<Rightarrow> ghost_op" where
  "perform_panic c reason = op_when (\<lambda>e. state e \<noteq> StZeroized) (op_block [
     transition StPanic,
     emit_event (\<lambda>e. EvPanic (node_id e) reason (now_s c)),
     sync_world_state (Some (''ghost_panic:'' @ reason)),
     op_when (\<lambda>e. zeroize_on_panic (config e)) (perform_zeroize c)])"

definition act :: "Clock \<Rightarrow> GhostDecision \<Rightarrow> ghost_op" where
  "act c d =
     (case d of
        DecBeacon \<Rightarrow> perform_beacon c
      | DecSync force \<Rightarrow> perform_sync_if_needed c force
      | DecPanic reason \<Rightarrow> perform_panic c reason
      | DecSleep \<Rightarrow> op_when (\<lambda>e. state e \<noteq> StZeroized) (transition StSleep)
      | DecIdle \<Rightarrow> op_when (\<lambda>e. state e \<noteq> StZeroized \<and> state e \<noteq> StSleep) (transition StIdle))"

definition after_active_pulse :: "Clock \<Rightarrow> ghost_op" where
  "after_active_pulse c = op_when (\<lambda>e. \<not> (state e = StZeroized \<or> state e = StPanic))
     (op_seq
        (op_upd (\<lambda>e. if wake_cycles_left e > 0 then e\<lparr> wake_cycles_left := wake_cycles_left e - 1 \<rparr> else e))
        (op_with (\<lambda>e. connected_peers (metrics e) > 0) (\<lambda>peers.
           if peers then op_block [
             op_upd (\<lambda>e. e\<lparr> wake_cycles_left := idle_to_sleep_after_cycles (config e) \<rparr>),
             op_when (\<lambda>e. state e \<noteq> StIdle \<and> state e \<noteq> StBeacon) (transition StIdle),
             publish c ''ghost_stay_awake_with_peers'']
           else op_when (\<lambda>e. wake_cycles_left e = 0 \<and> auto_sleep_when_idle (config e)) (op_block [
             transition StSleep,
             publish c ''ghost_auto_sleep'']))))"

definition run_cycle :: "Clock \<Rightarrow> CycleTrigger \<Rightarrow> ghost_op" where
  "run_cycle c trigger = op_when (\<lambda>e. state e \<noteq> StZeroized)
     (op_with observe (\<lambda>obs. op_with (\<lambda>e. assess (config e) obs) (\<lambda>a.
        op_seq (op_all (\<lambda>r. publish c (''ghost_assess:'' @ r)) (reasons a))
          (op_with (\<lambda>e. decide (config e) obs a trigger) (\<lambda>decisions.
             if decisions = [] then op_block [
               publish c ''ghost_decision:none'',
               sync_world_state (Some ''ghost_decision:none'')]
             else op_block [
               op_all (\<lambda>d. op_seq
                  (publish c (''ghost_decision:'' @ CHR 0x22 # decision_name d @ [CHR 0x22]))
                  (act c d)) decisions,
               after_active_pulse c,
               sync_world_state (Some ''ghost_cycle_complete'')])))))"

section \<open>The task\<close>

datatype GhostInput = BeaconTick | SyncTick | Cmd GhostCommand | Closed

definition bool_str :: "bool \<Rightarrow> string" where
  "bool_str b = (if b then ''true'' else ''false'')"

definition asleep_or_dead :: "GhostEngine \<Rightarrow> bool" where
  "asleep_or_dead e \<longleftrightarrow> \<not> (state e \<noteq> StSleep \<and> state e \<noteq> StZeroized)"

definition on_command :: "Clock \<Rightarrow> GhostCommand \<Rightarrow> ghost_op" where
  "on_command c cmd =
     (case cmd of
        CmdWake \<Rightarrow> op_when (\<lambda>e. state e \<noteq> StZeroized \<and> state e \<noteq> StPanic) (op_block [
          op_upd (\<lambda>e. e\<lparr> wake_cycles_left := idle_to_sleep_after_cycles (config e) \<rparr>),
          transition StWake,
          run_cycle c TrigWake])
      | CmdSleep \<Rightarrow> op_when (\<lambda>e. state e \<noteq> StZeroized) (op_block [
          op_upd (\<lambda>e. e\<lparr> wake_cycles_left := 0 \<rparr>),
          transition StSleep,
          publish c ''ghost_cmd_sleep''])
      | CmdEnqueueSync item \<Rightarrow> op_when (\<lambda>e. state e \<noteq> StZeroized) (op_block [
          op_upd (\<lambda>e. e\<lparr> pending_sync := pending_sync e @ [item] \<rparr>),
          emit_event (\<lambda>e. EvLog (node_id e)
             (''sync item queued; pending='' @ dec_str (length (pending_sync e))) (now_s c)),
          publish c ''ghost_enqueue_sync'',
          run_cycle c TrigManual])
      | CmdTriggerSync \<Rightarrow> op_when (\<lambda>e. state e \<noteq> StZeroized) (run_cycle c TrigForceSync)
      | CmdTriggerBeacon \<Rightarrow> op_when (\<lambda>e. state e \<noteq> StZeroized) (run_cycle c TrigForceBeacon)
      | CmdTriggerPanic reason \<Rightarrow>
          op_when (\<lambda>e. state e \<noteq> StZeroized) (run_cycle c (TrigPanic reason))
      | CmdZeroize \<Rightarrow> op_seq (perform_zeroize c) (publish c ''ghost_cmd_zeroize'')
      | CmdUpdateMetrics cp kp rp \<Rightarrow> op_block [
          op_upd (\<lambda>e. e\<lparr> metrics := (metrics e)\<lparr> connected_peers := cp, known_peers := kp,
                          route_peers := rp \<rparr> \<rparr>),
          publish c ''ghost_metrics_update'',
          run_cycle c TrigManual]
      | CmdSetTamper tamper \<Rightarrow> op_block [
          op_upd (\<lambda>e. e\<lparr> tamper_detected := tamper \<rparr>),
          publish c (''ghost_tamper:'' @ bool_str tamper),
          op_when (\<lambda>e. tamper \<and> state e \<noteq> StZeroized) (run_cycle c (TrigPanic ''tamper_flag_set''))]
      | CmdObserveSignal signal \<Rightarrow> op_block [
          publish c (''ghost_observe:'' @ signal),
          run_cycle c TrigManual])"

definition on_beacon_tick :: "Clock \<Rightarrow> ghost_op" where
  "on_beacon_tick c = op_seq
     (op_upd (\<lambda>e. e\<lparr> metrics := (metrics e)\<lparr> last_pulse_ts := Some (now_s c) \<rparr> \<rparr>))
     (op_with asleep_or_dead (\<lambda>z.
        if \<not> z then run_cycle c TrigPulse else publish c ''ghost_beacon_tick_sleep''))"

definition on_sync_tick :: "Clock \<Rightarrow> ghost_op" where
  "on_sync_tick c = op_with asleep_or_dead (\<lambda>z.
     if \<not> z then run_cycle c TrigSyncTick else publish c ''ghost_sync_tick_sleep'')"

definition on_input :: "Clock \<Rightarrow> GhostInput \<Rightarrow> ghost_op" where
  "on_input c i =
     (case i of
        BeaconTick \<Rightarrow> on_beacon_tick c
      | SyncTick \<Rightarrow> on_sync_tick c
      | Cmd cmd \<Rightarrow> on_command c cmd
      | Closed \<Rightarrow> op_skip)"

text \<open>The loop ends on a closed channel and after a \<^verbatim>\<open>Zeroize\<close> command.\<close>

definition ends_loop :: "GhostInput \<Rightarrow> bool" where
  "ends_loop i \<longleftrightarrow> i = Closed \<or> i = Cmd CmdZeroize"

definition spawn_inner :: "string \<Rightarrow> string \<Rightarrow> GhostConfig \<Rightarrow> bool \<Rightarrow> GhostEngine" where
  "spawn_inner nid rl cfg world =
     \<lparr> node_id = nid, role = rl, config = cfg, state = StInit, metrics = default_metrics,
       pending_sync = [], wake_cycles_left = idle_to_sleep_after_cycles cfg,
       tamper_detected = False, has_world = world \<rparr>"

definition boot :: "Clock \<Rightarrow> ghost_op" where
  "boot c = op_seq (transition StSleep) (publish c ''ghost_boot'')"

fun run_inputs :: "(Clock \<times> GhostInput) list \<Rightarrow> ghost_op" where
  "run_inputs [] = op_skip"
| "run_inputs ((c, i) # is) =
     op_seq (on_input c i) (if ends_loop i then op_skip else run_inputs is)"

inductive ghost_reach :: "GhostConfig \<Rightarrow> GhostEngine \<Rightarrow> bool" for cfg where
  booted: "ghost_reach cfg (fst (boot c (spawn_inner nid rl cfg w)))"
| handled: "ghost_reach cfg e \<Longrightarrow> ghost_reach cfg (fst (on_input c i e))"

section \<open>What the methods leave alone\<close>

definition frame :: "GhostEngine \<Rightarrow> GhostOut list \<Rightarrow> GhostEngine \<Rightarrow> bool" where
  "frame e os e' \<longleftrightarrow>
     node_id e' = node_id e \<and> role e' = role e \<and> config e' = config e \<and> has_world e' = has_world e"

interpretation fr: op_spec frame
  by unfold_locales (simp_all add: frame_def)

lemma transition_cases:
  "transition to e = (e, []) \<and> (state e = StZeroized \<or> state e = StPanic \<and> to = StBeacon \<or> state e = to) \<or>
   transition to e = (e\<lparr> state := to \<rparr>, [Ev (EvStateChanged (node_id e) (state e) to)]) \<and>
     state e \<noteq> StZeroized \<and> \<not> (state e = StPanic \<and> to = StBeacon) \<and> state e \<noteq> to"
  by (auto simp: transition_def Let_def)

lemma transition_fields [simp]:
  "node_id (fst (transition to e)) = node_id e" "role (fst (transition to e)) = role e"
  "config (fst (transition to e)) = config e" "metrics (fst (transition to e)) = metrics e"
  "pending_sync (fst (transition to e)) = pending_sync e"
  "wake_cycles_left (fst (transition to e)) = wake_cycles_left e"
  "tamper_detected (fst (transition to e)) = tamper_detected e"
  "has_world (fst (transition to e)) = has_world e"
  using transition_cases[of to e] by auto

text \<open>
  A relation on engines that holds of every primitive step holds of every handler. The
  primitives are the transitions, the messages and the field updates of the source.
\<close>

lemmas ghost_method_defs = perform_beacon_def take_batch_def perform_sync_if_needed_def
  perform_zeroize_def
  perform_panic_def act_def after_active_pulse_def run_cycle_def on_command_def
  on_beacon_tick_def on_sync_tick_def on_input_def

lemma frame_transition: "op_sat frame (transition to)"
  by (simp add: op_sat_def frame_def)

lemma frame_publish: "op_sat frame (publish c m)" "op_sat frame (sync_world_state sg)"
    "op_sat frame (emit_event ev)"
  unfolding publish_def sync_world_state_def emit_event_def
  by (auto intro!: fr.sat_intros simp: frame_def)

lemmas frame_intros = fr.sat_intros frame_transition frame_publish

lemma frame_run_cycle: "op_sat frame (run_cycle c t)"
  unfolding ghost_method_defs
  by (auto intro!: frame_intros split: prod.split GhostDecision.split simp: frame_def)

lemma frame_zeroize: "op_sat frame (perform_zeroize c)"
  unfolding ghost_method_defs by (auto intro!: frame_intros simp: frame_def)

lemma frame_input: "op_sat frame (on_input c i)"
  unfolding on_input_def on_command_def on_beacon_tick_def on_sync_tick_def
  by (cases i) (auto intro!: frame_intros frame_run_cycle frame_zeroize
      split: GhostCommand.split simp: frame_def)

section \<open>Events record the state\<close>

fun replay :: "GhostState \<Rightarrow> GhostOut list \<Rightarrow> GhostState option" where
  "replay s [] = Some s"
| "replay s (Ev (EvStateChanged n from to) # os) = (if from = s then replay to os else None)"
| "replay s (_ # os) = replay s os"

lemma replay_append: "replay s (os @ os') = Option.bind (replay s os) (\<lambda>s'. replay s' os')"
  by (induction s os rule: replay.induct) auto

definition logged :: "GhostEngine \<Rightarrow> GhostOut list \<Rightarrow> GhostEngine \<Rightarrow> bool" where
  "logged e os e' \<longleftrightarrow> replay (state e) os = Some (state e')"

interpretation lg: op_spec logged
  by unfold_locales (simp_all add: logged_def replay_append)

lemma logged_transition: "op_sat logged (transition to)"
  by (auto simp: op_sat_def logged_def transition_def Let_def)

lemma logged_publish: "op_sat logged (publish c m)" "op_sat logged (sync_world_state sg)"
  unfolding publish_def sync_world_state_def emit_event_def
  by (auto intro!: lg.sat_intros simp: logged_def)

lemma logged_emit: "(\<And>e. replay (state e) [Ev (ev e)] = Some (state e)) \<Longrightarrow> op_sat logged (emit_event ev)"
  unfolding emit_event_def by (auto intro!: lg.sat_intros simp: logged_def)

lemmas logged_intros = lg.sat_intros logged_transition logged_publish logged_emit

lemma logged_run_cycle: "op_sat logged (run_cycle c t)"
  unfolding ghost_method_defs
  by (auto intro!: logged_intros split: prod.split GhostDecision.split simp: logged_def)

lemma logged_zeroize: "op_sat logged (perform_zeroize c)"
  unfolding ghost_method_defs by (auto intro!: logged_intros simp: logged_def)

lemma logged_input: "op_sat logged (on_input c i)"
  unfolding on_input_def on_command_def on_beacon_tick_def on_sync_tick_def
  by (cases i) (auto intro!: logged_intros logged_run_cycle logged_zeroize
      split: GhostCommand.split simp: logged_def)

lemma logged_boot: "op_sat logged (boot c)"
  unfolding boot_def by (auto intro!: logged_intros)

lemma logged_run: "op_sat logged (run_inputs is)"
  by (induction "is" rule: run_inputs.induct) (auto intro!: lg.sat_intros logged_input)

section \<open>Zeroization is final\<close>

definition dead_stays :: "GhostEngine \<Rightarrow> GhostOut list \<Rightarrow> GhostEngine \<Rightarrow> bool" where
  "dead_stays e os e' \<longleftrightarrow> (state e = StZeroized \<longrightarrow>
     state e' = StZeroized \<and> (pending_sync e = [] \<longrightarrow> pending_sync e' = []) \<and>
     (wake_cycles_left e = 0 \<longrightarrow> wake_cycles_left e' = 0) \<and>
     (\<forall>n b t. Ev (EvSyncBatch n b t) \<notin> set os) \<and> (\<forall>n r t. Ev (EvPanic n r t) \<notin> set os) \<and>
     (\<forall>n r s f cp kp rp t. Ev (EvBeacon n r s f cp kp rp t) \<notin> set os))"

interpretation dd: op_spec dead_stays
  by unfold_locales (auto simp: dead_stays_def)

lemma dead_transition: "op_sat dead_stays (transition to)"
  by (auto simp: op_sat_def dead_stays_def transition_def Let_def)

lemma dead_publish: "op_sat dead_stays (publish c m)" "op_sat dead_stays (sync_world_state sg)"
  unfolding publish_def sync_world_state_def emit_event_def
  by (auto intro!: dd.sat_intros simp: dead_stays_def)

lemma dead_guard: "op_sat dead_stays (op_when (\<lambda>e. state e \<noteq> StZeroized) f)"
  by (rule dd.sat_when) (simp add: dead_stays_def)

lemma dead_guard': "(\<And>e. g e \<Longrightarrow> state e \<noteq> StZeroized) \<Longrightarrow> op_sat dead_stays (op_when g f)"
  by (rule dd.sat_when) (auto simp: dead_stays_def)

lemma dead_zeroize: "op_sat dead_stays (perform_zeroize c)"
  unfolding perform_zeroize_def emit_event_def
  by (auto intro!: dd.sat_seq dd.sat_upd dd.sat_emit dead_transition dead_publish simp: dead_stays_def)

lemma dead_input: "op_sat dead_stays (on_input c i)"
proof -
  have cyc: "op_sat dead_stays (run_cycle c t)" for t
    unfolding run_cycle_def by (rule dead_guard)
  show ?thesis
    unfolding on_input_def on_command_def on_beacon_tick_def on_sync_tick_def
    by (cases i) (auto intro!: dd.sat_skip dd.sat_seq dd.sat_with dd.sat_block dd.sat_upd dead_guard
        dead_guard' cyc dead_zeroize dead_publish split: GhostCommand.split simp: dead_stays_def)
qed

section \<open>Panic leads to zeroization\<close>

lemma op_seq_fst: "fst (op_seq f g e) = fst (g (fst (f e)))"
  by (simp add: op_seq_def split_def Let_def)

lemma op_seq_snd: "snd (op_seq f g e) = snd (f e) @ snd (g (fst (f e)))"
  by (simp add: op_seq_def split_def Let_def)

lemma fst_publish [simp]: "fst (publish c m e) = e" "fst (sync_world_state sg e) = e"
    "fst (emit_event ev e) = e"
  by (simp_all add: publish_def sync_world_state_def emit_event_def op_defs split_def)

lemma fst_op_all_publish [simp]: "fst (op_all (\<lambda>r. publish c (f r)) rs e) = e"
  by (induction rs arbitrary: e) (simp_all add: op_seq_fst op_skip_def)

lemma transition_zeroized [simp]: "state (fst (transition StZeroized e)) = StZeroized"
  by (auto simp: transition_def Let_def)

lemma zeroize_state:
  "fst (perform_zeroize c e) = e\<lparr> pending_sync := [], metrics := default_metrics,
     wake_cycles_left := 0, tamper_detected := False, state := StZeroized \<rparr>"
  by (auto simp: perform_zeroize_def op_seq_fst op_upd_def transition_def Let_def)

lemma zeroize_emits: "Ev (EvZeroized (node_id e) (now_s c)) \<in> set (snd (perform_zeroize c e))"
  by (simp add: perform_zeroize_def op_seq_snd op_upd_def) (simp add: emit_event_def op_emit_def)

lemma panic_state:
  "zeroize_on_panic (config e) \<Longrightarrow> state e \<noteq> StZeroized \<Longrightarrow>
   state (fst (perform_panic c r e)) = StZeroized \<and> pending_sync (fst (perform_panic c r e)) = [] \<and>
   wake_cycles_left (fst (perform_panic c r e)) = 0 \<and> \<not> tamper_detected (fst (perform_panic c r e)) \<and>
   metrics (fst (perform_panic c r e)) = default_metrics"
  by (simp add: perform_panic_def op_when_def op_seq_fst zeroize_state)

lemma panic_emits:
  "state e \<noteq> StZeroized \<Longrightarrow> Ev (EvPanic (node_id e) r (now_s c)) \<in> set (snd (perform_panic c r e))"
  by (simp add: perform_panic_def op_when_def op_seq_snd) (simp add: emit_event_def op_emit_def)

lemma panic_emits_zeroized:
  "state e \<noteq> StZeroized \<Longrightarrow> zeroize_on_panic (config e) \<Longrightarrow>
   Ev (EvZeroized (node_id e) (now_s c)) \<in> set (snd (perform_panic c r e))"
  using zeroize_emits[of "fst (transition StPanic e)" c]
  by (simp add: perform_panic_def op_when_def op_seq_snd op_seq_fst)

lemma dead_after_pulse: "state e = StZeroized \<Longrightarrow> after_active_pulse c e = (e, [])"
  by (simp add: after_active_pulse_def op_when_def)

text \<open>A cycle whose decision is to panic ends zeroized and has announced it.\<close>

lemma run_cycle_panic:
  assumes "state e \<noteq> StZeroized" "zeroize_on_panic (config e)"
    and d: "decide (config e) (observe e) (assess (config e) (observe e)) t = [DecPanic r]"
  shows "state (fst (run_cycle c t e)) = StZeroized \<and> pending_sync (fst (run_cycle c t e)) = [] \<and>
    wake_cycles_left (fst (run_cycle c t e)) = 0 \<and> metrics (fst (run_cycle c t e)) = default_metrics \<and>
    \<not> tamper_detected (fst (run_cycle c t e)) \<and>
    Ev (EvPanic (node_id e) r (now_s c)) \<in> set (snd (run_cycle c t e)) \<and>
    Ev (EvZeroized (node_id e) (now_s c)) \<in> set (snd (run_cycle c t e))"
proof -
  have "fst (run_cycle c t e) = fst (perform_panic c r e)"
    using assms panic_state[OF assms(2,1), of c r] dead_after_pulse[of "fst (perform_panic c r e)" c]
    by (simp add: run_cycle_def op_when_def op_with_def op_seq_fst act_def op_skip_def)
  moreover have "set (snd (perform_panic c r e)) \<subseteq> set (snd (run_cycle c t e))"
    using assms by (auto simp: run_cycle_def op_when_def op_with_def op_seq_fst op_seq_snd act_def)
  ultimately show ?thesis
    using panic_state[OF assms(2,1), of c r] panic_emits[OF assms(1), of r c]
      panic_emits_zeroized[OF assms(1,2), of c r] by auto
qed

text \<open>Between two inputs an engine that zeroizes on panic is never left panicking or tampered.\<close>

definition calm :: "GhostEngine \<Rightarrow> bool" where
  "calm e \<longleftrightarrow> state e = StZeroized \<or> state e \<noteq> StPanic \<and> \<not> tamper_detected e"

definition calm_kept :: "GhostEngine \<Rightarrow> GhostOut list \<Rightarrow> GhostEngine \<Rightarrow> bool" where
  "calm_kept e os e' \<longleftrightarrow> (zeroize_on_panic (config e) \<longrightarrow>
     zeroize_on_panic (config e') \<and> (calm e \<longrightarrow> calm e'))"

interpretation ck: op_spec calm_kept
  by unfold_locales (auto simp: calm_kept_def)

lemma calm_transition: "to \<noteq> StPanic \<Longrightarrow> op_sat calm_kept (transition to)"
  by (auto simp: op_sat_def calm_kept_def calm_def transition_def Let_def)

lemma calm_publish: "op_sat calm_kept (publish c m)" "op_sat calm_kept (sync_world_state sg)"
    "op_sat calm_kept (emit_event ev)"
  by (simp_all add: op_sat_def calm_kept_def)

lemma calm_zeroize: "op_sat calm_kept (perform_zeroize c)"
  by (simp add: op_sat_def calm_kept_def calm_def zeroize_state)

lemma calm_panic: "op_sat calm_kept (perform_panic c r)"
proof -
  have "op_sat frame (perform_panic c r)"
    unfolding ghost_method_defs by (auto intro!: frame_intros simp: frame_def)
  then have "config (fst (perform_panic c r e)) = config e" for e
    by (simp add: op_sat_def frame_def)
  moreover have "state e = StZeroized \<Longrightarrow> fst (perform_panic c r e) = e" for e
    by (simp add: perform_panic_def op_when_def)
  ultimately show ?thesis
    unfolding op_sat_def calm_kept_def calm_def using panic_state[of _ c r] by metis
qed

lemmas calm_intros = ck.sat_intros calm_transition calm_publish calm_zeroize calm_panic

lemma calm_run_cycle: "op_sat calm_kept (run_cycle c t)"
  unfolding run_cycle_def act_def after_active_pulse_def perform_beacon_def take_batch_def
    perform_sync_if_needed_def
  by (auto intro!: calm_intros split: prod.split GhostDecision.split simp: calm_kept_def calm_def)

lemma calm_set_tamper: "op_sat calm_kept (on_command c (CmdSetTamper tm))"
proof -
  have "calm_kept e os (fst (on_command c (CmdSetTamper tm) e))" for e os
  proof (cases "state e = StZeroized \<or> \<not> tm")
    case True
    then have "fst (on_command c (CmdSetTamper tm) e) = e\<lparr> tamper_detected := tm \<rparr>"
      by (auto simp: on_command_def op_seq_fst op_upd_def op_when_def)
    with True show ?thesis by (auto simp: calm_kept_def calm_def)
  next
    case False
    let ?e = "e\<lparr> tamper_detected := True \<rparr>"
    have "fst (on_command c (CmdSetTamper tm) e) = fst (run_cycle c (TrigPanic ''tamper_flag_set'') ?e)"
      using False by (simp add: on_command_def op_seq_fst op_upd_def op_when_def)
    moreover have "config (fst (run_cycle c t ?e)) = config ?e" for t
      using frame_run_cycle[of c t] by (simp add: op_sat_def frame_def)
    ultimately show ?thesis
      using False run_cycle_panic[of ?e "TrigPanic ''tamper_flag_set''" "''tamper_flag_set''" c]
      by (auto simp: calm_kept_def calm_def decide_def observe_def)
  qed
  then show ?thesis by (simp add: op_sat_def)
qed

lemma calm_input: "op_sat calm_kept (on_input c i)"
proof (cases i)
  case (Cmd cmd)
  show ?thesis
  proof (cases cmd)
    case (CmdSetTamper tm)
    then show ?thesis using calm_set_tamper Cmd by (simp add: on_input_def)
  qed (auto simp: on_input_def on_command_def Cmd intro!: calm_intros calm_run_cycle
      simp: calm_kept_def calm_def)
qed (auto simp: on_input_def on_beacon_tick_def on_sync_tick_def intro!: calm_intros calm_run_cycle
      simp: calm_kept_def calm_def)

lemma reach_config: "ghost_reach cfg e \<Longrightarrow> config e = cfg"
proof (induction rule: ghost_reach.induct)
  case (booted c nid rl w)
  then show ?case by (simp add: boot_def op_seq_fst spawn_inner_def)
next
  case (handled e c i)
  then show ?case using frame_input[of c i] by (simp add: op_sat_def frame_def)
qed

lemma reach_calm: "ghost_reach cfg e \<Longrightarrow> zeroize_on_panic cfg \<Longrightarrow> calm e"
proof (induction rule: ghost_reach.induct)
  case (booted c nid rl w)
  then show ?case by (simp add: boot_def op_seq_fst spawn_inner_def calm_def transition_def)
next
  case (handled e c i)
  then show ?case
    using calm_input[of c i] reach_config[OF handled.hyps(1)] by (simp add: op_sat_def calm_kept_def)
qed

section \<open>The sync queue is first in, first out\<close>

fun batches :: "GhostOut list \<Rightarrow> string list" where
  "batches [] = []"
| "batches (Ev (EvSyncBatch n b t) # os) = b @ batches os"
| "batches (_ # os) = batches os"

lemma batches_append [simp]: "batches (os @ os') = batches os @ batches os'"
  by (induction os rule: batches.induct) auto

lemma drain_take:
  "length batch \<le> limit \<Longrightarrow> drain limit batch q =
     (batch @ take (limit - length batch) q, drop (limit - length batch) q)"
proof (induction limit batch q rule: drain.induct)
  case (2 limit batch item queue)
  then show ?case by (cases "limit - length batch") (auto simp: diff_Suc split: nat.splits)
qed auto

lemma drain_split: "drain limit [] q = (b, q') \<Longrightarrow> b @ q' = q \<and> length b \<le> limit"
  using drain_take[of "[]" limit q] by auto

definition fifo :: "GhostEngine \<Rightarrow> GhostOut list \<Rightarrow> GhostEngine \<Rightarrow> bool" where
  "fifo e os e' \<longleftrightarrow> (state e' \<noteq> StZeroized \<longrightarrow>
     state e \<noteq> StZeroized \<and> batches os @ pending_sync e' = pending_sync e)"

interpretation ff: op_spec fifo
  by unfold_locales (auto simp: fifo_def)

lemma fifo_transition: "op_sat fifo (transition to)"
  by (auto simp: op_sat_def fifo_def transition_def Let_def)

lemma fifo_emit: "(\<And>e. batches [Ev (ev e)] = []) \<Longrightarrow> op_sat fifo (emit_event ev)"
  by (auto simp: op_sat_def fifo_def emit_event_def op_emit_def)

lemma fifo_publish: "op_sat fifo (publish c m)" "op_sat fifo (sync_world_state sg)"
  unfolding publish_def sync_world_state_def
  by (auto intro!: ff.sat_intros fifo_emit simp: fifo_def)

lemma fifo_zeroize: "op_sat fifo (perform_zeroize c)"
  by (simp add: op_sat_def fifo_def zeroize_state)

lemma take_batch_cases:
  assumes "take_batch c force e = (e', os)"
  obtains b q where "b @ q = pending_sync e" "length b \<le> sync_batch_limit (config e)"
    "e' = e\<lparr> pending_sync := q, metrics := (metrics e)\<lparr> last_sync_ts := Some (now_s c) \<rparr> \<rparr>"
    "os = (if b \<noteq> [] \<or> force then [Ev (EvSyncBatch (node_id e) b (now_s c))] else [])"
proof -
  obtain b q where d: "drain (sync_batch_limit (config e)) [] (pending_sync e) = (b, q)" by force
  have "e' = e\<lparr> pending_sync := q, metrics := (metrics e)\<lparr> last_sync_ts := Some (now_s c) \<rparr> \<rparr>"
    "os = (if b \<noteq> [] \<or> force then [Ev (EvSyncBatch (node_id e) b (now_s c))] else [])"
    using assms d by (auto simp: take_batch_def op_with_def op_seq_def op_upd_def op_when_def
        emit_event_def op_emit_def split: if_splits)
  with drain_split[OF d] that show ?thesis by blast
qed

lemma fifo_take_batch: "op_sat fifo (take_batch c force)"
  unfolding op_sat_def
proof
  fix e show "fifo e (snd (take_batch c force e)) (fst (take_batch c force e))"
    by (rule take_batch_cases[of c force e, OF surjective_pairing]) (auto simp: fifo_def)
qed

lemmas fifo_intros = ff.sat_skip ff.sat_seq ff.sat_when' ff.sat_all ff.sat_upd fifo_transition
  fifo_publish fifo_zeroize fifo_emit fifo_take_batch

lemma fifo_run_cycle: "op_sat fifo (run_cycle c t)"
proof -
  have sync: "op_sat fifo (perform_sync_if_needed c force)" for force
    unfolding perform_sync_if_needed_def by (auto intro!: fifo_intros)
  have act: "op_sat fifo (act c d)" for d
    unfolding act_def perform_beacon_def perform_panic_def
    by (auto intro!: fifo_intros ff.sat_with sync split: GhostDecision.split simp: fifo_def)
  have pulse: "op_sat fifo (after_active_pulse c)"
    unfolding after_active_pulse_def by (auto intro!: fifo_intros ff.sat_with simp: fifo_def)
  show ?thesis
    unfolding run_cycle_def by (auto intro!: fifo_intros ff.sat_with act pulse simp: fifo_def)
qed

text \<open>The items an input adds to the queue.\<close>

fun enqueued :: "GhostInput \<Rightarrow> string list" where
  "enqueued (Cmd (CmdEnqueueSync item)) = [item]"
| "enqueued _ = []"

lemma fifo_command_other:
  assumes "\<And>item. cmd \<noteq> CmdEnqueueSync item"
  shows "op_sat fifo (on_command c cmd)"
  unfolding on_command_def using assms
  by (cases cmd) (auto intro!: fifo_intros fifo_run_cycle simp: fifo_def)

lemma fifo_enqueue:
  assumes "on_command c (CmdEnqueueSync item) e = (e', os)" and "state e' \<noteq> StZeroized"
  shows "state e \<noteq> StZeroized \<and> batches os @ pending_sync e' = pending_sync e @ [item]"
proof -
  let ?e = "e\<lparr> pending_sync := pending_sync e @ [item] \<rparr>"
  define rest where "rest = op_block [
     emit_event (\<lambda>e. EvLog (node_id e)
        (''sync item queued; pending='' @ dec_str (length (pending_sync e))) (now_s c)),
     publish c ''ghost_enqueue_sync'', run_cycle c TrigManual]"
  have alive: "state e \<noteq> StZeroized"
    using assms by (auto simp: on_command_def op_when_def)
  have step: "on_command c (CmdEnqueueSync item) e = rest ?e"
    using alive by (simp add: on_command_def rest_def op_when_def op_seq_def op_upd_def split_def)
  have "op_sat fifo rest"
    unfolding rest_def by (auto intro!: fifo_intros fifo_run_cycle)
  then have "fifo ?e os e'"
    using assms(1) step op_satD by metis
  with alive assms(2) show ?thesis by (simp add: fifo_def)
qed

lemma fifo_input:
  assumes "on_input c i e = (e', os)" and "state e' \<noteq> StZeroized"
  shows "state e \<noteq> StZeroized \<and> batches os @ pending_sync e' = pending_sync e @ enqueued i"
proof (cases "\<exists>item. i = Cmd (CmdEnqueueSync item)")
  case True
  then show ?thesis using fifo_enqueue assms by (auto simp: on_input_def)
next
  case False
  then have "op_sat fifo (on_input c i)" and "enqueued i = []"
    by (auto simp: on_input_def on_beacon_tick_def on_sync_tick_def split: GhostInput.split
        intro!: fifo_intros ff.sat_with fifo_run_cycle fifo_command_other simp: fifo_def)
       (cases i rule: enqueued.cases; auto)
  then show ?thesis using assms op_satD[of fifo] by (fastforce simp: fifo_def)
qed

text \<open>The items of a run: those of the inputs the loop gets to handle.\<close>

fun run_items :: "(Clock \<times> GhostInput) list \<Rightarrow> string list" where
  "run_items [] = []"
| "run_items ((c, i) # is) = enqueued i @ (if ends_loop i then [] else run_items is)"

lemma fifo_run:
  "run_inputs is e = (e', os) \<Longrightarrow> state e' \<noteq> StZeroized \<Longrightarrow>
   state e \<noteq> StZeroized \<and> batches os @ pending_sync e' = pending_sync e @ run_items is"
proof (induction "is" arbitrary: e os)
  case (Cons x xs)
  obtain c i where x: "x = (c, i)" by force
  obtain e1 o1 where s1: "on_input c i e = (e1, o1)" by force
  show ?case
  proof (cases "ends_loop i")
    case True
    then show ?thesis
      using Cons.prems s1 fifo_input[OF s1] by (simp add: x op_seq_def op_skip_def split_def)
  next
    case False
    then obtain o2 where s2: "run_inputs xs e1 = (e', o2)" and os: "os = o1 @ o2"
      using Cons.prems(1) s1 by (auto simp: x op_seq_def split: prod.splits)
    show ?thesis
      using Cons.IH[OF s2 Cons.prems(2)] fifo_input[OF s1] False os by (auto simp: x)
  qed
qed (simp add: op_skip_def)

section \<open>Batches are bounded\<close>

fun batch_ok :: "nat \<Rightarrow> GhostOut \<Rightarrow> bool" where
  "batch_ok limit (Ev (EvSyncBatch n b t)) = (length b \<le> limit)"
| "batch_ok limit _ = True"

definition bounded :: "GhostEngine \<Rightarrow> GhostOut list \<Rightarrow> GhostEngine \<Rightarrow> bool" where
  "bounded e os e' \<longleftrightarrow> config e' = config e \<and> list_all (batch_ok (sync_batch_limit (config e))) os \<and>
     (wake_cycles_left e \<le> idle_to_sleep_after_cycles (config e) \<longrightarrow>
      wake_cycles_left e' \<le> idle_to_sleep_after_cycles (config e))"

interpretation bd: op_spec bounded
  by unfold_locales (auto simp: bounded_def)

lemma bounded_transition: "op_sat bounded (transition to)"
  by (auto simp: op_sat_def bounded_def transition_def Let_def)

lemma bounded_emit: "(\<And>e l. batch_ok l (Ev (ev e))) \<Longrightarrow> op_sat bounded (emit_event ev)"
  by (simp add: emit_event_def op_sat_def bounded_def op_emit_def)

lemma bounded_publish: "op_sat bounded (publish c m)" "op_sat bounded (sync_world_state sg)"
  unfolding publish_def sync_world_state_def
  by (auto intro!: bd.sat_intros bounded_emit simp: bounded_def)

lemma bounded_take_batch: "op_sat bounded (take_batch c force)"
  unfolding op_sat_def
proof
  fix e show "bounded e (snd (take_batch c force e)) (fst (take_batch c force e))"
    by (rule take_batch_cases[of c force e, OF surjective_pairing]) (auto simp: bounded_def)
qed

lemmas bounded_intros = bd.sat_skip bd.sat_seq bd.sat_when' bd.sat_all bd.sat_upd bounded_transition
  bounded_publish bounded_emit bounded_take_batch

lemma bounded_zeroize: "op_sat bounded (perform_zeroize c)"
  unfolding perform_zeroize_def by (auto intro!: bounded_intros simp: bounded_def)

lemma bounded_run_cycle: "op_sat bounded (run_cycle c t)"
proof -
  have sync: "op_sat bounded (perform_sync_if_needed c force)" for force
    unfolding perform_sync_if_needed_def by (auto intro!: bounded_intros)
  have act: "op_sat bounded (act c d)" for d
    unfolding act_def perform_beacon_def perform_panic_def
    by (auto intro!: bounded_intros bd.sat_with sync bounded_zeroize split: GhostDecision.split
        simp: bounded_def)
  have pulse: "op_sat bounded (after_active_pulse c)"
    unfolding after_active_pulse_def by (auto intro!: bounded_intros bd.sat_with simp: bounded_def)
  show ?thesis
    unfolding run_cycle_def by (auto intro!: bounded_intros bd.sat_with act pulse simp: bounded_def)
qed

lemma bounded_input: "op_sat bounded (on_input c i)"
  unfolding on_input_def on_command_def on_beacon_tick_def on_sync_tick_def
  by (cases i) (auto intro!: bounded_intros bd.sat_with bounded_run_cycle bounded_zeroize
      split: GhostCommand.split simp: bounded_def)

section \<open>Properties\<close>


definition demo_config :: GhostConfig where
  "demo_config = \<lparr> beacon_interval = 30, sync_interval = 120, idle_to_sleep_after_cycles = 10,
     sync_batch_limit = 32, zeroize_on_panic = True, auto_sleep_when_idle = True \<rparr>"

definition demo_clock :: Clock where
  "demo_clock = \<lparr> now_s = 1000, now_ms = 1000000 \<rparr>"


text \<open>
  C4: zeroization is final. No input, in any order, brings a zeroized engine back: it stays
  zeroized, its sync queue stays empty, and it never again sends a beacon, a sync batch or a
  panic event.
\<close>

theorem zeroized_is_final:
  assumes "state e = StZeroized" "pending_sync e = []" "wake_cycles_left e = 0"
    and "run_inputs is e = (e', os)"
  shows "state e' = StZeroized \<and> pending_sync e' = [] \<and> wake_cycles_left e' = 0 \<and> batches os = [] \<and>
    (\<forall>x\<in>set os. \<forall>n r s f cp kp rp t b.
       x \<noteq> Ev (EvBeacon n r s f cp kp rp t) \<and> x \<noteq> Ev (EvSyncBatch n b t) \<and> x \<noteq> Ev (EvPanic n r t))"
proof -
  have "op_sat dead_stays (run_inputs is)" for "is"
    by (induction "is" rule: run_inputs.induct) (auto intro!: dd.sat_skip dd.sat_seq dead_input)
  then have "dead_stays e os e'" using assms(4) op_satD by metis
  then have *: "state e' = StZeroized" "pending_sync e' = []" "wake_cycles_left e' = 0"
      "\<forall>n b t. Ev (EvSyncBatch n b t) \<notin> set os" "\<forall>n r t. Ev (EvPanic n r t) \<notin> set os"
      "\<forall>n r s f cp kp rp t. Ev (EvBeacon n r s f cp kp rp t) \<notin> set os"
    using assms(1-3) by (simp_all add: dead_stays_def)
  have "batches os = []" using *(4) by (induction os rule: batches.induct) auto
  with * show ?thesis by auto
qed

theorem zeroized_is_final_witness:
  "state (fst (run_inputs [(demo_clock, Cmd CmdWake), (demo_clock, BeaconTick)]
     (fst (perform_zeroize demo_clock (spawn_inner ''n'' ''client'' demo_config True))))) = StZeroized"
  using zeroized_is_final[of "fst (perform_zeroize demo_clock (spawn_inner ''n'' ''client'' demo_config True))",
      OF _ _ _ surjective_pairing]
  by (simp add: zeroize_state del: run_inputs.simps)

text \<open>
  The state-change events are a complete log. Replaying the events of any run from the
  state before it, checking that each event starts where the previous one ended, gives the
  state after it.
\<close>

theorem events_replay_state:
  "run_inputs is e = (e', os) \<Longrightarrow> replay (state e) os = Some (state e')"
  using logged_run[of "is"] op_satD[of logged] by (fastforce simp: logged_def)

theorem events_replay_state_witness:
  "replay StSleep (snd (run_inputs [(demo_clock, Cmd CmdWake), (demo_clock, Cmd (CmdTriggerPanic ''p''))]
       ((spawn_inner ''n'' ''client'' demo_config True)\<lparr> state := StSleep \<rparr>))) =
     Some (state (fst (run_inputs [(demo_clock, Cmd CmdWake), (demo_clock, Cmd (CmdTriggerPanic ''p''))]
       ((spawn_inner ''n'' ''client'' demo_config True)\<lparr> state := StSleep \<rparr>))))"
  using events_replay_state[of
      "[(demo_clock, Cmd CmdWake), (demo_clock, Cmd (CmdTriggerPanic ''p''))]"
      "(spawn_inner ''n'' ''client'' demo_config True)\<lparr> state := StSleep \<rparr>", OF surjective_pairing]
  by (simp del: run_inputs.simps)

text \<open>
  The sync queue loses, duplicates and reorders nothing. For every run from an engine that
  ends it alive, the concatenation of the sent batches followed by what is still queued is
  what was queued before followed by the items enqueued during the run, and no batch exceeds
  the configured limit.
\<close>

theorem sync_queue_fifo:
  assumes "run_inputs is e = (e', os)"
  shows "(state e' \<noteq> StZeroized \<longrightarrow> batches os @ pending_sync e' = pending_sync e @ run_items is) \<and>
    (\<forall>n b t. Ev (EvSyncBatch n b t) \<in> set os \<longrightarrow> length b \<le> sync_batch_limit (config e))"
proof -
  have "op_sat bounded (run_inputs is)" for "is"
    by (induction "is" rule: run_inputs.induct) (auto intro!: bd.sat_skip bd.sat_seq bounded_input)
  then have "bounded e os e'" using assms op_satD by metis
  then have "list_all (batch_ok (sync_batch_limit (config e))) os" by (simp add: bounded_def)
  then have "\<forall>n b t. Ev (EvSyncBatch n b t) \<in> set os \<longrightarrow> length b \<le> sync_batch_limit (config e)"
    by (force simp: list_all_iff)
  with fifo_run[OF assms] show ?thesis by blast
qed

theorem sync_queue_fifo_witness:
  "\<exists>e' os. run_inputs [(demo_clock, Cmd (CmdEnqueueSync ''a'')), (demo_clock, Cmd (CmdEnqueueSync ''b''))]
      ((spawn_inner ''n'' ''client'' demo_config False)\<lparr> state := StSleep \<rparr>) = (e', os) \<and>
    (state e' \<noteq> StZeroized \<longrightarrow> batches os @ pending_sync e' = [''a'', ''b''])"
proof -
  let ?e = "(spawn_inner ''n'' ''client'' demo_config False)\<lparr> state := StSleep \<rparr>"
  let ?is = "[(demo_clock, Cmd (CmdEnqueueSync ''a'')), (demo_clock, Cmd (CmdEnqueueSync ''b''))]"
  obtain e' os where r: "run_inputs ?is ?e = (e', os)" by force
  have "pending_sync ?e @ run_items ?is = [''a'', ''b'']"
    by (simp add: spawn_inner_def ends_loop_def)
  with sync_queue_fifo[OF r] r show ?thesis by auto
qed

end
