(* ===== verification/Ghost_Policy.thy ===== *)
theory Ghost_Policy
  imports Controller Ghost
begin

text \<open>
  Health and policy of the ghost: the score and assessment of \<^verbatim>\<open>ghost_health.rs\<close> and the decisions of
  \<^verbatim>\<open>ghost_policy.rs\<close>.
\<close>

section \<open>Health\<close>

record GhostHealthSnapshot =
  hs_node_id :: string
  hs_role :: string
  hs_connected_peers :: nat
  hs_known_peers :: nat
  hs_route_peers :: nat
  hs_trusted_peers :: nat
  hs_bootstrap_ok :: bool
  hs_gateway_ok :: bool
  hs_web_ok :: bool
  hs_config_ok :: bool
  hs_tamper_detected :: bool
  hs_last_failure_reason :: "string option"

definition default_health :: GhostHealthSnapshot where
  "default_health = \<lparr> hs_node_id = ''unknown'', hs_role = ''client'', hs_connected_peers = 0, hs_known_peers = 0,
     hs_route_peers = 0, hs_trusted_peers = 0, hs_bootstrap_ok = False, hs_gateway_ok = False, hs_web_ok = False,
     hs_config_ok = False, hs_tamper_detected = False, hs_last_failure_reason = None \<rparr>"

definition role_norm :: "GhostHealthSnapshot \<Rightarrow> string" where
  "role_norm s = str_lower (str_trim (hs_role s))"

definition is_supernode :: "GhostHealthSnapshot \<Rightarrow> bool" where
  "is_supernode s \<longleftrightarrow> role_norm s = ''supernode''"

definition is_relay :: "GhostHealthSnapshot \<Rightarrow> bool" where
  "is_relay s \<longleftrightarrow> role_norm s = ''relay''"

definition has_trusted_path :: "GhostHealthSnapshot \<Rightarrow> bool" where
  "has_trusted_path s \<longleftrightarrow> hs_bootstrap_ok s \<or> hs_gateway_ok s \<or> hs_web_ok s \<or> hs_trusted_peers s > 0"

definition is_network_reachable :: "GhostHealthSnapshot \<Rightarrow> bool" where
  "is_network_reachable s \<longleftrightarrow> hs_connected_peers s > 0 \<or> has_trusted_path s"

definition is_operational :: "GhostHealthSnapshot \<Rightarrow> bool" where
  "is_operational s \<longleftrightarrow> hs_config_ok s \<and> is_network_reachable s \<and> \<not> hs_tamper_detected s"

fun str_contains :: "string \<Rightarrow> string \<Rightarrow> bool" where
  "str_contains pat [] = (pat = [])"
| "str_contains pat (c # cs) = (starts_with pat (c # cs) \<or> str_contains pat cs)"

definition looks_like_disconnect_reason :: "GhostHealthSnapshot \<Rightarrow> bool" where
  "looks_like_disconnect_reason s \<longleftrightarrow>
     (case hs_last_failure_reason s of
        None \<Rightarrow> False
      | Some r \<Rightarrow> (let r = str_lower r in
           str_contains ''disconnect'' r \<or> str_contains ''closed'' r \<or> str_contains ''transport'' r))"

definition health_score :: "GhostHealthSnapshot \<Rightarrow> nat" where
  "health_score s =
     (if hs_tamper_detected s then 0
      else
        let score = (40 :: int);
            score = (if is_operational s then score + 30 else score);
            score = (if is_supernode s \<and> hs_gateway_ok s then score + 10 else score);
            score = (if is_relay s \<and> hs_bootstrap_ok s then score + 10 else score);
            score = (if hs_connected_peers s \<ge> 2 then score + 10 else score);
            score = (if looks_like_disconnect_reason s then score - 10 else score)
        in nat (max 0 (min 100 score)))"

datatype GhostHealthLevel = LvHealthy | LvDegraded | LvCritical

datatype GhostHealthRecommendation = RecStayAwake | RecWake | RecBeacon | RecSleep | RecPanic

record GhostHealthAssessment =
  ha_level :: GhostHealthLevel
  ha_recommendation :: GhostHealthRecommendation
  ha_reason :: string

definition health_assess :: "GhostHealthSnapshot \<Rightarrow> GhostState \<Rightarrow> GhostHealthAssessment" where
  "health_assess s st =
     (let score = health_score s;
          level = (if score \<ge> 85 then LvHealthy else if score \<ge> 45 then LvDegraded else LvCritical)
      in \<lparr> ha_level = level,
           ha_recommendation =
             (case level of
                LvCritical \<Rightarrow> RecPanic
              | LvDegraded \<Rightarrow> RecBeacon
              | LvHealthy \<Rightarrow> if hs_connected_peers s > 0 then RecStayAwake
                              else if st = StSleep then RecWake else RecSleep),
           ha_reason = (if hs_tamper_detected s then ''tamper_detected''
                        else if hs_connected_peers s = 0 then ''isolated_node'' else ''normal_operation'') \<rparr>)"

section \<open>Policy\<close>

record GhostPolicy =
  allow_sleep_when_healthy :: bool
  wake_when_no_peers :: bool
  beacon_when_degraded :: bool
  sync_when_latency_high :: bool
  min_reputation_to_connect :: real
  quarantine_threshold :: real
  trust_score_boost_step :: real
  drop_on_policy_denial :: bool
  isolate_on_severe_failure :: bool
  retry_on_transient_failure :: bool
  max_retry_count :: nat
  throttle_connected_peer_threshold :: nat
  degrade_peer_threshold :: nat
  reroute_on_route_pressure :: bool
  min_trusted_peers :: nat
  panic_on_critical :: bool

definition default_ghost_policy :: "(real \<Rightarrow> real) \<Rightarrow> GhostPolicy" where
  "default_ghost_policy rnd = \<lparr> allow_sleep_when_healthy = True, wake_when_no_peers = True, beacon_when_degraded = True,
     sync_when_latency_high = True, min_reputation_to_connect = rnd (1 / 5), quarantine_threshold = rnd (1 / 10),
     trust_score_boost_step = rnd (1 / 20), drop_on_policy_denial = True, isolate_on_severe_failure = True,
     retry_on_transient_failure = True, max_retry_count = 3, throttle_connected_peer_threshold = 64,
     degrade_peer_threshold = 128, reroute_on_route_pressure = True, min_trusted_peers = 3, panic_on_critical = True \<rparr>"

datatype PolicyDecision =
    PdNoop | PdWake | PdSleep | PdBeacon | PdSync | PdPanic | PdDegrade
  | PdDropPeer string
  | PdThrottle string
  | PdIsolatePeer string
  | PdRetry string
  | PdReroute string
  | PdAdjustReputation string real

fun evaluate_event :: "GhostPolicy \<Rightarrow> SystemEventKind \<Rightarrow> PolicyDecision" where
  "evaluate_event p (AuthorityViolation peer a) = PdIsolatePeer peer"
| "evaluate_event p (SecurityReject peer r) = (if retry_on_transient_failure p then PdRetry peer else PdDropPeer peer)"
| "evaluate_event p (HighLatency peer l) = (if l > 2000 then PdThrottle peer else PdNoop)"
| "evaluate_event p (RoutePressure ns) = (if reroute_on_route_pressure p then PdReroute ns else PdBeacon)"
| "evaluate_event p (AnomalyDetected d) = PdSync"
| "evaluate_event p _ = PdNoop"

definition decide_health :: "GhostPolicy \<Rightarrow> GhostState \<Rightarrow> GhostHealthAssessment \<Rightarrow> PolicyDecision" where
  "decide_health p st a =
     (case ha_level a of
        LvCritical \<Rightarrow> if panic_on_critical p then PdPanic else PdDegrade
      | LvDegraded \<Rightarrow>
          (case ha_recommendation a of RecBeacon \<Rightarrow> PdBeacon | RecWake \<Rightarrow> PdWake | _ \<Rightarrow> PdNoop)
      | LvHealthy \<Rightarrow>
          if ha_recommendation a = RecSleep \<and> allow_sleep_when_healthy p then PdSleep
          else if st = StSleep \<and> wake_when_no_peers p then PdWake else PdNoop)"

definition evaluate_reputation :: "GhostPolicy \<Rightarrow> string \<Rightarrow> real \<Rightarrow> PolicyDecision" where
  "evaluate_reputation p peer score =
     (if score < quarantine_threshold p then PdIsolatePeer peer
      else if score < min_reputation_to_connect p then PdReroute peer else PdNoop)"

definition evaluate_load :: "GhostPolicy \<Rightarrow> nat \<Rightarrow> PolicyDecision" where
  "evaluate_load p cnt =
     (if cnt \<ge> degrade_peer_threshold p then PdDegrade
      else if cnt \<ge> throttle_connected_peer_threshold p then PdSync else PdNoop)"

section \<open>Lemmas\<close>

lemma health_score_cases:
  "health_score s =
     (if hs_tamper_detected s then 0
      else 40 + (if is_operational s then 30 else 0) +
             (if is_supernode s \<and> hs_gateway_ok s \<or> is_relay s \<and> hs_bootstrap_ok s then 10 else 0) +
             (if hs_connected_peers s \<ge> 2 then 10 else 0) - (if looks_like_disconnect_reason s then 10 else 0))"
proof -
  have "\<not> (is_supernode s \<and> is_relay s)" by (auto simp: is_supernode_def is_relay_def)
  then show ?thesis by (auto simp: health_score_def Let_def)
qed

text \<open>A node is healthy only when it is connected, so that sleeping and waking are never recommended.\<close>

lemma healthy_iff:
  "ha_level (health_assess s st) = LvHealthy \<longleftrightarrow>
     \<not> hs_tamper_detected s \<and> is_operational s \<and> hs_connected_peers s \<ge> 2 \<and> \<not> looks_like_disconnect_reason s \<and>
     (is_supernode s \<and> hs_gateway_ok s \<or> is_relay s \<and> hs_bootstrap_ok s)"
  by (auto simp: health_assess_def health_score_cases Let_def)

lemma critical_iff:
  "ha_level (health_assess s st) = LvCritical \<longleftrightarrow>
     hs_tamper_detected s \<or> \<not> is_operational s \<and>
       \<not> ((is_supernode s \<and> hs_gateway_ok s \<or> is_relay s \<and> hs_bootstrap_ok s \<or> hs_connected_peers s \<ge> 2) \<and>
          (looks_like_disconnect_reason s \<longrightarrow>
             (is_supernode s \<and> hs_gateway_ok s \<or> is_relay s \<and> hs_bootstrap_ok s) \<and> hs_connected_peers s \<ge> 2))"
  by (auto simp: health_assess_def health_score_cases Let_def)

lemma decide_idle:
  "decide_health p StIdle (health_assess s st) =
     (case ha_level (health_assess s st) of
        LvCritical \<Rightarrow> if panic_on_critical p then PdPanic else PdDegrade
      | LvDegraded \<Rightarrow> PdBeacon
      | LvHealthy \<Rightarrow> PdNoop)"
proof -
  have "hs_connected_peers s \<ge> 2" if "ha_level (health_assess s st) = LvHealthy"
    using that healthy_iff[of s st] by auto
  then show ?thesis
    by (auto simp: decide_health_def health_assess_def Let_def split: if_splits GhostHealthLevel.splits)
qed

section \<open>Properties\<close>

text \<open>
  Health and its consequences. The score is at most 90 and the assessment panics exactly on tampering or
  when too little works; a node is healthy only as a supernode with its gateway or a relay with its bootstrap, with at least two
  peers and no disconnect reported, and then it stays awake: sleeping and waking are never recommended, and the policy turns
  the assessment of an idle node into a panic (or degradation), a beacon, or nothing, and into nothing else.
\<close>

theorem health_decisions:
  "health_score s \<le> 90 \<and>
   (hs_tamper_detected s \<longrightarrow> decide_health p StIdle (health_assess s st) = (if panic_on_critical p then PdPanic else PdDegrade)) \<and>
   (ha_level (health_assess s st) = LvHealthy \<longrightarrow> hs_connected_peers s \<ge> 2 \<and> (is_supernode s \<or> is_relay s)) \<and>
   ha_recommendation (health_assess s st) \<in> {RecStayAwake, RecBeacon, RecPanic} \<and>
   decide_health p StIdle (health_assess s st) =
     (case ha_level (health_assess s st) of
        LvCritical \<Rightarrow> if panic_on_critical p then PdPanic else PdDegrade
      | LvDegraded \<Rightarrow> PdBeacon
      | LvHealthy \<Rightarrow> PdNoop)"
proof -
  have "hs_connected_peers s \<ge> 2 \<and> (is_supernode s \<or> is_relay s)" if "ha_level (health_assess s st) = LvHealthy"
    using that healthy_iff[of s st] by auto
  then show ?thesis
    by (auto simp: health_score_cases decide_health_def health_assess_def Let_def split: if_splits GhostHealthLevel.splits)
qed

theorem health_decisions_witness:
  "decide_health (default_ghost_policy (\<lambda>x. x)) StIdle (health_assess (default_health\<lparr> hs_tamper_detected := True \<rparr>) StIdle) = PdPanic"
  using health_decisions[of "default_health\<lparr> hs_tamper_detected := True \<rparr>" "default_ghost_policy (\<lambda>x. x)" StIdle]
  by (simp add: default_ghost_policy_def)

end
