(* ===== verification/Ghost_Runtime.thy ===== *)
theory Ghost_Runtime
  imports Ghost_Policy
begin

text \<open>
  The ghost runtime, \<^verbatim>\<open>ghost_runtime.rs\<close>: the handle that turns system events, health and reputation into
  commands to the ghost engine and calls of the action sink, and its scheduler tick. A method is an
  operation on the runtime record that returns what it sent, in order: an awaited command, a spawned task with
  the commands it sends one after the other, a call of the sink, or the panic of a division by zero. The
  world state is shared with other tasks, so its lock may be poisoned, which is a flag; the locks of the
  policy and of the scheduler are held by code that cannot panic. The debug text of a system event is the
  argument \<open>dbg\<close>, because it contains the debug text of a libp2p peer id.
\<close>

section \<open>Data\<close>

record GhostRuntimeConfig =
  rc_policy :: GhostPolicy
  rc_scheduler_tick_secs :: nat
  sync_every_ticks :: u64
  sleep_after_idle_ticks :: u64
  wake_on_activity :: bool
  enable_scheduler :: bool

definition default_runtime_config :: "(real \<Rightarrow> real) \<Rightarrow> GhostRuntimeConfig" where
  "default_runtime_config rnd = \<lparr> rc_policy = default_ghost_policy rnd, rc_scheduler_tick_secs = 10, sync_every_ticks = 6,
     sleep_after_idle_ticks = 6, wake_on_activity = True, enable_scheduler = True \<rparr>"

record GhostSchedulerState =
  tick_count :: u64
  idle_ticks :: u64
  last_event :: "string option"
  last_assessment :: "GhostHealthAssessment option"

record GhostRuntime =
  gr_node_id :: string
  gr_role :: string
  gr_world :: WorldState
  gr_world_poisoned :: bool
  gr_policy :: GhostPolicy
  gr_sink :: bool
  gr_scheduler :: GhostSchedulerState
  gr_config :: GhostRuntimeConfig

datatype SinkCall =
    SkDrop string
  | SkLimit string
  | SkQuarantine string
  | SkReroute string "string list"
  | SkAdjust string real

datatype RtOut =
    Sent GhostCommand
  | Spawned "GhostCommand list"
  | Sink SinkCall
  | DivByZero

type_synonym rt_op = "(GhostRuntime, RtOut) op"

section \<open>Methods\<close>

definition set_action_sink :: rt_op where
  "set_action_sink = op_upd (\<lambda>r. r\<lparr> gr_sink := True \<rparr>)"

definition set_world_state :: "WsClock \<Rightarrow> string \<Rightarrow> rt_op" where
  "set_world_state ck st = op_upd (\<lambda>r.
     if gr_world_poisoned r then r else r\<lparr> gr_world := set_ghost_state ck st (gr_world r) \<rparr>)"

definition send_cmd :: "GhostCommand \<Rightarrow> rt_op" where
  "send_cmd cmd = op_emit (\<lambda>r. [Sent cmd])"

definition spawn_cmds :: "GhostCommand list \<Rightarrow> rt_op" where
  "spawn_cmds cmds = op_emit (\<lambda>r. [Spawned cmds])"

definition call_sink :: "SinkCall \<Rightarrow> rt_op" where
  "call_sink k = op_emit (\<lambda>r. if gr_sink r then [Sink k] else [])"

definition apply_decision :: "WsClock \<Rightarrow> PolicyDecision \<Rightarrow> rt_op" where
  "apply_decision ck d =
     (case d of
        PdNoop \<Rightarrow> op_skip
      | PdWake \<Rightarrow> op_seq (set_world_state ck ''waking'') (spawn_cmds [CmdWake])
      | PdSleep \<Rightarrow> op_seq (set_world_state ck ''sleeping'') (spawn_cmds [CmdSleep])
      | PdBeacon \<Rightarrow> spawn_cmds [CmdTriggerBeacon]
      | PdSync \<Rightarrow> spawn_cmds [CmdTriggerSync]
      | PdPanic \<Rightarrow> op_seq (set_world_state ck ''panic'') (spawn_cmds [CmdTriggerPanic ''autonomous_panic''])
      | PdDegrade \<Rightarrow> set_world_state ck ''degraded''
      | PdDropPeer p \<Rightarrow> call_sink (SkDrop p)
      | PdThrottle p \<Rightarrow> call_sink (SkLimit p)
      | PdIsolatePeer p \<Rightarrow> call_sink (SkQuarantine p)
      | PdRetry p \<Rightarrow> spawn_cmds [CmdEnqueueSync (''retry:'' @ p)]
      | PdReroute p \<Rightarrow> op_seq (call_sink (SkReroute p []))
          (spawn_cmds [CmdEnqueueSync (''reroute:'' @ p), CmdTriggerBeacon])
      | PdAdjustReputation p delta \<Rightarrow> call_sink (SkAdjust p delta))"

definition is_peer_connected :: "SystemEventKind \<Rightarrow> bool" where
  "is_peer_connected k = (case k of PeerConnected p \<Rightarrow> True | _ \<Rightarrow> False)"

definition publish_event :: "(SystemEventKind \<Rightarrow> string) \<Rightarrow> WsClock \<Rightarrow> SystemEventKind \<Rightarrow> rt_op" where
  "publish_event dbg ck kind = op_block [
     op_with (\<lambda>r. evaluate_event (gr_policy r) kind) (apply_decision ck),
     op_when (\<lambda>r. wake_on_activity (gr_config r) \<and> is_peer_connected kind) (apply_decision ck PdWake),
     send_cmd (CmdObserveSignal (dbg kind))]"

definition build_real_snapshot :: "WsClock \<Rightarrow> GhostRuntime \<Rightarrow> GhostHealthSnapshot" where
  "build_real_snapshot ck r =
     (if gr_world_poisoned r then default_health
      else let s = ws_snapshot ck (gr_world r) in
        \<lparr> hs_node_id = gr_node_id r, hs_role = gr_role r, hs_connected_peers = sn_connected_peers s,
          hs_known_peers = sn_known_peers s, hs_route_peers = sn_route_peers s, hs_trusted_peers = sn_trusted_peers s,
          hs_bootstrap_ok = (sn_trusted_peers s > 0), hs_gateway_ok = True, hs_web_ok = True, hs_config_ok = True,
          hs_tamper_detected = False, hs_last_failure_reason = sn_last_signal s \<rparr>)"

text \<open>The loop over the registry, under the read lock of the world state.\<close>

definition judge_peer :: "WsClock \<Rightarrow> string \<times> PeerState \<Rightarrow> rt_op" where
  "judge_peer ck e =
     op_with (\<lambda>r. evaluate_reputation (gr_policy r) (fst e) (rep_score (ps_reputation (snd e)))) (apply_decision ck)"

definition assess_with :: "WsClock \<Rightarrow> GhostHealthSnapshot \<Rightarrow> rt_op" where
  "assess_with ck snap =
     (let assessment = health_assess snap StIdle in op_block [
        op_with (\<lambda>r. if gr_world_poisoned r then [] else peer_registry (gr_world r)) (op_all (judge_peer ck)),
        send_cmd (CmdObserveSignal (''ghost:assess:'' @ ha_reason assessment)),
        op_upd (\<lambda>r. r\<lparr> gr_scheduler := (gr_scheduler r)\<lparr>
           last_event := Some (ha_reason assessment), last_assessment := Some assessment \<rparr> \<rparr>)])"

definition gr_assess :: "WsClock \<Rightarrow> rt_op" where
  "gr_assess ck = op_seq (set_world_state ck ''assessing'') (op_with (build_real_snapshot ck) (assess_with ck))"

definition gr_decide :: "GhostRuntime \<Rightarrow> PolicyDecision" where
  "gr_decide r =
     (case last_assessment (gr_scheduler r) of
        None \<Rightarrow> PdNoop
      | Some a \<Rightarrow> decide_health (gr_policy r) StIdle a)"

definition gr_act :: "WsClock \<Rightarrow> rt_op" where
  "gr_act ck = op_seq (op_with gr_decide (apply_decision ck)) (set_world_state ck ''ready'')"

definition gr_update_metrics :: "WsClock \<Rightarrow> nat \<Rightarrow> nat \<Rightarrow> nat \<Rightarrow> rt_op" where
  "gr_update_metrics ck c k rt = op_seq
     (op_upd (\<lambda>r. if gr_world_poisoned r then r
        else r\<lparr> gr_world := sync_ghost_from_registry (update_peers ck c k rt rt (gr_world r)) \<rparr>))
     (send_cmd (CmdUpdateMetrics c k rt))"

definition gr_trigger_sync :: "WsClock \<Rightarrow> rt_op" where
  "gr_trigger_sync ck = apply_decision ck PdSync"

definition gr_trigger_beacon :: "WsClock \<Rightarrow> rt_op" where
  "gr_trigger_beacon ck = apply_decision ck PdBeacon"

definition gr_sleep :: "WsClock \<Rightarrow> rt_op" where
  "gr_sleep ck = apply_decision ck PdSleep"

definition gr_wake :: "WsClock \<Rightarrow> rt_op" where
  "gr_wake ck = apply_decision ck PdWake"

definition gr_zeroize :: "WsClock \<Rightarrow> rt_op" where
  "gr_zeroize ck = op_seq (set_world_state ck ''zeroized'') (send_cmd CmdZeroize)"

definition gr_set_tamper :: "bool \<Rightarrow> rt_op" where
  "gr_set_tamper tamper = send_cmd (CmdSetTamper tamper)"

definition gr_health :: "GhostHealthSnapshot \<Rightarrow> rt_op" where
  "gr_health s = send_cmd (CmdObserveSignal (''health_check:peers='' @ dec_str (hs_connected_peers s)))"

definition policy_update :: "WsClock \<Rightarrow> GhostPolicy \<Rightarrow> rt_op" where
  "policy_update ck p = op_seq (op_upd (\<lambda>r. r\<lparr> gr_policy := p \<rparr>)) (gr_assess ck)"

text \<open>
  One tick. The remainder by \<^verbatim>\<open>sync_every_ticks\<close> is taken after the counters are written, and panics when it is zero.
\<close>

definition count_tick :: "GhostHealthSnapshot \<Rightarrow> GhostSchedulerState \<Rightarrow> GhostSchedulerState" where
  "count_tick s g = g\<lparr> tick_count := (if tick_count g = - 1 then - 1 else tick_count g + 1),
     idle_ticks := (if hs_connected_peers s = 0 then idle_ticks g + 1 else 0) \<rparr>"

definition tick_body :: "WsClock \<Rightarrow> GhostHealthSnapshot \<Rightarrow> rt_op" where
  "tick_body ck s = op_block [
     op_when (\<lambda>r. tick_count (gr_scheduler r) mod sync_every_ticks (gr_config r) = 0) (gr_trigger_sync ck),
     op_when (\<lambda>r. idle_ticks (gr_scheduler r) \<ge> sleep_after_idle_ticks (gr_config r) \<and> hs_connected_peers s = 0)
       (apply_decision ck PdSleep),
     op_with (\<lambda>r. evaluate_load (gr_policy r) (hs_connected_peers s)) (apply_decision ck),
     op_with gr_decide (apply_decision ck),
     gr_assess ck,
     gr_act ck,
     gr_update_metrics ck (hs_connected_peers s) (hs_known_peers s) (hs_route_peers s)]"

definition scheduler_tick :: "WsClock \<Rightarrow> rt_op" where
  "scheduler_tick ck =
     op_with (build_real_snapshot ck) (\<lambda>s.
       op_seq (op_upd (\<lambda>r. r\<lparr> gr_scheduler := count_tick s (gr_scheduler r) \<rparr>))
         (op_with (\<lambda>r. sync_every_ticks (gr_config r) = 0) (\<lambda>z.
            if z then op_emit (\<lambda>r. [DivByZero]) else tick_body ck s)))"

definition spawn_ghost_runtime :: "string \<Rightarrow> string \<Rightarrow> GhostRuntimeConfig \<Rightarrow> WorldState \<Rightarrow> GhostRuntime" where
  "spawn_ghost_runtime nid rl cfg w =
     \<lparr> gr_node_id = nid, gr_role = rl, gr_world = w, gr_world_poisoned = False, gr_policy = rc_policy cfg,
       gr_sink = False,
       gr_scheduler = \<lparr> tick_count = 0, idle_ticks = 0, last_event = None, last_assessment = None \<rparr>,
       gr_config = cfg \<rparr>"

section \<open>Runs\<close>

text \<open>
  The calls the handle accepts, and what other tasks do to the shared world state between them: an update of the
  world state under the lock, or a panic that poisons the lock.
\<close>

datatype RtCall =
    RtSetSink
  | RtPublish SystemEventKind
  | RtAssess
  | RtTick
  | RtAct
  | RtMetrics nat nat nat
  | RtSync
  | RtBeacon
  | RtSleep
  | RtWake
  | RtZeroize
  | RtTamper bool
  | RtHealth GhostHealthSnapshot
  | RtPolicy GhostPolicy
  | RtWorld WsOp
  | RtPoison

fun rt_call :: "'pk AuthEnv \<Rightarrow> (SystemEventKind \<Rightarrow> string) \<Rightarrow> WsClock \<Rightarrow> RtCall \<Rightarrow> rt_op" where
  "rt_call env dbg ck RtSetSink = set_action_sink"
| "rt_call env dbg ck (RtPublish k) = publish_event dbg ck k"
| "rt_call env dbg ck RtAssess = gr_assess ck"
| "rt_call env dbg ck RtTick = scheduler_tick ck"
| "rt_call env dbg ck RtAct = gr_act ck"
| "rt_call env dbg ck (RtMetrics c k r) = gr_update_metrics ck c k r"
| "rt_call env dbg ck RtSync = gr_trigger_sync ck"
| "rt_call env dbg ck RtBeacon = gr_trigger_beacon ck"
| "rt_call env dbg ck RtSleep = gr_sleep ck"
| "rt_call env dbg ck RtWake = gr_wake ck"
| "rt_call env dbg ck RtZeroize = gr_zeroize ck"
| "rt_call env dbg ck (RtTamper b) = gr_set_tamper b"
| "rt_call env dbg ck (RtHealth s) = gr_health s"
| "rt_call env dbg ck (RtPolicy p) = policy_update ck p"
| "rt_call env dbg ck (RtWorld x) = op_upd (\<lambda>r. if gr_world_poisoned r then r else r\<lparr> gr_world := ws_step env ck x (gr_world r) \<rparr>)"
| "rt_call env dbg ck RtPoison = op_upd (\<lambda>r. r\<lparr> gr_world_poisoned := True \<rparr>)"

fun rt_run :: "'pk AuthEnv \<Rightarrow> (SystemEventKind \<Rightarrow> string) \<Rightarrow> (WsClock \<times> RtCall) list \<Rightarrow> rt_op" where
  "rt_run env dbg [] = op_skip"
| "rt_run env dbg ((ck, x) # xs) = op_seq (rt_call env dbg ck x) (rt_run env dbg xs)"

section \<open>What causes an action\<close>

text \<open>
  The calls that may cause an output. Panic and the adjustment of a reputation have no cause, waking needs an
  order or a new connection, and every call of the sink needs the system event that names its peer.
\<close>

fun cause_cmd :: "RtCall \<Rightarrow> GhostCommand \<Rightarrow> bool" where
  "cause_cmd x (CmdTriggerPanic reason) = False"
| "cause_cmd x CmdZeroize = (x = RtZeroize)"
| "cause_cmd x (CmdSetTamper b) = (x = RtTamper b)"
| "cause_cmd x CmdWake = (x = RtWake \<or> (\<exists>p. x = RtPublish (PeerConnected p)))"
| "cause_cmd x CmdSleep = (x = RtSleep \<or> x = RtTick)"
| "cause_cmd x (CmdEnqueueSync item) =
     (\<exists>p. (\<exists>r. x = RtPublish (SecurityReject p r)) \<and> item = ''retry:'' @ p \<or>
          x = RtPublish (RoutePressure p) \<and> item = ''reroute:'' @ p)"
| "cause_cmd x cmd = True"

fun cause_sink :: "SystemEventKind \<Rightarrow> SinkCall \<Rightarrow> bool" where
  "cause_sink k (SkQuarantine p) = (\<exists>a. k = AuthorityViolation p a)"
| "cause_sink k (SkDrop p) = (\<exists>r. k = SecurityReject p r)"
| "cause_sink k (SkLimit p) = (\<exists>l. k = HighLatency p l \<and> l > 2000)"
| "cause_sink k (SkReroute p alts) = (k = RoutePressure p \<and> alts = [])"
| "cause_sink k (SkAdjust p d) = False"

fun cause :: "RtCall \<Rightarrow> RtOut \<Rightarrow> bool" where
  "cause x (Sent cmd) = cause_cmd x cmd"
| "cause x (Spawned cmds) = (\<forall>c\<in>set cmds. cause_cmd x c)"
| "cause x (Sink k) = (\<exists>kind. x = RtPublish kind \<and> cause_sink kind k)"
| "cause x DivByZero = (x = RtTick)"

text \<open>The thresholds of the policy lie below the reputation every registry entry is created with.\<close>

definition mild :: "GhostPolicy \<Rightarrow> bool" where
  "mild p \<longleftrightarrow> quarantine_threshold p \<le> 1 / 2 \<and> min_reputation_to_connect p \<le> 1 / 2"

definition untouched :: "WorldState \<Rightarrow> bool" where
  "untouched w \<longleftrightarrow> (\<forall>e\<in>set (peer_registry w). ps_reputation (snd e) = default_reputation)"

definition quiet :: "GhostHealthAssessment \<Rightarrow> bool" where
  "quiet a \<longleftrightarrow> (\<forall>p. decide_health p StIdle a = PdBeacon \<or> decide_health p StIdle a = PdNoop)"

definition rt_inv :: "GhostRuntime \<Rightarrow> bool" where
  "rt_inv r \<longleftrightarrow> \<not> gr_world_poisoned r \<and> untouched (gr_world r) \<and> mild (gr_policy r) \<and>
     (\<forall>a. last_assessment (gr_scheduler r) = Some a \<longrightarrow> quiet a)"

definition explained :: "(RtOut \<Rightarrow> bool) \<Rightarrow> GhostRuntime \<Rightarrow> RtOut list \<Rightarrow> GhostRuntime \<Rightarrow> bool" where
  "explained ok r os r' \<longleftrightarrow> (rt_inv r \<longrightarrow> rt_inv r' \<and> (\<forall>x\<in>set os. ok x))"

interpretation ex: op_spec "explained ok" for ok
  by unfold_locales (auto simp: explained_def)

lemma explained_with:
  "(\<And>r. rt_inv r \<Longrightarrow> explained ok r (snd (f (g r) r)) (fst (f (g r) r))) \<Longrightarrow> op_sat (explained ok) (op_with g f)"
  by (auto simp: op_sat_def explained_def op_with_def)

lemma explainedD: "op_sat (explained ok) f \<Longrightarrow> explained ok r (snd (f r)) (fst (f r))"
  by (simp add: op_sat_def)

lemma bt_put_set: "set (bt_put k v m) \<subseteq> insert (k, v) (set m)"
  by (induction k v m rule: bt_put.induct) auto

lemma untouched_put:
  "untouched w \<Longrightarrow> ps_reputation p = default_reputation \<Longrightarrow> peer_registry w' = bt_put k p (peer_registry w) \<Longrightarrow> untouched w'"
  using bt_put_set[of k p "peer_registry w"] by (auto simp: untouched_def)

lemma untouched_same: "peer_registry w' = peer_registry w \<Longrightarrow> untouched w' = untouched w"
  by (simp add: untouched_def)

lemma untouched_ops [simp]:
  "untouched (bump ck w) = untouched w" "untouched (w\<lparr> event_log := l \<rparr>) = untouched w"
  "untouched (w\<lparr> ws_authority := a, authority_hash := h \<rparr>) = untouched w" "untouched (w\<lparr> ws_ghost := g \<rparr>) = untouched w"
  "untouched (set_ghost_state ck st w) = untouched w" "untouched (update_peers ck c k rt tr w) = untouched w"
  "untouched (sync_ghost_from_registry w) = untouched w"
  by (auto intro!: untouched_same simp: set_ghost_state_def update_peers_def)

lemma untouched_lookup: "untouched w \<Longrightarrow> map_of (peer_registry w) k = Some p \<Longrightarrow> ps_reputation p = default_reputation"
  unfolding untouched_def using map_of_SomeD[of "peer_registry w" k p] by fastforce

lemma untouched_upsert: "untouched w \<Longrightarrow> untouched (upsert_peer_state ck k r c t w)"
proof -
  assume u: "untouched w"
  define base where "base = (case map_of (peer_registry w) k of Some p \<Rightarrow> p | None \<Rightarrow> new_peer_state (wc_secs ck) k)"
  have b: "ps_reputation base = default_reputation"
    using untouched_lookup[OF u] by (auto simp: base_def new_peer_state_def split: option.split)
  obtain q where "peer_registry (upsert_peer_state ck k r c t w) = bt_put k q (peer_registry w)"
    "ps_reputation q = ps_reputation base"
    by (auto simp: upsert_peer_state_def Let_def base_def[symmetric] split: option.split)
  then show ?thesis using untouched_put[OF u] b by simp
qed

lemma untouched_step: "untouched w \<Longrightarrow> untouched (ws_step env ck x w)"
proof (cases x)
  case (OpAddRoute k v)
  assume u: "untouched w"
  show ?thesis
  proof (cases "map_of (peer_registry w) k")
    case (Some q)
    show ?thesis
      by (rule untouched_put[OF u _ refl[THEN trans]]) (use untouched_lookup[OF u Some] in \<open>simp_all add: OpAddRoute add_route_def Some\<close>)
  qed (use u in \<open>simp add: OpAddRoute add_route_def untouched_def\<close>)
next
  case (OpRemoveRoute k v)
  assume u: "untouched w"
  show ?thesis
  proof (cases "map_of (peer_registry w) k")
    case (Some q)
    show ?thesis
      by (rule untouched_put[OF u _ refl[THEN trans]]) (use untouched_lookup[OF u Some] in \<open>simp_all add: OpRemoveRoute remove_route_def Some\<close>)
  qed (use u in \<open>simp add: OpRemoveRoute remove_route_def untouched_def\<close>)
qed (auto simp: set_peer_connected_def set_peer_role_def set_peer_trusted_def Let_def observe_signal_def
    set_authority_def set_health_level_def intro: untouched_upsert)

lemma quiet_health: "ha_level (health_assess s st) \<noteq> LvCritical \<Longrightarrow> quiet (health_assess s st)"
  by (auto simp: quiet_def decide_idle split: GhostHealthLevel.split)

lemma real_snapshot_not_critical:
  "\<not> gr_world_poisoned r \<Longrightarrow> ha_level (health_assess (build_real_snapshot ck r) st) \<noteq> LvCritical"
  by (auto simp: critical_iff build_real_snapshot_def Let_def is_operational_def is_network_reachable_def has_trusted_path_def)

section \<open>Every action is explained\<close>

lemma explained_world: "op_sat (explained ok) (set_world_state ck st)"
  unfolding set_world_state_def by (rule ex.sat_upd) (auto simp: explained_def rt_inv_def)

lemma explained_emit: "(\<And>r x. x \<in> set (g r) \<Longrightarrow> ok x) \<Longrightarrow> op_sat (explained ok) (op_emit g)"
  by (rule ex.sat_emit) (auto simp: explained_def)

lemma explained_send: "ok (Sent cmd) \<Longrightarrow> op_sat (explained ok) (send_cmd cmd)"
  unfolding send_cmd_def by (rule explained_emit) auto

fun decision_outs :: "PolicyDecision \<Rightarrow> RtOut list" where
  "decision_outs PdWake = [Spawned [CmdWake]]"
| "decision_outs PdSleep = [Spawned [CmdSleep]]"
| "decision_outs PdBeacon = [Spawned [CmdTriggerBeacon]]"
| "decision_outs PdSync = [Spawned [CmdTriggerSync]]"
| "decision_outs PdPanic = [Spawned [CmdTriggerPanic ''autonomous_panic'']]"
| "decision_outs (PdDropPeer p) = [Sink (SkDrop p)]"
| "decision_outs (PdThrottle p) = [Sink (SkLimit p)]"
| "decision_outs (PdIsolatePeer p) = [Sink (SkQuarantine p)]"
| "decision_outs (PdRetry p) = [Spawned [CmdEnqueueSync (''retry:'' @ p)]]"
| "decision_outs (PdReroute p) =
     [Sink (SkReroute p []), Spawned [CmdEnqueueSync (''reroute:'' @ p), CmdTriggerBeacon]]"
| "decision_outs (PdAdjustReputation p d) = [Sink (SkAdjust p d)]"
| "decision_outs d = []"

lemma explained_apply:
  "(\<And>x. x \<in> set (decision_outs d) \<Longrightarrow> ok x) \<Longrightarrow> op_sat (explained ok) (apply_decision ck d)"
  unfolding apply_decision_def spawn_cmds_def call_sink_def
  by (cases d) (auto intro!: ex.sat_seq ex.sat_skip explained_world explained_emit split: if_splits)

lemma judge_all:
  "rt_inv r \<Longrightarrow> set es \<subseteq> set (peer_registry (gr_world r)) \<Longrightarrow> op_all (judge_peer ck) es r = (r, [])"
proof (induction es)
  case (Cons e es)
  have "evaluate_reputation (gr_policy r) (fst e) (rep_score (ps_reputation (snd e))) = PdNoop"
    using Cons.prems by (auto simp: rt_inv_def untouched_def mild_def evaluate_reputation_def default_reputation_def)
  then show ?case using Cons by (simp add: judge_peer_def op_defs apply_decision_def)
qed (simp add: op_skip_def)

lemma explained_judge:
  "op_sat (explained ok) (op_with (\<lambda>r. if gr_world_poisoned r then [] else peer_registry (gr_world r)) (op_all (judge_peer ck)))"
  by (rule explained_with) (simp add: judge_all explained_def op_skip_def)

lemma explained_assess_with:
  "(\<And>s. ok (Sent (CmdObserveSignal s))) \<Longrightarrow> quiet (health_assess s StIdle) \<Longrightarrow> op_sat (explained ok) (assess_with ck s)"
  unfolding assess_with_def Let_def
  by (auto intro!: ex.sat_seq ex.sat_upd explained_judge explained_send simp: explained_def rt_inv_def)

lemma explained_assess:
  assumes "\<And>s. ok (Sent (CmdObserveSignal s))"
  shows "op_sat (explained ok) (gr_assess ck)"
  unfolding gr_assess_def
proof (rule ex.sat_seq[OF explained_world], rule explained_with)
  fix r assume "rt_inv r"
  then have "quiet (health_assess (build_real_snapshot ck r) StIdle)"
    by (intro quiet_health real_snapshot_not_critical) (simp add: rt_inv_def)
  then show "explained ok r (snd (assess_with ck (build_real_snapshot ck r) r)) (fst (assess_with ck (build_real_snapshot ck r) r))"
    by (intro explainedD explained_assess_with assms)
qed

lemma poisoned_world: "gr_world_poisoned r \<Longrightarrow> set_world_state ck st r = (r, [])"
  by (simp add: set_world_state_def op_upd_def)

lemma poisoned_apply: "gr_world_poisoned r \<Longrightarrow> fst (apply_decision ck d r) = r"
  by (cases d) (simp_all add: apply_decision_def op_seq_fst poisoned_world spawn_cmds_def call_sink_def op_emit_def op_skip_def)

lemma poisoned_assess:
  "gr_world_poisoned r \<Longrightarrow> last_assessment (gr_scheduler (fst (gr_assess ck r))) = Some (health_assess default_health StIdle) \<and>
     gr_policy (fst (gr_assess ck r)) = gr_policy r"
  by (simp add: gr_assess_def op_seq_fst poisoned_world op_with_def assess_with_def Let_def send_cmd_def op_emit_def op_upd_def
      build_real_snapshot_def op_skip_def)

lemma default_health_panics: "panic_on_critical p \<Longrightarrow> decide_health p StIdle (health_assess default_health StIdle) = PdPanic"
proof -
  assume "panic_on_critical p"
  moreover have "ha_level (health_assess default_health StIdle) = LvCritical"
    by (simp add: critical_iff default_health_def is_operational_def looks_like_disconnect_reason_def)
  ultimately show ?thesis by (simp add: decide_idle)
qed

lemma panic_act:
  "last_assessment (gr_scheduler r) = Some (health_assess default_health StIdle) \<Longrightarrow> panic_on_critical (gr_policy r) \<Longrightarrow>
   Spawned [CmdTriggerPanic ''autonomous_panic''] \<in> set (snd (gr_act ck r))"
  by (simp add: gr_act_def op_seq_snd op_with_def gr_decide_def default_health_panics apply_decision_def spawn_cmds_def op_emit_def)

lemma poisoned_tick:
  assumes "gr_world_poisoned r" "panic_on_critical (gr_policy r)" "sync_every_ticks (gr_config r) \<noteq> 0"
  shows "Spawned [CmdTriggerPanic ''autonomous_panic''] \<in> set (snd (scheduler_tick ck r))"
proof -
  define r' where "r' = r\<lparr> gr_scheduler := count_tick (build_real_snapshot ck r) (gr_scheduler r) \<rparr>"
  have r': "gr_world_poisoned r'" "panic_on_critical (gr_policy r')" "sync_every_ticks (gr_config r') \<noteq> 0"
    using assms by (simp_all add: r'_def)
  have skips: "fst (op_when c (apply_decision ck d) r') = r'" for c d
    by (simp add: op_when_def poisoned_apply r')
  have "Spawned [CmdTriggerPanic ''autonomous_panic''] \<in> set (snd (gr_act ck (fst (gr_assess ck r'))))"
    using poisoned_assess[OF r'(1)] r' by (intro panic_act) auto
  then have "Spawned [CmdTriggerPanic ''autonomous_panic''] \<in> set (snd (tick_body ck s r'))" for s
    by (simp add: tick_body_def gr_trigger_sync_def op_seq_snd op_seq_fst skips op_with_def poisoned_apply r')
  then show ?thesis
    using r'(3) by (simp add: scheduler_tick_def op_with_def op_seq_snd op_upd_def r'_def[symmetric])
qed

lemma decide_inv: "rt_inv r \<Longrightarrow> gr_decide r = PdBeacon \<or> gr_decide r = PdNoop"
  by (auto simp: gr_decide_def rt_inv_def quiet_def split: option.split)

lemma explained_decide:
  "ok (Spawned [CmdTriggerBeacon]) \<Longrightarrow> op_sat (explained ok) (op_with gr_decide (apply_decision ck))"
  by (rule explained_with, rule explainedD, rule explained_apply) (auto dest: decide_inv)

lemma explained_act: "ok (Spawned [CmdTriggerBeacon]) \<Longrightarrow> op_sat (explained ok) (gr_act ck)"
  unfolding gr_act_def by (intro ex.sat_seq explained_decide explained_world)

lemma explained_metrics: "ok (Sent (CmdUpdateMetrics c k rt)) \<Longrightarrow> op_sat (explained ok) (gr_update_metrics ck c k rt)"
  unfolding gr_update_metrics_def by (intro ex.sat_seq explained_send ex.sat_upd) (auto simp: explained_def rt_inv_def)

lemma explained_load: "ok (Spawned [CmdTriggerSync]) \<Longrightarrow> op_sat (explained ok) (op_with (\<lambda>r. evaluate_load (gr_policy r) n) (apply_decision ck))"
  by (rule explained_with, rule explainedD, rule explained_apply) (auto simp: evaluate_load_def split: if_splits)

lemma explained_tick: "op_sat (explained (cause RtTick)) (scheduler_tick ck)"
  unfolding scheduler_tick_def tick_body_def gr_trigger_sync_def
  by (auto intro!: ex.sat_with ex.sat_seq ex.sat_when' ex.sat_upd explained_apply explained_emit explained_load explained_decide
      explained_assess explained_act explained_metrics simp: explained_def rt_inv_def count_tick_def)

lemma explained_publish: "op_sat (explained (cause (RtPublish kind))) (publish_event dbg ck kind)"
proof -
  have "cause (RtPublish kind) x" if "x \<in> set (decision_outs (evaluate_event p kind))" for x p
    using that by (cases kind) (auto split: if_splits)
  then have "op_sat (explained (cause (RtPublish kind))) (op_with (\<lambda>r. evaluate_event (gr_policy r) kind) (apply_decision ck))"
    by (intro explained_with explainedD explained_apply)
  moreover have "op_sat (explained (cause (RtPublish kind)))
      (op_when (\<lambda>r. wake_on_activity (gr_config r) \<and> is_peer_connected kind) (apply_decision ck PdWake))"
    by (rule ex.sat_when, rule explainedD, rule explained_apply)
      (auto simp: is_peer_connected_def split: SystemEventKind.splits)
  ultimately show ?thesis
    unfolding publish_event_def by (auto intro!: ex.sat_seq explained_send)
qed

lemma explained_policy:
  assumes "mild p" and "\<And>s. ok (Sent (CmdObserveSignal s))"
  shows "op_sat (explained ok) (policy_update ck p)"
  unfolding policy_update_def
  by (intro ex.sat_seq explained_assess assms ex.sat_upd) (use assms(1) in \<open>simp add: explained_def rt_inv_def\<close>)

lemma explained_call:
  assumes "x \<noteq> RtPoison" and "\<And>p. x = RtPolicy p \<Longrightarrow> mild p"
  shows "op_sat (explained (cause x)) (rt_call env dbg ck x)"
proof (cases x)
  case (RtPolicy p)
  then show ?thesis using explained_policy assms(2) by simp
next
  case (RtPublish k)
  then show ?thesis using explained_publish by simp
qed (use assms in \<open>auto simp: set_action_sink_def gr_trigger_sync_def gr_trigger_beacon_def gr_sleep_def gr_wake_def gr_zeroize_def
      gr_set_tamper_def gr_health_def explained_def rt_inv_def untouched_step
      intro!: explained_tick explained_assess explained_act explained_metrics explained_apply ex.sat_seq explained_world
      explained_send ex.sat_upd\<close>)

lemma explained_run:
  assumes "\<forall>(ck, x) \<in> set xs. x \<noteq> RtPoison \<and> (\<forall>p. x = RtPolicy p \<longrightarrow> mild p)"
  shows "op_sat (explained (\<lambda>a. \<exists>(ck, x) \<in> set xs. cause x a)) (rt_run env dbg xs)"
  using assms
proof (induction xs)
  case (Cons e xs)
  obtain ck x where e: "e = (ck, x)" by force
  have "op_sat (explained (cause x)) (rt_call env dbg ck x)"
    using Cons.prems by (intro explained_call) (auto simp: e)
  moreover have "op_sat (explained (\<lambda>a. \<exists>(ck, x) \<in> set xs. cause x a)) (rt_run env dbg xs)"
    using Cons by simp
  ultimately show ?case
    by (auto simp: e op_sat_def explained_def op_seq_def Let_def split: prod.splits)
qed (auto simp: op_sat_def explained_def op_skip_def)

section \<open>Properties\<close>


definition demo_ck :: WsClock where
  "demo_ck = \<lparr> wc_secs = 7, wc_rfc3339 = ''t'' \<rparr>"

definition demo_world :: WorldState where
  "demo_world = world_new demo_auth_env \<lparr> to_json_flags = (\<lambda>m. None), from_json_flags = (\<lambda>s. None) \<rparr> demo_ck None demo_authority"


end
