(* ===== verification/Ghost_Bridge.thy ===== *)
theory Ghost_Bridge
  imports Ghost
begin

text \<open>
  The ghost bridge, \<^verbatim>\<open>ghost_bridge.rs\<close>: the handle, which turns observations and dashboard commands into commands
  of the engine, and the task that turns every event of the engine into packets for its outputs. A handle call
  returns its result and the commands it sent; a send fails once the engine has dropped its receiver, which the argument
  \<open>alive\<close> says. Telemetry is only logged and has no model.
\<close>

section \<open>Packets and configuration\<close>

datatype GhostPacket =
    PkBeacon string string GhostState string nat nat nat nat
  | PkSync string "string list" nat
  | PkState string GhostState GhostState nat
  | PkPanic string string nat
  | PkZeroize string nat
  | PkLog string string nat
  | PkNetwork string string string string nat
  | PkGateway string string string nat
  | PkWorld string string string nat nat nat nat
  | PkSensor string string string "string option" string nat

record GhostBridgeOutputs =
  beacon_tx :: bool
  sync_tx :: bool
  state_tx :: bool
  panic_tx :: bool
  zeroize_tx :: bool
  log_tx :: bool
  network_tx :: bool
  gateway_tx :: bool
  world_tx :: bool
  sensor_tx :: bool

definition default_outputs :: GhostBridgeOutputs where
  "default_outputs = \<lparr> beacon_tx = False, sync_tx = False, state_tx = False, panic_tx = False, zeroize_tx = False,
     log_tx = False, network_tx = False, gateway_tx = False, world_tx = False, sensor_tx = False \<rparr>"

record GhostBridgeConfig =
  verbose :: bool
  forward_state_changes :: bool
  forward_logs :: bool
  forward_beacons :: bool
  forward_sync_batches :: bool
  forward_panic :: bool
  forward_zeroize :: bool
  forward_network_events :: bool

definition default_bridge_config :: GhostBridgeConfig where
  "default_bridge_config = \<lparr> verbose = True, forward_state_changes = True, forward_logs = True, forward_beacons = True,
     forward_sync_batches = True, forward_panic = True, forward_zeroize = True, forward_network_events = True \<rparr>"

section \<open>The handle\<close>

type_synonym bridge_result = "(string + unit) \<times> GhostCommand list"

text \<open>Sends in a row, each followed by \<^verbatim>\<open>?\<close>: the first failure ends the call.\<close>

definition br_sends :: "bool \<Rightarrow> GhostCommand list \<Rightarrow> bridge_result" where
  "br_sends alive cmds = (if alive then (Inr (), cmds) else (Inl ''channel closed'', []))"

definition observe_peer_connected :: "bool \<Rightarrow> string \<Rightarrow> bridge_result" where
  "observe_peer_connected alive peer = br_sends alive [
     CmdObserveSignal (''bridge:network:peer_connected:'' @ peer),
     CmdEnqueueSync (''network:peer_connected:'' @ peer),
     CmdTriggerSync]"

definition observe_peer_disconnected :: "bool \<Rightarrow> string \<Rightarrow> bridge_result" where
  "observe_peer_disconnected alive peer = br_sends alive [
     CmdObserveSignal (''bridge:network:peer_disconnected:'' @ peer),
     CmdEnqueueSync (''network:peer_disconnected:'' @ peer),
     CmdTriggerSync]"

definition observe_message_failed :: "bool \<Rightarrow> string \<Rightarrow> bridge_result" where
  "observe_message_failed alive reason = br_sends alive [
     CmdObserveSignal (''bridge:network:message_failed:'' @ reason),
     CmdEnqueueSync (''network:message_failed:'' @ reason),
     CmdTriggerSync]"

definition observe_gateway_traffic :: "bool \<Rightarrow> string \<Rightarrow> bridge_result" where
  "observe_gateway_traffic alive detail = br_sends alive [
     CmdObserveSignal (''bridge:gateway:'' @ detail),
     CmdEnqueueSync (''gateway:traffic:'' @ detail),
     CmdTriggerBeacon]"

definition observe_world_state :: "bool \<Rightarrow> string \<Rightarrow> bridge_result" where
  "observe_world_state alive detail = br_sends alive [CmdObserveSignal (''bridge:world:'' @ detail)]"

definition ends_with :: "string \<Rightarrow> string \<Rightarrow> bool" where
  "ends_with suf s \<longleftrightarrow> starts_with (rev suf) (rev s)"

definition execute_dashboard_command :: "bool \<Rightarrow> string \<Rightarrow> bridge_result" where
  "execute_dashboard_command alive cmd =
     (if cmd = ''wake'' then br_sends alive [CmdWake]
      else if cmd = ''sleep'' then br_sends alive [CmdSleep]
      else if cmd = ''sync'' then br_sends alive [CmdTriggerSync]
      else if cmd = ''beacon'' then br_sends alive [CmdTriggerBeacon]
      else if cmd = ''zeroize'' then br_sends alive [CmdZeroize]
      else if starts_with ''panic:'' cmd then br_sends alive [CmdTriggerPanic (drop 6 cmd)]
      else if starts_with ''tamper:'' cmd then br_sends alive [CmdSetTamper (ends_with ''true'' cmd)]
      else if starts_with ''observe_peer:'' cmd then observe_peer_connected alive (drop 13 cmd)
      else if starts_with ''drop_peer:'' cmd then observe_peer_disconnected alive (drop 10 cmd)
      else if starts_with ''fail_msg:'' cmd then observe_message_failed alive (drop 9 cmd)
      else if starts_with ''gateway:'' cmd then observe_gateway_traffic alive (drop 8 cmd)
      else if starts_with ''world:'' cmd then observe_world_state alive (drop 6 cmd)
      else if starts_with ''enqueue:'' cmd then br_sends alive [CmdEnqueueSync (drop 8 cmd)]
      else if starts_with ''metrics:'' cmd then br_sends alive [CmdUpdateMetrics 0 0 0]
      else (Inr (), []))"

section \<open>The task\<close>

definition strip_prefix :: "string \<Rightarrow> string \<Rightarrow> string option" where
  "strip_prefix pre s = (if starts_with pre s then Some (drop (length pre) s) else None)"

definition classify_signal :: "string \<Rightarrow> string \<times> string \<times> string option" where
  "classify_signal message =
     (case strip_prefix ''network:peer_connected:'' message of
        Some peer \<Rightarrow> (''network_controller'', ''peer_connected'', Some peer)
      | None \<Rightarrow>
     (case strip_prefix ''network:peer_disconnected:'' message of
        Some peer \<Rightarrow> (''network_controller'', ''peer_disconnected'', Some peer)
      | None \<Rightarrow>
     (case strip_prefix ''network:message_failed:'' message of
        Some reason \<Rightarrow> (''network_controller'', ''message_failed'', Some reason)
      | None \<Rightarrow>
     (case strip_prefix ''gateway:traffic:'' message of
        Some detail \<Rightarrow> (''gateway'', ''traffic'', Some detail)
      | None \<Rightarrow>
          if starts_with ''ghost:'' message \<or> starts_with ''bridge:world:'' message then (''world_state'', ''state'', None)
          else (''world_state'', ''signal'', None)))))"

definition send_if_some :: "bool \<Rightarrow> GhostPacket \<Rightarrow> GhostPacket list" where
  "send_if_some tx p = (if tx then [p] else [])"

definition publish_beacon :: "GhostBridgeOutputs \<Rightarrow> string \<Rightarrow> string \<Rightarrow> GhostState \<Rightarrow> string \<Rightarrow> nat \<Rightarrow> nat \<Rightarrow> nat \<Rightarrow> nat \<Rightarrow>
    GhostPacket list" where
  "publish_beacon os node rl st fp c k r ts =
     send_if_some (beacon_tx os) (PkBeacon node rl st fp c k r ts) @
     send_if_some (world_tx os) (PkWorld node (ghost_state_str st)
       (if st = StPanic then ''critical'' else if st = StSleep then ''sleeping'' else ''active'') c k r ts)"

definition publish_sensor :: "GhostBridgeOutputs \<Rightarrow> string \<Rightarrow> string \<Rightarrow> string \<Rightarrow> string option \<Rightarrow> string \<Rightarrow> nat \<Rightarrow>
    GhostPacket list" where
  "publish_sensor os node domain kind peer detail ts = send_if_some (sensor_tx os) (PkSensor node domain kind peer detail ts)"

fun on_event :: "GhostBridgeConfig \<Rightarrow> GhostBridgeOutputs \<Rightarrow> nat \<Rightarrow> GhostEvent \<Rightarrow> GhostPacket list" where
  "on_event cfg os now (EvStateChanged node from to) =
     (if forward_state_changes cfg then send_if_some (state_tx os) (PkState node from to now) else []) @
     publish_sensor os node ''world_state'' ''state_changed'' None (ghost_state_str from @ ''->'' @ ghost_state_str to) now"
| "on_event cfg os now (EvBeacon node rl st fp c k r ts) =
     (if forward_beacons cfg then publish_beacon os node rl st fp c k r ts else []) @
     publish_sensor os node ''world_state'' ''beacon'' None (''role='' @ rl @ '' fp='' @ fp) ts"
| "on_event cfg os now (EvSyncBatch node batch ts) =
     (if forward_sync_batches cfg then send_if_some (sync_tx os) (PkSync node batch ts) else []) @
     publish_sensor os node ''world_state'' ''sync_batch'' None (''items='' @ dec_str (length batch)) ts"
| "on_event cfg os now (EvPanic node reason ts) =
     (if forward_panic cfg then send_if_some (panic_tx os) (PkPanic node reason ts) else []) @
     publish_sensor os node ''world_state'' ''panic'' None reason ts"
| "on_event cfg os now (EvZeroized node ts) =
     (if forward_zeroize cfg then send_if_some (zeroize_tx os) (PkZeroize node ts) else []) @
     publish_sensor os node ''world_state'' ''zeroized'' None ''zeroized'' ts"
| "on_event cfg os now (EvLog node message ts) =
     (if forward_logs cfg then send_if_some (log_tx os) (PkLog node message ts) else []) @
     (case classify_signal message of (domain, kind, peer) \<Rightarrow>
        (if domain = ''network_controller'' then
           (if forward_network_events cfg
            then send_if_some (network_tx os) (PkNetwork node kind (case peer of None \<Rightarrow> [] | Some p \<Rightarrow> p) message ts) else [])
         else if domain = ''gateway'' then send_if_some (gateway_tx os) (PkGateway node kind message ts)
         else send_if_some (world_tx os) (PkWorld node ''observed'' ''active'' 0 0 0 ts)) @
        publish_sensor os node domain kind peer message ts)"

text \<open>The events among the messages of the engine, and the packets for all of them.\<close>

fun ghost_events :: "GhostOut list \<Rightarrow> GhostEvent list" where
  "ghost_events [] = []"
| "ghost_events (Ev e # os) = e # ghost_events os"
| "ghost_events (World s h g # os) = ghost_events os"

definition bridge_task :: "GhostBridgeConfig \<Rightarrow> GhostBridgeOutputs \<Rightarrow> nat \<Rightarrow> GhostOut list \<Rightarrow> GhostPacket list" where
  "bridge_task cfg os now msgs = concat (map (on_event cfg os now) (ghost_events msgs))"

section \<open>What the engine logs\<close>

definition own_log :: "GhostOut \<Rightarrow> bool" where
  "own_log x = (case x of Ev (EvLog n m t) \<Rightarrow> starts_with ''ghost_'' m \<or> starts_with ''sync item'' m | _ \<Rightarrow> True)"

definition own_logs :: "GhostEngine \<Rightarrow> GhostOut list \<Rightarrow> GhostEngine \<Rightarrow> bool" where
  "own_logs e os e' \<longleftrightarrow> (\<forall>x\<in>set os. own_log x)"

interpretation ol: op_spec own_logs
  by unfold_locales (auto simp: own_logs_def)

lemma own_transition: "op_sat own_logs (transition to)"
  by (simp add: op_sat_def own_logs_def transition_def Let_def own_log_def)

lemma own_emit: "(\<And>e. own_log (Ev (ev e))) \<Longrightarrow> op_sat own_logs (emit_event ev)"
  unfolding emit_event_def by (auto intro!: ol.sat_emit simp: own_logs_def)

lemma own_world: "op_sat own_logs (sync_world_state sg)"
  unfolding sync_world_state_def by (auto intro!: ol.sat_emit simp: own_logs_def own_log_def)

lemma own_publish: "starts_with ''ghost_'' m \<Longrightarrow> op_sat own_logs (publish c m)"
  unfolding publish_def by (auto intro!: ol.sat_seq ol.sat_skip own_emit own_world simp: own_log_def)

lemmas own_intros = ol.sat_intros own_transition own_world own_publish own_emit

lemma own_run_cycle: "op_sat own_logs (run_cycle c t)"
  unfolding ghost_method_defs
  by (auto intro!: own_intros split: prod.split GhostDecision.split simp: own_logs_def own_log_def starts_with_def)

lemma own_zeroize: "op_sat own_logs (perform_zeroize c)"
  unfolding perform_zeroize_def by (auto intro!: own_intros simp: own_logs_def own_log_def)

lemma own_input: "op_sat own_logs (on_input c i)"
  unfolding on_input_def on_command_def on_beacon_tick_def on_sync_tick_def
  by (cases i) (auto intro!: own_intros own_run_cycle own_zeroize
      split: GhostCommand.split simp: own_logs_def own_log_def starts_with_def)

lemma own_run: "op_sat own_logs (run_inputs is)"
  by (induction "is" rule: run_inputs.induct) (auto intro!: ol.sat_skip ol.sat_seq own_input)

lemma starts_with_Cons: "starts_with [] s" "starts_with (c # cs) (d # ds) \<longleftrightarrow> c = d \<and> starts_with cs ds"
  by (auto simp: starts_with_def)

lemma starts_withE: "starts_with p s \<Longrightarrow> (\<And>r. s = p @ r \<Longrightarrow> P) \<Longrightarrow> P"
  unfolding starts_with_def by (metis append_take_drop_id)

lemma own_classified: "own_log (Ev (EvLog n m t)) \<Longrightarrow> classify_signal m = (''world_state'', ''signal'', None)"
  by (auto simp: own_log_def classify_signal_def strip_prefix_def starts_with_Cons elim!: starts_withE)

section \<open>Zeroization is announced\<close>

definition announced :: "GhostEngine \<Rightarrow> GhostOut list \<Rightarrow> GhostEngine \<Rightarrow> bool" where
  "announced e os e' \<longleftrightarrow> (state e \<noteq> StZeroized \<and> state e' = StZeroized \<longrightarrow> (\<exists>n t. Ev (EvZeroized n t) \<in> set os))"

interpretation an: op_spec announced
  by unfold_locales (auto simp: announced_def)

lemma ann_transition: "to \<noteq> StZeroized \<Longrightarrow> op_sat announced (transition to)"
  by (auto simp: op_sat_def announced_def transition_def Let_def)

lemma ann_publish: "op_sat announced (publish c m)" "op_sat announced (sync_world_state sg)" "op_sat announced (emit_event ev)"
  unfolding publish_def sync_world_state_def emit_event_def
  by (auto intro!: an.sat_intros simp: announced_def)

lemma ann_zeroize: "op_sat announced (perform_zeroize c)"
  using zeroize_emits by (auto simp: op_sat_def announced_def)

lemmas ann_intros = an.sat_intros ann_transition ann_publish ann_zeroize

lemma ann_panic: "op_sat announced (perform_panic c r)"
  unfolding perform_panic_def by (auto intro!: ann_intros)

lemma ann_take_batch: "op_sat announced (take_batch c f)"
  unfolding take_batch_def by (auto intro!: ann_intros simp: announced_def split: prod.split)

lemma ann_act: "op_sat announced (act c d)"
  unfolding act_def perform_beacon_def perform_sync_if_needed_def
  by (auto intro!: ann_intros ann_panic ann_take_batch simp: announced_def split: GhostDecision.split)

lemma ann_run_cycle: "op_sat announced (run_cycle c t)"
  unfolding run_cycle_def after_active_pulse_def
  by (auto intro!: ann_intros ann_act simp: announced_def)

lemma ann_input: "op_sat announced (on_input c i)"
  unfolding on_input_def on_command_def on_beacon_tick_def on_sync_tick_def
  by (cases i) (auto intro!: ann_intros ann_run_cycle simp: announced_def split: GhostCommand.split)

lemma ann_run: "op_sat announced (run_inputs is)"
  by (induction "is" rule: run_inputs.induct) (auto intro!: an.sat_skip an.sat_seq ann_input)

section \<open>Packets\<close>

fun replay_packets :: "GhostState \<Rightarrow> GhostPacket list \<Rightarrow> GhostState option" where
  "replay_packets s [] = Some s"
| "replay_packets s (PkState n from to t # ps) = (if from = s then replay_packets to ps else None)"
| "replay_packets s (_ # ps) = replay_packets s ps"

definition is_sensor :: "GhostPacket \<Rightarrow> bool" where
  "is_sensor p = (case p of PkSensor n d k q x t \<Rightarrow> True | _ \<Rightarrow> False)"

lemma replay_packets_append: "replay_packets s (ps @ qs) = Option.bind (replay_packets s ps) (\<lambda>s'. replay_packets s' qs)"
  by (induction s ps rule: replay_packets.induct) auto

lemma bridge_task_simps [simp]:
  "bridge_task cfg os now [] = []"
  "bridge_task cfg os now (Ev e # ms) = on_event cfg os now e @ bridge_task cfg os now ms"
  "bridge_task cfg os now (World a b c # ms) = bridge_task cfg os now ms"
  by (simp_all add: bridge_task_def)

lemmas on_event_defs = publish_sensor_def publish_beacon_def send_if_some_def

lemma on_event_replay:
  "(\<And>n f to. e \<noteq> EvStateChanged n f to) \<Longrightarrow> replay_packets s (on_event cfg os now e) = Some s"
  by (cases e) (auto simp: on_event_defs split: prod.split)

lemma bridge_replay:
  assumes "forward_state_changes cfg" "state_tx os"
  shows "replay_packets s (bridge_task cfg os now msgs) = replay s msgs"
proof (induction s msgs rule: replay.induct)
  case (2 s n st st2 ms)
  then show ?case using assms by (simp add: replay_packets_append on_event_defs)
qed (simp_all add: replay_packets_append on_event_replay del: on_event.simps)

lemma sensor_count: "sensor_tx os \<Longrightarrow> length (filter is_sensor (on_event cfg os now e)) = 1"
  by (cases e) (auto simp: on_event_defs is_sensor_def split: prod.split)

lemma sensor_counts: "sensor_tx os \<Longrightarrow> length (filter is_sensor (bridge_task cfg os now ms)) = length (ghost_events ms)"
  by (induction ms rule: ghost_events.induct) (simp_all add: sensor_count del: on_event.simps)

lemma own_packets:
  "own_log (Ev e) \<Longrightarrow> PkNetwork n k p d t \<notin> set (on_event cfg os now e) \<and> PkGateway n k d t \<notin> set (on_event cfg os now e)"
  by (cases e) (auto simp: on_event_defs own_classified)

lemma own_task:
  "\<forall>x\<in>set ms. own_log x \<Longrightarrow>
   PkNetwork n k p d t \<notin> set (bridge_task cfg os now ms) \<and> PkGateway n k d t \<notin> set (bridge_task cfg os now ms)"
  by (induction ms rule: ghost_events.induct) (simp_all add: own_packets del: on_event.simps)

lemma zeroize_packet:
  "Ev (EvZeroized n t) \<in> set ms \<Longrightarrow> forward_zeroize cfg \<Longrightarrow> zeroize_tx os \<Longrightarrow> PkZeroize n t \<in> set (bridge_task cfg os now ms)"
  by (induction ms rule: ghost_events.induct) (auto simp: on_event_defs)

section \<open>Properties\<close>

text \<open>
  What a consumer of the bridge sees of the engine. For every sequence of inputs of the engine, the state packets,
  replayed from the state before, lead to the state after; a zeroization is announced by its packet; every event has exactly one
  sensor packet. The network and gateway outputs, however, never get a packet: no message the engine logs has the
  prefixes by which \<^verbatim>\<open>classify_signal\<close> recognises them.
\<close>

theorem bridge_view:
  assumes "run_inputs ins e = (e', msgs)" and pk: "pk = bridge_task cfg os now msgs"
  shows "(forward_state_changes cfg \<and> state_tx os \<longrightarrow> replay_packets (state e) pk = Some (state e')) \<and>
    (forward_zeroize cfg \<and> zeroize_tx os \<and> state e \<noteq> StZeroized \<and> state e' = StZeroized \<longrightarrow> (\<exists>n t. PkZeroize n t \<in> set pk)) \<and>
    (sensor_tx os \<longrightarrow> length (filter is_sensor pk) = length (ghost_events msgs)) \<and>
    (\<forall>n k p d t. PkNetwork n k p d t \<notin> set pk \<and> PkGateway n k d t \<notin> set pk)"
proof -
  have "replay (state e) msgs = Some (state e')" using op_satD[OF logged_run assms(1)] by (simp add: logged_def)
  moreover have "\<forall>x\<in>set msgs. own_log x" using op_satD[OF own_run assms(1)] by (simp add: own_logs_def)
  moreover have "\<exists>n t. Ev (EvZeroized n t) \<in> set msgs" if "state e \<noteq> StZeroized" "state e' = StZeroized"
    using op_satD[OF ann_run assms(1)] that by (simp add: announced_def)
  ultimately show ?thesis
    using own_task[of msgs] zeroize_packet[of _ _ msgs] unfolding pk by (auto simp: bridge_replay sensor_counts) blast
qed

theorem bridge_view_witness:
  "\<exists>n t. PkZeroize n t \<in> set (bridge_task default_bridge_config (default_outputs\<lparr> zeroize_tx := True \<rparr>) 7
     (snd (run_inputs [(demo_clock, Cmd CmdZeroize)] (spawn_inner ''n'' ''client'' demo_config True))))"
proof -
  let ?e = "spawn_inner ''n'' ''client'' demo_config True"
  have "state ?e \<noteq> StZeroized" by (simp add: spawn_inner_def)
  moreover have "state (fst (run_inputs [(demo_clock, Cmd CmdZeroize)] ?e)) = StZeroized"
    by (simp add: on_input_def on_command_def op_seq_fst zeroize_state ends_loop_def op_skip_def)
  ultimately show ?thesis
    using bridge_view[OF surjective_pairing refl, where cfg = default_bridge_config
        and os = "default_outputs\<lparr> zeroize_tx := True \<rparr>" and ins = "[(demo_clock, Cmd CmdZeroize)]" and e = ?e and now = 7]
    by (simp add: default_bridge_config_def del: run_inputs.simps)
qed

end
