(* ===== verification/World_Store.thy ===== *)
theory World_Store
  imports World_State
begin

text \<open>
  Persistence of the world state, \<^verbatim>\<open>storage.rs\<close>: the JSON writer that goes through a temporary file, the reader and the
  store of the world snapshot with its recovery. A file system is a map from paths to contents; which of
  the system calls of a save fail, and what a failed write leaves behind, is an argument. The JSON codec is an
  argument too.
\<close>

section \<open>Files\<close>

type_synonym files = "string \<Rightarrow> string option"

text \<open>
  The outcome of the system calls of one save. A write that fails leaves the prefix \<open>torn\<close> of the data.
\<close>

record SaveCalls =
  mkdir_ok :: bool
  create_ok :: bool
  tmp_write_ok :: bool
  rename_ok :: bool
  direct_create_ok :: bool
  direct_write_ok :: bool
  remove_ok :: bool
  torn :: nat
  stamp :: nat

definition temp_path :: "string \<Rightarrow> nat \<Rightarrow> string" where
  "temp_path path st = path @ ''.tmp-'' @ dec_str st"

text \<open>The fallback after a failed rename: \<^verbatim>\<open>fs::write\<close> truncates the file before it writes.\<close>

definition write_direct :: "SaveCalls \<Rightarrow> string \<Rightarrow> string \<Rightarrow> string \<Rightarrow> files \<Rightarrow> (string + unit) \<times> files" where
  "write_direct c path tmp bytes fs =
     (if \<not> direct_create_ok c then (Inl ''write'', fs)
      else if \<not> direct_write_ok c then (Inl ''write'', fs(path \<mapsto> take (torn c) bytes))
      else (Inr (), if remove_ok c then (fs(path \<mapsto> bytes))(tmp := None) else fs(path \<mapsto> bytes)))"

definition save_json :: "('a \<Rightarrow> string option) \<Rightarrow> SaveCalls \<Rightarrow> string \<Rightarrow> 'a \<Rightarrow> files \<Rightarrow> (string + unit) \<times> files" where
  "save_json to_json c path data fs =
     (if \<not> mkdir_ok c then (Inl ''create_dir_all'', fs)
      else case to_json data of
        None \<Rightarrow> (Inl ''serialize'', fs)
      | Some bytes \<Rightarrow>
          let tmp = temp_path path (stamp c) in
          if \<not> create_ok c then (Inl ''create'', fs)
          else if \<not> tmp_write_ok c then (Inl ''write_all'', fs(tmp \<mapsto> take (torn c) bytes))
          else let fs = fs(tmp \<mapsto> bytes) in
               if rename_ok c then (Inr (), (fs(path \<mapsto> bytes))(tmp := None))
               else write_direct c path tmp bytes fs)"

definition load_json :: "(string \<Rightarrow> 'a option) \<Rightarrow> string \<Rightarrow> files \<Rightarrow> string + 'a option" where
  "load_json from_json path fs =
     (case fs path of
        None \<Rightarrow> Inr None
      | Some raw \<Rightarrow> (case from_json raw of None \<Rightarrow> Inl ''deserialize'' | Some x \<Rightarrow> Inr (Some x)))"

section \<open>The store\<close>

record RecoveryManifest =
  rm_recovered_at :: string
  rm_world_path :: string
  rm_ghost_path :: string
  rm_world_recovered :: bool
  rm_ghost_recovered :: bool
  rm_notes :: "string list"

record 'g StoreCodec =
  snap_to_json :: "WorldStateSnapshot \<Rightarrow> string option"
  snap_from_json :: "string \<Rightarrow> WorldStateSnapshot option"
  ghost_to_json :: "'g \<Rightarrow> string option"
  manifest_to_json :: "RecoveryManifest \<Rightarrow> string option"

definition world_path :: "string \<Rightarrow> string" where
  "world_path dir = dir @ ''/world_state.json''"

definition ghost_path :: "string \<Rightarrow> string" where
  "ghost_path dir = dir @ ''/ghost_state.json''"

definition manifest_path :: "string \<Rightarrow> string" where
  "manifest_path dir = dir @ ''/recovery_manifest.json''"

definition persist :: "'g StoreCodec \<Rightarrow> WsClock \<Rightarrow> SaveCalls \<Rightarrow> SaveCalls \<Rightarrow> string \<Rightarrow> WorldState \<Rightarrow> 'g option \<Rightarrow> files \<Rightarrow>
    (string + unit) \<times> files" where
  "persist cd ck c1 c2 dir w ghost fs =
     (case save_json (snap_to_json cd) c1 (world_path dir) (ws_snapshot ck w) fs of
        (Inl e, fs) \<Rightarrow> (Inl e, fs)
      | (Inr u, fs) \<Rightarrow>
          (case ghost of
             None \<Rightarrow> (Inr (), fs)
           | Some gs \<Rightarrow> save_json (ghost_to_json cd) c2 (ghost_path dir) gs fs))"

definition recover_bundle :: "'pk AuthEnv \<Rightarrow> ActivationCodec \<Rightarrow> 'g StoreCodec \<Rightarrow> WsClock \<Rightarrow> activation_file \<Rightarrow> SaveCalls \<Rightarrow>
    string \<Rightarrow> AuthorityState \<Rightarrow> files \<Rightarrow> (string + WorldState) \<times> files" where
  "recover_bundle env acd cd ck afile c dir auth fs =
     (case load_json (snap_from_json cd) (world_path dir) fs of
        Inl e \<Rightarrow> (Inl e, fs)
      | Inr snap \<Rightarrow>
          let ghost_exists = (fs (ghost_path dir) \<noteq> None);
              world = (case snap of
                         Some s \<Rightarrow> observe_signal ck ''recovered_from_disk'' (from_snapshot env acd ck afile s auth)
                       | None \<Rightarrow> world_new env acd ck afile auth);
              manifest = \<lparr> rm_recovered_at = wc_rfc3339 ck, rm_world_path = world_path dir, rm_ghost_path = ghost_path dir,
                           rm_world_recovered = (fs (world_path dir) \<noteq> None), rm_ghost_recovered = ghost_exists,
                           rm_notes = [''rev_'' @ dec_str (unat (revision world))] \<rparr>
          in (Inr world, snd (save_json (manifest_to_json cd) c (manifest_path dir) manifest fs)))"

section \<open>Lemmas\<close>

lemma temp_path_neq [simp]: "temp_path p n \<noteq> p" "p \<noteq> temp_path p n"
  by (simp_all add: temp_path_def)

lemma save_json_ok:
  "save_json ser c path x fs = (Inr u, fs') \<Longrightarrow> \<exists>bytes. ser x = Some bytes \<and> fs' path = Some bytes"
  by (auto simp: save_json_def write_direct_def Let_def split: if_splits option.splits)

lemma save_json_frame:
  "save_json ser c path x fs = (r, fs') \<Longrightarrow> p \<noteq> path \<Longrightarrow> p \<noteq> temp_path path (stamp c) \<Longrightarrow> fs' p = fs p"
  by (auto simp: save_json_def write_direct_def Let_def split: if_splits option.splits)

text \<open>Torn data needs a failed rename.\<close>

lemma save_json_atomic:
  "save_json ser c path x fs = (r, fs') \<Longrightarrow> rename_ok c \<Longrightarrow>
   fs' path = fs path \<and> r \<noteq> Inr () \<or> (\<exists>bytes. ser x = Some bytes \<and> fs' path = Some bytes \<and> r = Inr ())"
  by (auto simp: save_json_def write_direct_def Let_def split: if_splits option.splits)

lemma manifest_frame: "fs' = snd (save_json ser c (manifest_path dir) m fs) \<Longrightarrow> fs' (world_path dir) = fs (world_path dir)"
proof -
  assume fs': "fs' = snd (save_json ser c (manifest_path dir) m fs)"
  have "world_path dir \<noteq> manifest_path dir" "world_path dir \<noteq> temp_path (manifest_path dir) n" for n
    by (simp_all add: world_path_def manifest_path_def temp_path_def)
  then show ?thesis using save_json_frame[of ser c "manifest_path dir" m fs "fst (save_json ser c (manifest_path dir) m fs)" fs'] fs'
    by simp
qed

lemma recover_saved:
  assumes "persist cd ck c1 c2 dir w None fs = (Inr (), fs')"
    and "\<And>s js. snap_to_json cd s = Some js \<Longrightarrow> snap_from_json cd js = Some s"
  shows "\<exists>w' fs''. recover_bundle env acd cd ck' afile c3 dir auth fs' = (Inr w', fs'') \<and>
    revision w' = revision w + 2 \<and> gh_state (ws_ghost w') = gh_state (ws_ghost w) \<and>
    gh_health_level (ws_ghost w') = gh_health_level (ws_ghost w) \<and> network_status w' = network_status w \<and>
    ap_version (ws_authority w') = ap_version (ws_authority w) \<and> peer_registry w' = [] \<and>
    map we_signal (event_log w') = [''recovered_from_disk''] \<and> fs'' (world_path dir) = fs' (world_path dir)"
proof -
  let ?s = "ws_snapshot ck w"
  have sv: "save_json (snap_to_json cd) c1 (world_path dir) ?s fs = (Inr (), fs')"
    using assms(1) by (auto simp: persist_def split: prod.splits sum.splits)
  obtain js where js: "snap_to_json cd ?s = Some js" "fs' (world_path dir) = Some js"
    using save_json_ok[OF sv] by auto
  then have load: "load_json (snap_from_json cd) (world_path dir) fs' = Inr (Some ?s)"
    by (simp add: load_json_def assms(2))
  define w' where "w' = observe_signal ck' ''recovered_from_disk'' (from_snapshot env acd ck' afile ?s auth)"
  define fs'' where "fs'' = snd (recover_bundle env acd cd ck' afile c3 dir auth fs')"
  have rec: "recover_bundle env acd cd ck' afile c3 dir auth fs' = (Inr w', fs'')"
    by (simp add: fs''_def recover_bundle_def load Let_def w'_def)
  have "fs'' (world_path dir) = fs' (world_path dir)"
    unfolding fs''_def by (rule manifest_frame[of _ "manifest_to_json cd" c3]) (simp add: recover_bundle_def load Let_def)
  moreover have "event_log w' = [\<lparr> we_ts = wc_rfc3339 ck', we_source = ''system'', we_signal = ''recovered_from_disk'',
      we_revision = revision w + 1 \<rparr>]"
    by (simp add: w'_def observe_signal_def from_snapshot_def apply_snapshot_def bump_def world_new_fields ws_snapshot_def Let_def
        split: prod.split)
  moreover have "revision w' = revision w + 2" "peer_registry w' = []"
    by (simp_all add: w'_def observe_signal_def from_snapshot_def apply_snapshot_def world_new_fields ws_snapshot_def Let_def
        split: prod.split)
  moreover have "gh_state (ws_ghost w') = gh_state (ws_ghost w)" "gh_health_level (ws_ghost w') = gh_health_level (ws_ghost w)"
    "network_status w' = network_status w" "ap_version (ws_authority w') = ap_version (ws_authority w)"
    by (simp_all add: w'_def observe_signal_def from_snapshot_def apply_snapshot_def bump_def ws_snapshot_def Let_def split: prod.split)
  ultimately show ?thesis using rec by auto
qed

section \<open>Properties\<close>

text \<open>
  Persistence and recovery of the world state. Whatever system call fails, as long as a rename does not, the
  snapshot on disk is the previous one, with an error reported, or the complete new one; and recovering after a
  successful save, with a codec that reads back what it wrote, gives a world state with the saved ghost state, health level,
  network status and authority version, whose revision is two ahead of the saved one, and with nothing else: the
  peer registry is empty and the event log holds the recovery only.
\<close>

theorem world_state_recovery:
  assumes save: "persist cd ck c1 c2 dir w None fs = (r, fs')"
    and codec: "\<And>s js. snap_to_json cd s = Some js \<Longrightarrow> snap_from_json cd js = Some s"
  shows "(rename_ok c1 \<longrightarrow> fs' (world_path dir) = fs (world_path dir) \<and> r \<noteq> Inr () \<or>
      fs' (world_path dir) = snap_to_json cd (ws_snapshot ck w) \<and> r = Inr ()) \<and>
    (r = Inr () \<longrightarrow> (\<exists>w' fs''. recover_bundle env acd cd ck' afile c3 dir auth fs' = (Inr w', fs'') \<and>
       revision w' = revision w + 2 \<and> gh_state (ws_ghost w') = gh_state (ws_ghost w) \<and>
       gh_health_level (ws_ghost w') = gh_health_level (ws_ghost w) \<and> network_status w' = network_status w \<and>
       ap_version (ws_authority w') = ap_version (ws_authority w) \<and> peer_registry w' = [] \<and>
       map we_signal (event_log w') = [''recovered_from_disk''] \<and> fs'' (world_path dir) = fs' (world_path dir)))"
proof (intro conjI impI)
  let ?s = "ws_snapshot ck w"
  have sv: "save_json (snap_to_json cd) c1 (world_path dir) ?s fs = (r, fs')"
    using save by (auto simp: persist_def split: prod.splits sum.splits)
  show "fs' (world_path dir) = fs (world_path dir) \<and> r \<noteq> Inr () \<or>
      fs' (world_path dir) = snap_to_json cd ?s \<and> r = Inr ()" if "rename_ok c1"
    using save_json_atomic[OF sv that] by auto
  show "\<exists>w' fs''. recover_bundle env acd cd ck' afile c3 dir auth fs' = (Inr w', fs'') \<and>
       revision w' = revision w + 2 \<and> gh_state (ws_ghost w') = gh_state (ws_ghost w) \<and>
       gh_health_level (ws_ghost w') = gh_health_level (ws_ghost w) \<and> network_status w' = network_status w \<and>
       ap_version (ws_authority w') = ap_version (ws_authority w) \<and> peer_registry w' = [] \<and>
       map we_signal (event_log w') = [''recovered_from_disk''] \<and> fs'' (world_path dir) = fs' (world_path dir)" if "r = Inr ()"
    using recover_saved[OF _ codec] save that by simp
qed

definition demo_store_ck :: WsClock where
  "demo_store_ck = \<lparr> wc_secs = 7, wc_rfc3339 = ''t'' \<rparr>"

definition demo_acd :: ActivationCodec where
  "demo_acd = \<lparr> to_json_flags = (\<lambda>m. None), from_json_flags = (\<lambda>s. None) \<rparr>"

definition demo_saved :: WorldState where
  "demo_saved = set_ghost_state demo_store_ck ''beacon'' (world_new demo_auth_env demo_acd demo_store_ck None demo_authority)"

definition demo_store_codec :: "unit StoreCodec" where
  "demo_store_codec = \<lparr> snap_to_json = (\<lambda>s. if s = ws_snapshot demo_store_ck demo_saved then Some ''saved'' else None),
     snap_from_json = (\<lambda>js. if js = ''saved'' then Some (ws_snapshot demo_store_ck demo_saved) else None),
     ghost_to_json = (\<lambda>g. None), manifest_to_json = (\<lambda>m. None) \<rparr>"

definition all_calls_ok :: SaveCalls where
  "all_calls_ok = \<lparr> mkdir_ok = True, create_ok = True, tmp_write_ok = True, rename_ok = True, direct_create_ok = True,
     direct_write_ok = True, remove_ok = True, torn = 0, stamp = 5 \<rparr>"

theorem world_state_recovery_witness:
  "\<exists>w'. fst (recover_bundle demo_auth_env demo_acd demo_store_codec demo_store_ck None all_calls_ok ''d'' demo_authority
       (snd (persist demo_store_codec demo_store_ck all_calls_ok all_calls_ok ''d'' demo_saved None (\<lambda>p. None)))) = Inr w' \<and>
     gh_state (ws_ghost w') = ''beacon'' \<and> revision w' = 3"
proof -
  let ?p = "persist demo_store_codec demo_store_ck all_calls_ok all_calls_ok ''d'' demo_saved None (\<lambda>p. None)"
  have "snap_from_json demo_store_codec js = Some s" if "snap_to_json demo_store_codec s = Some js" for s js
    using that by (simp add: demo_store_codec_def split: if_splits)
  moreover have "fst ?p = Inr ()"
    by (simp add: persist_def save_json_def demo_store_codec_def all_calls_ok_def Let_def)
  ultimately have "\<exists>w' fs''. recover_bundle demo_auth_env demo_acd demo_store_codec demo_store_ck None all_calls_ok ''d''
      demo_authority (snd ?p) = (Inr w', fs'') \<and> revision w' = revision demo_saved + 2 \<and>
      gh_state (ws_ghost w') = gh_state (ws_ghost demo_saved)"
    using world_state_recovery[of demo_store_codec demo_store_ck all_calls_ok all_calls_ok "''d''"
        demo_saved "\<lambda>p. None" "fst ?p" "snd ?p" demo_auth_env demo_acd demo_store_ck None all_calls_ok demo_authority]
    by (metis prod.collapse)
  then show ?thesis by (auto simp: demo_saved_def set_ghost_state_def world_new_fields)
qed

end
