(* ===== verification/Compute_Store.thy ===== *)
theory Compute_Store
  imports Authority
begin

text \<open>
  The jobs of the compute layer and their persistent store, \<^verbatim>\<open>compute/types.rs\<close> and
  \<^verbatim>\<open>compute/store.rs\<close>. The sled trees are sorted association lists over byte strings, in the lexicographic order sled
  uses; ed25519, SHA-256 and bincode are functions of the environment, as is the success of the
  database calls.
\<close>

section \<open>Jobs\<close>

definition MAX_WASM_BYTECODE_SIZE :: nat where
  "MAX_WASM_BYTECODE_SIZE = 4 * 1024 * 1024"

definition DEFAULT_MEMORY_LIMIT_MB :: u64 where
  "DEFAULT_MEMORY_LIMIT_MB = 64"

definition DEFAULT_EXEC_TIMEOUT_MS :: u64 where
  "DEFAULT_EXEC_TIMEOUT_MS = 30000"

definition MAX_EXEC_TIMEOUT_MS :: u64 where
  "MAX_EXEC_TIMEOUT_MS = 10 * 60 * 1000"

definition MAX_OUTPUT_SIZE_BYTES :: nat where
  "MAX_OUTPUT_SIZE_BYTES = 1024 * 1024"

datatype ComputeError =
    CompilationError string
  | ExecutionError string
  | ResourceLimitExceeded string
  | IntegrityFailed string
  | InvalidSpec string
  | ExecTimeout u64
  | FuelExhausted u64
  | SerdeError string
  | StoreError string
  | AuthorityDenied string
  | NotInitialized

record ResourceLimits =
  memory_mb :: u64
  timeout_ms :: u64
  fuel_limit :: u64
  max_output_bytes :: nat

definition default_limits :: ResourceLimits where
  "default_limits = \<lparr> memory_mb = DEFAULT_MEMORY_LIMIT_MB, timeout_ms = DEFAULT_EXEC_TIMEOUT_MS,
     fuel_limit = 1000000000, max_output_bytes = MAX_OUTPUT_SIZE_BYTES \<rparr>"

definition limits_validate :: "ResourceLimits \<Rightarrow> ComputeError + unit" where
  "limits_validate l =
     (if timeout_ms l > MAX_EXEC_TIMEOUT_MS then Inl (ResourceLimitExceeded ''timeout_ms'')
      else if memory_mb l > 512 then Inl (ResourceLimitExceeded ''memory_mb'')
      else Inr ())"

record ComputeJobSpec =
  job_id :: string
  wasm_hash :: string
  wasm_bytecode :: "u8 list"
  input_data :: "u8 list"
  env_vars :: "(string, string) hmap"
  limits :: ResourceLimits
  submitter_peer_id :: string
  cj_signature :: "u8 list"
  submitter_pubkey :: "u8 list"
  cj_created_at :: u64
  api_version :: u8

datatype JobStatus =
    JsQueued
  | JsRunning u64
  | JsCompleted u64
  | JsFailed string u64
  | JsCancelled string
  | JsTimedOut u64

fun is_terminal :: "JobStatus \<Rightarrow> bool" where
  "is_terminal JsQueued = False"
| "is_terminal (JsRunning t) = False"
| "is_terminal (JsCompleted t) = True"
| "is_terminal (JsFailed r t) = True"
| "is_terminal (JsCancelled r) = True"
| "is_terminal (JsTimedOut t) = True"

fun status_as_str :: "JobStatus \<Rightarrow> string" where
  "status_as_str JsQueued = ''queued''"
| "status_as_str (JsRunning t) = ''running''"
| "status_as_str (JsCompleted t) = ''completed''"
| "status_as_str (JsFailed r t) = ''failed''"
| "status_as_str (JsCancelled r) = ''cancelled''"
| "status_as_str (JsTimedOut t) = ''timed_out''"

record ComputeResult =
  cr_job_id :: string
  cr_status :: JobStatus
  cr_output :: "u8 list"
  cr_stderr :: "u8 list"
  cr_exit_code :: int
  cr_fuel_consumed :: u64
  cr_exec_time_ms :: u64
  cr_memory_used_bytes :: u64
  cr_executor_peer_id :: string
  cr_submitter_peer_id :: string
  cr_finished_at :: u64

record ComputeEnv =
  ce_sha256 :: "u8 list \<Rightarrow> u8 list"
  ce_key_ok :: "u8 list \<Rightarrow> bool"
  ce_sig_ok :: "u8 list \<Rightarrow> bool"
  ce_verify :: "u8 list \<Rightarrow> u8 list \<Rightarrow> u8 list \<Rightarrow> bool"
  spec_ser :: "ComputeJobSpec \<Rightarrow> u8 list option"
  spec_de :: "u8 list \<Rightarrow> ComputeJobSpec option"
  result_ser :: "ComputeResult \<Rightarrow> u8 list option"
  result_de :: "u8 list \<Rightarrow> ComputeResult option"
  utf8_lossy_job :: "u8 list \<Rightarrow> string"
  tx_ok :: bool
  read_ok :: bool
  remove_ok :: bool
  insert_ok :: bool

text \<open>The last argument of the hash is the little-endian nanosecond clock, sixteen bytes.\<close>

definition job_id_new :: "ComputeEnv \<Rightarrow> u8 list \<Rightarrow> string \<Rightarrow> string \<Rightarrow> string \<Rightarrow> string" where
  "job_id_new env nanos wh ih submitter =
     hex_encode (ce_sha256 env (as_bytes (wh @ ''|'' @ ih @ ''|'' @ submitter) @ nanos))"

definition job_signing_bytes :: "ComputeJobSpec \<Rightarrow> u8 list" where
  "job_signing_bytes s =
     as_bytes (job_id s) @ as_bytes ''|'' @ as_bytes (wasm_hash s) @ as_bytes ''|'' @ input_data s @ as_bytes ''|'' @
     as_bytes (submitter_peer_id s) @ as_bytes ''|'' @ to_le_bytes (cj_created_at s)"

definition verify_bytecode_integrity :: "ComputeEnv \<Rightarrow> ComputeJobSpec \<Rightarrow> bool" where
  "verify_bytecode_integrity env s \<longleftrightarrow> hex_encode (ce_sha256 env (wasm_bytecode s)) = wasm_hash s"

definition job_validate :: "ComputeEnv \<Rightarrow> nat \<Rightarrow> ComputeJobSpec \<Rightarrow> ComputeError + unit" where
  "job_validate env now s =
     (if length (wasm_bytecode s) > MAX_WASM_BYTECODE_SIZE then Inl (InvalidSpec ''bytecode too large'')
      else if \<not> verify_bytecode_integrity env s then Inl (IntegrityFailed ''wasm_hash'')
      else case limits_validate (limits s) of
        Inl e \<Rightarrow> Inl e
      | Inr u \<Rightarrow>
          if submitter_peer_id s = [] then Inl (InvalidSpec ''submitter_peer_id empty'')
          else if cj_signature s = [] \<or> submitter_pubkey s = [] then Inl (InvalidSpec ''signature or submitter_pubkey empty'')
          else if \<not> ce_key_ok env (submitter_pubkey s) then Inl (InvalidSpec ''submitter_pubkey format'')
          else if \<not> ce_sig_ok env (cj_signature s) then Inl (InvalidSpec ''signature format'')
          else if \<not> ce_verify env (submitter_pubkey s) (job_signing_bytes s) (cj_signature s)
          then Inl (InvalidSpec ''signature verification failed'')
          else if now - unat (cj_created_at s) > 900 then Inl (InvalidSpec ''job too old'')
          else Inr ())"

section \<open>The store\<close>

definition MAX_STORED_RESULTS :: nat where
  "MAX_STORED_RESULTS = 10000"

record ComputeStore =
  jobs_tree :: "(u8 list, u8 list) btree"
  results_tree :: "(u8 list, u8 list) btree"
  queue_tree :: "(u8 list, u8 list) btree"

definition to_be_bytes :: "u64 \<Rightarrow> u8 list" where
  "to_be_bytes v = rev (to_le_bytes v)"

definition job_key :: "string \<Rightarrow> u8 list" where
  "job_key jid = as_bytes (''job:'' @ jid)"

definition result_key :: "string \<Rightarrow> u8 list" where
  "result_key jid = as_bytes (''result:'' @ jid)"

definition queue_key :: "ComputeJobSpec \<Rightarrow> u8 list" where
  "queue_key s = to_be_bytes (cj_created_at s) @ as_bytes (job_id s)"

definition enqueue :: "ComputeEnv \<Rightarrow> ComputeJobSpec \<Rightarrow> ComputeStore \<Rightarrow> (ComputeError + unit) \<times> ComputeStore" where
  "enqueue env s st =
     (case spec_ser env s of
        None \<Rightarrow> (Inl (SerdeError ''spec''), st)
      | Some v \<Rightarrow>
          if \<not> tx_ok env then (Inl (StoreError ''enqueue''), st)
          else (Inr (), st\<lparr> jobs_tree := bt_put (job_key (job_id s)) v (jobs_tree st),
                  queue_tree := bt_put (queue_key s) (as_bytes (job_id s)) (queue_tree st) \<rparr>))"

definition dequeue_next :: "ComputeEnv \<Rightarrow> ComputeStore \<Rightarrow> (ComputeError + ComputeJobSpec option) \<times> ComputeStore" where
  "dequeue_next env st =
     (if \<not> read_ok env then (Inl (StoreError ''iter''), st)
      else case queue_tree st of
        [] \<Rightarrow> (Inr None, st)
      | (q_key, id_bytes) # _ \<Rightarrow>
          let st' = (if remove_ok env then st\<lparr> queue_tree := m_del q_key (queue_tree st) \<rparr> else st) in
          (case map_of (jobs_tree st) (job_key (utf8_lossy_job env id_bytes)) of
             Some bytes \<Rightarrow>
               (case spec_de env bytes of
                  None \<Rightarrow> (Inl (SerdeError ''spec''), st)
                | Some s \<Rightarrow> if \<not> remove_ok env then (Inl (StoreError ''remove''), st) else (Inr (Some s), st'))
           | None \<Rightarrow> (Inr None, st')))"

text \<open>The garbage collector removes the first tenth of the keys when there are too many results.\<close>

fun gc_loop :: "bool \<Rightarrow> u8 list list \<Rightarrow> nat \<Rightarrow> nat \<Rightarrow> (u8 list, u8 list) btree \<Rightarrow> (u8 list, u8 list) btree" where
  "gc_loop ok [] deleted to_delete t = t"
| "gc_loop ok (k # ks) deleted to_delete t =
     (if deleted \<ge> to_delete then t
      else gc_loop ok ks (deleted + 1) to_delete (if ok then m_del k t else t))"

definition gc_results_if_needed :: "ComputeEnv \<Rightarrow> ComputeStore \<Rightarrow> ComputeStore" where
  "gc_results_if_needed env st =
     (let count = length (results_tree st) in
      if count \<le> MAX_STORED_RESULTS \<or> \<not> read_ok env then st
      else st\<lparr> results_tree := gc_loop (remove_ok env) (map fst (results_tree st)) 0 (count div 10) (results_tree st) \<rparr>)"

definition save_result :: "ComputeEnv \<Rightarrow> ComputeResult \<Rightarrow> ComputeStore \<Rightarrow> (ComputeError + unit) \<times> ComputeStore" where
  "save_result env r st =
     (case result_ser env r of
        None \<Rightarrow> (Inl (SerdeError ''result''), st)
      | Some v \<Rightarrow>
          if \<not> insert_ok env then (Inl (StoreError ''insert''), st)
          else (Inr (), gc_results_if_needed env
                  (st\<lparr> results_tree := bt_put (result_key (cr_job_id r)) v (results_tree st) \<rparr>)))"

definition get_result :: "ComputeEnv \<Rightarrow> string \<Rightarrow> ComputeStore \<Rightarrow> ComputeError + ComputeResult option" where
  "get_result env jid st =
     (if \<not> read_ok env then Inl (StoreError ''get'')
      else case map_of (results_tree st) (result_key jid) of
             None \<Rightarrow> Inr None
           | Some bytes \<Rightarrow>
               (case result_de env bytes of None \<Rightarrow> Inl (SerdeError ''result'') | Some r \<Rightarrow> Inr (Some r)))"

definition get_result_bytes :: "ComputeEnv \<Rightarrow> string \<Rightarrow> ComputeStore \<Rightarrow> u8 list option" where
  "get_result_bytes env jid st = (if \<not> read_ok env then None else map_of (results_tree st) (result_key jid))"

definition queue_depth :: "ComputeStore \<Rightarrow> nat" where
  "queue_depth st = length (queue_tree st)"

definition result_count :: "ComputeStore \<Rightarrow> nat" where
  "result_count st = length (results_tree st)"

section \<open>The order of the queue\<close>

fun be_val :: "u8 list \<Rightarrow> nat" where
  "be_val [] = 0"
| "be_val (b # bs) = unat b * 256 ^ length bs + be_val bs"

lemma be_val_lt: "be_val bs < 256 ^ length bs"
proof (induction bs)
  case (Cons b bs)
  have "unat b < 2 ^ LENGTH(8)" by (rule unsigned_less)
  then have "unat b + 1 \<le> 256" by simp
  then have "(unat b + 1) * 256 ^ length bs \<le> 256 * 256 ^ length bs" by (rule mult_le_mono1)
  then have "unat b * 256 ^ length bs + 256 ^ length bs \<le> 256 * 256 ^ length bs" by (simp only: add_mult_distrib mult_1)
  with Cons show ?case unfolding be_val.simps list.size power_Suc add_Suc_right add_0_right by linarith
qed simp

lemma lex_be_val: "length xs = length ys \<Longrightarrow> xs < ys \<longleftrightarrow> be_val xs < be_val ys"
proof (induction xs ys rule: list_induct2)
  case (Cons x xs y ys)
  have lt: "unat a * n + r < unat b * n + r'" if "a < b" "r < n" for a b :: u8 and n r r' :: nat
  proof -
    have "Suc (unat a) \<le> unat b" using that(1) by (simp add: word_less_nat_alt)
    then have "Suc (unat a) * n \<le> unat b * n" by (rule mult_le_mono1)
    with that(2) show ?thesis by simp
  qed
  from Cons.hyps have l: "256 ^ length xs = (256 ^ length ys :: nat)" by simp
  show ?case
    using lt[of x y "be_val xs" "256 ^ length ys" "be_val ys"] lt[of y x "be_val ys" "256 ^ length ys" "be_val xs"]
      be_val_lt[of xs] be_val_lt[of ys] Cons
    by (cases x y rule: linorder_cases) (auto simp: l)
qed simp

lemma be_val_append: "be_val (xs @ [b]) = 256 * be_val xs + unat b"
  by (induction xs) (simp_all add: algebra_simps)

lemma be_val_digits: "be_val (map (\<lambda>i. of_nat (n div 256 ^ i)) (rev [0..<k])) = n mod 256 ^ k"
proof (induction k arbitrary: n)
  case (Suc k)
  have b: "unat (of_nat m :: u8) = m mod 256" for m by (simp add: unsigned_of_nat take_bit_eq_mod)
  have "rev [0..<Suc k] = map Suc (rev [0..<k]) @ [0]"
    by (simp add: rev_map[symmetric] map_Suc_upt upt_conv_Cons del: upt_Suc)
  then have "map (\<lambda>i. of_nat (n div 256 ^ i) :: u8) (rev [0..<Suc k]) =
      map (\<lambda>i. of_nat (n div 256 div 256 ^ i)) (rev [0..<k]) @ [of_nat n]"
    by (simp add: div_mult2_eq comp_def del: upt_Suc)
  then have "be_val (map (\<lambda>i. of_nat (n div 256 ^ i) :: u8) (rev [0..<Suc k])) = 256 * (n div 256 mod 256 ^ k) + n mod 256"
    using Suc[of "n div 256"] by (simp add: be_val_append b del: upt_Suc)
  then show ?case by (simp add: mod_mult2_eq del: upt_Suc)
qed simp

lemma be_val_to_be: "be_val (to_be_bytes v) = unat v"
proof -
  have "ucast (drop_bit (8 * i) v) = (of_nat (unat v div 256 ^ i) :: u8)" for i
  proof -
    have "unat (drop_bit (8 * i) v) = unat v div 256 ^ i"
    proof -
      have "unat (drop_bit (8 * i) v) = drop_bit (8 * i) (unat v)" by (rule unat_drop_bit_eq)
      then show ?thesis by (simp only: drop_bit_eq_div power_mult) simp
    qed
    then show ?thesis by (metis of_nat_unat)
  qed
  then have "to_be_bytes v = map (\<lambda>i. of_nat (unat v div 256 ^ i)) (rev [0..<8])"
    by (simp add: to_be_bytes_def to_le_bytes_def rev_map del: upt_rec_numeral)
  moreover have "unat v < 2 ^ LENGTH(64)" by (rule unsigned_less)
  ultimately show ?thesis by (simp add: be_val_digits del: upt_rec_numeral)
qed

lemma length_to_be_bytes [simp]: "length (to_be_bytes v) = 8"
  by (simp add: to_be_bytes_def)

lemma append_less_iff:
  "length xs = length ys \<Longrightarrow> xs @ s < ys @ t \<longleftrightarrow> xs < ys \<or> xs = ys \<and> s < (t :: 'a :: linorder list)"
  by (induction xs ys rule: list_induct2) auto

lemma as_bytes_less: "as_bytes s < as_bytes t \<longleftrightarrow> s < t"
proof (induction s arbitrary: t)
  case Nil
  then show ?case by (cases t) (simp_all add: as_bytes_def)
next
  case (Cons c s)
  have w: "(of_char a :: u8) < of_char b \<longleftrightarrow> a < b" for a b
  proof -
    have "unat (of_char x :: u8) = of_char x" for x
    proof -
      have "(of_char x :: u8) = of_nat (of_char x)" by (simp add: of_nat_of_char)
      moreover have "(of_char x :: nat) < 256" by simp
      ultimately show ?thesis by (simp add: unat_of_nat)
    qed
    then show ?thesis by (simp add: word_less_nat_alt less_char_def)
  qed
  show ?case using Cons by (cases t) (auto simp: as_bytes_def w of_char_u8_inj)
qed

lemma queue_key_less:
  "queue_key a < queue_key b \<longleftrightarrow>
     cj_created_at a < cj_created_at b \<or> cj_created_at a = cj_created_at b \<and> job_id a < job_id b"
proof -
  have "to_be_bytes x < to_be_bytes y \<longleftrightarrow> x < y" for x y
    by (simp add: lex_be_val be_val_to_be word_less_nat_alt)
  moreover have "to_be_bytes x = to_be_bytes y \<longleftrightarrow> x = y" for x y
    by (simp add: to_be_bytes_def to_le_bytes_inj)
  ultimately show ?thesis by (simp add: queue_key_def append_less_iff as_bytes_less)
qed

section \<open>The contract of the queue\<close>

datatype 'a qop = QPut 'a | QTake

fun q_run :: "('a \<Rightarrow> 'q \<Rightarrow> 'q) \<Rightarrow> ('q \<Rightarrow> 'a option \<times> 'q) \<Rightarrow> 'a qop list \<Rightarrow> 'q \<Rightarrow> 'a option list" where
  "q_run push pop [] q = []"
| "q_run push pop (QPut x # ops) q = q_run push pop ops (push x q)"
| "q_run push pop (QTake # ops) q = fst (pop q) # q_run push pop ops (snd (pop q))"

text \<open>The abstract queue is a list sorted by key.\<close>

fun a_take :: "'a list \<Rightarrow> 'a option \<times> 'a list" where
  "a_take [] = (None, [])"
| "a_take (x # xs) = (Some x, xs)"

fun all_fresh :: "('a \<Rightarrow> 'a list \<Rightarrow> bool) \<Rightarrow> ('a \<Rightarrow> 'k::linorder) \<Rightarrow> 'a qop list \<Rightarrow> 'a list \<Rightarrow> bool" where
  "all_fresh fresh key [] xs = True"
| "all_fresh fresh key (QPut x # ops) xs = (fresh x xs \<and> all_fresh fresh key ops (insort_key key x xs))"
| "all_fresh fresh key (QTake # ops) xs = all_fresh fresh key ops (snd (a_take xs))"

locale min_queue =
  fixes key :: "'a \<Rightarrow> 'k::linorder"
    and push :: "'a \<Rightarrow> 'q \<Rightarrow> 'q"
    and pop :: "'q \<Rightarrow> 'a option \<times> 'q"
    and repr :: "'q \<Rightarrow> 'a list \<Rightarrow> bool"
    and fresh :: "'a \<Rightarrow> 'a list \<Rightarrow> bool"
  assumes push: "repr q xs \<Longrightarrow> fresh x xs \<Longrightarrow> repr (push x q) (insort_key key x xs)"
    and pop: "repr q xs \<Longrightarrow> fst (pop q) = fst (a_take xs) \<and> repr (snd (pop q)) (snd (a_take xs))"
begin

lemma run_refines:
  "repr q xs \<Longrightarrow> all_fresh fresh key ops xs \<Longrightarrow> q_run push pop ops q = q_run (insort_key key) a_take ops xs"
proof (induction ops arbitrary: q xs)
  case (Cons x ops)
  then show ?case by (cases x) (auto simp: push pop)
qed simp

end

text \<open>What the code relies on: bincode decodes what it encodes, the id is valid UTF-8, and the database works.\<close>

definition compute_env_ok :: "ComputeEnv \<Rightarrow> bool" where
  "compute_env_ok env \<longleftrightarrow>
     (\<forall>s v. spec_ser env s = Some v \<longrightarrow> spec_de env v = Some s) \<and>
     (\<forall>r v. result_ser env r = Some v \<longrightarrow> result_de env v = Some r) \<and>
     (\<forall>x. utf8_lossy_job env (as_bytes x) = x) \<and> tx_ok env \<and> read_ok env \<and> remove_ok env \<and> insert_ok env"

definition queue_repr :: "ComputeEnv \<Rightarrow> ComputeStore \<Rightarrow> ComputeJobSpec list \<Rightarrow> bool" where
  "queue_repr env st xs \<longleftrightarrow> compute_env_ok env \<and>
     queue_tree st = map (\<lambda>s. (queue_key s, as_bytes (job_id s))) xs \<and>
     sorted_wrt (<) (map queue_key xs) \<and> distinct (map job_id xs) \<and>
     (\<forall>s\<in>set xs. \<exists>v. map_of (jobs_tree st) (job_key (job_id s)) = Some v \<and> spec_de env v = Some s)"

definition job_fresh :: "ComputeEnv \<Rightarrow> ComputeJobSpec \<Rightarrow> ComputeJobSpec list \<Rightarrow> bool" where
  "job_fresh env s xs \<longleftrightarrow> job_id s \<notin> job_id ` set xs \<and> spec_ser env s \<noteq> None"

definition store_put :: "ComputeEnv \<Rightarrow> ComputeJobSpec \<Rightarrow> ComputeStore \<Rightarrow> ComputeStore" where
  "store_put env s st = snd (enqueue env s st)"

definition store_take :: "ComputeEnv \<Rightarrow> ComputeStore \<Rightarrow> ComputeJobSpec option \<times> ComputeStore" where
  "store_take env st = (case dequeue_next env st of (Inr x, st) \<Rightarrow> (x, st) | (Inl e, st) \<Rightarrow> (None, st))"

lemma bt_put_insort:
  "f x \<notin> f ` set xs \<Longrightarrow> bt_put (f x) (g x) (map (\<lambda>s. (f s, g s)) xs) = map (\<lambda>s. (f s, g s)) (insort_key f x xs)"
  by (induction xs) auto

lemma sorted_insort_strict:
  "sorted_wrt (<) (map f xs) \<Longrightarrow> f x \<notin> f ` set xs \<Longrightarrow> sorted_wrt (<) (map f (insort_key f x xs))"
  by (induction xs) (auto simp: set_insort_key)

lemma distinct_map_insort:
  "distinct (map f xs) \<Longrightarrow> f x \<notin> f ` set xs \<Longrightarrow> distinct (map f (insort_key k x xs))"
  by (induction xs) (auto simp: set_insort_key)

lemma queue_key_inj: "queue_key a = queue_key b \<Longrightarrow> job_id a = job_id b"
  by (simp add: queue_key_def as_bytes_inj)

lemma job_key_inj: "job_key a = job_key b \<longleftrightarrow> a = b"
  by (simp add: job_key_def as_bytes_inj del: as_bytes_append)

interpretation jq: min_queue queue_key "store_put env" "store_take env" "queue_repr env" "job_fresh env" for env
proof
  fix q :: ComputeStore and xs :: "ComputeJobSpec list" and x :: ComputeJobSpec
  assume r: "queue_repr env q xs" and fr: "job_fresh env x xs"
  then have f: "job_id x \<notin> job_id ` set xs" by (simp add: job_fresh_def)
  then have k: "queue_key x \<notin> queue_key ` set xs" by (metis queue_key_inj image_iff)
  obtain v where v: "spec_ser env x = Some v" "spec_de env v = Some x" "tx_ok env"
    using r fr unfolding queue_repr_def compute_env_ok_def job_fresh_def by blast
  have "distinct (map job_id (insort_key queue_key x xs))"
    using r f by (simp add: queue_repr_def distinct_map_insort)
  then show "queue_repr env (store_put env x q) (insort_key queue_key x xs)"
    using r f v k bt_put_insort[of queue_key x xs "\<lambda>s. as_bytes (job_id s)"] sorted_insort_strict[of queue_key xs x]
    by (auto simp: queue_repr_def store_put_def enqueue_def set_insort_key container_simps job_key_inj) (metis imageI)
next
  fix q xs
  assume r: "queue_repr env q xs"
  show "fst (store_take env q) = fst (a_take xs) \<and> queue_repr env (snd (store_take env q)) (snd (a_take xs))"
  proof (cases xs)
    case Nil
    with r show ?thesis by (auto simp: queue_repr_def store_take_def dequeue_next_def compute_env_ok_def)
  next
    case (Cons s ys)
    then obtain v where v: "map_of (jobs_tree q) (job_key (job_id s)) = Some v" "spec_de env v = Some s"
      using r unfolding queue_repr_def by auto
    have d: "m_del (queue_key s) (queue_tree q) = map (\<lambda>s. (queue_key s, as_bytes (job_id s))) ys"
    proof -
      have "\<forall>x\<in>set ys. queue_key s < queue_key x" using r Cons by (simp add: queue_repr_def)
      then have "filter (\<lambda>x. queue_key x \<noteq> queue_key s) ys = ys" by (auto simp: filter_id_conv)
      then show ?thesis using r Cons by (simp add: queue_repr_def m_del_def filter_map comp_def)
    qed
    have e: "read_ok env" "remove_ok env" "utf8_lossy_job env (as_bytes (job_id s)) = job_id s"
      using r unfolding queue_repr_def compute_env_ok_def by auto
    have "dequeue_next env q = (Inr (Some s), q\<lparr> queue_tree := m_del (queue_key s) (queue_tree q) \<rparr>)"
      using r Cons v e by (simp add: queue_repr_def dequeue_next_def Let_def)
    with r Cons d show ?thesis by (auto simp: store_take_def queue_repr_def)
  qed
qed

section \<open>Results\<close>

lemma gc_loop_drop:
  "distinct (map fst t) \<Longrightarrow> gc_loop True (map fst t) d n t = drop (n - d) t"
proof (induction t arbitrary: d)
  case (Cons e t)
  have "fst e \<notin> fst ` set t" using Cons.prems by simp
  then have "\<forall>x\<in>set t. fst x \<noteq> fst e" by (metis imageI)
  then have "m_del (fst e) (e # t) = t" by (simp add: m_del_def filter_id_conv)
  with Cons show ?case by (auto simp: drop_Cons')
qed simp

lemma length_bt_put: "length (bt_put k v m) \<le> Suc (length m)"
  by (induction m) auto

lemma result_key_inj: "result_key a = result_key b \<longleftrightarrow> a = b"
  by (simp add: result_key_def as_bytes_inj del: as_bytes_append)


lemma get_result_raw:
  assumes "compute_env_ok env"
  shows "get_result env jid st = Inr r \<longleftrightarrow>
    (case map_of (results_tree st) (result_key jid) of None \<Rightarrow> r = None | Some v \<Rightarrow> result_de env v = r \<and> r \<noteq> None)"
  using assms by (auto simp: get_result_def compute_env_ok_def split: option.split)

lemma save_result_tree:
  assumes env: "compute_env_ok env" and ok: "bt_ok (results_tree st)"
    and save: "save_result env r st = (res, st')" "result_ser env r \<noteq> None"
  obtains v t where "res = Inr ()" "result_de env v = Some r" "t = bt_put (result_key (cr_job_id r)) v (results_tree st)"
    "bt_ok t" "results_tree st' = (if length t \<le> 10000 then t else drop (length t div 10) t)"
    "jobs_tree st' = jobs_tree st" "queue_tree st' = queue_tree st"
proof -
  obtain v where v: "result_ser env r = Some v" "result_de env v = Some r" using env save(2) unfolding compute_env_ok_def by blast
  let ?t = "bt_put (result_key (cr_job_id r)) v (results_tree st)"
  have t: "bt_ok ?t" using ok by (rule bt_ok_put)
  have "results_tree st' = (if length ?t \<le> 10000 then ?t else drop (length ?t div 10) ?t)"
    using save(1) v env gc_loop_drop[OF bt_ok_distinct[OF t], of 0 "length ?t div 10"]
    by (auto simp: save_result_def gc_results_if_needed_def Let_def MAX_STORED_RESULTS_def compute_env_ok_def split: if_splits)
  with that[of v ?t] v t save(1) env show ?thesis
    by (auto simp: save_result_def gc_results_if_needed_def Let_def compute_env_ok_def split: if_splits)
qed

definition demo_spec :: "u64 \<Rightarrow> string \<Rightarrow> ComputeJobSpec" where
  "demo_spec t i = \<lparr> job_id = i, wasm_hash = ''00'', wasm_bytecode = [0], input_data = [], env_vars = [], limits = default_limits,
     submitter_peer_id = ''p'', cj_signature = [1], submitter_pubkey = [2], cj_created_at = t, api_version = 1 \<rparr>"

definition demo_result :: ComputeResult where
  "demo_result = \<lparr> cr_job_id = ''a'', cr_status = JsCompleted 9, cr_output = [], cr_stderr = [], cr_exit_code = 0,
     cr_fuel_consumed = 1, cr_exec_time_ms = 1, cr_memory_used_bytes = 0, cr_executor_peer_id = ''e'',
     cr_submitter_peer_id = ''p'', cr_finished_at = 9 \<rparr>"

definition demo_compute_env :: ComputeEnv where
  "demo_compute_env = \<lparr> ce_sha256 = (\<lambda>b. [0]), ce_key_ok = (\<lambda>k. True), ce_sig_ok = (\<lambda>s. True), ce_verify = (\<lambda>k m s. True),
     spec_ser = (\<lambda>s. if s = demo_spec 7 ''a'' then Some [1] else if s = demo_spec 3 ''b'' then Some [2] else None),
     spec_de = (\<lambda>b. if b = [1] then Some (demo_spec 7 ''a'') else Some (demo_spec 3 ''b'')),
     result_ser = (\<lambda>r. if r = demo_result then Some [3] else None), result_de = (\<lambda>b. Some demo_result),
     utf8_lossy_job = map (\<lambda>b. char_of (unat b)), tx_ok = True, read_ok = True, remove_ok = True, insert_ok = True \<rparr>"

lemma char_of_bytes: "map (\<lambda>b. char_of (unat b)) (as_bytes x) = x"
proof (induction x)
  case (Cons c x)
  have "(of_char c :: u8) = of_nat (of_char c)" by (simp add: of_nat_of_char)
  moreover have "(of_char c :: nat) < 256" by simp
  ultimately have "unat (of_char c :: u8) = of_char c" by (simp add: unat_of_nat)
  with Cons show ?case by (simp add: as_bytes_def)
qed (simp add: as_bytes_def)

lemma demo_compute_env_ok: "compute_env_ok demo_compute_env"
  by (auto simp: compute_env_ok_def demo_compute_env_def demo_spec_def char_of_bytes split: if_splits)

section \<open>Properties\<close>

text \<open>
  Job validation. A job passes exactly when its code is at most 4 MiB and has the stated digest, its limits
  are within the maxima, it names a submitter, is at most 900 seconds old, and carries a well-formed key
  and a signature that verifies over its id, code digest, input, submitter and creation time. Limits,
  environment variables and version are not signed: a job that passes still passes with any
  others of these within the maxima.
\<close>

theorem job_validation:
  "(job_validate env now s = Inr () \<longleftrightarrow>
     length (wasm_bytecode s) \<le> 4194304 \<and> hex_encode (ce_sha256 env (wasm_bytecode s)) = wasm_hash s \<and>
     unat (timeout_ms (limits s)) \<le> 600000 \<and> unat (memory_mb (limits s)) \<le> 512 \<and> submitter_peer_id s \<noteq> [] \<and>
     cj_signature s \<noteq> [] \<and> submitter_pubkey s \<noteq> [] \<and> ce_key_ok env (submitter_pubkey s) \<and> ce_sig_ok env (cj_signature s) \<and>
     ce_verify env (submitter_pubkey s) (job_signing_bytes s) (cj_signature s) \<and> now \<le> unat (cj_created_at s) + 900) \<and>
   (job_validate env now s = Inr () \<and> limits_validate l = Inr () \<longrightarrow>
      job_validate env now (s\<lparr> limits := l, env_vars := vars, api_version := a \<rparr>) = Inr ())"
proof -
  have l: "limits_validate l = Inr () \<longleftrightarrow> unat (timeout_ms l) \<le> 600000 \<and> unat (memory_mb l) \<le> 512" for l
    by (auto simp: limits_validate_def MAX_EXEC_TIMEOUT_MS_def word_less_nat_alt word_le_nat_alt not_less)
  have iff: "job_validate env now s = Inr () \<longleftrightarrow>
     length (wasm_bytecode s) \<le> 4194304 \<and> hex_encode (ce_sha256 env (wasm_bytecode s)) = wasm_hash s \<and>
     limits_validate (limits s) = Inr () \<and> submitter_peer_id s \<noteq> [] \<and>
     cj_signature s \<noteq> [] \<and> submitter_pubkey s \<noteq> [] \<and> ce_key_ok env (submitter_pubkey s) \<and> ce_sig_ok env (cj_signature s) \<and>
     ce_verify env (submitter_pubkey s) (job_signing_bytes s) (cj_signature s) \<and> now \<le> unat (cj_created_at s) + 900" for s
    by (auto simp: job_validate_def verify_bytecode_integrity_def MAX_WASM_BYTECODE_SIZE_def split: sum.split if_splits)
  have "job_signing_bytes (s\<lparr> limits := l, env_vars := vars, api_version := a \<rparr>) = job_signing_bytes s"
    by (simp add: job_signing_bytes_def)
  then show ?thesis unfolding iff by (simp add: l)
qed

theorem job_validation_witness:
  "job_validate demo_compute_env 5 (demo_spec 3 ''b'') = Inr () \<and>
   job_validate demo_compute_env 5 ((demo_spec 3 ''b'')\<lparr> limits := default_limits\<lparr> memory_mb := 512 \<rparr>,
     env_vars := [(''K'', ''V'')], api_version := 2 \<rparr>) = Inr ()"
proof -
  have "hex_encode [0] = ''00''" by code_simp
  then have 1: "job_validate demo_compute_env 5 (demo_spec 3 ''b'') = Inr ()"
    using job_validation[of demo_compute_env 5 "demo_spec 3 ''b''"]
    by (simp add: demo_spec_def demo_compute_env_def default_limits_def DEFAULT_EXEC_TIMEOUT_MS_def DEFAULT_MEMORY_LIMIT_MB_def)
  have "limits_validate (default_limits\<lparr> memory_mb := 512 \<rparr>) = Inr ()"
    by (simp add: limits_validate_def default_limits_def DEFAULT_EXEC_TIMEOUT_MS_def MAX_EXEC_TIMEOUT_MS_def)
  with 1 show ?thesis
    using job_validation[of demo_compute_env 5 "demo_spec 3 ''b''" "default_limits\<lparr> memory_mb := 512 \<rparr>"] by blast
qed

text \<open>
  C27: the persistent queue is a priority queue by creation time. Any sequence of enqueues and dequeues, as long as no job is
  enqueued while one with the same id is waiting and all can be serialized, returns what the abstract queue returns that is kept
  sorted by creation time and then id: the oldest job first, each job once, and nothing when it is
  empty. The byte keys of the store order jobs in exactly this way.
\<close>

theorem job_queue_refines:
  assumes "compute_env_ok env" and "queue_tree st = []"
    and "all_fresh (job_fresh env) queue_key ops []"
  shows "q_run (store_put env) (store_take env) ops st = q_run (insort_key queue_key) a_take ops [] \<and>
    (\<forall>a b. queue_key a < queue_key b \<longleftrightarrow>
      cj_created_at a < cj_created_at b \<or> cj_created_at a = cj_created_at b \<and> job_id a < job_id b)"
  using jq.run_refines[of env st "[]" ops] assms by (simp add: queue_repr_def queue_key_less)

definition empty_store :: ComputeStore where
  "empty_store = \<lparr> jobs_tree = [], results_tree = [], queue_tree = [] \<rparr>"

theorem job_queue_refines_witness:
  "q_run (store_put demo_compute_env) (store_take demo_compute_env)
     [QPut (demo_spec 7 ''a''), QPut (demo_spec 3 ''b''), QTake, QTake, QTake] empty_store =
   [Some (demo_spec 3 ''b''), Some (demo_spec 7 ''a''), None]"
proof -
  have k: "queue_key (demo_spec 7 ''a'') \<le> queue_key (demo_spec 3 ''b'') \<longleftrightarrow> False"
      "queue_key (demo_spec 3 ''b'') \<le> queue_key (demo_spec 7 ''a'') \<longleftrightarrow> True"
    by (simp_all add: linorder_not_less[symmetric] queue_key_less demo_spec_def)
  have "all_fresh (job_fresh demo_compute_env) queue_key
      [QPut (demo_spec 7 ''a''), QPut (demo_spec 3 ''b''), QTake, QTake, QTake] []"
    by (simp add: job_fresh_def k) (simp add: demo_compute_env_def demo_spec_def)
  from job_queue_refines[OF demo_compute_env_ok _ this, of empty_store] show ?thesis
    unfolding empty_store_def by (simp add: k)
qed

text \<open>
  The result store. Saving a result never leaves more than 10000 results; while there is room, the result
  can be read back and no other result changes; when there is none, exactly the first tenth of the
  results in the order of the keys goes, the new one included if it is among them.
\<close>

theorem result_store:
  assumes env: "compute_env_ok env" and ok: "bt_ok (results_tree st)" "length (results_tree st) \<le> 10000"
    and save: "save_result env r st = (res, st')" "result_ser env r \<noteq> None"
  shows "bt_ok (results_tree st') \<and> length (results_tree st') \<le> 10000 \<and>
    (length (results_tree st) < 10000 \<longrightarrow> get_result env (cr_job_id r) st' = Inr (Some r) \<and>
       (\<forall>j. j \<noteq> cr_job_id r \<longrightarrow> get_result env j st' = get_result env j st)) \<and>
    (length (results_tree st) = 10000 \<and> map_of (results_tree st) (result_key (cr_job_id r)) = None \<and>
       (\<forall>k\<in>fst ` set (results_tree st). result_key (cr_job_id r) < k) \<longrightarrow>
       get_result env (cr_job_id r) st' = Inr None \<and> length (results_tree st') = 9001)"
proof -
  obtain v t where t: "result_de env v = Some r" "t = bt_put (result_key (cr_job_id r)) v (results_tree st)"
    "bt_ok t" "results_tree st' = (if length t \<le> 10000 then t else drop (length t div 10) t)"
    using save_result_tree[OF env ok(1) save] by metis
  have len: "length t \<le> 10001" using length_bt_put[of "result_key (cr_job_id r)" v "results_tree st"] ok t(2) by simp
  have "bt_ok (drop n t)" for n using t(3) unfolding bt_ok_def by (simp add: drop_map[symmetric] sorted_wrt_drop)
  then have 1: "bt_ok (results_tree st')" using t by simp
  have 2: "length (results_tree st') \<le> 10000" using t(4) len by (cases "length t = 10001") auto
  have 3: "get_result env (cr_job_id r) st' = Inr (Some r) \<and> (\<forall>j. j \<noteq> cr_job_id r \<longrightarrow> get_result env j st' = get_result env j st)"
    if "length (results_tree st) < 10000"
  proof -
    have "results_tree st' = t" using t(4) that length_bt_put[of "result_key (cr_job_id r)" v "results_tree st"] t(2) by simp
    then show ?thesis using t(1,2) env
      by (auto simp: get_result_def compute_env_ok_def container_simps result_key_inj)
  qed
  have 4: "get_result env (cr_job_id r) st' = Inr None \<and> length (results_tree st') = 9001"
    if "length (results_tree st) = 10000" "\<forall>k\<in>fst ` set (results_tree st). result_key (cr_job_id r) < k"
  proof -
    have "t = (result_key (cr_job_id r), v) # results_tree st"
      using that t(2) by (cases "results_tree st") auto
    then have r: "results_tree st' = drop 999 (results_tree st)" "length (results_tree st') = 9001" using t(4) that(1) by simp_all
    have "map_of (results_tree st') (result_key (cr_job_id r)) = None"
      using that(2) r(1) by (auto simp: map_of_eq_None_iff dest!: in_set_dropD)
    with r env show ?thesis by (simp add: get_result_def compute_env_ok_def)
  qed
  from 1 2 3 4 show ?thesis by blast
qed

theorem result_store_witness:
  "\<exists>st'. save_result demo_compute_env demo_result empty_store = (Inr (), st') \<and>
     get_result demo_compute_env ''a'' st' = Inr (Some demo_result)"
proof -
  let ?s = "save_result demo_compute_env demo_result empty_store"
  have "fst ?s = Inr ()" by (simp add: save_result_def demo_compute_env_def)
  moreover have "get_result demo_compute_env (cr_job_id demo_result) (snd ?s) = Inr (Some demo_result)"
    using result_store[OF demo_compute_env_ok, of empty_store demo_result "fst ?s" "snd ?s"]
    by (simp add: empty_store_def demo_compute_env_def)
  ultimately show ?thesis by (metis demo_result_def ComputeResult.select_convs(1) prod.collapse)
qed

end
