(* ===== verification/Compute_Scheduler.thy ===== *)
theory Compute_Scheduler
  imports Compute_Store
begin

text \<open>
  The scheduler of the compute layer, its messages and what the executor makes of a finished run,
  \<^verbatim>\<open>compute/scheduler.rs\<close>, \<^verbatim>\<open>compute/network.rs\<close>, \<^verbatim>\<open>compute/executor.rs\<close>. The select loop and the spawned
  executions are steps of one state: the channels are lists, the semaphore is the number of
  permits, and an execution is a task that ends at any time with any outcome. A loop that awaits a
  permit handles nothing else until it gets one.
\<close>

section \<open>Data\<close>

record SchedulerConfig =
  max_concurrent_jobs :: nat
  poll_interval_ms :: u64
  accept_remote_jobs :: bool

definition default_scheduler :: SchedulerConfig where
  "default_scheduler = \<lparr> max_concurrent_jobs = 4, poll_interval_ms = 500, accept_remote_jobs = True \<rparr>"

datatype ComputeEvent =
    JobQueued string
  | JobStarted string
  | JobCompleted string ComputeResult
  | JobFailed string string
  | JobCancelled string

text \<open>\<open>sd_running\<close> maps a job id to its cancellation token, \<open>sd_tasks\<close> are the executions that hold a permit.\<close>

record Scheduler =
  sd_config :: SchedulerConfig
  sd_store :: ComputeStore
  sd_authority :: AuthorityManager
  sd_submit :: "ComputeJobSpec list"
  sd_cancel :: "string list"
  sd_running :: "(string, bool) hmap"
  sd_permits :: nat
  sd_tasks :: "ComputeJobSpec list"
  sd_waiting :: "ComputeJobSpec option"
  sd_events :: "ComputeEvent list"

definition spawn_scheduler :: "SchedulerConfig \<Rightarrow> ComputeStore \<Rightarrow> AuthorityManager \<Rightarrow> Scheduler" where
  "spawn_scheduler cfg st auth =
     \<lparr> sd_config = cfg, sd_store = st, sd_authority = auth, sd_submit = [], sd_cancel = [], sd_running = [],
       sd_permits = max_concurrent_jobs cfg, sd_tasks = [], sd_waiting = None, sd_events = [] \<rparr>"

definition emit :: "ComputeEvent \<Rightarrow> Scheduler \<Rightarrow> Scheduler" where
  "emit e sd = sd\<lparr> sd_events := sd_events sd @ [e] \<rparr>"

section \<open>The executor\<close>

text \<open>How a run of the WebAssembly module ends, with the fuel that is left.\<close>

datatype WasmRun =
    RunReturned u64
  | RunTrapped string u64
  | RunChannelClosed
  | RunTimedOut

definition wasm_outcome :: "ResourceLimits \<Rightarrow> WasmRun \<Rightarrow> (ComputeError + unit) \<times> u64" where
  "wasm_outcome l run =
     (case run of
        RunReturned left \<Rightarrow> (Inr (), fuel_limit l - left)
      | RunTrapped e left \<Rightarrow> (if e = ''timeout'' then Inl (ExecTimeout (timeout_ms l)) else Inl (ExecutionError e), fuel_limit l - left)
      | RunChannelClosed \<Rightarrow> (Inl (ExecutionError ''cancel channel error''), 0)
      | RunTimedOut \<Rightarrow> (Inl (ExecTimeout (timeout_ms l)), 0))"

definition execute :: "(u8 list \<Rightarrow> string option) \<Rightarrow> (ComputeError \<Rightarrow> string) \<Rightarrow> WasmRun \<Rightarrow> u8 list \<Rightarrow> u8 list \<Rightarrow> u64 \<Rightarrow> u64 \<Rightarrow>
    ComputeJobSpec \<Rightarrow> string \<Rightarrow> ComputeError + ComputeResult" where
  "execute setup_error err_text run stdout stderr elapsed finished spec executor =
     (case setup_error (wasm_bytecode spec) of
        Some e \<Rightarrow> Inl (ExecutionError e)
      | None \<Rightarrow>
          let (res, fuel) = wasm_outcome (limits spec) run in
          Inr \<lparr> cr_job_id = job_id spec,
                cr_status = (case res of Inr u \<Rightarrow> JsCompleted finished | Inl e \<Rightarrow> JsFailed (err_text e) finished),
                cr_output = take (max_output_bytes (limits spec)) stdout, cr_stderr = stderr,
                cr_exit_code = (case res of Inr u \<Rightarrow> 0 | Inl e \<Rightarrow> -1), cr_fuel_consumed = fuel,
                cr_exec_time_ms = elapsed, cr_memory_used_bytes = 0, cr_executor_peer_id = executor,
                cr_submitter_peer_id = submitter_peer_id spec, cr_finished_at = finished \<rparr>)"

section \<open>The handle\<close>

definition submit_job :: "ComputeEnv \<Rightarrow> (string \<Rightarrow> string option) \<Rightarrow> nat \<Rightarrow> ComputeJobSpec \<Rightarrow> Scheduler \<Rightarrow>
    (ComputeError + string) \<times> Scheduler" where
  "submit_job env parse_peer now spec sd =
     (case parse_peer (submitter_peer_id spec) of
        None \<Rightarrow> (Inl (InvalidSpec ''invalid submitter_peer_id''), sd)
      | Some peer \<Rightarrow>
          if \<not> is_allowed (sd_authority sd) peer ComputeSubmit then (Inl (AuthorityDenied ''compute submit''), sd)
          else case job_validate env now spec of
                 Inl e \<Rightarrow> (Inl (InvalidSpec ''invalid job''), sd)
               | Inr u \<Rightarrow> (Inr (job_id spec), sd\<lparr> sd_submit := sd_submit sd @ [spec] \<rparr>))"

definition cancel_job :: "string \<Rightarrow> Scheduler \<Rightarrow> Scheduler" where
  "cancel_job jid sd =
     sd\<lparr> sd_running := (if map_of (sd_running sd) jid \<noteq> None then hm_put jid True (sd_running sd) else sd_running sd),
         sd_cancel := sd_cancel sd @ [jid] \<rparr>"

definition running_count :: "Scheduler \<Rightarrow> nat" where
  "running_count sd = length (sd_running sd)"

record NodeCapacity =
  nc_peer_id :: string
  nc_available_cores :: nat
  nc_available_memory_mb :: u64
  nc_queue_depth :: nat
  nc_accepting_jobs :: bool
  nc_updated_at :: u64

definition capacity_current :: "nat \<Rightarrow> u64 \<Rightarrow> string \<Rightarrow> Scheduler \<Rightarrow> NodeCapacity" where
  "capacity_current cores now peer sd =
     \<lparr> nc_peer_id = peer, nc_available_cores = cores - running_count sd, nc_available_memory_mb = 256,
       nc_queue_depth = running_count sd, nc_accepting_jobs = (running_count sd < cores), nc_updated_at = now \<rparr>"

section \<open>The loop\<close>

definition on_submit :: "ComputeEnv \<Rightarrow> nat \<Rightarrow> Scheduler \<Rightarrow> Scheduler" where
  "on_submit env now sd =
     (case sd_submit sd of
        [] \<Rightarrow> sd
      | spec # rest \<Rightarrow>
          let sd = sd\<lparr> sd_submit := rest \<rparr> in
          (case job_validate env now spec of
             Inl e \<Rightarrow> emit (JobFailed (job_id spec) ''invalid signature'') sd
           | Inr u \<Rightarrow>
               (case enqueue env spec (sd_store sd) of
                  (Inr u, st) \<Rightarrow> emit (JobQueued (job_id spec)) (sd\<lparr> sd_store := st \<rparr>)
                | (Inl e, st) \<Rightarrow> sd\<lparr> sd_store := st \<rparr>)))"

definition on_cancel :: "Scheduler \<Rightarrow> Scheduler" where
  "on_cancel sd =
     (case sd_cancel sd of
        [] \<Rightarrow> sd
      | jid # rest \<Rightarrow>
          let sd = sd\<lparr> sd_cancel := rest \<rparr> in
          if map_of (sd_running sd) jid \<noteq> None
          then emit (JobCancelled jid) (sd\<lparr> sd_running := m_del jid (sd_running sd) \<rparr>) else sd)"

definition start_job :: "ComputeJobSpec \<Rightarrow> Scheduler \<Rightarrow> Scheduler" where
  "start_job spec sd =
     emit (JobStarted (job_id spec))
       (sd\<lparr> sd_permits := sd_permits sd - 1, sd_running := hm_put (job_id spec) False (sd_running sd),
            sd_tasks := sd_tasks sd @ [spec], sd_waiting := None \<rparr>)"

definition on_poll :: "ComputeEnv \<Rightarrow> Scheduler \<Rightarrow> Scheduler" where
  "on_poll env sd =
     (if length (sd_running sd) \<ge> max_concurrent_jobs (sd_config sd) then sd
      else case dequeue_next env (sd_store sd) of
             (Inr (Some spec), st) \<Rightarrow>
               let sd = sd\<lparr> sd_store := st \<rparr> in
               if sd_permits sd > 0 then start_job spec sd else sd\<lparr> sd_waiting := Some spec \<rparr>
           | (_, st) \<Rightarrow> sd\<lparr> sd_store := st \<rparr>)"

definition on_task_done :: "ComputeEnv \<Rightarrow> (ComputeError \<Rightarrow> string) \<Rightarrow> nat \<Rightarrow> ComputeError + ComputeResult \<Rightarrow> Scheduler \<Rightarrow> Scheduler" where
  "on_task_done env err_text i res sd =
     (if i \<ge> length (sd_tasks sd) then sd
      else
        let jid = job_id (sd_tasks sd ! i);
            sd = sd\<lparr> sd_running := m_del jid (sd_running sd) \<rparr>;
            sd = (case res of
                    Inr r \<Rightarrow> emit (JobCompleted jid r) (sd\<lparr> sd_store := snd (save_result env r (sd_store sd)) \<rparr>)
                  | Inl e \<Rightarrow> emit (JobFailed jid (err_text e)) sd);
            sd = sd\<lparr> sd_tasks := take i (sd_tasks sd) @ drop (Suc i) (sd_tasks sd), sd_permits := sd_permits sd + 1 \<rparr>
        in case sd_waiting sd of None \<Rightarrow> sd | Some spec \<Rightarrow> start_job spec sd)"

datatype SchedInput =
    InSubmit nat ComputeJobSpec
  | InCancel string
  | LoopSubmit nat
  | LoopCancel
  | LoopPoll
  | TaskDone nat "ComputeError + ComputeResult"

record SchedCtx =
  sx_env :: ComputeEnv
  sx_parse :: "string \<Rightarrow> string option"
  sx_text :: "ComputeError \<Rightarrow> string"

fun sched_step :: "SchedCtx \<Rightarrow> SchedInput \<Rightarrow> Scheduler \<Rightarrow> Scheduler" where
  "sched_step c (InSubmit now spec) sd = snd (submit_job (sx_env c) (sx_parse c) now spec sd)"
| "sched_step c (InCancel jid) sd = cancel_job jid sd"
| "sched_step c (LoopSubmit now) sd = (if sd_waiting sd = None then on_submit (sx_env c) now sd else sd)"
| "sched_step c LoopCancel sd = (if sd_waiting sd = None then on_cancel sd else sd)"
| "sched_step c LoopPoll sd = (if sd_waiting sd = None then on_poll (sx_env c) sd else sd)"
| "sched_step c (TaskDone i res) sd = on_task_done (sx_env c) (sx_text c) i res sd"

definition sched_run :: "SchedCtx \<Rightarrow> SchedInput list \<Rightarrow> Scheduler \<Rightarrow> Scheduler" where
  "sched_run c xs sd = fold (sched_step c) xs sd"

section \<open>Messages\<close>

datatype ComputeMessage =
    CmSubmit ComputeJobSpec
  | CmResult ComputeResult
  | CmCancel string
  | CmStatusQuery string
  | CmStatusReply string string "u64 option"
  | CmCapacity NodeCapacity

definition handle_status_query :: "ComputeEnv \<Rightarrow> (ComputeError \<Rightarrow> string) \<Rightarrow> ComputeStore \<Rightarrow> string \<Rightarrow> ComputeMessage option" where
  "handle_status_query env err_text st jid =
     (case get_result env jid st of
        Inr (Some r) \<Rightarrow> Some (CmStatusReply jid (status_as_str (cr_status r)) (Some (cr_exec_time_ms r)))
      | Inr None \<Rightarrow> Some (CmStatusReply jid ''not_found'' None)
      | Inl e \<Rightarrow> Some (CmStatusReply jid (''error: '' @ err_text e) None))"

definition handle_incoming_compute_message :: "SchedCtx \<Rightarrow> (u8 list \<Rightarrow> ComputeMessage option) \<Rightarrow> nat \<Rightarrow> u8 list \<Rightarrow> string \<Rightarrow>
    ComputeStore option \<Rightarrow> Scheduler \<Rightarrow> ComputeMessage option \<times> Scheduler" where
  "handle_incoming_compute_message c from_slice now raw sender store sd =
     (case from_slice raw of
        None \<Rightarrow> (None, sd)
      | Some (CmSubmit spec) \<Rightarrow>
          (case submit_job (sx_env c) (sx_parse c) now spec sd of
             (Inr jid, sd) \<Rightarrow> (Some (CmStatusReply jid ''queued'' None), sd)
           | (Inl e, sd) \<Rightarrow> (Some (CmStatusReply (job_id spec) (''failed: '' @ sx_text c e) None), sd))
      | Some (CmCancel jid) \<Rightarrow> (None, cancel_job jid sd)
      | Some (CmStatusQuery jid) \<Rightarrow>
          (case store of Some st \<Rightarrow> (handle_status_query (sx_env c) (sx_text c) st jid, sd) | None \<Rightarrow> (None, sd))
      | Some m \<Rightarrow> (None, sd))"

section \<open>Invariants\<close>

definition sched_ok :: "Scheduler \<Rightarrow> bool" where
  "sched_ok sd \<longleftrightarrow>
     length (sd_tasks sd) + sd_permits sd = max_concurrent_jobs (sd_config sd) \<and>
     (sd_waiting sd \<noteq> None \<longrightarrow> sd_permits sd = 0) \<and>
     fst ` set (sd_running sd) \<subseteq> job_id ` set (sd_tasks sd)"

lemma emit_fields [simp]:
  "sd_config (emit e sd) = sd_config sd" "sd_store (emit e sd) = sd_store sd" "sd_authority (emit e sd) = sd_authority sd"
  "sd_submit (emit e sd) = sd_submit sd" "sd_cancel (emit e sd) = sd_cancel sd" "sd_running (emit e sd) = sd_running sd"
  "sd_permits (emit e sd) = sd_permits sd" "sd_tasks (emit e sd) = sd_tasks sd" "sd_waiting (emit e sd) = sd_waiting sd"
  "sd_events (emit e sd) = sd_events sd @ [e]"
  by (simp_all add: emit_def)

lemma fst_hm_put: "fst ` set (hm_put k v m) = insert k (fst ` set m)"
  by (induction m) (auto simp: hm_put_def)

lemma set_m_del: "fst ` set (m_del k m) = fst ` set m - {k}"
  by (auto simp: m_del_def)

lemma set_remove_nth:
  assumes "i < length xs"
  shows "set xs \<subseteq> insert (xs ! i) (set (take i xs @ drop (Suc i) xs))"
    and "set (take i xs @ drop (Suc i) xs) \<subseteq> set xs"
proof -
  have "set xs = set (take i xs) \<union> set (xs ! i # drop (Suc i) xs)"
    using id_take_nth_drop[OF assms] by (metis set_append)
  then show "set xs \<subseteq> insert (xs ! i) (set (take i xs @ drop (Suc i) xs))" by auto
  show "set (take i xs @ drop (Suc i) xs) \<subseteq> set xs" by (auto dest: in_set_takeD in_set_dropD)
qed

lemma sched_ok_start:
  assumes "length (sd_tasks sd) + sd_permits sd = max_concurrent_jobs (sd_config sd)" "0 < sd_permits sd"
    "fst ` set (sd_running sd) \<subseteq> job_id ` set (sd_tasks sd)"
  shows "sched_ok (start_job spec sd)"
  using assms by (auto simp: sched_ok_def start_job_def fst_hm_put)

lemma sched_ok_done:
  assumes "sched_ok sd"
  shows "sched_ok (on_task_done env txt i res sd)"
proof (cases "i < length (sd_tasks sd)")
  case True
  let ?rest = "take i (sd_tasks sd) @ drop (Suc i) (sd_tasks sd)" and ?jid = "job_id (sd_tasks sd ! i)"
  have "job_id ` set (sd_tasks sd) \<subseteq> insert ?jid (job_id ` set ?rest)"
    using set_remove_nth(1)[OF True] by blast
  then have run: "fst ` set (m_del ?jid (sd_running sd)) \<subseteq> job_id ` set ?rest"
    using assms unfolding sched_ok_def set_m_del by blast
  have len: "length ?rest + (sd_permits sd + 1) = max_concurrent_jobs (sd_config sd)"
    using assms True by (simp add: sched_ok_def)
  show ?thesis
  proof (cases "sd_waiting sd")
    case None
    then show ?thesis using True run len
      by (cases res) (simp_all add: on_task_done_def Let_def sched_ok_def)
  next
    case (Some w)
    then show ?thesis using True run len
      by (cases res) (simp_all add: on_task_done_def Let_def sched_ok_start)
  qed
qed (use assms in \<open>simp add: on_task_done_def\<close>)

lemma sched_ok_step: "sched_ok sd \<Longrightarrow> sched_ok (sched_step c x sd)"
proof (cases x)
  case (InSubmit now spec)
  moreover assume "sched_ok sd"
  ultimately show ?thesis by (auto simp: submit_job_def sched_ok_def split: option.split sum.split)
next
  case (InCancel jid)
  moreover assume "sched_ok sd"
  ultimately show ?thesis
    by (auto simp: cancel_job_def sched_ok_def fst_hm_put) (force dest!: map_of_SomeD)+
next
  case (LoopSubmit now)
  moreover assume "sched_ok sd"
  ultimately show ?thesis
    by (auto simp: on_submit_def sched_ok_def Let_def split: list.split sum.split prod.split)
next
  case LoopCancel
  moreover assume "sched_ok sd"
  ultimately show ?thesis
    by (auto simp: on_cancel_def sched_ok_def Let_def m_del_def split: list.split)
next
  case LoopPoll
  moreover assume "sched_ok sd"
  moreover obtain r st where "dequeue_next (sx_env c) (sd_store sd) = (r, st)" by fastforce
  moreover from calculation(2) have "sched_ok (start_job s (sd\<lparr> sd_store := st \<rparr>))" if "0 < sd_permits sd" for s
    using that by (intro sched_ok_start) (simp_all add: sched_ok_def)
  ultimately show ?thesis
    by (auto simp: on_poll_def Let_def split: sum.split option.split) (auto simp: sched_ok_def)
next
  case (TaskDone i res)
  moreover assume "sched_ok sd"
  ultimately show ?thesis by (simp add: sched_ok_done)
qed

lemma sched_ok_run: "sched_ok sd \<Longrightarrow> sched_ok (sched_run c xs sd)"
  unfolding sched_run_def by (induction xs arbitrary: sd) (simp_all add: sched_ok_step)

lemma sched_ok_spawn: "sched_ok (spawn_scheduler cfg st auth)"
  by (simp add: sched_ok_def spawn_scheduler_def)

subsection \<open>Where started jobs come from\<close>

definition from_set :: "ComputeEnv \<Rightarrow> ComputeJobSpec set \<Rightarrow> Scheduler \<Rightarrow> bool" where
  "from_set env A sd \<longleftrightarrow>
     set (sd_submit sd) \<subseteq> A \<and> set_option (sd_waiting sd) \<subseteq> A \<and>
     (\<forall>v s. v \<in> snd ` set (jobs_tree (sd_store sd)) \<and> spec_de env v = Some s \<longrightarrow> s \<in> A) \<and>
     (\<forall>j. JobStarted j \<in> set (sd_events sd) \<longrightarrow> j \<in> job_id ` A)"

lemma snd_bt_put: "snd ` set (bt_put k v m) \<subseteq> insert v (snd ` set m)"
  by (induction m) auto

lemma from_set_start: "from_set env A sd \<Longrightarrow> spec \<in> A \<Longrightarrow> from_set env A (start_job spec sd)"
  by (auto simp: from_set_def start_job_def)

lemma from_set_step:
  assumes A: "from_set env A sd" and env: "env = sx_env c" "compute_env_ok env"
    and x: "\<And>now s p. x = InSubmit now s \<Longrightarrow> sx_parse c (submitter_peer_id s) = Some p \<Longrightarrow>
      is_allowed (sd_authority sd) p ComputeSubmit \<Longrightarrow> job_validate env now s = Inr () \<Longrightarrow> s \<in> A"
  shows "from_set env A (sched_step c x sd)"
proof (cases x)
  case (InSubmit now s)
  with A x env show ?thesis by (auto simp: submit_job_def from_set_def split: option.split sum.split)
next
  case (InCancel jid)
  with A show ?thesis by (auto simp: cancel_job_def from_set_def)
next
  case (LoopSubmit now)
  have "from_set env A (on_submit env now sd)"
  proof (cases "sd_submit sd")
    case (Cons s rest)
    then have s: "s \<in> A" using A by (simp add: from_set_def)
    have "\<forall>v s'. v \<in> snd ` set (jobs_tree (snd (enqueue env s (sd_store sd)))) \<and> spec_de env v = Some s' \<longrightarrow> s' \<in> A"
    proof (intro allI impI, elim conjE)
      fix v s'
      assume v: "v \<in> snd ` set (jobs_tree (snd (enqueue env s (sd_store sd))))" and s': "spec_de env v = Some s'"
      then have "v \<in> snd ` set (jobs_tree (sd_store sd)) \<or> spec_ser env s = Some v"
        using snd_bt_put[of "job_key (job_id s)" _ "jobs_tree (sd_store sd)"]
        by (auto simp: enqueue_def split: option.splits if_splits)
      then show "s' \<in> A"
      proof
        assume "spec_ser env s = Some v"
        then have "spec_de env v = Some s" using env(2) by (simp add: compute_env_ok_def)
        with s s' show ?thesis by simp
      qed (use A s' in \<open>auto simp: from_set_def\<close>)
    qed
    with A Cons show ?thesis
      by (auto simp: on_submit_def from_set_def Let_def split: sum.split prod.split)
  qed (use A in \<open>simp add: on_submit_def\<close>)
  with A LoopSubmit env show ?thesis by auto
next
  case LoopCancel
  with A show ?thesis by (auto simp: on_cancel_def from_set_def Let_def split: list.split)
next
  case LoopPoll
  have d: "jobs_tree (snd (dequeue_next env st)) = jobs_tree st \<and>
      (\<forall>s. fst (dequeue_next env st) = Inr (Some s) \<longrightarrow> (\<exists>v\<in>snd ` set (jobs_tree st). spec_de env v = Some s))" for st
    by (auto simp: dequeue_next_def Let_def split: list.split option.split dest!: map_of_SomeD)
       (metis image_eqI snd_conv)
  obtain r st where p: "dequeue_next env (sd_store sd) = (r, st)" by fastforce
  then have j: "jobs_tree st = jobs_tree (sd_store sd)" and s: "\<And>s. r = Inr (Some s) \<Longrightarrow> s \<in> A"
    using d[of "sd_store sd"] A unfolding from_set_def by (simp, metis fst_conv)
  have "from_set env A (sd\<lparr> sd_store := st \<rparr>)" using A j by (simp add: from_set_def)
  then have "from_set env A (on_poll env sd)"
    using A p s by (auto simp: on_poll_def Let_def intro!: from_set_start split: sum.split option.split)
      (auto simp: from_set_def)
  with A LoopPoll env show ?thesis by simp
next
  case (TaskDone i res)
  have j: "jobs_tree (snd (save_result env r st)) = jobs_tree st" for r st
    by (auto simp: save_result_def gc_results_if_needed_def Let_def split: option.split)
  show ?thesis
  proof (cases "sd_waiting sd")
    case None
    with A TaskDone env j show ?thesis by (auto simp: on_task_done_def from_set_def Let_def split: sum.split)
  next
    case (Some w)
    then have "w \<in> A" using A by (simp add: from_set_def)
    with A TaskDone env j Some show ?thesis
      by (auto simp: on_task_done_def Let_def split: sum.split intro!: from_set_start) (auto simp: from_set_def)
  qed
qed

lemma step_authority: "sd_authority (sched_step c x sd) = sd_authority sd"
  by (cases x) (auto simp: submit_job_def cancel_job_def on_submit_def on_cancel_def on_poll_def on_task_done_def start_job_def
      Let_def split: option.split sum.split list.split prod.split)

lemma from_set_run:
  assumes "compute_env_ok (sx_env c)" and "from_set (sx_env c) A sd"
    and "\<And>now s p. InSubmit now s \<in> set xs \<Longrightarrow> sx_parse c (submitter_peer_id s) = Some p \<Longrightarrow>
      is_allowed (sd_authority sd) p ComputeSubmit \<Longrightarrow> job_validate (sx_env c) now s = Inr () \<Longrightarrow> s \<in> A"
  shows "from_set (sx_env c) A (sched_run c xs sd)"
  using assms(2,3)
proof (induction xs arbitrary: sd)
  case (Cons x xs)
  have "from_set (sx_env c) A (sched_step c x sd)"
    using Cons.prems by (intro from_set_step[OF _ refl assms(1)]) auto
  then have "from_set (sx_env c) A (sched_run c xs (sched_step c x sd))"
    by (rule Cons.IH) (use Cons.prems(2) in \<open>auto simp: step_authority\<close>)
  then show ?case by (simp add: sched_run_def)
qed (simp add: sched_run_def)

section \<open>Properties\<close>


definition demo_ctx :: SchedCtx where
  "demo_ctx = \<lparr> sx_env = demo_compute_env, sx_parse = Some, sx_text = (\<lambda>e. []) \<rparr>"

definition demo_compute_authority :: AuthorityManager where
  "demo_compute_authority = \<lparr> inner = default_state\<lparr> supernodes := [''p''] \<rparr>, poisoned = False \<rparr>"

definition demo_inputs :: "SchedInput list" where
  "demo_inputs = [InSubmit 5 (demo_spec 3 ''b''), LoopSubmit 5, LoopPoll]"

lemma demo_allowed: "is_allowed demo_compute_authority ''p'' ComputeSubmit"
  by (simp add: is_allowed_def demo_compute_authority_def evaluate_action_def get_role_def)

lemma demo_valid: "job_validate demo_compute_env 5 (demo_spec 3 ''b'') = Inr ()"
proof -
  have "hex_encode [0] = ''00''" by code_simp
  then show ?thesis
    by (simp add: job_validate_def verify_bytecode_integrity_def demo_compute_env_def demo_spec_def MAX_WASM_BYTECODE_SIZE_def
        limits_validate_def default_limits_def DEFAULT_EXEC_TIMEOUT_MS_def MAX_EXEC_TIMEOUT_MS_def DEFAULT_MEMORY_LIMIT_MB_def)
qed

lemma demo_spec_fields [simp]:
  "job_id (demo_spec t i) = i" "submitter_peer_id (demo_spec t i) = ''p''" "cj_created_at (demo_spec t i) = t"
  by (simp_all add: demo_spec_def)

lemma demo_run:
  "\<exists>sd. sched_run demo_ctx demo_inputs (spawn_scheduler default_scheduler empty_store demo_compute_authority) = sd \<and>
     sd_tasks sd = [demo_spec 3 ''b''] \<and> sd_events sd = [JobQueued ''b'', JobStarted ''b''] \<and> sd_permits sd = 3"
proof -
  have ne: "demo_spec 3 ''b'' \<noteq> demo_spec 7 ''a''" by (simp add: demo_spec_def)
  have "utf8_lossy_job demo_compute_env (as_bytes ''b'') = ''b''" using demo_compute_env_ok by (simp add: compute_env_ok_def)
  then have q: "dequeue_next demo_compute_env (snd (enqueue demo_compute_env (demo_spec 3 ''b'') empty_store)) =
      (Inr (Some (demo_spec 3 ''b'')), empty_store\<lparr> jobs_tree := [(job_key ''b'', [2])] \<rparr>)"
    using ne by (simp add: dequeue_next_def enqueue_def empty_store_def Let_def m_del_def) (simp add: demo_compute_env_def m_del_def)
  have e: "fst (enqueue demo_compute_env (demo_spec 3 ''b'') empty_store) = Inr ()"
    using ne by (simp add: enqueue_def demo_compute_env_def)
  then obtain st where st: "enqueue demo_compute_env (demo_spec 3 ''b'') empty_store = (Inr (), st)" by (cases "enqueue demo_compute_env (demo_spec 3 ''b'') empty_store") auto
  show ?thesis
    using q by (simp add: sched_run_def demo_inputs_def demo_ctx_def submit_job_def spawn_scheduler_def demo_allowed demo_valid
        on_submit_def st on_poll_def start_job_def default_scheduler_def Let_def)
qed


text \<open>
  C26: the limit on concurrent jobs. At every moment of every run the executions and the free permits add up to the configured
  maximum, and every job listed as running is executing; when the loop waits for a permit, all are taken, and the loop
  ignores submissions, cancellations and polls until an execution ends, which then starts the waiting job.
\<close>

theorem scheduler_capacity:
  assumes "sd = sched_run c xs (spawn_scheduler cfg st auth)"
  shows "length (sd_tasks sd) + sd_permits sd = max_concurrent_jobs (sd_config sd) \<and>
    fst ` set (sd_running sd) \<subseteq> job_id ` set (sd_tasks sd) \<and>
    (\<forall>w. sd_waiting sd = Some w \<longrightarrow> sd_permits sd = 0 \<and>
       (\<forall>now. sched_step c (LoopSubmit now) sd = sd) \<and> sched_step c LoopCancel sd = sd \<and> sched_step c LoopPoll sd = sd \<and>
       (\<forall>i res. i < length (sd_tasks sd) \<longrightarrow>
          sd_waiting (sched_step c (TaskDone i res) sd) = None \<and>
          JobStarted (job_id w) \<in> set (sd_events (sched_step c (TaskDone i res) sd))))"
  using sched_ok_run[OF sched_ok_spawn, of c xs cfg st auth] assms
  by (auto simp: sched_ok_def on_task_done_def Let_def start_job_def split: sum.split)

theorem scheduler_capacity_witness:
  "\<exists>sd. sched_run demo_ctx demo_inputs (spawn_scheduler default_scheduler empty_store demo_compute_authority) = sd \<and>
     length (sd_tasks sd) = 1 \<and> length (sd_tasks sd) + sd_permits sd = max_concurrent_jobs (sd_config sd)"
  using demo_run scheduler_capacity[OF refl, of demo_ctx demo_inputs default_scheduler empty_store demo_compute_authority] by auto

text \<open>
  Cancelling a running job does not end it: its token is not given to the executor. The job is reported as cancelled,
  keeps its permit, is still executing, and when it ends, its result is stored and it is reported as completed; with all
  permits taken, the loop blocks on the next queued job although a place looks free.
\<close>

theorem cancelled_job_runs_on:
  assumes "sd_waiting sd = None" "sd_cancel sd = []" and i: "i < length (sd_tasks sd)" "jid = job_id (sd_tasks sd ! i)"
    and run: "map_of (sd_running sd) jid \<noteq> None"
    and sd': "sd' = sched_run c [InCancel jid, LoopCancel] sd"
  shows "JobCancelled jid \<in> set (sd_events sd') \<and> map_of (sd_running sd') jid = None \<and> sd_tasks sd' = sd_tasks sd \<and>
    sd_permits sd' = sd_permits sd \<and>
    JobCompleted jid r \<in> set (sd_events (sched_step c (TaskDone i (Inr r)) sd')) \<and>
    (sd_permits sd = 0 \<and> length (sd_running sd') < max_concurrent_jobs (sd_config sd) \<and>
       dequeue_next (sx_env c) (sd_store sd) = (Inr (Some w), st) \<longrightarrow>
       sd_waiting (sched_step c LoopPoll sd') = Some w)"
proof -
  have s: "sd' = emit (JobCancelled jid) (sd\<lparr> sd_running := m_del jid (hm_put jid True (sd_running sd)), sd_cancel := [] \<rparr>)"
    using assms(1,2) run unfolding sd' by (auto simp: sched_run_def cancel_job_def on_cancel_def Let_def container_simps)
  show ?thesis
    using i assms(1) unfolding s by (auto simp: container_simps on_task_done_def Let_def on_poll_def)
qed

text \<open>
  The submitter named in a job is not tied to the key that signs it: whoever can sign with some key gets a
  job accepted in the name of any peer that may submit.
\<close>

theorem forged_submitter_accepted:
  assumes key: "pk \<noteq> []" "ce_key_ok env pk" and sign: "\<forall>d. sign d \<noteq> [] \<and> ce_sig_ok env (sign d) \<and> ce_verify env pk d (sign d)"
    and victim: "parse_peer victim = Some p" "is_allowed (sd_authority sd) p ComputeSubmit" "victim \<noteq> []"
    and code: "length code \<le> 4194304" and time: "unat (ts :: u64) = now"
  shows "\<exists>spec. submitter_peer_id spec = victim \<and> submitter_pubkey spec = pk \<and> wasm_bytecode spec = code \<and>
    fst (submit_job env parse_peer now spec sd) = Inr (job_id spec)"
proof -
  define s0 where "s0 = \<lparr> job_id = ''x'', wasm_hash = hex_encode (ce_sha256 env code), wasm_bytecode = code, input_data = [],
    env_vars = [], limits = default_limits, submitter_peer_id = victim, cj_signature = [], submitter_pubkey = pk,
    cj_created_at = ts, api_version = 1 \<rparr>"
  let ?s = "s0\<lparr> cj_signature := sign (job_signing_bytes s0) \<rparr>"
  have "job_signing_bytes ?s = job_signing_bytes s0" by (simp add: job_signing_bytes_def)
  then have "job_validate env now ?s = Inr ()"
    using key sign victim(3) code time
    by (auto simp: job_validate_def s0_def MAX_WASM_BYTECODE_SIZE_def verify_bytecode_integrity_def limits_validate_def
        default_limits_def DEFAULT_EXEC_TIMEOUT_MS_def MAX_EXEC_TIMEOUT_MS_def DEFAULT_MEMORY_LIMIT_MB_def)
  then have "fst (submit_job env parse_peer now ?s sd) = Inr (job_id ?s)"
    using victim by (simp add: submit_job_def s0_def)
  then show ?thesis by (intro exI[of _ ?s]) (simp add: s0_def)
qed

end
