(* ===== verification/Merkle_Dag.thy ===== *)
theory Merkle_Dag
  imports Prelude
begin

text \<open>
  The audit trail of the replicated state, \<^verbatim>\<open>merkle_dag.rs\<close>: a bounded queue of nodes, each
  with the hash of the serialized state and the hash of its predecessor. The SHA-256
  function and the clock are arguments.
\<close>

definition MAX_DAG_NODES :: nat where
  "MAX_DAG_NODES = 1024"

record MerkleNode =
  index :: u64
  state_hash :: string
  parent_hash :: "string option"
  timestamp :: nat
  metadata :: string

record MerkleDag =
  nodes :: "MerkleNode list"
  next_index :: u64

definition new_dag :: MerkleDag where
  "new_dag = \<lparr> nodes = [], next_index = 0 \<rparr>"

definition add_state_json :: "(u8 list \<Rightarrow> u8 list) \<Rightarrow> nat \<Rightarrow> string \<Rightarrow> MerkleDag \<Rightarrow> MerkleDag" where
  "add_state_json sha256 now json d =
     (let hash = hex_encode (sha256 (as_bytes json));
          parent = (if nodes d = [] then None else Some (state_hash (last (nodes d))));
          node = \<lparr> index = next_index d, state_hash = hash, parent_hash = parent,
                   timestamp = now, metadata = [] \<rparr>
      in \<lparr> nodes = trim_front MAX_DAG_NODES (nodes d @ [node]), next_index = next_index d + 1 \<rparr>)"

definition verify_chain :: "MerkleDag \<Rightarrow> bool" where
  "verify_chain d \<longleftrightarrow>
     list_all (\<lambda>(i, node).
       if i = 0 then True else parent_hash node = Some (state_hash (nodes d ! (i - 1))))
       (List.enumerate 0 (nodes d))"

definition dag_len :: "MerkleDag \<Rightarrow> nat" where
  "dag_len d = length (nodes d)"

section \<open>The chain invariant\<close>

lemma verify_chain_iff:
  "verify_chain d \<longleftrightarrow>
     (\<forall>i. Suc i < length (nodes d) \<longrightarrow> parent_hash (nodes d ! Suc i) = Some (state_hash (nodes d ! i)))"
proof -
  have "verify_chain d \<longleftrightarrow> (\<forall>i<length (nodes d). i \<noteq> 0 \<longrightarrow>
      parent_hash (nodes d ! i) = Some (state_hash (nodes d ! (i - 1))))"
    by (fastforce simp: verify_chain_def list_all_length nth_enumerate_eq)
  also have "\<dots> \<longleftrightarrow> (\<forall>i. Suc i < length (nodes d) \<longrightarrow>
      parent_hash (nodes d ! Suc i) = Some (state_hash (nodes d ! i)))"
    by (auto simp: gr0_conv_Suc)
  finally show ?thesis .
qed

definition dag_ok :: "MerkleDag \<Rightarrow> bool" where
  "dag_ok d \<longleftrightarrow> length (nodes d) \<le> MAX_DAG_NODES \<and> verify_chain d \<and>
     (\<forall>i<length (nodes d). index (nodes d ! i) = next_index d - of_nat (length (nodes d) - i))"

lemma dag_ok_new: "dag_ok new_dag"
  by (simp add: dag_ok_def new_dag_def verify_chain_iff)

lemma dag_ok_add: "dag_ok d \<Longrightarrow> dag_ok (add_state_json sha now json d)"
proof -
  assume ok: "dag_ok d"
  let ?n = "\<lparr> index = next_index d, state_hash = hex_encode (sha (as_bytes json)),
      parent_hash = (if nodes d = [] then None else Some (state_hash (last (nodes d)))),
      timestamp = now, metadata = [] \<rparr>"
  let ?ns = "nodes d @ [?n]"
  let ?k = "length ?ns - MAX_DAG_NODES"
  have full: "Suc i < length ?ns \<Longrightarrow> parent_hash (?ns ! Suc i) = Some (state_hash (?ns ! i))" for i
  proof (cases "Suc i = length (nodes d)")
    case True
    then have "nodes d \<noteq> []" "length (nodes d) - 1 = i" by auto
    with True show ?thesis by (simp add: nth_append last_conv_nth)
  next
    case False
    moreover assume "Suc i < length ?ns"
    ultimately show ?thesis using ok by (simp add: dag_ok_def verify_chain_iff nth_append)
  qed
  have idx: "i < length ?ns \<Longrightarrow> index (?ns ! i) = next_index d + 1 - of_nat (length ?ns - i)" for i
    using ok by (auto simp: dag_ok_def nth_append less_Suc_eq Suc_diff_le algebra_simps)
  have d': "add_state_json sha now json d = \<lparr> nodes = drop ?k ?ns, next_index = next_index d + 1 \<rparr>"
    by (simp add: add_state_json_def trim_front_drop Let_def)
  obtain ns where ns: "ns = ?ns" by blast
  have "dag_ok \<lparr> nodes = drop (length ns - MAX_DAG_NODES) ns, next_index = next_index d + 1 \<rparr>"
    using full idx unfolding ns[symmetric] dag_ok_def verify_chain_iff by auto
  then show ?thesis unfolding d' ns .
qed

text \<open>The DAG after adding a sequence of serialized states.\<close>

fun add_states :: "(u8 list \<Rightarrow> u8 list) \<Rightarrow> (nat \<times> string) list \<Rightarrow> MerkleDag \<Rightarrow> MerkleDag" where
  "add_states sha [] d = d"
| "add_states sha ((now, json) # js) d = add_states sha js (add_state_json sha now json d)"

lemma dag_ok_add_states: "dag_ok d \<Longrightarrow> dag_ok (add_states sha js d)"
  by (induction sha js d rule: add_states.induct) (simp_all add: dag_ok_add)

lemma hashes_add_states:
  "\<exists>k. map state_hash (nodes (add_states sha js d)) =
     drop k (map state_hash (nodes d) @ map (\<lambda>(now, json). hex_encode (sha (as_bytes json))) js)"
proof (induction sha js d rule: add_states.induct)
  case (1 sha d)
  then show ?case by (intro exI[of _ 0]) simp
next
  case (2 sha now json js d)
  let ?d = "add_state_json sha now json d"
  obtain k where k: "map state_hash (nodes (add_states sha js ?d)) =
      drop k (map state_hash (nodes ?d) @ map (\<lambda>(now, json). hex_encode (sha (as_bytes json))) js)"
    using 2 by blast
  have "\<exists>j. map state_hash (nodes ?d) =
      drop j (map state_hash (nodes d) @ [hex_encode (sha (as_bytes json))])
      \<and> j \<le> length (nodes d) + 1"
    by (intro exI[of _ "length (nodes d) + 1 - MAX_DAG_NODES"])
       (simp add: add_state_json_def trim_front_drop Let_def drop_map MAX_DAG_NODES_def)
  then obtain j where "map state_hash (nodes ?d) =
      drop j (map state_hash (nodes d) @ [hex_encode (sha (as_bytes json))])" "j \<le> length (nodes d) + 1"
    by blast
  then have eq: "map state_hash (nodes ?d) @ map (\<lambda>(now, json). hex_encode (sha (as_bytes json))) js =
      drop j (map state_hash (nodes d) @ map (\<lambda>(now, json). hex_encode (sha (as_bytes json))) ((now, json) # js))"
    by (cases "j = Suc (length (nodes d))") auto
  show ?case using k unfolding eq drop_drop add_states.simps by blast
qed

section \<open>Properties\<close>

text \<open>
  Whatever states are recorded, the audit trail verifies, never holds more than
  \<^verbatim>\<open>MAX_DAG_NODES\<close> nodes, numbers them consecutively up to the next index, and keeps the
  hashes of the most recent states in order; and replacing the hash of any node that has a
  successor makes \<^verbatim>\<open>verify_chain\<close> fail.
\<close>

theorem dag_trail:
  assumes "d = add_states sha js new_dag"
  shows "verify_chain d \<and> dag_len d \<le> MAX_DAG_NODES \<and>
    (\<forall>i<dag_len d. index (nodes d ! i) = next_index d - of_nat (dag_len d - i)) \<and>
    (\<exists>k. map state_hash (nodes d) = drop k (map (\<lambda>(now, json). hex_encode (sha (as_bytes json))) js)) \<and>
    (\<forall>i h. Suc i < dag_len d \<and> h \<noteq> state_hash (nodes d ! i) \<longrightarrow>
       \<not> verify_chain (d\<lparr> nodes := (nodes d)[i := (nodes d ! i)\<lparr> state_hash := h \<rparr>] \<rparr>))"
proof -
  have ok: "dag_ok d" unfolding assms by (rule dag_ok_add_states[OF dag_ok_new])
  have "\<not> verify_chain (d\<lparr> nodes := (nodes d)[i := (nodes d ! i)\<lparr> state_hash := h \<rparr>] \<rparr>)"
    if "Suc i < length (nodes d)" "h \<noteq> state_hash (nodes d ! i)" for i h
    using ok that by (auto simp: dag_ok_def verify_chain_iff nth_list_update intro!: exI[of _ i])
  moreover have "\<exists>k. map state_hash (nodes d) = drop k (map (\<lambda>(now, json). hex_encode (sha (as_bytes json))) js)"
    using hashes_add_states[of sha js new_dag] unfolding assms by (simp add: new_dag_def)
  ultimately show ?thesis using ok by (simp add: dag_ok_def dag_len_def)
qed

theorem dag_trail_witness:
  "verify_chain (add_states (\<lambda>bs. bs) [(1, ''a''), (2, ''b'')] new_dag) \<and>
   \<not> verify_chain ((add_states (\<lambda>bs. bs) [(1, ''a''), (2, ''b'')] new_dag)
      \<lparr> nodes := (nodes (add_states (\<lambda>bs. bs) [(1, ''a''), (2, ''b'')] new_dag))
          [0 := (nodes (add_states (\<lambda>bs. bs) [(1, ''a''), (2, ''b'')] new_dag) ! 0)\<lparr> state_hash := ''x'' \<rparr>] \<rparr>)"
proof -
  let ?d = "add_states (\<lambda>bs. bs) [(1, ''a''), (2, ''b'')] new_dag"
  have len: "Suc 0 < dag_len ?d"
    by (simp add: dag_len_def new_dag_def add_state_json_def Let_def MAX_DAG_NODES_def)
  have h: "''x'' \<noteq> state_hash (nodes ?d ! 0)"
    by (simp add: new_dag_def add_state_json_def Let_def MAX_DAG_NODES_def hex_encode_def as_bytes_def)
  show ?thesis
    using dag_trail[of ?d "\<lambda>bs. bs" "[(1, ''a''), (2, ''b'')]"] len h by blast
qed

end
