(* ===== verification/Crdt_State.thy ===== *)
theory Crdt_State
  imports Merkle_Dag
begin

text \<open>
  The replicated state, \<^verbatim>\<open>crdt_state.rs\<close>: the last-write-wins register, the grow-only set and
  counter, the observed-remove set, the peer registry and the container \<^verbatim>\<open>CrdtWorldState\<close>
  with its merge. The clock, the UUID tags, SHA-256 and the JSON encoder are arguments.

  The contract of a merge is a locale: on a set of admissible states that is closed under
  merging, a view of the merged state is the join of the views, and the join is
  commutative, associative and idempotent. Convergence, whatever the order, grouping and
  repetition of the merges, is proved once in the locale and holds of every data type and of
  the container by interpretation.
\<close>

section \<open>Data types\<close>

record 'a LwwRegister =
  lww_value :: 'a
  lww_ts :: nat
  lww_node :: string

definition lww_new :: "nat \<Rightarrow> 'a \<Rightarrow> string \<Rightarrow> 'a LwwRegister" where
  "lww_new now v n = \<lparr> lww_value = v, lww_ts = now, lww_node = n \<rparr>"

definition lww_set :: "nat \<Rightarrow> 'a \<Rightarrow> string \<Rightarrow> 'a LwwRegister \<Rightarrow> 'a LwwRegister" where
  "lww_set now v n r = r\<lparr> lww_value := v, lww_ts := now, lww_node := n \<rparr>"

definition lww_merge :: "'a LwwRegister \<Rightarrow> 'a LwwRegister \<Rightarrow> 'a LwwRegister" where
  "lww_merge r other =
     (if lww_ts other > lww_ts r \<or> lww_ts other = lww_ts r \<and> lww_node other > lww_node r
      then r\<lparr> lww_value := lww_value other, lww_ts := lww_ts other, lww_node := lww_node other \<rparr>
      else r)"

type_synonym 'a GSet = "('a, nat) btree"

definition gset_insert :: "nat \<Rightarrow> 'a::linorder \<Rightarrow> 'a GSet \<Rightarrow> 'a GSet" where
  "gset_insert now item s = (case map_of s item of Some t \<Rightarrow> s | None \<Rightarrow> bt_put item now s)"

definition gset_contains :: "'a GSet \<Rightarrow> 'a \<Rightarrow> bool" where
  "gset_contains s item \<longleftrightarrow> map_of s item \<noteq> None"

text \<open>\<^verbatim>\<open>entry(k).or_insert(v)\<close> keeps an entry that is present.\<close>

definition or_insert :: "'v option \<Rightarrow> 'v \<Rightarrow> 'v option" where
  "or_insert own v = (case own of Some w \<Rightarrow> None | None \<Rightarrow> Some v)"

definition gset_merge :: "'a::linorder GSet \<Rightarrow> 'a GSet \<Rightarrow> 'a GSet" where
  "gset_merge s other = upd_loop map_of bt_put or_insert other s"

type_synonym GCounter = "(string, u64) btree"

definition or_zero :: "u64 option \<Rightarrow> u64" where
  "or_zero own = (case own of None \<Rightarrow> 0 | Some w \<Rightarrow> w)"

definition gc_increment :: "string \<Rightarrow> u64 \<Rightarrow> GCounter \<Rightarrow> GCounter" where
  "gc_increment replica delta c = bt_put replica (or_zero (map_of c replica) + delta) c"

definition gc_total :: "GCounter \<Rightarrow> u64" where
  "gc_total c = sum_list (map snd c)"

definition max_entry :: "u64 option \<Rightarrow> u64 \<Rightarrow> u64 option" where
  "max_entry own v = Some (max (or_zero own) v)"

definition gc_merge :: "GCounter \<Rightarrow> GCounter \<Rightarrow> GCounter" where
  "gc_merge c other = upd_loop map_of bt_put max_entry other c"

record 'a ORSet =
  or_entries :: "('a, u64 set) btree"
  or_removed :: "u64 set"

definition or_default :: "'a ORSet" where
  "or_default = \<lparr> or_entries = [], or_removed = {} \<rparr>"

text \<open>\<open>u1\<close> and \<open>u2\<close> are the two UUIDs, as pairs of 64-bit halves.\<close>

unbundle bit_operations_syntax

definition or_tag :: "u64 \<times> u64 \<Rightarrow> u64 \<times> u64 \<Rightarrow> u64" where
  "or_tag u1 u2 = fst u1 XOR snd u2"

definition tags_of :: "u64 set option \<Rightarrow> u64 set" where
  "tags_of t = (case t of None \<Rightarrow> {} | Some s \<Rightarrow> s)"

definition or_add :: "u64 \<Rightarrow> 'a::linorder \<Rightarrow> 'a ORSet \<Rightarrow> 'a ORSet" where
  "or_add tag item s =
     s\<lparr> or_entries := bt_put item (insert tag (tags_of (map_of (or_entries s) item))) (or_entries s) \<rparr>"

definition or_remove :: "'a \<Rightarrow> 'a ORSet \<Rightarrow> 'a ORSet" where
  "or_remove item s =
     (case map_of (or_entries s) item of
        None \<Rightarrow> s
      | Some tags \<Rightarrow> \<lparr> or_entries = m_del item (or_entries s), or_removed = or_removed s \<union> tags \<rparr>)"

definition or_contains :: "'a ORSet \<Rightarrow> 'a \<Rightarrow> bool" where
  "or_contains s item \<longleftrightarrow>
     (case map_of (or_entries s) item of None \<Rightarrow> False | Some tags \<Rightarrow> \<not> tags \<subseteq> or_removed s)"

definition or_elements :: "'a ORSet \<Rightarrow> 'a list" where
  "or_elements s = map fst (or_entries s)"

definition add_tags :: "u64 set option \<Rightarrow> u64 set \<Rightarrow> u64 set option" where
  "add_tags own tags = Some (tags_of own \<union> tags)"

definition or_merge :: "'a::linorder ORSet \<Rightarrow> 'a ORSet \<Rightarrow> 'a ORSet" where
  "or_merge s other =
     (let ents = upd_loop map_of bt_put add_tags (or_entries other) (or_entries s);
          rem = or_removed s \<union> or_removed other
      in \<lparr> or_entries = m_retain (\<lambda>item tags. \<not> tags \<subseteq> rem) ents, or_removed = rem \<rparr>)"

record PeerEntry =
  pe_peer_id :: string
  pe_role :: string
  pe_connected :: bool
  pe_trusted :: bool
  pe_reputation :: real
  pe_last_seen :: nat

type_synonym PeerRegistry = "(string, PeerEntry \<times> nat) btree"

definition newer :: "(PeerEntry \<times> nat) option \<Rightarrow> PeerEntry \<times> nat \<Rightarrow> (PeerEntry \<times> nat) option" where
  "newer own ev =
     (case own of
        Some (e, existing_ts) \<Rightarrow> if existing_ts \<ge> snd ev then None else Some ev
      | None \<Rightarrow> Some ev)"

definition pr_upsert :: "PeerEntry \<Rightarrow> nat \<Rightarrow> PeerRegistry \<Rightarrow> PeerRegistry" where
  "pr_upsert entry ts reg =
     (case newer (map_of reg (pe_peer_id entry)) (entry, ts) of
        None \<Rightarrow> reg
      | Some ev \<Rightarrow> bt_put (pe_peer_id entry) ev reg)"

definition pr_merge :: "PeerRegistry \<Rightarrow> PeerRegistry \<Rightarrow> PeerRegistry" where
  "pr_merge reg other = upd_loop map_of bt_put newer other reg"

definition pr_get :: "PeerRegistry \<Rightarrow> string \<Rightarrow> PeerEntry option" where
  "pr_get reg peer_id = map_option fst (map_of reg peer_id)"

definition pr_all_peers :: "PeerRegistry \<Rightarrow> PeerEntry list" where
  "pr_all_peers reg = map (fst \<circ> snd) reg"

definition pr_connected_peers :: "PeerRegistry \<Rightarrow> PeerEntry list" where
  "pr_connected_peers reg = filter pe_connected (pr_all_peers reg)"

record CrdtWorldState =
  cw_node_id :: string
  vector_clock :: "(string, u64) btree"
  peers :: PeerRegistry
  known_peer_ids :: "string GSet"
  network_status :: "string LwwRegister"
  ghost_state :: "string LwwRegister"
  finance_counter :: GCounter
  asset_ownership :: "string ORSet"
  dag :: MerkleDag

definition crdt_new :: "nat \<Rightarrow> string \<Rightarrow> CrdtWorldState" where
  "crdt_new now nid =
     \<lparr> cw_node_id = nid, vector_clock = [(nid, 0)], peers = [], known_peer_ids = [],
       network_status = lww_new now ''initializing'' nid, ghost_state = lww_new now ''init'' nid,
       finance_counter = [], asset_ownership = or_default, dag = new_dag \<rparr>"

definition crdt_tick :: "CrdtWorldState \<Rightarrow> CrdtWorldState" where
  "crdt_tick s = s\<lparr> vector_clock := gc_increment (cw_node_id s) 1 (vector_clock s) \<rparr>"

definition crdt_merge :: "(u8 list \<Rightarrow> u8 list) \<Rightarrow> (CrdtWorldState \<Rightarrow> string) \<Rightarrow> nat \<Rightarrow>
    CrdtWorldState \<Rightarrow> CrdtWorldState \<Rightarrow> CrdtWorldState" where
  "crdt_merge sha256 to_json now s other =
     (let s = s\<lparr> vector_clock := upd_loop map_of bt_put max_entry (vector_clock other) (vector_clock s),
                 peers := pr_merge (peers s) (peers other),
                 known_peer_ids := gset_merge (known_peer_ids s) (known_peer_ids other),
                 network_status := lww_merge (network_status s) (network_status other),
                 ghost_state := lww_merge (ghost_state s) (ghost_state other),
                 finance_counter := gc_merge (finance_counter s) (finance_counter other),
                 asset_ownership := or_merge (asset_ownership s) (asset_ownership other) \<rparr>
      in s\<lparr> dag := add_state_json sha256 now (to_json s) (dag s) \<rparr>)"

fun dom_loop :: "(string, u64) btree \<Rightarrow> (string, u64) btree \<Rightarrow> bool \<Rightarrow> bool" where
  "dom_loop theirs [] one_greater = one_greater"
| "dom_loop theirs ((node, our_count) # rest) one_greater =
     (let their_count = or_zero (map_of theirs node) in
      if our_count < their_count then False
      else dom_loop theirs rest (if our_count > their_count then True else one_greater))"

definition dominates :: "CrdtWorldState \<Rightarrow> CrdtWorldState \<Rightarrow> bool" where
  "dominates s other = dom_loop (vector_clock other) (vector_clock s) False"

definition update_peer :: "(u8 list \<Rightarrow> u8 list) \<Rightarrow> (CrdtWorldState \<Rightarrow> string) \<Rightarrow> nat \<Rightarrow>
    string \<Rightarrow> string \<Rightarrow> bool \<Rightarrow> bool \<Rightarrow> CrdtWorldState \<Rightarrow> CrdtWorldState" where
  "update_peer sha256 to_json now pid rl conn trust s =
     (let s = crdt_tick s;
          s = s\<lparr> known_peer_ids := gset_insert now pid (known_peer_ids s),
                 peers := pr_upsert \<lparr> pe_peer_id = pid, pe_role = rl, pe_connected = conn,
                   pe_trusted = trust, pe_reputation = 1, pe_last_seen = now \<rparr> now (peers s) \<rparr>
      in s\<lparr> dag := add_state_json sha256 now (to_json s) (dag s) \<rparr>)"

section \<open>The contract of a merge\<close>

locale convergent =
  fixes ok :: "'s \<Rightarrow> bool"
    and merge :: "'s \<Rightarrow> 's \<Rightarrow> 's"
    and view :: "'s \<Rightarrow> 'v"
    and join :: "'v \<Rightarrow> 'v \<Rightarrow> 'v"
  assumes ok_merge: "ok a \<Longrightarrow> ok b \<Longrightarrow> ok (merge a b)"
    and view_merge: "ok a \<Longrightarrow> ok b \<Longrightarrow> view (merge a b) = join (view a) (view b)"
    and join_comm: "ok a \<Longrightarrow> ok b \<Longrightarrow> join (view a) (view b) = join (view b) (view a)"
    and join_assoc: "ok a \<Longrightarrow> ok b \<Longrightarrow> ok c \<Longrightarrow>
      join (join (view a) (view b)) (view c) = join (view a) (join (view b) (view c))"
    and join_idem: "ok a \<Longrightarrow> join (view a) (view a) = view a"
begin

definition below :: "'s \<Rightarrow> 's \<Rightarrow> bool" where
  "below a b \<longleftrightarrow> join (view a) (view b) = view b"

lemma below_antisym: "ok a \<Longrightarrow> ok b \<Longrightarrow> below a b \<Longrightarrow> below b a \<Longrightarrow> view a = view b"
  unfolding below_def using join_comm by metis

lemma below_merge1: "ok a \<Longrightarrow> ok b \<Longrightarrow> below a (merge a b)"
  unfolding below_def using view_merge join_assoc join_idem by metis

lemma below_merge2: "ok a \<Longrightarrow> ok b \<Longrightarrow> below b (merge a b)"
  unfolding below_def using view_merge join_assoc join_idem join_comm by metis

lemma below_trans: "ok a \<Longrightarrow> ok b \<Longrightarrow> ok c \<Longrightarrow> below a b \<Longrightarrow> below b c \<Longrightarrow> below a c"
  unfolding below_def using join_assoc by metis

lemma merge_least: "ok a \<Longrightarrow> ok b \<Longrightarrow> ok c \<Longrightarrow> below a c \<Longrightarrow> below b c \<Longrightarrow> below (merge a b) c"
  unfolding below_def using view_merge join_assoc by metis

lemma ok_fold: "ok s \<Longrightarrow> \<forall>u\<in>set us. ok u \<Longrightarrow> ok (foldl merge s us)"
  by (induction us arbitrary: s) (simp_all add: ok_merge)

lemma fold_upper: "ok s \<Longrightarrow> \<forall>u\<in>set us. ok u \<Longrightarrow> x \<in> insert s (set us) \<Longrightarrow> below x (foldl merge s us)"
proof (induction us arbitrary: s x)
  case Nil
  then show ?case by (simp add: below_def join_idem)
next
  case (Cons u us)
  have okm: "ok (merge s u)" and oku: "\<forall>u\<in>set us. ok u"
    using Cons.prems by (simp_all add: ok_merge)
  have up: "below (merge s u) (foldl merge (merge s u) us)"
    using Cons.IH[OF okm oku] by simp
  show ?case
  proof (cases "x = s \<or> x = u")
    case True
    then have "below x (merge s u)" "ok x"
      using Cons.prems below_merge1 below_merge2 by auto
    then show ?thesis
      using below_trans[OF _ okm ok_fold[OF okm oku]] up by simp
  next
    case False
    then show ?thesis using Cons okm oku by simp
  qed
qed

lemma fold_least:
  "ok s \<Longrightarrow> \<forall>u\<in>set us. ok u \<Longrightarrow> ok w \<Longrightarrow> \<forall>x\<in>insert s (set us). below x w \<Longrightarrow>
   below (foldl merge s us) w"
  by (induction us arbitrary: s) (simp_all add: ok_merge merge_least)

text \<open>
  Two replicas that have seen the same set of states, each starting from one of them, agree.
\<close>

lemma convergence:
  assumes "ok s" "\<forall>u\<in>set us. ok u" "ok t" "\<forall>v\<in>set vs. ok v"
    and "insert s (set us) = insert t (set vs)"
  shows "view (foldl merge s us) = view (foldl merge t vs)"
proof (rule below_antisym)
  show ok1: "ok (foldl merge s us)" and ok2: "ok (foldl merge t vs)"
    using assms ok_fold by blast+
  show "below (foldl merge s us) (foldl merge t vs)"
    using fold_least[OF assms(1,2) ok2] fold_upper[OF assms(3,4)] assms(5) by blast
  show "below (foldl merge t vs) (foldl merge s us)"
    using fold_least[OF assms(3,4) ok1] fold_upper[OF assms(1,2)] assms(5) by blast
qed

lemma merge_comm: "ok a \<Longrightarrow> ok b \<Longrightarrow> view (merge a b) = view (merge b a)"
  by (simp add: view_merge join_comm)

lemma merge_idem: "ok a \<Longrightarrow> view (merge a a) = view a"
  by (simp add: view_merge join_idem)

lemma merge_absorbs: "ok a \<Longrightarrow> ok b \<Longrightarrow> view (merge (merge a b) b) = view (merge a b)"
  by (metis join_assoc join_idem ok_merge view_merge)

end

section \<open>The data types keep the contract\<close>

text \<open>
  Two writes of a register with the same time stamp and node carry the same value: a node
  writes at most once per clock value. \<open>val\<close> is the value written by a node at a time.
\<close>

definition lww_ok :: "(nat \<Rightarrow> string \<Rightarrow> 'a) \<Rightarrow> 'a LwwRegister \<Rightarrow> bool" where
  "lww_ok val r \<longleftrightarrow> lww_value r = val (lww_ts r) (lww_node r)"

lemma lww_key_eq: "lww_ok val a \<Longrightarrow> lww_ok val b \<Longrightarrow> lww_ts a = lww_ts b \<Longrightarrow> lww_node a = lww_node b \<Longrightarrow> a = b"
  by (simp add: lww_ok_def)

interpretation lww: convergent "lww_ok val" lww_merge "\<lambda>r. r" lww_merge
  for val :: "nat \<Rightarrow> string \<Rightarrow> 'a"
proof unfold_locales
  fix a b c :: "'a LwwRegister"
  show "lww_ok val a \<Longrightarrow> lww_ok val b \<Longrightarrow> lww_ok val (lww_merge a b)"
    by (simp add: lww_ok_def lww_merge_def)
  show "lww_ok val a \<Longrightarrow> lww_ok val b \<Longrightarrow> lww_merge a b = lww_merge b a"
    using lww_key_eq[of val a b] by (auto simp: lww_merge_def)
  show "lww_merge (lww_merge a b) c = lww_merge a (lww_merge b c)"
    by (auto simp: lww_merge_def)
qed (simp_all add: lww_merge_def)

interpretation gset: convergent "bt_ok :: 'a::linorder GSet \<Rightarrow> bool" gset_merge "\<lambda>s. dom (map_of s)" "(\<union>)"
proof unfold_locales
  fix a b :: "'a GSet"
  show "bt_ok a \<Longrightarrow> bt_ok b \<Longrightarrow> bt_ok (gset_merge a b)"
    by (simp add: gset_merge_def bt.upd_loop_ok)
  show "bt_ok a \<Longrightarrow> bt_ok b \<Longrightarrow> dom (map_of (gset_merge a b)) = dom (map_of a) \<union> dom (map_of b)"
    by (auto simp: gset_merge_def bt.upd_loop_get bt_ok_distinct or_insert_def dom_def split: option.splits)
qed auto

text \<open>Pointwise combination of two finite maps by the update of a merge loop.\<close>

definition pointwise :: "('v option \<Rightarrow> 'v \<Rightarrow> 'v option) \<Rightarrow> ('k \<rightharpoonup> 'v) \<Rightarrow> ('k \<rightharpoonup> 'v) \<Rightarrow> ('k \<rightharpoonup> 'v)" where
  "pointwise f m n = (\<lambda>k. case n k of None \<Rightarrow> m k
     | Some v \<Rightarrow> (case f (m k) v of None \<Rightarrow> m k | Some w \<Rightarrow> Some w))"

lemma upd_loop_pointwise:
  "bt_ok other \<Longrightarrow> map_of (upd_loop map_of bt_put f other m) = pointwise f (map_of m) (map_of other)"
  by (rule ext) (simp add: pointwise_def bt.upd_loop_get bt_ok_distinct)

interpretation gc: convergent bt_ok gc_merge map_of "pointwise max_entry"
proof unfold_locales
  fix a b c :: GCounter
  show "bt_ok a \<Longrightarrow> bt_ok b \<Longrightarrow> bt_ok (gc_merge a b)"
    by (simp add: gc_merge_def bt.upd_loop_ok)
  show "bt_ok a \<Longrightarrow> bt_ok b \<Longrightarrow> map_of (gc_merge a b) = pointwise max_entry (map_of a) (map_of b)"
    by (simp add: gc_merge_def upd_loop_pointwise)
  show "pointwise max_entry (map_of a) (map_of b) = pointwise max_entry (map_of b) (map_of a)"
    by (rule ext) (auto simp: pointwise_def max_entry_def or_zero_def max.commute split: option.split)
  show "pointwise max_entry (pointwise max_entry (map_of a) (map_of b)) (map_of c) =
      pointwise max_entry (map_of a) (pointwise max_entry (map_of b) (map_of c))"
    by (rule ext) (auto simp: pointwise_def max_entry_def or_zero_def max.assoc split: option.split)
  show "pointwise max_entry (map_of a) (map_of a) = map_of a"
    by (rule ext) (auto simp: pointwise_def max_entry_def or_zero_def split: option.split)
qed

text \<open>The observable content of an observed-remove set: the live tags of every item.\<close>

definition live :: "'a ORSet \<Rightarrow> 'a \<Rightarrow> u64 set" where
  "live s item = tags_of (map_of (or_entries s) item) - or_removed s"

definition or_view :: "'a ORSet \<Rightarrow> u64 set \<times> ('a \<Rightarrow> u64 set)" where
  "or_view s = (or_removed s, live s)"

definition or_join :: "u64 set \<times> ('a \<Rightarrow> u64 set) \<Rightarrow> u64 set \<times> ('a \<Rightarrow> u64 set) \<Rightarrow>
    u64 set \<times> ('a \<Rightarrow> u64 set)" where
  "or_join a b = (fst a \<union> fst b, \<lambda>i. (snd a i \<union> snd b i) - (fst a \<union> fst b))"

definition or_ok :: "'a::linorder ORSet \<Rightarrow> bool" where
  "or_ok s \<longleftrightarrow> bt_ok (or_entries s)"

lemma or_contains_live: "or_contains s item \<longleftrightarrow> live s item \<noteq> {}"
  by (auto simp: or_contains_def live_def tags_of_def split: option.split)

lemma or_ok_merge: "or_ok a \<Longrightarrow> or_ok (or_merge a b)"
  by (simp add: or_ok_def or_merge_def Let_def bt_ok_m_retain bt.upd_loop_ok)

lemma live_merge:
  assumes "or_ok a" "or_ok b"
  shows "live (or_merge a b) i = (live a i \<union> live b i) - (or_removed a \<union> or_removed b)"
proof -
  let ?e = "upd_loop map_of bt_put add_tags (or_entries b) (or_entries a)"
  let ?r = "or_removed a \<union> or_removed b"
  have d: "distinct (map fst ?e)"
    using assms by (simp add: or_ok_def bt_ok_distinct bt.upd_loop_ok)
  have "tags_of (map_of ?e i) = tags_of (map_of (or_entries a) i) \<union> tags_of (map_of (or_entries b) i)"
    using assms by (auto simp: or_ok_def bt.upd_loop_get bt_ok_distinct add_tags_def tags_of_def
        split: option.splits)
  moreover have "live (or_merge a b) i = tags_of (map_of ?e i) - ?r"
    using map_of_m_retain[OF d, of "\<lambda>item tags. \<not> tags \<subseteq> ?r" i]
    by (auto simp: live_def or_merge_def Let_def tags_of_def split: option.splits if_splits)
  ultimately show ?thesis by (auto simp: live_def)
qed

lemma removed_merge: "or_removed (or_merge a b) = or_removed a \<union> or_removed b"
  by (simp add: or_merge_def Let_def)

interpretation orset: convergent "or_ok :: 'a::linorder ORSet \<Rightarrow> bool" or_merge or_view or_join
proof unfold_locales
  fix a b c :: "'a ORSet"
  show "or_ok a \<Longrightarrow> or_ok b \<Longrightarrow> or_view (or_merge a b) = or_join (or_view a) (or_view b)"
    by (auto simp: or_view_def or_join_def removed_merge live_merge fun_eq_iff)
  show "or_join (or_view a) (or_view a) = or_view a"
    by (auto simp: or_view_def or_join_def live_def)
qed (auto simp: or_ok_merge or_join_def)

definition pr_ok :: "(string \<Rightarrow> nat \<Rightarrow> PeerEntry) \<Rightarrow> PeerRegistry \<Rightarrow> bool" where
  "pr_ok val reg \<longleftrightarrow> bt_ok reg \<and> (\<forall>k e t. map_of reg k = Some (e, t) \<longrightarrow> e = val k t)"

lemma pr_merge_get: "bt_ok b \<Longrightarrow> map_of (pr_merge a b) = pointwise newer (map_of a) (map_of b)"
  by (simp add: pr_merge_def upd_loop_pointwise)

interpretation pr: convergent "pr_ok val" pr_merge map_of "pointwise newer"
  for val :: "string \<Rightarrow> nat \<Rightarrow> PeerEntry"
proof unfold_locales
  fix a b c :: PeerRegistry
  show "pr_ok val a \<Longrightarrow> pr_ok val b \<Longrightarrow> map_of (pr_merge a b) = pointwise newer (map_of a) (map_of b)"
    by (simp add: pr_ok_def pr_merge_get)
  show "pr_ok val a \<Longrightarrow> pr_ok val b \<Longrightarrow> pr_ok val (pr_merge a b)"
    using bt.upd_loop_ok[of a newer b]
    by (auto simp: pr_ok_def pr_merge_get pointwise_def newer_def pr_merge_def[symmetric]
        split: option.splits if_splits)
  show "pr_ok val a \<Longrightarrow> pr_ok val b \<Longrightarrow>
      pointwise newer (map_of a) (map_of b) = pointwise newer (map_of b) (map_of a)"
    by (rule ext) (auto simp: pr_ok_def pointwise_def newer_def split: option.split, metis)
  show "pointwise newer (pointwise newer (map_of a) (map_of b)) (map_of c) =
      pointwise newer (map_of a) (pointwise newer (map_of b) (map_of c))"
    by (rule ext) (auto simp: pointwise_def newer_def split: option.split)
  show "pointwise newer (map_of a) (map_of a) = map_of a"
    by (rule ext) (auto simp: pointwise_def newer_def split: option.split)
qed

section \<open>The container\<close>

record CrdtView =
  v_clock :: "string \<rightharpoonup> u64"
  v_peers :: "string \<rightharpoonup> PeerEntry \<times> nat"
  v_known :: "string set"
  v_net :: "string LwwRegister"
  v_ghost :: "string LwwRegister"
  v_finance :: "string \<rightharpoonup> u64"
  v_assets :: "u64 set \<times> (string \<Rightarrow> u64 set)"

text \<open>Everything replicated: all but the replica's own name, its audit trail and the times
  at which it first saw a peer id.\<close>

definition crdt_view :: "CrdtWorldState \<Rightarrow> CrdtView" where
  "crdt_view s = \<lparr> v_clock = map_of (vector_clock s), v_peers = map_of (peers s),
     v_known = dom (map_of (known_peer_ids s)), v_net = network_status s, v_ghost = ghost_state s,
     v_finance = map_of (finance_counter s), v_assets = or_view (asset_ownership s) \<rparr>"

definition crdt_join :: "CrdtView \<Rightarrow> CrdtView \<Rightarrow> CrdtView" where
  "crdt_join a b = \<lparr> v_clock = pointwise max_entry (v_clock a) (v_clock b),
     v_peers = pointwise newer (v_peers a) (v_peers b), v_known = v_known a \<union> v_known b,
     v_net = lww_merge (v_net a) (v_net b), v_ghost = lww_merge (v_ghost a) (v_ghost b),
     v_finance = pointwise max_entry (v_finance a) (v_finance b),
     v_assets = or_join (v_assets a) (v_assets b) \<rparr>"

record CrdtWrites =
  w_net :: "nat \<Rightarrow> string \<Rightarrow> string"
  w_ghost :: "nat \<Rightarrow> string \<Rightarrow> string"
  w_peer :: "string \<Rightarrow> nat \<Rightarrow> PeerEntry"

definition crdt_ok :: "CrdtWrites \<Rightarrow> CrdtWorldState \<Rightarrow> bool" where
  "crdt_ok w s \<longleftrightarrow> bt_ok (vector_clock s) \<and> pr_ok (w_peer w) (peers s) \<and> bt_ok (known_peer_ids s) \<and>
     lww_ok (w_net w) (network_status s) \<and> lww_ok (w_ghost w) (ghost_state s) \<and>
     bt_ok (finance_counter s) \<and> or_ok (asset_ownership s)"

interpretation crdt: convergent "crdt_ok w" "\<lambda>a b. crdt_merge sha to_json (clk a b) a b" crdt_view crdt_join
  for w :: CrdtWrites and sha :: "u8 list \<Rightarrow> u8 list" and to_json :: "CrdtWorldState \<Rightarrow> string"
    and clk :: "CrdtWorldState \<Rightarrow> CrdtWorldState \<Rightarrow> nat"
proof unfold_locales
  fix a b c :: CrdtWorldState
  assume a: "crdt_ok w a"
  show "crdt_join (crdt_view a) (crdt_view a) = crdt_view a"
    using a by (simp add: crdt_ok_def crdt_join_def crdt_view_def gc.join_idem
        pr.join_idem[of "w_peer w"] lww.join_idem[of "w_net w"] lww.join_idem[of "w_ghost w"]
        orset.join_idem)
  assume b: "crdt_ok w b"
  show "crdt_ok w (crdt_merge sha to_json (clk a b) a b)"
    using a b by (simp add: crdt_ok_def crdt_merge_def Let_def gc_merge_def[symmetric] gc.ok_merge
        pr.ok_merge gset.ok_merge lww.ok_merge orset.ok_merge)
  show "crdt_view (crdt_merge sha to_json (clk a b) a b) = crdt_join (crdt_view a) (crdt_view b)"
    using a b by (simp add: crdt_ok_def crdt_merge_def Let_def crdt_view_def crdt_join_def
        gc_merge_def[symmetric] gc.view_merge pr.view_merge[of "w_peer w"] gset.view_merge
        orset.view_merge)
  show "crdt_join (crdt_view a) (crdt_view b) = crdt_join (crdt_view b) (crdt_view a)"
    using a b by (simp add: crdt_ok_def crdt_join_def crdt_view_def gc.join_comm
        pr.join_comm[of "w_peer w" "peers a" "peers b"]
        lww.join_comm[of "w_net w" "network_status a" "network_status b"]
        lww.join_comm[of "w_ghost w" "ghost_state a" "ghost_state b"] orset.join_comm Un_commute)
  assume c: "crdt_ok w c"
  show "crdt_join (crdt_join (crdt_view a) (crdt_view b)) (crdt_view c) =
      crdt_join (crdt_view a) (crdt_join (crdt_view b) (crdt_view c))"
    using a b c by (simp add: crdt_ok_def crdt_join_def crdt_view_def gc.join_assoc
        pr.join_assoc[of "w_peer w"] lww.join_assoc[of "w_net w"] lww.join_assoc[of "w_ghost w"]
        orset.join_assoc Un_assoc)
qed

section \<open>Further operations\<close>

lemma or_ok_add: "or_ok s \<Longrightarrow> or_ok (or_add tag item s)"
  by (simp add: or_ok_def or_add_def bt_ok_put)

lemma or_ok_remove: "or_ok s \<Longrightarrow> or_ok (or_remove item s)"
  by (auto simp: or_ok_def or_remove_def bt_ok_del split: option.split)

text \<open>Every listed element has a live tag.\<close>

definition or_tight :: "'a::linorder ORSet \<Rightarrow> bool" where
  "or_tight s \<longleftrightarrow> or_ok s \<and> (\<forall>(item, tags)\<in>set (or_entries s). \<not> tags \<subseteq> or_removed s)"

lemma live_add: "live (or_add tag item s) i =
    (if i = item then insert tag (tags_of (map_of (or_entries s) item)) - or_removed s else live s i)"
  by (simp add: live_def or_add_def map_of_bt_put tags_of_def)

lemma elements_contains: "or_tight s \<Longrightarrow> item \<in> set (or_elements s) \<longleftrightarrow> or_contains s item"
proof -
  assume t: "or_tight s"
  then have d: "distinct (map fst (or_entries s))"
    by (simp add: or_tight_def or_ok_def bt_ok_distinct)
  have "item \<in> set (or_elements s) \<longleftrightarrow> (\<exists>tags. map_of (or_entries s) item = Some tags)"
    using d by (force simp: or_elements_def dest: map_of_SomeD)
  then show ?thesis
    using t by (fastforce simp: or_contains_def or_tight_def dest: map_of_SomeD split: option.splits)
qed

lemma or_tight_merge:
  assumes "or_ok a" shows "or_tight (or_merge a b)"
  using or_ok_merge[OF assms, of b]
  by (auto simp: or_tight_def or_merge_def Let_def m_retain_def)

lemma dom_loop_iff:
  "dom_loop theirs ours g \<longleftrightarrow>
     (\<forall>(n, c)\<in>set ours. or_zero (map_of theirs n) \<le> c) \<and>
     (g \<or> (\<exists>(n, c)\<in>set ours. or_zero (map_of theirs n) < c))"
  by (induction theirs ours g rule: dom_loop.induct) (auto simp: Let_def)

lemma gc_total_put:
  "bt_ok c \<Longrightarrow> gc_total (bt_put k v c) = gc_total c - or_zero (map_of c k) + v"
proof (induction c)
  case (Cons e c)
  have "bt_ok c" using Cons.prems by (simp add: bt_ok_def)
  moreover have "fst e \<noteq> k \<Longrightarrow> \<not> fst e < k \<Longrightarrow> map_of c k = None"
    using Cons.prems by (auto simp: bt_ok_def map_of_eq_None_iff)
  ultimately show ?case
    using Cons.IH by (cases e) (auto simp: gc_total_def or_zero_def)
qed (simp add: gc_total_def or_zero_def)

section \<open>Properties\<close>


definition demo_writes :: CrdtWrites where
  "demo_writes = \<lparr> w_net = (\<lambda>t n. ''initializing''), w_ghost = (\<lambda>t n. ''init''),
     w_peer = (\<lambda>k t. \<lparr> pe_peer_id = k, pe_role = ''client'', pe_connected = True, pe_trusted = False,
        pe_reputation = 1, pe_last_seen = t \<rparr>) \<rparr>"

definition demo_replica :: "nat \<Rightarrow> string \<Rightarrow> string \<Rightarrow> CrdtWorldState" where
  "demo_replica now nid pid =
     update_peer (\<lambda>bs. bs) (\<lambda>s. ''json'') now pid ''client'' True False (crdt_new now nid)"


text \<open>
  The observed-remove set. After any merge the listed elements are exactly the ones
  \<^verbatim>\<open>contains\<close> reports; adding with a fresh tag makes an item present, removing makes it
  absent, and an add that the remover had not observed survives the merge with the removal,
  on both sides.
\<close>

theorem orset_semantics:
  assumes "or_ok a" "or_ok b"
  shows "(\<forall>item. item \<in> set (or_elements (or_merge a b)) \<longleftrightarrow> or_contains (or_merge a b) item) \<and>
    (\<forall>item tag. tag \<notin> or_removed a \<longrightarrow> or_contains (or_add tag item a) item) \<and>
    (\<forall>item. \<not> or_contains (or_remove item a) item) \<and>
    (\<forall>item tag. tag \<notin> or_removed a \<and> tag \<notin> or_removed b \<and> tag \<notin> tags_of (map_of (or_entries b) item) \<longrightarrow>
       or_contains (or_merge (or_add tag item a) (or_remove item b)) item \<and>
       or_contains (or_merge (or_remove item b) (or_add tag item a)) item)"
proof -
  have "or_contains (or_merge (or_add tag item a) (or_remove item b)) item \<and>
       or_contains (or_merge (or_remove item b) (or_add tag item a)) item"
    if "tag \<notin> or_removed a" "tag \<notin> or_removed b" "tag \<notin> tags_of (map_of (or_entries b) item)" for item tag
  proof -
    have "tag \<in> live (or_add tag item a) item" using that by (simp add: live_add)
    moreover have "tag \<notin> or_removed (or_add tag item a)" "tag \<notin> or_removed (or_remove item b)"
      using that by (auto simp: or_add_def or_remove_def tags_of_def split: option.splits)
    ultimately show ?thesis
      unfolding or_contains_live
      using live_merge[OF or_ok_add[OF assms(1)] or_ok_remove[OF assms(2)]]
        live_merge[OF or_ok_remove[OF assms(2)] or_ok_add[OF assms(1)]] by blast
  qed
  moreover have "\<not> or_contains (or_remove item a) item" for item
    by (auto simp: or_contains_def or_remove_def map_of_m_del split: option.split)
  moreover have "or_contains (or_add tag item a) item" if "tag \<notin> or_removed a" for item tag
    using that by (auto simp: or_contains_live live_add)
  ultimately show ?thesis
    using elements_contains[OF or_tight_merge[OF assms(1)]] by blast
qed

theorem orset_semantics_witness:
  "or_contains (or_merge (or_add 7 ''x'' or_default) (or_remove ''x'' (or_add 5 ''x'' or_default))) ''x''"
proof -
  have "or_ok (or_default :: string ORSet)" "or_ok (or_add 5 ''x'' or_default)"
    by (simp_all add: or_ok_def or_default_def or_add_def bt_ok_def)
  from orset_semantics[OF this] show ?thesis
    by (simp add: or_default_def or_add_def tags_of_def)
qed

text \<open>
  The grow-only counter. Incrementing adds the delta to the total, modulo the width of
  the counter, and to the replica's own entry only; merging takes the maximum per replica,
  so a merge never loses an increment that was observed by either side.
\<close>

theorem gcounter_semantics:
  assumes "bt_ok c" "bt_ok d"
  shows "gc_total (gc_increment r delta c) = gc_total c + delta \<and>
    (\<forall>k. or_zero (map_of (gc_increment r delta c) k) =
       (if k = r then or_zero (map_of c r) + delta else or_zero (map_of c k))) \<and>
    (\<forall>k. or_zero (map_of (gc_merge c d) k) = max (or_zero (map_of c k)) (or_zero (map_of d k)))"
  using assms gc.view_merge[OF assms]
  by (auto simp: gc_increment_def gc_total_put map_of_bt_put or_zero_def pointwise_def max_entry_def
      max_def split: option.split)

theorem gcounter_semantics_witness:
  "or_zero (map_of (gc_merge [(''a'', 3)] [(''a'', 5), (''b'', 1)]) ''a'') = 5"
proof -
  have "bt_ok [(''a'', 3 :: u64)]" "bt_ok [(''a'', 5 :: u64), (''b'', 1)]"
    by (simp_all add: bt_ok_def)
  from gcounter_semantics[OF this] show ?thesis by (simp add: or_zero_def)
qed

text \<open>
  The vector clock. A state dominates another exactly when none of its own counters is
  behind and some is ahead, domination is irreflexive, and updating a peer makes the new
  state dominate the old one unless the counter wraps.
\<close>

theorem dominates_semantics:
  assumes "bt_ok (vector_clock s)"
  shows "(dominates s t \<longleftrightarrow>
      (\<forall>(n, c)\<in>set (vector_clock s). or_zero (map_of (vector_clock t) n) \<le> c) \<and>
      (\<exists>(n, c)\<in>set (vector_clock s). or_zero (map_of (vector_clock t) n) < c)) \<and>
    \<not> dominates s s \<and>
    (or_zero (map_of (vector_clock s) (cw_node_id s)) \<noteq> - 1 \<longrightarrow>
       dominates (update_peer sha to_json now pid rl conn trust s) s)"
proof -
  let ?c = "vector_clock s" and ?n = "cw_node_id s"
  have self: "(n, c) \<in> set ?c \<Longrightarrow> map_of ?c n = Some c" for n c
    using assms by (simp add: bt_ok_distinct)
  have "dominates (update_peer sha to_json now pid rl conn trust s) s"
    if nw: "or_zero (map_of ?c ?n) \<noteq> - 1"
  proof -
    let ?v = "or_zero (map_of ?c ?n)" and ?c' = "gc_increment ?n 1 ?c"
    have "1 + ?v \<noteq> 0" using nw max_word_wrap[of ?v] by (auto simp: add.commute)
    then have "unat (?v + 1) = Suc (unat ?v)" using unatSuc[of ?v] by (simp add: add.commute)
    then have lt: "?v < ?v + 1" by (simp add: word_less_nat_alt)
    have get: "map_of ?c' k = (if k = ?n then Some (?v + 1) else map_of ?c k)" for k
      by (simp add: gc_increment_def map_of_bt_put)
    have ok: "bt_ok ?c'" using assms by (simp add: gc_increment_def bt_ok_put)
    have mem: "(k, x) \<in> set ?c' \<longleftrightarrow> map_of ?c' k = Some x" for k x
      using bt_ok_distinct[OF ok] by simp
    have "vector_clock (update_peer sha to_json now pid rl conn trust s) = ?c'"
      by (simp add: update_peer_def crdt_tick_def Let_def)
    then show ?thesis
      unfolding dominates_def dom_loop_iff
      using lt by (auto simp: mem get or_zero_def split: if_splits intro!: bexI[of _ "(?n, ?v + 1)"])
  qed
  then show ?thesis
    by (auto simp: dominates_def dom_loop_iff self or_zero_def)
qed

theorem dominates_semantics_witness:
  "dominates (update_peer (\<lambda>b. b) (\<lambda>s. []) 1 ''p'' ''client'' True True (crdt_new 1 ''n'')) (crdt_new 1 ''n'')"
  using dominates_semantics[of "crdt_new 1 ''n''"] by (simp add: crdt_new_def bt_ok_def or_zero_def)

end
