(* ===== verification/Control_Loop.thy ===== *)
theory Control_Loop
  imports Ghost_Runtime Ghost_Bridge World_Store Compute_Scheduler Crdt_State
begin

text \<open>
  The control loop, \<^verbatim>\<open>control_loop.rs\<close>: the task that reacts to system events, to compute events and to its timers by
  calling the controller, the ghost runtime and the ghost bridge. The loop owns nothing but the number of
  the last epoch; its state here is that of the components it calls, which share one world state, kept in the runtime
  record. Every branch of the \<^verbatim>\<open>select!\<close> is an operation that returns what it sent: commands to the engine, calls of the
  action sink, inputs of the dashboard, messages to peers. The loop gets the controller that \<^verbatim>\<open>bootstrap_runtime\<close> creates; the
  action sink of the runtime is the controller of the network task, which \<^verbatim>\<open>attach_governance\<close> sets, a different object.
\<close>

section \<open>State and environment\<close>

datatype DashInput =
    DiTelemetry string nat nat
  | DiLog string string string string string
  | DiJobResult string ComputeResult

datatype ClOut =
    Rt RtOut
  | Br GhostCommand
  | Dash DashInput
  | SpawnReconcile
  | DirectMsg string "u8 list"
  | TypedMsg string string "u8 list"
  | SpawnResult string ComputeResult
  | CapacityRecord string NodeCapacity

record 'pk ControlLoop =
  cl_controller :: "'pk Controller"
  cl_sink :: "'pk Controller"
  cl_runtime :: GhostRuntime
  cl_engine_open :: bool
  cl_crdt :: "CrdtWorldState option"
  cl_compute :: "Scheduler option"
  cl_last_epoch :: nat
  cl_files :: files

text \<open>
  What the loop gets from outside: the clocks, the codecs and the policy file; \<open>x_calls\<close> is the outcome of the system calls of
  a save and \<open>x_pqc_key\<close> the serialised key of a fresh hybrid key pair.
\<close>

record ('pk, 'ak) ClEnv =
  x_sec :: "'pk SecEnv"
  x_auth :: "'ak AuthEnv"
  x_rnd :: "real \<Rightarrow> real"
  x_parse :: "string \<Rightarrow> string option"
  x_dbg :: "SystemEventKind \<Rightarrow> string"
  x_policy_file :: "string option"
  x_store :: "unit StoreCodec"
  x_calls :: SaveCalls
  x_crdt_bytes :: "string \<Rightarrow> nat \<Rightarrow> CrdtWorldState \<Rightarrow> u8 list option"
  x_pqc_key :: "string \<Rightarrow> u8 list option"
  x_cores :: nat

type_synonym 'pk cl_op = "('pk ControlLoop, ClOut) op"

definition control_loop_new :: "nat \<Rightarrow> 'pk Controller \<Rightarrow> 'pk Controller \<Rightarrow> GhostRuntime \<Rightarrow> CrdtWorldState option \<Rightarrow> Scheduler option \<Rightarrow> files \<Rightarrow>
    'pk ControlLoop" where
  "control_loop_new now c k r crdt compute fs =
     \<lparr> cl_controller = c, cl_sink = k, cl_runtime = r, cl_engine_open = True, cl_crdt = crdt, cl_compute = compute,
       cl_last_epoch = current_epoch now, cl_files = fs \<rparr>"

section \<open>Calls of the components\<close>

fun sink_call :: "('pk, 'ak) ClEnv \<Rightarrow> RtOut \<Rightarrow> 'pk Controller \<Rightarrow> 'pk Controller" where
  "sink_call x (Sink (SkLimit p)) c = limit_peer (x_rnd x) (x_parse x) p c"
| "sink_call x (Sink (SkQuarantine p)) c = snd (quarantine_peer (x_rnd x) (x_parse x) p c)"
| "sink_call x (Sink (SkAdjust p d)) c = adjust_reputation_score (x_rnd x) (x_parse x) p d c"
| "sink_call x _ c = c"

definition on_runtime :: "('pk, 'ak) ClEnv \<Rightarrow> rt_op \<Rightarrow> 'pk cl_op" where
  "on_runtime x f s =
     (let (r, os) = f (cl_runtime s) in
      (s\<lparr> cl_runtime := r, cl_sink := fold (sink_call x) os (cl_sink s) \<rparr>, map Rt os))"

definition on_bridge :: "(bool \<Rightarrow> bridge_result) \<Rightarrow> 'pk cl_op" where
  "on_bridge f = op_emit (\<lambda>s. map Br (snd (f (cl_engine_open s))))"

definition on_controller :: "('pk Controller \<Rightarrow> 'pk Controller) \<Rightarrow> 'pk cl_op" where
  "on_controller f = op_upd (\<lambda>s. s\<lparr> cl_controller := f (cl_controller s) \<rparr>)"

definition update_world_state :: "(WorldState \<Rightarrow> WorldState) \<Rightarrow> 'pk cl_op" where
  "update_world_state f = op_upd (\<lambda>s.
     let r = cl_runtime s in
     if gr_world_poisoned r then s else s\<lparr> cl_runtime := r\<lparr> gr_world := f (gr_world r) \<rparr> \<rparr>)"

definition to_dashboard :: "('pk ControlLoop \<Rightarrow> DashInput) \<Rightarrow> 'pk cl_op" where
  "to_dashboard f = op_emit (\<lambda>s. [Dash (f s)])"

section \<open>System events\<close>

definition reload_security_policy :: "('pk, 'ak) ClEnv \<Rightarrow> 'pk cl_op" where
  "reload_security_policy x = on_controller (\<lambda>c.
     case the_security c of
       None \<Rightarrow> c
     | Some sec \<Rightarrow> c\<lparr> ct_security := Some (snd (rt_load_policy_from_file (x_sec x) (x_policy_file x) sec)) \<rparr>)"

definition on_recommendation :: "('pk, 'ak) ClEnv \<Rightarrow> WsClock \<Rightarrow> string \<Rightarrow> 'pk cl_op" where
  "on_recommendation x ck signal =
     (if signal = ''reload_policy'' then reload_security_policy x
      else if signal = ''sleep_ghost'' then on_runtime x (gr_sleep ck)
      else if signal = ''wake_ghost'' then on_runtime x (gr_wake ck)
      else if signal = ''tamper_on'' then on_runtime x (gr_set_tamper True)
      else if signal = ''tamper_off'' then on_runtime x (gr_set_tamper False)
      else if signal = ''policy_update'' then on_runtime x (policy_update ck (default_ghost_policy (x_rnd x)))
      else op_skip)"

definition on_kind :: "('pk, 'ak) ClEnv \<Rightarrow> WsClock \<Rightarrow> SystemEventKind \<Rightarrow> 'pk cl_op" where
  "on_kind x ck kind =
     (case kind of
        PeerConnected peer \<Rightarrow> op_block [
          on_controller (update_peer_success (x_rnd x) peer 45),
          on_bridge (\<lambda>a. observe_peer_connected a peer)]
      | PeerDisconnected peer \<Rightarrow> op_block [
          on_bridge (\<lambda>a. observe_peer_disconnected a peer),
          on_runtime x (gr_trigger_beacon ck)]
      | SecurityReject peer reason \<Rightarrow> op_block [
          on_controller (update_peer_failure (x_rnd x) peer),
          on_bridge (\<lambda>a. observe_message_failed a reason),
          on_runtime x (gr_assess ck)]
      | AuthorityViolation peer action \<Rightarrow> op_block [
          on_controller (update_peer_failure (x_rnd x) peer),
          on_bridge (\<lambda>a. br_sends a [CmdTriggerPanic ''policy_violation'']),
          on_runtime x (gr_zeroize ck)]
      | GhostRecommendation signal \<Rightarrow> on_recommendation x ck signal
      | _ \<Rightarrow> op_skip)"

definition handle_system_event :: "('pk, 'ak) ClEnv \<Rightarrow> WsClock \<Rightarrow> SystemEvent \<Rightarrow> 'pk cl_op" where
  "handle_system_event x ck ev = op_block [
     update_world_state (observe_signal ck (''loop:'' @ x_dbg x (se_kind ev))),
     on_kind x ck (se_kind ev),
     on_runtime x (publish_event (x_dbg x) ck (se_kind ev))]"

section \<open>Compute events\<close>

definition handle_compute_event :: "('pk, 'ak) ClEnv \<Rightarrow> WsClock \<Rightarrow> ComputeEvent \<Rightarrow> 'pk cl_op" where
  "handle_compute_event x ck ev =
     (case ev of
        JobQueued jid \<Rightarrow> update_world_state (observe_signal ck (''compute:job_queued:'' @ jid))
      | JobCompleted jid result \<Rightarrow> op_block [
          to_dashboard (\<lambda>s. DiJobResult jid result),
          op_emit (\<lambda>s. [SpawnResult (cr_submitter_peer_id result) result])]
      | JobFailed jid reason \<Rightarrow> on_runtime x (publish_event (x_dbg x) ck (ComputeJobFailed jid reason))
      | _ \<Rightarrow> op_skip)"

section \<open>Timers\<close>

definition reconcile_governance_once :: "'ak AuthEnv \<Rightarrow> ('ak \<times> u8 list option) option \<Rightarrow> 'pk Controller \<Rightarrow> 'pk Controller" where
  "reconcile_governance_once env source c =
     (case (the_authority c, source) of
        (Some auth, Some (pk, file)) \<Rightarrow> c\<lparr> ct_authority := Some (snd (refresh_from_file env pk file auth)) \<rparr>
      | _ \<Rightarrow> c)"

definition local_role_text :: "'pk Controller \<Rightarrow> string" where
  "local_role_text c =
     (case the_security c of None \<Rightarrow> ''unknown'' | Some sec \<Rightarrow> role_as_str (current_role (ct_local c) sec))"

definition ticker_health :: "'pk ControlLoop \<Rightarrow> WorldStateSnapshot \<Rightarrow> GhostHealthSnapshot" where
  "ticker_health s snap = default_health\<lparr> hs_node_id := ct_local (cl_controller s), hs_role := local_role_text (cl_controller s),
     hs_connected_peers := sn_connected_peers snap, hs_known_peers := sn_known_peers snap,
     hs_route_peers := sn_route_peers snap, hs_trusted_peers := sn_trusted_peers snap \<rparr>"

definition on_ticker_tick :: "('pk, 'ak) ClEnv \<Rightarrow> WsClock \<Rightarrow> 'pk cl_op" where
  "on_ticker_tick x ck = op_seq (op_emit (\<lambda>s. [SpawnReconcile]))
     (op_with (\<lambda>s. (gr_world_poisoned (cl_runtime s), ws_snapshot ck (gr_world (cl_runtime s)), s)) (\<lambda>(poisoned, snap, s0).
        if poisoned then op_skip
        else op_block [
          to_dashboard (\<lambda>s. DiTelemetry (ct_local (cl_controller s)) (sn_connected_peers snap) 0),
          on_runtime x (gr_assess ck),
          on_runtime x (scheduler_tick ck),
          on_runtime x (gr_health (ticker_health s0 snap)),
          on_bridge (\<lambda>a. br_sends a [CmdUpdateMetrics (sn_connected_peers snap) (sn_known_peers snap) (sn_route_peers snap)])]))"

definition on_persist_tick :: "('pk, 'ak) ClEnv \<Rightarrow> WsClock \<Rightarrow> 'pk cl_op" where
  "on_persist_tick x ck = op_with (\<lambda>s. the_authority (cl_controller s)) (\<lambda>auth.
     case auth of
       None \<Rightarrow> op_skip
     | Some m \<Rightarrow> op_block [
         update_world_state (\<lambda>w. snd (prime_control_center (x_auth x) ck (mgr_get m) w)),
         op_upd (\<lambda>s. if gr_world_poisoned (cl_runtime s) then s
            else s\<lparr> cl_files := snd (persist (x_store x) ck (x_calls x) (x_calls x) ''data/world_state''
                      (gr_world (cl_runtime s)) None (cl_files s)) \<rparr>)])"

definition on_crdt_sync_tick :: "('pk, 'ak) ClEnv \<Rightarrow> nat \<Rightarrow> 'pk cl_op" where
  "on_crdt_sync_tick x ms = op_emit (\<lambda>s.
     case cl_crdt s of
       None \<Rightarrow> []
     | Some st \<Rightarrow>
         (case x_crdt_bytes x (ct_local (cl_controller s)) ms st of
            None \<Rightarrow> []
          | Some payload \<Rightarrow>
              concat (map (\<lambda>p. case x_parse x (pe_peer_id p) of
                                 None \<Rightarrow> []
                               | Some pid \<Rightarrow> [TypedMsg pid ''crdt_sync'' payload]) (pr_connected_peers (peers st)))))"

definition on_rotation_check_tick :: "('pk, 'ak) ClEnv \<Rightarrow> WsClock \<Rightarrow> nat \<Rightarrow> 'pk cl_op" where
  "on_rotation_check_tick x ck now = op_when (\<lambda>s. should_rotate now (cl_last_epoch s)) (op_block [
     on_runtime x (gr_trigger_beacon ck),
     on_runtime x (gr_assess ck),
     op_upd (\<lambda>s. s\<lparr> cl_last_epoch := current_epoch now \<rparr>),
     to_dashboard (\<lambda>s. DiLog (wc_rfc3339 ck) (ct_local (cl_controller s)) ''info''
       (''[ID-ROTATION] Rotated to epoch '' @ dec_str (current_epoch now)) ''id_rotation'')])"

text \<open>The requests of the hybrid handshake; their answers are only logged.\<close>

definition on_pqc_handshake_tick :: "('pk, 'ak) ClEnv \<Rightarrow> 'pk cl_op" where
  "on_pqc_handshake_tick x = op_emit (\<lambda>s.
     case x_pqc_key x (ct_local (cl_controller s)) of
       None \<Rightarrow> []
     | Some key \<Rightarrow>
         if gr_world_poisoned (cl_runtime s) then []
         else concat (map (\<lambda>p. case x_parse x (ps_peer_id p) of None \<Rightarrow> [] | Some pid \<Rightarrow> [DirectMsg pid key])
                (filter (\<lambda>p. ps_trusted p \<and> ps_connected p) (map snd (peer_registry (gr_world (cl_runtime s)))))))"

definition on_capacity_tick :: "('pk, 'ak) ClEnv \<Rightarrow> u64 \<Rightarrow> 'pk cl_op" where
  "on_capacity_tick x now = op_emit (\<lambda>s.
     case cl_compute s of
       None \<Rightarrow> []
     | Some sd \<Rightarrow> [CapacityRecord (''compute_capacity:'' @ ct_local (cl_controller s))
                    (capacity_current (x_cores x) now (ct_local (cl_controller s)) sd)])"

section \<open>The loop\<close>

datatype ClInput =
    ClEvent SystemEvent
  | ClCompute ComputeEvent
  | ClTicker
  | ClPersist
  | ClCrdtSync
  | ClRotation nat
  | ClPqc
  | ClCapacity

fun cl_step :: "('pk, 'ak) ClEnv \<Rightarrow> WsClock \<Rightarrow> ClInput \<Rightarrow> 'pk cl_op" where
  "cl_step x ck (ClEvent ev) = handle_system_event x ck ev"
| "cl_step x ck (ClCompute ev) = handle_compute_event x ck ev"
| "cl_step x ck ClTicker = on_ticker_tick x ck"
| "cl_step x ck ClPersist = on_persist_tick x ck"
| "cl_step x ck ClCrdtSync = on_crdt_sync_tick x (1000 * unat (wc_secs ck))"
| "cl_step x ck (ClRotation now) = on_rotation_check_tick x ck now"
| "cl_step x ck ClPqc = on_pqc_handshake_tick x"
| "cl_step x ck ClCapacity = on_capacity_tick x (wc_secs ck)"

fun cl_run :: "('pk, 'ak) ClEnv \<Rightarrow> (WsClock \<times> ClInput) list \<Rightarrow> 'pk cl_op" where
  "cl_run x [] = op_skip"
| "cl_run x ((ck, i) # is) = op_seq (cl_step x ck i) (cl_run x is)"

section \<open>Lemmas\<close>

text \<open>The commands that reach the engine in the order of the calls; spawned tasks send theirs at any time.\<close>

fun engine_cmds :: "ClOut list \<Rightarrow> GhostCommand list" where
  "engine_cmds [] = []"
| "engine_cmds (Rt (Sent c) # os) = c # engine_cmds os"
| "engine_cmds (Br c # os) = c # engine_cmds os"
| "engine_cmds (_ # os) = engine_cmds os"

lemma engine_cmds_append [simp]: "engine_cmds (os @ os') = engine_cmds os @ engine_cmds os'"
  by (induction os rule: engine_cmds.induct) auto

lemma engine_cmds_Br [simp]: "engine_cmds (map Br cs) = cs"
  by (induction cs) auto

lemma fst_on_runtime:
  "fst (on_runtime x f s) = s\<lparr> cl_runtime := fst (f (cl_runtime s)),
     cl_sink := fold (sink_call x) (snd (f (cl_runtime s))) (cl_sink s) \<rparr>"
  by (simp add: on_runtime_def split_def Let_def)

lemma snd_on_runtime: "snd (on_runtime x f s) = map Rt (snd (f (cl_runtime s)))"
  by (simp add: on_runtime_def split_def Let_def)

text \<open>Whatever the loop does to the controller behind the sink is a run of its operations.\<close>

definition x_ct :: "('pk, 'ak) ClEnv \<Rightarrow> CtEnv" where
  "x_ct x = \<lparr> ce_rnd = x_rnd x, ce_parse = x_parse x, ce_sha = (\<lambda>b. b) \<rparr>"

definition ct_only :: "('pk, 'ak) ClEnv \<Rightarrow> 'pk ControlLoop \<Rightarrow> ClOut list \<Rightarrow> 'pk ControlLoop \<Rightarrow> bool" where
  "ct_only x s os s' \<longleftrightarrow> (\<exists>xs. cl_sink s' = ct_run (x_sec x) (x_ct x) xs (cl_sink s))"

lemma ct_run_append: "ct_run se ce (xs @ ys) c = ct_run se ce ys (ct_run se ce xs c)"
  by (induction se ce xs c rule: ct_run.induct) simp_all

interpretation co: op_spec "ct_only x" for x :: "('pk, 'ak) ClEnv"
proof
  show "ct_only x s [] s" for s :: "'pk ControlLoop"
    unfolding ct_only_def by (rule exI[of _ "[]"]) simp
  show "ct_only x s o1 s1 \<Longrightarrow> ct_only x s1 o2 s2 \<Longrightarrow> ct_only x s (o1 @ o2) s2" for s s1 s2 :: "'pk ControlLoop" and o1 o2
    unfolding ct_only_def by (metis ct_run_append)
qed

lemma ct_only_same: "cl_sink s' = cl_sink s \<Longrightarrow> ct_only x s os s'"
  unfolding ct_only_def by (rule exI[of _ "[]"]) simp

lemma sink_call_step: "\<exists>xs. sink_call x out c = ct_run (x_sec x) (x_ct x) xs c"
proof (cases "\<exists>k. out = Sink k")
  case True
  then obtain k where "out = Sink k" by blast
  then show ?thesis
    by (cases k) (auto intro: exI[of _ "[(0, CtLimit (case k of SkLimit p \<Rightarrow> p))]"] exI[of _ "[]"]
        exI[of _ "[(0, CtGhostQuarantine (case k of SkQuarantine p \<Rightarrow> p))]"]
        exI[of _ "[(0, CtGhostAdjust (case k of SkAdjust p d \<Rightarrow> p) (case k of SkAdjust p d \<Rightarrow> d))]"] simp: x_ct_def)
next
  case False
  then have "sink_call x out c = c" by (cases out) auto
  then show ?thesis by (intro exI[of _ "[]"]) simp
qed

lemma sink_calls_run: "\<exists>xs. fold (sink_call x) outs c = ct_run (x_sec x) (x_ct x) xs c"
proof (induction outs arbitrary: c)
  case Nil
  show ?case by (rule exI[of _ "[]"]) simp
next
  case (Cons a outs)
  obtain xs ys where "sink_call x a c = ct_run (x_sec x) (x_ct x) xs c"
    "fold (sink_call x) outs (sink_call x a c) = ct_run (x_sec x) (x_ct x) ys (sink_call x a c)"
    using sink_call_step Cons by metis
  then show ?case by (intro exI[of _ "xs @ ys"]) (simp add: ct_run_append)
qed

lemma co_runtime: "op_sat (ct_only x) (on_runtime x f)"
  using sink_calls_run by (auto simp: op_sat_def ct_only_def fst_on_runtime)

lemma co_others:
  "op_sat (ct_only x) (on_bridge g)" "op_sat (ct_only x) (update_world_state h)" "op_sat (ct_only x) (to_dashboard d)"
  "op_sat (ct_only x) (on_controller f)" "op_sat (ct_only x) (reload_security_policy x)"
  unfolding on_bridge_def update_world_state_def to_dashboard_def reload_security_policy_def on_controller_def
  by (auto intro!: co.sat_emit co.sat_upd ct_only_same simp: Let_def)

lemmas co_intros = co.sat_skip co.sat_seq co.sat_when' co_runtime co_others

lemma co_step: "op_sat (ct_only x) (cl_step x ck i)"
proof (cases i)
  case (ClEvent ev)
  have "op_sat (ct_only x) (on_kind x ck k)" for k
    by (cases k) (auto simp: on_kind_def on_recommendation_def intro!: co_intros)
  then show ?thesis by (auto simp: ClEvent handle_system_event_def intro!: co_intros)
next
  case (ClCompute ev)
  then show ?thesis
    by (cases ev) (auto simp: handle_compute_event_def intro!: co_intros co.sat_emit ct_only_same)
next
  case ClTicker
  then show ?thesis
    by (auto simp: on_ticker_tick_def intro!: co_intros co.sat_with co.sat_emit ct_only_same split: prod.split)
next
  case ClPersist
  then show ?thesis
    by (auto simp: on_persist_tick_def intro!: co_intros co.sat_with co.sat_upd ct_only_same split: option.split)
qed (auto simp: on_crdt_sync_tick_def on_rotation_check_tick_def on_pqc_handshake_tick_def on_capacity_tick_def
    intro!: co_intros co.sat_emit co.sat_upd ct_only_same)

lemma co_run: "op_sat (ct_only x) (cl_run x is)"
  by (induction x "is" rule: cl_run.induct) (auto intro!: co.sat_skip co.sat_seq co_step)

text \<open>An engine that gets the order is zeroized, whatever else it gets before or after.\<close>

lemma zeroized_stays:
  "state e = StZeroized \<Longrightarrow> pending_sync e = [] \<Longrightarrow>
   state (fst (run_inputs ins e)) = StZeroized \<and> pending_sync (fst (run_inputs ins e)) = []"
proof -
  have "op_sat dead_stays (run_inputs ins)"
    by (induction ins rule: run_inputs.induct) (auto intro!: dd.sat_skip dd.sat_seq dead_input)
  then show "state e = StZeroized \<Longrightarrow> pending_sync e = [] \<Longrightarrow> ?thesis" by (simp add: op_sat_def dead_stays_def)
qed

lemma zeroize_ordered:
  "Closed \<notin> snd ` set ins \<Longrightarrow> Cmd CmdZeroize \<in> snd ` set ins \<Longrightarrow>
   state (fst (run_inputs ins e)) = StZeroized \<and> pending_sync (fst (run_inputs ins e)) = []"
proof (induction ins arbitrary: e)
  case (Cons a ins)
  obtain c i where a: "a = (c, i)" by force
  show ?case
  proof (cases "i = Cmd CmdZeroize")
    case True
    then show ?thesis
      by (simp add: a ends_loop_def op_seq_fst on_input_def on_command_def zeroize_state op_skip_def)
  next
    case False
    then have "\<not> ends_loop i" using Cons.prems by (auto simp: a ends_loop_def)
    then show ?thesis using Cons False by (simp add: a op_seq_fst)
  qed
qed simp

lemma violation_outs:
  assumes "se_kind ev = AuthorityViolation p a" "cl_engine_open s"
  shows "engine_cmds (snd (handle_system_event x ck ev s)) =
    [CmdTriggerPanic ''policy_violation'', CmdZeroize, CmdObserveSignal (x_dbg x (AuthorityViolation p a))]"
  using assms
  by (simp add: handle_system_event_def on_kind_def op_seq_snd op_seq_fst snd_on_runtime fst_on_runtime update_world_state_def
      on_controller_def on_bridge_def br_sends_def op_upd_def op_emit_def op_with_def gr_zeroize_def set_world_state_def
      send_cmd_def publish_event_def apply_decision_def call_sink_def is_peer_connected_def op_when_def Let_def)

lemma violation_sink:
  assumes "se_kind ev = AuthorityViolation p a" "gr_sink (cl_runtime s)"
  shows "cl_sink (fst (handle_system_event x ck ev s)) = snd (quarantine_peer (x_rnd x) (x_parse x) p (cl_sink s))"
  using assms
  by (simp add: handle_system_event_def on_kind_def op_seq_snd op_seq_fst snd_on_runtime fst_on_runtime update_world_state_def
      on_controller_def on_bridge_def br_sends_def op_upd_def op_emit_def op_with_def gr_zeroize_def set_world_state_def
      send_cmd_def publish_event_def apply_decision_def call_sink_def is_peer_connected_def op_when_def Let_def)

lemma quarantine_now:
  "parse p = Some p \<Longrightarrow> \<not> rep_poisoned c \<Longrightarrow> quarantined (snd (quarantine_peer rnd parse p c)) p"
  by (simp add: quarantine_peer_def set_peer_quarantine_def quarantined_def upd_rep_lookup) (simp add: upd_rep_def)

section \<open>Properties\<close>

text \<open>
  C33: the response to a policy violation. When the loop handles the report that a peer violated the policy, the engine is
  sent a panic and then the order to zeroize itself, so that an engine that receives what was sent, with any other
  inputs before, between and after, ends zeroized with an empty queue; and with an action sink attached the controller behind it
  quarantines the peer and refuses all of its actions whatever the loop handles afterwards.
\<close>

theorem violation_response:
  assumes "se_kind ev = AuthorityViolation p a" "cl_engine_open s"
    and "handle_system_event x ck ev s = (s', outs)"
  shows "engine_cmds outs = [CmdTriggerPanic ''policy_violation'', CmdZeroize, CmdObserveSignal (x_dbg x (se_kind ev))] \<and>
    (\<forall>ins e. Closed \<notin> snd ` set ins \<and> Cmd ` set (engine_cmds outs) \<subseteq> snd ` set ins \<longrightarrow>
       state (fst (run_inputs ins e)) = StZeroized \<and> pending_sync (fst (run_inputs ins e)) = []) \<and>
    (gr_sink (cl_runtime s) \<and> \<not> rep_poisoned (cl_sink s) \<and> x_parse x p = Some p \<longrightarrow>
       (\<forall>later now action. \<not> fst (enforce now p action (cl_sink (fst (cl_run x later s'))))))"
proof -
  have o: "engine_cmds outs = [CmdTriggerPanic ''policy_violation'', CmdZeroize, CmdObserveSignal (x_dbg x (se_kind ev))]"
    using violation_outs[OF assms(1,2), of x ck] assms(1,3) by simp
  have "\<not> fst (enforce now p action (cl_sink (fst (cl_run x later s'))))"
    if "gr_sink (cl_runtime s)" "\<not> rep_poisoned (cl_sink s)" "x_parse x p = Some p" for later now action
  proof -
    have "quarantined (cl_sink s') p"
      using violation_sink[OF assms(1) that(1), of x ck] assms(3) quarantine_now[of "x_parse x" p, OF that(3,2)] by simp
    moreover obtain xs where "cl_sink (fst (cl_run x later s')) = ct_run (x_sec x) (x_ct x) xs (cl_sink s')"
      using co_run[of x later] by (auto simp: op_sat_def ct_only_def)
    ultimately have "quarantined (cl_sink (fst (cl_run x later s'))) p" using quarantine_run by metis
    then show ?thesis by (simp add: enforce_def)
  qed
  with o zeroize_ordered show ?thesis by auto
qed

definition demo_cl_env :: "(unit, unit) ClEnv" where
  "demo_cl_env = \<lparr> x_sec = demo_sec_env, x_auth = demo_auth_env, x_rnd = (\<lambda>r. r), x_parse = Some, x_dbg = (\<lambda>k. ''event''),
     x_policy_file = None, x_store = demo_store_codec, x_calls = all_calls_ok, x_crdt_bytes = (\<lambda>n t s. None),
     x_pqc_key = (\<lambda>n. None), x_cores = 4 \<rparr>"

definition demo_loop :: "unit ControlLoop" where
  "demo_loop = control_loop_new 0 (ct_new ''me'' True) (ct_new ''me'' True)
     ((spawn_ghost_runtime ''n'' ''client'' (default_runtime_config (\<lambda>r. r)) demo_world)\<lparr> gr_sink := True \<rparr>) None None (\<lambda>p. None)"

theorem violation_response_witness:
  "\<not> fst (enforce 9 ''bad'' Connect (cl_sink (fst (cl_run demo_cl_env [(demo_ck, ClTicker), (demo_ck, ClPqc)]
     (fst (handle_system_event demo_cl_env demo_ck (system_event 7 ''controller'' (AuthorityViolation ''bad'' Route)) demo_loop))))))"
proof -
  let ?ev = "system_event 7 ''controller'' (AuthorityViolation ''bad'' Route)"
  have "se_kind ?ev = AuthorityViolation ''bad'' Route" "cl_engine_open demo_loop" "gr_sink (cl_runtime demo_loop)"
    "\<not> rep_poisoned (cl_sink demo_loop)" "x_parse demo_cl_env ''bad'' = Some ''bad''"
    by (simp_all add: system_event_def demo_loop_def control_loop_new_def ct_new_def demo_cl_env_def)
  with violation_response[OF _ _ surjective_pairing, of ?ev "''bad''" Route demo_loop demo_cl_env demo_ck] show ?thesis by blast
qed

text \<open>
  One refused action is enough. When the authority of the loop's controller, or that of its security runtime, refuses an action of
  a peer that is not in quarantine and the policy file lists the action, the controller reports a violation on the
  channel the loop reads, and the loop that handles the report orders the engine to panic and to zeroize itself: an
  engine that receives the orders ends zeroized. The peer does not have to be admitted for that.
\<close>

theorem refused_action_zeroizes:
  assumes c: "c = cl_controller s" and "\<not> quarantined c p"
    and "\<And>sec. the_security c = Some sec \<Longrightarrow> rt_verify_access (action_text a) sec = Inr ()"
    and "(\<exists>sec. the_security c = Some sec \<and> \<not> rt_is_allowed sec p a) \<or> (\<exists>auth. the_authority c = Some auth \<and> \<not> is_allowed auth p a)"
    and "ct_has_event_tx c" and "cl_engine_open s"
  shows "\<exists>ev c'. enforce now p a c = (False, c') \<and> ct_events c' = ct_events c @ [ev] \<and>
    (\<forall>ins e. Closed \<notin> snd ` set ins \<and>
       Cmd ` set (engine_cmds (snd (handle_system_event x ck ev (s\<lparr> cl_controller := c' \<rparr>)))) \<subseteq> snd ` set ins \<longrightarrow>
       state (fst (run_inputs ins e)) = StZeroized)"
proof -
  let ?ev = "system_event now ''controller'' (AuthorityViolation p a)"
  let ?c' = "c\<lparr> ct_events := ct_events c @ [?ev] \<rparr>"
  have "enforce now p a c = (False, ?c')"
    using assms(2-5) by (auto simp: enforce_def violation_def consume_event_def split: option.split)
  moreover have "CmdZeroize \<in> set (engine_cmds (snd (handle_system_event x ck ?ev (s\<lparr> cl_controller := ?c' \<rparr>))))"
    using violation_outs[of ?ev p a "s\<lparr> cl_controller := ?c' \<rparr>" x ck] assms(6) by (simp add: system_event_def)
  then have "state (fst (run_inputs ins e)) = StZeroized"
    if "Closed \<notin> snd ` set ins"
      "Cmd ` set (engine_cmds (snd (handle_system_event x ck ?ev (s\<lparr> cl_controller := ?c' \<rparr>)))) \<subseteq> snd ` set ins" for ins e
    using zeroize_ordered[of ins e] that by blast
  ultimately show ?thesis by (intro exI[of _ ?ev] exI[of _ ?c']) auto
qed

theorem refused_action_zeroizes_witness:
  "\<exists>ev c'. enforce 5 ''x'' Connect ((ct_new ''me'' True)\<lparr> ct_authority := Some \<lparr> inner = demo_authority, poisoned = False \<rparr> \<rparr>) = (False, c') \<and>
     (\<forall>ins e. Closed \<notin> snd ` set ins \<and>
       Cmd ` set (engine_cmds (snd (handle_system_event demo_cl_env demo_ck ev (demo_loop\<lparr> cl_controller := c' \<rparr>)))) \<subseteq> snd ` set ins \<longrightarrow>
       state (fst (run_inputs ins e)) = StZeroized)"
proof -
  let ?a = "\<lparr> inner = demo_authority, poisoned = False \<rparr>"
  let ?c = "(ct_new ''me'' True)\<lparr> ct_authority := Some ?a \<rparr>"
  have q: "\<not> quarantined ?c ''x''" "the_security ?c = None" "the_authority ?c = Some ?a" "ct_has_event_tx ?c"
    by (simp_all add: ct_new_def quarantined_def the_security_def the_authority_def)
  have r: "\<not> is_allowed ?a ''x'' Connect"
    by (simp add: is_allowed_def evaluate_allowed demo_authority_def default_state_def get_role_def)
  have e: "?c = cl_controller (demo_loop\<lparr> cl_controller := ?c \<rparr>)" "cl_engine_open (demo_loop\<lparr> cl_controller := ?c \<rparr>)"
    by (simp_all add: demo_loop_def control_loop_new_def)
  have u: "demo_loop\<lparr> cl_controller := ?c, cl_controller := c' \<rparr> = demo_loop\<lparr> cl_controller := c' \<rparr>" for c' by simp
  have d: "(\<exists>sec. the_security ?c = Some sec \<and> \<not> rt_is_allowed sec ''x'' Connect) \<or> (\<exists>auth. the_authority ?c = Some auth \<and> \<not> is_allowed auth ''x'' Connect)"
    using q(3) r by blast
  have n: "rt_verify_access (action_text Connect) sec = Inr ()" if "the_security ?c = Some sec" for sec using that q(2) by (metis option.distinct(1))
  show ?thesis
    using refused_action_zeroizes[OF e(1) q(1) n d q(4) e(2), of 5 demo_cl_env demo_ck, unfolded u] by blast
qed

end
