(* ===== verification/Storage_Layer.thy ===== *)
theory Storage_Layer
  imports Authority
begin

text \<open>
  The sharded object store, \<^verbatim>\<open>storage_layer/\<close>: encrypted chunks, erasure coding, object metadata,
  the chunk cache with the lookup in the DHT, and the request handler. AES-GCM, SHA-256, bincode, sled and the
  Reed-Solomon crate are functions of the environment; the network is the outcome of the Kademlia calls. A
  panic (an \<^verbatim>\<open>expect\<close> or a slice out of range) is the value \<open>None\<close>.
\<close>

section \<open>Data\<close>

record Chunk =
  ch_object_id :: string
  ch_index :: nat
  ch_encrypted_data :: "u8 list"
  ch_nonce :: "u8 list"
  ch_hash :: string

record ObjectMetadata =
  om_object_id :: string
  om_total_chunks :: nat
  om_chunk_hashes :: "string list"
  om_hash :: string
  om_original_size :: nat
  om_use_erasure_coding :: bool
  om_total_shards :: nat

record ErasureConfig =
  data_shards :: nat
  parity_shards :: nat

definition default_erasure :: ErasureConfig where
  "default_erasure = \<lparr> data_shards = 4, parity_shards = 2 \<rparr>"

record StorageLayerConfig =
  chunk_size :: nat
  replication_factor :: nat
  use_erasure_coding :: bool
  max_object_size :: nat

definition default_storage_config :: StorageLayerConfig where
  "default_storage_config = \<lparr> chunk_size = 1024 * 1024, replication_factor = 3,
     use_erasure_coding = False, max_object_size = 1024 * 1024 * 1024 \<rparr>"

record StorageStats =
  objects_stored :: nat
  chunks_stored :: nat
  bytes_stored :: nat
  chunks_served :: nat
  bytes_served :: nat

definition zero_stats :: StorageStats where
  "zero_stats = \<lparr> objects_stored = 0, chunks_stored = 0, bytes_stored = 0, chunks_served = 0, bytes_served = 0 \<rparr>"

datatype StorageRequest =
    StPut string nat nat "u8 list" "u8 list" "string list"
  | StGet string nat

datatype StorageResponse =
    RespChunk nat "u8 list"
  | RespObject "u8 list"
  | RespSuccess
  | RespError string

text \<open>
  The outside: cryptography and codecs, the Reed-Solomon code for given numbers of data and parity
  shards, and what the database and the network answer.
\<close>

record StorageEnv =
  st_sha256 :: "u8 list \<Rightarrow> u8 list"
  aes_encrypt :: "u8 list \<Rightarrow> u8 list \<Rightarrow> u8 list \<Rightarrow> u8 list option"
  aes_decrypt :: "u8 list \<Rightarrow> u8 list \<Rightarrow> u8 list \<Rightarrow> u8 list option"
  meta_ser :: "ObjectMetadata \<Rightarrow> u8 list option"
  meta_de :: "u8 list \<Rightarrow> ObjectMetadata option"
  chunk_ser :: "Chunk \<Rightarrow> u8 list option"
  rs_new :: "nat \<Rightarrow> nat \<Rightarrow> bool"
  rs_encode :: "nat \<Rightarrow> nat \<Rightarrow> u8 list list \<Rightarrow> string + u8 list list"
  rs_reconstruct :: "nat \<Rightarrow> nat \<Rightarrow> u8 list option list \<Rightarrow> string + u8 list option list"
  db_insert_ok :: "u8 list \<Rightarrow> bool"
  db_flush_ok :: bool
  db_read_ok :: "u8 list \<Rightarrow> bool"
  kad_put_ok :: "string \<Rightarrow> u8 list \<Rightarrow> nat \<Rightarrow> bool"
  kad_get :: "string \<Rightarrow> string + Chunk option"
  st_parse_peer :: "string \<Rightarrow> string option"

text \<open>The store: the sled tree of metadata, the cache of chunks and the counters; the swarm may be absent.\<close>

record StorageLayer =
  sl_config :: StorageLayerConfig
  sl_master_key :: "u8 list"
  sl_authority :: AuthorityManager
  sl_local_cache :: "(string, Chunk) hmap"
  sl_objects :: "(u8 list, u8 list) btree"
  sl_stats :: StorageStats
  sl_encoder :: "ErasureConfig option"
  sl_swarm :: bool

definition storage_new :: "StorageEnv \<Rightarrow> StorageLayerConfig \<Rightarrow> u8 list \<Rightarrow> AuthorityManager \<Rightarrow>
    (u8 list, u8 list) btree option \<Rightarrow> bool \<Rightarrow> StorageLayer option" where
  "storage_new env config master authority db swarm =
     (let encoder = (if use_erasure_coding config
                     then (if rs_new env (data_shards default_erasure) (parity_shards default_erasure)
                           then Some default_erasure else None)
                     else None)
      in case db of
           None \<Rightarrow> None
         | Some objects \<Rightarrow>
             Some \<lparr> sl_config = config, sl_master_key = master, sl_authority = authority, sl_local_cache = [],
                    sl_objects = objects, sl_stats = zero_stats, sl_encoder = encoder, sl_swarm = swarm \<rparr>)"

section \<open>Chunks\<close>

definition chunk_encrypt :: "StorageEnv \<Rightarrow> u8 list \<Rightarrow> string \<Rightarrow> nat \<Rightarrow> u8 list \<Rightarrow> u8 list \<Rightarrow> Chunk option" where
  "chunk_encrypt env nonce oid i plain key =
     (case aes_encrypt env key nonce plain of
        None \<Rightarrow> None
      | Some enc \<Rightarrow>
          Some \<lparr> ch_object_id = oid, ch_index = i, ch_encrypted_data = enc, ch_nonce = nonce,
                 ch_hash = hex_encode (st_sha256 env enc) \<rparr>)"

definition chunk_decrypt :: "StorageEnv \<Rightarrow> Chunk \<Rightarrow> u8 list \<Rightarrow> string + u8 list" where
  "chunk_decrypt env c key =
     (if hex_encode (st_sha256 env (ch_encrypted_data c)) \<noteq> ch_hash c
      then Inl ''Chunk integrity check failed - hash mismatch''
      else case aes_decrypt env key (ch_nonce c) (ch_encrypted_data c) of
             None \<Rightarrow> Inl ''decryption error''
           | Some plain \<Rightarrow> Inr plain)"

definition chunk_key :: "string \<Rightarrow> nat \<Rightarrow> string" where
  "chunk_key oid i = oid @ CHR '':'' # dec_str i"

definition chunk_id :: "Chunk \<Rightarrow> string" where
  "chunk_id c = chunk_key (ch_object_id c) (ch_index c)"

definition derive_object_key :: "StorageEnv \<Rightarrow> u8 list \<Rightarrow> string \<Rightarrow> u8 list" where
  "derive_object_key env master oid =
     st_sha256 env (as_bytes ''ESS-STORAGE-OBJECT-KEY-v1'' @ master @ as_bytes oid)"

section \<open>Erasure coding\<close>

fun split_shards :: "u8 list \<Rightarrow> nat \<Rightarrow> nat list \<Rightarrow> u8 list list option" where
  "split_shards data s [] = Some []"
| "split_shards data s (i # is) =
     (let start = i * s; stop = min (start + s) (length data) in
      if stop < start then None
      else case split_shards data s is of
             None \<Rightarrow> None
           | Some rest \<Rightarrow>
               Some ((take (stop - start) (drop start data) @ replicate (s - (stop - start)) 0) # rest))"

definition shard_size :: "ErasureConfig \<Rightarrow> nat \<Rightarrow> nat" where
  "shard_size ec len = (len + data_shards ec - 1) div data_shards ec"

definition ec_encode :: "StorageEnv \<Rightarrow> ErasureConfig \<Rightarrow> u8 list \<Rightarrow> (string + u8 list list) option" where
  "ec_encode env ec data =
     (if data_shards ec = 0 then None
      else
        let s = shard_size ec (length data) in
        case split_shards data s [0..<data_shards ec] of
          None \<Rightarrow> None
        | Some shards \<Rightarrow>
            Some (rs_encode env (data_shards ec) (parity_shards ec)
                   (shards @ replicate (parity_shards ec) (replicate s 0))))"

fun join_shards :: "u8 list option list \<Rightarrow> u8 list \<Rightarrow> string + u8 list" where
  "join_shards [] acc = Inr acc"
| "join_shards (None # xs) acc = Inl ''Missing data shard after reconstruction''"
| "join_shards (Some s # xs) acc = join_shards xs (acc @ s)"

definition ec_decode :: "StorageEnv \<Rightarrow> ErasureConfig \<Rightarrow> u8 list option list \<Rightarrow> nat \<Rightarrow> string + u8 list" where
  "ec_decode env ec shards original_size =
     (case rs_reconstruct env (data_shards ec) (parity_shards ec) shards of
        Inl e \<Rightarrow> Inl e
      | Inr shards \<Rightarrow>
          (case join_shards (take (data_shards ec) shards) [] of
             Inl e \<Rightarrow> Inl e
           | Inr data \<Rightarrow> Inr (if original_size < length data then take original_size data else data)))"

section \<open>Metadata and the DHT\<close>

definition save_metadata :: "StorageEnv \<Rightarrow> ObjectMetadata \<Rightarrow> StorageLayer \<Rightarrow> (string + unit) \<times> StorageLayer" where
  "save_metadata env meta sl =
     (let key = as_bytes (om_object_id meta) in
      case meta_ser env meta of
        None \<Rightarrow> (Inl ''Serialization error'', sl)
      | Some v \<Rightarrow>
          if \<not> db_insert_ok env key then (Inl ''DB insert error'', sl)
          else
            let sl = sl\<lparr> sl_objects := bt_put key v (sl_objects sl) \<rparr> in
            if \<not> db_flush_ok env then (Inl ''DB flush error'', sl) else (Inr (), sl))"

definition load_metadata :: "StorageEnv \<Rightarrow> string \<Rightarrow> StorageLayer \<Rightarrow> string + ObjectMetadata option" where
  "load_metadata env oid sl =
     (let key = as_bytes oid in
      if \<not> db_read_ok env key then Inl ''DB read error''
      else case map_of (sl_objects sl) key of
             None \<Rightarrow> Inr None
           | Some bytes \<Rightarrow>
               (case meta_de env bytes of
                  None \<Rightarrow> Inl ''Deserialization error''
                | Some m \<Rightarrow> Inr (Some m)))"

definition put_chunk :: "StorageEnv \<Rightarrow> Chunk \<Rightarrow> nat \<Rightarrow> StorageLayer \<Rightarrow> (string + unit) \<times> StorageLayer" where
  "put_chunk env c factor sl =
     (let key = chunk_id c in
      case chunk_ser env c of
        None \<Rightarrow> (Inl ''serialize'', sl)
      | Some v \<Rightarrow>
          let sl = sl\<lparr> sl_local_cache := hm_put key c (sl_local_cache sl) \<rparr> in
          if \<not> sl_swarm sl then (Inl ''Swarm not available'', sl)
          else if \<not> kad_put_ok env key v (max 1 factor) then (Inl ''put_record'', sl)
          else (Inr (), sl))"

definition get_chunk :: "StorageEnv \<Rightarrow> string \<Rightarrow> nat \<Rightarrow> StorageLayer \<Rightarrow> string + Chunk option" where
  "get_chunk env oid i sl =
     (let key = chunk_key oid i in
      case map_of (sl_local_cache sl) key of
        Some c \<Rightarrow> Inr (Some c)
      | None \<Rightarrow> if \<not> sl_swarm sl then Inl ''Swarm not available'' else kad_get env key)"

section \<open>Objects\<close>

text \<open>\<^verbatim>\<open>slice::chunks\<close>; its panic for the chunk size 0 is a branch of its caller.\<close>

function chunks :: "nat \<Rightarrow> 'a list \<Rightarrow> 'a list list" where
  "chunks n xs = (if n = 0 \<or> xs = [] then [] else take n xs # chunks n (drop n xs))"
  by pat_completeness auto
termination by (relation "measure (\<lambda>(n, xs). length xs)") auto

declare chunks.simps [simp del]

fun encrypt_all :: "StorageEnv \<Rightarrow> (nat \<Rightarrow> u8 list) \<Rightarrow> string \<Rightarrow> u8 list \<Rightarrow> nat \<Rightarrow> u8 list list \<Rightarrow> Chunk list option" where
  "encrypt_all env rng oid key i [] = Some []"
| "encrypt_all env rng oid key i (d # ds) =
     (case chunk_encrypt env (rng i) oid i d key of
        None \<Rightarrow> None
      | Some c \<Rightarrow>
          (case encrypt_all env rng oid key (Suc i) ds of None \<Rightarrow> None | Some cs \<Rightarrow> Some (c # cs)))"

fun put_chunks :: "StorageEnv \<Rightarrow> Chunk list \<Rightarrow> StorageLayer \<Rightarrow> (string + unit) \<times> StorageLayer" where
  "put_chunks env [] sl = (Inr (), sl)"
| "put_chunks env (c # cs) sl =
     (case put_chunk env c (replication_factor (sl_config sl)) sl of
        (Inl e, sl) \<Rightarrow> (Inl (''Failed to store chunk '' @ dec_str (ch_index c) @ '': '' @ e), sl)
      | (Inr u, sl) \<Rightarrow> put_chunks env cs sl)"

definition store_chunks :: "StorageEnv \<Rightarrow> Chunk list \<Rightarrow> StorageLayer \<Rightarrow> StorageResponse \<times> StorageLayer" where
  "store_chunks env cs sl =
     (case put_chunks env cs sl of
        (Inl e, sl) \<Rightarrow> (RespError e, sl)
      | (Inr u, sl) \<Rightarrow>
          (RespSuccess,
           sl\<lparr> sl_stats := (sl_stats sl)\<lparr>
             objects_stored := objects_stored (sl_stats sl) + 1,
             chunks_stored := chunks_stored (sl_stats sl) + length cs,
             bytes_stored := bytes_stored (sl_stats sl) + sum_list (map (length \<circ> ch_encrypted_data) cs) \<rparr> \<rparr>))"

definition store_object :: "StorageEnv \<Rightarrow> string \<Rightarrow> u8 list \<Rightarrow> string \<Rightarrow> bool \<Rightarrow> nat \<Rightarrow> Chunk list \<Rightarrow> StorageLayer \<Rightarrow>
    StorageResponse \<times> StorageLayer" where
  "store_object env oid data object_hash erasure shards cs sl =
     (let meta = \<lparr> om_object_id = oid, om_total_chunks = length cs, om_chunk_hashes = map ch_hash cs,
            om_hash = object_hash, om_original_size = length data, om_use_erasure_coding = erasure,
            om_total_shards = shards \<rparr>
      in case save_metadata env meta sl of
           (Inl e, sl) \<Rightarrow> (RespError (''Metadata persist failed: '' @ e), sl)
         | (Inr u, sl) \<Rightarrow> store_chunks env cs sl)"

definition put_object_chunked :: "StorageEnv \<Rightarrow> (nat \<Rightarrow> u8 list) \<Rightarrow> string \<Rightarrow> u8 list \<Rightarrow> u8 list \<Rightarrow> string \<Rightarrow> StorageLayer \<Rightarrow>
    (StorageResponse \<times> StorageLayer) option" where
  "put_object_chunked env rng oid data key object_hash sl =
     (if chunk_size (sl_config sl) = 0 then None
      else case encrypt_all env rng oid key 0 (chunks (chunk_size (sl_config sl)) data) of
             None \<Rightarrow> None
           | Some cs \<Rightarrow> Some (store_object env oid data object_hash False 0 cs sl))"

definition put_object_erasure :: "StorageEnv \<Rightarrow> (nat \<Rightarrow> u8 list) \<Rightarrow> string \<Rightarrow> u8 list \<Rightarrow> u8 list \<Rightarrow> string \<Rightarrow>
    ErasureConfig \<Rightarrow> StorageLayer \<Rightarrow> (StorageResponse \<times> StorageLayer) option" where
  "put_object_erasure env rng oid data key object_hash ec sl =
     (case ec_encode env ec data of
        None \<Rightarrow> None
      | Some (Inl e) \<Rightarrow> Some (RespError (''Erasure encode error: '' @ e), sl)
      | Some (Inr shards) \<Rightarrow>
          (case encrypt_all env rng oid key 0 shards of
             None \<Rightarrow> None
           | Some cs \<Rightarrow> Some (store_object env oid data object_hash True (length shards) cs sl)))"

definition put_object :: "StorageEnv \<Rightarrow> (nat \<Rightarrow> u8 list) \<Rightarrow> string \<Rightarrow> u8 list \<Rightarrow> StorageLayer \<Rightarrow>
    (StorageResponse \<times> StorageLayer) option" where
  "put_object env rng oid data sl =
     (if length data > max_object_size (sl_config sl) then Some (RespError ''Object too large'', sl)
      else
        let key = derive_object_key env (sl_master_key sl) oid;
            object_hash = hex_encode (st_sha256 env data)
        in case (if use_erasure_coding (sl_config sl) then sl_encoder sl else None) of
             Some ec \<Rightarrow> put_object_erasure env rng oid data key object_hash ec sl
           | None \<Rightarrow> put_object_chunked env rng oid data key object_hash sl)"

definition served :: "nat \<Rightarrow> u8 list \<Rightarrow> StorageLayer \<Rightarrow> StorageLayer" where
  "served n data sl = sl\<lparr> sl_stats := (sl_stats sl)\<lparr>
     chunks_served := chunks_served (sl_stats sl) + n,
     bytes_served := bytes_served (sl_stats sl) + length data \<rparr> \<rparr>"

fun read_chunks :: "StorageEnv \<Rightarrow> string \<Rightarrow> u8 list \<Rightarrow> StorageLayer \<Rightarrow> nat list \<Rightarrow> u8 list \<Rightarrow> string + u8 list" where
  "read_chunks env oid key sl [] acc = Inr acc"
| "read_chunks env oid key sl (i # is) acc =
     (case get_chunk env oid i sl of
        Inl e \<Rightarrow> Inl (''DHT error chunk '' @ dec_str i @ '': '' @ e)
      | Inr None \<Rightarrow> Inl (''Chunk '' @ dec_str i @ '' not found on network'')
      | Inr (Some c) \<Rightarrow>
          (case chunk_decrypt env c key of
             Inl e \<Rightarrow> Inl (''Decryption error chunk '' @ dec_str i @ '': '' @ e)
           | Inr plain \<Rightarrow> read_chunks env oid key sl is (acc @ plain)))"

definition get_object_chunked :: "StorageEnv \<Rightarrow> string \<Rightarrow> ObjectMetadata \<Rightarrow> u8 list \<Rightarrow> StorageLayer \<Rightarrow>
    StorageResponse \<times> StorageLayer" where
  "get_object_chunked env oid meta key sl =
     (case read_chunks env oid key sl [0..<om_total_chunks meta] [] of
        Inl e \<Rightarrow> (RespError e, sl)
      | Inr data \<Rightarrow>
          if hex_encode (st_sha256 env data) \<noteq> om_hash meta
          then (RespError ''Object integrity check failed'', sl)
          else (RespObject data, served (om_total_chunks meta) data sl))"

definition fetch_shard :: "StorageEnv \<Rightarrow> string \<Rightarrow> u8 list \<Rightarrow> StorageLayer \<Rightarrow> nat \<Rightarrow> u8 list option" where
  "fetch_shard env oid key sl i =
     (case get_chunk env oid i sl of
        Inr (Some c) \<Rightarrow> (case chunk_decrypt env c key of Inr plain \<Rightarrow> Some plain | Inl e \<Rightarrow> None)
      | _ \<Rightarrow> None)"

definition get_object_erasure :: "StorageEnv \<Rightarrow> string \<Rightarrow> ObjectMetadata \<Rightarrow> u8 list \<Rightarrow> StorageLayer \<Rightarrow>
    StorageResponse \<times> StorageLayer" where
  "get_object_erasure env oid meta key sl =
     (case sl_encoder sl of
        None \<Rightarrow> (RespError ''Erasure decoder not configured'', sl)
      | Some ec \<Rightarrow>
          (case ec_decode env ec (map (fetch_shard env oid key sl) [0..<om_total_shards meta]) (om_original_size meta) of
             Inl e \<Rightarrow> (RespError (''Erasure decoding failed: '' @ e), sl)
           | Inr data \<Rightarrow>
               if hex_encode (st_sha256 env data) \<noteq> om_hash meta
               then (RespError ''Erasure object integrity check failed'', sl)
               else (RespObject data, served (om_total_chunks meta) data sl)))"

definition get_object :: "StorageEnv \<Rightarrow> string \<Rightarrow> StorageLayer \<Rightarrow> StorageResponse \<times> StorageLayer" where
  "get_object env oid sl =
     (case load_metadata env oid sl of
        Inl e \<Rightarrow> (RespError (''Failed to load metadata: '' @ e), sl)
      | Inr None \<Rightarrow> (RespError ''Metadata not found in local DB'', sl)
      | Inr (Some meta) \<Rightarrow>
          let key = derive_object_key env (sl_master_key sl) oid in
          if om_use_erasure_coding meta then get_object_erasure env oid meta key sl
          else get_object_chunked env oid meta key sl)"

definition handle_request :: "StorageEnv \<Rightarrow> (nat \<Rightarrow> u8 list) \<Rightarrow> StorageRequest \<Rightarrow> string \<Rightarrow> StorageLayer \<Rightarrow>
    (StorageResponse \<times> StorageLayer) option" where
  "handle_request env rng request peer_id sl =
     (if (case st_parse_peer env peer_id of Some pid \<Rightarrow> \<not> is_allowed (sl_authority sl) pid Connect | None \<Rightarrow> False)
      then Some (RespError ''Access denied'', sl)
      else case request of
             StPut oid i n data sig nodes \<Rightarrow> put_object env rng oid data sl
           | StGet oid i \<Rightarrow> Some (get_object env oid sl))"

text \<open>Sequences of requests, as the network delivers them.\<close>

fun storage_run :: "StorageEnv \<Rightarrow> ((nat \<Rightarrow> u8 list) \<times> StorageRequest \<times> string) list \<Rightarrow> StorageLayer \<Rightarrow> StorageLayer option" where
  "storage_run env [] sl = Some sl"
| "storage_run env ((rng, rq, peer) # rs) sl =
     (case handle_request env rng rq peer sl of None \<Rightarrow> None | Some (r, sl) \<Rightarrow> storage_run env rs sl)"

fun puts :: "string \<Rightarrow> StorageRequest \<Rightarrow> bool" where
  "puts oid (StPut o' i n data sig nodes) = (o' = oid)"
| "puts oid (StGet o' i) = False"

text \<open>What the code relies on: decryption and decoding invert encryption and encoding.\<close>

definition storage_env_ok :: "StorageEnv \<Rightarrow> bool" where
  "storage_env_ok env \<longleftrightarrow>
     (\<forall>k n p c. aes_encrypt env k n p = Some c \<longrightarrow> aes_decrypt env k n c = Some p) \<and>
     (\<forall>m v. meta_ser env m = Some v \<longrightarrow> meta_de env v = Some m) \<and>
     (\<forall>key. db_read_ok env key)"

text \<open>
  The Reed-Solomon code is systematic, and any selection of shards with at most as many missing as
  there are parity shards is completed to the encoding.
\<close>

definition rs_law :: "StorageEnv \<Rightarrow> ErasureConfig \<Rightarrow> bool" where
  "rs_law env ec \<longleftrightarrow>
     (let k = data_shards ec; m = parity_shards ec in
      \<forall>sh enc. length sh = k + m \<and> rs_encode env k m sh = Inr enc \<longrightarrow>
        length enc = k + m \<and> take k enc = take k sh \<and>
        (\<forall>av. length av = k + m \<and> (\<forall>i < k + m. av ! i = None \<or> av ! i = Some (enc ! i)) \<and>
              card {i. i < k + m \<and> av ! i = None} \<le> m \<longrightarrow>
              rs_reconstruct env k m av = Inr (map Some enc)))"

section \<open>Lemmas\<close>

lemma concat_chunks: "0 < n \<Longrightarrow> concat (chunks n xs) = xs"
  by (induction n xs rule: chunks.induct) (subst chunks.simps, simp)

lemma chunk_key_inj: "chunk_key a i = chunk_key b j \<longleftrightarrow> a = b \<and> i = j"
proof
  assume eq: "chunk_key a i = chunk_key b j"
  have nc: "CHR '':'' \<notin> set (dec_str n)" for n using dec_str_digit[of "CHR '':''" n] by auto
  have "rev (dec_str i) @ CHR '':'' # rev a = rev (dec_str j) @ CHR '':'' # rev b"
    using arg_cong[OF eq, of rev] by (simp add: chunk_key_def)
  moreover have "takeWhile (\<lambda>c. c \<noteq> CHR '':'') (rev (dec_str n) @ CHR '':'' # t) = rev (dec_str n)" for n t
    using nc by (subst takeWhile_append2) auto
  ultimately have "rev (dec_str i) = rev (dec_str j)" by metis
  then have "i = j" by (simp add: dec_str_inj)
  with eq show "a = b \<and> i = j" by (simp add: chunk_key_def)
qed simp

lemma decrypt_encrypt:
  assumes "storage_env_ok env" and "chunk_encrypt env nonce oid i plain key = Some c"
  shows "ch_object_id c = oid \<and> ch_index c = i \<and> chunk_decrypt env c key = Inr plain"
  using assms by (auto simp: chunk_encrypt_def chunk_decrypt_def storage_env_ok_def split: option.splits)

lemma encrypt_all_nth:
  assumes "storage_env_ok env" and "encrypt_all env rng oid key i ds = Some cs"
  shows "length cs = length ds \<and>
    (\<forall>j < length ds. chunk_id (cs ! j) = chunk_key oid (i + j) \<and> chunk_decrypt env (cs ! j) key = Inr (ds ! j))"
  using assms(2)
proof (induction ds arbitrary: i cs)
  case (Cons d ds)
  then obtain c cs' where c: "chunk_encrypt env (rng i) oid i d key = Some c"
      "encrypt_all env rng oid key (Suc i) ds = Some cs'" "cs = c # cs'"
    by (auto split: option.splits)
  with Cons.IH[OF c(2)] decrypt_encrypt[OF assms(1) c(1)] show ?case
    by (auto simp: chunk_id_def nth_Cons split: nat.split)
qed simp

subsection \<open>What a put changes\<close>

text \<open>Two stores agree on an object when its metadata and its chunks are the same in both.\<close>

definition same_object :: "string \<Rightarrow> StorageLayer \<Rightarrow> StorageLayer \<Rightarrow> bool" where
  "same_object oid a b \<longleftrightarrow>
     sl_config a = sl_config b \<and> sl_master_key a = sl_master_key b \<and> sl_encoder a = sl_encoder b \<and>
     sl_swarm a = sl_swarm b \<and> map_of (sl_objects a) (as_bytes oid) = map_of (sl_objects b) (as_bytes oid) \<and>
     (\<forall>i. map_of (sl_local_cache a) (chunk_key oid i) = map_of (sl_local_cache b) (chunk_key oid i))"

lemma same_object_refl [simp]: "same_object oid a a"
  by (simp add: same_object_def)

lemma same_object_trans: "same_object oid a b \<Longrightarrow> same_object oid b c \<Longrightarrow> same_object oid a c"
  by (simp add: same_object_def)

lemma get_chunk_same: "same_object oid a b \<Longrightarrow> get_chunk env oid i a = get_chunk env oid i b"
  by (simp add: get_chunk_def same_object_def Let_def)

lemma load_same: "same_object oid a b \<Longrightarrow> load_metadata env oid a = load_metadata env oid b"
  by (simp add: load_metadata_def same_object_def Let_def)

lemma put_chunk_same:
  "chunk_id c \<notin> range (chunk_key oid) \<Longrightarrow> same_object oid (snd (put_chunk env c f sl)) sl"
  by (auto simp: put_chunk_def same_object_def Let_def container_simps split: option.split) (metis rangeI)+

lemma put_chunks_same:
  "\<forall>c\<in>set cs. chunk_id c \<notin> range (chunk_key oid) \<Longrightarrow> same_object oid (snd (put_chunks env cs sl)) sl"
proof (induction cs arbitrary: sl)
  case (Cons c cs)
  have 1: "same_object oid (snd (put_chunk env c (replication_factor (sl_config sl)) sl)) sl"
    using Cons.prems by (simp add: put_chunk_same)
  obtain r sl1 where p: "put_chunk env c (replication_factor (sl_config sl)) sl = (r, sl1)" by fastforce
  show ?case
    using 1 Cons.IH[of sl1] Cons.prems by (cases r) (auto simp: p intro: same_object_trans)
qed simp

lemma store_object_same:
  assumes "oid' \<noteq> oid" and "\<forall>c\<in>set cs. chunk_id c \<notin> range (chunk_key oid)"
  shows "same_object oid (snd (store_object env oid' data h e n cs sl)) sl"
proof -
  have stats: "same_object oid (snd (store_chunks env cs sl)) sl" for sl
    using put_chunks_same[OF assms(2), of env sl]
    by (auto simp: store_chunks_def same_object_def split: prod.split sum.split)
  have meta: "same_object oid (snd (save_metadata env m sl)) sl" if "om_object_id m = oid'" for m
    using assms(1) that
    by (auto simp: save_metadata_def same_object_def Let_def container_simps as_bytes_inj split: option.split)
  let ?m = "\<lparr> om_object_id = oid', om_total_chunks = length cs, om_chunk_hashes = map ch_hash cs,
      om_hash = h, om_original_size = length data, om_use_erasure_coding = e, om_total_shards = n \<rparr>"
  obtain r sl1 where m: "save_metadata env ?m sl = (r, sl1)" by fastforce
  then have "same_object oid sl1 sl" using meta[of ?m] by simp
  with m stats[of sl1] show ?thesis
    by (cases r) (auto simp: store_object_def intro: same_object_trans)
qed


lemma range_chunk_key: "chunk_key o' i \<in> range (chunk_key oid) \<longleftrightarrow> o' = oid"
  by (auto simp: chunk_key_inj)

lemma put_object_same:
  assumes "storage_env_ok env" and "put_object env rng oid' data sl = Some (r, sl')" and "oid' \<noteq> oid"
  shows "same_object oid sl' sl"
proof -
  have so: "same_object oid (snd (store_object env oid' data h e n cs sl)) sl"
    if "encrypt_all env rng oid' key 0 ds = Some cs" for h e n cs ds key
  proof (rule store_object_same[OF assms(3)])
    show "\<forall>c\<in>set cs. chunk_id c \<notin> range (chunk_key oid)"
      using encrypt_all_nth[OF assms(1) that] assms(3) by (auto simp: in_set_conv_nth chunk_key_inj)
  qed
  show ?thesis
    using assms(2) by (auto simp: put_object_def put_object_chunked_def put_object_erasure_def Let_def
        split: if_splits option.splits sum.splits) (metis so snd_conv)+
qed

lemma served_same: "same_object oid (served n d sl) sl"
  by (simp add: served_def same_object_def)

lemma get_object_same: "same_object oid (snd (get_object env o' sl)) sl"
  by (auto simp: get_object_def get_object_chunked_def get_object_erasure_def Let_def served_same
      split: sum.split option.split)

lemma run_same:
  assumes "storage_env_ok env" and "storage_run env rs sl = Some sl'" and "\<forall>x\<in>set rs. \<not> puts oid (fst (snd x))"
  shows "same_object oid sl' sl"
  using assms(2,3)
proof (induction rs arbitrary: sl)
  case (Cons x rs)
  obtain rng rq peer where x: "x = (rng, rq, peer)" by (cases x) auto
  with Cons.prems obtain r sl1 where h: "handle_request env rng rq peer sl = Some (r, sl1)"
      and run: "storage_run env rs sl1 = Some sl'"
    by (auto split: option.splits)
  have "same_object oid sl1 sl"
  proof (cases rq)
    case (StPut o' i n data sig nodes)
    with h x Cons.prems show ?thesis
      by (auto simp: handle_request_def split: if_splits intro: put_object_same[OF assms(1)])
  next
    case (StGet o' i)
    with h get_object_same[of oid env o' sl] show ?thesis
      by (auto simp: handle_request_def split: if_splits)
  qed
  with Cons.IH[OF run] Cons.prems(2) show ?case by (auto intro: same_object_trans)
qed simp

lemma fetch_same: "same_object oid a b \<Longrightarrow> fetch_shard env oid key a = fetch_shard env oid key b"
  by (rule ext) (simp add: fetch_shard_def get_chunk_same)

lemma get_object_cong:
  assumes "same_object oid a b"
  shows "fst (get_object env oid a) = fst (get_object env oid b)"
proof -
  have "read_chunks env oid key a is acc = read_chunks env oid key b is acc" for key "is" acc
    by (induction "is" arbitrary: acc)
       (simp_all add: get_chunk_same[OF assms] split: sum.split option.split)
  then show ?thesis
    using assms load_same[OF assms, of env] fetch_same[OF assms, of env]
    by (auto simp: get_object_def get_object_chunked_def get_object_erasure_def Let_def same_object_def
        split: sum.split option.split)
qed

subsection \<open>What a successful put leaves behind\<close>

lemma put_chunks_cached:
  assumes "put_chunks env cs sl = (Inr u, sl')" and "distinct (map chunk_id cs)" and "c \<in> set cs"
  shows "map_of (sl_local_cache sl') (chunk_id c) = Some c"
  using assms
proof (induction cs arbitrary: sl)
  case (Cons d ds)
  then obtain sl1 where p: "put_chunk env d (replication_factor (sl_config sl)) sl = (Inr (), sl1)"
      "put_chunks env ds sl1 = (Inr u, sl')"
    by (auto split: prod.splits sum.splits)
  have keep: "map_of (sl_local_cache (snd (put_chunks env es s))) k = map_of (sl_local_cache s) k"
    if "k \<notin> chunk_id ` set es" for es s k
    using that
  proof (induction es arbitrary: s)
    case (Cons e es)
    have "map_of (sl_local_cache (snd (put_chunk env e f s))) k = map_of (sl_local_cache s) k" for f
      using Cons.prems by (auto simp: put_chunk_def Let_def container_simps split: option.split)
    with Cons show ?case by (auto split: prod.split sum.split) (metis snd_conv)+
  qed simp
  show ?case
  proof (cases "c = d")
    case True
    moreover have "map_of (sl_local_cache sl1) (chunk_id d) = Some d"
      using p(1) by (auto simp: put_chunk_def Let_def container_simps split: option.splits if_splits)
    ultimately show ?thesis using keep[of "chunk_id d" ds sl1] Cons.prems(2) p(2) by auto
  qed (use Cons p in auto)
qed simp

definition object_meta :: "StorageEnv \<Rightarrow> string \<Rightarrow> u8 list \<Rightarrow> bool \<Rightarrow> nat \<Rightarrow> Chunk list \<Rightarrow> ObjectMetadata" where
  "object_meta env oid data e n cs = \<lparr> om_object_id = oid, om_total_chunks = length cs,
     om_chunk_hashes = map ch_hash cs, om_hash = hex_encode (st_sha256 env data),
     om_original_size = length data, om_use_erasure_coding = e, om_total_shards = n \<rparr>"

lemma store_object_stored:
  assumes ok: "storage_env_ok env"
    and st: "store_object env oid data (hex_encode (st_sha256 env data)) e n cs sl = (RespSuccess, sl')"
    and enc: "encrypt_all env rng oid key 0 ds = Some cs"
  shows "load_metadata env oid sl' = Inr (Some (object_meta env oid data e n cs)) \<and>
    sl_master_key sl' = sl_master_key sl \<and> sl_encoder sl' = sl_encoder sl \<and> sl_config sl' = sl_config sl \<and>
    (\<forall>j < length ds. \<exists>c. get_chunk env oid j sl' = Inr (Some c) \<and> chunk_decrypt env c key = Inr (ds ! j))"
proof -
  let ?m = "object_meta env oid data e n cs"
  obtain sl1 where s1: "save_metadata env ?m sl = (Inr (), sl1)" and s2: "store_chunks env cs sl1 = (RespSuccess, sl')"
    using st by (auto simp: store_object_def object_meta_def Let_def split: prod.splits sum.splits)
  obtain sl2 where p: "put_chunks env cs sl1 = (Inr (), sl2)" and sl': "sl_local_cache sl' = sl_local_cache sl2"
      "sl_objects sl' = sl_objects sl2" "sl_master_key sl' = sl_master_key sl2" "sl_encoder sl' = sl_encoder sl2"
      "sl_config sl' = sl_config sl2"
    using s2 by (auto simp: store_chunks_def split: prod.splits sum.splits)
  have frame: "sl_objects (snd (put_chunks env es s)) = sl_objects s \<and> sl_master_key (snd (put_chunks env es s)) = sl_master_key s \<and>
      sl_encoder (snd (put_chunks env es s)) = sl_encoder s \<and> sl_config (snd (put_chunks env es s)) = sl_config s" for es s
  proof (induction es arbitrary: s)
    case (Cons c es)
    obtain r s1 where c: "put_chunk env c (replication_factor (sl_config s)) s = (r, s1)" by fastforce
    then have "sl_objects s1 = sl_objects s \<and> sl_master_key s1 = sl_master_key s \<and> sl_encoder s1 = sl_encoder s \<and> sl_config s1 = sl_config s"
      by (auto simp: put_chunk_def Let_def split: option.splits if_splits)
    with c Cons[of s1] show ?case by (cases r) auto
  qed simp
  have all: "length cs = length ds" "\<And>j. j < length ds \<Longrightarrow> chunk_id (cs ! j) = chunk_key oid j \<and> chunk_decrypt env (cs ! j) key = Inr (ds ! j)"
    using encrypt_all_nth[OF ok enc] by auto
  have "distinct (map chunk_id cs)"
    by (simp add: distinct_conv_nth all chunk_key_inj)
  then have "\<exists>c. get_chunk env oid j sl' = Inr (Some c) \<and> chunk_decrypt env c key = Inr (ds ! j)" if "j < length ds" for j
    using put_chunks_cached[OF p, of "cs ! j"] all that by (auto simp: get_chunk_def sl')
  moreover have "load_metadata env oid sl' = Inr (Some ?m)"
    using s1 frame[of cs sl1] p sl' ok
    by (auto simp: save_metadata_def load_metadata_def Let_def storage_env_ok_def container_simps object_meta_def
        split: option.splits if_splits)
  moreover have "sl_master_key sl1 = sl_master_key sl \<and> sl_encoder sl1 = sl_encoder sl \<and> sl_config sl1 = sl_config sl"
    using s1 by (auto simp: save_metadata_def Let_def split: option.splits if_splits)
  ultimately show ?thesis using frame[of cs sl1] p sl' by simp
qed

lemma read_chunks_all:
  assumes "\<forall>j < length ds. \<exists>c. get_chunk env oid (i + j) sl = Inr (Some c) \<and> chunk_decrypt env c key = Inr (ds ! j)"
  shows "read_chunks env oid key sl [i..<i + length ds] acc = Inr (acc @ concat ds)"
  using assms
proof (induction ds arbitrary: i acc)
  case (Cons d ds)
  have "\<forall>j<length ds. \<exists>c. get_chunk env oid (Suc i + j) sl = Inr (Some c) \<and> chunk_decrypt env c key = Inr (ds ! j)"
    using Cons.prems by (auto dest: spec[of _ "Suc _"])
  from Cons.IH[OF this, of "acc @ d"]
  have rest: "read_chunks env oid key sl [Suc i..<Suc (i + length ds)] (acc @ d) = Inr (acc @ d @ concat ds)" by simp
  obtain c where "get_chunk env oid i sl = Inr (Some c)" "chunk_decrypt env c key = Inr d"
    using Cons.prems[rule_format, of 0] by auto
  moreover have "[i..<i + length (d # ds)] = i # [Suc i..<Suc (i + length ds)]" by (simp add: upt_conv_Cons del: upt_Suc)
  ultimately show ?case using rest by (simp del: upt_Suc)
qed simp


subsection \<open>Shards\<close>

lemma split_shards_None: "split_shards data s is = None \<longleftrightarrow> (\<exists>i\<in>set is. length data < i * s)"
  by (induction "is") (auto simp: Let_def split: option.split)

lemma split_shards_Some:
  assumes "split_shards data s is = Some sh" and "\<forall>i\<in>set is. i * s + s \<le> length data + N"
  shows "sh = map (\<lambda>i. take s (drop (i * s) (data @ replicate N 0))) is"
  using assms
proof (induction "is" arbitrary: sh)
  case (Cons i "is")
  from Cons.prems(1) obtain rest where r: "split_shards data s is = Some rest" and i: "i * s \<le> length data"
      and sh: "sh = (take (min (i * s + s) (length data) - i * s) (drop (i * s) data) @
        replicate (s - (min (i * s + s) (length data) - i * s)) 0) # rest"
    by (auto simp: Let_def split: option.splits if_splits)
  have "take s (drop (i * s) (data @ replicate N 0)) =
      take (min (i * s + s) (length data) - i * s) (drop (i * s) data) @
        replicate (s - (min (i * s + s) (length data) - i * s)) 0"
  proof (cases "i * s + s \<le> length data")
    case False
    then have "take (s - (length data - i * s)) (replicate N (0 :: u8)) = replicate (s - (length data - i * s)) 0"
      using Cons.prems(2) i by (auto simp: min_def)
    with False i show ?thesis by (simp add: min_def)
  qed (simp add: min_def)
  with Cons.IH[OF r] Cons.prems(2) sh show ?case by simp
qed simp

lemma concat_blocks: "concat (map (\<lambda>i. take s (drop (i * s) ys)) [0..<k]) = take (k * s) ys"
  by (induction k) (simp_all add: take_add[symmetric] add.commute)

lemma shard_size_covers:
  assumes "0 < data_shards ec"
  shows "n \<le> data_shards ec * shard_size ec n"
proof -
  let ?k = "data_shards ec"
  have "?k * shard_size ec n + (n + ?k - 1) mod ?k = n + ?k - 1" by (simp add: shard_size_def)
  moreover have "(n + ?k - 1) mod ?k < ?k" using assms by simp
  ultimately show ?thesis using assms by linarith
qed

lemma join_shards_Some: "join_shards (map Some xs) acc = Inr (acc @ concat xs)"
  by (induction xs arbitrary: acc) simp_all

lemma decode_encode:
  assumes law: "rs_law env ec" and enc: "ec_encode env ec data = Some (Inr shards)"
    and av: "length av = data_shards ec + parity_shards ec"
      "\<forall>i < data_shards ec + parity_shards ec. av ! i = None \<or> av ! i = Some (shards ! i)"
      "card {i. i < data_shards ec + parity_shards ec \<and> av ! i = None} \<le> parity_shards ec"
  shows "ec_decode env ec av (length data) = Inr data \<and> length shards = data_shards ec + parity_shards ec"
proof -
  let ?k = "data_shards ec" and ?m = "parity_shards ec" and ?s = "shard_size ec (length data)"
  from enc obtain sh where k: "0 < ?k" and sh: "split_shards data ?s [0..<?k] = Some sh"
      and rs: "rs_encode env ?k ?m (sh @ replicate ?m (replicate ?s 0)) = Inr shards"
    by (auto simp: ec_encode_def Let_def split: if_splits option.splits)
  have "i * ?s + ?s \<le> length data + ?k * ?s" if "i < ?k" for i
    using mult_le_mono1[of "Suc i" ?k ?s] that by simp
  then have sh': "sh = map (\<lambda>i. take ?s (drop (i * ?s) (data @ replicate (?k * ?s) 0))) [0..<?k]"
    using split_shards_Some[OF sh, of "?k * ?s"] by auto
  have len: "length (sh @ replicate ?m (replicate ?s 0)) = ?k + ?m" by (simp add: sh')
  have L: "length shards = ?k + ?m" "take ?k shards = take ?k (sh @ replicate ?m (replicate ?s 0))"
      "rs_reconstruct env ?k ?m av = Inr (map Some shards)"
    using law[unfolded rs_law_def Let_def, rule_format, OF conjI[OF len rs]] av by auto
  have "concat (take ?k shards) = take (?k * ?s) (data @ replicate (?k * ?s) 0)"
  proof -
    have "length sh = ?k" by (simp add: sh')
    then have "take ?k shards = sh" using L(2) by simp
    then show ?thesis unfolding sh' by (simp only: concat_blocks)
  qed
  moreover have "take (length data) (take (?k * ?s) (data @ replicate (?k * ?s) 0)) = data"
    using shard_size_covers[OF k, of "length data"] by (simp add: min_def)
  moreover have "length (take (?k * ?s) (data @ replicate (?k * ?s) 0)) = ?k * ?s" by simp
  ultimately have "(if length data < length (concat (take ?k shards)) then take (length data) (concat (take ?k shards))
      else concat (take ?k shards)) = data"
    using shard_size_covers[OF k, of "length data"] by (cases "length data = ?k * ?s") auto
  then show ?thesis using L(1,3) by (simp add: ec_decode_def take_map join_shards_Some)
qed


lemma length_encode:
  assumes "rs_law env ec" and "ec_encode env ec data = Some (Inr shards)"
  shows "length shards = data_shards ec + parity_shards ec"
proof -
  let ?n = "data_shards ec + parity_shards ec"
  let ?av = "map (\<lambda>i. Some (shards ! i)) [0..<?n]"
  have none: "{i. i < ?n \<and> ?av ! i = None} = {}" by auto
  show ?thesis
    using decode_encode[OF assms, of ?av] by (simp add: none del: map_map)
qed

lemma ec_encode_None:
  assumes "0 < data_shards ec"
  shows "ec_encode env ec data = None \<longleftrightarrow> (\<exists>i < data_shards ec. length data < i * shard_size ec (length data))"
  using assms split_shards_None[of data "shard_size ec (length data)" "[0..<data_shards ec]"]
  by (auto simp: ec_encode_def Let_def split: option.split)

lemma put_object_cases:
  assumes "put_object env rng oid data sl = Some (RespSuccess, sl')"
  obtains (erasure) ec shards cs where "sl_encoder sl = Some ec" "ec_encode env ec data = Some (Inr shards)"
      "encrypt_all env rng oid (derive_object_key env (sl_master_key sl) oid) 0 shards = Some cs"
      "store_object env oid data (hex_encode (st_sha256 env data)) True (length shards) cs sl = (RespSuccess, sl')"
  | (chunked) cs where "0 < chunk_size (sl_config sl)"
      "encrypt_all env rng oid (derive_object_key env (sl_master_key sl) oid) 0 (chunks (chunk_size (sl_config sl)) data) = Some cs"
      "store_object env oid data (hex_encode (st_sha256 env data)) False 0 cs sl = (RespSuccess, sl')"
      "\<not> use_erasure_coding (sl_config sl) \<or> sl_encoder sl = None"
  using assms unfolding put_object_def put_object_erasure_def put_object_chunked_def Let_def
  by (auto split: if_splits option.splits sum.splits)

lemma erasure_get:
  assumes ok: "storage_env_ok env" and law: "rs_law env ec" and enc: "ec_encode env ec data = Some (Inr shards)"
    and sl': "load_metadata env oid sl' = Inr (Some (object_meta env oid data True (length shards) cs))" "sl_encoder sl' = Some ec"
    and fetch: "\<forall>i < data_shards ec + parity_shards ec.
        fetch_shard env oid (derive_object_key env (sl_master_key sl') oid) sl' i \<in> {None, Some (shards ! i)}"
      "card {i. i < data_shards ec + parity_shards ec \<and>
        fetch_shard env oid (derive_object_key env (sl_master_key sl') oid) sl' i = None} \<le> parity_shards ec"
  shows "fst (get_object env oid sl') = RespObject data"
proof -
  let ?n = "data_shards ec + parity_shards ec"
  let ?f = "fetch_shard env oid (derive_object_key env (sl_master_key sl') oid) sl'"
  have "{i. i < ?n \<and> map ?f [0..<?n] ! i = None} = {i. i < ?n \<and> ?f i = None}" by auto
  then have "ec_decode env ec (map ?f [0..<?n]) (length data) = Inr data \<and> length shards = ?n"
    using fetch by (intro decode_encode[OF law enc]) auto
  then show ?thesis
    using sl' by (simp add: get_object_def get_object_erasure_def object_meta_def Let_def)
qed

section \<open>Properties\<close>

text \<open>
  C23: objects round trip. When an object was stored successfully, in chunks or erasure coded, it is
  served unchanged after any sequence of requests of any peers that does not store the same object again:
  stores of other objects, complete or failed, do not disturb it.
\<close>

theorem object_roundtrip:
  assumes ok: "storage_env_ok env" and law: "\<forall>ec. sl_encoder sl = Some ec \<longrightarrow> rs_law env ec"
    and put: "put_object env rng oid data sl = Some (RespSuccess, sl')"
    and run: "storage_run env rs sl' = Some sl''" "\<forall>x\<in>set rs. \<not> puts oid (fst (snd x))"
  shows "fst (get_object env oid sl'') = RespObject data"
proof -
  let ?key = "derive_object_key env (sl_master_key sl) oid"
  have "fst (get_object env oid sl') = RespObject data"
    using put
  proof (cases rule: put_object_cases)
    case (erasure ec shards cs)
    note st = store_object_stored[OF ok erasure(4,3)]
    let ?n = "data_shards ec + parity_shards ec"
    have "length shards = ?n" using law erasure(1,2) by (simp add: length_encode)
    then have f: "fetch_shard env oid ?key sl' i = Some (shards ! i)" if "i < ?n" for i
      using st that by (auto simp: fetch_shard_def)
    then have none: "{i. i < ?n \<and> fetch_shard env oid ?key sl' i = None} = {}" by auto
    show ?thesis
      using st f by (intro erasure_get[OF ok law[rule_format, OF erasure(1)] erasure(2), of _ _ cs])
        (simp_all add: erasure(1) none)
  next
    case (chunked cs)
    note st = store_object_stored[OF ok chunked(3,2)]
    let ?ds = "chunks (chunk_size (sl_config sl)) data"
    have n: "length cs = length ?ds" using encrypt_all_nth[OF ok chunked(2)] by simp
    have "read_chunks env oid ?key sl' [0..<0 + length ?ds] [] = Inr ([] @ concat ?ds)"
      using st by (intro read_chunks_all) auto
    then show ?thesis
      using st chunked(1)
      by (simp add: get_object_def get_object_chunked_def object_meta_def Let_def n concat_chunks)
  qed
  then show ?thesis using get_object_cong[OF run_same[OF ok run], of env] by simp
qed

text \<open>
  C24: erasure coding tolerates losses. A node that has the metadata and keys of an erasure-coded object, and
  for which at most as many shards as there are parity shards are missing, unreachable or damaged, while
  the others are as they were stored, serves the object; and whatever the network answers, an object that is
  served for this metadata has the digest of the stored data.
\<close>

theorem erasure_loss_tolerated:
  assumes ok: "storage_env_ok env" and enc: "use_erasure_coding (sl_config sl)" "sl_encoder sl = Some ec" and law: "rs_law env ec"
    and put: "put_object env rng oid data sl = Some (RespSuccess, sl')"
    and other: "load_metadata env oid sl2 = load_metadata env oid sl'" "sl_master_key sl2 = sl_master_key sl"
      "sl_encoder sl2 = Some ec"
  shows "((\<forall>i < data_shards ec + parity_shards ec. get_chunk env oid i sl2 = get_chunk env oid i sl' \<or>
        fetch_shard env oid (derive_object_key env (sl_master_key sl) oid) sl2 i = None) \<and>
      card {i. i < data_shards ec + parity_shards ec \<and>
        fetch_shard env oid (derive_object_key env (sl_master_key sl) oid) sl2 i = None} \<le> parity_shards ec \<longrightarrow>
      fst (get_object env oid sl2) = RespObject data) \<and>
    (\<forall>d. fst (get_object env oid sl2) = RespObject d \<longrightarrow> st_sha256 env d = st_sha256 env data)"
proof -
  let ?key = "derive_object_key env (sl_master_key sl) oid" and ?n = "data_shards ec + parity_shards ec"
  obtain shards cs where e: "ec_encode env ec data = Some (Inr shards)" "encrypt_all env rng oid ?key 0 shards = Some cs"
      "store_object env oid data (hex_encode (st_sha256 env data)) True (length shards) cs sl = (RespSuccess, sl')"
    using put enc unfolding put_object_def put_object_erasure_def Let_def
    by (auto split: if_splits option.splits sum.splits)
  note st = store_object_stored[OF ok e(3,2)]
  have n: "length shards = ?n" using law e(1) by (rule length_encode)
  have f: "fetch_shard env oid ?key sl2 i \<in> {None, Some (shards ! i)}"
    if "i < ?n" "get_chunk env oid i sl2 = get_chunk env oid i sl' \<or> fetch_shard env oid ?key sl2 i = None" for i
    using st that n by (auto simp: fetch_shard_def)
  have "fst (get_object env oid sl2) = RespObject data"
    if "\<forall>i < ?n. get_chunk env oid i sl2 = get_chunk env oid i sl' \<or> fetch_shard env oid ?key sl2 i = None"
      "card {i. i < ?n \<and> fetch_shard env oid ?key sl2 i = None} \<le> parity_shards ec"
    using st that f other by (intro erasure_get[OF ok law e(1), of _ _ cs]) simp_all
  moreover have "st_sha256 env d = st_sha256 env data" if "fst (get_object env oid sl2) = RespObject d" for d
    using that st other
    by (auto simp: get_object_def get_object_erasure_def object_meta_def Let_def
        split: sum.splits option.splits if_splits dest!: hex_encode_inj)
  ultimately show ?thesis by blast
qed

definition demo_meta :: "bool \<Rightarrow> ObjectMetadata" where
  "demo_meta e = (if e
     then \<lparr> om_object_id = ''o'', om_total_chunks = 6, om_chunk_hashes = [''09'', ''09'', ''09'', ''09'', ''09'', ''09''], om_hash = ''09'',
            om_original_size = 3, om_use_erasure_coding = True, om_total_shards = 6 \<rparr>
     else \<lparr> om_object_id = ''o'', om_total_chunks = 2, om_chunk_hashes = [''09'', ''09''], om_hash = ''09'',
            om_original_size = 3, om_use_erasure_coding = False, om_total_shards = 0 \<rparr>)"

definition demo_shards :: "u8 list list" where
  "demo_shards = [[1], [2], [3], [0], [1], [2]]"

definition demo_storage_env :: StorageEnv where
  "demo_storage_env = \<lparr> st_sha256 = (\<lambda>b. [9]), aes_encrypt = (\<lambda>k n p. Some p), aes_decrypt = (\<lambda>k n c. Some c),
     meta_ser = (\<lambda>m. if m = demo_meta False then Some [0] else if m = demo_meta True then Some [1] else None),
     meta_de = (\<lambda>b. Some (demo_meta (b = [1]))), chunk_ser = (\<lambda>c. Some []), rs_new = (\<lambda>k m. True),
     rs_encode = (\<lambda>k m sh. if sh = [[1], [2], [3], [0], [0], [0]] then Inr demo_shards else Inl ''shape''),
     rs_reconstruct = (\<lambda>k m av. Inr (map Some demo_shards)),
     db_insert_ok = (\<lambda>k. True), db_flush_ok = True, db_read_ok = (\<lambda>k. True), kad_put_ok = (\<lambda>k v n. True),
     kad_get = (\<lambda>k. Inr None), st_parse_peer = (\<lambda>s. None) \<rparr>"

definition demo_store :: "bool \<Rightarrow> StorageLayer" where
  "demo_store e = \<lparr> sl_config = \<lparr> chunk_size = 2, replication_factor = 3, use_erasure_coding = e, max_object_size = 9 \<rparr>,
     sl_master_key = [], sl_authority = \<lparr> inner = default_state, poisoned = False \<rparr>, sl_local_cache = [], sl_objects = [],
     sl_stats = zero_stats, sl_encoder = (if e then Some default_erasure else None), sl_swarm = True \<rparr>"

lemma demo_storage_env_ok: "storage_env_ok demo_storage_env"
  by (auto simp: storage_env_ok_def demo_storage_env_def demo_meta_def)

lemma demo_rs_law: "rs_law demo_storage_env default_erasure"
  by (auto simp: rs_law_def demo_storage_env_def default_erasure_def demo_shards_def)

lemma hex_09: "hex_encode [9] = ''09''"
  by code_simp

lemma demo_fields [simp]:
  "st_sha256 demo_storage_env b = [9]" "aes_encrypt demo_storage_env k n b = Some b" "db_insert_ok demo_storage_env b"
  "db_flush_ok demo_storage_env" "kad_put_ok demo_storage_env x b f" "kad_get demo_storage_env x = Inr None"
  "chunk_ser demo_storage_env c = Some []" "st_parse_peer demo_storage_env x = None"
  "rs_encode demo_storage_env i j sh = (if sh = [[1], [2], [3], [0], [0], [0]] then Inr demo_shards else Inl ''shape'')"
  by (simp_all add: demo_storage_env_def)

lemma demo_encrypt_all:
  "encrypt_all demo_storage_env rng oid key i ds = Some (map (\<lambda>(j, d). \<lparr> ch_object_id = oid, ch_index = j,
     ch_encrypted_data = d, ch_nonce = rng j, ch_hash = ''09'' \<rparr>) (enumerate i ds))"
  by (induction ds arbitrary: i) (simp_all add: chunk_encrypt_def hex_09)

lemma demo_put_chunks: "sl_swarm sl \<Longrightarrow> \<exists>sl'. put_chunks demo_storage_env cs sl = (Inr (), sl')"
  by (induction cs arbitrary: sl) (simp_all add: put_chunk_def Let_def)

lemma demo_store_object:
  assumes "sl_swarm sl" and "object_meta demo_storage_env ''o'' data e n cs = demo_meta e"
  shows "\<exists>sl'. store_object demo_storage_env ''o'' data ''09'' e n cs sl = (RespSuccess, sl')"
proof -
  have "object_meta demo_storage_env ''o'' data e n cs = \<lparr> om_object_id = ''o'', om_total_chunks = length cs,
     om_chunk_hashes = map ch_hash cs, om_hash = ''09'', om_original_size = length data,
     om_use_erasure_coding = e, om_total_shards = n \<rparr>" by (simp add: object_meta_def hex_09)
  moreover have "\<exists>v. meta_ser demo_storage_env (demo_meta e) = Some v" by (cases e) (simp_all add: demo_storage_env_def)
  ultimately obtain v where "store_object demo_storage_env ''o'' data ''09'' e n cs sl =
      store_chunks demo_storage_env cs (sl\<lparr> sl_objects := bt_put (as_bytes (om_object_id (demo_meta e))) v (sl_objects sl) \<rparr>)"
    using assms(2) by (auto simp: store_object_def save_metadata_def Let_def)
  then show ?thesis
    using demo_put_chunks[of "sl\<lparr> sl_objects := bt_put (as_bytes (om_object_id (demo_meta e))) v (sl_objects sl) \<rparr>" cs] assms(1)
    by (auto simp: store_chunks_def)
qed

lemma demo_put: "\<exists>sl'. put_object demo_storage_env rng ''o'' [1, 2, 3] (demo_store e) = Some (RespSuccess, sl')"
proof (cases e)
  case True
  have enc: "ec_encode demo_storage_env default_erasure [1, 2, 3] = Some (Inr demo_shards)"
    by (simp add: ec_encode_def default_erasure_def shard_size_def upt_rec Let_def numeral_2_eq_2)
  have "\<exists>sl'. store_object demo_storage_env ''o'' [1, 2, 3] ''09'' True (length demo_shards)
      (the (encrypt_all demo_storage_env rng ''o'' key 0 demo_shards)) (demo_store True) = (RespSuccess, sl')" for key
    by (rule demo_store_object)
       (simp_all add: demo_encrypt_all demo_shards_def object_meta_def demo_meta_def demo_store_def hex_09
         del: encrypt_all.simps)
  with True show ?thesis
    using enc by (simp add: put_object_def put_object_erasure_def demo_store_def demo_encrypt_all Let_def demo_shards_def hex_09 del: encrypt_all.simps)
next
  case False
  have ch: "chunks 2 [1, 2, 3 :: u8] = [[1, 2], [3]]" by (simp add: chunks.simps)
  have "\<exists>sl'. store_object demo_storage_env ''o'' [1, 2, 3] ''09'' False 0
      (the (encrypt_all demo_storage_env rng ''o'' key 0 [[1, 2], [3]])) (demo_store False) = (RespSuccess, sl')" for key
    by (rule demo_store_object)
       (simp_all add: demo_encrypt_all object_meta_def demo_meta_def demo_store_def hex_09 del: encrypt_all.simps)
  with False show ?thesis
    using ch by (simp add: put_object_def put_object_chunked_def demo_store_def demo_encrypt_all Let_def hex_09 del: encrypt_all.simps)
qed

theorem object_roundtrip_witness:
  "\<exists>sl' sl''. put_object demo_storage_env (\<lambda>i. []) ''o'' [1, 2, 3] (demo_store False) = Some (RespSuccess, sl') \<and>
     storage_run demo_storage_env [(\<lambda>i. [], StGet ''o'' 0, ''p'')] sl' = Some sl'' \<and>
     fst (get_object demo_storage_env ''o'' sl'') = RespObject [1, 2, 3]"
proof -
  obtain sl' where p: "put_object demo_storage_env (\<lambda>i. []) ''o'' [1, 2, 3] (demo_store False) = Some (RespSuccess, sl')"
    using demo_put by blast
  let ?rs = "[(\<lambda>i. [], StGet ''o'' 0, ''p'')] :: ((nat \<Rightarrow> u8 list) \<times> StorageRequest \<times> string) list"
  have r: "storage_run demo_storage_env ?rs sl' = Some (snd (get_object demo_storage_env ''o'' sl'))"
    by (simp add: handle_request_def split: prod.split)
  have "fst (get_object demo_storage_env ''o'' (snd (get_object demo_storage_env ''o'' sl'))) = RespObject [1, 2, 3]"
    by (rule object_roundtrip[OF demo_storage_env_ok _ p r]) (simp_all add: demo_store_def)
  with p r show ?thesis by blast
qed

theorem erasure_loss_tolerated_witness:
  "\<exists>sl' sl2. put_object demo_storage_env (\<lambda>i. []) ''o'' [1, 2, 3] (demo_store True) = Some (RespSuccess, sl') \<and>
     get_chunk demo_storage_env ''o'' 0 sl2 = Inr None \<and> get_chunk demo_storage_env ''o'' 2 sl2 = Inr None \<and>
     fst (get_object demo_storage_env ''o'' sl2) = RespObject [1, 2, 3]"
proof -
  obtain sl' where p: "put_object demo_storage_env (\<lambda>i. []) ''o'' [1, 2, 3] (demo_store True) = Some (RespSuccess, sl')"
    using demo_put by blast
  let ?del = "m_del (chunk_key ''o'' 0) (m_del (chunk_key ''o'' 2) (sl_local_cache sl'))"
  define sl2 where "sl2 = sl'\<lparr> sl_local_cache := ?del, sl_master_key := [], sl_encoder := Some default_erasure, sl_swarm := True \<rparr>"
  let ?key = "derive_object_key demo_storage_env (sl_master_key (demo_store True)) ''o''"
  have lost: "get_chunk demo_storage_env ''o'' i sl2 = Inr None" if "i = 0 \<or> i = 2" for i
    using that by (auto simp: sl2_def get_chunk_def container_simps chunk_key_inj Let_def)
  have all: "\<exists>c. get_chunk demo_storage_env ''o'' i sl' = Inr (Some c) \<and> chunk_decrypt demo_storage_env c ?key = Inr (demo_shards ! i) \<and>
      map_of (sl_local_cache sl') (chunk_key ''o'' i) = Some c" if "i < 6" for i
    using p that
  proof (cases rule: put_object_cases)
    case (erasure ec shards cs)
    have "shards = demo_shards"
      using erasure(2) by (auto simp: ec_encode_def Let_def split: if_splits option.splits)
    then have "length shards = 6" by (simp add: demo_shards_def)
    with store_object_stored[OF demo_storage_env_ok erasure(4,3)] that obtain c where
      "get_chunk demo_storage_env ''o'' i sl' = Inr (Some c)" "chunk_decrypt demo_storage_env c ?key = Inr (shards ! i)" by auto
    moreover from this(1) have "map_of (sl_local_cache sl') (chunk_key ''o'' i) = Some c"
      by (auto simp: get_chunk_def Let_def split: option.splits if_splits)
    ultimately show ?thesis using \<open>shards = demo_shards\<close> by blast
  qed (simp add: demo_store_def)
  have "fetch_shard demo_storage_env ''o'' ?key sl2 i = (if i = 0 \<or> i = 2 then None else Some (demo_shards ! i))" if "i < 6" for i
    using lost[of i] all[OF that] by (auto simp: fetch_shard_def get_chunk_def sl2_def container_simps chunk_key_inj)
  then have none: "{i. i < 6 \<and> fetch_shard demo_storage_env ''o'' ?key sl2 i = None} = {0, 2}" by (auto split: if_splits)
  have same: "get_chunk demo_storage_env ''o'' i sl2 = get_chunk demo_storage_env ''o'' i sl' \<or>
      fetch_shard demo_storage_env ''o'' ?key sl2 i = None" if "i < 6" for i
    using lost[of i] all[OF that]
    by (cases "i = 0 \<or> i = 2") (auto simp: fetch_shard_def get_chunk_def sl2_def container_simps chunk_key_inj Let_def)
  have "load_metadata demo_storage_env ''o'' sl2 = load_metadata demo_storage_env ''o'' sl'"
    by (simp add: load_metadata_def sl2_def Let_def)
  from erasure_loss_tolerated[OF demo_storage_env_ok _ _ demo_rs_law p this, unfolded default_erasure_def] none same
  have "fst (get_object demo_storage_env ''o'' sl2) = RespObject [1, 2, 3]"
    by (simp add: demo_store_def sl2_def default_erasure_def)
  with p lost show ?thesis by blast
qed

text \<open>
  With the default configuration the encoder panics for objects of one, two and five bytes, and for no others.
\<close>

theorem erasure_panic_sizes: "ec_encode env default_erasure data = None \<longleftrightarrow> length data \<in> {1, 2, 5}"
proof -
  let ?n = "length data"
  have "ec_encode env default_erasure data = None \<longleftrightarrow> (\<exists>i < 4. ?n < i * ((?n + 3) div 4))"
    using ec_encode_None[of default_erasure env data] by (simp add: default_erasure_def shard_size_def add.commute)
  also have "\<dots> \<longleftrightarrow> ?n < 3 * ((?n + 3) div 4)"
  proof
    assume "\<exists>i < 4. ?n < i * ((?n + 3) div 4)"
    then obtain i where "i < 4" and i: "?n < i * ((?n + 3) div 4)" by blast
    then have "i \<le> 3" by simp
    with i show "?n < 3 * ((?n + 3) div 4)" by (meson less_le_trans mult_le_mono1)
  next
    assume "?n < 3 * ((?n + 3) div 4)"
    then show "\<exists>i < 4. ?n < i * ((?n + 3) div 4)" by (intro exI[of _ 3]) simp
  qed
  also have "\<dots> \<longleftrightarrow> ?n = 1 \<or> ?n = 2 \<or> ?n = 5"
  proof -
    define q where "q = (?n + 3) div 4"
    have "4 * q \<le> ?n + 3" "?n + 3 < 4 * q + 4"
      using mod_less_divisor[of 4 "?n + 3"] mult_div_mod_eq[of 4 "?n + 3"] unfolding q_def by linarith+
    then have "?n < 3 * q \<longleftrightarrow> ?n = 1 \<or> ?n = 2 \<or> ?n = 5" by presburger
    then show ?thesis unfolding q_def .
  qed
  finally show ?thesis by simp
qed

end
