(* ===== verification/Codec.thy ===== *)
theory Codec
  imports Prelude
begin

text \<open>
  The wire format and the record store of the network layer: the length-prefixed frames of \<^verbatim>\<open>codec.rs\<close> over a byte stream
  and the persistence of Kademlia records of \<^verbatim>\<open>kad_store.rs\<close> over the key-value store. Bincode, JSON, base64 and the
  text form of peer ids are arguments.
\<close>

unbundle bit_operations_syntax

section \<open>Frames\<close>

definition MAX_FRAME_SIZE :: nat where
  "MAX_FRAME_SIZE = 64 * 1024 * 1024"

datatype CodecError = UnexpectedEof | FrameTooLarge | InvalidData

definition be32_bytes :: "u32 \<Rightarrow> u8 list" where
  "be32_bytes v = [ucast (drop_bit 24 v), ucast (drop_bit 16 v), ucast (drop_bit 8 v), ucast v]"

fun from_be32_bytes :: "u8 list \<Rightarrow> u32" where
  "from_be32_bytes [a, b, c, d] = push_bit 24 (ucast a) OR push_bit 16 (ucast b) OR push_bit 8 (ucast c) OR ucast d"
| "from_be32_bytes _ = 0"

text \<open>\<^verbatim>\<open>read_exact\<close> on what is left of the stream.\<close>

definition read_exact :: "nat \<Rightarrow> u8 list \<Rightarrow> (CodecError + u8 list) \<times> u8 list" where
  "read_exact n s = (if length s < n then (Inl UnexpectedEof, []) else (Inr (take n s), drop n s))"

definition read_request :: "(u8 list \<Rightarrow> 'a option) \<Rightarrow> u8 list \<Rightarrow> (CodecError + 'a) \<times> u8 list" where
  "read_request de s =
     (case read_exact 4 s of
        (Inl e, s) \<Rightarrow> (Inl e, s)
      | (Inr len_buf, s) \<Rightarrow>
          let len = unat (from_be32_bytes len_buf) in
          if len > MAX_FRAME_SIZE then (Inl FrameTooLarge, s)
          else (case read_exact len s of
                  (Inl e, s) \<Rightarrow> (Inl e, s)
                | (Inr buf, s) \<Rightarrow> (case de buf of None \<Rightarrow> Inl InvalidData | Some x \<Rightarrow> Inr x, s)))"

definition write_request :: "('a \<Rightarrow> u8 list option) \<Rightarrow> 'a \<Rightarrow> u8 list \<Rightarrow> (CodecError + unit) \<times> u8 list" where
  "write_request ser req out =
     (case ser req of
        None \<Rightarrow> (Inl InvalidData, out)
      | Some bytes \<Rightarrow> (Inr (), out @ be32_bytes (of_nat (length bytes)) @ bytes))"

text \<open>A sequence of frames: written one after the other, and read until the stream ends or a frame fails.\<close>

fun write_all :: "('a \<Rightarrow> u8 list option) \<Rightarrow> 'a list \<Rightarrow> u8 list \<Rightarrow> u8 list" where
  "write_all ser [] out = out"
| "write_all ser (r # rs) out = write_all ser rs (snd (write_request ser r out))"

fun read_n :: "(u8 list \<Rightarrow> 'a option) \<Rightarrow> nat \<Rightarrow> u8 list \<Rightarrow> (CodecError + 'a list) \<times> u8 list" where
  "read_n de 0 s = (Inr [], s)"
| "read_n de (Suc n) s =
     (case read_request de s of
        (Inl e, s) \<Rightarrow> (Inl e, s)
      | (Inr x, s) \<Rightarrow> (case read_n de n s of (Inl e, s) \<Rightarrow> (Inl e, s) | (Inr xs, s) \<Rightarrow> (Inr (x # xs), s)))"

section \<open>Kademlia records\<close>

record KadRecord =
  kr_key :: "u8 list"
  kr_value :: "u8 list"
  kr_publisher :: "string option"
  kr_expires :: "nat option"

record StoredRecord =
  sr_key :: string
  sr_value :: string
  sr_publisher :: "string option"
  sr_expires_secs :: "nat option"

record KadEnv =
  kad_to_json :: "StoredRecord \<Rightarrow> u8 list option"
  kad_from_json :: "u8 list \<Rightarrow> StoredRecord option"
  kad_b64 :: "u8 list \<Rightarrow> string"
  kad_unb64 :: "string \<Rightarrow> u8 list option"
  kad_peer :: "string \<Rightarrow> string option"
  kad_unhex :: "string \<Rightarrow> u8 list option"

type_synonym kad_db = "(string, u8 list) btree"

text \<open>\<open>now\<close> is both the monotonic and the UNIX clock in seconds.\<close>

definition save_record :: "KadEnv \<Rightarrow> nat \<Rightarrow> KadRecord \<Rightarrow> kad_db \<Rightarrow> kad_db" where
  "save_record env now r db =
     (let key_hex = hex_encode (kr_key r);
          expires_secs = (case kr_expires r of None \<Rightarrow> None | Some e \<Rightarrow> if e > now then Some (now + (e - now)) else None);
          stored = \<lparr> sr_key = key_hex, sr_value = kad_b64 env (kr_value r), sr_publisher = kr_publisher r,
                     sr_expires_secs = expires_secs \<rparr>
      in case kad_to_json env stored of None \<Rightarrow> db | Some json \<Rightarrow> bt_put key_hex json db)"

definition remove_record :: "u8 list \<Rightarrow> kad_db \<Rightarrow> kad_db" where
  "remove_record key db = m_del (hex_encode key) db"

definition load_entry :: "KadEnv \<Rightarrow> u8 list \<Rightarrow> KadRecord option" where
  "load_entry env v =
     (case kad_from_json env v of
        None \<Rightarrow> None
      | Some s \<Rightarrow> Some
          \<lparr> kr_key = (case kad_unhex env (sr_key s) of None \<Rightarrow> [] | Some k \<Rightarrow> k),
            kr_value = (case kad_unb64 env (sr_value s) of None \<Rightarrow> [] | Some d \<Rightarrow> d),
            kr_publisher = Option.bind (sr_publisher s) (kad_peer env), kr_expires = None \<rparr>)"

definition load_records :: "KadEnv \<Rightarrow> kad_db \<Rightarrow> KadRecord list" where
  "load_records env db = List.map_filter (\<lambda>e. load_entry env (snd e)) db"

section \<open>Lemmas\<close>

lemma be32_roundtrip: "from_be32_bytes (be32_bytes v) = v"
proof (rule bit_word_eqI)
  fix n assume "n < LENGTH(32)"
  then consider "n < 8" | "8 \<le> n" "n < 16" | "16 \<le> n" "n < 24" | "24 \<le> n" "n < 32" by fastforce
  then show "bit (from_be32_bytes (be32_bytes v)) n = bit v n"
    by cases (auto simp: be32_bytes_def bit_simps)
qed

lemma length_be32 [simp]: "length (be32_bytes v) = 4"
  by (simp add: be32_bytes_def)

lemma write_all_acc: "write_all ser rs out = out @ write_all ser rs []"
proof (induction rs arbitrary: out)
  case (Cons r rs)
  show ?case
    using Cons[of "snd (write_request ser r out)"] Cons[of "snd (write_request ser r [])"]
    by (simp add: write_request_def split: option.split)
qed simp

lemma read_frame:
  assumes "length bytes \<le> MAX_FRAME_SIZE"
  shows "read_request de (be32_bytes (of_nat (length bytes)) @ bytes @ rest) =
    ((case de bytes of None \<Rightarrow> Inl InvalidData | Some x \<Rightarrow> Inr x), rest)"
proof -
  have "unat (of_nat (length bytes) :: u32) = length bytes"
    using assms by (simp add: unat_of_nat MAX_FRAME_SIZE_def)
  then show ?thesis
    using assms by (simp add: read_request_def read_exact_def be32_roundtrip Let_def split: option.split)
qed

section \<open>Properties\<close>

text \<open>
  Framing. Requests whose encodings are at most 64 MiB, written one after the other, are read back in order with nothing
  left over, whatever follows on the stream; a longer one (below 4 GiB) is written without an error and refused
  by the reader.
\<close>

theorem frame_roundtrip:
  assumes codec: "\<And>r b. ser r = Some b \<Longrightarrow> de b = Some r"
    and fits: "\<And>r. r \<in> set rs \<Longrightarrow> \<exists>b. ser r = Some b \<and> length b \<le> MAX_FRAME_SIZE"
  shows "read_n de (length rs) (write_all ser rs [] @ rest) = (Inr rs, rest) \<and>
    (\<forall>r b. ser r = Some b \<and> MAX_FRAME_SIZE < length b \<and> length b < 2 ^ 32 \<longrightarrow>
       fst (write_request ser r []) = Inr () \<and> fst (read_request de (snd (write_request ser r []))) = Inl FrameTooLarge)"
proof (intro conjI allI impI)
  show "read_n de (length rs) (write_all ser rs [] @ rest) = (Inr rs, rest)"
    using fits
  proof (induction rs)
    case (Cons r rs)
    then obtain b where b: "ser r = Some b" "length b \<le> MAX_FRAME_SIZE" by auto
    have "write_all ser (r # rs) [] @ rest = be32_bytes (of_nat (length b)) @ b @ write_all ser rs [] @ rest"
      using b write_all_acc[of ser rs "be32_bytes (of_nat (length b)) @ b"] by (simp add: write_request_def)
    then have "read_request de (write_all ser (r # rs) [] @ rest) = (Inr r, write_all ser rs [] @ rest)"
      using read_frame[OF b(2), of de "write_all ser rs [] @ rest"] codec[OF b(1)] by simp
    then show ?case using Cons by (simp del: write_all.simps)
  qed simp
  fix r b
  assume b: "ser r = Some b \<and> MAX_FRAME_SIZE < length b \<and> length b < 2 ^ 32"
  then have "unat (of_nat (length b) :: u32) = length b" by (simp add: unat_of_nat)
  then show "fst (write_request ser r []) = Inr ()" "fst (read_request de (snd (write_request ser r []))) = Inl FrameTooLarge"
    using b by (simp_all add: write_request_def read_request_def read_exact_def be32_roundtrip Let_def)
qed

theorem frame_roundtrip_witness:
  "read_n (\<lambda>b. case b of [x] \<Rightarrow> Some x | _ \<Rightarrow> None) 2 (write_all (\<lambda>x. Some [x]) [1 :: u8, 2] [] @ [7]) = (Inr [1, 2], [7])"
  using frame_roundtrip[of "\<lambda>x :: u8. Some [x]" "\<lambda>b. case b of [x] \<Rightarrow> Some x | _ \<Rightarrow> None" "[1, 2]" "[7]"]
  by (simp add: MAX_FRAME_SIZE_def numeral_2_eq_2 del: read_n.simps write_all.simps)

text \<open>
  The record store. A saved record is among the loaded ones with its key, value and publisher, the entries of other keys
  stay, and removing its key undoes the save. The expiry does not survive: a record that has expired when it is saved is
  loaded as one that never expires.
\<close>

definition kad_laws :: "KadEnv \<Rightarrow> bool" where
  "kad_laws env \<longleftrightarrow> (\<forall>s. \<exists>j. kad_to_json env s = Some j \<and> kad_from_json env j = Some s) \<and>
     (\<forall>b. kad_unb64 env (kad_b64 env b) = Some b) \<and> (\<forall>b. kad_unhex env (hex_encode b) = Some b)"

lemma load_saved:
  assumes "kad_laws env" "\<And>p. kr_publisher r = Some p \<Longrightarrow> kad_peer env p = Some p"
  shows "\<exists>json. save_record env now r db = bt_put (hex_encode (kr_key r)) json db \<and>
    load_entry env json = Some (r\<lparr> kr_expires := None \<rparr>)"
proof -
  define st where "st = \<lparr> sr_key = hex_encode (kr_key r), sr_value = kad_b64 env (kr_value r), sr_publisher = kr_publisher r,
    sr_expires_secs = (case kr_expires r of None \<Rightarrow> None | Some e \<Rightarrow> if e > now then Some (now + (e - now)) else None) \<rparr>"
  obtain json where j: "kad_to_json env st = Some json" "kad_from_json env json = Some st"
    using assms(1) unfolding kad_laws_def by blast
  have "Option.bind (kr_publisher r) (kad_peer env) = kr_publisher r"
    using assms(2) by (cases "kr_publisher r") auto
  then have "load_entry env json = Some (r\<lparr> kr_expires := None \<rparr>)"
    using assms(1) j by (simp add: load_entry_def kad_laws_def st_def)
  moreover have "save_record env now r db = bt_put (hex_encode (kr_key r)) json db"
    using j(1) by (simp add: save_record_def Let_def st_def)
  ultimately show ?thesis by blast
qed

theorem kad_store_roundtrip:
  assumes "kad_laws env" "\<And>p. kr_publisher r = Some p \<Longrightarrow> kad_peer env p = Some p" "bt_ok db"
  shows "r\<lparr> kr_expires := None \<rparr> \<in> set (load_records env (save_record env now r db)) \<and>
    (\<forall>key. key \<noteq> hex_encode (kr_key r) \<longrightarrow> map_of (save_record env now r db) key = map_of db key) \<and>
    bt_ok (save_record env now r db) \<and>
    map_of (remove_record (kr_key r) (save_record env now r db)) = (map_of db)(hex_encode (kr_key r) := None)"
proof -
  obtain json where s: "save_record env now r db = bt_put (hex_encode (kr_key r)) json db"
    and l: "load_entry env json = Some (r\<lparr> kr_expires := None \<rparr>)"
    using load_saved[of env r now db] assms by blast
  have "(hex_encode (kr_key r), json) \<in> set (save_record env now r db)"
    unfolding s by (rule map_of_SomeD) (simp add: map_of_bt_put)
  then have "r\<lparr> kr_expires := None \<rparr> \<in> set (load_records env (save_record env now r db))"
    using l by (force simp: load_records_def map_filter_def)
  moreover have "map_of (remove_record (kr_key r) (save_record env now r db)) = (map_of db)(hex_encode (kr_key r) := None)"
    by (rule ext) (simp add: s remove_record_def map_of_m_del map_of_bt_put)
  ultimately show ?thesis using assms(3) by (simp add: s map_of_bt_put bt_ok_put)
qed

end
