(* ===== verification/Onion.thy ===== *)
theory Onion
  imports Message
begin

text \<open>
  Onion routing: the packet builder and the peeling of a layer in \<^verbatim>\<open>onion.rs\<close>, the choice of the
  route and the sending in \<^verbatim>\<open>network/runtime/support.rs\<close>, the relay handler in
  \<^verbatim>\<open>network/runtime/events.rs\<close>. X25519, ChaCha20-Poly1305, SHA-256, Ed25519, Base64, JSON and
  bincode are arguments, collected in a record; the random ephemeral secrets, nonces and the
  shuffle are arguments too.
\<close>

section \<open>Data\<close>

datatype OnionError =
    OnionCrypto string
  | SerializationError string
  | InvalidFormat string
  | EmptyRoute
  | InvalidPublicKey string
  | InvalidHops
  | EncryptionError
  | InvalidEphemeralKey
  | DecryptionFailed

record OnionLayer =
  ol_payload :: "u8 list"
  ol_ephemeral_pk :: string
  ol_next_hop :: string

record HopInfo =
  hi_peer_id :: string
  hi_pubkey_b64 :: string
  hi_activation_cert :: string

record OnionRelayRequest =
  or_layer :: OnionLayer
  or_hop :: u8

record OnionRelayResponse =
  op_success :: bool
  op_error :: "OnionError option"

record 'ed OnionEnv =
  x_public :: "u8 list \<Rightarrow> u8 list"
  x_dh :: "u8 list \<Rightarrow> u8 list \<Rightarrow> u8 list"
  aead_seal :: "u8 list \<Rightarrow> u8 list \<Rightarrow> u8 list \<Rightarrow> u8 list option"
  aead_open :: "u8 list \<Rightarrow> u8 list \<Rightarrow> u8 list \<Rightarrow> u8 list option"
  on_sha256 :: "u8 list \<Rightarrow> u8 list"
  on_b64_encode :: "u8 list \<Rightarrow> string"
  on_b64_decode :: "string \<Rightarrow> u8 list option"
  on_sig_ok :: "u8 list \<Rightarrow> bool"
  on_ed_verify :: "'ed \<Rightarrow> u8 list \<Rightarrow> u8 list \<Rightarrow> bool"
  layer_to_json :: "OnionLayer \<Rightarrow> u8 list option"
  layer_from_json :: "u8 list \<Rightarrow> OnionLayer option"
  layer_from_bincode :: "u8 list \<Rightarrow> OnionLayer option"

section \<open>Layers\<close>

definition derive_enc_key :: "'ed OnionEnv \<Rightarrow> u8 list \<Rightarrow> u8 list" where
  "derive_enc_key env shared_secret = on_sha256 env (as_bytes ''ESS-ONION-ENC-KEY-v1'' @ shared_secret)"

definition encrypt_payload :: "'ed OnionEnv \<Rightarrow> u8 list \<Rightarrow> u8 list \<Rightarrow> u8 list \<Rightarrow> OnionError + u8 list" where
  "encrypt_payload env nonce plaintext key =
     (case aead_seal env key nonce plaintext of
        None \<Rightarrow> Inl EncryptionError
      | Some ciphertext \<Rightarrow> Inr (nonce @ ciphertext))"

definition decrypt_payload :: "'ed OnionEnv \<Rightarrow> u8 list \<Rightarrow> u8 list \<Rightarrow> OnionError + u8 list" where
  "decrypt_payload env ciphertext key =
     (if length ciphertext < 12 then Inl DecryptionFailed
      else case aead_open env key (take 12 ciphertext) (drop 12 ciphertext) of
        None \<Rightarrow> Inl DecryptionFailed
      | Some plaintext \<Rightarrow> Inr plaintext)"

definition encrypt_layer :: "'ed OnionEnv \<Rightarrow> u8 list \<Rightarrow> u8 list \<Rightarrow> u8 list \<Rightarrow> u8 list \<Rightarrow> string \<Rightarrow> OnionError + OnionLayer" where
  "encrypt_layer env ephemeral_secret nonce payload peer_pk next_hop =
     (let shared_secret = x_dh env ephemeral_secret peer_pk;
          enc_key = derive_enc_key env shared_secret
      in if enc_key = replicate 32 0 then Inl (OnionCrypto ''Derived enc_key is all-zero (weak DH)'')
         else case encrypt_payload env nonce payload enc_key of
           Inl e \<Rightarrow> Inl e
         | Inr encrypted \<Rightarrow>
             Inr \<lparr> ol_payload = encrypted, ol_ephemeral_pk = on_b64_encode env (x_public env ephemeral_secret),
                   ol_next_hop = next_hop \<rparr>)"

definition peel_onion_layer :: "'ed OnionEnv \<Rightarrow> OnionLayer \<Rightarrow> u8 list \<Rightarrow> OnionError + (string \<times> u8 list)" where
  "peel_onion_layer env layer our_sk =
     (case on_b64_decode env (ol_ephemeral_pk layer) of
        None \<Rightarrow> Inl InvalidEphemeralKey
      | Some eph_pk \<Rightarrow>
          if length eph_pk \<noteq> 32 then Inl InvalidEphemeralKey
          else case decrypt_payload env (ol_payload layer) (derive_enc_key env (x_dh env our_sk eph_pk)) of
            Inl e \<Rightarrow> Inl e
          | Inr plaintext \<Rightarrow> Inr (ol_next_hop layer, plaintext))"

section \<open>Padding\<close>

definition pad_payload :: "u8 list \<Rightarrow> nat \<Rightarrow> u8 list" where
  "pad_payload payload block_size =
     (let block_size = max block_size 1;
          pad_len = (if length payload mod block_size = 0 then 0 else block_size - length payload mod block_size);
          orig_len = (of_nat (length payload) :: u16)
      in le_bytes 2 orig_len @ payload @ replicate pad_len 0)"

definition unpad_payload :: "u8 list \<Rightarrow> OnionError + u8 list" where
  "unpad_payload padded =
     (if length padded < 2 then Inl (InvalidFormat ''Payload too short to unpad'')
      else
        let orig_len = unat (padded ! 0) + 256 * unat (padded ! 1) in
        if 2 + orig_len > length padded then Inl (InvalidFormat ''Padding length mismatch'')
        else Inr (take orig_len (drop 2 padded)))"

definition ONION_MIN_PADDING :: nat where
  "ONION_MIN_PADDING = 256"

definition ONION_DEFAULT_PADDING :: nat where
  "ONION_DEFAULT_PADDING = 1400"

definition pad_onion_payload :: "u8 list \<Rightarrow> nat \<Rightarrow> u8 list" where
  "pad_onion_payload payload tgt =
     pad_payload payload (if tgt = 0 then ONION_DEFAULT_PADDING else max tgt ONION_MIN_PADDING)"

section \<open>The builder\<close>

definition verify_hop_ownership :: "'ed OnionEnv \<Rightarrow> 'ed option \<Rightarrow> HopInfo \<Rightarrow> OnionError + unit" where
  "verify_hop_ownership env authority_pubkey hop =
     (case authority_pubkey of
        None \<Rightarrow> Inr ()
      | Some pk \<Rightarrow>
          if hi_activation_cert hop = []
          then Inl (InvalidPublicKey (''hop '' @ hi_peer_id hop @ '' has no activation certificate''))
          else case on_b64_decode env (hi_activation_cert hop) of
            None \<Rightarrow> Inl (InvalidPublicKey ''cert base64 decode failed'')
          | Some sig \<Rightarrow>
              if length sig \<noteq> 64 then Inl (InvalidPublicKey ''cert wrong length'')
              else if \<not> on_sig_ok env sig then Inl (InvalidPublicKey ''invalid Ed25519 signature'')
              else if on_ed_verify env pk
                (as_bytes (''ESS-HOP-BIND-v1:'' @ hi_peer_id hop @ '':'' @ hi_pubkey_b64 hop)) sig
              then Inr ()
              else Inl (InvalidPublicKey (''hop '' @ hi_peer_id hop @ '' ownership verification FAILED'')))"

fun verify_hops :: "'ed OnionEnv \<Rightarrow> 'ed option \<Rightarrow> HopInfo list \<Rightarrow> OnionError + unit" where
  "verify_hops env pk [] = Inr ()"
| "verify_hops env pk (h # hs) =
     (case verify_hop_ownership env pk h of Inl e \<Rightarrow> Inl e | Inr u \<Rightarrow> verify_hops env pk hs)"

text \<open>The loop over the hop indices, last hop first; \<open>rand i\<close> is the ephemeral secret and nonce of hop \<open>i\<close>.\<close>

fun wrap_loop :: "'ed OnionEnv \<Rightarrow> (nat \<Rightarrow> u8 list \<times> u8 list) \<Rightarrow> HopInfo list \<Rightarrow> nat list \<Rightarrow> u8 list \<Rightarrow>
    OnionLayer option \<Rightarrow> OnionError + (u8 list \<times> OnionLayer option)" where
  "wrap_loop env rand hops [] current outer = Inr (current, outer)"
| "wrap_loop env rand hops (i # is) current outer =
     (let hop = hops ! i;
          next_hop_id = (if i + 1 < length hops then hi_peer_id (hops ! (i + 1)) else [])
      in case on_b64_decode env (hi_pubkey_b64 hop) of
           None \<Rightarrow> Inl (InvalidPublicKey ''decode error'')
         | Some their_pk \<Rightarrow>
             if length their_pk \<noteq> 32 then Inl (InvalidPublicKey ''length error'')
             else case encrypt_layer env (fst (rand i)) (snd (rand i)) current their_pk next_hop_id of
               Inl e \<Rightarrow> Inl e
             | Inr layer \<Rightarrow>
                 (case layer_to_json env layer of
                    None \<Rightarrow> Inl (SerializationError ''json error'')
                  | Some json \<Rightarrow> wrap_loop env rand hops is json (Some layer)))"

definition build_onion_packet :: "'ed OnionEnv \<Rightarrow> (nat \<Rightarrow> u8 list \<times> u8 list) \<Rightarrow> HopInfo list \<Rightarrow> u8 list \<Rightarrow> nat \<Rightarrow>
    'ed option \<Rightarrow> OnionError + OnionLayer" where
  "build_onion_packet env rand hops payload padding_size authority_pubkey =
     (if hops = [] then Inl EmptyRoute
      else if length hops < 2 then Inl InvalidHops
      else case verify_hops env authority_pubkey hops of
        Inl e \<Rightarrow> Inl e
      | Inr u \<Rightarrow>
          (case wrap_loop env rand hops (rev [0..<length hops]) (pad_payload payload padding_size) None of
             Inl e \<Rightarrow> Inl e
           | Inr (c, None) \<Rightarrow> Inl InvalidHops
           | Inr (c, Some layer) \<Rightarrow> Inr layer))"

section \<open>Route and sending\<close>

definition select_onion_hops :: "(string list \<Rightarrow> string list) \<Rightarrow> string list \<Rightarrow> string \<Rightarrow> string \<Rightarrow> nat \<Rightarrow> string list option" where
  "select_onion_hops shuffle known_peers local_id destination n =
     (let candidates = filter (\<lambda>p. p \<noteq> local_id \<and> p \<noteq> destination) known_peers in
      if length candidates < n then None
      else Some (take n (shuffle candidates) @ [destination]))"

text \<open>What is handed to the swarm: a plain direct request, or a relay request for the first hop.\<close>

datatype OnionSend = SendDirect string "u8 list" | SendRelay string OnionRelayRequest

record 'ed OnionCtx =
  onion_hops :: nat
  onion_payload_size :: nat
  pubkey_store :: "string \<rightharpoonup> u8 list"
  authority_pubkey :: "'ed option"

fun hop_keys :: "(string \<rightharpoonup> u8 list) \<Rightarrow> string list \<Rightarrow> u8 list list \<Rightarrow> u8 list list" where
  "hop_keys store [] acc = acc"
| "hop_keys store (p # ps) acc =
     (case store p of Some k \<Rightarrow> hop_keys store ps (acc @ [k]) | None \<Rightarrow> [])"

definition send_via_onion :: "'ed OnionEnv \<Rightarrow> (nat \<Rightarrow> u8 list \<times> u8 list) \<Rightarrow> (string list \<Rightarrow> string list) \<Rightarrow> string \<Rightarrow>
    'ed OnionCtx \<Rightarrow> string \<Rightarrow> u8 list \<Rightarrow> string list \<Rightarrow> OnionSend" where
  "send_via_onion env rand shuffle local_id ctx destination plaintext known_peers =
     (if onion_hops ctx = 0 then SendDirect destination plaintext
      else
        let padded = pad_onion_payload plaintext (onion_payload_size ctx) in
        case select_onion_hops shuffle known_peers local_id destination (onion_hops ctx) of
          None \<Rightarrow> SendDirect destination padded
        | Some hops \<Rightarrow>
            let keys = hop_keys (pubkey_store ctx) hops [] in
            if keys = [] then SendDirect destination padded
            else
              let infos = map (\<lambda>(p, k). \<lparr> hi_peer_id = p, hi_pubkey_b64 = on_b64_encode env k,
                    hi_activation_cert = [] \<rparr>) (zip hops keys)
              in case build_onion_packet env rand infos padded (onion_payload_size ctx) (authority_pubkey ctx) of
                   Inr layer \<Rightarrow> SendRelay (hops ! 0) \<lparr> or_layer = layer, or_hop = 0 \<rparr>
                 | Inl e \<Rightarrow> SendDirect destination padded)"

section \<open>The relay\<close>

text \<open>
  The handler answers the sender and then delivers or forwards; a layer that bincode cannot
  decode is a panic (\<^verbatim>\<open>expect\<close>).
\<close>

datatype RelayOutcome =
    Delivered "u8 list"
  | UnpadFailed OnionError
  | Forward string OnionRelayRequest
  | BadNextHop string
  | PeelFailed OnionError
  | RelayPanic

definition handle_onion_relay :: "'ed OnionEnv \<Rightarrow> (string \<Rightarrow> string option) \<Rightarrow> u8 list \<Rightarrow> OnionRelayRequest \<Rightarrow>
    OnionRelayResponse \<times> RelayOutcome" where
  "handle_onion_relay env parse_peer our_sk relay =
     (case peel_onion_layer env (or_layer relay) our_sk of
        Inl e \<Rightarrow> (\<lparr> op_success = False, op_error = Some e \<rparr>, PeelFailed e)
      | Inr (next_hop, inner_payload) \<Rightarrow>
          (\<lparr> op_success = True, op_error = None \<rparr>,
           if next_hop = [] then
             (case unpad_payload inner_payload of
                Inr original \<Rightarrow> Delivered original
              | Inl e \<Rightarrow> UnpadFailed e)
           else
             (case parse_peer next_hop of
                None \<Rightarrow> BadNextHop next_hop
              | Some next_peer \<Rightarrow>
                  (case layer_from_bincode env inner_payload of
                     None \<Rightarrow> RelayPanic
                   | Some layer \<Rightarrow> Forward next_peer \<lparr> or_layer = layer, or_hop = or_hop relay + 1 \<rparr>))))"

text \<open>
  A packet carried along a route as the unit tests of \<^verbatim>\<open>onion.rs\<close> do it: each hop peels its layer
  and decodes the next one from JSON.
\<close>

fun peel_route :: "'ed OnionEnv \<Rightarrow> u8 list list \<Rightarrow> OnionLayer \<Rightarrow> OnionError + (string list \<times> u8 list)" where
  "peel_route env [] layer = Inl EmptyRoute"
| "peel_route env (sk # sks) layer =
     (case peel_onion_layer env layer sk of
        Inl e \<Rightarrow> Inl e
      | Inr (next_hop, rest) \<Rightarrow>
          if next_hop = [] then (case unpad_payload rest of Inl e \<Rightarrow> Inl e | Inr p \<Rightarrow> Inr ([], p))
          else (case layer_from_json env rest of
            None \<Rightarrow> Inl (SerializationError [])
          | Some l \<Rightarrow> (case peel_route env sks l of Inl e \<Rightarrow> Inl e | Inr (ns, p) \<Rightarrow> Inr (next_hop # ns, p))))"

section \<open>Lemmas\<close>

lemma le_bytes2: "le_bytes 2 (w :: u16) = [ucast w, ucast (drop_bit 8 w)]"
  by (simp add: le_bytes_def numeral_2_eq_2)

lemma le_bytes2_val:
  "unat (le_bytes 2 (w :: u16) ! 0) + 256 * unat (le_bytes 2 w ! 1) = unat w"
proof -
  have "unat w < 2 ^ LENGTH(16)" by (rule unsigned_less)
  then have w: "unat w < 65536" by simp
  have "unat (ucast w :: u8) = unat w mod 256"
    by (simp add: unsigned_ucast_eq take_bit_eq_mod)
  moreover have "unat (ucast (drop_bit 8 w) :: u8) = unat w div 256"
  proof -
    have "unat w div 256 < 256" using w by simp
    then show ?thesis by (simp add: unsigned_ucast_eq take_bit_eq_mod drop_bit_eq_div unat_div)
  qed
  ultimately show ?thesis by (simp add: le_bytes2)
qed

lemma unpad_pad:
  assumes "length p < 65536"
  shows "unpad_payload (pad_payload p n) = Inr p"
proof -
  have l: "unat (of_nat (length p) :: u16) = length p" using assms by (simp add: unsigned_of_nat take_bit_nat_eq_self)
  obtain a b where ab: "le_bytes 2 (of_nat (length p) :: u16) = [a, b]" by (simp add: le_bytes2)
  then have "unat a + 256 * unat b = length p"
    using le_bytes2_val[of "of_nat (length p)"] by (simp add: l)
  then show ?thesis by (simp add: unpad_payload_def pad_payload_def Let_def ab)
qed

lemma wrap_loop_append:
  "wrap_loop env rand hops (xs @ ys) c outer =
     (case wrap_loop env rand hops xs c outer of
        Inl e \<Rightarrow> Inl e | Inr (c', o') \<Rightarrow> wrap_loop env rand hops ys c' o')"
  by (induction env rand hops xs c outer rule: wrap_loop.induct)
    (auto simp: Let_def split: option.split sum.split)

text \<open>
  What the builder relies on: Diffie-Hellman agrees on both sides, opening undoes sealing,
  Base64 and JSON decode what they encode, and no derived key is all zero.
\<close>

definition onion_env_ok :: "'ed OnionEnv \<Rightarrow> bool" where
  "onion_env_ok env \<longleftrightarrow>
     (\<forall>a b. length a = 32 \<longrightarrow> length b = 32 \<longrightarrow> x_dh env a (x_public env b) = x_dh env b (x_public env a)) \<and>
     (\<forall>a. length a = 32 \<longrightarrow> length (x_public env a) = 32) \<and>
     (\<forall>k n p. length n = 12 \<longrightarrow> (\<exists>c. aead_seal env k n p = Some c \<and> aead_open env k n c = Some p)) \<and>
     (\<forall>x. on_b64_decode env (on_b64_encode env x) = Some x) \<and>
     (\<forall>l. \<exists>j. layer_to_json env l = Some j \<and> layer_from_json env j = Some l) \<and>
     (\<forall>x. on_sha256 env x \<noteq> replicate 32 0)"

lemma encrypt_peel:
  assumes env: "onion_env_ok env" and e: "length e = 32" and n: "length n = 12" and sk: "length sk = 32"
  shows "\<exists>layer. encrypt_layer env e n payload (x_public env sk) next_hop = Inr layer \<and>
    peel_onion_layer env layer sk = Inr (next_hop, payload)"
proof -
  let ?k = "derive_enc_key env (x_dh env e (x_public env sk))"
  obtain c where c: "aead_seal env ?k n payload = Some c" "aead_open env ?k n c = Some payload"
    using env n unfolding onion_env_ok_def by blast
  have dh: "x_dh env sk (x_public env e) = x_dh env e (x_public env sk)"
    using env e sk unfolding onion_env_ok_def by metis
  have "?k \<noteq> replicate 32 0" using env by (simp add: onion_env_ok_def derive_enc_key_def)
  then show ?thesis
    using c env e n
    by (simp add: encrypt_layer_def encrypt_payload_def Let_def peel_onion_layer_def decrypt_payload_def
        onion_env_ok_def dh)
qed

definition route_ok :: "'ed OnionEnv \<Rightarrow> HopInfo list \<Rightarrow> u8 list list \<Rightarrow> bool" where
  "route_ok env hops sks \<longleftrightarrow> length sks = length hops \<and> (\<forall>h\<in>set hops. hi_peer_id h \<noteq> []) \<and>
     (\<forall>i < length hops. length (sks ! i) = 32 \<and> hi_pubkey_b64 (hops ! i) = on_b64_encode env (x_public env (sks ! i)))"

definition rand_ok :: "(nat \<Rightarrow> u8 list \<times> u8 list) \<Rightarrow> bool" where
  "rand_ok rand \<longleftrightarrow> (\<forall>i. length (fst (rand i)) = 32 \<and> length (snd (rand i)) = 12)"

lemma wrap_step:
  assumes env: "onion_env_ok env" and r: "route_ok env hops sks" and rand: "rand_ok rand" and k: "k < length hops"
  shows "\<exists>layer j. wrap_loop env rand hops [k] pt cur = Inr (j, Some layer) \<and>
    layer_to_json env layer = Some j \<and> layer_from_json env j = Some layer \<and>
    peel_onion_layer env layer (sks ! k) = Inr (if Suc k < length hops then hi_peer_id (hops ! Suc k) else [], pt)"
proof -
  let ?nx = "if Suc k < length hops then hi_peer_id (hops ! Suc k) else []"
  have sk: "length (sks ! k) = 32" "hi_pubkey_b64 (hops ! k) = on_b64_encode env (x_public env (sks ! k))"
    using r k unfolding route_ok_def by blast+
  have e: "length (fst (rand k)) = 32" "length (snd (rand k)) = 12" using rand by (auto simp: rand_ok_def)
  obtain layer where l: "encrypt_layer env (fst (rand k)) (snd (rand k)) pt (x_public env (sks ! k)) ?nx = Inr layer"
      "peel_onion_layer env layer (sks ! k) = Inr (?nx, pt)"
    using encrypt_peel[OF env e sk(1)] by blast
  obtain j where j: "layer_to_json env layer = Some j" "layer_from_json env j = Some layer"
    using env unfolding onion_env_ok_def by blast
  have pk: "on_b64_decode env (hi_pubkey_b64 (hops ! k)) = Some (x_public env (sks ! k))" "length (x_public env (sks ! k)) = 32"
    using env sk by (auto simp: onion_env_ok_def)
  have "wrap_loop env rand hops [k] pt cur = Inr (j, Some layer)"
    using l(1) j(1) pk k by auto
  with j l(2) show ?thesis by blast
qed

lemma wrap_route:
  assumes env: "onion_env_ok env" and r: "route_ok env hops sks" and rand: "rand_ok rand"
    and p: "length p < 65536" and k: "k < length hops"
  shows "\<exists>layer j. wrap_loop env rand hops (rev [k..<length hops]) (pad_payload p n) None = Inr (j, Some layer) \<and>
    layer_to_json env layer = Some j \<and> layer_from_json env j = Some layer \<and>
    peel_route env (drop k sks) layer = Inr (map hi_peer_id (drop (Suc k) hops), p)"
  using k
proof (induction "length hops - Suc k" arbitrary: k)
  case 0
  then have k: "Suc k = length hops" by simp
  then have "rev [k..<length hops] = [k]" by (simp add: upt_conv_Cons)
  moreover have "drop k sks = [sks ! k]"
    using r k by (metis Cons_nth_drop_Suc drop_all lessI order_refl route_ok_def)
  ultimately show ?case
    using wrap_step[OF env r rand 0(2), of "pad_payload p n" None] k unpad_pad[OF p] by auto
next
  case (Suc m)
  then have k: "Suc k < length hops" "m = length hops - Suc (Suc k)" by auto
  from Suc.hyps(1)[OF k(2) k(1)] obtain layer0 j0 where IH:
    "wrap_loop env rand hops (rev [Suc k..<length hops]) (pad_payload p n) None = Inr (j0, Some layer0)"
    "layer_from_json env j0 = Some layer0"
    "peel_route env (drop (Suc k) sks) layer0 = Inr (map hi_peer_id (drop (Suc (Suc k)) hops), p)" by blast
  obtain layer j where l: "wrap_loop env rand hops [k] j0 (Some layer0) = Inr (j, Some layer)"
      "layer_to_json env layer = Some j" "layer_from_json env j = Some layer"
      "peel_onion_layer env layer (sks ! k) = Inr (hi_peer_id (hops ! Suc k), j0)"
    using wrap_step[OF env r rand Suc.prems, of j0 "Some layer0"] k by auto
  have "rev [k..<length hops] = rev [Suc k..<length hops] @ [k]" using k by (simp add: upt_conv_Cons)
  then have "wrap_loop env rand hops (rev [k..<length hops]) (pad_payload p n) None = Inr (j, Some layer)"
    using IH(1) l(1) by (simp only: wrap_loop_append) simp
  moreover have "drop k sks = sks ! k # drop (Suc k) sks"
    using r k by (simp add: Cons_nth_drop_Suc route_ok_def)
  moreover have "drop (Suc k) hops = hops ! Suc k # drop (Suc (Suc k)) hops"
    using k by (simp add: Cons_nth_drop_Suc)
  moreover have "hi_peer_id (hops ! Suc k) \<noteq> []" using r k by (simp add: route_ok_def)
  ultimately show ?case
    using l IH by auto
qed

lemma verify_hops_none: "verify_hops env None hs = Inr ()"
  by (induction hs) (simp_all add: verify_hop_ownership_def)

lemma onion_builds:
  assumes "onion_env_ok env" and "route_ok env hops sks" and "rand_ok rand" and "2 \<le> length hops"
    and "length p < 65536"
  shows "\<exists>layer. build_onion_packet env rand hops p n None = Inr layer \<and>
    peel_route env sks layer = Inr (map hi_peer_id (tl hops), p)"
proof -
  have k: "0 < length hops" using assms(4) by auto
  from wrap_route[OF assms(1,2,3,5) k, of n] obtain layer j where
    "wrap_loop env rand hops (rev [0..<length hops]) (pad_payload p n) None = Inr (j, Some layer)"
    "peel_route env (drop 0 sks) layer = Inr (map hi_peer_id (drop (Suc 0) hops), p)" by blast
  then show ?thesis
    using assms(4) k unfolding build_onion_packet_def verify_hops_none by (auto simp: drop_Suc)
qed

section \<open>Properties\<close>


fun enc_field :: "u8 list \<Rightarrow> u8 list" where
  "enc_field [] = [0]"
| "enc_field (b # bs) = 1 # b # enc_field bs"

fun dec_field :: "u8 list \<Rightarrow> (u8 list \<times> u8 list) option" where
  "dec_field (t # rest) =
     (if t = 0 then Some ([], rest)
      else case rest of
        [] \<Rightarrow> None
      | b # rest' \<Rightarrow> (case dec_field rest' of None \<Rightarrow> None | Some (bs, r) \<Rightarrow> Some (b # bs, r)))"
| "dec_field [] = None"

lemma dec_enc_field: "dec_field (enc_field xs @ ys) = Some (xs, ys)"
  by (induction xs) simp_all

definition demo_to_json :: "OnionLayer \<Rightarrow> u8 list" where
  "demo_to_json l = enc_field (ol_payload l) @ enc_field (as_bytes (ol_ephemeral_pk l)) @ enc_field (as_bytes (ol_next_hop l))"

definition un_bytes :: "u8 list \<Rightarrow> string" where
  "un_bytes bs = map (\<lambda>b. char_of (unat b)) bs"

definition demo_from_json :: "u8 list \<Rightarrow> OnionLayer option" where
  "demo_from_json bs =
     (case dec_field bs of None \<Rightarrow> None | Some (p, r) \<Rightarrow>
        (case dec_field r of None \<Rightarrow> None | Some (e, r) \<Rightarrow>
           (case dec_field r of None \<Rightarrow> None | Some (n, r) \<Rightarrow>
              Some \<lparr> ol_payload = p, ol_ephemeral_pk = un_bytes e, ol_next_hop = un_bytes n \<rparr>)))"

lemma un_bytes_as_bytes: "un_bytes (as_bytes s) = s"
proof (induction s)
  case (Cons c s)
  have "(of_char c :: u8) = of_nat (of_char c)" by (simp add: of_nat_of_char)
  moreover have "(of_char c :: nat) < 256" by simp
  ultimately have "unat (of_char c :: u8) = of_char c" by (simp add: unat_of_nat)
  with Cons show ?case by (simp add: un_bytes_def as_bytes_def)
qed (simp add: un_bytes_def as_bytes_def)

lemma as_bytes_un_bytes: "as_bytes (un_bytes bs) = bs"
proof (induction bs)
  case (Cons b bs)
  have "unat b < 2 ^ LENGTH(8)" by (rule unsigned_less)
  then have "(of_char (char_of (unat b)) :: nat) = unat b" by simp
  then have "(of_nat (of_char (char_of (unat b))) :: u8) = b" by simp
  then have "(of_char (char_of (unat b)) :: u8) = b" by (metis of_nat_of_char)
  with Cons show ?case by (simp add: un_bytes_def as_bytes_def)
qed (simp add: un_bytes_def as_bytes_def)

lemma demo_json: "demo_from_json (demo_to_json l) = Some l"
  using dec_enc_field[of _ "[]"]
  by (simp add: demo_from_json_def demo_to_json_def dec_enc_field un_bytes_as_bytes)

definition demo_onion_env :: "unit OnionEnv" where
  "demo_onion_env = \<lparr> x_public = (\<lambda>k. k), x_dh = (\<lambda>a b. map2 (+) a b),
     aead_seal = (\<lambda>k n p. Some p), aead_open = (\<lambda>k n c. Some c), on_sha256 = (\<lambda>b. [1]),
     on_b64_encode = un_bytes, on_b64_decode = (\<lambda>s. Some (as_bytes s)), on_sig_ok = (\<lambda>_. True),
     on_ed_verify = (\<lambda>_ _ _. True), layer_to_json = (\<lambda>l. Some (demo_to_json l)),
     layer_from_json = demo_from_json,
     layer_from_bincode = (\<lambda>bs. if bs \<noteq> [] \<and> hd bs = 2 then demo_from_json (tl bs) else None) \<rparr>"

lemma demo_onion_env_ok: "onion_env_ok demo_onion_env"
proof -
  have "map2 (+) a b = map2 (+) b a" for a b :: "u8 list"
    by (induction a arbitrary: b) (auto simp: add.commute zip_Cons1 split: list.split)
  then show ?thesis
    by (simp add: onion_env_ok_def demo_onion_env_def as_bytes_un_bytes demo_json numeral_eq_Suc)
qed

definition demo_route :: "HopInfo list" where
  "demo_route = [\<lparr> hi_peer_id = ''r1'', hi_pubkey_b64 = un_bytes (replicate 32 5), hi_activation_cert = [] \<rparr>,
     \<lparr> hi_peer_id = ''d'', hi_pubkey_b64 = un_bytes (replicate 32 6), hi_activation_cert = [] \<rparr>]"

lemma demo_route_ok: "route_ok demo_onion_env demo_route [replicate 32 5, replicate 32 6]"
  by (auto simp: route_ok_def demo_route_def demo_onion_env_def nth_Cons')

lemma demo_rand_ok: "rand_ok (\<lambda>i. (replicate 32 9, replicate 12 1))"
  by (simp add: rand_ok_def)


section \<open>What the runtime does with the packets\<close>

definition le_val :: "u8 list \<Rightarrow> nat" where
  "le_val bs = foldr (\<lambda>b acc. unat b + 256 * acc) bs 0"

definition json_head :: "u8 list" where
  "json_head = as_bytes (CHR ''{'' # CHR 0x22 # ''payloa'')"

lemma json_head_val: "le_val json_head = 7020949612675474043"
  by (simp add: le_val_def json_head_def as_bytes_def)

text \<open>
  The builder writes the inner layers as JSON and the relay reads them with bincode, which
  takes the first eight bytes as the length of the payload: every relay but the last panics on a
  packet built by this code.
\<close>

theorem onion_relay_panics:
  assumes env: "onion_env_ok env" and r: "route_ok env hops sks" and rand: "rand_ok rand" and n2: "2 \<le> length hops"
    and p: "length p < 65536" and layer: "build_onion_packet env rand hops p n None = Inr layer"
    and json: "\<forall>l j. layer_to_json env l = Some j \<longrightarrow> take 8 j = json_head \<and> length j < 2 ^ 60"
    and bincode: "\<forall>bs. length bs < 8 + le_val (take 8 bs) \<longrightarrow> layer_from_bincode env bs = None"
    and peer: "parse_peer (hi_peer_id (hops ! 1)) \<noteq> None"
  shows "snd (handle_onion_relay env parse_peer (sks ! 0) \<lparr> or_layer = layer, or_hop = h \<rparr>) = RelayPanic"
proof -
  have k: "Suc 0 < length hops" and k0: "0 < length hops" and ne: "hops \<noteq> []" using n2 by auto
  from wrap_route[OF env r rand p k, of n] obtain l0 j0 where
    w: "wrap_loop env rand hops (rev [Suc 0..<length hops]) (pad_payload p n) None = Inr (j0, Some l0)"
    and j0: "layer_to_json env l0 = Some j0" by blast
  obtain l1 j1 where l1: "wrap_loop env rand hops [0] j0 (Some l0) = Inr (j1, Some l1)"
      "peel_onion_layer env l1 (sks ! 0) = Inr (hi_peer_id (hops ! 1), j0)"
    using wrap_step[OF env r rand k0, of j0 "Some l0"] k by auto
  have "rev [0..<length hops] = rev [Suc 0..<length hops] @ [0]" using k0 by (simp add: upt_conv_Cons)
  then have "wrap_loop env rand hops (rev [0..<length hops]) (pad_payload p n) None = Inr (j1, Some l1)"
    using w l1(1) by (simp only: wrap_loop_append) simp
  then have "layer = l1" using layer n2 ne unfolding build_onion_packet_def verify_hops_none by simp
  moreover have "layer_from_bincode env j0 = None"
  proof -
    have "length j0 < 2 ^ 60" "take 8 j0 = json_head" using json j0 by auto
    then have "length j0 < 8 + le_val (take 8 j0)" using json_head_val by simp
    then show ?thesis using bincode by blast
  qed
  moreover have "hi_peer_id (hops ! 1) \<noteq> []" using r k by (simp add: route_ok_def)
  ultimately show ?thesis using l1(2) peer by (auto simp: handle_onion_relay_def)
qed

text \<open>
  The sender pads the payload before the builder pads it again, and the destination removes
  one padding: it delivers the padded payload, two length bytes included, and not the payload.
\<close>

lemma length_pad_payload: "2 + length p \<le> length (pad_payload p n)"
  by (simp add: pad_payload_def Let_def)

lemma pad_onion_differs: "pad_onion_payload p n \<noteq> p"
proof
  assume "pad_onion_payload p n = p"
  then have "2 + length p \<le> length p" using length_pad_payload[of p] unfolding pad_onion_payload_def by metis
  then show False by simp
qed

lemma hop_keys_all:
  "\<forall>q\<in>set ps. \<exists>k. store q = Some k \<Longrightarrow> hop_keys store ps acc = acc @ map (\<lambda>q. the (store q)) ps"
  by (induction ps arbitrary: acc) auto

theorem onion_double_padding:
  assumes env: "onion_env_ok env" and rand: "rand_ok rand"
    and hops: "select_onion_hops shuffle known local_id dest (onion_hops ctx) = Some hops" "0 < onion_hops ctx"
      "2 \<le> length hops"
    and keys: "\<forall>q\<in>set hops. q \<noteq> [] \<and> length (sk q) = 32 \<and> pubkey_store ctx q = Some (x_public env (sk q))"
    and auth: "authority_pubkey ctx = None" and len: "length (pad_onion_payload p (onion_payload_size ctx)) < 65536"
  shows "\<exists>layer. send_via_onion env rand shuffle local_id ctx dest p known =
      SendRelay (hops ! 0) \<lparr> or_layer = layer, or_hop = 0 \<rparr> \<and>
    peel_route env (map sk hops) layer = Inr (tl hops, pad_onion_payload p (onion_payload_size ctx)) \<and>
    pad_onion_payload p (onion_payload_size ctx) \<noteq> p"
proof -
  let ?infos = "map (\<lambda>(p, k). \<lparr> hi_peer_id = p, hi_pubkey_b64 = on_b64_encode env k, hi_activation_cert = [] \<rparr>)
      (zip hops (map (\<lambda>q. the (pubkey_store ctx q)) hops))"
  have ks: "hop_keys (pubkey_store ctx) hops [] = map (\<lambda>q. the (pubkey_store ctx q)) hops"
    using hop_keys_all[of hops "pubkey_store ctx" "[]"] keys by auto
  have ids: "map hi_peer_id ?infos = hops" by (simp add: comp_def case_prod_beta)
  have "route_ok env ?infos (map sk hops)"
    using keys by (auto simp: route_ok_def set_zip)
  from onion_builds[OF env this rand _ len, of "onion_payload_size ctx"] hops(3) obtain layer where
    l: "build_onion_packet env rand ?infos (pad_onion_payload p (onion_payload_size ctx)) (onion_payload_size ctx) None = Inr layer"
      "peel_route env (map sk hops) layer = Inr (map hi_peer_id (tl ?infos), pad_onion_payload p (onion_payload_size ctx))"
    by auto
  have "hops \<noteq> []" using hops(3) by auto
  then have "send_via_onion env rand shuffle local_id ctx dest p known =
      SendRelay (hops ! 0) \<lparr> or_layer = layer, or_hop = 0 \<rparr>"
    using hops l(1) auth by (simp add: send_via_onion_def Let_def ks)
  moreover have "map hi_peer_id (tl ?infos) = tl hops" using ids by (metis map_tl)
  ultimately show ?thesis using l(2) pad_onion_differs by auto
qed

text \<open>The clear next hop is not covered by the authentication of the layer.\<close>

lemma next_hop_malleable:
  assumes "peel_onion_layer env layer sk = Inr (next_hop, p)"
  shows "peel_onion_layer env (layer\<lparr> ol_next_hop := x \<rparr>) sk = Inr (x, p)"
  using assms by (auto simp: peel_onion_layer_def split: option.splits sum.splits if_splits)

end
