(* ===== verification/Web_Registry.thy ===== *)
theory Web_Registry
  imports Message
begin

text \<open>
  Service names and the service registry of \<^verbatim>\<open>web.rs\<close>: parsing of \<^verbatim>\<open>ess://\<close> addresses, the
  namespaces, who may publish where, and the registry, a sorted map from service keys to
  records.
\<close>

section \<open>Addresses and namespaces\<close>

definition trim_matches :: "char \<Rightarrow> string \<Rightarrow> string" where
  "trim_matches c s = rev (dropWhile (\<lambda>x. x = c) (rev (dropWhile (\<lambda>x. x = c) s)))"

definition normalize_namespace :: "string \<Rightarrow> string" where
  "normalize_namespace ns = str_lower (trim_matches CHR ''/'' (str_trim ns))"

definition ESS_NAMESPACE_DEFAULTS :: "string list" where
  "ESS_NAMESPACE_DEFAULTS =
     [''wallet'', ''market'', ''dashboard'', ''identity'', ''governance'', ''node'', ''registry'']"

record EssUri =
  uri_raw :: string
  uri_namespace :: string
  uri_service :: string
  uri_path :: string

definition parse_ess_uri :: "string \<Rightarrow> EssUri option" where
  "parse_ess_uri url =
     (let raw = str_trim url in
      if \<not> starts_with ''ess://'' (str_lower raw) then None
      else
        let parts = filter (\<lambda>s. str_trim s \<noteq> []) (split_on CHR ''/'' (drop 6 raw));
            namespace = normalize_namespace (case parts of [] \<Rightarrow> [] | p # _ \<Rightarrow> p)
        in if namespace = [] then None
           else Some \<lparr> uri_raw = raw, uri_namespace = namespace,
             uri_service = str_lower (str_trim (case drop 1 parts of [] \<Rightarrow> [] | p # _ \<Rightarrow> p)),
             uri_path = join_with CHR ''/'' (drop 2 parts) \<rparr>)"

definition is_supported_namespace :: "string \<Rightarrow> bool" where
  "is_supported_namespace ns = (normalize_namespace ns \<in> set ESS_NAMESPACE_DEFAULTS)"

definition service_key :: "string \<Rightarrow> string \<Rightarrow> string" where
  "service_key ns service_id = normalize_namespace ns @ ''::'' @ str_lower (str_trim service_id)"

definition namespace_is_core :: "string \<Rightarrow> bool" where
  "namespace_is_core ns = (normalize_namespace ns \<in> {''wallet'', ''market'', ''governance''})"

definition can_publish_service :: "AuthorityManager \<Rightarrow> string \<Rightarrow> string \<Rightarrow> bool" where
  "can_publish_service a peer ns =
     (case role_of a peer of
        Some Supernode \<Rightarrow> True
      | Some Validator \<Rightarrow> True
      | Some Gateway \<Rightarrow> \<not> namespace_is_core ns
      | Some Standard \<Rightarrow> \<not> namespace_is_core ns
      | _ \<Rightarrow> False)"

section \<open>The registry\<close>

datatype ServiceVisibility = VisPrivate | VisAuthority | VisPublic

record ServiceRecord =
  sv_service_id :: string
  sv_namespace :: string
  sv_endpoint :: string
  sv_owner_peer :: string
  sv_publisher_peer :: string
  sv_visibility :: ServiceVisibility
  sv_description :: string
  sv_tags :: "string list"
  sv_published_at :: u64
  sv_updated_at :: u64

definition sv_normalized :: "ServiceRecord \<Rightarrow> ServiceRecord" where
  "sv_normalized r = r\<lparr> sv_service_id := str_lower (str_trim (sv_service_id r)),
     sv_namespace := normalize_namespace (sv_namespace r), sv_endpoint := str_trim (sv_endpoint r),
     sv_tags := remdups_adj (sort (filter (\<lambda>t. t \<noteq> []) (map (\<lambda>t. str_lower (str_trim t)) (sv_tags r)))) \<rparr>"

definition sv_new :: "u64 \<Rightarrow> string \<Rightarrow> string \<Rightarrow> string \<Rightarrow> string \<Rightarrow> string \<Rightarrow> ServiceRecord" where
  "sv_new ts ns service_id endpoint owner publisher = sv_normalized
     \<lparr> sv_service_id = service_id, sv_namespace = normalize_namespace ns, sv_endpoint = str_trim endpoint,
       sv_owner_peer = owner, sv_publisher_peer = publisher, sv_visibility = VisAuthority,
       sv_description = [], sv_tags = [], sv_published_at = ts, sv_updated_at = ts \<rparr>"

definition sv_key :: "ServiceRecord \<Rightarrow> string" where
  "sv_key r = service_key (sv_namespace r) (sv_service_id r)"

type_synonym ServiceRegistry = "(string, ServiceRecord) btree"

definition insert_raw :: "ServiceRecord \<Rightarrow> ServiceRegistry \<Rightarrow> ServiceRegistry" where
  "insert_raw r reg = bt_put (sv_key r) r reg"

definition registry_publish :: "AuthorityManager \<Rightarrow> string \<Rightarrow> ServiceRecord \<Rightarrow> ServiceRegistry \<Rightarrow>
    (string + string) \<times> ServiceRegistry" where
  "registry_publish a publisher rec reg =
     (let rec = sv_normalized rec in
      if sv_namespace rec = [] \<or> sv_service_id rec = []
      then (Inl ''Service namespace and service_id are required'', reg)
      else if \<not> is_supported_namespace (sv_namespace rec)
      then (Inl (''Unsupported ESS namespace: '' @ sv_namespace rec), reg)
      else if \<not> can_publish_service a publisher (sv_namespace rec)
      then (Inl (''Peer '' @ publisher @ '' is not allowed to publish in namespace '' @ sv_namespace rec), reg)
      else (Inr (sv_key rec), bt_put (sv_key rec) rec reg))"

text \<open>A registry after a sequence of publications, each under the authority of its moment.\<close>

fun publish_all :: "(AuthorityManager \<times> string \<times> ServiceRecord) list \<Rightarrow> ServiceRegistry \<Rightarrow> ServiceRegistry" where
  "publish_all [] reg = reg"
| "publish_all ((a, peer, rec) # ps) reg = publish_all ps (snd (registry_publish a peer rec reg))"

section \<open>Lemmas\<close>

lemma to_lower_idem: "to_lower (to_lower c) = to_lower c"
  by (auto simp: to_lower_def Let_def)

lemma str_lower_idem [simp]: "str_lower (str_lower s) = str_lower s"
  by (simp add: str_lower_def to_lower_idem)

lemma registry_publish_cases:
  assumes "registry_publish a peer rec reg = (res, reg')"
  shows "(\<exists>e. res = Inl e) \<and> reg' = reg \<or>
    (let r = sv_normalized rec in
     res = Inr (sv_key r) \<and> reg' = bt_put (sv_key r) r reg \<and> sv_namespace r \<noteq> [] \<and> sv_service_id r \<noteq> [] \<and>
     is_supported_namespace (sv_namespace r) \<and> can_publish_service a peer (sv_namespace r))"
  using assms by (auto simp: registry_publish_def Let_def split: if_splits)

definition services_ok :: "ServiceRegistry \<Rightarrow> bool" where
  "services_ok reg \<longleftrightarrow> bt_ok reg \<and>
     (\<forall>(k, r)\<in>set reg. k = sv_key r \<and> is_supported_namespace (sv_namespace r) \<and> sv_service_id r \<noteq> [])"

lemma set_bt_put: "set (bt_put k v m) \<subseteq> insert (k, v) (set m)"
  by (induction m) auto

lemma services_ok_publish: "services_ok reg \<Longrightarrow> services_ok (snd (registry_publish a peer rec reg))"
proof -
  assume ok: "services_ok reg"
  obtain res reg' where p: "registry_publish a peer rec reg = (res, reg')" by force
  show ?thesis
    using registry_publish_cases[OF p] ok set_bt_put[of "sv_key (sv_normalized rec)" "sv_normalized rec" reg]
    by (auto simp: p services_ok_def Let_def bt_ok_put)
qed

text \<open>
  Publication is guarded. It succeeds exactly when the normalized record has a name in a
  supported namespace and the role of the publisher admits it: supernodes and validators publish
  everywhere, gateways and standard nodes everywhere but in the core namespaces (wallet, market,
  governance), all other peers nowhere; a success stores the record under its key and changes no
  other entry, a failure changes nothing; and a registry built by any sequence of publications is
  sorted, with each record under its own key and in a supported namespace.
\<close>

theorem registry_publish_guarded:
  assumes "registry_publish a peer rec reg = (res, reg')"
  shows "let r = sv_normalized rec in
    ((\<exists>k. res = Inr k) \<longleftrightarrow> sv_namespace r \<noteq> [] \<and> sv_service_id r \<noteq> [] \<and> is_supported_namespace (sv_namespace r) \<and>
       (role_of a peer \<in> {Some Supernode, Some Validator} \<or>
        role_of a peer \<in> {Some Gateway, Some Standard} \<and> \<not> namespace_is_core (sv_namespace r))) \<and>
    (\<forall>k. map_of reg' k = (if (\<exists>k. res = Inr k) \<and> k = sv_key r then Some r else map_of reg k)) \<and>
    services_ok (publish_all ps [])"
proof -
  have run: "services_ok r0 \<Longrightarrow> services_ok (publish_all qs r0)" for qs r0
    by (induction qs r0 rule: publish_all.induct) (auto intro: services_ok_publish)
  have "services_ok (publish_all ps [])" by (rule run) (simp add: services_ok_def)
  moreover have "can_publish_service a peer ns \<longleftrightarrow>
      role_of a peer \<in> {Some Supernode, Some Validator} \<or>
      role_of a peer \<in> {Some Gateway, Some Standard} \<and> \<not> namespace_is_core ns" for ns
    by (auto simp: can_publish_service_def split: option.splits NodeRole.splits)
  ultimately show ?thesis
    using assms by (auto simp: registry_publish_def Let_def map_of_bt_put split: if_splits)
qed

definition demo_registry_authority :: AuthorityManager where
  "demo_registry_authority = \<lparr> inner = default_state\<lparr> allowed_peers := [(''v'', Validator), (''s'', Standard)] \<rparr>,
     poisoned = False \<rparr>"

theorem registry_publish_guarded_witness:
  "(\<exists>k. fst (registry_publish demo_registry_authority ''v'' (sv_new 1 ''wallet'' ''pay'' ''e'' ''v'' ''v'') []) = Inr k) \<and>
   (\<forall>k. fst (registry_publish demo_registry_authority ''s'' (sv_new 1 ''wallet'' ''pay'' ''e'' ''s'' ''s'') []) \<noteq> Inr k)"
proof -
  let ?r = "sv_new 1 ''wallet'' ''pay'' ''e''"
  have n: "sv_namespace (sv_normalized (?r p p)) = ''wallet''" "sv_service_id (sv_normalized (?r p p)) = ''pay''" for p
  proof -
    have "normalize_namespace ''wallet'' = ''wallet''" "str_lower (str_trim ''pay'') = ''pay''" by code_simp+
    then show "sv_namespace (sv_normalized (?r p p)) = ''wallet''" "sv_service_id (sv_normalized (?r p p)) = ''pay''"
      by (simp_all add: sv_new_def sv_normalized_def)
  qed
  have w: "is_supported_namespace ''wallet''" "namespace_is_core ''wallet''" by code_simp+
  have roles: "role_of demo_registry_authority ''v'' = Some Validator" "role_of demo_registry_authority ''s'' = Some Standard"
    by (simp_all add: demo_registry_authority_def role_of_def get_role_def default_state_def)
  note g = registry_publish_guarded[OF surjective_pairing, where a = demo_registry_authority]
  have "\<exists>k. fst (registry_publish demo_registry_authority ''v'' (?r ''v'' ''v'') []) = Inr k"
    using g[where peer = "''v''" and rec = "?r ''v'' ''v''" and reg = "[]"] by (simp add: Let_def n w roles)
  moreover have "\<not> (\<exists>k. fst (registry_publish demo_registry_authority ''s'' (?r ''s'' ''s'') []) = Inr k)"
    using g[where peer = "''s''" and rec = "?r ''s'' ''s''" and reg = "[]"] by (simp add: Let_def n w roles)
  ultimately show ?thesis by blast
qed

text \<open>
  Addresses round trip. An address printed from a normalized namespace, a normalized
  service name and path segments, none of them blank or with a slash, parses to exactly these
  parts; and whatever parses has the \<^verbatim>\<open>ess://\<close> scheme and a namespace that is not empty.
\<close>

theorem ess_uri_roundtrip:
  assumes "\<forall>x\<in>set (ns # svc # path). CHR ''/'' \<notin> set x \<and> str_trim x \<noteq> []"
    and "normalize_namespace ns = ns" and "str_lower (str_trim svc) = svc"
    and "str_trim (''ess://'' @ join_with CHR ''/'' (ns # svc # path)) = ''ess://'' @ join_with CHR ''/'' (ns # svc # path)"
  shows "parse_ess_uri (''ess://'' @ join_with CHR ''/'' (ns # svc # path)) =
    Some \<lparr> uri_raw = ''ess://'' @ join_with CHR ''/'' (ns # svc # path), uri_namespace = ns, uri_service = svc,
      uri_path = join_with CHR ''/'' path \<rparr> \<and>
    (\<forall>u e. parse_ess_uri u = Some e \<longrightarrow> uri_namespace e \<noteq> [] \<and> starts_with ''ess://'' (str_lower (uri_raw e)))"
proof -
  let ?u = "''ess://'' @ join_with CHR ''/'' (ns # svc # path)"
  have low: "str_lower ?u = ''ess://'' @ str_lower (join_with CHR ''/'' (ns # svc # path))"
  proof -
    have "str_lower ''ess://'' = ''ess://''" by code_simp
    then show ?thesis by (simp add: str_lower_def)
  qed
  have st: "starts_with ''ess://'' (str_lower ?u)" unfolding low by (simp add: starts_with_def)
  have sp: "split_on CHR ''/'' (drop 6 ?u) = ns # svc # path"
    using split_on_join[of "ns # svc # path" "CHR ''/''"] assms(1) by (simp del: join_with.simps)
  have fl: "filter (\<lambda>s. str_trim s \<noteq> []) (ns # svc # path) = ns # svc # path"
    using assms(1) by (intro filter_True) auto
  have "ns \<noteq> []" using assms(1) by (auto simp: str_trim_def)
  then have "parse_ess_uri ?u = Some \<lparr> uri_raw = ?u, uri_namespace = ns, uri_service = svc,
      uri_path = join_with CHR ''/'' path \<rparr>"
    unfolding parse_ess_uri_def assms(4) Let_def sp fl using st assms(2,3) by simp
  moreover have "uri_namespace e \<noteq> [] \<and> starts_with ''ess://'' (str_lower (uri_raw e))"
    if "parse_ess_uri u = Some e" for u e
    using that by (auto simp: parse_ess_uri_def Let_def split: if_splits)
  ultimately show ?thesis by blast
qed

theorem ess_uri_roundtrip_witness:
  "parse_ess_uri (''ess://'' @ join_with CHR ''/'' [''wallet'', ''transfer'', ''some'', ''path'']) =
    Some \<lparr> uri_raw = ''ess://'' @ join_with CHR ''/'' [''wallet'', ''transfer'', ''some'', ''path''],
      uri_namespace = ''wallet'', uri_service = ''transfer'', uri_path = join_with CHR ''/'' [''some'', ''path''] \<rparr>"
  by (rule ess_uri_roundtrip[THEN conjunct1]) (code_simp, code_simp, code_simp, code_simp)

end
