(* ===== verification/Network_Events.thy ===== *)
theory Network_Events
  imports Control_Loop Storage_Layer Codec Onion Web_Registry Governance
begin

text \<open>
  The network task, \<^verbatim>\<open>network/runtime/events.rs\<close> with \<^verbatim>\<open>network/runtime/governance.rs\<close>, \<^verbatim>\<open>network/util.rs\<close> and
  the sending functions of \<^verbatim>\<open>network_controller.rs\<close>: the loop that takes one swarm event after the other and runs its
  handler. The state is that of the objects a handler can reach; what it sends is the list of outputs. An answer of
  the libp2p behaviour, a dial or a Kademlia call is an output, a spawned task is an output and comes back as
  an event where it changes the node. The swarm is in its place while a handler runs. A handler that panics ends the task.
\<close>

section \<open>Addresses\<close>

datatype Protocol = Ip4 "32 word" | Ip6 "128 word" | Dns4 string | Dns6 string | OtherProto string

type_synonym Multiaddr = "Protocol list"

definition ip4_octet :: "nat \<Rightarrow> 32 word \<Rightarrow> nat" where
  "ip4_octet i ip = unat (drop_bit (8 * (3 - i)) ip) mod 256"

definition ip4_is_loopback :: "32 word \<Rightarrow> bool" where
  "ip4_is_loopback ip \<longleftrightarrow> ip4_octet 0 ip = 127"

definition ip4_is_private :: "32 word \<Rightarrow> bool" where
  "ip4_is_private ip \<longleftrightarrow> ip4_octet 0 ip = 10 \<or> ip4_octet 0 ip = 172 \<and> 16 \<le> ip4_octet 1 ip \<and> ip4_octet 1 ip \<le> 31 \<or>
     ip4_octet 0 ip = 192 \<and> ip4_octet 1 ip = 168"

definition ip4_is_link_local :: "32 word \<Rightarrow> bool" where
  "ip4_is_link_local ip \<longleftrightarrow> ip4_octet 0 ip = 169 \<and> ip4_octet 1 ip = 254"

definition ip6_is_unique_local :: "128 word \<Rightarrow> bool" where
  "ip6_is_unique_local ip \<longleftrightarrow> unat (drop_bit 121 ip) = 0x7E"

fun public_part :: "Protocol \<Rightarrow> bool" where
  "public_part (Ip4 ip) = (\<not> ip4_is_loopback ip \<and> \<not> ip4_is_private ip \<and> \<not> ip4_is_link_local ip)"
| "public_part (Ip6 ip) = (ip \<noteq> 1 \<and> \<not> ip6_is_unique_local ip)"
| "public_part (Dns4 d) = True"
| "public_part (Dns6 d) = True"
| "public_part (OtherProto p) = False"

definition is_public :: "Multiaddr \<Rightarrow> bool" where
  "is_public addr \<longleftrightarrow> (\<exists>p\<in>set addr. public_part p)"

section \<open>Messages\<close>

datatype EssRequest = EssDirect DirectRequest | EssOnion OnionRelayRequest

record ProposalAnnouncement =
  an_proposal_id :: string
  an_proposer :: string
  an_proposal_type :: ProposalType
  an_target :: string
  an_supernode_count :: nat
  an_timestamp :: u64

record ActivationCertificate =
  ac_proposal_id :: string
  ac_target :: string
  ac_approved :: bool
  ac_signers :: "string list"

record KnownPeer =
  kp_peer_id :: string
  kp_addr :: string

record OnboardResponse =
  os_accepted :: bool
  os_reason :: "string option"
  os_known_peers :: "KnownPeer list"

section \<open>State\<close>

text \<open>
  The security runtime is shared: the loop has it as an argument and the controller has it attached, so it is kept
  once, in \<open>nd_sec\<close>, and the controller sees it there when one is attached. The scheduler and its store are
  attached to a controller together. \<open>nd_next_rid\<close> is the identifier of the next outbound request.
\<close>

record 'pk Node =
  nd_alive :: bool
  nd_ct :: "'pk Controller"
  nd_sec :: "'pk SecurityRuntime"
  nd_world :: "WorldState option"
  nd_activation :: activation_file
  nd_crdt :: "CrdtWorldState option"
  nd_crdt_file :: "u8 list option"
  nd_gov :: "GovernanceEngine \<times> gov_disk"
  nd_compute :: "Scheduler option"
  nd_storage :: "StorageLayer option"
  nd_kad :: kad_db
  nd_kad_pending :: "nat list"
  nd_onboard_pending :: "nat list"
  nd_next_rid :: nat
  nd_counts :: "(string, nat) hmap"
  nd_known :: "string set"
  nd_seen_addrs :: "(string, string list) hmap"
  nd_registry :: "ServiceRegistry option"
  nd_pubkeys :: "(string, u8 list) hmap"
  nd_onion_sk :: "u8 list"

datatype NetOut =
    AnsDirect string DirectResponse
  | AnsGateway string GatewayResponse
  | AnsWeb string WebResponse
  | AnsConfig string ConfigResponse
  | AnsOnboard string OnboardResponse
  | AnsStorage string StorageResponse
  | DashNode string string string string
  | DashHealth string string string string "nat \<times> nat \<times> nat \<times> nat"
  | DashJob string ComputeResult
  | Request string DirectRequest
  | AddKadAddress string string
  | AddPeerAddress string string
  | SaveBootstrapAddr string string
  | KadBootstrap
  | KadPut string "u8 list"
  | KadDone nat "string + Chunk option"
  | OnboardDone nat OnboardResponse
  | StartOnboarding string
  | StartNotify string ActivationCertificate "u8 list"
  | StartDials "string list"

type_synonym 'pk net_op = "('pk Node, NetOut) op"

text \<open>What comes from outside: cryptography, codecs and the environment of the called components.\<close>

record ('pk, 'ed) NetEnv =
  ne_sec :: "'pk SecEnv"
  ne_rnd :: "real \<Rightarrow> real"
  ne_parse :: "string \<Rightarrow> string option"
  ne_gov :: GovEnv
  ne_acd :: ActivationCodec
  ne_ed :: EdEnv
  ne_hmac :: "u8 list \<Rightarrow> u8 list \<Rightarrow> u8 list"
  ne_master :: "u8 list option"
  ne_ed_key :: "u8 list \<Rightarrow> 'pk option"
  ne_unhex :: "string \<Rightarrow> u8 list option"
  ne_sha :: "u8 list \<Rightarrow> u8 list"
  ne_crdt_json :: "CrdtWorldState \<Rightarrow> string"
  ne_crdt_vec :: "CrdtWorldState \<Rightarrow> u8 list option"
  ne_sync_de :: "u8 list \<Rightarrow> CrdtWorldState option"
  ne_payload_de :: "u8 list \<Rightarrow> CrdtWorldState option"
  ne_payload_ser :: "CrdtWorldState \<Rightarrow> u8 list"
  ne_ess_de :: "u8 list \<Rightarrow> EssRequest option"
  ne_ess_ser :: "EssRequest \<Rightarrow> u8 list"
  ne_relay_ser :: "OnionRelayResponse \<Rightarrow> u8 list"
  ne_vote_de :: "u8 list \<Rightarrow> VoteMessage option"
  ne_vote_ser :: "VoteMessage \<Rightarrow> u8 list"
  ne_cert_de :: "u8 list \<Rightarrow> ActivationCertificate option"
  ne_cert_ser :: "ActivationCertificate \<Rightarrow> u8 list"
  ne_cert_json :: "ActivationCertificate \<Rightarrow> u8 list"
  ne_announce_de :: "u8 list \<Rightarrow> ProposalAnnouncement option"
  ne_announce_ser :: "ProposalAnnouncement \<Rightarrow> u8 list"
  ne_req_ser :: "DirectRequest \<Rightarrow> u8 list option"
  ne_cfgreq_de :: "u8 list \<Rightarrow> ConfigRequest option"
  ne_cfgreq_ser :: "ConfigRequest \<Rightarrow> u8 list"
  ne_cfgresp_de :: "u8 list \<Rightarrow> ConfigResponse option"
  ne_cfgresp_ser :: "ConfigResponse \<Rightarrow> u8 list"
  ne_pqc :: "u8 list \<Rightarrow> string \<Rightarrow> (unit + u8 list) option"
  ne_cm_de :: "u8 list \<Rightarrow> ComputeMessage option"
  ne_cm_ser :: "ComputeMessage \<Rightarrow> u8 list"
  ne_sched :: SchedCtx
  ne_store :: StorageEnv
  ne_onion :: "'ed OnionEnv"
  ne_kad :: KadEnv
  ne_kad_opens :: bool
  ne_chunk_de :: "u8 list \<Rightarrow> Chunk option"
  ne_addr_text :: "Multiaddr \<Rightarrow> string"

text \<open>The clocks, the random values and the answer of an awaited direct message, drawn afresh for every event.\<close>

record NetNow =
  t_ck :: WsClock
  t_ms :: nat
  t_nanos :: nat
  t_inst :: nat
  t_nonce :: string
  t_uuid :: string
  t_rng :: "nat \<Rightarrow> u8 list"
  t_answer :: "string + u8 list"

abbreviation t_secs :: "NetNow \<Rightarrow> u64" where
  "t_secs t \<equiv> wc_secs (t_ck t)"

abbreviation t_now :: "NetNow \<Rightarrow> nat" where
  "t_now t \<equiv> unat (wc_secs (t_ck t))"

abbreviation local_id :: "'pk Node \<Rightarrow> string" where
  "local_id n \<equiv> ct_local (nd_ct n)"

section \<open>Calls of the components\<close>

definition controller_view :: "'pk Node \<Rightarrow> 'pk Controller" where
  "controller_view n = (nd_ct n)\<lparr> ct_security := map_option (\<lambda>_. nd_sec n) (ct_security (nd_ct n)) \<rparr>"

definition ct_call :: "('pk Controller \<Rightarrow> 'a \<times> 'pk Controller) \<Rightarrow> 'pk Node \<Rightarrow> 'a \<times> 'pk Node" where
  "ct_call f n = (let (a, c) = f (controller_view n) in
     (a, n\<lparr> nd_ct := c, nd_sec := (case ct_security c of Some s \<Rightarrow> s | None \<Rightarrow> nd_sec n) \<rparr>))"

definition sec_call :: "('pk SecurityRuntime \<Rightarrow> 'a \<times> 'pk SecurityRuntime) \<Rightarrow> 'pk Node \<Rightarrow> 'a \<times> 'pk Node" where
  "sec_call f n = (let (a, s) = f (nd_sec n) in (a, n\<lparr> nd_sec := s \<rparr>))"

definition gov_call :: "(GovernanceEngine \<times> gov_disk \<Rightarrow> 'a \<times> GovernanceEngine \<times> gov_disk) \<Rightarrow> 'pk Node \<Rightarrow> 'a \<times> 'pk Node" where
  "gov_call f n = (let (a, g) = f (nd_gov n) in (a, n\<lparr> nd_gov := g \<rparr>))"

definition op_call :: "('s \<Rightarrow> 'a \<times> 's) \<Rightarrow> ('a \<Rightarrow> ('s, 'o) op) \<Rightarrow> ('s, 'o) op" where
  "op_call f g s = (let (a, s') = f s in g a s')"

definition on_ct :: "('pk Controller \<Rightarrow> 'pk Controller) \<Rightarrow> 'pk net_op" where
  "on_ct f = op_upd (\<lambda>n. snd (ct_call (\<lambda>c. ((), f c)) n))"

definition on_world :: "(WorldState \<Rightarrow> WorldState) \<Rightarrow> 'pk net_op" where
  "on_world f = op_upd (\<lambda>n. n\<lparr> nd_world := map_option f (nd_world n) \<rparr>)"

definition on_world_file :: "(WorldState \<times> activation_file \<Rightarrow> WorldState \<times> activation_file) \<Rightarrow> 'pk net_op" where
  "on_world_file f = op_upd (\<lambda>n. case nd_world n of
     None \<Rightarrow> n
   | Some w \<Rightarrow> (let (w', file) = f (w, nd_activation n) in n\<lparr> nd_world := Some w', nd_activation := file \<rparr>))"

definition on_crdt :: "(CrdtWorldState \<Rightarrow> CrdtWorldState) \<Rightarrow> 'pk net_op" where
  "on_crdt f = op_upd (\<lambda>n. n\<lparr> nd_crdt := map_option f (nd_crdt n) \<rparr>)"

definition panics :: "'pk net_op" where
  "panics = op_upd (\<lambda>n. n\<lparr> nd_alive := False \<rparr>)"

text \<open>A direct message: the request is built and signed, sent, and its answer awaited under the identifier it got.\<close>

definition send_direct_message :: "('pk, 'ed) NetEnv \<Rightarrow> NetNow \<Rightarrow> string \<Rightarrow> u8 list \<Rightarrow> 'pk net_op" where
  "send_direct_message x t to body n =
     (case the_security (controller_view n) of
        None \<Rightarrow> (n, [])
      | Some sec \<Rightarrow>
          (case build_direct_request_bytes (ne_sec x) (t_secs t) (t_nanos t) (t_nonce t) (local_id n) to body sec of
             Inl e \<Rightarrow> (n, [])
           | Inr request \<Rightarrow>
               (n\<lparr> nd_ct := send_direct (nd_next_rid n) (nd_ct n), nd_next_rid := nd_next_rid n + 1 \<rparr>, [Request to request])))"

definition typed_request :: "('pk, 'ed) NetEnv \<Rightarrow> NetNow \<Rightarrow> string \<Rightarrow> string \<Rightarrow> string \<Rightarrow> u8 list \<Rightarrow> u8 list option" where
  "typed_request x t local to kind body =
     ne_req_ser x ((rq_plain_bytes (t_secs t) (t_nanos t) local to body)\<lparr> rq_kind := kind \<rparr>)"

definition send_typed_message :: "('pk, 'ed) NetEnv \<Rightarrow> NetNow \<Rightarrow> string \<Rightarrow> string \<Rightarrow> u8 list \<Rightarrow> 'pk net_op" where
  "send_typed_message x t to kind body = op_with (\<lambda>n. typed_request x t (local_id n) to kind body) (\<lambda>bytes.
     case bytes of None \<Rightarrow> op_skip | Some b \<Rightarrow> send_direct_message x t to b)"

section \<open>Connections\<close>

definition inc_connection_count :: "string \<Rightarrow> (string, nat) hmap \<Rightarrow> (string, nat) hmap" where
  "inc_connection_count peer counts =
     hm_put peer ((case map_of counts peer of None \<Rightarrow> 0 | Some c \<Rightarrow> c) + 1) counts"

definition dec_connection_count :: "string \<Rightarrow> (string, nat) hmap \<Rightarrow> (string, nat) hmap" where
  "dec_connection_count peer counts =
     (case map_of counts peer of
        Some c \<Rightarrow> if c > 1 then hm_put peer (c - 1) counts else m_del peer counts
      | None \<Rightarrow> m_del peer counts)"

definition peer_role :: "WorldState \<Rightarrow> string \<Rightarrow> string" where
  "peer_role w peer = (if peer \<in> set (ap_supernodes (ws_authority w)) then ''supernode'' else ''peer'')"

definition world_counts :: "NetNow \<Rightarrow> 'pk Node \<Rightarrow> nat \<times> nat \<times> nat \<times> nat" where
  "world_counts t n =
     (case map_option (ws_snapshot (t_ck t)) (nd_world n) of
        None \<Rightarrow> (0, 0, 0, 0)
      | Some s \<Rightarrow> (sn_connected_peers s, sn_known_peers s, sn_route_peers s, sn_trusted_peers s))"

definition sync_with_world :: "NetNow \<Rightarrow> 'pk net_op" where
  "sync_with_world t = op_block [
     op_upd (\<lambda>n.
       let rec = sv_normalized (sv_new (t_secs t) ''ess'' ''node'' ''core'' (local_id n) ''system'') in
       n\<lparr> nd_registry := Some (insert_raw rec (case nd_registry n of Some r \<Rightarrow> r | None \<Rightarrow> [])) \<rparr>),
     op_when (\<lambda>n. nd_world n \<noteq> None) (op_upd (\<lambda>n. n\<lparr> nd_known := insert (local_id n) (nd_known n) \<rparr>)),
     on_ct (push_ghost_sync (t_secs t))]"

definition on_connected :: "('pk, 'ed) NetEnv \<Rightarrow> NetNow \<Rightarrow> string \<Rightarrow> 'pk net_op" where
  "on_connected x t peer = op_block [
     op_upd (\<lambda>n. n\<lparr> nd_known := insert peer (nd_known n), nd_counts := inc_connection_count peer (nd_counts n) \<rparr>),
     on_ct (consume_event (system_event (t_secs t) ''network'' (PeerConnected peer))),
     op_with nd_world (\<lambda>world. case world of
         None \<Rightarrow> sync_with_world t
       | Some w \<Rightarrow>
           let role = peer_role w peer;
               trusted = (case map_of (peer_registry w) peer of Some p \<Rightarrow> ps_trusted p | None \<Rightarrow> False)
           in op_block [
             op_upd (\<lambda>n. case map_of (peer_x25519_pubkeys w) peer of
                 Some pk \<Rightarrow> n\<lparr> nd_pubkeys := hm_put peer pk (nd_pubkeys n) \<rparr>
               | None \<Rightarrow> n),
             on_world (upsert_peer_state (t_ck t) peer (Some role) True (Some trusted)),
             on_crdt (update_peer (ne_sha x) (ne_crdt_json x) (t_ms t) peer role True False),
             op_call (ct_call (enforce_peer (t_secs t) peer)) (\<lambda>ok.
               if \<not> ok then op_block [
                 op_upd (\<lambda>n. n\<lparr> nd_counts := dec_connection_count peer (nd_counts n) \<rparr>),
                 on_world (set_peer_connected (t_ck t) peer False)]
               else op_block [
                 on_world (add_route (t_ck t) peer peer),
                 op_emit (\<lambda>n. [DashNode peer role ''online'' ''healthy'',
                   DashHealth peer role ''online'' ''healthy'' (world_counts t n)]),
                 sync_with_world t,
                 op_emit (\<lambda>n. case nd_world n of
                     Some w \<Rightarrow> if is_peer_activated w peer then [] else [StartOnboarding peer]
                   | None \<Rightarrow> [])])])]"

definition on_closed :: "NetNow \<Rightarrow> string \<Rightarrow> 'pk net_op" where
  "on_closed t peer = op_block [
     op_upd (\<lambda>n. n\<lparr> nd_counts := dec_connection_count peer (nd_counts n) \<rparr>),
     on_ct (consume_event (system_event (t_secs t) ''network'' (PeerDisconnected peer))),
     op_with nd_world (\<lambda>world. case world of
         None \<Rightarrow> sync_with_world t
       | Some w \<Rightarrow> op_block [
           on_world (\<lambda>w. remove_route (t_ck t) peer peer
             (set_peer_trusted (t_ck t) peer False (set_peer_connected (t_ck t) peer False w))),
           op_emit (\<lambda>n. [DashHealth peer (peer_role w peer) ''offline'' ''degraded'' (world_counts t n)]),
           sync_with_world t])]"

section \<open>Identification\<close>

definition register_peer_on_discovery :: "string \<Rightarrow> 'pk \<Rightarrow> 'pk SecurityRuntime \<Rightarrow> 'pk SecurityRuntime" where
  "register_peer_on_discovery peer pk sec = snd (register_peer_key peer pk sec)"

definition register_peer_addr :: "('pk, 'ed) NetEnv \<Rightarrow> string \<Rightarrow> Multiaddr \<Rightarrow> 'pk net_op" where
  "register_peer_addr x peer addr n =
     (if peer = local_id n \<or> \<not> is_public addr then (n, [])
      else let entry = (case map_of (nd_seen_addrs n) peer of None \<Rightarrow> [] | Some s \<Rightarrow> s); text = ne_addr_text x addr in
        if text \<in> set entry then (n\<lparr> nd_seen_addrs := hm_put peer entry (nd_seen_addrs n) \<rparr>, [])
        else (n\<lparr> nd_seen_addrs := hm_put peer (entry @ [text]) (nd_seen_addrs n) \<rparr>,
              [AddKadAddress peer text, AddPeerAddress peer text, SaveBootstrapAddr peer text]))"

definition learn_addr :: "('pk, 'ed) NetEnv \<Rightarrow> string \<Rightarrow> Multiaddr \<Rightarrow> 'pk net_op" where
  "learn_addr x peer addr =
     (if is_public addr then op_seq (register_peer_addr x peer addr) (op_emit (\<lambda>n. [AddKadAddress peer (ne_addr_text x addr)]))
      else op_skip)"

definition send_config_sync :: "('pk, 'ed) NetEnv \<Rightarrow> NetNow \<Rightarrow> string \<Rightarrow> 'pk net_op" where
  "send_config_sync x t peer = op_with (\<lambda>n. rt_build_config_request (ne_sec x) (t_secs t) (t_nonce t) (local_id n) peer
       (role_as_str (current_role (local_id n) (nd_sec n))) (nd_sec n)) (\<lambda>request.
     case request of
       Inl e \<Rightarrow> op_skip
     | Inr r \<Rightarrow> op_block [
         send_direct_message x t peer (ne_cfgreq_ser x r),
         (case t_answer t of
            Inl e \<Rightarrow> op_skip
          | Inr bytes \<Rightarrow>
              (case ne_cfgresp_de x bytes of
                 None \<Rightarrow> op_skip
               | Some resp \<Rightarrow> op_with local_id (\<lambda>local.
                   op_call (sec_call (rt_verify_config_response (ne_sec x) (t_now t) local peer resp)) (\<lambda>verdict.
                     case verdict of
                       Inl e \<Rightarrow> op_skip
                     | Inr bundle \<Rightarrow> op_upd (\<lambda>n. snd (sec_call (apply_bundle bundle) n))))))])"

definition on_identify :: "('pk, 'ed) NetEnv \<Rightarrow> NetNow \<Rightarrow> string \<Rightarrow> 'pk \<Rightarrow> Multiaddr list \<Rightarrow> 'pk net_op" where
  "on_identify x t peer pk addrs = op_block [
     op_upd (\<lambda>n. n\<lparr> nd_sec := register_peer_on_discovery peer pk (nd_sec n) \<rparr>),
     op_with nd_world (\<lambda>world. case world of
         None \<Rightarrow> op_skip
       | Some w \<Rightarrow> op_block [
           on_world (upsert_peer_state (t_ck t) peer (Some (peer_role w peer)) True None),
           op_emit (\<lambda>n. [DashNode peer (peer_role w peer) ''online'' ''healthy'',
             DashHealth peer (peer_role w peer) ''online'' ''healthy'' (world_counts t n)])]),
     op_all (learn_addr x peer) addrs,
     (if list_ex is_public addrs then op_emit (\<lambda>n. [KadBootstrap]) else op_skip),
     send_config_sync x t peer]"

section \<open>Gateway and web\<close>

text \<open>\<open>answer_or\<close> is \<^verbatim>\<open>unwrap_or_else\<close>; a signature is well formed when base64 decodes it.\<close>

definition answer_or :: "'a \<Rightarrow> SecurityError + 'a \<Rightarrow> 'a" where
  "answer_or d r = (case r of Inl e \<Rightarrow> d | Inr a \<Rightarrow> a)"

definition verify_signature_format :: "'pk SecEnv \<Rightarrow> string \<Rightarrow> SecurityError + unit" where
  "verify_signature_format env sig =
     (case b64_decode env sig of None \<Rightarrow> Inl (DecodeError ''base64'') | Some b \<Rightarrow> Inr ())"

definition is_ok :: "'e + 'a \<Rightarrow> bool" where
  "is_ok r = (case r of Inl e \<Rightarrow> False | Inr a \<Rightarrow> True)"

definition gateway_verdict :: "('pk, 'ed) NetEnv \<Rightarrow> NetNow \<Rightarrow> string \<Rightarrow> GatewayRequest \<Rightarrow> 'pk Node \<Rightarrow>
    (bool \<times> u16 \<times> string) \<times> 'pk Node" where
  "gateway_verdict x t peer req n =
     (let (v, n) = sec_call (rt_verify_gateway_request (ne_sec x) (t_now t) (local_id n) peer req) n in
      if \<not> is_ok v then ((False, 401, ''invalid_signature''), n)
      else let (d, n) = ct_call (check_gateway_rate_limit (ne_rnd x) (t_inst t) peer) n in
        if \<not> gd_allowed d then ((False, 429, ''rate_limited''), n)
        else let (ok, n) = ct_call (enforce_gateway_peer (t_secs t) peer) n in
          if ok then ((True, 200, ''gateway_ok''), n) else ((False, 403, ''denied''), n))"

definition on_gateway_request :: "('pk, 'ed) NetEnv \<Rightarrow> NetNow \<Rightarrow> string \<Rightarrow> GatewayRequest \<Rightarrow> 'pk net_op" where
  "on_gateway_request x t peer req = op_with local_id (\<lambda>local.
     let mid = gq_message_id req;
         plain = (\<lambda>err. AnsGateway peer (gs_plain_error (t_secs t) (t_nanos t) mid local peer err))
     in if \<not> is_ok (verify_signature_format (ne_sec x) (gq_signature req)) then op_emit (\<lambda>n. [plain ''bad_signature_format''])
        else op_call (ct_call (enforce (t_secs t) peer GatewayAccess)) (\<lambda>ok.
          if \<not> ok then op_emit (\<lambda>n. [plain ''access_denied_by_authority''])
          else op_call (gateway_verdict x t peer req) (\<lambda>(allowed, status, msg). op_block [
            on_ct (record_gateway_audit (ne_parse x) (t_secs t) (audit_entry (t_secs t) req peer allowed (Some status) msg)),
            op_emit (\<lambda>n. [AnsGateway peer (answer_or
              (gs_plain_error (t_secs t) (t_nanos t) mid local peer ''internal_error'')
              (if allowed then rt_build_gateway_response_ok (ne_sec x) (t_secs t) (t_nanos t) (t_nonce t) local peer mid status [] msg (nd_sec n)
               else rt_build_gateway_response_error (ne_sec x) (t_secs t) (t_nanos t) (t_nonce t) local peer mid status msg (nd_sec n)))])])))"

definition on_gateway_response :: "('pk, 'ed) NetEnv \<Rightarrow> NetNow \<Rightarrow> string \<Rightarrow> GatewayResponse \<Rightarrow> 'pk net_op" where
  "on_gateway_response x t peer resp =
     op_upd (\<lambda>n. snd (sec_call (rt_verify_gateway_response (ne_sec x) (t_now t) (local_id n) peer resp) n))"

definition web_verdict :: "('pk, 'ed) NetEnv \<Rightarrow> NetNow \<Rightarrow> string \<Rightarrow> WebRequest \<Rightarrow> 'pk Node \<Rightarrow> bool \<times> 'pk Node" where
  "web_verdict x t peer req n =
     (let (v, n) = sec_call (rt_verify_web_request (ne_sec x) (t_now t) (local_id n) peer req) n in
      if is_ok v then ct_call (enforce (t_secs t) peer WebTraffic) n else (False, n))"

definition on_web_request :: "('pk, 'ed) NetEnv \<Rightarrow> NetNow \<Rightarrow> string \<Rightarrow> WebRequest \<Rightarrow> 'pk net_op" where
  "on_web_request x t peer req = op_with (\<lambda>n. (local_id n, the_authority (controller_view n))) (\<lambda>(local, auth).
     let mid = wq_message_id req;
         plain = (\<lambda>status err. AnsWeb peer (ws_plain_error (t_secs t) (t_nanos t) mid local peer status err));
         ns = (case parse_ess_uri (wq_url req) of Some u \<Rightarrow> uri_namespace u | None \<Rightarrow> ''core'')
     in if \<not> is_ok (verify_signature_format (ne_sec x) (wq_signature req)) then op_emit (\<lambda>n. [plain 400 ''bad_signature_format''])
        else if auth \<noteq> None \<and> \<not> is_supported_namespace ns then op_emit (\<lambda>n. [plain 400 ''unsupported_namespace''])
        else op_call (web_verdict x t peer req) (\<lambda>ok. op_emit (\<lambda>n.
          if ok then [AnsWeb peer (answer_or (ws_plain_error (t_secs t) (t_nanos t) mid local peer 500 ''error'')
            (rt_build_web_response_ok (ne_sec x) (t_secs t) (t_nanos t) (t_nonce t) local peer mid 200 ''text/plain'' [] ''web_ok'' (nd_sec n)))]
          else [AnsWeb peer (answer_or (ws_plain_error (t_secs t) (t_nanos t) mid local peer 401 ''unauthorized'')
            (rt_build_web_response_error (ne_sec x) (t_secs t) (t_nanos t) (t_nonce t) local peer mid 401 ''unauthorized'' (nd_sec n)))])))"

definition on_web_response :: "('pk, 'ed) NetEnv \<Rightarrow> NetNow \<Rightarrow> string \<Rightarrow> WebResponse \<Rightarrow> 'pk net_op" where
  "on_web_response x t peer resp =
     op_upd (\<lambda>n. snd (sec_call (rt_verify_web_response (ne_sec x) (t_now t) (local_id n) peer resp) n))"

section \<open>Configuration\<close>

definition config_bundle :: "NetNow \<Rightarrow> 'pk Node \<Rightarrow> ConfigBundle" where
  "config_bundle t n = cb_normalized
     \<lparr> cb_role = role_as_str (current_role (local_id n) (nd_sec n)), cb_policy_version = 1,
       cb_allowed_peers = (case nd_world n of None \<Rightarrow> [] | Some w \<Rightarrow> map fst (peer_registry w)),
       cb_bootstrap_addrs = (case nd_world n of None \<Rightarrow> [] | Some w \<Rightarrow> ap_supernodes (ws_authority w)),
       cb_issued_at = t_secs t \<rparr>"

definition on_config_request :: "('pk, 'ed) NetEnv \<Rightarrow> NetNow \<Rightarrow> string \<Rightarrow> ConfigRequest \<Rightarrow> 'pk net_op" where
  "on_config_request x t peer req = op_with local_id (\<lambda>local.
     let mid = cq_message_id req; plain = (\<lambda>err. cs_plain_error (t_secs t) mid local peer err) in
     if \<not> is_ok (verify_signature_format (ne_sec x) (cq_signature req)) then op_emit (\<lambda>n. [AnsConfig peer (plain ''bad_signature_format'')])
     else op_call (ct_call (enforce (t_secs t) peer Connect)) (\<lambda>ok.
       if \<not> ok then op_emit (\<lambda>n. [AnsConfig peer (plain ''unauthorized'')])
       else op_with (config_bundle t) (\<lambda>bundle.
         op_call (sec_call (rt_verify_config_request (ne_sec x) (t_now t) local peer req)) (\<lambda>v. op_emit (\<lambda>n.
           [AnsConfig peer (answer_or (plain ''error'')
             (if is_ok v then rt_build_config_response_ok (ne_sec x) (t_secs t) (t_nonce t) local peer mid bundle (nd_sec n)
              else rt_build_config_response_error (ne_sec x) (t_secs t) (t_nonce t) local peer mid ''verification_failed'' (nd_sec n)))])))))"

definition on_config_response :: "('pk, 'ed) NetEnv \<Rightarrow> NetNow \<Rightarrow> string \<Rightarrow> ConfigResponse \<Rightarrow> 'pk net_op" where
  "on_config_response x t peer resp = op_with local_id (\<lambda>local.
     op_call (sec_call (rt_verify_config_response (ne_sec x) (t_now t) local peer resp)) (\<lambda>verdict.
       case verdict of
         Inl e \<Rightarrow> op_skip
       | Inr bundle \<Rightarrow> op_upd (\<lambda>n. snd (sec_call (apply_bundle bundle) n))))"

section \<open>Direct messages\<close>

definition crdt_sync :: "('pk, 'ed) NetEnv \<Rightarrow> NetNow \<Rightarrow> (string + u8 list \<Rightarrow> NetOut list) \<Rightarrow> u8 list \<Rightarrow> 'pk net_op" where
  "crdt_sync x t ans body = op_with nd_crdt (\<lambda>crdt. case crdt of
       None \<Rightarrow> op_skip
     | Some s \<Rightarrow>
         (case (case ne_sync_de x body of Some r \<Rightarrow> Some r | None \<Rightarrow> ne_payload_de x body) of
            None \<Rightarrow> op_emit (\<lambda>n. ans (Inl ''crdt_sync_parse_failed''))
          | Some remote \<Rightarrow>
              let s' = crdt_merge (ne_sha x) (ne_crdt_json x) (t_ms t) s remote in op_block [
                op_upd (\<lambda>n. n\<lparr> nd_crdt := Some s',
                  nd_crdt_file := (case ne_crdt_vec x s' of Some json \<Rightarrow> Some json | None \<Rightarrow> nd_crdt_file n) \<rparr>),
                op_emit (\<lambda>n. ans (Inr (ne_payload_ser x s')))]))"

text \<open>
  The approved target gets the activation flag and, when it is in the registry, the certificate.
\<close>

definition set_activation_cert :: "string \<Rightarrow> u8 list \<Rightarrow> WorldState \<Rightarrow> WorldState" where
  "set_activation_cert peer cert w =
     (case map_of (peer_registry w) peer of
        None \<Rightarrow> w
      | Some p \<Rightarrow> w\<lparr> peer_registry := bt_put peer (p\<lparr> activation_cert := Some cert \<rparr>) (peer_registry w) \<rparr>)"

definition certificate :: "string \<Rightarrow> string \<Rightarrow> Proposal option \<Rightarrow> ActivationCertificate" where
  "certificate pid tgt prop =
     \<lparr> ac_proposal_id = pid, ac_target = tgt, ac_approved = True,
       ac_signers = (case prop of None \<Rightarrow> [] | Some p \<Rightarrow> map fst (filter snd (votes p))) \<rparr>"

definition activate :: "('pk, 'ed) NetEnv \<Rightarrow> ActivationCertificate \<Rightarrow> 'pk net_op" where
  "activate x cert = on_world_file (\<lambda>st.
     let (w, file) = mark_peer_activated (ne_acd x) (ac_target cert) st in
     (set_activation_cert (ac_target cert) (ne_cert_json x cert) w, file))"

definition governance_vote :: "('pk, 'ed) NetEnv \<Rightarrow> NetNow \<Rightarrow> string \<Rightarrow> u8 list \<Rightarrow> 'pk net_op" where
  "governance_vote x t peer body =
     (case ne_vote_de x body of
        None \<Rightarrow> op_skip
      | Some vote \<Rightarrow>
          op_when (\<lambda>n. is_ok (rt_verify_governance_vote (ne_sec x) vote peer (nd_sec n)) \<and>
              (case the_authority (controller_view n) of
                 None \<Rightarrow> False
               | Some auth \<Rightarrow> vm_voter vote \<in> set (AuthorityState.supernodes (mgr_get auth))))
            (op_call (gov_call (record_vote (ne_gov x) (t_secs t) (vm_proposal_id vote) (vm_voter vote) (vm_approve vote))) (\<lambda>res.
              if \<not> is_ok res then op_skip
              else op_with (\<lambda>n. check_quorum (ne_rnd x) (t_secs t) (fst (nd_gov n)) (vm_proposal_id vote) 600) (\<lambda>quorum.
                case quorum of
                  None \<Rightarrow> op_skip
                | Some approved \<Rightarrow> op_block [
                    op_upd (\<lambda>n. n\<lparr> nd_gov := mark_executed (ne_gov x) (t_secs t) (vm_proposal_id vote) (nd_gov n) \<rparr>),
                    (if \<not> approved then op_skip
                     else op_with (\<lambda>n. map_of (proposals (fst (nd_gov n))) (vm_proposal_id vote)) (\<lambda>prop.
                       let tgt = (case prop of None \<Rightarrow> [] | Some p \<Rightarrow> target p);
                           cert = certificate (vm_proposal_id vote) tgt prop
                       in if tgt = [] then op_skip
                          else op_block [
                            activate x cert,
                            op_emit (\<lambda>n. case ne_parse x tgt of
                                None \<Rightarrow> []
                              | Some pid \<Rightarrow> [StartNotify pid cert (ne_cert_json x cert)])]))]))))"

definition activation_notify :: "('pk, 'ed) NetEnv \<Rightarrow> NetNow \<Rightarrow> u8 list \<Rightarrow> 'pk net_op" where
  "activation_notify x t body =
     (case ne_cert_de x body of
        None \<Rightarrow> op_skip
      | Some cert \<Rightarrow> on_world_file (\<lambda>st.
          let (w, file) = mark_peer_activated (ne_acd x) (ac_target cert) st in
          (set_peer_role (t_ck t) (ac_target cert) ''client'' w, file)))"

definition governance_announce :: "('pk, 'ed) NetEnv \<Rightarrow> NetNow \<Rightarrow> u8 list \<Rightarrow> 'pk net_op" where
  "governance_announce x t body =
     (case ne_announce_de x body of
        None \<Rightarrow> op_skip
      | Some a \<Rightarrow> op_when (\<lambda>n. map_of (proposals (fst (nd_gov n))) (an_proposal_id a) = None)
          (op_upd (\<lambda>n. snd (gov_call (create_proposal (ne_gov x) (t_secs t) (t_uuid t) (an_proposal_type a) (an_target a)) n))))"

definition pqc_handshake :: "('pk, 'ed) NetEnv \<Rightarrow> string \<Rightarrow> (string + u8 list \<Rightarrow> NetOut list) \<Rightarrow> u8 list \<Rightarrow> 'pk net_op" where
  "pqc_handshake x peer ans body =
     (case ne_pqc x body peer of
        None \<Rightarrow> op_skip
      | Some (Inr ct) \<Rightarrow> op_emit (\<lambda>n. ans (Inr ct))
      | Some (Inl e) \<Rightarrow> op_emit (\<lambda>n. ans (Inl ''pqc_encap_failed'')))"

definition compute_message :: "('pk, 'ed) NetEnv \<Rightarrow> NetNow \<Rightarrow> string \<Rightarrow> (string + u8 list \<Rightarrow> NetOut list) \<Rightarrow> u8 list \<Rightarrow> 'pk net_op" where
  "compute_message x t peer ans body =
     (case ne_cm_de x body of
        Some (CmResult result) \<Rightarrow> op_block [
          op_upd (\<lambda>n. n\<lparr> nd_compute := map_option (\<lambda>sd. sd\<lparr> sd_store := snd (save_result (sx_env (ne_sched x)) result (sd_store sd)) \<rparr>)
            (nd_compute n) \<rparr>),
          op_emit (\<lambda>n. DashJob (cr_job_id result) result # ans (Inr (as_bytes ''result_received'')))]
      | _ \<Rightarrow> op_with nd_compute (\<lambda>compute. case compute of
            None \<Rightarrow> op_emit (\<lambda>n. ans (Inl ''compute_not_available''))
          | Some sd \<Rightarrow>
              let (msg, sd') = handle_incoming_compute_message (ne_sched x) (ne_cm_de x) (t_now t) body peer (Some (sd_store sd)) sd in
              op_block [
                op_upd (\<lambda>n. n\<lparr> nd_compute := Some sd' \<rparr>),
                op_emit (\<lambda>n. ans (Inr (case msg of
                    Some m \<Rightarrow> ne_cm_ser x m
                  | None \<Rightarrow> as_bytes (CHR ''{'' # CHR 0x22 # ''status'' @ [CHR 0x22, CHR '':'', CHR 0x22] @ ''processed'' @ [CHR 0x22, CHR ''}'']))))]))"

definition plain_request :: "('pk, 'ed) NetEnv \<Rightarrow> NetNow \<Rightarrow> string \<Rightarrow> DirectRequest \<Rightarrow> u8 list \<Rightarrow> 'pk net_op" where
  "plain_request x t peer req body = op_with local_id (\<lambda>local.
     let mid = rq_message_id req; plain = (\<lambda>err. rs_plain_error (t_secs t) (t_nanos t) mid local peer err) in
     op_call (sec_call (verify_direct_request (ne_sec x) (t_now t) local peer req)) (\<lambda>v.
       if \<not> is_ok v then op_emit (\<lambda>n. [AnsDirect peer (answer_or (plain ''error'')
         (build_direct_response_error (ne_sec x) (t_secs t) (t_nanos t) (t_nonce t) local peer mid ''unauthorized'' (nd_sec n)))])
       else case ne_cfgreq_de x body of
         None \<Rightarrow> op_emit (\<lambda>n. [AnsDirect peer (answer_or (plain ''error'')
           (build_direct_response_ok (ne_sec x) (t_secs t) (t_nanos t) (t_nonce t) local peer mid ''ack'' (nd_sec n)))])
       | Some cfg \<Rightarrow> op_call (sec_call (rt_verify_config_request (ne_sec x) (t_now t) local peer cfg)) (\<lambda>v. op_emit (\<lambda>n.
           if \<not> is_ok v then [AnsDirect peer (plain ''invalid_config_request'')]
           else [AnsDirect peer (rs_plain_ok_bytes (t_secs t) (t_nanos t) mid local peer (ne_cfgresp_ser x
             (answer_or (cs_plain_error (t_secs t) (cq_message_id cfg) local peer ''error'')
               (rt_build_config_response_ok (ne_sec x) (t_secs t) (t_nonce t) local peer (cq_message_id cfg) (config_bundle t n) (nd_sec n)))))]))))"

definition handle_direct_request :: "('pk, 'ed) NetEnv \<Rightarrow> NetNow \<Rightarrow> string \<Rightarrow> DirectRequest \<Rightarrow> u8 list \<Rightarrow> 'pk net_op" where
  "handle_direct_request x t peer req body = op_with local_id (\<lambda>local.
     let mid = rq_message_id req;
         ok = (\<lambda>text. AnsDirect peer (rs_plain_ok (t_secs t) (t_nanos t) mid local peer text));
         ans = (\<lambda>r. case r of
             Inl err \<Rightarrow> [AnsDirect peer (rs_plain_error (t_secs t) (t_nanos t) mid local peer err)]
           | Inr bytes \<Rightarrow> [AnsDirect peer (rs_plain_ok_bytes (t_secs t) (t_nanos t) mid local peer bytes)])
     in if rq_kind req = ''crdt_sync'' then crdt_sync x t ans body
        else if rq_kind req = ''governance.vote'' then op_seq (governance_vote x t peer body) (op_emit (\<lambda>n. [ok ''ack'']))
        else if rq_kind req = ''governance.activation_notify'' then op_seq (activation_notify x t body) (op_emit (\<lambda>n. [ok ''activated'']))
        else if rq_kind req = ''governance.announce'' then op_seq (governance_announce x t body) (op_emit (\<lambda>n. [ok ''ack'']))
        else if rq_kind req = ''pqc_handshake'' then pqc_handshake x peer ans body
        else if rq_kind req = ''compute'' then compute_message x t peer ans body
        else plain_request x t peer req body)"

text \<open>The relay answers first; the answer names neither the request nor the peer.\<close>

definition relay_request :: "('pk, 'ed) NetEnv \<Rightarrow> NetNow \<Rightarrow> string \<Rightarrow> OnionRelayRequest \<Rightarrow> 'pk net_op" where
  "relay_request x t peer relay = op_with (\<lambda>n. (local_id n, handle_onion_relay (ne_onion x) (ne_parse x) (nd_onion_sk n) relay))
     (\<lambda>(local, resp, outcome). op_seq
       (op_emit (\<lambda>n. [AnsDirect peer (rs_plain_ok_bytes (t_secs t) (t_nanos t) [] local [] (ne_relay_ser x resp))]))
       (case outcome of
          Forward next_peer fwd \<Rightarrow> op_seq
            (op_emit (\<lambda>n. [Request next_peer (rq_plain_bytes (t_secs t) (t_nanos t) local next_peer (ne_ess_ser x (EssOnion fwd)))]))
            (op_upd (\<lambda>n. n\<lparr> nd_next_rid := nd_next_rid n + 1 \<rparr>))
        | RelayPanic \<Rightarrow> panics
        | _ \<Rightarrow> op_skip))"

definition on_direct_request :: "('pk, 'ed) NetEnv \<Rightarrow> NetNow \<Rightarrow> string \<Rightarrow> DirectRequest \<Rightarrow> 'pk net_op" where
  "on_direct_request x t peer req =
     (case ne_ess_de x (rq_body req) of
        Some (EssDirect direct) \<Rightarrow> handle_direct_request x t peer req (rq_body direct)
      | Some (EssOnion relay) \<Rightarrow> relay_request x t peer relay
      | None \<Rightarrow> op_with local_id (\<lambda>local.
          let plain = (\<lambda>err. AnsDirect peer (rs_plain_error (t_secs t) (t_nanos t) (rq_message_id req) local peer err)) in
          if \<not> is_ok (verify_signature_format (ne_sec x) (rq_signature req)) then op_emit (\<lambda>n. [plain ''bad_signature_format''])
          else op_call (ct_call (enforce (t_secs t) peer Connect)) (\<lambda>ok.
            if \<not> ok then op_emit (\<lambda>n. [plain ''access_denied_by_authority''])
            else handle_direct_request x t peer req (rq_body req))))"

definition on_direct_response :: "('pk, 'ed) NetEnv \<Rightarrow> NetNow \<Rightarrow> nat \<Rightarrow> DirectResponse \<Rightarrow> 'pk net_op" where
  "on_direct_response x t rid resp =
     on_ct (complete_pending_direct_request (ne_sec x) (ne_rnd x) (ne_parse x) (t_now t) rid resp)"

section \<open>Onboarding\<close>

definition handle_peer_identified :: "('pk, 'ed) NetEnv \<Rightarrow> NetNow \<Rightarrow> string \<Rightarrow> OnboardRequest \<Rightarrow> 'pk Node \<Rightarrow> bool \<times> 'pk Node" where
  "handle_peer_identified x t peer req n =
     (let (ok, n) = sec_call (verify_remote_identity (ne_ed x) (ne_hmac x) (ne_master x) (t_now t) (t_inst t) peer req) n in
      if \<not> ok then (False, n)
      else let n = (case ne_ed_key x (ob_public_key req) of
                      Some pk \<Rightarrow> snd (sec_call (register_peer_key peer pk) n)
                    | None \<Rightarrow> n)
           in (True, fst (on_world_file (mark_peer_activated (ne_acd x) peer) n)))"

definition learn_x25519 :: "('pk, 'ed) NetEnv \<Rightarrow> string \<Rightarrow> OnboardRequest \<Rightarrow> 'pk Node \<Rightarrow> 'pk Node" where
  "learn_x25519 x peer req n =
     (case Option.bind (ob_x25519_pubkey req) (ne_unhex x) of
        Some pk \<Rightarrow>
          if length pk = 32
          then n\<lparr> nd_world := map_option (register_peer_pubkey peer pk) (nd_world n), nd_pubkeys := hm_put peer pk (nd_pubkeys n) \<rparr>
          else n
      | None \<Rightarrow> n)"

text \<open>One message to every other supernode the authority lists, in the order of the list.\<close>

definition to_supernodes :: "('pk, 'ed) NetEnv \<Rightarrow> NetNow \<Rightarrow> string \<Rightarrow> u8 list \<Rightarrow> 'pk net_op" where
  "to_supernodes x t kind bytes = op_with (\<lambda>n. (local_id n, the_authority (controller_view n))) (\<lambda>(local, auth).
     case auth of
       None \<Rightarrow> op_skip
     | Some a \<Rightarrow> op_all (\<lambda>sn.
         case (if sn = local then None else ne_parse x sn) of
           None \<Rightarrow> op_skip
         | Some pid \<Rightarrow> send_direct_message x t pid
             (case typed_request x t local sn kind bytes of None \<Rightarrow> [] | Some b \<Rightarrow> b)) (AuthorityState.supernodes (mgr_get a)))"

definition vote_text :: "VoteMessage \<Rightarrow> string" where
  "vote_text v = join_with CHR '':'' [vm_proposal_id v, vm_voter v, bool_text (vm_approve v), vm_nonce v, dec_str (unat (vm_timestamp v))]"

definition settle_proposal :: "('pk, 'ed) NetEnv \<Rightarrow> NetNow \<Rightarrow> string \<Rightarrow> string \<Rightarrow> 'pk net_op" where
  "settle_proposal x t peer pid = op_with (\<lambda>n. check_quorum (ne_rnd x) (t_secs t) (fst (nd_gov n)) pid 600) (\<lambda>quorum.
     case quorum of
       None \<Rightarrow> op_skip
     | Some approved \<Rightarrow> op_block [
         (if \<not> approved then op_skip
          else op_with (\<lambda>n. certificate pid peer (map_of (proposals (fst (nd_gov n))) pid)) (\<lambda>cert. op_block [
            activate x cert,
            op_emit (\<lambda>n. [StartNotify peer cert (ne_cert_json x cert)])])),
         op_upd (\<lambda>n. n\<lparr> nd_gov := mark_executed (ne_gov x) (t_secs t) pid (nd_gov n) \<rparr>)])"

definition propose_activation :: "('pk, 'ed) NetEnv \<Rightarrow> NetNow \<Rightarrow> string \<Rightarrow> 'pk net_op" where
  "propose_activation x t peer =
     op_call (gov_call (create_proposal (ne_gov x) (t_secs t) (t_uuid t) (ActivatePeer peer) peer)) (\<lambda>pid. op_with local_id (\<lambda>local.
       op_seq
         (op_with (\<lambda>n. \<lparr> an_proposal_id = pid, an_proposer = local, an_proposal_type = ActivatePeer peer, an_target = peer,
              an_supernode_count = card (GovernanceEngine.supernodes (fst (nd_gov n))), an_timestamp = t_secs t \<rparr>) (\<lambda>a.
            to_supernodes x t ''governance.announce'' (ne_announce_ser x a)))
         (let vote = \<lparr> vm_proposal_id = pid, vm_voter = local, vm_approve = True, vm_nonce = t_nonce t,
                vm_timestamp = t_secs t, vm_signature = [] \<rparr>
          in op_with (\<lambda>n. map_option (sign_governance_payload (ne_sec x) (vote_text vote)) (the_security (controller_view n))) (\<lambda>sig.
            case sig of
              Some (Inr s) \<Rightarrow> op_block [
                op_upd (\<lambda>n. n\<lparr> nd_gov := snd (record_vote (ne_gov x) (t_secs t) pid local True (nd_gov n)) \<rparr>),
                to_supernodes x t ''governance.vote'' (ne_vote_ser x (vote\<lparr> vm_signature := s \<rparr>)),
                settle_proposal x t peer pid]
            | _ \<Rightarrow> panics))))"

definition known_peers_list :: "string \<Rightarrow> 'pk Node \<Rightarrow> KnownPeer list" where
  "known_peers_list peer n = concat (map (\<lambda>(pid, addrs). map (\<lambda>a. \<lparr> kp_peer_id = pid, kp_addr = a \<rparr>) (take 1 addrs))
     (filter (\<lambda>(pid, addrs). pid \<noteq> peer) (nd_seen_addrs n)))"

definition on_onboard_request :: "('pk, 'ed) NetEnv \<Rightarrow> NetNow \<Rightarrow> string \<Rightarrow> OnboardRequest \<Rightarrow> 'pk net_op" where
  "on_onboard_request x t peer req = op_with nd_world (\<lambda>world. case world of
       None \<Rightarrow> op_emit (\<lambda>n. [AnsOnboard peer \<lparr> os_accepted = False, os_reason = Some ''WorldState not available'', os_known_peers = [] \<rparr>])
     | Some w \<Rightarrow> op_call (handle_peer_identified x t peer req) (\<lambda>accepted. op_block [
         op_upd (learn_x25519 x peer req),
         (if accepted then propose_activation x t peer else op_skip),
         op_when nd_alive (op_emit (\<lambda>n. [AnsOnboard peer
           (if accepted then \<lparr> os_accepted = True, os_reason = Some ''Awaiting governance consensus'',
              os_known_peers = known_peers_list peer n \<rparr>
            else \<lparr> os_accepted = False, os_reason = Some ''Onboarding verification failed'', os_known_peers = [] \<rparr>)]))]))"

definition on_onboard_response :: "nat \<Rightarrow> OnboardResponse \<Rightarrow> 'pk net_op" where
  "on_onboard_response rid resp = op_block [
     (if os_known_peers resp \<noteq> [] then op_emit (\<lambda>n. [StartDials (map kp_addr (os_known_peers resp))]) else op_skip),
     op_when (\<lambda>n. rid \<in> set (nd_onboard_pending n)) (op_seq (op_emit (\<lambda>n. [OnboardDone rid resp]))
       (op_upd (\<lambda>n. n\<lparr> nd_onboard_pending := filter (\<lambda>r. r \<noteq> rid) (nd_onboard_pending n) \<rparr>)))]"

section \<open>Storage and Kademlia\<close>

definition on_storage_request :: "('pk, 'ed) NetEnv \<Rightarrow> NetNow \<Rightarrow> string \<Rightarrow> StorageRequest \<Rightarrow> 'pk net_op" where
  "on_storage_request x t peer req = op_call (ct_call (enforce (t_secs t) peer Connect)) (\<lambda>ok.
     if \<not> ok then op_emit (\<lambda>n. [AnsStorage peer (RespError ''access denied'')])
     else op_with nd_storage (\<lambda>storage. case storage of
         None \<Rightarrow> op_skip
       | Some sl \<Rightarrow>
           (case handle_request (ne_store x) (t_rng t) req peer sl of
              None \<Rightarrow> panics
            | Some (resp, sl') \<Rightarrow> op_block [
                op_upd (\<lambda>n. n\<lparr> nd_storage := Some sl' \<rparr>), op_emit (\<lambda>n. [AnsStorage peer resp])])))"

definition complete_kad_get_query :: "nat \<Rightarrow> string + Chunk option \<Rightarrow> 'pk net_op" where
  "complete_kad_get_query qid result = op_when (\<lambda>n. qid \<in> set (nd_kad_pending n))
     (op_seq (op_emit (\<lambda>n. [KadDone qid result]))
       (op_upd (\<lambda>n. n\<lparr> nd_kad_pending := filter (\<lambda>q. q \<noteq> qid) (nd_kad_pending n) \<rparr>)))"

datatype KadEvent =
    InboundPut "KadRecord option"
  | PutFailed "u8 list"
  | FoundRecord nat KadRecord
  | RecordNotFound nat
  | GetFailed nat string
  | OtherKad

definition on_kademlia :: "('pk, 'ed) NetEnv \<Rightarrow> NetNow \<Rightarrow> KadEvent \<Rightarrow> 'pk net_op" where
  "on_kademlia x t ev =
     (case ev of
        InboundPut (Some rec) \<Rightarrow>
          (if ne_kad_opens x then op_upd (\<lambda>n. n\<lparr> nd_kad := save_record (ne_kad x) (t_now t) rec (nd_kad n) \<rparr>) else op_skip)
      | PutFailed key \<Rightarrow>
          (if ne_kad_opens x then op_upd (\<lambda>n. n\<lparr> nd_kad := remove_record key (nd_kad n) \<rparr>) else op_skip)
      | FoundRecord qid rec \<Rightarrow> complete_kad_get_query qid (Inr (ne_chunk_de x (kr_value rec)))
      | RecordNotFound qid \<Rightarrow> complete_kad_get_query qid (Inr None)
      | GetFailed qid e \<Rightarrow> complete_kad_get_query qid (Inl (''Kad error: '' @ e))
      | _ \<Rightarrow> op_skip)"

section \<open>The event loop\<close>

datatype 'pk NetEvent =
    ConnectionEstablished string
  | ConnectionClosed string
  | IdentifyReceived string 'pk "Multiaddr list"
  | GatewayReq string GatewayRequest
  | GatewayResp string GatewayResponse
  | WebReq string WebRequest
  | WebResp string WebResponse
  | ConfigReq string ConfigRequest
  | ConfigResp string ConfigResponse
  | DirectReq string DirectRequest
  | DirectResp nat DirectResponse
  | OnboardReq string OnboardRequest
  | OnboardResp nat OnboardResponse
  | StorageReq string StorageRequest
  | Kademlia KadEvent
  | NotifyTask string ActivationCertificate "u8 list"
  | OtherEvent

text \<open>The task spawned after an activation: the peer is told, and the certificate is published.\<close>

definition notify_task :: "('pk, 'ed) NetEnv \<Rightarrow> NetNow \<Rightarrow> string \<Rightarrow> ActivationCertificate \<Rightarrow> u8 list \<Rightarrow> 'pk net_op" where
  "notify_task x t peer cert data = op_seq
     (send_typed_message x t peer ''governance.activation_notify'' (ne_cert_ser x cert))
     (op_emit (\<lambda>n. [KadPut (''verified_peer_'' @ peer) data]))"

fun handle_event :: "('pk, 'ed) NetEnv \<Rightarrow> NetNow \<Rightarrow> 'pk NetEvent \<Rightarrow> 'pk net_op" where
  "handle_event x t (ConnectionEstablished p) = on_connected x t p"
| "handle_event x t (ConnectionClosed p) = on_closed t p"
| "handle_event x t (IdentifyReceived p pk addrs) = on_identify x t p pk addrs"
| "handle_event x t (GatewayReq p r) = on_gateway_request x t p r"
| "handle_event x t (GatewayResp p r) = on_gateway_response x t p r"
| "handle_event x t (WebReq p r) = on_web_request x t p r"
| "handle_event x t (WebResp p r) = on_web_response x t p r"
| "handle_event x t (ConfigReq p r) = on_config_request x t p r"
| "handle_event x t (ConfigResp p r) = on_config_response x t p r"
| "handle_event x t (DirectReq p r) = on_direct_request x t p r"
| "handle_event x t (DirectResp rid r) = on_direct_response x t rid r"
| "handle_event x t (OnboardReq p r) = on_onboard_request x t p r"
| "handle_event x t (OnboardResp rid r) = on_onboard_response rid r"
| "handle_event x t (StorageReq p r) = on_storage_request x t p r"
| "handle_event x t (Kademlia ev) = on_kademlia x t ev"
| "handle_event x t (NotifyTask p cert data) = notify_task x t p cert data"
| "handle_event x t OtherEvent = op_skip"

definition net_step :: "('pk, 'ed) NetEnv \<Rightarrow> NetNow \<Rightarrow> 'pk NetEvent \<Rightarrow> 'pk net_op" where
  "net_step x t ev = op_when nd_alive (handle_event x t ev)"

fun net_run :: "('pk, 'ed) NetEnv \<Rightarrow> (NetNow \<times> 'pk NetEvent) list \<Rightarrow> 'pk net_op" where
  "net_run x [] = op_skip"
| "net_run x ((t, ev) # evs) = op_seq (net_step x t ev) (net_run x evs)"

text \<open>
  The node as \<^verbatim>\<open>runner.rs\<close> sets it up: a controller of its own with an event channel, the authority, the world and
  the security runtime attached, a fresh governance engine, and the onion keys the world knows.
\<close>

definition run_with_dashboard_and_authority :: "('pk, 'ed) NetEnv \<Rightarrow> NetNow \<Rightarrow> string \<Rightarrow> AuthorityManager \<Rightarrow> WorldState \<Rightarrow> activation_file \<Rightarrow>
    'pk SecurityRuntime \<Rightarrow> CrdtWorldState option \<Rightarrow> kad_db \<Rightarrow> u8 list \<Rightarrow> 'pk Node" where
  "run_with_dashboard_and_authority x t peer auth world afile sec crdt kad sk =
     (let sec = snd (rt_register_response_verifier (\<lambda>_. Some (Inr ())) sec);
          ct = attach_security sec (ct_attach_authority auth (ct_new peer True));
          ct = push_ghost_sync (t_secs t) (push_ghost_signal (t_secs t) ''network_runner_boot'' ct)
      in \<lparr> nd_alive = True, nd_ct = ct, nd_sec = sec, nd_world = Some world, nd_activation = afile, nd_crdt = crdt,
           nd_crdt_file = None, nd_gov = (new_engine (t_secs t) (AuthorityState.supernodes (mgr_get auth)) (ne_rnd x (33 / 50)), None),
           nd_compute = None, nd_storage = None, nd_kad = kad, nd_kad_pending = [], nd_onboard_pending = [], nd_next_rid = 0,
           nd_counts = [], nd_known = {}, nd_seen_addrs = [], nd_registry = None,
           nd_pubkeys = peer_x25519_pubkeys world, nd_onion_sk = sk \<rparr>)"

end
