(* ===== verification/Network_Proofs.thy ===== *)
theory Network_Proofs
  imports Network_Events Security_Proofs
begin

text \<open>
  Proofs about the network task: which requests are answered and served, what makes a peer activated, and what the
  wiring of the node leaves out of reach.
\<close>

section \<open>Operations with a result\<close>

context op_spec
begin

lemma sat_call: "(\<And>s. R s [] (snd (f s))) \<Longrightarrow> (\<And>a. op_sat R (g a)) \<Longrightarrow> op_sat R (op_call f g)"
  unfolding op_sat_def op_call_def Let_def split_def
  using R_trans[of _ "[]" "snd (f _)"] by fastforce

end

lemma op_call_eq: "op_call f g s = g (fst (f s)) (snd (f s))"
  by (simp add: op_call_def split_def Let_def)

lemma op_all_Cons: "op_all f (y # ys) s = op_seq (f y) (op_all f ys) s"
  by simp

lemmas net_ops = op_defs op_call_eq

section \<open>Answers\<close>

fun answer_to :: "NetOut \<Rightarrow> string option" where
  "answer_to (AnsDirect p r) = Some p"
| "answer_to (AnsGateway p r) = Some p"
| "answer_to (AnsWeb p r) = Some p"
| "answer_to (AnsConfig p r) = Some p"
| "answer_to (AnsOnboard p r) = Some p"
| "answer_to (AnsStorage p r) = Some p"
| "answer_to _ = None"

fun requester :: "'pk NetEvent \<Rightarrow> string option" where
  "requester (GatewayReq p r) = Some p"
| "requester (WebReq p r) = Some p"
| "requester (ConfigReq p r) = Some p"
| "requester (DirectReq p r) = Some p"
| "requester (OnboardReq p r) = Some p"
| "requester (StorageReq p r) = Some p"
| "requester _ = None"

definition answers :: "NetOut list \<Rightarrow> string list" where
  "answers outs = List.map_filter answer_to outs"

lemma answers_simps [simp]:
  "answers [] = []" "answers (a # outs) = (case answer_to a of None \<Rightarrow> answers outs | Some p \<Rightarrow> p # answers outs)"
  by (simp_all add: answers_def List.map_filter_simps split: option.split)

lemma answers_append [simp]: "answers (xs @ ys) = answers xs @ answers ys"
  by (induction xs) (simp_all split: option.split)

text \<open>The operations that send no answer.\<close>

definition silent :: "'pk Node \<Rightarrow> NetOut list \<Rightarrow> 'pk Node \<Rightarrow> bool" where
  "silent n outs n' \<longleftrightarrow> answers outs = []"

interpretation si: op_spec "silent :: 'pk Node \<Rightarrow> NetOut list \<Rightarrow> 'pk Node \<Rightarrow> bool"
  by unfold_locales (auto simp: silent_def)

lemma silent_upd [simp]: "op_sat silent (op_upd f)" "op_sat silent (on_ct g)" "op_sat silent (on_world h)"
  "op_sat silent (on_world_file k)" "op_sat silent (on_crdt j)" "op_sat silent panics"
  by (simp_all add: op_sat_def silent_def op_upd_def on_ct_def on_world_def on_world_file_def on_crdt_def panics_def)

lemma silent_send: "op_sat silent (send_direct_message x t p b)" "op_sat silent (send_typed_message x t p k c)"
proof -
  show s: "op_sat silent (send_direct_message x t p b)" for b
    by (auto simp: op_sat_def silent_def send_direct_message_def split: option.split sum.split)
  show "op_sat silent (send_typed_message x t p k c)"
    unfolding send_typed_message_def by (intro si.sat_with) (simp add: s si.sat_skip split: option.split)
qed

lemma silent_sync: "op_sat silent (sync_with_world t)"
  unfolding sync_with_world_def by (auto intro!: si.sat_seq si.sat_when')

lemma silent_connected: "op_sat silent (on_connected x t p)" "op_sat silent (on_closed t p)"
  unfolding on_connected_def on_closed_def Let_def
  by (auto intro!: si.sat_seq si.sat_with si.sat_call si.sat_emit silent_sync simp: silent_def split: option.split)

lemma silent_identify: "op_sat silent (on_identify x t p pk addrs)"
proof -
  have "op_sat silent (learn_addr x p a)" for a
    unfolding learn_addr_def
    by (auto simp: silent_def op_sat_def op_defs register_peer_addr_def Let_def)
  moreover have "op_sat silent (send_config_sync x t p)"
    unfolding send_config_sync_def
    by (auto intro!: si.sat_with si.sat_seq si.sat_call si.sat_skip silent_send simp: silent_def split: option.split sum.split)
  ultimately show ?thesis
    unfolding on_identify_def
    by (auto intro!: si.sat_seq si.sat_with si.sat_emit si.sat_all si.sat_skip simp: silent_def split: option.split)
qed

lemma answers_gateway: "answers (snd (on_gateway_request x t p r n)) = [p]"
  by (auto simp: on_gateway_request_def net_ops Let_def on_ct_def split: prod.split)

lemma answers_web: "answers (snd (on_web_request x t p r n)) = [p]"
  by (auto simp: on_web_request_def net_ops Let_def split: prod.split)

lemma answers_config: "answers (snd (on_config_request x t p r n)) = [p]"
  by (auto simp: on_config_request_def net_ops Let_def split: prod.split)

lemma silent_vote: "op_sat silent (governance_vote x t p b)"
  unfolding governance_vote_def activate_def Let_def
  by (auto intro!: si.sat_seq si.sat_when' si.sat_with si.sat_call si.sat_emit si.sat_skip simp: silent_def split: option.split)

lemma silent_notify: "op_sat silent (activation_notify x t b)" "op_sat silent (governance_announce x t b)"
  unfolding activation_notify_def governance_announce_def
  by (auto intro!: si.sat_skip si.sat_when' split: option.split)

lemma silentD: "op_sat silent f \<Longrightarrow> answers (snd (f n)) = []"
  by (simp add: op_sat_def silent_def)

lemma seq_outs: "snd (op_seq f g n) = snd (f n) @ snd (g (fst (f n)))" "fst (op_seq f g n) = fst (g (fst (f n)))"
  by (simp_all add: op_seq_def split_def Let_def)

lemma answers_direct:
  "answers (snd (handle_direct_request x t p r b n)) \<in> {[], [p]} \<and>
   (answers (snd (handle_direct_request x t p r b n)) = [] \<longrightarrow>
      rq_kind r = ''crdt_sync'' \<and> nd_crdt n = None \<or> rq_kind r = ''pqc_handshake'')"
proof -
  let ?ans = "\<lambda>res. case res of
      Inl err \<Rightarrow> [AnsDirect p (rs_plain_error (t_secs t) (t_nanos t) (rq_message_id r) (local_id n) p err)]
    | Inr bytes \<Rightarrow> [AnsDirect p (rs_plain_ok_bytes (t_secs t) (t_nanos t) (rq_message_id r) (local_id n) p bytes)]"
  have a: "answers (?ans res) = [p]" for res by (simp split: sum.split)
  have "answers (snd (crdt_sync x t ?ans b n)) \<in> {[], [p]} \<and> (answers (snd (crdt_sync x t ?ans b n)) = [] \<longrightarrow> nd_crdt n = None)"
    by (auto simp: crdt_sync_def net_ops Let_def split: option.split)
  moreover have "answers (snd (pqc_handshake x p ?ans b n)) \<in> {[], [p]}"
    by (auto simp: pqc_handshake_def net_ops split: option.split sum.split)
  moreover have "answers (snd (compute_message x t p ?ans b n)) = [p]"
    by (auto simp: compute_message_def net_ops Let_def split: option.split prod.split ComputeMessage.split)
  moreover have "answers (snd (plain_request x t p r b n)) = [p]"
    by (auto simp: plain_request_def net_ops Let_def split: option.split)
  ultimately show ?thesis
    using silentD[OF silent_vote, of x t p b n] silentD[OF silent_notify(1), of x t b n] silentD[OF silent_notify(2), of x t b n]
    by (auto simp: handle_direct_request_def seq_outs op_with_def op_emit_def Let_def)
qed

lemma silent_onboard_parts: "op_sat silent (propose_activation x t p)"
proof -
  have s: "op_sat silent (to_supernodes x t k b)" for k b
    unfolding to_supernodes_def
    by (auto intro!: si.sat_with si.sat_all si.sat_skip silent_send split: option.split)
  have "op_sat silent (settle_proposal x t p pid)" for pid
    unfolding settle_proposal_def activate_def
    by (auto intro!: si.sat_with si.sat_seq si.sat_emit si.sat_skip simp: silent_def split: option.split)
  with s show ?thesis
    unfolding propose_activation_def Let_def
    by (auto intro!: si.sat_call si.sat_with si.sat_seq simp: silent_def split: option.split sum.split)
qed

lemma answers_onboard:
  "answers (snd (on_onboard_request x t p r n)) \<in> {[], [p]} \<and>
   (answers (snd (on_onboard_request x t p r n)) = [] \<longrightarrow> \<not> nd_alive (fst (on_onboard_request x t p r n)))"
proof (cases "nd_world n")
  case None
  then show ?thesis by (simp add: on_onboard_request_def net_ops)
next
  case (Some w)
  define acc where "acc = fst (handle_peer_identified x t p r n)"
  define m where "m = learn_x25519 x p r (snd (handle_peer_identified x t p r n))"
  have "answers (snd (propose_activation x t p m)) = []" by (rule silentD[OF silent_onboard_parts])
  with Some show ?thesis
    by (auto simp: on_onboard_request_def net_ops acc_def[symmetric] m_def[symmetric] split_def Let_def)
qed

lemma answers_storage:
  "answers (snd (on_storage_request x t p r n)) \<in> {[], [p]} \<and>
   (answers (snd (on_storage_request x t p r n)) = [] \<longrightarrow> nd_storage n = None \<or> \<not> nd_alive (fst (on_storage_request x t p r n)))"
proof -
  have "nd_storage (snd (ct_call f n)) = nd_storage n" for f :: "'a Controller \<Rightarrow> bool \<times> 'a Controller"
    by (simp add: ct_call_def split_def Let_def)
  then show ?thesis
    by (auto simp: on_storage_request_def net_ops panics_def split: option.split)
qed

lemma answers_relay: "answers (snd (relay_request x t p r n)) = [p]"
  by (auto simp: relay_request_def net_ops panics_def split_def split: RelayOutcome.split)

lemma answers_direct_event:
  "answers (snd (on_direct_request x t p r n)) \<in> {[], [p]} \<and>
   (answers (snd (on_direct_request x t p r n)) = [] \<longrightarrow>
      rq_kind r = ''crdt_sync'' \<and> nd_crdt n = None \<or> rq_kind r = ''pqc_handshake'')"
proof -
  have "nd_crdt (snd (ct_call f n)) = nd_crdt n" for f :: "'a Controller \<Rightarrow> bool \<times> 'a Controller"
    by (simp add: ct_call_def split_def Let_def)
  then show ?thesis
    using answers_direct[of x t p r _ n] answers_relay[of x t p _ n]
      answers_direct[of x t p r "rq_body r" "snd (ct_call (enforce (t_secs t) p Connect) n)"]
    by (auto simp: on_direct_request_def net_ops Let_def split: option.split EssRequest.split)
qed

text \<open>When a request may stay without an answer: \<open>n\<close> and \<open>n'\<close> are the node before and after.\<close>

fun unanswerable :: "'pk NetEvent \<Rightarrow> 'pk Node \<Rightarrow> 'pk Node \<Rightarrow> bool" where
  "unanswerable (DirectReq p r) n n' = (rq_kind r = ''crdt_sync'' \<and> nd_crdt n = None \<or> rq_kind r = ''pqc_handshake'')"
| "unanswerable (OnboardReq p r) n n' = (\<not> nd_alive n')"
| "unanswerable (StorageReq p r) n n' = (nd_storage n = None \<or> \<not> nd_alive n')"
| "unanswerable _ n n' = False"

lemma silent_rest:
  "op_sat silent (on_kademlia x t k)" "op_sat silent (on_onboard_response rid resp)" "op_sat silent (notify_task x t p c d)"
  "op_sat silent (on_config_response x t p cr)"
proof -
  have done_silent: "op_sat silent (complete_kad_get_query q res)" for q res
    unfolding complete_kad_get_query_def by (auto intro!: si.sat_when' si.sat_seq si.sat_emit simp: silent_def)
  then show "op_sat silent (on_kademlia x t k)"
    unfolding on_kademlia_def by (auto intro!: si.sat_skip split: KadEvent.split option.split)
  show "op_sat silent (on_onboard_response rid resp)"
    unfolding on_onboard_response_def by (auto intro!: si.sat_seq si.sat_when' si.sat_emit si.sat_skip simp: silent_def)
  show "op_sat silent (notify_task x t p c d)"
    unfolding notify_task_def by (auto intro!: si.sat_seq si.sat_emit silent_send simp: silent_def)
  show "op_sat silent (on_config_response x t p cr)"
    unfolding on_config_response_def by (auto intro!: si.sat_with si.sat_call si.sat_skip simp: silent_def split: sum.split)
qed

lemma silent_event: "requester ev = None \<Longrightarrow> op_sat silent (handle_event x t ev)"
  by (cases ev) (simp_all add: silent_connected silent_identify silent_rest si.sat_skip on_gateway_response_def
      on_web_response_def on_direct_response_def)

section \<open>Authorisation\<close>

lemma view_frame [simp]:
  "quarantined (controller_view n) p = quarantined (nd_ct n) p" "the_authority (controller_view n) = the_authority (nd_ct n)"
  "ct_limiter (controller_view n) = ct_limiter (nd_ct n)"
  by (simp_all add: controller_view_def quarantined_def the_authority_def)

lemma view_restore: "nd_ct n = nd_ct m \<Longrightarrow> nd_sec n = nd_sec m \<Longrightarrow> controller_view n = controller_view m"
  by (simp add: controller_view_def)

lemma enforce_true: "fst (enforce now p a c) \<Longrightarrow> snd (enforce now p a c) = c \<and> \<not> quarantined c p \<and>
    (\<forall>auth. the_authority c = Some auth \<longrightarrow> is_allowed auth p a)"
  by (auto simp: enforce_def split: if_splits option.splits sum.splits)

definition admitted :: "'pk Node \<Rightarrow> string \<Rightarrow> Action \<Rightarrow> bool" where
  "admitted n p a \<longleftrightarrow> \<not> quarantined (nd_ct n) p \<and> (\<forall>auth. the_authority (nd_ct n) = Some auth \<longrightarrow> is_allowed auth p a)"

lemma admitted_enforce: "fst (ct_call (enforce now p a) n) \<Longrightarrow> admitted n p a"
  using enforce_true[of now p a "controller_view n"] by (simp add: ct_call_def split_def Let_def admitted_def)

lemma admitted_frame: "ct_reputation (nd_ct m) = ct_reputation (nd_ct n) \<Longrightarrow> rep_poisoned (nd_ct m) = rep_poisoned (nd_ct n) \<Longrightarrow>
    the_authority (nd_ct m) = the_authority (nd_ct n) \<Longrightarrow> admitted m p a = admitted n p a"
  by (simp add: admitted_def quarantined_def)

lemma sec_call_frame [simp]: "nd_ct (snd (sec_call f n)) = nd_ct n" "fst (sec_call f n) = fst (f (nd_sec n))"
  "nd_world (snd (sec_call f n)) = nd_world n" "nd_storage (snd (sec_call f n)) = nd_storage n"
  by (simp_all add: sec_call_def split_def Let_def)

lemma ct_call_frame [simp]: "fst (ct_call f n) = fst (f (controller_view n))" "nd_ct (snd (ct_call f n)) = snd (f (controller_view n))"
  "nd_world (snd (ct_call f n)) = nd_world n" "nd_storage (snd (ct_call f n)) = nd_storage n"
  by (simp_all add: ct_call_def split_def Let_def)

lemma ct_call_sec: "ct_security (snd (f (controller_view n))) = ct_security (controller_view n) \<Longrightarrow> nd_sec (snd (ct_call f n)) = nd_sec n"
  by (simp add: ct_call_def split_def Let_def controller_view_def split: option.split)

lemma enforce_allowed_node:
  assumes "fst (enforce now p a (controller_view n))"
  shows "nd_sec (snd (ct_call (enforce now p a) n)) = nd_sec n" "ct_limiter (snd (enforce now p a (controller_view n))) = ct_limiter (nd_ct n)"
    "ct_local (snd (enforce now p a (controller_view n))) = local_id n"
  using enforce_true[OF assms] by (simp_all add: ct_call_sec) (simp add: controller_view_def)

lemma plain_flags [simp]: "\<not> gs_ok (gs_plain_error a b c d e f)" "\<not> ws_ok (ws_plain_error a b c d e g f)" "\<not> cs_ok (cs_plain_error a c d e f)"
  by (simp_all add: gs_plain_error_def ws_plain_error_def ws_normalized_def cs_plain_error_def cs_plain_def)

lemma error_flags [simp]:
  "\<not> gs_ok d \<Longrightarrow> \<not> gs_ok (answer_or d (rt_build_gateway_response_error se ts ns nc f t m st err sec))"
  "\<not> ws_ok e \<Longrightarrow> \<not> ws_ok (answer_or e (rt_build_web_response_error se ts ns nc f t m st err sec))"
  "\<not> cs_ok g \<Longrightarrow> \<not> cs_ok (answer_or g (rt_build_config_response_error se ts nc f t m err sec))"
  by (auto simp: answer_or_def rt_build_gateway_response_error_def build_gateway_response_error_def finish_gateway_response_def
      gs_plain_error_def rt_build_web_response_error_def build_web_response_error_def finish_web_response_def ws_plain_error_def
      ws_normalized_def rt_build_config_response_error_def build_config_response_error_def finish_config_response_def
      cs_plain_error_def cs_plain_def read_protected_def Let_def split: if_splits sum.splits)

lemma gateway_served:
  assumes "AnsGateway p a \<in> set (snd (on_gateway_request x t p r n))" "gs_ok a"
  shows "admitted n p GatewayAccess \<and>
    is_ok (fst (rt_verify_gateway_request (ne_sec x) (t_now t) (local_id n) p r (nd_sec n))) \<and>
    gd_allowed (fst (gl_allow (ne_rnd x) (t_inst t) p 1 (ct_limiter (nd_ct n)))) \<and>
    (\<forall>auth. the_authority (nd_ct n) = Some auth \<longrightarrow>
       is_ok (validate_gateway_access (t_now t) p auth) \<and> is_ok (validate_gateway_route p auth))"
proof -
  define m where "m = snd (ct_call (enforce (t_secs t) p GatewayAccess) n)"
  obtain allowed status msg n' where v: "gateway_verdict x t p r m = ((allowed, status, msg), n')" by (metis prod.collapse)
  from assms have e: "fst (enforce (t_secs t) p GatewayAccess (controller_view n))" and al: allowed
    by (auto simp: on_gateway_request_def net_ops Let_def on_ct_def m_def[symmetric] v split: if_splits)
  note f = enforce_allowed_node[OF e, folded m_def]
  have ct: "nd_ct m = controller_view n" using enforce_true[OF e] by (simp add: m_def)
  have adm: "admitted n p GatewayAccess" using e admitted_enforce[of "t_secs t" p GatewayAccess n] by simp
  let ?m1 = "snd (sec_call (rt_verify_gateway_request (ne_sec x) (t_now t) (local_id m) p r) m)"
  have loc: "local_id m = local_id n" using f(3) by (simp add: ct controller_view_def)
  have "is_ok (fst (rt_verify_gateway_request (ne_sec x) (t_now t) (local_id n) p r (nd_sec n)))"
    "gd_allowed (fst (check_gateway_rate_limit (ne_rnd x) (t_inst t) p (controller_view ?m1)))"
    "fst (enforce_gateway_peer (t_secs t) p (controller_view (snd (ct_call (check_gateway_rate_limit (ne_rnd x) (t_inst t) p) ?m1))))"
    using v al f(1) loc by (auto simp: gateway_verdict_def Let_def split_def split: if_splits)
  moreover have "ct_limiter (controller_view ?m1) = ct_limiter (nd_ct n)" by (simp add: ct)
  moreover have "the_authority (controller_view (snd (ct_call (check_gateway_rate_limit (ne_rnd x) (t_inst t) p) ?m1))) = the_authority (nd_ct n)"
    by (simp add: ct check_gateway_rate_limit_def split_def the_authority_def controller_view_def)
  ultimately show ?thesis
    using adm by (auto simp: check_gateway_rate_limit_def split_def enforce_gateway_peer_def is_ok_def split: option.splits sum.splits if_splits)
qed

lemma web_served:
  assumes "AnsWeb p a \<in> set (snd (on_web_request x t p r n))" "ws_ok a"
  shows "admitted n p WebTraffic \<and> is_ok (fst (rt_verify_web_request (ne_sec x) (t_now t) (local_id n) p r (nd_sec n)))"
proof -
  have "fst (web_verdict x t p r n)"
    using assms by (auto simp: on_web_request_def net_ops Let_def split: if_splits)
  then show ?thesis
    using admitted_enforce[of "t_secs t" p WebTraffic "snd (sec_call (rt_verify_web_request (ne_sec x) (t_now t) (local_id n) p r) n)"]
    by (auto simp: web_verdict_def Let_def split_def admitted_def split: if_splits)
qed

lemma config_served:
  assumes "AnsConfig p a \<in> set (snd (on_config_request x t p r n))" "cs_ok a"
  shows "admitted n p Connect \<and> is_ok (fst (rt_verify_config_request (ne_sec x) (t_now t) (local_id n) p r (nd_sec n)))"
proof -
  have e: "fst (enforce (t_secs t) p Connect (controller_view n))"
    using assms by (auto simp: on_config_request_def net_ops Let_def split: if_splits)
  moreover have "is_ok (fst (rt_verify_config_request (ne_sec x) (t_now t) (local_id n) p r (nd_sec n)))"
    using assms e enforce_allowed_node(1)[OF e] by (auto simp: on_config_request_def net_ops Let_def split: if_splits)
  ultimately show ?thesis using admitted_enforce[of "t_secs t" p Connect n] by simp
qed

lemma storage_served:
  assumes "AnsStorage p a \<in> set (snd (on_storage_request x t p r n))" "a \<noteq> RespError ''access denied''"
  shows "admitted n p Connect"
proof -
  have "fst (enforce (t_secs t) p Connect (controller_view n))"
    using assms by (auto simp: on_storage_request_def net_ops split: if_splits)
  then show ?thesis using admitted_enforce[of "t_secs t" p Connect n] by simp
qed

section \<open>Activation\<close>

definition certified :: "WorldState \<Rightarrow> string set" where
  "certified w = {p. \<exists>e. map_of (peer_registry w) p = Some e \<and> activation_cert e \<noteq> None}"

definition flagged :: "WorldState \<Rightarrow> string set" where
  "flagged w = {p. map_of (activated_peers w) p = Some True}"

lemma activated_iff: "is_peer_activated w p \<longleftrightarrow> p \<in> certified w \<and> p \<in> flagged w"
  by (auto simp: is_peer_activated_def certified_def flagged_def split: option.split)

text \<open>What a step on the world state may do: no new certificate, and a flag once set stays.\<close>

definition no_cert :: "WorldState \<Rightarrow> WorldState \<Rightarrow> bool" where
  "no_cert w w' \<longleftrightarrow> certified w' \<subseteq> certified w \<and> flagged w \<subseteq> flagged w'"

lemma no_cert_refl: "no_cert w w" by (simp add: no_cert_def)

lemma no_cert_trans: "no_cert a b \<Longrightarrow> no_cert b c \<Longrightarrow> no_cert a c"
  by (auto simp: no_cert_def)

lemma no_cert_upsert: "no_cert w (upsert_peer_state ck p r c tr w)"
  by (auto simp: no_cert_def upsert_peer_state_def certified_def flagged_def bump_def sync_ghost_from_registry_def set_counts_def
      new_peer_state_def Let_def map_of_bt_put split: if_splits option.splits prod.splits)

lemma no_cert_sets: "no_cert w (set_peer_connected ck p c w)" "no_cert w (set_peer_role ck p r w)" "no_cert w (set_peer_trusted ck p tr w)"
  by (simp_all add: set_peer_connected_def set_peer_role_def set_peer_trusted_def Let_def no_cert_upsert)

lemma no_cert_routes: "no_cert w (add_route ck p v w)" "no_cert w (remove_route ck p v w)"
  by (auto simp: no_cert_def add_route_def remove_route_def certified_def flagged_def bump_def sync_ghost_from_registry_def
      set_counts_def Let_def map_of_bt_put split: if_splits option.splits prod.splits)

lemma no_cert_mark: "no_cert w (fst (mark_peer_activated cd p (w, f)))" "flagged (fst (mark_peer_activated cd p (w, f))) = insert p (flagged w)"
  "certified (fst (mark_peer_activated cd p (w, f))) = certified w"
  by (auto simp: no_cert_def mark_peer_activated_def certified_def flagged_def Let_def map_of_hm_put)

lemma no_cert_pubkey: "no_cert w (register_peer_pubkey p k w)"
  by (simp add: no_cert_def register_peer_pubkey_def certified_def flagged_def)

definition world_kept :: "'pk Node \<Rightarrow> NetOut list \<Rightarrow> 'pk Node \<Rightarrow> bool" where
  "world_kept n outs n' \<longleftrightarrow> rel_option no_cert (nd_world n) (nd_world n')"

interpretation wk: op_spec "world_kept :: 'pk Node \<Rightarrow> NetOut list \<Rightarrow> 'pk Node \<Rightarrow> bool"
proof
  show "world_kept n [] n" for n :: "'pk Node"
    by (simp add: world_kept_def option.rel_refl no_cert_refl)
  show "world_kept n o1 n1 \<Longrightarrow> world_kept n1 o2 n2 \<Longrightarrow> world_kept n (o1 @ o2) n2" for n n1 n2 :: "'pk Node" and o1 o2
    unfolding world_kept_def using option.rel_transp[unfolded transp_def, of no_cert] no_cert_trans by blast
qed

lemma kept_same: "nd_world n' = nd_world n \<Longrightarrow> world_kept n outs n'"
  by (simp add: world_kept_def option.rel_refl no_cert_refl)

lemma kept_upd: "(\<And>n. nd_world (f n) = nd_world n) \<Longrightarrow> op_sat world_kept (op_upd f)"
  by (simp add: op_sat_def op_upd_def kept_same)

lemma kept_world: "(\<And>w. no_cert w (f w)) \<Longrightarrow> op_sat world_kept (on_world f)"
  by (simp add: op_sat_def on_world_def op_upd_def world_kept_def option.rel_map option.rel_refl)

lemma kept_world_file: "(\<And>w a. no_cert w (fst (f (w, a)))) \<Longrightarrow> op_sat world_kept (on_world_file f)"
  by (auto simp: op_sat_def on_world_file_def op_upd_def world_kept_def split_def Let_def no_cert_refl split: option.split)

lemma kept_simple [simp]: "op_sat world_kept (on_ct f)" "op_sat world_kept (on_crdt g)" "op_sat world_kept panics" "op_sat world_kept (op_emit h)"
  by (simp_all add: on_ct_def on_crdt_def panics_def kept_upd op_sat_def op_emit_def op_upd_def kept_same)

lemma kept_send: "op_sat world_kept (send_direct_message x t p b)" "op_sat world_kept (send_typed_message x t p k c)"
proof -
  show s: "op_sat world_kept (send_direct_message x t p b)" for b
    by (auto simp: op_sat_def send_direct_message_def kept_same split: option.split sum.split)
  show "op_sat world_kept (send_typed_message x t p k c)"
    unfolding send_typed_message_def by (intro wk.sat_with) (simp add: s wk.sat_skip split: option.split)
qed

lemma kept_call_ct: "(\<And>a. op_sat world_kept (g a)) \<Longrightarrow> op_sat world_kept (op_call (ct_call f) g)"
  and kept_call_sec: "(\<And>a. op_sat world_kept (g a)) \<Longrightarrow> op_sat world_kept (op_call (sec_call h) g)"
  and kept_call_gov: "(\<And>a. op_sat world_kept (g a)) \<Longrightarrow> op_sat world_kept (op_call (gov_call k) g)"
  by (auto intro!: wk.sat_call kept_same simp: gov_call_def split_def Let_def)

lemmas kept_intros = wk.sat_seq wk.sat_when' wk.sat_with wk.sat_all wk.sat_skip kept_call_ct kept_call_sec kept_call_gov
  kept_upd kept_world kept_send

lemma kept_sync: "op_sat world_kept (sync_with_world t)"
  unfolding sync_with_world_def by (auto intro!: kept_intros simp: Let_def)

lemma kept_connections: "op_sat world_kept (on_connected x t p)" "op_sat world_kept (on_closed t p)"
proof -
  have "no_cert w (remove_route (t_ck t) p p (set_peer_trusted (t_ck t) p False (set_peer_connected (t_ck t) p False w)))" for w
    using no_cert_trans no_cert_routes no_cert_sets by metis
  then show "op_sat world_kept (on_closed t p)"
    unfolding on_closed_def by (auto intro!: kept_intros kept_sync split: option.split)
  show "op_sat world_kept (on_connected x t p)"
    unfolding on_connected_def Let_def
    by (auto intro!: kept_intros kept_sync no_cert_upsert no_cert_sets no_cert_routes split: option.split)
qed

lemma kept_identify: "op_sat world_kept (on_identify x t p pk addrs)"
proof -
  have "op_sat world_kept (register_peer_addr x p a)" for a
    by (auto simp: op_sat_def register_peer_addr_def kept_same Let_def)
  then have "op_sat world_kept (learn_addr x p a)" for a
    unfolding learn_addr_def by (auto intro!: kept_intros)
  moreover have "op_sat world_kept (send_config_sync x t p)"
    unfolding send_config_sync_def by (auto intro!: kept_intros split: option.split sum.split)
  ultimately show ?thesis
    unfolding on_identify_def by (auto intro!: kept_intros no_cert_upsert split: option.split)
qed

lemma kept_vote_free:
  "op_sat world_kept (activation_notify x t b)" "op_sat world_kept (governance_announce x t b)"
  "op_sat world_kept (crdt_sync x t ans b)" "op_sat world_kept (pqc_handshake x p ans b)"
  "op_sat world_kept (compute_message x t p ans b)" "op_sat world_kept (plain_request x t p r b)"
  "op_sat world_kept (relay_request x t p rel)"
proof -
  have "no_cert w (fst (let (w, file) = mark_peer_activated cd tgt (w, a) in (set_peer_role (t_ck t) tgt ''client'' w, file)))" for w cd tgt a
    using no_cert_trans[OF no_cert_mark(1) no_cert_sets(2)] by (simp add: split_def Let_def)
  then show "op_sat world_kept (activation_notify x t b)"
    unfolding activation_notify_def by (auto intro!: kept_world_file wk.sat_skip split: option.split)
  show "op_sat world_kept (governance_announce x t b)"
    unfolding governance_announce_def by (auto intro!: kept_intros simp: gov_call_def split_def Let_def split: option.split)
  show "op_sat world_kept (crdt_sync x t ans b)"
    unfolding crdt_sync_def Let_def by (auto intro!: kept_intros split: option.split)
  show "op_sat world_kept (pqc_handshake x p ans b)"
    unfolding pqc_handshake_def by (auto intro!: kept_intros split: option.split sum.split)
  show "op_sat world_kept (compute_message x t p ans b)"
    unfolding compute_message_def Let_def split_def by (auto intro!: kept_intros split: option.split ComputeMessage.split)
  show "op_sat world_kept (plain_request x t p r b)"
    unfolding plain_request_def Let_def by (auto intro!: kept_intros split: option.split)
  show "op_sat world_kept (relay_request x t p rel)"
    unfolding relay_request_def split_def by (auto intro!: kept_intros split: RelayOutcome.split)
qed

lemma kept_direct: "rq_kind r \<noteq> ''governance.vote'' \<Longrightarrow> op_sat world_kept (handle_direct_request x t p r b)"
  unfolding handle_direct_request_def Let_def by (auto intro!: kept_intros kept_vote_free)

lemma kept_requests:
  "op_sat world_kept (on_gateway_request x t p gr)" "op_sat world_kept (on_web_request x t p wr)"
  "op_sat world_kept (on_config_request x t p cr)" "op_sat world_kept (on_storage_request x t p sr)"
  "rq_kind r \<noteq> ''governance.vote'' \<Longrightarrow> op_sat world_kept (on_direct_request x t p r)"
proof -
  have "nd_world (snd (gateway_verdict x t p gr n)) = nd_world n" "nd_world (snd (web_verdict x t p wr n)) = nd_world n" for n
    by (simp_all add: gateway_verdict_def web_verdict_def split_def Let_def)
  then show "op_sat world_kept (on_gateway_request x t p gr)" "op_sat world_kept (on_web_request x t p wr)"
    unfolding on_gateway_request_def on_web_request_def Let_def split_def
    by (auto intro!: kept_intros wk.sat_call kept_same)
  show "op_sat world_kept (on_config_request x t p cr)"
    unfolding on_config_request_def Let_def by (auto intro!: kept_intros)
  show "op_sat world_kept (on_storage_request x t p sr)"
    unfolding on_storage_request_def by (auto intro!: kept_intros split: option.split)
  show "rq_kind r \<noteq> ''governance.vote'' \<Longrightarrow> op_sat world_kept (on_direct_request x t p r)"
    unfolding on_direct_request_def Let_def by (auto intro!: kept_intros kept_direct kept_vote_free split: option.split EssRequest.split)
qed

lemma kept_rest:
  "op_sat world_kept (on_kademlia x t k)" "op_sat world_kept (on_onboard_response rid resp)" "op_sat world_kept (notify_task x t p c d)"
  "op_sat world_kept (on_config_response x t p cr)"
proof -
  have "op_sat world_kept (complete_kad_get_query q res)" for q res
    unfolding complete_kad_get_query_def by (auto intro!: kept_intros)
  then show "op_sat world_kept (on_kademlia x t k)"
    unfolding on_kademlia_def by (auto intro!: kept_intros split: KadEvent.split option.split)
  show "op_sat world_kept (on_onboard_response rid resp)"
    unfolding on_onboard_response_def by (auto intro!: kept_intros)
  show "op_sat world_kept (notify_task x t p c d)"
    unfolding notify_task_def by (auto intro!: kept_intros)
  show "op_sat world_kept (on_config_response x t p cr)"
    unfolding on_config_response_def by (auto intro!: kept_intros split: sum.split)
qed

fun may_activate :: "'pk NetEvent \<Rightarrow> bool" where
  "may_activate (DirectReq p r) = (rq_kind r = ''governance.vote'')"
| "may_activate (OnboardReq p r) = True"
| "may_activate _ = False"

lemma kept_event: "\<not> may_activate ev \<Longrightarrow> op_sat world_kept (handle_event x t ev)"
  by (cases ev) (auto intro!: kept_connections kept_identify kept_requests kept_rest kept_upd wk.sat_skip
      simp: on_gateway_response_def on_web_response_def on_direct_response_def)

text \<open>The two handlers that can certify do so only after an approval, and then mark the proposal as executed.\<close>

definition approval :: "('pk, 'ed) NetEnv \<Rightarrow> NetNow \<Rightarrow> string \<Rightarrow> 'pk Node \<Rightarrow> bool" where
  "approval x t p n' \<longleftrightarrow> (\<exists>pid g prop. map_of (proposals (fst g)) pid = Some prop \<and> target prop = p \<and>
     check_quorum (ne_rnd x) (t_secs t) (fst g) pid 600 = Some True \<and> nd_gov n' = mark_executed (ne_gov x) (t_secs t) pid g)"

definition activation_step :: "('pk, 'ed) NetEnv \<Rightarrow> NetNow \<Rightarrow> WorldState \<Rightarrow> 'pk Node \<Rightarrow> bool" where
  "activation_step x t w n' \<longleftrightarrow> (\<exists>w'. nd_world n' = Some w' \<and> flagged w \<subseteq> flagged w' \<and>
     (\<forall>p. p \<in> certified w' - certified w \<longrightarrow> p \<in> flagged w' \<and> approval x t p n'))"

lemma activate_world:
  assumes "nd_world n = Some w"
  shows "\<exists>w'. nd_world (fst (activate x cert n)) = Some w' \<and> certified w' \<subseteq> insert (ac_target cert) (certified w) \<and>
    flagged w' = insert (ac_target cert) (flagged w) \<and> nd_gov (fst (activate x cert n)) = nd_gov n"
proof -
  have "certified (set_activation_cert q c v) \<subseteq> insert q (certified v)" "flagged (set_activation_cert q c v) = flagged v" for q c v
    by (auto simp: set_activation_cert_def flagged_def certified_def map_of_bt_put split: option.split if_splits)
  then show ?thesis
    using assms no_cert_mark(2,3)[of "ne_acd x" "ac_target cert" w "nd_activation n"]
    by (simp add: activate_def on_world_file_def op_upd_def split_def Let_def) blast
qed

lemma activation_step_same: "nd_world n' = Some w' \<Longrightarrow> no_cert w w' \<Longrightarrow> activation_step x t w n'"
  by (auto simp: activation_step_def no_cert_def)

lemma target_mark_executed:
  "map_of (proposals (fst (mark_executed env now pid g))) pid = map_option (\<lambda>p. p\<lparr> executed := True \<rparr>) (map_of (proposals (fst g)) pid)"
  by (auto simp: mark_executed_def split_def Let_def map_of_hm_put split: option.split)

lemma vote_activation:
  assumes "nd_world n = Some w"
  shows "activation_step x t w (fst (governance_vote x t p b n))"
proof -
  have same: "activation_step x t w m" if "nd_world m = Some w" for m :: "'a Node"
    using that by (rule activation_step_same) (rule no_cert_refl)
  show ?thesis
  proof (cases "ne_vote_de x b")
    case (Some vote)
    let ?pid = "vm_proposal_id vote"
    define g where "g = snd (record_vote (ne_gov x) (t_secs t) ?pid (vm_voter vote) (vm_approve vote) (nd_gov n))"
    define m where "m = n\<lparr> nd_gov := mark_executed (ne_gov x) (t_secs t) ?pid g \<rparr>"
    have w: "nd_world m = Some w" "nd_gov m = mark_executed (ne_gov x) (t_secs t) ?pid g" using assms by (simp_all add: m_def)
    show ?thesis
    proof (cases "check_quorum (ne_rnd x) (t_secs t) (fst g) ?pid 600 = Some True")
      case True
      then obtain pr where pr: "map_of (proposals (fst g)) ?pid = Some pr" by (auto simp: check_quorum_def split: option.splits)
      then have pr': "map_of (proposals (fst (nd_gov m))) ?pid = Some (pr\<lparr> executed := True \<rparr>)"
        by (simp add: w target_mark_executed)
      let ?cert = "certificate ?pid (target pr) (Some (pr\<lparr> executed := True \<rparr>))"
      obtain w' where w': "nd_world (fst (activate x ?cert m)) = Some w'" "certified w' \<subseteq> insert (target pr) (certified w)"
        "flagged w' = insert (target pr) (flagged w)" "nd_gov (fst (activate x ?cert m)) = mark_executed (ne_gov x) (t_secs t) ?pid g"
        using activate_world[OF w(1), of x ?cert] w(2) by (auto simp: certificate_def)
      then have "approval x t (target pr) (fst (activate x ?cert m))" unfolding approval_def using pr True by blast
      then have act: "activation_step x t w (fst (activate x ?cert m))" unfolding activation_step_def using w' by blast
      then show ?thesis
        using True pr pr' assms
        by (auto simp: governance_vote_def Some net_ops split_def Let_def gov_call_def g_def[symmetric] m_def[symmetric] w
            intro!: same split: option.splits)
    next
      case False
      then show ?thesis
        using assms by (auto simp: governance_vote_def Some net_ops split_def Let_def gov_call_def g_def[symmetric]
            intro!: same split: option.splits)
    qed
  qed (use assms in \<open>simp add: governance_vote_def op_skip_def same\<close>)
qed

text \<open>Sending a message changes neither the world nor the governance engine.\<close>

definition sends_only :: "'pk Node \<Rightarrow> NetOut list \<Rightarrow> 'pk Node \<Rightarrow> bool" where
  "sends_only n outs n' \<longleftrightarrow> nd_world n' = nd_world n \<and> nd_gov n' = nd_gov n \<and> nd_alive n' = nd_alive n"

interpretation so: op_spec "sends_only :: 'pk Node \<Rightarrow> NetOut list \<Rightarrow> 'pk Node \<Rightarrow> bool"
  by unfold_locales (simp_all add: sends_only_def)

lemma sends_supernodes: "op_sat sends_only (to_supernodes x t k b)"
proof -
  have "op_sat sends_only (send_direct_message x t p c)" for p c
    by (auto simp: op_sat_def sends_only_def send_direct_message_def split: option.split sum.split)
  then show ?thesis
    unfolding to_supernodes_def by (auto intro!: so.sat_with so.sat_all so.sat_skip split: option.split)
qed

lemma sends_onlyD: "op_sat sends_only f \<Longrightarrow> nd_world (fst (f n)) = nd_world n \<and> nd_gov (fst (f n)) = nd_gov n \<and> nd_alive (fst (f n)) = nd_alive n"
  by (simp add: op_sat_def sends_only_def)

lemma settle_activation:
  assumes "nd_world n = Some w" and "map_of (proposals (fst (nd_gov n))) pid = Some pr" and "target pr = p"
  shows "activation_step x t w (fst (settle_proposal x t p pid n))"
proof -
  have same: "activation_step x t w m" if "nd_world m = Some w" for m :: "'a Node"
    using that by (rule activation_step_same) (rule no_cert_refl)
  show ?thesis
  proof (cases "check_quorum (ne_rnd x) (t_secs t) (fst (nd_gov n)) pid 600 = Some True")
    case True
    let ?cert = "certificate pid p (Some pr)"
    let ?m = "fst (activate x ?cert n)"
    let ?n' = "?m\<lparr> nd_gov := mark_executed (ne_gov x) (t_secs t) pid (nd_gov ?m) \<rparr>"
    obtain w' where w': "nd_world ?m = Some w'" "certified w' \<subseteq> insert p (certified w)" "flagged w' = insert p (flagged w)"
      "nd_gov ?m = nd_gov n"
      using activate_world[OF assms(1), of x ?cert] by (auto simp: certificate_def)
    then have "approval x t p ?n'" unfolding approval_def using assms True by (intro exI[of _ pid] exI[of _ "nd_gov n"] exI[of _ pr]) simp
    then have "activation_step x t w ?n'" unfolding activation_step_def using w' by auto
    then show ?thesis by (simp add: settle_proposal_def net_ops True split_def Let_def assms)
  next
    case False
    then show ?thesis using assms by (auto simp: settle_proposal_def net_ops intro!: same split: option.splits)
  qed
qed

lemma created_target:
  "\<exists>pr. map_of (proposals (fst (snd (create_proposal env now u ty tgt g)))) (fst (create_proposal env now u ty tgt g)) = Some pr \<and> target pr = tgt"
  by (auto simp: create_proposal_def split_def Let_def map_of_hm_put)

lemma voted_target:
  "map_of (proposals (fst g)) pid = Some pr \<Longrightarrow>
   \<exists>pr'. map_of (proposals (fst (snd (record_vote env now q v a g)))) pid = Some pr' \<and> target pr' = target pr"
  by (auto simp: record_vote_def split_def Let_def map_of_hm_put split: option.split)

lemma propose_activation_step:
  assumes "nd_world n = Some w"
  shows "activation_step x t w (fst (propose_activation x t p n))"
proof -
  define c where "c = create_proposal (ne_gov x) (t_secs t) (t_uuid t) (ActivatePeer p) p (nd_gov n)"
  define n1 where "n1 = n\<lparr> nd_gov := snd c \<rparr>"
  define a where "a = \<lparr> an_proposal_id = fst c, an_proposer = local_id n1, an_proposal_type = ActivatePeer p, an_target = p,
    an_supernode_count = card (GovernanceEngine.supernodes (fst (nd_gov n1))), an_timestamp = t_secs t \<rparr>"
  define n2 where "n2 = fst (to_supernodes x t ''governance.announce'' (ne_announce_ser x a) n1)"
  define v where "v = \<lparr> vm_proposal_id = fst c, vm_voter = local_id n1, vm_approve = True, vm_nonce = t_nonce t,
    vm_timestamp = t_secs t, vm_signature = [] \<rparr>"
  define n3 where "n3 = n2\<lparr> nd_gov := snd (record_vote (ne_gov x) (t_secs t) (fst c) (local_id n1) True (nd_gov n2)) \<rparr>"
  have n2: "nd_world n2 = Some w" "nd_gov n2 = snd c"
    using sends_onlyD[OF sends_supernodes, of x t "''governance.announce''" "ne_announce_ser x a" n1] assms
    by (simp_all add: n2_def n1_def)
  obtain pr where "map_of (proposals (fst (nd_gov n3))) (fst c) = Some pr" "target pr = p"
    using created_target[of "ne_gov x" "t_secs t" "t_uuid t" "ActivatePeer p" p "nd_gov n"]
      voted_target[of "snd c" "fst c" _ "ne_gov x" "t_secs t" "fst c" "local_id n1" True]
    by (auto simp: n3_def n2 c_def)
  then have settle: "activation_step x t w (fst (settle_proposal x t p (fst c) (fst (to_supernodes x t ''governance.vote'' b n3))))" for b
    using sends_onlyD[OF sends_supernodes, of x t "''governance.vote''" b n3] n2
    by (intro settle_activation) (simp_all add: n3_def)
  have crash: "activation_step x t w (n2\<lparr> nd_alive := False \<rparr>)"
    using n2 by (intro activation_step_same[OF _ no_cert_refl]) simp
  show ?thesis
    using settle crash
    by (auto simp: propose_activation_def op_call_eq gov_call_def split_def Let_def c_def[symmetric] n1_def[symmetric] op_with_def seq_outs
        a_def[symmetric] n2_def[symmetric] v_def[symmetric] n3_def[symmetric] op_upd_def panics_def split: option.split sum.split)
qed

lemma activation_step_trans: "no_cert w w1 \<Longrightarrow> activation_step x t w1 n' \<Longrightarrow> activation_step x t w n'"
  unfolding activation_step_def no_cert_def by blast

lemma identified_world:
  assumes "nd_world n = Some w"
  shows "\<exists>w1. nd_world (learn_x25519 x p r (snd (handle_peer_identified x t p r n))) = Some w1 \<and> no_cert w w1"
proof -
  have "\<exists>w1. nd_world (snd (handle_peer_identified x t p r n)) = Some w1 \<and> no_cert w w1"
    using assms no_cert_mark(1)[of w "ne_acd x" p] no_cert_refl[of w]
    by (auto simp: handle_peer_identified_def on_world_file_def op_upd_def split_def Let_def split: option.split)
  moreover have "\<exists>w2. nd_world (learn_x25519 x p r m) = Some w2 \<and> no_cert w1 w2" if "nd_world m = Some w1" for m :: "'a Node" and w1
    using that no_cert_pubkey no_cert_refl by (auto simp: learn_x25519_def split: option.split)
  ultimately show ?thesis using no_cert_trans by metis
qed

lemma onboard_activation:
  assumes "nd_world n = Some w"
  shows "activation_step x t w (fst (on_onboard_request x t p r n))"
proof -
  define m where "m = learn_x25519 x p r (snd (handle_peer_identified x t p r n))"
  obtain w1 where m: "nd_world m = Some w1" and k: "no_cert w w1" using identified_world[OF assms, of x p r t] by (auto simp: m_def)
  have "activation_step x t w1 (fst (propose_activation x t p m))" "activation_step x t w1 m"
    using propose_activation_step[OF m] activation_step_same[OF m no_cert_refl] by blast+
  then have "activation_step x t w (fst (propose_activation x t p m))" "activation_step x t w m"
    using activation_step_trans[OF k] by blast+
  then show ?thesis
    using assms by (simp add: on_onboard_request_def op_with_def op_call_eq seq_outs op_upd_def m_def[symmetric] op_when_def op_emit_def op_skip_def)
qed

lemma kept_activation:
  assumes "op_sat world_kept f" and "nd_world n = Some w"
  shows "activation_step x t w (fst (f n))"
proof -
  have "world_kept n (snd (f n)) (fst (f n))" using assms(1) by (simp add: op_sat_def)
  then obtain w' where "nd_world (fst (f n)) = Some w'" "no_cert w w'" using assms(2) by (auto simp: world_kept_def option_rel_Some1)
  then show ?thesis by (rule activation_step_same)
qed

lemma direct_activation:
  assumes "nd_world n = Some w"
  shows "activation_step x t w (fst (on_direct_request x t p r n))"
proof -
  have same: "activation_step x t w m" if "nd_world m = Some w" for m :: "'a Node"
    using that by (rule activation_step_same) (rule no_cert_refl)
  have dir: "activation_step x t w (fst (handle_direct_request x t p r b m))" if m: "nd_world m = Some w" for b and m :: "'a Node"
  proof (cases "rq_kind r = ''governance.vote''")
    case True
    then show ?thesis using vote_activation[OF m, of x t p b] by (simp add: handle_direct_request_def op_with_def Let_def seq_outs op_emit_def)
  next
    case False
    then show ?thesis using kept_activation[OF kept_direct m] by blast
  qed
  have relay: "activation_step x t w (fst (relay_request x t p rel n))" for rel
    by (rule kept_activation[OF kept_vote_free(7) assms])
  show ?thesis
    using dir[of n] dir[of "snd (ct_call (enforce (t_secs t) p Connect) n)"] relay assms
    by (auto simp: on_direct_request_def net_ops Let_def intro!: same split: option.split EssRequest.split)
qed

lemma upsert_role:
  "\<exists>e. map_of (peer_registry (upsert_peer_state ck p (Some r) c tr w)) p = Some e \<and> ps_role e = Some r"
  by (auto simp: upsert_peer_state_def bump_def sync_ghost_from_registry_def set_counts_def Let_def map_of_bt_put split: option.split prod.split)

section \<open>Plain requests\<close>

text \<open>What a plain direct request leaves alone.\<close>

definition services_kept :: "'pk Node \<Rightarrow> NetOut list \<Rightarrow> 'pk Node \<Rightarrow> bool" where
  "services_kept n outs n' \<longleftrightarrow> nd_crdt n' = nd_crdt n \<and> nd_gov n' = nd_gov n \<and> nd_world n' = nd_world n \<and>
     nd_compute n' = nd_compute n \<and> nd_storage n' = nd_storage n"

interpretation sk: op_spec "services_kept :: 'pk Node \<Rightarrow> NetOut list \<Rightarrow> 'pk Node \<Rightarrow> bool"
  by unfold_locales (simp_all add: services_kept_def)

lemma sk_call:
  "(\<And>a. op_sat services_kept (g a)) \<Longrightarrow> op_sat services_kept (op_call (ct_call f) g)"
  "(\<And>a. op_sat services_kept (g a)) \<Longrightarrow> op_sat services_kept (op_call (sec_call h) g)"
  by (auto intro!: sk.sat_call simp: services_kept_def ct_call_def sec_call_def split_def Let_def)

lemma sk_emit: "op_sat services_kept (op_emit f)" "op_sat services_kept panics"
  "op_sat services_kept (op_upd (\<lambda>n. n\<lparr> nd_next_rid := f' n \<rparr>))"
  by (simp_all add: op_sat_def op_emit_def panics_def op_upd_def services_kept_def)

lemmas sk_intros = sk.sat_with sk.sat_seq sk.sat_skip sk_call sk_emit

lemma plain_kept: "op_sat services_kept (plain_request x t p r b)"
  unfolding plain_request_def Let_def by (auto intro!: sk_intros split: option.split)

lemma relay_kept: "op_sat services_kept (relay_request x t p rel)"
  unfolding relay_request_def split_def by (auto intro!: sk_intros split: RelayOutcome.split)

lemma message_kept:
  assumes "rq_kind r = ''message''"
  shows "op_sat services_kept (on_direct_request x t p r)"
proof -
  have "handle_direct_request x t p r b = plain_request x t p r b" for b
    using assms by (simp add: handle_direct_request_def op_with_def Let_def fun_eq_iff)
  then show ?thesis
    unfolding on_direct_request_def Let_def by (auto intro!: sk_intros plain_kept relay_kept split: option.split EssRequest.split)
qed

lemma built_kind: "build_direct_request_bytes se ts ns nc f t b sec = Inr r \<Longrightarrow> rq_kind r = ''message''"
  by (auto simp: build_direct_request_bytes_def read_protected_def build_request_bytes_def rq_plain_bytes_def rq_normalized_def
      Let_def str_trim_def is_ws_def split: if_splits sum.splits)

lemma sent_kind: "Request q r \<in> set (snd (send_direct_message x t p b n)) \<Longrightarrow> rq_kind r = ''message''"
  by (auto simp: send_direct_message_def dest: built_kind split: option.splits sum.splits)

lemma wrapped_step:
  assumes "nd_alive n" and "ne_ess_de x (rq_body r) = Some (EssDirect d)"
  shows "net_step x t (DirectReq p r) n = handle_direct_request x t p r (rq_body d) n"
  using assms by (simp add: net_step_def op_when_def on_direct_request_def)

definition ct_kept :: "'pk Node \<Rightarrow> NetOut list \<Rightarrow> 'pk Node \<Rightarrow> bool" where
  "ct_kept n outs n' \<longleftrightarrow> nd_ct n' = nd_ct n"

interpretation ctk: op_spec "ct_kept :: 'pk Node \<Rightarrow> NetOut list \<Rightarrow> 'pk Node \<Rightarrow> bool"
  by unfold_locales (simp_all add: ct_kept_def)

lemma ck_upd: "(\<And>n. nd_ct (f n) = nd_ct n) \<Longrightarrow> op_sat ct_kept (op_upd f)"
  by (simp add: op_sat_def op_upd_def ct_kept_def)

lemma ck_call: "(\<And>a. op_sat ct_kept (g a)) \<Longrightarrow> op_sat ct_kept (op_call (sec_call h) g)"
  "(\<And>a. op_sat ct_kept (g a)) \<Longrightarrow> op_sat ct_kept (op_call (gov_call k) g)"
  by (auto intro!: ctk.sat_call simp: ct_kept_def gov_call_def split_def Let_def)

lemma ck_others: "op_sat ct_kept (op_emit e)" "op_sat ct_kept (on_world_file f)"
  by (simp_all add: op_sat_def op_emit_def on_world_file_def op_upd_def ct_kept_def split_def Let_def split: option.split)

lemmas ctk_intros = ctk.sat_with ctk.sat_seq ctk.sat_skip ctk.sat_when' ck_upd ck_call ck_others

lemma direct_parts_ct_kept:
  "op_sat ct_kept (governance_vote x t p b)" "op_sat ct_kept (activation_notify x t b)" "op_sat ct_kept (governance_announce x t b)"
  "op_sat ct_kept (crdt_sync x t ans b)" "op_sat ct_kept (pqc_handshake x p ans b)" "op_sat ct_kept (compute_message x t p ans b)"
  "op_sat ct_kept (plain_request x t p r b)"
proof -
  show "op_sat ct_kept (governance_vote x t p b)"
    unfolding governance_vote_def activate_def Let_def by (auto intro!: ctk_intros split: option.split)
  show "op_sat ct_kept (activation_notify x t b)"
    unfolding activation_notify_def by (auto intro!: ctk_intros split: option.split)
  show "op_sat ct_kept (governance_announce x t b)"
    unfolding governance_announce_def gov_call_def by (auto intro!: ctk_intros simp: split_def Let_def split: option.split)
  show "op_sat ct_kept (crdt_sync x t ans b)"
    unfolding crdt_sync_def Let_def by (auto intro!: ctk_intros split: option.split)
  show "op_sat ct_kept (pqc_handshake x p ans b)"
    unfolding pqc_handshake_def by (auto intro!: ctk_intros split: option.split sum.split)
  show "op_sat ct_kept (compute_message x t p ans b)"
    unfolding compute_message_def Let_def split_def by (auto intro!: ctk_intros split: option.split ComputeMessage.split)
  show "op_sat ct_kept (plain_request x t p r b)"
    unfolding plain_request_def Let_def by (auto intro!: ctk_intros split: option.split)
qed

lemma direct_ct_kept: "op_sat ct_kept (handle_direct_request x t p r b)"
  unfolding handle_direct_request_def Let_def by (auto intro!: ctk_intros direct_parts_ct_kept)

lemma dead_run: "\<not> nd_alive n \<Longrightarrow> net_run x evs n = (n, [])"
  by (induction x evs arbitrary: n rule: net_run.induct) (auto simp: op_skip_def op_seq_def net_step_def op_when_def)

lemma make_id_uuid: "make_id ty tgt u = make_id ty tgt u' \<longleftrightarrow> u = u'"
  by (simp add: make_id_def)

lemma unsigned_plain [simp]: "rs_signature (rs_plain_ok_bytes ts ns mid f t b) = []" "rs_signature (rs_plain_ok ts ns mid f t c) = []"
  "rs_signature (rs_plain_error ts ns mid f t c) = []"
  by (simp_all add: rs_plain_ok_bytes_def rs_plain_ok_def rs_plain_error_def rs_normalized_def str_trim_def)

definition typed_kinds :: "string set" where
  "typed_kinds = {''crdt_sync'', ''governance.vote'', ''governance.activation_notify'', ''governance.announce'', ''pqc_handshake'', ''compute''}"

definition unsigned_answers :: "'pk Node \<Rightarrow> NetOut list \<Rightarrow> 'pk Node \<Rightarrow> bool" where
  "unsigned_answers n outs n' \<longleftrightarrow> (\<forall>q a. AnsDirect q a \<in> set outs \<longrightarrow> rs_signature a = [])"

interpretation ua: op_spec "unsigned_answers :: 'pk Node \<Rightarrow> NetOut list \<Rightarrow> 'pk Node \<Rightarrow> bool"
  by unfold_locales (auto simp: unsigned_answers_def)

lemma ua_silent: "op_sat silent f \<Longrightarrow> op_sat unsigned_answers f"
proof -
  have "AnsDirect q a \<notin> set outs" if "answers outs = []" for outs q a
    using that by (induction outs) (auto split: option.splits)
  then show "op_sat silent f \<Longrightarrow> op_sat unsigned_answers f" by (auto simp: op_sat_def silent_def unsigned_answers_def)
qed

lemma typed_unsigned:
  assumes "rq_kind r \<in> typed_kinds"
  shows "op_sat unsigned_answers (handle_direct_request x t p r b)"
proof -
  have upd: "op_sat unsigned_answers (op_upd f)" for f :: "'a Node \<Rightarrow> 'a Node"
    by (simp add: op_sat_def op_upd_def unsigned_answers_def)
  let ?ok = "\<lambda>ans. \<forall>res q a. AnsDirect q a \<in> set (ans res) \<longrightarrow> rs_signature a = []"
  have c: "op_sat unsigned_answers (crdt_sync x t ans b)" if "?ok ans" for ans
    unfolding crdt_sync_def Let_def using that
    by (auto intro!: ua.sat_with ua.sat_seq ua.sat_skip ua.sat_emit upd simp: unsigned_answers_def split: option.split)
  have q: "op_sat unsigned_answers (pqc_handshake x p ans b)" if "?ok ans" for ans
    unfolding pqc_handshake_def using that
    by (auto intro!: ua.sat_skip ua.sat_emit simp: unsigned_answers_def split: option.split sum.split)
  have m: "op_sat unsigned_answers (compute_message x t p ans b)" if "?ok ans" for ans
    unfolding compute_message_def Let_def split_def using that
    by (auto intro!: ua.sat_with ua.sat_seq ua.sat_emit upd simp: unsigned_answers_def split: option.split ComputeMessage.split)
  show ?thesis
    using assms unfolding handle_direct_request_def Let_def typed_kinds_def
    by (auto intro!: ua.sat_with ua.sat_seq ua.sat_emit c q m ua_silent[OF silent_vote] ua_silent[OF silent_notify(1)] ua_silent[OF silent_notify(2)]
        simp: unsigned_answers_def split: sum.splits)
qed

lemma unsigned_refused:
  assumes "the_security c = Some sec" and "\<forall>pk m s. b64_decode env [] = Some s \<longrightarrow> \<not> sec_verify env pk m s"
    and "rid \<in> set (ct_pending_direct c)" and "rs_signature a = []"
  shows "\<exists>e. ct_replies (complete_pending_direct_request env rnd parse now rid a c) = ct_replies c @ [(rid, Inl e)]"
proof (cases "parse (rs_from a)")
  case (Some q)
  obtain res sec' where v: "verify_direct_response_bytes env now (ct_local c) q a sec = (res, sec')" by (metis prod.collapse)
  moreover have "\<exists>e. res = Inl e"
    using v assms(2,4)
    by (auto simp: verify_direct_response_bytes_def write_protected_def returning_def verify_response_bytes_def after_common_def
        check_addressed_def map_ok_def split: if_splits prod.splits sum.splits option.splits)
  ultimately show ?thesis using assms(1,3) Some by (auto simp: complete_pending_direct_request_def reply_def)
qed (use assms in \<open>auto simp: complete_pending_direct_request_def reply_def\<close>)

section \<open>Reachable nodes\<close>

text \<open>The nodes the runner can bring about, one event after the other.\<close>

inductive reachable_node :: "('pk, 'ed) NetEnv \<Rightarrow> 'pk Node \<Rightarrow> bool" for x :: "('pk, 'ed) NetEnv" where
  boot: "reachable_node x (run_with_dashboard_and_authority x t peer auth w afile sec crdt kad sk)"
| step: "reachable_node x n \<Longrightarrow> reachable_node x (fst (net_step x t ev n))"

definition unserved :: "'pk Node \<Rightarrow> NetOut list \<Rightarrow> 'pk Node \<Rightarrow> bool" where
  "unserved n outs n' \<longleftrightarrow> (nd_compute n = None \<longrightarrow> nd_compute n' = None) \<and> (nd_storage n = None \<longrightarrow> nd_storage n' = None)"

interpretation un: op_spec "unserved :: 'pk Node \<Rightarrow> NetOut list \<Rightarrow> 'pk Node \<Rightarrow> bool"
  by unfold_locales (simp_all add: unserved_def)

lemma un_upd: "(\<And>n. nd_compute n = None \<Longrightarrow> nd_compute (f n) = None) \<Longrightarrow> (\<And>n. nd_storage n = None \<Longrightarrow> nd_storage (f n) = None) \<Longrightarrow>
    op_sat unserved (op_upd f)"
  by (simp add: op_sat_def op_upd_def unserved_def)

lemma un_call: "(\<And>a. op_sat unserved (g a)) \<Longrightarrow> op_sat unserved (op_call (sec_call h) g)"
  "(\<And>a. op_sat unserved (g a)) \<Longrightarrow> op_sat unserved (op_call (ct_call f) g)"
  "(\<And>a. op_sat unserved (g a)) \<Longrightarrow> op_sat unserved (op_call (gov_call k) g)"
  by (auto intro!: un.sat_call simp: unserved_def sec_call_def ct_call_def gov_call_def split_def Let_def)

lemma un_others: "op_sat unserved (op_emit e)" "op_sat unserved (on_world_file f)" "op_sat unserved (on_world g)"
  "op_sat unserved (on_ct h)" "op_sat unserved (on_crdt j)" "op_sat unserved panics"
  by (simp_all add: op_sat_def op_emit_def on_world_file_def on_world_def on_ct_def on_crdt_def panics_def ct_call_def op_upd_def
      unserved_def split_def Let_def split: option.split)

lemma un_send: "op_sat unserved (send_direct_message x t p b)" "op_sat unserved (send_typed_message x t p k c)"
proof -
  show s: "op_sat unserved (send_direct_message x t p b)" for b
    by (auto simp: op_sat_def unserved_def send_direct_message_def split: option.split sum.split)
  show "op_sat unserved (send_typed_message x t p k c)"
    unfolding send_typed_message_def by (intro un.sat_with) (simp add: s un.sat_skip split: option.split)
qed

lemmas un_intros = un.sat_with un.sat_seq un.sat_skip un.sat_when' un.sat_all un_upd un_call un_others un_send

lemma un_connections: "op_sat unserved (on_connected x t p)" "op_sat unserved (on_closed t p)" "op_sat unserved (on_identify x t p pk addrs)"
proof -
  have sync: "op_sat unserved (sync_with_world t)"
    unfolding sync_with_world_def by (auto intro!: un_intros simp: Let_def)
  then show "op_sat unserved (on_connected x t p)" "op_sat unserved (on_closed t p)"
    unfolding on_connected_def on_closed_def Let_def by (auto intro!: un_intros split: option.split)
  have "op_sat unserved (register_peer_addr x p a)" for a
    by (auto simp: op_sat_def unserved_def register_peer_addr_def Let_def)
  then have "op_sat unserved (learn_addr x p a)" for a
    unfolding learn_addr_def by (auto intro!: un_intros)
  moreover have "op_sat unserved (send_config_sync x t p)"
    unfolding send_config_sync_def by (auto intro!: un_intros simp: sec_call_def split_def Let_def split: option.split sum.split)
  ultimately show "op_sat unserved (on_identify x t p pk addrs)"
    unfolding on_identify_def by (auto intro!: un_intros split: option.split)
qed

lemma un_direct: "op_sat unserved (handle_direct_request x t p r b)"
proof -
  have "op_sat unserved (governance_vote x t p b)"
    unfolding governance_vote_def activate_def Let_def by (auto intro!: un_intros split: option.split)
  moreover have "op_sat unserved (activation_notify x t b)"
    unfolding activation_notify_def by (auto intro!: un_intros split: option.split)
  moreover have "op_sat unserved (governance_announce x t b)"
    unfolding governance_announce_def gov_call_def by (auto intro!: un_intros simp: split_def Let_def split: option.split)
  moreover have "op_sat unserved (crdt_sync x t ans b)" for ans
    unfolding crdt_sync_def Let_def by (auto intro!: un_intros split: option.split)
  moreover have "op_sat unserved (pqc_handshake x p ans b)" for ans
    unfolding pqc_handshake_def by (auto intro!: un_intros split: option.split sum.split)
  moreover have "op_sat unserved (compute_message x t p ans b)" for ans
    by (auto simp: op_sat_def unserved_def compute_message_def net_ops split_def Let_def split: option.split ComputeMessage.split)
  moreover have "op_sat unserved (plain_request x t p r b)"
    unfolding plain_request_def Let_def by (auto intro!: un_intros split: option.split)
  ultimately show ?thesis
    unfolding handle_direct_request_def Let_def by (auto intro!: un_intros)
qed

lemma un_onboard: "op_sat unserved (on_onboard_request x t p r)"
proof -
  have s: "op_sat unserved (to_supernodes x t k b)" for k b
    unfolding to_supernodes_def by (auto intro!: un_intros split: option.split)
  have "op_sat unserved (settle_proposal x t p pid)" for pid
    unfolding settle_proposal_def activate_def by (auto intro!: un_intros split: option.split)
  with s have pa: "op_sat unserved (propose_activation x t p)"
    unfolding propose_activation_def Let_def by (auto intro!: un_intros split: option.split sum.split)
  have "unserved n [] (snd (handle_peer_identified x t p r n))" for n
    by (auto simp: unserved_def handle_peer_identified_def sec_call_def on_world_file_def op_upd_def split_def Let_def split: option.split)
  with pa show ?thesis
    unfolding on_onboard_request_def
    by (auto intro!: un_intros un.sat_call simp: learn_x25519_def split: option.split)
qed

lemma un_requests: "op_sat unserved (on_gateway_request x t p gr)" "op_sat unserved (on_web_request x t p wr)"
  "op_sat unserved (on_config_request x t p cr)" "op_sat unserved (on_storage_request x t p sr)"
  "op_sat unserved (on_direct_request x t p dr)"
proof -
  have "unserved n [] (snd (gateway_verdict x t p gr n))" "unserved n [] (snd (web_verdict x t p wr n))" for n
    by (simp_all add: unserved_def gateway_verdict_def web_verdict_def ct_call_def sec_call_def split_def Let_def)
  then show "op_sat unserved (on_gateway_request x t p gr)" "op_sat unserved (on_web_request x t p wr)"
    unfolding on_gateway_request_def on_web_request_def Let_def split_def by (auto intro!: un_intros un.sat_call)
  show "op_sat unserved (on_config_request x t p cr)"
    unfolding on_config_request_def Let_def by (auto intro!: un_intros)
  show "op_sat unserved (on_storage_request x t p sr)"
    by (auto simp: op_sat_def unserved_def on_storage_request_def net_ops panics_def ct_call_def split_def Let_def split: option.split)
  have "op_sat unserved (relay_request x t p rel)" for rel
    unfolding relay_request_def split_def by (auto intro!: un_intros split: RelayOutcome.split)
  then show "op_sat unserved (on_direct_request x t p dr)"
    unfolding on_direct_request_def Let_def by (auto intro!: un_intros un_direct split: option.split EssRequest.split)
qed

lemma un_event: "op_sat unserved (handle_event x t ev)"
proof -
  have "op_sat unserved (complete_kad_get_query q res)" for q res
    unfolding complete_kad_get_query_def by (auto intro!: un_intros)
  then have kad: "op_sat unserved (on_kademlia x t k)" for k
    unfolding on_kademlia_def by (auto intro!: un_intros split: KadEvent.split option.split)
  have "op_sat unserved (on_onboard_response rid resp)" for rid resp
    unfolding on_onboard_response_def by (auto intro!: un_intros)
  moreover have "op_sat unserved (notify_task x t p c d)" for p c d
    unfolding notify_task_def by (auto intro!: un_intros)
  moreover have "op_sat unserved (on_config_response x t p cr)" for p cr
    unfolding on_config_response_def by (auto intro!: un_intros simp: sec_call_def split_def Let_def split: sum.split)
  moreover have "op_sat unserved (on_gateway_response x t p gr)" "op_sat unserved (on_web_response x t p wr)"
    "op_sat unserved (on_direct_response x t rid dr)" for p gr wr rid dr
    by (auto intro!: un_intros simp: on_gateway_response_def on_web_response_def on_direct_response_def sec_call_def split_def Let_def)
  ultimately show ?thesis
    by (cases ev) (simp_all add: kad un_connections un_requests un_onboard un.sat_skip)
qed

lemma reachable_unserved: "reachable_node x n \<Longrightarrow> nd_compute n = None \<and> nd_storage n = None"
proof (induction rule: reachable_node.induct)
  case boot
  then show ?case by (simp add: run_with_dashboard_and_authority_def Let_def)
next
  case (step n t ev)
  then show ?case using un_event[of x t ev] by (auto simp: op_sat_def unserved_def net_step_def op_when_def)
qed

section \<open>Properties\<close>


text \<open>
  C7: what a node serves. A positive answer to a gateway request is sent only when the sender is not in quarantine, the
  authority allows it gateway access and trusts its route, the signature of the request was verified and the sender has a
  token left; a positive answer to a web or configuration request only when the sender is not in quarantine, is allowed the
  action, and the signature was verified; a storage request is carried out only for a peer that may connect.
\<close>

theorem served_requests_authorised:
  "(AnsGateway p a \<in> set (snd (net_step x t (GatewayReq p gr) n)) \<and> gs_ok a \<longrightarrow>
      admitted n p GatewayAccess \<and>
      is_ok (fst (rt_verify_gateway_request (ne_sec x) (t_now t) (local_id n) p gr (nd_sec n))) \<and>
      gd_allowed (fst (gl_allow (ne_rnd x) (t_inst t) p 1 (ct_limiter (nd_ct n)))) \<and>
      (\<forall>auth. the_authority (nd_ct n) = Some auth \<longrightarrow>
         is_ok (validate_gateway_access (t_now t) p auth) \<and> is_ok (validate_gateway_route p auth))) \<and>
   (AnsWeb p b \<in> set (snd (net_step x t (WebReq p wr) n)) \<and> ws_ok b \<longrightarrow>
      admitted n p WebTraffic \<and> is_ok (fst (rt_verify_web_request (ne_sec x) (t_now t) (local_id n) p wr (nd_sec n)))) \<and>
   (AnsConfig p c \<in> set (snd (net_step x t (ConfigReq p cr) n)) \<and> cs_ok c \<longrightarrow>
      admitted n p Connect \<and> is_ok (fst (rt_verify_config_request (ne_sec x) (t_now t) (local_id n) p cr (nd_sec n)))) \<and>
   (AnsStorage p d \<in> set (snd (net_step x t (StorageReq p sr) n)) \<and> d \<noteq> RespError ''access denied'' \<longrightarrow> admitted n p Connect)"
  using gateway_served[of p a x t gr n] web_served[of p b x t wr n] config_served[of p c x t cr n] storage_served[of p d x t sr n]
  by (auto simp: net_step_def op_when_def split: if_splits)

text \<open>
  C9: a peer becomes activated only by an approval. When a step makes a peer activated that was not, the step ends with
  the execution of a proposal about this very peer for which the governance engine had found the quorum. The
  certificates and the activation flags stay in step: a node in which every certified peer is flagged remains so.
\<close>

theorem activation_needs_quorum:
  assumes "net_step x t ev n = (n', outs)" and "nd_world n = Some w" and "certified w \<subseteq> flagged w"
  shows "\<exists>w'. nd_world n' = Some w' \<and> certified w' \<subseteq> flagged w' \<and>
    (\<forall>p. is_peer_activated w' p \<and> \<not> is_peer_activated w p \<longrightarrow> approval x t p n')"
proof -
  have step: "activation_step x t w n'"
  proof (cases "nd_alive n")
    case False
    then have "n' = n" using assms(1) by (simp add: net_step_def op_when_def)
    then show ?thesis using assms(2) by (auto intro: activation_step_same no_cert_refl)
  next
    case True
    then have h: "handle_event x t ev n = (n', outs)" using assms(1) by (simp add: net_step_def op_when_def)
    show ?thesis
    proof (cases "may_activate ev")
      case False
      then show ?thesis using kept_activation[OF kept_event assms(2), of ev x t x t] h by simp
    next
      case True
      then consider (vote) p r where "ev = DirectReq p r" "rq_kind r = ''governance.vote''" | (onb) p r where "ev = OnboardReq p r"
        by (cases ev) auto
      then show ?thesis
      proof cases
        case onb
        then show ?thesis using h onboard_activation[OF assms(2), of x t p r] by simp
      next
        case vote
        then show ?thesis using h direct_activation[OF assms(2), of x t p r] by simp
      qed
    qed
  qed
  then obtain w' where w': "nd_world n' = Some w'" "flagged w \<subseteq> flagged w'"
      "\<And>p. p \<in> certified w' - certified w \<Longrightarrow> p \<in> flagged w' \<and> approval x t p n'"
    unfolding activation_step_def by blast
  then show ?thesis using assms(3) unfolding activated_iff by blast
qed

text \<open>
  Typed messages do not arrive. The state exchange, the votes, the announcements, the
  notifications and the compute results are sent as a typed request inside the body of a signed request, and the signed
  request always has the kind \<^verbatim>\<open>message\<close>; the receiver dispatches on the outer kind. Whatever a node sends that
  way changes neither the replicated state, nor the governance engine, the world, the scheduler or the storage of the receiver.
\<close>

theorem typed_messages_lost:
  assumes "Request q r \<in> set (snd (send_typed_message x t p kind body m))"
  shows "services_kept n (snd (net_step y t' (DirectReq src r) n)) (fst (net_step y t' (DirectReq src r) n))"
proof -
  have "rq_kind r = ''message''"
    using assms by (auto simp: send_typed_message_def op_with_def op_skip_def dest: sent_kind split: option.splits)
  then show ?thesis
    using message_kept[of r y t' src] sk.R_refl[of n] by (auto simp: net_step_def op_when_def op_sat_def)
qed

text \<open>
  C40: a wrapped request skips the checks. A request whose body is an \<^verbatim>\<open>EssRequest::DirectRequest\<close> is dispatched on its outer kind
  before its signature, its format or the rights of the sender are looked at. Any connected peer, in quarantine or unknown to
  the authority, can mark any peer as activated and rewrite its role, can merge any state into the replicated state and can
  open proposals; nothing is reported.
\<close>

theorem wrapped_requests_unchecked:
  assumes "nd_alive n" and "ne_ess_de x (rq_body r) = Some (EssDirect d)" and "net_step x t (DirectReq p r) n = (n', outs)"
  shows "nd_ct n' = nd_ct n \<and>
    (rq_kind r = ''governance.activation_notify'' \<and> ne_cert_de x (rq_body d) = Some cert \<and> nd_world n = Some w \<longrightarrow>
       (\<exists>w' e. nd_world n' = Some w' \<and> ac_target cert \<in> flagged w' \<and>
          map_of (peer_registry w') (ac_target cert) = Some e \<and> ps_role e = Some ''client'')) \<and>
    (rq_kind r = ''crdt_sync'' \<and> ne_sync_de x (rq_body d) = Some remote \<and> nd_crdt n = Some st \<longrightarrow>
       nd_crdt n' = Some (crdt_merge (ne_sha x) (ne_crdt_json x) (t_ms t) st remote)) \<and>
    (rq_kind r = ''governance.announce'' \<and> ne_announce_de x (rq_body d) = Some a \<and>
       map_of (proposals (fst (nd_gov n))) (an_proposal_id a) = None \<longrightarrow>
       nd_gov n' = snd (create_proposal (ne_gov x) (t_secs t) (t_uuid t) (an_proposal_type a) (an_target a) (nd_gov n)))"
proof -
  have h: "n' = fst (handle_direct_request x t p r (rq_body d) n)" using assms(3) by (simp add: wrapped_step[OF assms(1,2)])
  have "nd_ct n' = nd_ct n" using direct_ct_kept[of x t p r "rq_body d"] by (simp add: h op_sat_def ct_kept_def)
  moreover have "\<exists>w' e. nd_world n' = Some w' \<and> ac_target cert \<in> flagged w' \<and>
      map_of (peer_registry w') (ac_target cert) = Some e \<and> ps_role e = Some ''client''"
    if "rq_kind r = ''governance.activation_notify''" "ne_cert_de x (rq_body d) = Some cert" "nd_world n = Some w"
  proof -
    let ?v = "fst (mark_peer_activated (ne_acd x) (ac_target cert) (w, nd_activation n))"
    let ?w = "set_peer_role (t_ck t) (ac_target cert) ''client'' ?v"
    have "nd_world n' = Some ?w"
      using that by (simp add: h handle_direct_request_def activation_notify_def on_world_file_def net_ops split_def Let_def)
    moreover have "ac_target cert \<in> flagged ?w"
      using no_cert_mark(2)[of "ne_acd x" "ac_target cert" w "nd_activation n"] no_cert_sets(2)[of ?v "t_ck t" "ac_target cert" "''client''"]
      by (auto simp: no_cert_def)
    ultimately show ?thesis using upsert_role by (simp add: set_peer_role_def Let_def)
  qed
  ultimately show ?thesis
    by (auto simp: h handle_direct_request_def crdt_sync_def governance_announce_def gov_call_def net_ops split_def Let_def)
qed

text \<open>
  The services are not wired up. The storage layer and the scheduler are attached to the controller that the program creates
  at its start, not to the one of the network task. So in every node the runner can bring about a storage request is
  refused or stays without an answer, whatever the peer may do, and a job that arrives is answered with
  \<^verbatim>\<open>compute_not_available\<close>.
\<close>

theorem services_out_of_reach:
  assumes "reachable_node x n"
  shows "(AnsStorage q a \<in> set (snd (net_step x t (StorageReq p sr) n)) \<longrightarrow> a = RespError ''access denied'') \<and>
    (rq_kind r = ''compute'' \<and> ne_cm_de x b = Some (CmSubmit spec) \<longrightarrow>
       snd (handle_direct_request x t p r b n) =
         [AnsDirect p (rs_plain_error (t_secs t) (t_nanos t) (rq_message_id r) (local_id n) p ''compute_not_available'')])"
  using reachable_unserved[OF assms]
  by (auto simp: net_step_def on_storage_request_def handle_direct_request_def compute_message_def net_ops Let_def split: if_splits)

text \<open>
  A vote counts for whoever it names. The signature of a vote is checked with the key of the peer that delivers it, and
  nothing relates that peer to the voter: every peer with a registered key can cast the vote of any supernode on an open proposal.
\<close>

theorem forged_vote_counts:
  assumes "nd_alive n" and "ne_ess_de x (rq_body r) = Some (EssDirect d)" and "rq_kind r = ''governance.vote''"
    and "ne_vote_de x (rq_body d) = Some v" and "is_ok (rt_verify_governance_vote (ne_sec x) v p (nd_sec n))"
    and "the_authority (nd_ct n) = Some auth" and "vm_voter v \<in> set (AuthorityState.supernodes (mgr_get auth))"
    and "map_of (proposals (fst (nd_gov n))) (vm_proposal_id v) = Some pr" and "\<not> executed pr"
    and "vm_voter v \<in> GovernanceEngine.supernodes (evaluate_bootstrap (t_secs t) (fst (nd_gov n)))"
  shows "\<exists>pr'. map_of (proposals (fst (nd_gov (fst (net_step x t (DirectReq p r) n))))) (vm_proposal_id v) = Some pr' \<and>
    map_of (votes pr') (vm_voter v) = Some (vm_approve v)"
proof -
  define g where "g = snd (record_vote (ne_gov x) (t_secs t) (vm_proposal_id v) (vm_voter v) (vm_approve v) (nd_gov n))"
  define m where "m = n\<lparr> nd_gov := g \<rparr>"
  have ok: "is_ok (fst (record_vote (ne_gov x) (t_secs t) (vm_proposal_id v) (vm_voter v) (vm_approve v) (nd_gov n)))"
    and voted: "map_of (proposals (fst g)) (vm_proposal_id v) = Some (pr\<lparr> votes := hm_put (vm_voter v) (vm_approve v) (votes pr) \<rparr>)"
    using assms(8-10) by (auto simp: g_def record_vote_def split_def Let_def is_ok_def map_of_hm_put)
  have gov: "nd_gov (fst (governance_vote x t p (rq_body d) n)) \<in> {g, mark_executed (ne_gov x) (t_secs t) (vm_proposal_id v) g}"
    using assms(4-7) ok
    by (auto simp: governance_vote_def net_ops gov_call_def split_def Let_def g_def[symmetric] activate_def on_world_file_def split: option.split)
  have "nd_gov (fst (net_step x t (DirectReq p r) n)) = nd_gov (fst (governance_vote x t p (rq_body d) n))"
    by (simp add: wrapped_step[OF assms(1,2)] handle_direct_request_def assms(3) op_with_def Let_def seq_outs op_emit_def)
  then show ?thesis using gov voted by (auto simp: target_mark_executed map_of_hm_put)
qed

text \<open>
  An announced proposal cannot be voted on. The receiver of an announcement opens a proposal under an identifier of its own, so
  that the announced identifier stays unknown and every vote for it is refused.
\<close>

theorem announced_votes_refused:
  assumes "ne_announce_de x b = Some a" and "an_proposal_id a = make_id (an_proposal_type a) (an_target a) u" and "u \<noteq> t_uuid t"
    and "map_of (proposals (fst (nd_gov n))) (an_proposal_id a) = None"
  shows "fst (record_vote env now (an_proposal_id a) voter yes (nd_gov (fst (governance_announce x t b n)))) = Inl ProposalNotFound"
  using assms
  by (auto simp: governance_announce_def net_ops gov_call_def record_vote_def create_proposal_def split_def Let_def map_of_hm_put make_id_uuid)

text \<open>
  The answers to typed messages are refused by the sender. They carry no signature, and a node completes a pending direct
  request only with a signed answer: when the empty signature does not verify, the caller gets an error whatever the
  receiver did.
\<close>

theorem typed_answers_refused:
  assumes "AnsDirect q a \<in> set (snd (handle_direct_request x t p r b n))" and "rq_kind r \<in> typed_kinds"
    and "the_security c = Some sec" and "\<forall>pk m s. b64_decode env [] = Some s \<longrightarrow> \<not> sec_verify env pk m s"
    and "rid \<in> set (ct_pending_direct c)"
  shows "\<exists>e. ct_replies (complete_pending_direct_request env rnd parse now rid a c) = ct_replies c @ [(rid, Inl e)]"
  using typed_unsigned[OF assms(2), of x t p b] assms(1)
  by (intro unsigned_refused[OF assms(3-5)]) (auto simp: op_sat_def unsigned_answers_def)

text \<open>
  An onion packet stops the relay. The packet the code builds for a route of at least two hops makes the handler of the first
  hop panic, which ends its network task: the node never answers or sends again. The sender needs no right.
\<close>

theorem onion_packet_kills_relay:
  assumes "onion_env_ok (ne_onion x)" and "route_ok (ne_onion x) hops sks" and "rand_ok rand" and "2 \<le> length hops"
    and "length payload < 65536" and "build_onion_packet (ne_onion x) rand hops payload sz None = Inr layer"
    and "\<forall>l j. layer_to_json (ne_onion x) l = Some j \<longrightarrow> take 8 j = json_head \<and> length j < 2 ^ 60"
    and "\<forall>bs. length bs < 8 + le_val (take 8 bs) \<longrightarrow> layer_from_bincode (ne_onion x) bs = None"
    and "ne_parse x (hi_peer_id (hops ! 1)) \<noteq> None"
    and "nd_onion_sk n = sks ! 0" and "ne_ess_de x (rq_body r) = Some (EssOnion \<lparr> or_layer = layer, or_hop = h \<rparr>)"
  shows "snd (net_run x evs (fst (net_step x t (DirectReq p r) n))) = []"
proof -
  have "snd (handle_onion_relay (ne_onion x) (ne_parse x) (nd_onion_sk n) \<lparr> or_layer = layer, or_hop = h \<rparr>) = RelayPanic"
    unfolding assms(10) using assms(1-9) by (rule onion_relay_panics)
  then have "\<not> nd_alive (fst (net_step x t (DirectReq p r) n))"
    by (auto simp: net_step_def op_when_def on_direct_request_def assms(11) relay_request_def op_with_def split_def seq_outs op_emit_def
        panics_def op_upd_def)
  then show ?thesis by (simp add: dead_run)
qed

section \<open>Witnesses\<close>

definition demo_now :: NetNow where
  "demo_now = \<lparr> t_ck = demo_ck, t_ms = 7000, t_nanos = 1, t_inst = 5, t_nonce = ''n'', t_uuid = ''u'', t_rng = (\<lambda>i. []), t_answer = Inl [] \<rparr>"

definition demo_vote :: VoteMessage where
  "demo_vote = (let v = \<lparr> vm_proposal_id = make_id (ActivatePeer ''p'') ''p'' ''u'', vm_voter = ''sn'', vm_approve = True, vm_nonce = ''n'',
       vm_timestamp = 7, vm_signature = [] \<rparr>
     in v\<lparr> vm_signature := b64_encode demo_sec_env (1 # as_bytes (vote_text v)) \<rparr>)"

definition demo_cert :: ActivationCertificate where
  "demo_cert = \<lparr> ac_proposal_id = [], ac_target = ''p'', ac_approved = True, ac_signers = [] \<rparr>"

text \<open>The byte 7 stands for a wrapped request, whose body is the byte 8; every payload decodes from 8.\<close>

definition demo_net_env :: "(unit, unit) NetEnv" where
  "demo_net_env = \<lparr> ne_sec = demo_sec_env, ne_rnd = (\<lambda>r. r), ne_parse = Some, ne_gov = demo_gov_env, ne_acd = demo_acd, ne_ed = demo_ed,
     ne_hmac = (\<lambda>k d. d), ne_master = Some [1], ne_ed_key = (\<lambda>k. Some ()), ne_unhex = (\<lambda>s. None), ne_sha = (\<lambda>b. b),
     ne_crdt_json = (\<lambda>s. []), ne_crdt_vec = (\<lambda>s. None), ne_sync_de = (\<lambda>b. None), ne_payload_de = (\<lambda>b. None), ne_payload_ser = (\<lambda>s. []),
     ne_ess_de = (\<lambda>b. if b = [7] then Some (EssDirect (rq_plain_bytes 0 0 [] [] [8])) else None), ne_ess_ser = (\<lambda>r. [7]),
     ne_relay_ser = (\<lambda>r. []), ne_vote_de = (\<lambda>b. if b = [8] then Some demo_vote else None), ne_vote_ser = (\<lambda>v. [8]),
     ne_cert_de = (\<lambda>b. if b = [8] then Some demo_cert else None), ne_cert_ser = (\<lambda>c. [8]), ne_cert_json = (\<lambda>c. [2]),
     ne_announce_de = (\<lambda>b. None), ne_announce_ser = (\<lambda>a. []), ne_req_ser = (\<lambda>r. Some [9]), ne_cfgreq_de = (\<lambda>b. None),
     ne_cfgreq_ser = (\<lambda>r. []), ne_cfgresp_de = (\<lambda>b. None), ne_cfgresp_ser = (\<lambda>r. []), ne_pqc = (\<lambda>b p. None),
     ne_cm_de = (\<lambda>b. Some (CmSubmit (demo_spec 3 ''b''))), ne_cm_ser = (\<lambda>m. []), ne_sched = demo_ctx, ne_store = demo_storage_env,
     ne_onion = demo_onion_env,
     ne_kad = \<lparr> kad_to_json = (\<lambda>r. None), kad_from_json = (\<lambda>b. None), kad_b64 = (\<lambda>b. []), kad_unb64 = (\<lambda>s. None),
       kad_peer = (\<lambda>s. None), kad_unhex = (\<lambda>s. None) \<rparr>,
     ne_kad_opens = True, ne_chunk_de = (\<lambda>b. None), ne_addr_text = (\<lambda>a. []) \<rparr>"

text \<open>A node that knows the key of \<^verbatim>\<open>m\<close>, and the same node with an open proposal among three supernodes.\<close>

definition demo_node_up :: "unit Node" where
  "demo_node_up = run_with_dashboard_and_authority demo_net_env demo_now ''me'' \<lparr> inner = demo_authority, poisoned = False \<rparr> demo_world None
     (snd (register_peer_key ''m'' () rt_new)) None [] []"

definition demo_voting :: "unit Node" where
  "demo_voting = demo_node_up\<lparr> nd_gov := snd (create_proposal demo_gov_env 7 ''u'' (ActivatePeer ''p'') ''p''
     (new_engine 7 [''sn'', ''b'', ''c''] (33 / 50), None)) \<rparr>"

definition wrapped :: "string \<Rightarrow> DirectRequest" where
  "wrapped kind = (rq_plain_bytes 7 1 ''m'' ''me'' [7])\<lparr> rq_kind := kind \<rparr>"

lemma demo_wrapped [simp]: "rq_kind (wrapped k) = k" "rq_body (wrapped k) = [7]"
  "ne_ess_de demo_net_env [7] = Some (EssDirect (rq_plain_bytes 0 0 [] [] [8]))" "rq_body (rq_plain_bytes 0 0 [] [] [8]) = [8]"
  by (simp_all add: wrapped_def demo_net_env_def rq_plain_bytes_def rq_normalized_def)

lemma demo_alive [simp]: "nd_alive demo_node_up" "nd_alive demo_voting" "nd_world demo_node_up = Some demo_world"
  "nd_world demo_voting = Some demo_world"
  by (simp_all add: demo_voting_def demo_node_up_def run_with_dashboard_and_authority_def Let_def)

lemma demo_world_certified: "certified demo_world = {}"
  by (simp add: certified_def demo_world_def world_new_def Let_def load_activated_peers_def split_def)


theorem wrapped_requests_unchecked_witness:
  "\<exists>w' e. nd_world (fst (net_step demo_net_env demo_now (DirectReq ''m'' (wrapped ''governance.activation_notify'')) demo_node_up)) = Some w' \<and>
     ''p'' \<in> flagged w' \<and> map_of (peer_registry w') ''p'' = Some e \<and> ps_role e = Some ''client''"
proof -
  have "ne_cert_de demo_net_env [8] = Some demo_cert" "ac_target demo_cert = ''p''"
    by (simp_all add: demo_net_env_def demo_cert_def)
  then show ?thesis
    using wrapped_requests_unchecked[OF _ _ surjective_pairing, of demo_node_up demo_net_env "wrapped ''governance.activation_notify''"
        "rq_plain_bytes 0 0 [] [] [8]" demo_now "''m''" demo_cert demo_world] by simp
qed

theorem services_out_of_reach_witness:
  "snd (handle_direct_request demo_net_env demo_now ''m'' (wrapped ''compute'') [8] demo_node_up) =
     [AnsDirect ''m'' (rs_plain_error 7 1 (rq_message_id (wrapped ''compute'')) ''me'' ''m'' ''compute_not_available'')]"
proof -
  have "reachable_node demo_net_env demo_node_up" unfolding demo_node_up_def by (rule reachable_node.boot)
  moreover have "local_id demo_node_up = ''me''" "t_secs demo_now = 7" "t_nanos demo_now = 1" "ne_cm_de demo_net_env [8] = Some (CmSubmit (demo_spec 3 ''b''))"
    by (simp_all add: demo_node_up_def run_with_dashboard_and_authority_def push_ghost_sync_def push_ghost_signal_def consume_event_def
        attach_security_def ct_attach_authority_def ct_new_def demo_now_def demo_ck_def demo_net_env_def Let_def)
  ultimately show ?thesis
    using services_out_of_reach[of demo_net_env demo_node_up "[]" _ demo_now "''m''" _ "wrapped ''compute''" "[8]"] by simp
qed

lemma demo_vote_ok: "is_ok (rt_verify_governance_vote demo_sec_env demo_vote ''m'' (nd_sec demo_voting))"
proof -
  have "nd_sec demo_voting = snd (rt_register_response_verifier (\<lambda>_. Some (Inr ())) (snd (register_peer_key ''m'' () rt_new)))"
    by (simp add: demo_voting_def demo_node_up_def run_with_dashboard_and_authority_def Let_def)
  moreover have "vm_signature demo_vote = b64_encode demo_sec_env (1 # as_bytes (vote_text demo_vote))"
    by (simp add: demo_vote_def Let_def vote_text_def)
  ultimately show ?thesis
    by (simp add: rt_verify_governance_vote_def read_protected_def verify_governance_vote_def register_peer_key_def
        rt_register_response_verifier_def write_protected_def rt_new_def register_peer_public_key_def register_response_verifier_def
        pi_new_def hm_put_def is_ok_def vote_text_def demo_sec_env_def as_bytes_def of_char_u8_char o_def)
qed

lemma demo_gov: "fst (nd_gov demo_voting) = (new_engine 7 [''sn'', ''b'', ''c''] (33 / 50))\<lparr> proposals :=
    [(vm_proposal_id demo_vote, \<lparr> proposal_id = vm_proposal_id demo_vote, proposal_type = ActivatePeer ''p'', target = ''p'', created_at = 7,
      supernode_count = 3, votes = [], executed = False \<rparr>)] \<rparr>"
  by (simp add: demo_voting_def demo_vote_def create_proposal_def new_engine_def evaluate_bootstrap_def hm_put_def Let_def)

lemma demo_voting_authority: "the_authority (nd_ct demo_voting) = Some \<lparr> inner = demo_authority, poisoned = False \<rparr>"
  "''sn'' \<in> set (AuthorityState.supernodes (mgr_get \<lparr> inner = demo_authority, poisoned = False \<rparr>))"
  by (simp_all add: demo_voting_def demo_node_up_def run_with_dashboard_and_authority_def push_ghost_sync_def push_ghost_signal_def
      consume_event_def attach_security_def ct_attach_authority_def ct_new_def the_authority_def Let_def mgr_get_def demo_authority_def
      default_state_def)

theorem forged_vote_counts_witness:
  "\<exists>pr'. map_of (proposals (fst (nd_gov (fst (net_step demo_net_env demo_now (DirectReq ''m'' (wrapped ''governance.vote'')) demo_voting)))))
     (vm_proposal_id demo_vote) = Some pr' \<and> map_of (votes pr') ''sn'' = Some True"
proof -
  have "ne_vote_de demo_net_env [8] = Some demo_vote" "ne_sec demo_net_env = demo_sec_env" "vm_voter demo_vote = ''sn''" "vm_approve demo_vote"
    by (simp_all add: demo_net_env_def demo_vote_def Let_def)
  moreover have "''sn'' \<in> GovernanceEngine.supernodes (evaluate_bootstrap (t_secs demo_now) (fst (nd_gov demo_voting)))"
    by (simp add: demo_gov evaluate_bootstrap_def new_engine_def Let_def)
  ultimately show ?thesis
    using forged_vote_counts[of demo_voting demo_net_env "wrapped ''governance.vote''" "rq_plain_bytes 0 0 [] [] [8]" demo_vote "''m''"
        _ _ demo_now] demo_vote_ok demo_voting_authority by (simp add: demo_gov)
qed

theorem typed_messages_lost_witness:
  "\<exists>r. Request ''p'' r \<in> set (snd (send_typed_message demo_net_env demo_now ''p'' ''crdt_sync'' [1] demo_node_up)) \<and>
     services_kept demo_voting (snd (net_step demo_net_env demo_now (DirectReq ''me'' r) demo_voting))
       (fst (net_step demo_net_env demo_now (DirectReq ''me'' r) demo_voting))"
proof -
  have "\<exists>r. Request ''p'' r \<in> set (snd (send_typed_message demo_net_env demo_now ''p'' ''crdt_sync'' [1] demo_node_up))"
    by (simp add: send_typed_message_def typed_request_def demo_net_env_def send_direct_message_def op_with_def demo_node_up_def
        run_with_dashboard_and_authority_def push_ghost_sync_def push_ghost_signal_def consume_event_def attach_security_def
        ct_attach_authority_def ct_new_def controller_view_def the_security_def build_direct_request_bytes_def read_protected_def
        rt_register_response_verifier_def register_peer_key_def write_protected_def rt_new_def build_request_bytes_def sign_data_def
        demo_sec_env_def Let_def)
  then show ?thesis using typed_messages_lost by blast
qed

text \<open>The same node with a storage layer, and with the vote of \<^verbatim>\<open>b\<close> on a registered peer.\<close>

definition demo_allowing :: "unit SecurityRuntime" where
  "demo_allowing = rt_attach_authority \<lparr> inner = demo_authority, poisoned = False \<rparr>
     (rt_new\<lparr> rt_inner := pi_new\<lparr> policy_config := default_policy_config\<lparr> pc_allowed_actions := {''connect''} \<rparr> \<rparr> \<rparr>)"

definition demo_storing :: "unit Node" where
  "demo_storing = demo_node_up\<lparr> nd_sec := demo_allowing, nd_storage := storage_new demo_storage_env default_storage_config []
     \<lparr> inner = demo_authority, poisoned = False \<rparr> (Some []) False \<rparr>"

definition demo_quorum :: "unit Node" where
  "demo_quorum = demo_voting\<lparr> nd_world := Some (upsert_peer_state demo_ck ''p'' None True None demo_world),
     nd_gov := snd (record_vote demo_gov_env 7 (vm_proposal_id demo_vote) ''b'' True (nd_gov demo_voting)) \<rparr>"

lemma demo_storing_allows: "fst (enforce now ''sn'' Connect (controller_view demo_storing))"
proof -
  have "is_allowed \<lparr> inner = demo_authority, poisoned = False \<rparr> ''sn'' Connect"
    by code_simp
  then show ?thesis
    by (simp add: enforce_def quarantined_def the_security_def the_authority_def controller_view_def demo_storing_def demo_node_up_def
        run_with_dashboard_and_authority_def push_ghost_sync_def push_ghost_signal_def consume_event_def attach_security_def
        ct_attach_authority_def ct_new_def Let_def demo_allowing_def rt_attach_authority_def attach_authority_def write_protected_def
        rt_verify_access_def read_protected_def verify_access_def rt_new_def rt_is_allowed_def pi_is_allowed_def)
qed

theorem served_requests_authorised_witness:
  "snd (net_step demo_net_env demo_now (StorageReq ''sn'' (StGet ''obj'' 0)) demo_storing) =
     [AnsStorage ''sn'' (RespError ''Metadata not found in local DB'')] \<and> admitted demo_storing ''sn'' Connect"
proof -
  have "nd_alive demo_storing" "nd_storage demo_storing = storage_new demo_storage_env default_storage_config []
      \<lparr> inner = demo_authority, poisoned = False \<rparr> (Some []) False"
    by (simp_all add: demo_storing_def)
  moreover have "storage_new demo_storage_env default_storage_config [] \<lparr> inner = demo_authority, poisoned = False \<rparr> (Some []) False \<noteq> None"
    by (simp add: storage_new_def Let_def)
  ultimately have "snd (net_step demo_net_env demo_now (StorageReq ''sn'' (StGet ''obj'' 0)) demo_storing) =
      [AnsStorage ''sn'' (RespError ''Metadata not found in local DB'')]"
    using demo_storing_allows
    by (simp add: net_step_def on_storage_request_def net_ops ct_call_def split_def Let_def storage_new_def handle_request_def
      get_object_def load_metadata_def demo_net_env_def demo_storage_env_def)
  then show ?thesis
    using served_requests_authorised[of "''sn''" _ demo_net_env demo_now _ demo_storing _ _ _ _
        "RespError ''Metadata not found in local DB''" "StGet ''obj'' 0"] by simp
qed

lemma demo_quorum_parts:
  "nd_alive demo_quorum" "nd_sec demo_quorum = nd_sec demo_voting" "nd_ct demo_quorum = nd_ct demo_voting"
  "nd_world demo_quorum = Some (upsert_peer_state demo_ck ''p'' None True None demo_world)"
  by (simp_all add: demo_quorum_def)

lemma demo_quorum_vote:
  "record_vote demo_gov_env 7 (vm_proposal_id demo_vote) ''sn'' True (nd_gov demo_quorum) = (r, g) \<Longrightarrow>
     is_ok r \<and> (\<exists>pr. map_of (proposals (fst g)) (vm_proposal_id demo_vote) = Some pr \<and> target pr = ''p'') \<and>
     check_quorum (\<lambda>r. r) 7 (fst g) (vm_proposal_id demo_vote) 600 = Some True"
  by (auto simp: demo_quorum_def record_vote_def demo_gov evaluate_bootstrap_def new_engine_def split_def Let_def hm_put_def is_ok_def
      check_quorum_def yes_votes_def)

lemma activated_by: "map_of (peer_registry w) q = Some e \<Longrightarrow>
   is_peer_activated (set_activation_cert q c (fst (mark_peer_activated cd q (w, f)))) q"
  by (simp add: is_peer_activated_def set_activation_cert_def mark_peer_activated_def Let_def map_of_bt_put map_of_hm_put)

lemma demo_quorum_step:
  "\<exists>w'. nd_world (fst (net_step demo_net_env demo_now (DirectReq ''m'' (wrapped ''governance.vote'')) demo_quorum)) = Some w' \<and>
     is_peer_activated w' ''p''"
proof -
  obtain r g where rg: "record_vote demo_gov_env 7 (vm_proposal_id demo_vote) ''sn'' True (nd_gov demo_quorum) = (r, g)"
    by (rule prod.exhaust)
  obtain pr where pr: "map_of (proposals (fst g)) (vm_proposal_id demo_vote) = Some pr" "target pr = ''p''"
    using demo_quorum_vote[OF rg] by blast
  obtain e where e: "map_of (peer_registry (upsert_peer_state demo_ck ''p'' None True None demo_world)) ''p'' = Some e"
    by (simp add: upsert_peer_state_def Let_def map_of_bt_put)
  have d: "ne_vote_de demo_net_env [8] = Some demo_vote" "ne_sec demo_net_env = demo_sec_env" "vm_voter demo_vote = ''sn''" "vm_approve demo_vote"
    "ne_gov demo_net_env = demo_gov_env" "ne_rnd demo_net_env = (\<lambda>r. r)" "t_secs demo_now = 7"
    by (simp_all add: demo_net_env_def demo_vote_def demo_now_def demo_ck_def Let_def)
  show ?thesis
    using e demo_quorum_vote[OF rg] demo_vote_ok pr
  by (simp add: wrapped_step[OF demo_quorum_parts(1), of demo_net_env "wrapped ''governance.vote''" "rq_plain_bytes 0 0 [] [] [8]"]
    handle_direct_request_def governance_vote_def net_ops d gov_call_def rg demo_quorum_parts demo_vote_ok
     demo_voting_authority target_mark_executed certificate_def activate_def on_world_file_def
     split_def Let_def activated_by)
qed

theorem activation_needs_quorum_witness:
  "\<exists>w'. nd_world (fst (net_step demo_net_env demo_now (DirectReq ''m'' (wrapped ''governance.vote'')) demo_quorum)) = Some w' \<and>
     is_peer_activated w' ''p'' \<and>
     approval demo_net_env demo_now ''p'' (fst (net_step demo_net_env demo_now (DirectReq ''m'' (wrapped ''governance.vote'')) demo_quorum))"
proof -
  let ?w = "upsert_peer_state demo_ck ''p'' None True None demo_world"
  have none: "certified ?w = {}"
    using demo_world_certified no_cert_upsert[of demo_world demo_ck "''p''" None True None] by (simp add: no_cert_def)
  then show ?thesis
    using activation_needs_quorum[OF surjective_pairing demo_quorum_parts(4), of demo_net_env demo_now "DirectReq ''m'' (wrapped ''governance.vote'')"]
      demo_quorum_step by (auto simp: activated_iff)
qed

end
