(* ===== verification/Dashboard.thy ===== *)
theory Dashboard
  imports Compute_Store World_State
begin

text \<open>
  The store behind the dashboard (\<^verbatim>\<open>dashboard/model.rs\<close>, \<^verbatim>\<open>dashboard/store.rs\<close>) and the task that fills it
  (\<^verbatim>\<open>dashboard_bridge.rs\<close>): what is known of every node, merged from its announcement and its health report, and the
  bounded lists of routes and log lines. The lemmas say what a sequence of bridge messages leaves behind.
\<close>

section \<open>Model\<close>

record NodeInfo =
  ni_node_id :: string
  ni_peer_id :: string
  ni_role :: string
  ni_state :: string
  ni_health_level :: "string option"
  ni_public_listen :: "string option"
  ni_location :: "string option"
  ni_last_seen :: "string option"

text \<open>The counters are \<^verbatim>\<open>usize\<close> on a 64-bit machine.\<close>

record NodeHealth =
  nh_node_id :: string
  nh_peer_id :: string
  nh_role :: string
  nh_state :: string
  nh_health_level :: string
  nh_decision :: string
  nh_reason :: string
  nh_connected_peers :: u64
  nh_known_peers :: u64
  nh_route_peers :: u64
  nh_trusted_peers :: u64
  nh_ping_ms_avg :: "u64 option"
  nh_bootstrap_ok :: bool
  nh_gateway_ok :: bool
  nh_web_ok :: bool
  nh_config_ok :: bool
  nh_tamper_detected :: bool
  nh_failure_count :: u64
  nh_last_failure_reason :: "string option"
  nh_updated_at :: string
  nh_public_listen :: "string option"
  nh_location :: "string option"

definition default_health :: NodeHealth where
  "default_health = \<lparr> nh_node_id = [], nh_peer_id = [], nh_role = [], nh_state = [], nh_health_level = [], nh_decision = [],
     nh_reason = [], nh_connected_peers = 0, nh_known_peers = 0, nh_route_peers = 0, nh_trusted_peers = 0, nh_ping_ms_avg = None,
     nh_bootstrap_ok = False, nh_gateway_ok = False, nh_web_ok = False, nh_config_ok = False, nh_tamper_detected = False,
     nh_failure_count = 0, nh_last_failure_reason = None, nh_updated_at = [], nh_public_listen = None, nh_location = None \<rparr>"

record RouteInfo =
  ri_from_peer :: string
  ri_to_peer :: string
  ri_hops :: "string list"
  ri_latency_ms :: "u64 option"
  ri_trusted :: bool
  ri_active :: bool
  ri_updated_at :: string

definition route_info_new :: "string \<Rightarrow> string \<Rightarrow> string \<Rightarrow> RouteInfo" where
  "route_info_new now src dst = \<lparr> ri_from_peer = src, ri_to_peer = dst, ri_hops = [], ri_latency_ms = None, ri_trusted = False,
     ri_active = True, ri_updated_at = now \<rparr>"

record LogEvent =
  le_ts :: string
  le_node_id :: string
  le_level :: string
  le_event :: string
  le_message :: string

definition blank :: "string \<Rightarrow> bool" where
  "blank s \<longleftrightarrow> str_trim s = []"

definition ni_key :: "NodeInfo \<Rightarrow> string" where
  "ni_key i = (if \<not> blank (ni_node_id i) then ni_node_id i else ni_peer_id i)"

definition nh_key :: "NodeHealth \<Rightarrow> string" where
  "nh_key h = (if \<not> blank (nh_node_id h) then nh_node_id h else nh_peer_id h)"

definition info_from_health :: "NodeHealth \<Rightarrow> NodeInfo" where
  "info_from_health h = \<lparr> ni_node_id = nh_node_id h, ni_peer_id = nh_peer_id h, ni_role = nh_role h, ni_state = nh_state h,
     ni_health_level = Some (nh_health_level h), ni_public_listen = nh_public_listen h, ni_location = nh_location h,
     ni_last_seen = Some (nh_updated_at h) \<rparr>"

definition health_from_info :: "string \<Rightarrow> NodeInfo \<Rightarrow> NodeHealth" where
  "health_from_info now i = default_health\<lparr> nh_node_id := ni_node_id i, nh_peer_id := ni_peer_id i, nh_role := ni_role i,
     nh_state := ni_state i, nh_health_level := (case ni_health_level i of Some l \<Rightarrow> l | None \<Rightarrow> ''unknown''),
     nh_decision := ''noop'', nh_reason := ''snapshot_only'',
     nh_updated_at := (case ni_last_seen i of Some t \<Rightarrow> t | None \<Rightarrow> now),
     nh_public_listen := ni_public_listen i, nh_location := ni_location i \<rparr>"

section \<open>Store\<close>

record NodeSnapshot =
  sn_info :: NodeInfo
  sn_health :: "NodeHealth option"

record DashboardStore =
  ds_nodes :: "(string, NodeSnapshot) hmap"
  ds_routes :: "RouteInfo list"
  ds_logs :: "LogEvent list"

definition store_new :: DashboardStore where
  "store_new = \<lparr> ds_nodes = [], ds_routes = [], ds_logs = [] \<rparr>"

text \<open>A text field that is blank in the announcement is taken from the health report when it is not blank there.\<close>

definition text_or :: "string \<Rightarrow> (NodeHealth \<Rightarrow> string) \<Rightarrow> NodeHealth option \<Rightarrow> string" where
  "text_or s f h = (if blank s \<and> \<not> (case h of Some h \<Rightarrow> blank (f h) | None \<Rightarrow> True) then f (the h) else s)"

definition merged_info :: "NodeSnapshot \<Rightarrow> NodeInfo" where
  "merged_info sp =
     (let i = sn_info sp; h = sn_health sp in
      i\<lparr> ni_node_id := text_or (ni_node_id i) nh_node_id h,
        ni_peer_id := text_or (ni_peer_id i) nh_peer_id h,
        ni_role := text_or (ni_role i) nh_role h,
        ni_state := text_or (ni_state i) nh_state h,
        ni_health_level := (case ni_health_level i of Some l \<Rightarrow> Some l | None \<Rightarrow> map_option nh_health_level h),
        ni_public_listen := (case ni_public_listen i of Some l \<Rightarrow> Some l | None \<Rightarrow> Option.bind h nh_public_listen),
        ni_location := (case ni_location i of Some l \<Rightarrow> Some l | None \<Rightarrow> Option.bind h nh_location),
        ni_last_seen := (case ni_last_seen i of Some l \<Rightarrow> Some l | None \<Rightarrow> map_option nh_updated_at h) \<rparr>)"

definition merged_health :: "string \<Rightarrow> NodeSnapshot \<Rightarrow> NodeHealth" where
  "merged_health now sp = (case sn_health sp of Some h \<Rightarrow> h | None \<Rightarrow> health_from_info now (sn_info sp))"

definition upsert_node_info :: "NodeInfo \<Rightarrow> DashboardStore \<Rightarrow> DashboardStore" where
  "upsert_node_info i st =
     (let key = ni_key i;
          sp = (case map_of (ds_nodes st) key of Some sp \<Rightarrow> sp\<lparr> sn_info := i \<rparr> | None \<Rightarrow> \<lparr> sn_info = i, sn_health = None \<rparr>)
      in st\<lparr> ds_nodes := hm_put key sp (ds_nodes st) \<rparr>)"

definition upsert_node_health :: "NodeHealth \<Rightarrow> DashboardStore \<Rightarrow> DashboardStore" where
  "upsert_node_health h st =
     (let key = nh_key h;
          sp = (case map_of (ds_nodes st) key of
                  Some sp \<Rightarrow> sp\<lparr> sn_health := Some h \<rparr>
                | None \<Rightarrow> \<lparr> sn_info = info_from_health h, sn_health = Some h \<rparr>)
      in st\<lparr> ds_nodes := hm_put key sp (ds_nodes st) \<rparr>)"

text \<open>\<^verbatim>\<open>if v.len() > n { v.drain(0..v.len() - n) }\<close> after a push.\<close>

definition push_bounded :: "nat \<Rightarrow> 'a \<Rightarrow> 'a list \<Rightarrow> 'a list" where
  "push_bounded n x xs = (let v = xs @ [x] in if length v > n then drop (length v - n) v else v)"

definition push_route :: "RouteInfo \<Rightarrow> DashboardStore \<Rightarrow> DashboardStore" where
  "push_route r st = st\<lparr> ds_routes := push_bounded 500 r (ds_routes st) \<rparr>"

definition push_log :: "LogEvent \<Rightarrow> DashboardStore \<Rightarrow> DashboardStore" where
  "push_log l st = st\<lparr> ds_logs := push_bounded 2000 l (ds_logs st) \<rparr>"

text \<open>The nodes are sorted by their key; the sort is stable, and \<open>st\<close> lists the entries in the order in which they are met.\<close>

definition all_nodes :: "DashboardStore \<Rightarrow> NodeInfo list" where
  "all_nodes st = sort_key ni_key (map (\<lambda>(k, sp). merged_info sp) (ds_nodes st))"

fun find_health :: "string \<Rightarrow> string \<Rightarrow> (string \<times> NodeSnapshot) list \<Rightarrow> NodeHealth option" where
  "find_health now node_id [] = None"
| "find_health now node_id ((k, sp) # sps) =
     (let i = merged_info sp in
      if ni_key i = node_id \<or> ni_peer_id i = node_id then Some (merged_health now sp) else find_health now node_id sps)"

definition node_health :: "string \<Rightarrow> DashboardStore \<Rightarrow> string \<Rightarrow> NodeHealth option" where
  "node_health now st node_id = find_health now node_id (ds_nodes st)"

section \<open>Bridge\<close>

record TelemetryUpdate =
  tu_peer_id :: string
  tu_connected_peers :: u64
  tu_latency_ms :: u64

datatype DashboardBridgeInput =
    BrNodeInfo NodeInfo
  | BrNodeHealth NodeHealth
  | BrRoute RouteInfo
  | BrLog LogEvent
  | BrTelemetry TelemetryUpdate
  | BrComputeJobResult string ComputeResult

definition telemetry_health :: "TelemetryUpdate \<Rightarrow> NodeHealth" where
  "telemetry_health u = default_health\<lparr> nh_peer_id := tu_peer_id u, nh_connected_peers := tu_connected_peers u,
     nh_ping_ms_avg := Some (tu_latency_ms u), nh_state := ''active'', nh_health_level := ''healthy'' \<rparr>"

fun bridge_msg :: "DashboardBridgeInput \<Rightarrow> DashboardStore \<Rightarrow> DashboardStore" where
  "bridge_msg (BrNodeInfo i) = upsert_node_info i"
| "bridge_msg (BrNodeHealth h) = upsert_node_health h"
| "bridge_msg (BrRoute r) = push_route r"
| "bridge_msg (BrLog l) = push_log l"
| "bridge_msg (BrTelemetry u) = upsert_node_health (telemetry_health u)"
| "bridge_msg (BrComputeJobResult jid res) = id"

text \<open>The task of the bridge, up to the closing of the channel.\<close>

definition bridge_run :: "DashboardBridgeInput list \<Rightarrow> DashboardStore \<Rightarrow> DashboardStore" where
  "bridge_run xs st = fold bridge_msg xs st"

section \<open>What the store holds\<close>

fun info_of :: "DashboardBridgeInput \<Rightarrow> NodeInfo list" where
  "info_of (BrNodeInfo i) = [i]"
| "info_of x = []"

fun health_of :: "DashboardBridgeInput \<Rightarrow> NodeHealth list" where
  "health_of (BrNodeHealth h) = [h]"
| "health_of (BrTelemetry u) = [telemetry_health u]"
| "health_of x = []"

fun route_of :: "DashboardBridgeInput \<Rightarrow> RouteInfo list" where
  "route_of (BrRoute r) = [r]"
| "route_of x = []"

fun log_of :: "DashboardBridgeInput \<Rightarrow> LogEvent list" where
  "log_of (BrLog l) = [l]"
| "log_of x = []"

definition infos :: "string \<Rightarrow> DashboardBridgeInput list \<Rightarrow> NodeInfo list" where
  "infos k xs = filter (\<lambda>i. ni_key i = k) (concat (map info_of xs))"

definition healths :: "string \<Rightarrow> DashboardBridgeInput list \<Rightarrow> NodeHealth list" where
  "healths k xs = filter (\<lambda>h. nh_key h = k) (concat (map health_of xs))"

text \<open>The entry of a node: its last announcement, or its first health report when it never announced itself, and its last report.\<close>

definition entry_of :: "NodeInfo list \<Rightarrow> NodeHealth list \<Rightarrow> NodeSnapshot option" where
  "entry_of vs hs =
     (if vs = [] \<and> hs = [] then None
      else Some \<lparr> sn_info = (if vs = [] then info_from_health (hd hs) else last vs),
                  sn_health = (if hs = [] then None else Some (last hs)) \<rparr>)"

lemma bridge_snoc: "bridge_run (xs @ [x]) st = bridge_msg x (bridge_run xs st)"
  by (simp add: bridge_run_def)

lemma infos_snoc: "infos k (xs @ [x]) = infos k xs @ filter (\<lambda>i. ni_key i = k) (info_of x)"
  "healths k (xs @ [x]) = healths k xs @ filter (\<lambda>h. nh_key h = k) (health_of x)"
  by (simp_all add: infos_def healths_def)

lemma push_bounded_trim: "push_bounded n x xs = trim_front n (xs @ [x])"
  by (auto simp: push_bounded_def trim_front_drop Let_def)

lemma ds_nodes_upsert:
  "map_of (ds_nodes (upsert_node_info i st)) k =
     (if k = ni_key i then Some (case map_of (ds_nodes st) k of Some sp \<Rightarrow> sp\<lparr> sn_info := i \<rparr> | None \<Rightarrow> \<lparr> sn_info = i, sn_health = None \<rparr>)
      else map_of (ds_nodes st) k)"
  "map_of (ds_nodes (upsert_node_health h st)) k =
     (if k = nh_key h then Some (case map_of (ds_nodes st) k of Some sp \<Rightarrow> sp\<lparr> sn_health := Some h \<rparr>
         | None \<Rightarrow> \<lparr> sn_info = info_from_health h, sn_health = Some h \<rparr>)
      else map_of (ds_nodes st) k)"
  by (simp_all add: upsert_node_info_def upsert_node_health_def Let_def map_of_hm_put)

lemma entry_of_info: "Some (case entry_of vs hs of Some sp \<Rightarrow> sp\<lparr> sn_info := i \<rparr> | None \<Rightarrow> \<lparr> sn_info = i, sn_health = None \<rparr>) = entry_of (vs @ [i]) hs"
  by (auto simp: entry_of_def)

lemma entry_of_health:
  "Some (case entry_of vs hs of Some sp \<Rightarrow> sp\<lparr> sn_health := Some h \<rparr> | None \<Rightarrow> \<lparr> sn_info = info_from_health h, sn_health = Some h \<rparr>) =
   entry_of vs (hs @ [h])"
  by (auto simp: entry_of_def)

lemma bridge_nodes: "map_of (ds_nodes (bridge_run xs store_new)) k = entry_of (infos k xs) (healths k xs)"
proof (induction xs rule: rev_induct)
  case Nil
  then show ?case by (simp add: bridge_run_def store_new_def entry_of_def infos_def healths_def)
next
  case (snoc x xs)
  then show ?case
    by (cases x) (auto simp: bridge_snoc infos_snoc ds_nodes_upsert push_route_def push_log_def
        entry_of_info[symmetric] entry_of_health[symmetric])
qed

lemma bridge_lists:
  "ds_routes (bridge_run xs store_new) = trim_front 500 (concat (map route_of xs))"
  "ds_logs (bridge_run xs store_new) = trim_front 2000 (concat (map log_of xs))"
proof (induction xs rule: rev_induct)
  case (snoc x xs)
  { case 1
    show ?case using snoc
      by (cases x) (simp_all add: bridge_snoc upsert_node_info_def upsert_node_health_def Let_def push_route_def push_log_def
          push_bounded_trim trim_front_trim) }
  { case 2
    show ?case using snoc
      by (cases x) (simp_all add: bridge_snoc upsert_node_info_def upsert_node_health_def Let_def push_route_def push_log_def
          push_bounded_trim trim_front_trim) }
qed (simp_all add: bridge_run_def store_new_def)

lemma nodes_distinct: "hm_ok (ds_nodes (bridge_run xs store_new))"
proof (induction xs rule: rev_induct)
  case (snoc x xs)
  then show ?case
    by (cases x) (simp_all add: bridge_snoc upsert_node_info_def upsert_node_health_def Let_def push_route_def push_log_def hm_ok_put)
qed (simp add: bridge_run_def store_new_def hm_ok_def)

text \<open>
  C39: the dashboard shows the latest of what the bridge was sent. Whatever the sequence of messages, the store has one entry
  for every key that occurs, with the last announcement and the last health report under that key (the first report stands in
  for a missing announcement), the last 500 routes and the last 2000 log lines in the order of their arrival; the list of nodes
  is sorted by key and has one item for every entry.
\<close>

theorem dashboard_view:
  "let st = bridge_run xs store_new; entry = (\<lambda>k. map_of (ds_nodes st) k) in
   entry k = entry_of (infos k xs) (healths k xs) \<and>
   ds_routes st = trim_front 500 (concat (map route_of xs)) \<and> ds_logs st = trim_front 2000 (concat (map log_of xs)) \<and>
   length (ds_routes st) \<le> 500 \<and> length (ds_logs st) \<le> 2000 \<and> sorted (map ni_key (all_nodes st)) \<and>
   mset (all_nodes st) = image_mset (\<lambda>k. merged_info (the (entry k))) (mset_set (fst ` set (ds_nodes st)))"
proof -
  let ?m = "ds_nodes (bridge_run xs store_new)"
  have d: "distinct (map fst ?m)" using nodes_distinct[of xs] by (simp add: hm_ok_def)
  then have "mset (map (\<lambda>(k, sp). merged_info sp) ?m) = image_mset (\<lambda>k. merged_info (the (map_of ?m k))) (mset (map fst ?m))"
    by (auto simp: image_mset.compositionality comp_def intro!: image_mset_cong)
  moreover have "mset (map fst ?m) = mset_set (fst ` set ?m)" using mset_set_set[OF d] by simp
  ultimately show ?thesis by (simp add: Let_def bridge_nodes bridge_lists all_nodes_def)
qed

end
