(* ===== verification/Text.thy ===== *)
theory Text
  imports Prelude
begin

text \<open>
  The functions of the Rust standard library on text that the HTTP server and the file formats use: UTF-8 decoding, lines, words, the split at the first
  occurrence of a character, the parsing of an unsigned number, replacement. A \<^verbatim>\<open>String\<close> is the list of its bytes.
\<close>

section \<open>UTF-8\<close>

text \<open>
  One step of the decoder: how many bytes it consumes and whether they are a character. The second byte of a character has a
  range of its own, which depends on the first; a missing byte is read as 0, which is in no range.
\<close>

definition byte_at :: "nat \<Rightarrow> u8 list \<Rightarrow> nat" where
  "byte_at i bs = (if i < length bs then unat (bs ! i) else 0)"

definition between :: "nat \<Rightarrow> nat \<Rightarrow> nat \<Rightarrow> bool" where
  "between lo n hi \<longleftrightarrow> lo \<le> n \<and> n \<le> hi"

definition second_ok :: "nat \<Rightarrow> nat \<Rightarrow> bool" where
  "second_ok b c =
     (if b = 0xE0 then between 0xA0 c 0xBF
      else if b = 0xED then between 0x80 c 0x9F
      else if b = 0xF0 then between 0x90 c 0xBF
      else if b = 0xF4 then between 0x80 c 0x8F
      else between 0x80 c 0xBF)"

definition utf8_step :: "u8 list \<Rightarrow> nat \<times> bool" where
  "utf8_step bs =
     (let b = byte_at 0 bs; c = byte_at 1 bs; d = byte_at 2 bs; e = byte_at 3 bs in
      if b < 0x80 then (1, True)
      else if between 0xC2 b 0xDF then (if second_ok b c then (2, True) else (1, False))
      else if between 0xE0 b 0xEF then
        (if \<not> second_ok b c then (1, False) else if \<not> between 0x80 d 0xBF then (2, False) else (3, True))
      else if between 0xF0 b 0xF4 then
        (if \<not> second_ok b c then (1, False) else if \<not> between 0x80 d 0xBF then (2, False)
         else if \<not> between 0x80 e 0xBF then (3, False) else (4, True))
      else (1, False))"

lemma utf8_step_pos: "0 < fst (utf8_step bs)"
  by (simp add: utf8_step_def Let_def)

function utf8_valid :: "u8 list \<Rightarrow> bool" where
  "utf8_valid bs = (if bs = [] then True else if \<not> snd (utf8_step bs) then False else utf8_valid (drop (fst (utf8_step bs)) bs))"
  by auto
termination
  by (relation "measure length") (simp_all add: utf8_step_pos)

text \<open>\<^verbatim>\<open>String::from_utf8_lossy\<close>: every broken sequence becomes the replacement character.\<close>

function lossy_decode :: "u8 list \<Rightarrow> u8 list" where
  "lossy_decode bs =
     (if bs = [] then []
      else (if snd (utf8_step bs) then take (fst (utf8_step bs)) bs else [0xEF, 0xBF, 0xBD]) @
           lossy_decode (drop (fst (utf8_step bs)) bs))"
  by auto
termination
  by (relation "measure length") (simp_all add: utf8_step_pos)

declare utf8_valid.simps [simp del] lossy_decode.simps [simp del]

definition chars_of :: "u8 list \<Rightarrow> string" where
  "chars_of bs = map (\<lambda>b. char_of (unat b)) bs"

definition from_utf8 :: "u8 list \<Rightarrow> string option" where
  "from_utf8 bs = (if utf8_valid bs then Some (chars_of bs) else None)"

definition from_utf8_lossy :: "u8 list \<Rightarrow> string" where
  "from_utf8_lossy bs = chars_of (lossy_decode bs)"

lemma lossy_decode_valid: "utf8_valid bs \<Longrightarrow> lossy_decode bs = bs"
proof (induction bs rule: lossy_decode.induct)
  case (1 bs)
  then show ?case using utf8_valid.simps[of bs] by (subst lossy_decode.simps) (auto split: if_splits)
qed

lemma utf8_step_ascii: "bs \<noteq> [] \<Longrightarrow> unat (hd bs) < 128 \<Longrightarrow> utf8_step bs = (1, True)"
  by (cases bs) (simp_all add: utf8_step_def byte_at_def Let_def)

lemma utf8_valid_ascii: "\<forall>b\<in>set bs. unat b < 128 \<Longrightarrow> utf8_valid bs"
proof (induction bs)
  case (Cons b bs)
  then show ?case using utf8_step_ascii[of "b # bs"] by (subst utf8_valid.simps) simp
qed (subst utf8_valid.simps, simp)

lemma unat_of_char [simp]: "unat (of_char c :: u8) = of_char c"
proof -
  have "(of_char c :: u8) = of_nat (of_char c)" by (simp add: of_nat_of_char)
  moreover have "(of_char c :: nat) < 256" by simp
  ultimately show ?thesis by (simp add: unat_of_nat)
qed

lemma chars_of_bytes [simp]: "chars_of (as_bytes s) = s"
  by (simp add: chars_of_def as_bytes_def o_def)

section \<open>Lines, words and numbers\<close>

definition strip_cr :: "string \<Rightarrow> string" where
  "strip_cr l = (if l \<noteq> [] \<and> last l = CHR 0x0D then butlast l else l)"

text \<open>\<^verbatim>\<open>str::lines\<close>: a final line break ends the last line and starts no other.\<close>

definition str_lines :: "string \<Rightarrow> string list" where
  "str_lines s = (let ps = split_on (CHR 0x0A) s in map strip_cr (butlast ps) @ (if last ps = [] then [] else [last ps]))"

fun words_of :: "string \<Rightarrow> string \<Rightarrow> string list" where
  "words_of acc [] = (if acc = [] then [] else [rev acc])"
| "words_of acc (c # cs) =
     (if is_ws c then (if acc = [] then words_of [] cs else rev acc # words_of [] cs) else words_of (c # acc) cs)"

definition split_whitespace :: "string \<Rightarrow> string list" where
  "split_whitespace s = words_of [] s"

definition split_once :: "char \<Rightarrow> string \<Rightarrow> (string \<times> string) option" where
  "split_once c s = (if c \<in> set s then Some (takeWhile (\<lambda>x. x \<noteq> c) s, tl (dropWhile (\<lambda>x. x \<noteq> c) s)) else None)"

definition is_digit :: "char \<Rightarrow> bool" where
  "is_digit c \<longleftrightarrow> between 48 (of_char c) 57"

text \<open>\<^verbatim>\<open>parse::<usize>\<close>: an optional plus sign, at least one digit, and no overflow.\<close>

definition parse_uint :: "nat \<Rightarrow> string \<Rightarrow> nat option" where
  "parse_uint bits s =
     (let ds = (if s \<noteq> [] \<and> hd s = CHR ''+'' then tl s else s);
          n = dec_val (map (\<lambda>c. of_char c - 48) ds) 0
      in if ds \<noteq> [] \<and> list_all is_digit ds \<and> n < 2 ^ bits then Some n else None)"

definition replace_char :: "char \<Rightarrow> string \<Rightarrow> string \<Rightarrow> string" where
  "replace_char c r s = concat (map (\<lambda>x. if x = c then r else [x]) s)"

lemma starts_with_pos: "p \<noteq> [] \<and> starts_with p s \<Longrightarrow> length s - length p < length s"
  by (cases s) (auto simp: starts_with_def)

text \<open>\<^verbatim>\<open>trim_start_matches\<close> with a string: the prefix is removed as often as it occurs.\<close>

function trim_start_matches :: "string \<Rightarrow> string \<Rightarrow> string" where
  "trim_start_matches p s = (if p \<noteq> [] \<and> starts_with p s then trim_start_matches p (drop (length p) s) else s)"
  by auto
termination
  by (relation "measure (\<lambda>(p, s). length s)") (simp_all add: starts_with_pos)

declare trim_start_matches.simps [simp del]

text \<open>The position of the first window that equals a pattern.\<close>

fun window_pos :: "'a list \<Rightarrow> 'a list \<Rightarrow> nat option" where
  "window_pos p [] = (if p = [] then Some 0 else None)"
| "window_pos p (x # xs) = (if take (length p) (x # xs) = p then Some 0 else map_option Suc (window_pos p xs))"

lemma dec_str_nonempty [simp]: "dec_str n \<noteq> []"
  by (subst dec_str_def, subst dec_digits.simps) simp

lemma parse_uint_dec:
  assumes "n < 2 ^ bits"
  shows "parse_uint bits (dec_str n) = Some n"
proof -
  have "hd (dec_str n) \<in> set (dec_str n)" by simp
  then have "hd (dec_str n) \<noteq> CHR ''+''" using dec_str_digit[of "hd (dec_str n)" n] by auto
  moreover have "list_all is_digit (dec_str n)"
    using dec_str_digit by (auto simp: list_all_iff is_digit_def between_def)
  moreover have "map (\<lambda>c. of_char c - 48) (dec_str n) = dec_digits n"
    unfolding dec_str_def map_map o_def by (rule map_idI) (auto dest!: dec_digits_lt)
  ultimately show ?thesis using assms by (simp add: parse_uint_def Let_def dec_val_digits)
qed

lemma split_once_join: "c \<notin> set a \<Longrightarrow> split_once c (a @ c # b) = Some (a, b)"
  by (induction a) (auto simp: split_once_def)

lemma window_pos_Some: "window_pos p s = Some i \<Longrightarrow> p \<noteq> [] \<Longrightarrow> i + length p \<le> length s \<and> take (length p) (drop i s) = p"
proof (induction s arbitrary: i)
  case (Cons x xs)
  show ?case
  proof (cases "take (length p) (x # xs) = p")
    case True
    then have "length p \<le> length (x # xs)" by (metis length_take min.cobounded1)
    then show ?thesis using Cons.prems True by simp
  next
    case False
    then show ?thesis using Cons by auto
  qed
qed simp

end
