(* ===== verification/Dashboard_Http.thy ===== *)
theory Dashboard_Http
  imports Dashboard Text Controller Compute_Scheduler Storage_Layer
begin

text \<open>
  The dashboard as a client sees it: the service that answers its questions (\<^verbatim>\<open>dashboard/service.rs\<close>), the payloads
  (\<^verbatim>\<open>dashboard/api.rs\<close>), the dispatch on the path (\<^verbatim>\<open>dashboard/http.rs\<close>) and the server that reads a request from a
  connection and checks the token (\<^verbatim>\<open>dashboard/server.rs\<close>). The theorems: nothing is shown or done without the token, what each
  request may change, the page cannot be injected into, the response can be read back, the summary counts correctly.
\<close>

section \<open>Values and environment\<close>

datatype Json = JNull | JBool bool | JNum int | JStr string | JArr "Json list" | JObj "(string \<times> Json) list"

definition JNat :: "nat \<Rightarrow> Json" where
  "JNat n = JNum (int n)"

definition JOpt :: "string option \<Rightarrow> Json" where
  "JOpt s = (case s of Some t \<Rightarrow> JStr t | None \<Rightarrow> JNull)"

text \<open>
  The outside of a request: JSON printing and parsing, the texts of the errors, the file of the policy, the codecs, the clock, and what the awaited
  call of the network controller returns for a message. \<open>de_page\<close> is the fixed text of the HTML page between its eighteen gaps.
\<close>

record 'pk DashEnv =
  de_pretty :: "Json \<Rightarrow> string option"
  de_parse :: "string \<Rightarrow> string + Json"
  de_job :: "string \<Rightarrow> string + ComputeJobSpec"
  de_policy_json :: "PolicyConfig \<Rightarrow> Json"
  de_policy_pretty :: "PolicyConfig \<Rightarrow> string option"
  de_policy_file :: "string option"
  de_sec :: "'pk SecEnv"
  de_sec_text :: "SecurityError \<Rightarrow> string"
  de_auth_text :: "AuthorityError \<Rightarrow> string"
  de_compute :: ComputeEnv
  de_compute_text :: "ComputeError \<Rightarrow> string"
  de_parse_peer :: "string \<Rightarrow> string + string"
  de_peer :: "string \<Rightarrow> string option"
  de_b64 :: "u8 list \<Rightarrow> string"
  de_send :: "string \<Rightarrow> u8 list \<Rightarrow> string + u8 list"
  de_cores :: nat
  de_db_size :: u64
  de_clock :: WsClock
  de_page :: "string list"

abbreviation de_now :: "'pk DashEnv \<Rightarrow> string" where
  "de_now x \<equiv> wc_rfc3339 (de_clock x)"

section \<open>Service\<close>

record 'pk DashboardService =
  dv_store :: DashboardStore
  dv_world :: "WorldState option"
  dv_world_poisoned :: bool
  dv_security :: "'pk SecurityRuntime option"
  dv_authority :: "AuthorityManager option"
  dv_controller :: "'pk Controller option"
  dv_compute :: "Scheduler option"
  dv_compute_store :: "ComputeStore option"
  dv_storage :: "StorageLayer option"

definition service_new :: "DashboardStore \<Rightarrow> 'pk DashboardService" where
  "service_new st = \<lparr> dv_store = st, dv_world = None, dv_world_poisoned = False, dv_security = None, dv_authority = None,
     dv_controller = None, dv_compute = None, dv_compute_store = None, dv_storage = None \<rparr>"

definition compute_handle :: "'pk DashboardService \<Rightarrow> string + Scheduler" where
  "compute_handle s = (case dv_compute s of Some h \<Rightarrow> Inr h | None \<Rightarrow> Inl ''compute not available'')"

definition compute_store :: "'pk DashboardService \<Rightarrow> string + ComputeStore" where
  "compute_store s = (case dv_compute_store s of Some st \<Rightarrow> Inr st | None \<Rightarrow> Inl ''compute store not available'')"

definition compute_capacity :: "'pk DashEnv \<Rightarrow> 'pk DashboardService \<Rightarrow> string + Json" where
  "compute_capacity x s =
     (case compute_handle s of
        Inl e \<Rightarrow> Inl e
      | Inr h \<Rightarrow>
          (case dv_controller s of
             None \<Rightarrow> Inl ''no controller''
           | Some c \<Rightarrow>
               let cap = capacity_current (de_cores x) (wc_secs (de_clock x)) (ct_local c) h in
               Inr (JObj [(''peer_id'', JStr (nc_peer_id cap)), (''available_cores'', JNat (nc_available_cores cap)),
                 (''available_memory_mb'', JNat (unat (nc_available_memory_mb cap))), (''queue_depth'', JNat (nc_queue_depth cap)),
                 (''accepting_jobs'', JBool (nc_accepting_jobs cap)), (''updated_at'', JNat (unat (nc_updated_at cap)))])))"

definition compute_store_stats :: "'pk DashboardService \<Rightarrow> string + Json" where
  "compute_store_stats s =
     (case compute_store s of
        Inl e \<Rightarrow> Inl e
      | Inr st \<Rightarrow> Inr (JObj [(''queue_depth'', JNat (queue_depth st)), (''result_count'', JNat (result_count st))]))"

definition compute_db_stats :: "'pk DashEnv \<Rightarrow> 'pk DashboardService \<Rightarrow> string + Json" where
  "compute_db_stats x s =
     (case compute_store s of
        Inl e \<Rightarrow> Inl e
      | Inr st \<Rightarrow> Inr (JObj [(''db_size_on_disk'', JNat (unat (de_db_size x))), (''total_trees'', JNum 3)]))"

definition storage_stats :: "'pk DashboardService \<Rightarrow> StorageStats" where
  "storage_stats s =
     (case dv_storage s of
        Some sl \<Rightarrow> sl_stats sl
      | None \<Rightarrow> \<lparr> objects_stored = 0, chunks_stored = 0, bytes_stored = 0, chunks_served = 0, bytes_served = 0 \<rparr>)"

definition readable_world :: "'pk DashboardService \<Rightarrow> WorldState option" where
  "readable_world s = (if dv_world_poisoned s then None else dv_world s)"

definition world_snapshot :: "'pk DashEnv \<Rightarrow> 'pk DashboardService \<Rightarrow> WorldStateSnapshot option" where
  "world_snapshot x s = map_option (ws_snapshot (de_clock x)) (readable_world s)"

definition no_security :: string where
  "no_security = ''Security runtime not available''"

definition dash_policy_status :: "'pk DashboardService \<Rightarrow> string + PolicyConfig" where
  "dash_policy_status s = (case dv_security s of Some r \<Rightarrow> Inr (policy_status r) | None \<Rightarrow> Inl no_security)"

definition export_policy_rules :: "'pk DashEnv \<Rightarrow> 'pk DashboardService \<Rightarrow> string + string" where
  "export_policy_rules x s =
     (case dv_security s of
        None \<Rightarrow> Inl no_security
      | Some r \<Rightarrow>
          (case read_protected (\<lambda>p. Some (case de_policy_pretty x (policy_config p) of
                  Some t \<Rightarrow> Inr t | None \<Rightarrow> Inl (CryptoError ''serialization''))) r of
             Inr t \<Rightarrow> Inr t
           | Inl e \<Rightarrow> Inl (de_sec_text x e)))"

definition dash_reload_policy :: "'pk DashEnv \<Rightarrow> 'pk DashboardService \<Rightarrow> (string + unit) \<times> 'pk DashboardService" where
  "dash_reload_policy x s =
     (case dv_security s of
        None \<Rightarrow> (Inl no_security, s)
      | Some r \<Rightarrow>
          (case rt_load_policy_from_file (de_sec x) (de_policy_file x) r of
             (Inr u, r) \<Rightarrow> (Inr (), s\<lparr> dv_security := Some r \<rparr>)
           | (Inl e, r) \<Rightarrow> (Inl (de_sec_text x e), s\<lparr> dv_security := Some r \<rparr>)))"

definition get_authority_state :: "'pk DashEnv \<Rightarrow> 'pk DashboardService \<Rightarrow> string + AuthorityState" where
  "get_authority_state x s =
     (case dv_authority s of
        None \<Rightarrow> Inl ''Authority manager not available''
      | Some a \<Rightarrow> (case get_snapshot a of Inr st \<Rightarrow> Inr st | Inl e \<Rightarrow> Inl (de_auth_text x e)))"

text \<open>A call of the controller: the peer and the bytes handed to \<^verbatim>\<open>send_direct_message\<close>, and its outcome.\<close>

type_synonym sends = "(string \<times> u8 list) list"

definition dash_send :: "'pk DashEnv \<Rightarrow> string \<Rightarrow> string \<Rightarrow> 'pk DashboardService \<Rightarrow> (string + string) \<times> sends" where
  "dash_send x peer msg s =
     (case dv_controller s of
        None \<Rightarrow> (Inl ''NetworkController not attached'', [])
      | Some c \<Rightarrow>
          (case de_send x peer (as_bytes msg) of
             Inr body \<Rightarrow> (Inr (from_utf8_lossy body), [(peer, as_bytes msg)])
           | Inl e \<Rightarrow> (Inl e, [(peer, as_bytes msg)])))"

record DashboardSummary =
  su_total_nodes :: nat
  su_supernodes :: nat
  su_relays :: nat
  su_clients :: nat
  su_healthy_nodes :: nat
  su_degraded_nodes :: nat
  su_critical_nodes :: nat
  su_connected_peers :: nat
  su_known_peers :: nat
  su_route_peers :: nat
  su_trusted_peers :: nat
  su_updated_at :: string
  su_status :: string

definition norm_text :: "string \<Rightarrow> string" where
  "norm_text s = str_lower (str_trim s)"

definition count_text :: "string \<Rightarrow> string list \<Rightarrow> nat" where
  "count_text w ts = length (filter (\<lambda>t. t = w) ts)"

text \<open>
  The registry of the world state is used when it is readable and not empty; otherwise the store is, whose counters are added
  as machine words.
\<close>

definition peers_of_world :: "WorldState \<Rightarrow> string list \<times> nat \<times> nat \<times> nat \<times> nat" where
  "peers_of_world w =
     (let ps = map snd (peer_registry w); up = filter ps_connected ps in
      (map (\<lambda>p. case ps_role p of Some r \<Rightarrow> norm_text r | None \<Rightarrow> []) up, length up, length ps,
       length (filter (\<lambda>p. ps_routes p \<noteq> []) up), length (filter ps_trusted up)))"

definition peers_of_store :: "string \<Rightarrow> DashboardStore \<Rightarrow> string list \<times> nat \<times> nat \<times> nat \<times> nat" where
  "peers_of_store now st =
     (let ns = all_nodes st; reports = map the (filter (\<lambda>h. h \<noteq> None) (map (\<lambda>n. node_health now st (ni_key n)) ns)) in
      (map (\<lambda>n. norm_text (ni_role n)) ns,
       unat (sum_list (map nh_connected_peers reports)), unat (sum_list (map nh_known_peers reports)),
       unat (sum_list (map nh_route_peers reports)), unat (sum_list (map nh_trusted_peers reports))))"

definition node_levels :: "DashboardStore \<Rightarrow> string list" where
  "node_levels st = map (\<lambda>n. norm_text (case ni_health_level n of Some l \<Rightarrow> l | None \<Rightarrow> ''unknown'')) (all_nodes st)"

definition summary :: "'pk DashEnv \<Rightarrow> 'pk DashboardService \<Rightarrow> DashboardSummary" where
  "summary x s =
     (let levels = node_levels (dv_store s);
          healthy = count_text ''healthy'' levels; degraded = count_text ''degraded'' levels; critical = count_text ''critical'' levels;
          from_store = peers_of_store (de_now x) (dv_store s);
          (roles, conn, known, routed, trusted) =
            (case readable_world s of
               Some w \<Rightarrow> if peer_registry w \<noteq> [] then peers_of_world w else from_store
             | None \<Rightarrow> from_store)
      in \<lparr> su_total_nodes = length levels, su_supernodes = count_text ''supernode'' roles, su_relays = count_text ''relay'' roles,
           su_clients = count_text ''client'' roles, su_healthy_nodes = healthy, su_degraded_nodes = degraded,
           su_critical_nodes = critical, su_connected_peers = conn, su_known_peers = known, su_route_peers = routed,
           su_trusted_peers = trusted, su_updated_at = de_now x,
           su_status = (if critical > 0 then ''critical'' else if degraded > 0 then ''degraded''
                        else if healthy > 0 then ''healthy'' else ''unknown'') \<rparr>)"

definition last_items :: "nat \<Rightarrow> 'a list \<Rightarrow> 'a list" where
  "last_items limit xs = (if length xs > limit then drop (length xs - limit) xs else xs)"

definition dash_logs :: "nat \<Rightarrow> string option \<Rightarrow> string option \<Rightarrow> 'pk DashboardService \<Rightarrow> LogEvent list" where
  "dash_logs limit level node_id s =
     (let items = ds_logs (dv_store s);
          items = (case level of
              Some l \<Rightarrow> if norm_text l \<noteq> [] then filter (\<lambda>e. norm_text (le_level e) = norm_text l) items else items
            | None \<Rightarrow> items);
          items = (case node_id of
              Some n \<Rightarrow> if str_trim n \<noteq> [] then filter (\<lambda>e. le_node_id e = str_trim n) items else items
            | None \<Rightarrow> items)
      in last_items limit items)"

section \<open>Payloads\<close>

definition jobj_ok :: "'pk DashEnv \<Rightarrow> (string \<times> Json) list \<Rightarrow> Json" where
  "jobj_ok x fs = JObj ([(''ok'', JBool True), (''timestamp'', JStr (de_now x))] @ fs)"

definition jobj_failed :: "'pk DashEnv \<Rightarrow> (string \<times> Json) list \<Rightarrow> Json" where
  "jobj_failed x fs = JObj ([(''ok'', JBool False), (''timestamp'', JStr (de_now x))] @ fs)"

definition jerror :: "string \<Rightarrow> Json" where
  "jerror e = JObj [(''ok'', JBool False), (''error'', JStr e)]"

definition jinfo :: "NodeInfo \<Rightarrow> Json" where
  "jinfo i = JObj [(''node_id'', JStr (ni_node_id i)), (''peer_id'', JStr (ni_peer_id i)), (''role'', JStr (ni_role i)),
     (''state'', JStr (ni_state i)), (''health_level'', JOpt (ni_health_level i)), (''public_listen'', JOpt (ni_public_listen i)),
     (''location'', JOpt (ni_location i)), (''last_seen'', JOpt (ni_last_seen i))]"

definition jhealth :: "NodeHealth \<Rightarrow> Json" where
  "jhealth h = JObj [(''node_id'', JStr (nh_node_id h)), (''peer_id'', JStr (nh_peer_id h)), (''role'', JStr (nh_role h)),
     (''state'', JStr (nh_state h)), (''health_level'', JStr (nh_health_level h)), (''decision'', JStr (nh_decision h)),
     (''reason'', JStr (nh_reason h)), (''connected_peers'', JNat (unat (nh_connected_peers h))),
     (''known_peers'', JNat (unat (nh_known_peers h))), (''route_peers'', JNat (unat (nh_route_peers h))),
     (''trusted_peers'', JNat (unat (nh_trusted_peers h))),
     (''ping_ms_avg'', (case nh_ping_ms_avg h of Some m \<Rightarrow> JNat (unat m) | None \<Rightarrow> JNull)),
     (''bootstrap_ok'', JBool (nh_bootstrap_ok h)), (''gateway_ok'', JBool (nh_gateway_ok h)), (''web_ok'', JBool (nh_web_ok h)),
     (''config_ok'', JBool (nh_config_ok h)), (''tamper_detected'', JBool (nh_tamper_detected h)),
     (''failure_count'', JNat (unat (nh_failure_count h))), (''last_failure_reason'', JOpt (nh_last_failure_reason h)),
     (''updated_at'', JStr (nh_updated_at h)), (''public_listen'', JOpt (nh_public_listen h)), (''location'', JOpt (nh_location h))]"

definition jroute :: "RouteInfo \<Rightarrow> Json" where
  "jroute r = JObj [(''from_peer'', JStr (ri_from_peer r)), (''to_peer'', JStr (ri_to_peer r)), (''hops'', JArr (map JStr (ri_hops r))),
     (''latency_ms'', (case ri_latency_ms r of Some m \<Rightarrow> JNat (unat m) | None \<Rightarrow> JNull)), (''trusted'', JBool (ri_trusted r)),
     (''active'', JBool (ri_active r)), (''updated_at'', JStr (ri_updated_at r))]"

definition jlog :: "LogEvent \<Rightarrow> Json" where
  "jlog l = JObj [(''ts'', JStr (le_ts l)), (''node_id'', JStr (le_node_id l)), (''level'', JStr (le_level l)),
     (''event'', JStr (le_event l)), (''message'', JStr (le_message l))]"

definition text_default :: "string \<Rightarrow> string option \<Rightarrow> string" where
  "text_default d s = (case s of Some t \<Rightarrow> t | None \<Rightarrow> d)"

definition world_payload :: "'pk DashEnv \<Rightarrow> 'pk DashboardService \<Rightarrow> Json" where
  "world_payload x s =
     (case world_snapshot x s of
        Some sp \<Rightarrow> JObj [(''available'', JBool True), (''authority_version'', JNat (unat (sn_authority_version sp))),
          (''authority_hash'', JStr (text_default ''none'' (sn_authority_hash sp))), (''ghost_state'', JStr (sn_ghost_state sp)),
          (''health_level'', JStr (sn_health_level sp)), (''connected_peers'', JNat (sn_connected_peers sp)),
          (''known_peers'', JNat (sn_known_peers sp)), (''route_peers'', JNat (sn_route_peers sp)),
          (''trusted_peers'', JNat (sn_trusted_peers sp)), (''last_signal'', JStr (text_default ''-'' (sn_last_signal sp))),
          (''last_updated_at'', JStr (text_default ''unknown'' (sn_last_updated_at sp)))]
      | None \<Rightarrow> JObj [(''available'', JBool False), (''authority_version'', JNum 0), (''authority_hash'', JStr ''none''),
          (''ghost_state'', JStr ''unknown''), (''health_level'', JStr ''unknown''), (''connected_peers'', JNum 0),
          (''known_peers'', JNum 0), (''route_peers'', JNum 0), (''trusted_peers'', JNum 0), (''last_signal'', JStr ''-''),
          (''last_updated_at'', JStr ''unknown'')])"

definition dashboard_payload :: "'pk DashEnv \<Rightarrow> 'pk DashboardService \<Rightarrow> Json" where
  "dashboard_payload x s =
     (let u = summary x s; st = storage_stats s;
          cluster = [(''total_nodes'', JNat (su_total_nodes u)), (''supernodes'', JNat (su_supernodes u)), (''relays'', JNat (su_relays u)),
            (''clients'', JNat (su_clients u)), (''healthy_nodes'', JNat (su_healthy_nodes u)),
            (''degraded_nodes'', JNat (su_degraded_nodes u)), (''critical_nodes'', JNat (su_critical_nodes u))];
          network = [(''connected_peers'', JNat (su_connected_peers u)), (''known_peers'', JNat (su_known_peers u)),
            (''route_peers'', JNat (su_route_peers u)), (''trusted_peers'', JNat (su_trusted_peers u))]
      in jobj_ok x [(''summary'', JObj (cluster @ network @ [(''updated_at'', JStr (su_updated_at u)), (''status'', JStr (su_status u))])),
           (''cluster'', JObj cluster), (''network'', JObj network), (''world'', world_payload x s),
           (''storage'', JObj [(''objects_stored'', JNat (objects_stored st)), (''chunks_stored'', JNat (chunks_stored st)),
              (''bytes_stored'', JNat (bytes_stored st)), (''bytes_served'', JNat (bytes_served st))]),
           (''status'', JStr (su_status u))])"

definition nodes_payload :: "'pk DashEnv \<Rightarrow> 'pk DashboardService \<Rightarrow> Json" where
  "nodes_payload x s = jobj_ok x [(''nodes'', JArr (map jinfo (all_nodes (dv_store s))))]"

definition node_payload :: "'pk DashEnv \<Rightarrow> string \<Rightarrow> 'pk DashboardService \<Rightarrow> Json" where
  "node_payload x node_id s =
     (case node_health (de_now x) (dv_store s) node_id of
        Some h \<Rightarrow> jobj_ok x [(''node'', jhealth h)]
      | None \<Rightarrow> jobj_failed x [(''error'', JStr ''not_found''), (''node_id'', JStr node_id)])"

definition routes_payload :: "'pk DashEnv \<Rightarrow> 'pk DashboardService \<Rightarrow> Json" where
  "routes_payload x s = jobj_ok x [(''routes'', JArr (map jroute (ds_routes (dv_store s))))]"

definition logs_payload :: "'pk DashEnv \<Rightarrow> nat \<Rightarrow> string option \<Rightarrow> string option \<Rightarrow> 'pk DashboardService \<Rightarrow> Json" where
  "logs_payload x limit level node_id s = jobj_ok x [(''logs'', JArr (map jlog (dash_logs limit level node_id s)))]"

definition authority_payload :: "'pk DashEnv \<Rightarrow> 'pk DashboardService \<Rightarrow> Json" where
  "authority_payload x s =
     (case get_authority_state x s of
        Inl e \<Rightarrow> jobj_failed x [(''error'', JStr e)]
      | Inr a \<Rightarrow>
          let r = AuthorityState.root a; p = policies a in
          jobj_ok x [(''authority'', JObj [(''version'', JNat (unat (version a))),
            (''root'', JObj [(''name'', JStr (root_name r)), (''issuer'', JStr (issuer r)), (''active'', JBool (active r)),
               (''updated_at'', JNat (updated_at r))]),
            (''supernodes'', JArr (map JStr (AuthorityState.supernodes a))),
            (''allowed_peers_count'', JNat (length (allowed_peers a))),
            (''policies'', JObj [(''max_connections'', JNat (max_connections p)), (''allow_unknown_peers'', JBool (allow_unknown_peers p)),
               (''require_signed_messages'', JBool (require_signed_messages p)), (''allow_gateway_traffic'', JBool (allow_gateway_traffic p)),
               (''allow_route_transit'', JBool (allow_route_transit p)), (''allow_web_traffic'', JBool (allow_web_traffic p))]),
            (''hash'', JStr (de_b64 x (AuthorityState.hash a))), (''signature'', JStr (de_b64 x (AuthorityState.signature a)))])])"

definition policy_status_payload :: "'pk DashEnv \<Rightarrow> 'pk DashboardService \<Rightarrow> Json" where
  "policy_status_payload x s =
     (case dash_policy_status s of
        Inr c \<Rightarrow> JObj [(''ok'', JBool True), (''policy'', de_policy_json x c)]
      | Inl e \<Rightarrow> jerror e)"

definition policy_export_payload :: "'pk DashEnv \<Rightarrow> 'pk DashboardService \<Rightarrow> Json" where
  "policy_export_payload x s =
     (case export_policy_rules x s of
        Inr t \<Rightarrow> JObj [(''ok'', JBool True), (''rules'', JStr t)]
      | Inl e \<Rightarrow> jerror e)"

definition policy_reload_payload :: "'pk DashEnv \<Rightarrow> 'pk DashboardService \<Rightarrow> Json \<times> 'pk DashboardService" where
  "policy_reload_payload x s =
     (case dash_reload_policy x s of
        (Inr u, s) \<Rightarrow> (JObj [(''ok'', JBool True)], s)
      | (Inl e, s) \<Rightarrow> (jerror e, s))"

definition send_message_payload :: "'pk DashEnv \<Rightarrow> string \<Rightarrow> string \<Rightarrow> 'pk DashboardService \<Rightarrow> Json \<times> sends" where
  "send_message_payload x peer_id msg s =
     (case de_parse_peer x peer_id of
        Inl e \<Rightarrow> (jobj_failed x [(''error'', JStr (''Invalid peer_id: '' @ e))], [])
      | Inr peer \<Rightarrow>
          (case dash_send x peer msg s of
             (Inr text, out) \<Rightarrow> (jobj_ok x [(''reply'', JStr text)], out)
           | (Inl e, out) \<Rightarrow> (jobj_failed x [(''error'', JStr e)], out)))"

definition handle_compute_submit :: "'pk DashEnv \<Rightarrow> string \<Rightarrow> 'pk DashboardService \<Rightarrow> (string + Json) \<times> 'pk DashboardService" where
  "handle_compute_submit x body s =
     (case compute_handle s of
        Inl e \<Rightarrow> (Inl e, s)
      | Inr h \<Rightarrow>
          (case de_job x body of
             Inl e \<Rightarrow> (Inl e, s)
           | Inr spec \<Rightarrow>
               (case submit_job (de_compute x) (de_peer x) (unat (wc_secs (de_clock x))) spec h of
                  (Inl e, h) \<Rightarrow> (Inl (de_compute_text x e), s\<lparr> dv_compute := Some h \<rparr>)
                | (Inr jid, h) \<Rightarrow> (Inr (JObj [(''ok'', JBool True), (''job_id'', JStr jid)]), s\<lparr> dv_compute := Some h \<rparr>))))"

definition handle_compute_status :: "'pk DashEnv \<Rightarrow> string \<Rightarrow> 'pk DashboardService \<Rightarrow> string + Json" where
  "handle_compute_status x job s =
     (case compute_store s of
        Inl e \<Rightarrow> Inl e
      | Inr st \<Rightarrow>
          (case get_result (de_compute x) job st of
             Inl e \<Rightarrow> Inl (de_compute_text x e)
           | Inr None \<Rightarrow> Inl ''job not found''
           | Inr (Some r) \<Rightarrow> Inr (JObj [(''ok'', JBool True), (''job_id'', JStr job), (''status'', JStr (status_as_str (cr_status r))),
               (''output'', JStr (de_b64 x (cr_output r))), (''stderr'', JStr (de_b64 x (cr_stderr r))),
               (''exec_time_ms'', JNat (unat (cr_exec_time_ms r))), (''fuel_consumed'', JNat (unat (cr_fuel_consumed r))),
               (''exit_code'', JNum (cr_exit_code r)), (''executor_peer_id'', JStr (cr_executor_peer_id r))])))"

section \<open>Dispatch\<close>

record DashboardHttpResponse =
  hr_status :: nat
  hr_content_type :: string
  hr_body :: string
  hr_headers :: "(string \<times> string) list"

definition resp_json :: "nat \<Rightarrow> string \<Rightarrow> DashboardHttpResponse" where
  "resp_json status body = \<lparr> hr_status = status, hr_content_type = ''application/json; charset=utf-8'', hr_body = body,
     hr_headers = [(''x-ess-dashboard'', ''1'')] \<rparr>"

definition resp_html :: "nat \<Rightarrow> string \<Rightarrow> DashboardHttpResponse" where
  "resp_html status body = \<lparr> hr_status = status, hr_content_type = ''text/html; charset=utf-8'', hr_body = body,
     hr_headers = [(''x-ess-dashboard'', ''1'')] \<rparr>"

text \<open>A pair without an equals sign ends the search.\<close>

fun query_pairs :: "string \<Rightarrow> string list \<Rightarrow> string option" where
  "query_pairs key [] = None"
| "query_pairs key (p # ps) =
     (case split_once (CHR ''='') p of
        None \<Rightarrow> None
      | Some (k, v) \<Rightarrow> if str_trim k = key then Some (replace_char (CHR ''+'') '' '' (str_trim v)) else query_pairs key ps)"

definition parse_query_value :: "string \<Rightarrow> string \<Rightarrow> string option" where
  "parse_query_value query key = query_pairs key (split_on (CHR ''&'') query)"

definition parse_limit :: "string option \<Rightarrow> nat" where
  "parse_limit query =
     (case Option.bind (Option.bind query (\<lambda>q. parse_query_value q ''limit'')) (parse_uint 64) of Some n \<Rightarrow> n | None \<Rightarrow> 200)"

definition parse_optional_str :: "string option \<Rightarrow> string \<Rightarrow> string option" where
  "parse_optional_str query key =
     (case Option.bind query (\<lambda>q. parse_query_value q key) of
        None \<Rightarrow> None
      | Some v \<Rightarrow> let t = str_trim v in if t = [] then None else Some t)"

definition json_response :: "'pk DashEnv \<Rightarrow> nat \<Rightarrow> Json \<Rightarrow> DashboardHttpResponse" where
  "json_response x status v = resp_json status
     (case de_pretty x v of Some t \<Rightarrow> t | None \<Rightarrow> ''{'' @ [CHR 0x22] @ ''ok'' @ [CHR 0x22] @ '':false,'' @ [CHR 0x22] @ ''error'' @ [CHR 0x22] @
        '':'' @ [CHR 0x22] @ ''serialize_failed'' @ [CHR 0x22] @ ''}'')"

definition html_escape :: "string \<Rightarrow> string" where
  "html_escape s =
     replace_char (CHR 0x27) ''&#39;'' (replace_char (CHR 0x22) ''&quot;'' (replace_char (CHR ''>'') ''&gt;''
       (replace_char (CHR ''<'') ''&lt;'' (replace_char (CHR ''&'') ''&amp;'' s))))"

definition page_values :: "'pk DashEnv \<Rightarrow> 'pk DashboardService \<Rightarrow> string list" where
  "page_values x s =
     (let u = summary x s; w = world_snapshot x s;
          ver = (case w of Some sp \<Rightarrow> unat (sn_authority_version sp) | None \<Rightarrow> 0);
          full = text_default ''none'' (Option.bind w sn_authority_hash);
          short = (if full = ''none'' then ''none'' else take 8 full);
          ghost = (case w of Some sp \<Rightarrow> sn_ghost_state sp | None \<Rightarrow> ''unknown'');
          health = (case w of Some sp \<Rightarrow> sn_health_level sp | None \<Rightarrow> ''unknown'');
          sig = text_default ''-'' (Option.bind w sn_last_signal)
      in [html_escape (su_status u), str_upper (html_escape (su_status u)), html_escape (su_updated_at u), dec_str ver, html_escape full,
          html_escape short, str_upper (html_escape ghost), html_escape health, str_upper (html_escape health), html_escape sig,
          dec_str (su_total_nodes u), dec_str (su_healthy_nodes u), dec_str (su_degraded_nodes u), dec_str (su_critical_nodes u),
          dec_str (su_connected_peers u), dec_str (su_known_peers u), dec_str (su_route_peers u), dec_str (su_trusted_peers u)])"

fun fill_page :: "string list \<Rightarrow> string list \<Rightarrow> string" where
  "fill_page (t # ts) (v # vs) = t @ v @ fill_page ts vs"
| "fill_page ts vs = concat ts"

definition json_field :: "string \<Rightarrow> Json \<Rightarrow> string" where
  "json_field k v = (case v of JObj fs \<Rightarrow> (case map_of fs k of Some (JStr t) \<Rightarrow> t | _ \<Rightarrow> []) | _ \<Rightarrow> [])"

definition send_endpoint :: "'pk DashEnv \<Rightarrow> string option \<Rightarrow> 'pk DashboardService \<Rightarrow> DashboardHttpResponse \<times> sends" where
  "send_endpoint x body s =
     (case body of
        None \<Rightarrow> (json_response x 400 (jerror ''missing body''), [])
      | Some b \<Rightarrow>
          (case de_parse x b of
             Inl e \<Rightarrow> (json_response x 200 (jerror (''invalid json: '' @ e)), [])
           | Inr v \<Rightarrow>
               let peer = json_field ''peer_id'' v; msg = json_field ''message'' v in
               if peer = [] \<or> msg = [] then (json_response x 200 (jerror ''peer_id and message required''), [])
               else (case send_message_payload x peer msg s of (payload, out) \<Rightarrow> (json_response x 200 payload, out))))"

definition submit_endpoint :: "'pk DashEnv \<Rightarrow> string option \<Rightarrow> 'pk DashboardService \<Rightarrow> DashboardHttpResponse \<times> 'pk DashboardService" where
  "submit_endpoint x body s =
     (case body of
        None \<Rightarrow> (json_response x 400 (jerror ''missing body''), s)
      | Some b \<Rightarrow>
          (case handle_compute_submit x b s of
             (Inr payload, s) \<Rightarrow> (json_response x 200 payload, s)
           | (Inl e, s) \<Rightarrow> (json_response x 400 (jerror e), s)))"

definition or_error :: "'pk DashEnv \<Rightarrow> nat \<Rightarrow> string + Json \<Rightarrow> DashboardHttpResponse" where
  "or_error x code r = (case r of Inr payload \<Rightarrow> json_response x 200 payload | Inl e \<Rightarrow> json_response x code (jerror e))"

definition read_only :: "DashboardHttpResponse \<Rightarrow> 'pk DashboardService \<Rightarrow> DashboardHttpResponse option \<times> 'pk DashboardService \<times> sends" where
  "read_only r s = (Some r, s, [])"

definition dashboard_page :: "'pk DashEnv \<Rightarrow> bool \<Rightarrow> 'pk DashboardService \<Rightarrow> DashboardHttpResponse" where
  "dashboard_page x accept_json s =
     (if accept_json then json_response x 200 (dashboard_payload x s)
      else resp_html 200 (fill_page (de_page x) (page_values x s)))"

definition handle_dashboard_http :: "'pk DashEnv \<Rightarrow> string \<Rightarrow> string \<Rightarrow> string option \<Rightarrow> bool \<Rightarrow> string option \<Rightarrow> string option \<Rightarrow>
    'pk DashboardService \<Rightarrow> DashboardHttpResponse option \<times> 'pk DashboardService \<times> sends" where
  "handle_dashboard_http x meth path query accept_json body token s =
     (let meth = str_upper (str_trim meth); path = str_trim path; none = (None, s, []); show = (\<lambda>r. read_only r s);
          get = (\<lambda>r. if meth \<noteq> ''GET'' then none else show r);
          denied = show (json_response x 403 (jerror ''admin token required'')) in
      if meth \<noteq> ''GET'' \<and> meth \<noteq> ''POST'' then none
      else if path = ''/api/ess/dashboard'' then get (json_response x 200 (dashboard_payload x s))
      else if path = ''/api/ess/nodes'' then get (json_response x 200 (nodes_payload x s))
      else if path = ''/api/ess/routes'' then get (json_response x 200 (routes_payload x s))
      else if path = ''/api/ess/logs'' then
        get (json_response x 200 (logs_payload x (parse_limit query) (parse_optional_str query ''level'')
          (case parse_optional_str query ''node_id'' of Some n \<Rightarrow> Some n | None \<Rightarrow> parse_optional_str query ''nodeId'') s))
      else if path = ''/api/ess/authority'' then
        (if meth \<noteq> ''GET'' then none else if token = None then denied else show (json_response x 200 (authority_payload x s)))
      else if path = ''/api/policy'' then get (json_response x 200 (policy_status_payload x s))
      else if path = ''/api/policy/export'' then get (json_response x 200 (policy_export_payload x s))
      else if path = ''/api/policy/reload'' then
        (if meth \<noteq> ''POST'' then none else if token = None then denied
         else case policy_reload_payload x s of (payload, s') \<Rightarrow> (Some (json_response x 200 payload), s', []))
      else if path = ''/api/ess/send'' then
        (if meth \<noteq> ''POST'' then none else if token = None then denied
         else case send_endpoint x body s of (r, out) \<Rightarrow> (Some r, s, out))
      else if path = ''/api/ess/compute/submit'' then
        (if meth \<noteq> ''POST'' then none else if token = None then denied
         else case submit_endpoint x body s of (r, s') \<Rightarrow> (Some r, s', []))
      else if path = ''/api/ess/compute/capacity'' then get (or_error x 500 (compute_capacity x s))
      else if path = ''/api/ess/compute/stats'' then get (or_error x 500 (compute_store_stats s))
      else if path = ''/api/ess/compute/db-stats'' then get (or_error x 500 (compute_db_stats x s))
      else if starts_with ''/api/ess/compute/status/'' path then
        (let job = str_trim (trim_start_matches ''/api/ess/compute/status/'' path) in
         get (if job = [] then json_response x 400 (jerror ''missing job_id'') else or_error x 404 (handle_compute_status x job s)))
      else if starts_with ''/api/ess/nodes/'' path then
        (let node = str_trim (trim_start_matches ''/api/ess/nodes/'' path) in
         get (if node = [] then json_response x 400 (jerror ''missing_node_id'') else json_response x 200 (node_payload x node s)))
      else if path = ''/'' \<or> path = ''/dashboard'' then get (dashboard_page x accept_json s)
      else none)"

section \<open>Server\<close>

definition reason_phrase :: "nat \<Rightarrow> string" where
  "reason_phrase status =
     (if status = 200 then ''OK'' else if status = 400 then ''Bad Request'' else if status = 404 then ''Not Found''
      else if status = 405 then ''Method Not Allowed'' else if status = 500 then ''Internal Server Error''
      else if status = 401 then ''Unauthorized'' else ''OK'')"

definition crlf :: string where
  "crlf = [CHR 0x0D, CHR 0x0A]"

definition header_line :: "string \<Rightarrow> string \<Rightarrow> string" where
  "header_line k v = k @ '': '' @ v @ crlf"

definition fixed_headers :: string where
  "fixed_headers = header_line ''Access-Control-Allow-Origin'' ''http://localhost:8080'' @
     header_line ''Access-Control-Allow-Methods'' ''GET, POST, OPTIONS'' @
     header_line ''Access-Control-Allow-Headers'' ''Authorization, Content-Type'' @
     header_line ''X-Content-Type-Options'' ''nosniff'' @ header_line ''X-Frame-Options'' ''DENY''"

definition build_http_response :: "nat \<Rightarrow> string \<Rightarrow> (string \<times> string) list \<Rightarrow> string \<Rightarrow> string" where
  "build_http_response status content_type headers body =
     ''HTTP/1.1 '' @ dec_str status @ '' '' @ reason_phrase status @ crlf @ header_line ''Content-Type'' content_type @
     header_line ''Content-Length'' (dec_str (length body)) @ header_line ''Connection'' ''close'' @ fixed_headers @
     concat (map (\<lambda>(k, v). header_line k v) headers) @ crlf @ body"

text \<open>The comparison in constant time has the result of the comparison.\<close>

definition verify_token_constant_time :: "u8 list \<Rightarrow> u8 list \<Rightarrow> bool" where
  "verify_token_constant_time expected provided \<longleftrightarrow> length expected = length provided \<and> expected = provided"

text \<open>
  What the socket delivers: the results of the calls of \<^verbatim>\<open>read\<close>, an error as \<^const>\<open>None\<close>; an empty result and the end of the list
  are the end of the stream. The result is the buffer, the end of the headers and what is left to read.
\<close>

fun read_headers :: "u8 list \<Rightarrow> u8 list option list \<Rightarrow> (u8 list \<times> nat \<times> u8 list option list) option" where
  "read_headers buf [] = None"
| "read_headers buf (None # cs) = None"
| "read_headers buf (Some bs # cs) =
     (if bs = [] then None
      else let buf = buf @ bs in
        case window_pos (as_bytes (crlf @ crlf)) buf of
          Some pos \<Rightarrow> Some (buf, pos + 4, cs)
        | None \<Rightarrow> if length buf > 16384 then None else read_headers buf cs)"

fun read_body :: "nat \<Rightarrow> u8 list \<Rightarrow> u8 list option list \<Rightarrow> u8 list" where
  "read_body want buf [] = buf"
| "read_body want buf (None # cs) = buf"
| "read_body want buf (Some bs # cs) = (if length buf < want \<and> bs \<noteq> [] then read_body want (buf @ bs) cs else buf)"

definition find_header :: "string \<Rightarrow> string list \<Rightarrow> string option" where
  "find_header name ls =
     (case filter (\<lambda>l. starts_with name (str_lower l)) ls of
        [] \<Rightarrow> None
      | l # _ \<Rightarrow> map_option (\<lambda>(_, v). str_trim v) (split_once (CHR '':'') l))"

fun contains :: "string \<Rightarrow> string \<Rightarrow> bool" where
  "contains p [] = (p = [])"
| "contains p (c # cs) = (starts_with p (c # cs) \<or> contains p cs)"

definition request_body :: "string \<Rightarrow> string list \<Rightarrow> u8 list \<Rightarrow> u8 list option list \<Rightarrow> string option" where
  "request_body meth ls already rest =
     (if str_upper meth \<noteq> ''POST'' then None
      else case Option.bind (find_header ''content-length:'' ls) (parse_uint 64) of
             None \<Rightarrow> None
           | Some len \<Rightarrow>
               let want = min len 1048576; buf = read_body want already rest in
               from_utf8 (take (min (length buf) want) buf))"

record HttpRequest =
  ht_method :: string
  ht_path :: string
  ht_query :: "string option"
  ht_accept_json :: bool
  ht_text :: "string option"
  ht_authorization :: string

definition nth_word :: "nat \<Rightarrow> string \<Rightarrow> string list \<Rightarrow> string" where
  "nth_word i d ws = (if i < length ws then ws ! i else d)"

definition read_request :: "u8 list option list \<Rightarrow> HttpRequest option" where
  "read_request reads =
     (case read_headers [] reads of
        None \<Rightarrow> None
      | Some (buf, hend, rest) \<Rightarrow>
          (case from_utf8 (take hend buf) of
             None \<Rightarrow> None
           | Some text \<Rightarrow>
               let ls = str_lines text; ws = split_whitespace (case ls of [] \<Rightarrow> [] | l # _ \<Rightarrow> l);
                   meth = nth_word 0 ''GET'' ws; full = nth_word 1 ''/'' ws;
                   (path, query) = (case split_once (CHR ''?'') full of Some (p, q) \<Rightarrow> (p, Some q) | None \<Rightarrow> (full, None))
               in Some \<lparr> ht_method = meth, ht_path = path, ht_query = query,
                    ht_accept_json = list_ex (\<lambda>l. starts_with ''accept:'' (str_lower l) \<and> contains ''application/json'' l) ls,
                    ht_text = request_body meth ls (drop hend buf) rest,
                    ht_authorization = text_default [] (find_header ''authorization:'' ls) \<rparr>))"

definition unauthorized :: DashboardHttpResponse where
  "unauthorized = \<lparr> hr_status = 401, hr_content_type = ''application/json'',
     hr_body = ''{'' @ [CHR 0x22] @ ''ok'' @ [CHR 0x22] @ '':false,'' @ [CHR 0x22] @ ''error'' @ [CHR 0x22] @ '':'' @ [CHR 0x22] @ ''unauthorized'' @ [CHR 0x22] @ ''}'',
     hr_headers = [] \<rparr>"

definition respond :: "DashboardHttpResponse option \<Rightarrow> string" where
  "respond r =
     (case r of
        Some r \<Rightarrow> build_http_response (hr_status r) (hr_content_type r) (hr_headers r) (hr_body r)
      | None \<Rightarrow> build_http_response 404 ''text/plain; charset=utf-8'' [] ''not found'')"

definition bearer :: "string \<Rightarrow> string" where
  "bearer token = ''Bearer '' @ token"

text \<open>One connection: what is written to the socket, if anything.\<close>

definition serve_connection :: "'pk DashEnv \<Rightarrow> string \<Rightarrow> u8 list option list \<Rightarrow> 'pk DashboardService \<Rightarrow>
    u8 list option \<times> 'pk DashboardService \<times> sends" where
  "serve_connection x token reads s =
     (case read_request reads of
        None \<Rightarrow> (None, s, [])
      | Some q \<Rightarrow>
          let (handled, s', out) =
            (if verify_token_constant_time (as_bytes (bearer token)) (as_bytes (ht_authorization q))
             then handle_dashboard_http x (ht_method q) (ht_path q) (ht_query q) (ht_accept_json q) (ht_text q) (Some token) s
             else (Some unauthorized, s, []))
          in (Some (as_bytes (respond handled)), s', out))"

definition server_token :: "('pk DashEnv) \<Rightarrow> u8 list \<Rightarrow> string option \<Rightarrow> string" where
  "server_token x random configured = (case configured of Some t \<Rightarrow> t | None \<Rightarrow> de_b64 x random)"

section \<open>What a connection may do\<close>

definition admin_post :: "string \<Rightarrow> string \<Rightarrow> u8 list option list \<Rightarrow> bool" where
  "admin_post token path reads \<longleftrightarrow> (\<exists>q. read_request reads = Some q \<and> ht_authorization q = bearer token \<and>
     str_upper (str_trim (ht_method q)) = ''POST'' \<and> str_trim (ht_path q) = path)"

lemma token_check: "verify_token_constant_time (as_bytes a) (as_bytes b) \<longleftrightarrow> b = a"
  by (auto simp: verify_token_constant_time_def as_bytes_inj)

lemma send_endpoint_out: "snd (send_endpoint x body s) = [] \<or>
    (\<exists>peer msg. snd (send_endpoint x body s) = [(peer, as_bytes msg)] \<and> msg \<noteq> [] \<and> dv_controller s \<noteq> None)"
  by (auto simp: send_endpoint_def send_message_payload_def dash_send_def Let_def split: option.splits sum.splits prod.splits)

lemma same_service: "\<exists>c. s = s\<lparr> dv_compute := c \<rparr>" "\<exists>c. s = s\<lparr> dv_security := c \<rparr>"
  by (rule exI[of _ "dv_compute s"], simp) (rule exI[of _ "dv_security s"], simp)

lemma submit_endpoint_service: "\<exists>c. snd (submit_endpoint x body s) = s\<lparr> dv_compute := c \<rparr>"
  by (auto simp: submit_endpoint_def handle_compute_submit_def same_service split: option.split sum.split prod.split)

lemma reload_service: "\<exists>c. snd (policy_reload_payload x s) = s\<lparr> dv_security := c \<rparr>"
  by (auto simp: policy_reload_payload_def dash_reload_policy_def same_service split: option.split sum.split prod.split)

lemma handled_cases:
  assumes "handle_dashboard_http x meth path query accept_json body (Some token) s = (r, s', out)"
  shows "s' = s \<and> out = [] \<or>
    str_upper (str_trim meth) = ''POST'' \<and>
      (str_trim path = ''/api/policy/reload'' \<and> s' = snd (policy_reload_payload x s) \<and> out = [] \<or>
       str_trim path = ''/api/ess/send'' \<and> s' = s \<and> out = snd (send_endpoint x body s) \<or>
       str_trim path = ''/api/ess/compute/submit'' \<and> s' = snd (submit_endpoint x body s) \<and> out = [])"
  using assms
  by (simp add: handle_dashboard_http_def read_only_def Let_def split_def split: if_splits) auto

text \<open>
  C20: the dashboard does nothing for a client without the token. A request whose \<^verbatim>\<open>Authorization\<close> header is not the bearer token gets
  the fixed answer 401 and changes nothing; a request that cannot be read gets no answer. With the token only three requests
  change anything, all of them posts: the reload of the policy changes the security runtime alone, the submission of a
  job the scheduler alone, and only the message endpoint hands a message to the network, at most one.
\<close>

theorem dashboard_authenticated:
  assumes "serve_connection x token reads s = (w, s', out)"
  shows "(read_request reads = None \<longrightarrow> w = None \<and> s' = s \<and> out = []) \<and>
    (\<forall>q. read_request reads = Some q \<and> ht_authorization q \<noteq> bearer token \<longrightarrow>
       w = Some (as_bytes (respond (Some unauthorized))) \<and> s' = s \<and> out = []) \<and>
    s' = s\<lparr> dv_security := dv_security s', dv_compute := dv_compute s' \<rparr> \<and>
    (dv_security s' \<noteq> dv_security s \<longrightarrow> admin_post token ''/api/policy/reload'' reads) \<and>
    (dv_compute s' \<noteq> dv_compute s \<longrightarrow> admin_post token ''/api/ess/compute/submit'' reads) \<and>
    (out \<noteq> [] \<longrightarrow> admin_post token ''/api/ess/send'' reads \<and> (\<exists>peer msg. out = [(peer, as_bytes msg)] \<and> msg \<noteq> []))"
proof (cases "read_request reads")
  case None
  then show ?thesis
    using assms by (simp add: serve_connection_def)
next
  case (Some q)
  show ?thesis
  proof (cases "ht_authorization q = bearer token")
    case False
    then show ?thesis
      using assms Some by (simp add: serve_connection_def token_check)
  next
    case True
    obtain r where h: "handle_dashboard_http x (ht_method q) (ht_path q) (ht_query q) (ht_accept_json q) (ht_text q) (Some token) s = (r, s', out)"
      using assms Some True
      by (cases "handle_dashboard_http x (ht_method q) (ht_path q) (ht_query q) (ht_accept_json q) (ht_text q) (Some token) s")
         (auto simp: serve_connection_def token_check)
    have post: "admin_post token path reads"
      if "str_upper (str_trim (ht_method q)) = ''POST''" "str_trim (ht_path q) = path" for path
      using that Some True by (auto simp: admin_post_def)
    consider (same) "s' = s" | (reload) c where "s' = s\<lparr> dv_security := c \<rparr>" "admin_post token ''/api/policy/reload'' reads"
      | (submit) c where "s' = s\<lparr> dv_compute := c \<rparr>" "admin_post token ''/api/ess/compute/submit'' reads"
      using handled_cases[OF h] reload_service[of x s] submit_endpoint_service[of x "ht_text q" s] post by metis
    then have "s' = s\<lparr> dv_security := dv_security s', dv_compute := dv_compute s' \<rparr> \<and>
       (dv_security s' \<noteq> dv_security s \<longrightarrow> admin_post token ''/api/policy/reload'' reads) \<and>
       (dv_compute s' \<noteq> dv_compute s \<longrightarrow> admin_post token ''/api/ess/compute/submit'' reads)"
      by cases simp_all
    moreover have "out \<noteq> [] \<longrightarrow> admin_post token ''/api/ess/send'' reads \<and> (\<exists>peer msg. out = [(peer, as_bytes msg)] \<and> msg \<noteq> [])"
      using handled_cases[OF h] send_endpoint_out[of x "ht_text q" s] post by auto
    ultimately show ?thesis using Some True by simp
  qed
qed

section \<open>The page\<close>

fun escape_char :: "char \<Rightarrow> string" where
  "escape_char c =
     (if c = CHR ''&'' then ''&amp;'' else if c = CHR ''<'' then ''&lt;'' else if c = CHR ''>'' then ''&gt;''
      else if c = CHR 0x22 then ''&quot;'' else if c = CHR 0x27 then ''&#39;'' else [c])"

lemma replace_char_Cons: "replace_char c r (x # xs) = (if x = c then r else [x]) @ replace_char c r xs"
  "replace_char c r [] = []"
  by (simp_all add: replace_char_def)

lemma replace_char_append: "replace_char c r (xs @ ys) = replace_char c r xs @ replace_char c r ys"
  by (simp add: replace_char_def)

lemma html_escape_map: "html_escape s = concat (map escape_char s)"
  by (induction s) (simp_all add: html_escape_def replace_char_Cons replace_char_append)

definition markup :: "char set" where
  "markup = {CHR ''<'', CHR ''>'', CHR 0x22, CHR 0x27}"

lemma escape_no_markup: "set (html_escape s) \<inter> markup = {}"
  by (auto simp: html_escape_map markup_def split: if_splits)

lemma to_upper_markup: "to_upper c \<in> markup \<Longrightarrow> c \<in> markup"
  by (auto simp: to_upper_def markup_def Let_def char_of_eq_iff take_bit_eq_mod split: if_splits)

lemma upper_no_markup: "set s \<inter> markup = {} \<Longrightarrow> set (str_upper s) \<inter> markup = {}"
  using to_upper_markup by (auto simp: str_upper_def)

lemma dec_no_markup: "set (dec_str n) \<inter> markup = {}"
  by (auto simp: markup_def dest!: dec_str_digit)

lemma escape_char_prefix: "escape_char c @ xs = escape_char d @ ys \<Longrightarrow> c = d \<and> xs = ys"
  by (simp split: if_splits)

text \<open>
  C38: no value on the page can bring in markup. Escaping one character after the other gives the text in which every character is
  replaced by its entity, so nothing is escaped twice and different texts stay different; and none of the eighteen
  values that are put into the page contains an angle bracket or a quote, upper-casing the entities included.
\<close>

theorem page_not_injectable:
  "html_escape t = concat (map escape_char t) \<and> (html_escape t = html_escape u \<longleftrightarrow> t = u) \<and>
   list_all (\<lambda>v. set v \<inter> markup = {}) (page_values x s) \<and> length (page_values x s) = 18"
proof -
  have inj: "html_escape t = html_escape u \<Longrightarrow> t = u" for t u
  proof (induction t arbitrary: u)
    case Nil
    then show ?case by (cases u) (simp_all add: html_escape_map split: if_splits)
  next
    case (Cons c cs)
    have "escape_char c \<noteq> []" by simp
    then obtain d ds where u: "u = d # ds" using Cons.prems by (cases u) (simp_all only: html_escape_map, simp_all)
    have "escape_char c @ html_escape cs = escape_char d @ html_escape ds"
      using Cons.prems unfolding u by (simp only: html_escape_map list.map concat.simps)
    then show ?case using escape_char_prefix[of c _ d] Cons.IH u by blast
  qed
  have "list_all (\<lambda>v. set v \<inter> markup = {}) (page_values x s)"
    by (simp add: page_values_def Let_def escape_no_markup upper_no_markup dec_no_markup)
  then show ?thesis using inj[of t u] by (auto simp: html_escape_map page_values_def Let_def)
qed

section \<open>Framing\<close>

text \<open>Lines without a line break.\<close>

definition plain :: "string \<Rightarrow> bool" where
  "plain l \<longleftrightarrow> CHR 0x0D \<notin> set l \<and> CHR 0x0A \<notin> set l"

definition crlf_lines :: "string list \<Rightarrow> string" where
  "crlf_lines ls = concat (map (\<lambda>l. l @ crlf) ls)"

lemma window_skip: "length p > 0 \<Longrightarrow> (\<forall>x \<in> set a. x \<noteq> hd p) \<Longrightarrow> window_pos p (a @ s) = map_option ((+) (length a)) (window_pos p s)"
proof (induction a)
  case Nil
  then show ?case by (simp add: map_option.identity)
next
  case (Cons x xs)
  have "take (length p) ((x # xs) @ s) \<noteq> p" using Cons.prems by (cases p) auto
  then show ?case using Cons by (simp add: option.map_comp o_def)
qed

lemma crlf_length [simp]: "length crlf = 2"
  by (simp add: crlf_def)

lemma crlf_lines_Cons: "crlf_lines (l # ls) = l @ crlf @ crlf_lines ls" "crlf_lines [] = []"
  by (simp_all add: crlf_lines_def)

lemma window_crlf:
  assumes "plain l" "l \<noteq> []"
  shows "window_pos (crlf @ crlf) (crlf @ l @ s) = map_option ((+) 2) (window_pos (crlf @ crlf) (l @ s))"
  using assms by (cases l) (auto simp: crlf_def plain_def option.map_comp o_def)

lemma window_here: "window_pos (crlf @ crlf) (crlf @ crlf @ s) = Some 0"
  by (simp add: crlf_def)

lemma window_lines:
  assumes "\<forall>l \<in> set ls. plain l \<and> l \<noteq> []" "ls \<noteq> []"
  shows "window_pos (crlf @ crlf) (crlf_lines ls @ crlf @ body) = Some (length (crlf_lines ls) - 2)"
  using assms
proof (induction ls)
  case (Cons l ls)
  have skip: "window_pos (crlf @ crlf) (l @ s) = map_option ((+) (length l)) (window_pos (crlf @ crlf) s)" for s
    using Cons.prems by (intro window_skip) (auto simp: crlf_def plain_def)
  show ?case
  proof (cases ls)
    case Nil
    then show ?thesis by (simp add: crlf_lines_Cons skip window_here)
  next
    case (Cons k ks)
    have "window_pos (crlf @ crlf) (crlf @ k @ s) = map_option ((+) 2) (window_pos (crlf @ crlf) (k @ s))" for s
      using Cons.prems Cons by (intro window_crlf) auto
    then show ?thesis using Cons.IH Cons.prems Cons by (simp add: crlf_lines_Cons skip)
  qed
qed simp

lemma lines_of_crlf:
  assumes "\<forall>l \<in> set ls. plain l"
  shows "str_lines (crlf_lines ls @ crlf) = ls @ [[]]"
proof -
  have nl: "CHR 0x0A \<notin> set (l @ [CHR 0x0D])" if "plain l" for l using that by (simp add: plain_def)
  have "split_on (CHR 0x0A) (crlf_lines ls @ crlf) = map (\<lambda>l. l @ [CHR 0x0D]) ls @ [[CHR 0x0D], []]"
    using assms
  proof (induction ls)
    case Nil
    then show ?case by (simp add: crlf_lines_Cons crlf_def)
  next
    case (Cons l ls)
    then have "split_on (CHR 0x0A) ((l @ [CHR 0x0D]) @ CHR 0x0A # crlf_lines ls @ crlf) = (l @ [CHR 0x0D]) # split_on (CHR 0x0A) (crlf_lines ls @ crlf)"
      by (intro split_on_append nl) simp
    then show ?case using Cons by (simp add: crlf_lines_Cons crlf_def)
  qed
  then show ?thesis by (simp add: str_lines_def Let_def butlast_append strip_cr_def o_def)
qed

definition standard :: "DashboardHttpResponse \<Rightarrow> bool" where
  "standard r \<longleftrightarrow> plain (hr_content_type r) \<and> hr_headers r \<in> {[], [(''x-ess-dashboard'', ''1'')]}"

lemma standard_responses: "standard (json_response x n v)" "standard (or_error x n r)" "standard unauthorized"
  "standard (dashboard_page x b s)"
  by (simp_all add: standard_def json_response_def or_error_def dashboard_page_def resp_json_def resp_html_def unauthorized_def plain_def
      split: sum.split)

lemma standard_endpoints: "standard (fst (send_endpoint x body s))" "standard (fst (submit_endpoint x body s))"
  by (auto simp: send_endpoint_def submit_endpoint_def standard_responses Let_def split: option.split sum.split prod.split)

lemma handled_standard:
  assumes "fst (handle_dashboard_http x meth path query accept_json body (Some token) s) = Some r"
  shows "standard r"
  using assms
  by (simp add: handle_dashboard_http_def read_only_def Let_def split_def standard_responses standard_endpoints split: if_splits)
    (auto simp: standard_responses standard_endpoints)

definition head_lines :: "nat \<Rightarrow> string \<Rightarrow> (string \<times> string) list \<Rightarrow> string \<Rightarrow> string list" where
  "head_lines status content_type headers body =
     [''HTTP/1.1 '' @ dec_str status @ '' '' @ reason_phrase status, ''Content-Type: '' @ content_type,
      ''Content-Length: '' @ dec_str (length body), ''Connection: close'',
      ''Access-Control-Allow-Origin: http://localhost:8080'', ''Access-Control-Allow-Methods: GET, POST, OPTIONS'',
      ''Access-Control-Allow-Headers: Authorization, Content-Type'', ''X-Content-Type-Options: nosniff'', ''X-Frame-Options: DENY''] @
     map (\<lambda>(k, v). k @ '': '' @ v) headers"

lemma response_lines: "build_http_response n ct hs body = crlf_lines (head_lines n ct hs body) @ crlf @ body"
proof -
  have "crlf_lines (xs @ ys) = crlf_lines xs @ crlf_lines ys" for xs ys by (simp add: crlf_lines_def)
  moreover have "crlf_lines (map (\<lambda>(k, v). k @ '': '' @ v) hs) = concat (map (\<lambda>(k, v). header_line k v) hs)"
    by (induction hs) (auto simp: crlf_lines_Cons header_line_def)
  ultimately show ?thesis
    by (simp add: head_lines_def build_http_response_def crlf_lines_Cons fixed_headers_def header_line_def)
qed

lemma plain_parts [simp]: "plain (a @ b) \<longleftrightarrow> plain a \<and> plain b" "plain (dec_str n)" "plain (reason_phrase n)" "plain []"
  by (auto simp: plain_def reason_phrase_def dest!: dec_str_digit)

lemma plain_Cons [simp]: "plain (c # s) \<longleftrightarrow> c \<noteq> CHR 0x0D \<and> c \<noteq> CHR 0x0A \<and> plain s"
  by (auto simp: plain_def)

lemma window_pos_bytes: "window_pos (as_bytes p) (as_bytes s) = window_pos p s"
proof (induction s)
  case (Cons c s)
  have "take (length p) (as_bytes (c # s)) = as_bytes (take (length p) (c # s))" unfolding as_bytes_def by (rule take_map)
  then show ?case using Cons as_bytes_inj[of "take (length p) (c # s)" p] by (simp add: as_bytes_def)
qed (simp add: as_bytes_def)

lemma trim_dec: "str_trim ('' '' @ dec_str k) = dec_str k"
proof -
  have "\<not> is_ws c" if "c \<in> set (dec_str k)" for c using dec_str_digit[OF that] by (auto simp: is_ws_def)
  then have "dropWhile is_ws (dec_str k) = dec_str k" "dropWhile is_ws (rev (dec_str k)) = rev (dec_str k)"
    by (simp_all add: dropWhile_eq_self_iff hd_rev)
  moreover have "is_ws (CHR '' '')" by (simp add: is_ws_def)
  ultimately show ?thesis by (simp add: str_trim_def)
qed

lemma content_length_line:
  "find_header ''content-length:'' (head_lines n ct hs body @ rest) = Some (dec_str (length body))"
  using trim_dec[of "length body"]
  by (simp add: find_header_def head_lines_def str_lower_def to_lower_def starts_with_def split_once_def char_of_eq_iff)

lemma answered:
  assumes "serve_connection x token reads s = (Some w, s', out)"
  shows "\<exists>h. w = as_bytes (respond h) \<and> (\<forall>r. h = Some r \<longrightarrow> standard r)"
proof -
  obtain q where q: "read_request reads = Some q" using assms by (auto simp: serve_connection_def split: option.splits)
  let ?p = "handle_dashboard_http x (ht_method q) (ht_path q) (ht_query q) (ht_accept_json q) (ht_text q) (Some token) s"
  let ?h = "if verify_token_constant_time (as_bytes (bearer token)) (as_bytes (ht_authorization q)) then fst ?p else Some unauthorized"
  have "w = as_bytes (respond ?h)" using assms q by (simp add: serve_connection_def split_def Let_def split: if_splits)
  moreover have "\<forall>r. ?h = Some r \<longrightarrow> standard r" using handled_standard standard_responses(3) by auto
  ultimately show ?thesis by blast
qed

text \<open>
  C37: every answer is framed correctly. What the server writes has the blank line of HTTP exactly once before its body, so that the
  server's own reader finds it, and the header \<^verbatim>\<open>Content-Length\<close> that this reader finds is the number of bytes that follow.
\<close>

theorem response_framed:
  assumes "serve_connection x token reads s = (Some w, s', out)"
  shows "\<exists>pos. window_pos (as_bytes (crlf @ crlf)) w = Some pos \<and>
    find_header ''content-length:'' (str_lines (chars_of (take (pos + 4) w))) = Some (dec_str (length (drop (pos + 4) w)))"
proof -
  obtain h where w: "w = as_bytes (respond h)" and h: "\<forall>r. h = Some r \<longrightarrow> standard r" using answered[OF assms] by blast
  have "\<exists>n ct hs body. w = as_bytes (build_http_response n ct hs body) \<and> plain ct \<and> hs \<in> {[], [(''x-ess-dashboard'', ''1'')]}"
  proof (cases h)
    case None
    moreover have "plain ''text/plain; charset=utf-8''" by simp
    ultimately show ?thesis unfolding w respond_def
      by (intro exI[of _ 404] exI[of _ "''text/plain; charset=utf-8''"] exI[of _ "[]"] exI[of _ "''not found''"]) simp
  next
    case (Some r)
    then show ?thesis using h unfolding w respond_def standard_def by auto
  qed
  then obtain n ct hs body where w: "w = as_bytes (crlf_lines (head_lines n ct hs body) @ crlf @ body)"
      and ok: "plain ct" "hs \<in> {[], [(''x-ess-dashboard'', ''1'')]}"
    by (auto simp: response_lines)
  let ?ls = "head_lines n ct hs body"
  have ls: "\<forall>l \<in> set ?ls. plain l \<and> l \<noteq> []" "?ls \<noteq> []" using ok by (auto simp: head_lines_def)
  have len: "2 \<le> length (crlf_lines ?ls)" by (simp add: head_lines_def crlf_lines_Cons)
  have "window_pos (as_bytes (crlf @ crlf)) w = Some (length (crlf_lines ?ls) - 2)"
    unfolding w window_pos_bytes by (rule window_lines[OF ls])
  moreover have "take (length (crlf_lines ?ls) - 2 + 4) w = as_bytes (crlf_lines ?ls @ crlf)"
      "drop (length (crlf_lines ?ls) - 2 + 4) w = as_bytes body"
    using len by (simp_all add: w as_bytes_def take_map drop_map)
  moreover have "find_header ''content-length:'' (str_lines (crlf_lines ?ls @ crlf)) = Some (dec_str (length body))"
    using lines_of_crlf[of ?ls] ls(1) by (simp add: content_length_line)
  moreover have "length (as_bytes body) = length body" by (simp add: as_bytes_def)
  ultimately show ?thesis by (intro exI[of _ "length (crlf_lines ?ls) - 2"]) (simp only: chars_of_bytes simp_thms)
qed

section \<open>Witnesses\<close>

definition demo_dash_env :: "unit DashEnv" where
  "demo_dash_env = \<lparr> de_pretty = (\<lambda>v. Some ''{}''), de_parse = (\<lambda>t. Inl t), de_job = (\<lambda>t. Inl t), de_policy_json = (\<lambda>c. JNull),
     de_policy_pretty = (\<lambda>c. None), de_policy_file = None,
     de_sec = \<lparr> sec_sign = (\<lambda>m. None), sec_verify = (\<lambda>k m t. False), b64_encode = (\<lambda>b. []), b64_decode = (\<lambda>t. None),
       utf8_lossy = chars_of, bundle_to_json = (\<lambda>b. None), bundle_from_json = (\<lambda>t. None), policy_from_json = (\<lambda>t. None),
       sec_sha256 = (\<lambda>b. b) \<rparr>,
     de_sec_text = (\<lambda>e. []), de_auth_text = (\<lambda>e. []), de_compute = demo_compute_env, de_compute_text = (\<lambda>e. []),
     de_parse_peer = Inr, de_peer = Some, de_b64 = (\<lambda>b. []), de_send = (\<lambda>p b. Inr b), de_cores = 4, de_db_size = 0,
     de_clock = \<lparr> wc_secs = 7, wc_rfc3339 = ''now'' \<rparr>, de_page = [] \<rparr>"

text \<open>A post to the reload endpoint, in two pieces, with and without the token.\<close>

definition demo_reads :: "string \<Rightarrow> u8 list option list" where
  "demo_reads auth = [Some (as_bytes (''POST /api/policy/reload HTTP/1.1'' @ crlf @ ''Authorization: '')), Some (as_bytes (auth @ crlf @ crlf))]"

lemma demo_request: "map_option ht_authorization (read_request (demo_reads ''Bearer x'')) = Some ''Bearer x''"
  by code_simp

definition demo_served :: "u8 list option \<times> unit DashboardService \<times> sends" where
  "demo_served = serve_connection demo_dash_env ''tok'' (demo_reads ''Bearer x'') (service_new store_new)"

theorem dashboard_authenticated_witness:
  "demo_served = (Some (as_bytes (respond (Some unauthorized))), service_new store_new, [])"
proof -
  obtain q where q: "read_request (demo_reads ''Bearer x'') = Some q" "ht_authorization q = ''Bearer x''" using demo_request by blast
  then have "ht_authorization q \<noteq> bearer ''tok''" by (simp add: bearer_def)
  then show ?thesis
    using q dashboard_authenticated[of demo_dash_env "''tok''" "demo_reads ''Bearer x''" "service_new store_new" "fst demo_served"
        "fst (snd demo_served)" "snd (snd demo_served)"]
    by (simp add: demo_served_def prod_eq_iff)
qed

lemma demo_answer: "\<exists>w s' out. serve_connection demo_dash_env ''tok'' (demo_reads ''Bearer x'') (service_new store_new) = (Some w, s', out)"
proof -
  obtain q where "read_request (demo_reads ''Bearer x'') = Some q" using demo_request by blast
  then show ?thesis by (auto simp: serve_connection_def split_def Let_def)
qed

theorem response_framed_witness:
  "\<exists>w pos. fst (serve_connection demo_dash_env ''tok'' (demo_reads ''Bearer x'') (service_new store_new)) = Some w \<and>
     window_pos (as_bytes (crlf @ crlf)) w = Some pos \<and>
     find_header ''content-length:'' (str_lines (chars_of (take (pos + 4) w))) = Some (dec_str (length (drop (pos + 4) w)))"
  using demo_answer response_framed by (metis fst_conv)

end
