(* ===== verification/Ghost_Store.thy ===== *)
theory Ghost_Store
  imports Text
begin

text \<open>
  The line format in which the ghost layer keeps its snapshot (\<^verbatim>\<open>ghost_store.rs\<close>): writing and reading it, the escaping of free text, the
  append operations and the maintenance run. The theorems say which snapshots come back from the file as they were, and what
  the maintenance run leaves there.
\<close>

section \<open>Escaping\<close>

definition escape_line :: "string \<Rightarrow> string" where
  "escape_line v = replace_char (CHR ''='') [CHR 0x5C, CHR ''='']
     (replace_char (CHR 0x0A) [CHR 0x5C, CHR ''n''] (replace_char (CHR 0x5C) [CHR 0x5C, CHR 0x5C] v))"

fun unescape_line :: "string \<Rightarrow> string" where
  "unescape_line [] = []"
| "unescape_line [c] = [c]"
| "unescape_line (c # d # cs) =
     (if c = CHR 0x5C then
        (if d = CHR ''n'' then CHR 0x0A # unescape_line cs
         else if d = CHR ''='' then CHR ''='' # unescape_line cs
         else if d = CHR 0x5C then CHR 0x5C # unescape_line cs
         else CHR 0x5C # d # unescape_line cs)
      else c # unescape_line (d # cs))"

section \<open>Snapshot and file\<close>

record GhostSnapshot =
  gsn_node_id :: string
  gsn_role :: string
  gsn_policy_version :: nat
  gsn_connected_peers :: nat
  gsn_known_peers :: nat
  gsn_route_peers :: nat
  gsn_trusted_peers :: nat
  gsn_last_beacon_ts :: "nat option"
  gsn_last_sync_ts :: "nat option"
  gsn_last_failure_reason :: "string option"
  gsn_health_history :: "string list"
  gsn_decision_history :: "string list"
  gsn_anomalies :: "string list"

definition default_snapshot :: GhostSnapshot where
  "default_snapshot = \<lparr> gsn_node_id = [], gsn_role = [], gsn_policy_version = 0, gsn_connected_peers = 0, gsn_known_peers = 0,
     gsn_route_peers = 0, gsn_trusted_peers = 0, gsn_last_beacon_ts = None, gsn_last_sync_ts = None, gsn_last_failure_reason = None,
     gsn_health_history = [], gsn_decision_history = [], gsn_anomalies = [] \<rparr>"

definition opt_num :: "nat option \<Rightarrow> string" where
  "opt_num v = (case v of Some n \<Rightarrow> dec_str n | None \<Rightarrow> [])"

definition kv :: "string \<Rightarrow> string \<Rightarrow> string" where
  "kv key v = key @ CHR ''='' # v"

definition snapshot_lines :: "GhostSnapshot \<Rightarrow> string list" where
  "snapshot_lines s =
     [kv ''node_id'' (gsn_node_id s), kv ''role'' (gsn_role s), kv ''policy_version'' (dec_str (gsn_policy_version s)),
      kv ''connected_peers'' (dec_str (gsn_connected_peers s)), kv ''known_peers'' (dec_str (gsn_known_peers s)),
      kv ''route_peers'' (dec_str (gsn_route_peers s)), kv ''trusted_peers'' (dec_str (gsn_trusted_peers s)),
      kv ''last_beacon_ts'' (opt_num (gsn_last_beacon_ts s)), kv ''last_sync_ts'' (opt_num (gsn_last_sync_ts s)),
      kv ''last_failure_reason'' (case gsn_last_failure_reason s of Some r \<Rightarrow> r | None \<Rightarrow> [])] @
     map (\<lambda>i. kv ''health_history'' (escape_line i)) (gsn_health_history s) @
     map (\<lambda>i. kv ''decision_history'' (escape_line i)) (gsn_decision_history s) @
     map (\<lambda>i. kv ''anomaly'' (escape_line i)) (gsn_anomalies s)"

definition lf_lines :: "string list \<Rightarrow> string" where
  "lf_lines ls = concat (map (\<lambda>l. l @ [CHR 0x0A]) ls)"

text \<open>How the writing ends: it succeeds, the file cannot be created, or it fails after some of the bytes.\<close>

datatype write_end = WriteOk | CreateFailed | WriteFailed nat

type_synonym ghost_file = "string option"

definition save :: "write_end \<Rightarrow> GhostSnapshot \<Rightarrow> ghost_file \<Rightarrow> bool \<times> ghost_file" where
  "save we s f =
     (let text = lf_lines (snapshot_lines s) in
      case we of
        WriteOk \<Rightarrow> (True, Some text)
      | CreateFailed \<Rightarrow> (False, f)
      | WriteFailed n \<Rightarrow> (False, Some (take n text)))"

definition num_or_zero :: "string \<Rightarrow> nat" where
  "num_or_zero v = (case parse_uint 64 v of Some n \<Rightarrow> n | None \<Rightarrow> 0)"

definition opt_parse :: "string \<Rightarrow> nat option" where
  "opt_parse v = (if v = [] then None else parse_uint 64 v)"

definition load_line :: "GhostSnapshot \<Rightarrow> string \<Rightarrow> GhostSnapshot" where
  "load_line s line =
     (let (k, v) = (case split_once (CHR ''='') line of Some (k, v) \<Rightarrow> (k, v) | None \<Rightarrow> (line, []));
          key = str_trim k; val = str_trim v in
      if key = ''node_id'' then s\<lparr> gsn_node_id := val \<rparr>
      else if key = ''role'' then s\<lparr> gsn_role := val \<rparr>
      else if key = ''policy_version'' then s\<lparr> gsn_policy_version := num_or_zero val \<rparr>
      else if key = ''connected_peers'' then s\<lparr> gsn_connected_peers := num_or_zero val \<rparr>
      else if key = ''known_peers'' then s\<lparr> gsn_known_peers := num_or_zero val \<rparr>
      else if key = ''route_peers'' then s\<lparr> gsn_route_peers := num_or_zero val \<rparr>
      else if key = ''trusted_peers'' then s\<lparr> gsn_trusted_peers := num_or_zero val \<rparr>
      else if key = ''last_beacon_ts'' then s\<lparr> gsn_last_beacon_ts := opt_parse val \<rparr>
      else if key = ''last_sync_ts'' then s\<lparr> gsn_last_sync_ts := opt_parse val \<rparr>
      else if key = ''last_failure_reason'' then
        s\<lparr> gsn_last_failure_reason := (if val = [] then None else Some (unescape_line val)) \<rparr>
      else if key = ''health_history'' then s\<lparr> gsn_health_history := gsn_health_history s @ [unescape_line val] \<rparr>
      else if key = ''decision_history'' then s\<lparr> gsn_decision_history := gsn_decision_history s @ [unescape_line val] \<rparr>
      else if key = ''anomaly'' then s\<lparr> gsn_anomalies := gsn_anomalies s @ [unescape_line val] \<rparr>
      else s)"

definition load :: "ghost_file \<Rightarrow> GhostSnapshot option" where
  "load f = map_option (\<lambda>raw. foldl load_line default_snapshot (str_lines raw)) f"

definition append_health :: "write_end \<Rightarrow> GhostSnapshot \<Rightarrow> string \<Rightarrow> ghost_file \<Rightarrow> bool \<times> ghost_file" where
  "append_health we s line f = save we (s\<lparr> gsn_health_history := gsn_health_history s @ [line] \<rparr>) f"

definition append_decision :: "write_end \<Rightarrow> GhostSnapshot \<Rightarrow> string \<Rightarrow> ghost_file \<Rightarrow> bool \<times> ghost_file" where
  "append_decision we s line f = save we (s\<lparr> gsn_decision_history := gsn_decision_history s @ [line] \<rparr>) f"

definition append_anomaly :: "write_end \<Rightarrow> GhostSnapshot \<Rightarrow> string \<Rightarrow> ghost_file \<Rightarrow> bool \<times> ghost_file" where
  "append_anomaly we s line f = save we (s\<lparr> gsn_anomalies := gsn_anomalies s @ [line] \<rparr>) f"

text \<open>The four writes of the maintenance run, each of which ends the run when it fails.\<close>

definition run_maintenance :: "(nat \<Rightarrow> write_end) \<Rightarrow> nat \<Rightarrow> ghost_file \<Rightarrow> bool \<times> ghost_file" where
  "run_maintenance we now f =
     (let s = (case load f of Some s \<Rightarrow> s | None \<Rightarrow> default_snapshot);
          s = s\<lparr> gsn_last_beacon_ts := Some now \<rparr>;
          next = (\<lambda>step (ok, f). if ok then step f else (False, f))
      in next (append_anomaly (we 3) s ''maintenance_anomaly_check'')
          (next (append_decision (we 2) s ''maintenance_decision_check'')
            (next (append_health (we 1) s ''maintenance_health_check'') (save (we 0) s f))))"

section \<open>Round trips\<close>

lemma escape_line_Cons: "escape_line (c # cs) =
    (if c = CHR 0x5C then [CHR 0x5C, CHR 0x5C] else if c = CHR 0x0A then [CHR 0x5C, CHR ''n'']
     else if c = CHR ''='' then [CHR 0x5C, CHR ''=''] else [c]) @ escape_line cs"
  "escape_line [] = []"
  by (simp_all add: escape_line_def replace_char_def)

lemma unescape_escape: "unescape_line (escape_line v) = v"
proof (induction v)
  case (Cons c cs)
  have "unescape_line (c # s) = c # unescape_line s" if "c \<noteq> CHR 0x5C" for s using that by (cases s) auto
  then show ?case using Cons by (simp add: escape_line_Cons)
qed (simp add: escape_line_Cons)

lemma escape_no_break: "CHR 0x0A \<notin> set (escape_line v)"
  by (induction v) (auto simp: escape_line_Cons)

definition trimmed :: "string \<Rightarrow> bool" where
  "trimmed s \<longleftrightarrow> str_trim s = s"

lemma trimmed_iff: "trimmed s \<longleftrightarrow> s = [] \<or> \<not> is_ws (hd s) \<and> \<not> is_ws (last s)"
proof
  assume "s = [] \<or> \<not> is_ws (hd s) \<and> \<not> is_ws (last s)"
  then have "dropWhile is_ws s = s" "dropWhile is_ws (rev s) = rev s"
    by (auto simp: dropWhile_eq_self_iff hd_rev)
  then show "trimmed s" by (simp add: trimmed_def str_trim_def)
next
  assume t: "trimmed s"
  show "s = [] \<or> \<not> is_ws (hd s) \<and> \<not> is_ws (last s)"
  proof (cases "s = []")
    case False
    have len: "length s \<le> length (dropWhile is_ws s)"
      using t length_dropWhile_le[of is_ws "rev (dropWhile is_ws s)"] unfolding trimmed_def str_trim_def by (metis length_rev)
    then have d: "dropWhile is_ws s = s"
      by (metis dropWhile_eq_drop drop_0 drop_eq_Nil2 length_dropWhile_le length_drop le_antisym False diff_is_0_eq' takeWhile_dropWhile_id append_eq_conv_conj length_append le_add2 add_cancel_left_left length_0_conv append_Nil)
    then have "dropWhile is_ws (rev s) = rev s" using t unfolding trimmed_def str_trim_def by (metis rev_rev_ident)
    then show ?thesis using d False by (auto simp: dropWhile_eq_self_iff hd_rev)
  qed simp
qed

lemma lines_of_lf:
  assumes "\<forall>l \<in> set ls. CHR 0x0A \<notin> set l \<and> strip_cr l = l"
  shows "str_lines (lf_lines ls) = ls"
proof -
  have "split_on (CHR 0x0A) (lf_lines ls) = ls @ [[]]"
    using assms
  proof (induction ls)
    case (Cons l ls)
    then show ?case using split_on_append[of "CHR 0x0A" l "lf_lines ls"] by (simp add: lf_lines_def)
  qed (simp add: lf_lines_def)
  moreover have "map strip_cr ls = ls" using assms by (simp add: map_idI)
  ultimately show ?thesis by (simp add: str_lines_def Let_def butlast_append)
qed

text \<open>Values that survive the trimming and the splitting into lines.\<close>

definition line_safe :: "string \<Rightarrow> bool" where
  "line_safe v \<longleftrightarrow> trimmed v \<and> CHR 0x0A \<notin> set v"

lemma strip_cr_kv: "line_safe v \<Longrightarrow> key \<noteq> [] \<Longrightarrow> strip_cr (kv key v) = kv key v"
  by (auto simp: line_safe_def trimmed_iff strip_cr_def kv_def is_ws_def)

lemma split_kv: "CHR ''='' \<notin> set key \<Longrightarrow> split_once (CHR ''='') (kv key v) = Some (key, v)"
  by (simp add: kv_def split_once_join)

lemma dec_safe [simp]: "line_safe (dec_str n)"
proof -
  have "\<not> is_ws c \<and> c \<noteq> CHR 0x0A" if "c \<in> set (dec_str n)" for c using dec_str_digit[OF that] by (auto simp: is_ws_def)
  then show ?thesis by (auto simp: line_safe_def trimmed_iff)
qed

lemma nil_safe [simp]: "line_safe []"
  by (simp add: line_safe_def trimmed_iff)

definition storable :: "GhostSnapshot \<Rightarrow> bool" where
  "storable s \<longleftrightarrow> line_safe (gsn_node_id s) \<and> line_safe (gsn_role s) \<and>
     gsn_policy_version s < 2 ^ 64 \<and> gsn_connected_peers s < 2 ^ 64 \<and> gsn_known_peers s < 2 ^ 64 \<and> gsn_route_peers s < 2 ^ 64 \<and>
     gsn_trusted_peers s < 2 ^ 64 \<and> (\<forall>n. gsn_last_beacon_ts s = Some n \<longrightarrow> n < 2 ^ 64) \<and> (\<forall>n. gsn_last_sync_ts s = Some n \<longrightarrow> n < 2 ^ 64) \<and>
     (\<forall>r. gsn_last_failure_reason s = Some r \<longrightarrow> r \<noteq> [] \<and> line_safe r \<and> CHR 0x5C \<notin> set r) \<and>
     (\<forall>i \<in> set (gsn_health_history s @ gsn_decision_history s @ gsn_anomalies s). trimmed (escape_line i))"

lemma opt_num_safe: "line_safe (opt_num v)"
  by (simp add: opt_num_def split: option.split)

lemma item_safe: "trimmed (escape_line i) \<Longrightarrow> line_safe (escape_line i)"
  by (simp add: line_safe_def escape_no_break)

lemma kv_no_break: "line_safe v \<Longrightarrow> CHR 0x0A \<notin> set key \<Longrightarrow> CHR 0x0A \<notin> set (kv key v)"
  by (simp add: kv_def line_safe_def)

lemma snapshot_lines_back:
  assumes "storable s"
  shows "str_lines (lf_lines (snapshot_lines s)) = snapshot_lines s"
proof (rule lines_of_lf, rule ballI)
  fix l assume "l \<in> set (snapshot_lines s)"
  then obtain key v where "l = kv key v" "line_safe v" "key \<noteq> []" "CHR 0x0A \<notin> set key"
    using assms unfolding snapshot_lines_def storable_def
    by (auto simp: opt_num_safe item_safe split: option.splits)
  then show "CHR 0x0A \<notin> set l \<and> strip_cr l = l" using kv_no_break strip_cr_kv by blast
qed

lemma unescape_plain: "CHR 0x5C \<notin> set v \<Longrightarrow> unescape_line v = v"
  by (induction v rule: unescape_line.induct) auto

lemma opt_back: "(\<forall>n. v = Some n \<longrightarrow> n < 2 ^ 64) \<Longrightarrow> opt_parse (opt_num v) = v"
  by (auto simp: opt_parse_def opt_num_def parse_uint_dec split: option.split)

lemma line_safe_trim: "line_safe v \<Longrightarrow> str_trim v = v"
  by (simp add: line_safe_def trimmed_def)

lemma num_back: "n < 2 ^ 64 \<Longrightarrow> num_or_zero (dec_str n) = n"
  by (simp add: num_or_zero_def parse_uint_dec)

lemma trim_lit [simp]: "str_trim ''node_id'' = ''node_id''" "str_trim ''role'' = ''role''" "str_trim ''policy_version'' = ''policy_version''"
  "str_trim ''connected_peers'' = ''connected_peers''" "str_trim ''known_peers'' = ''known_peers''" "str_trim ''route_peers'' = ''route_peers''"
  "str_trim ''trusted_peers'' = ''trusted_peers''" "str_trim ''last_beacon_ts'' = ''last_beacon_ts''" "str_trim ''last_sync_ts'' = ''last_sync_ts''"
  "str_trim ''last_failure_reason'' = ''last_failure_reason''" "str_trim ''health_history'' = ''health_history''"
  "str_trim ''decision_history'' = ''decision_history''" "str_trim ''anomaly'' = ''anomaly''"
  by (simp_all add: str_trim_def is_ws_def)

lemma load_items:
  "\<forall>i \<in> set is'. trimmed (escape_line i) \<Longrightarrow>
   foldl load_line s (map (\<lambda>i. kv ''health_history'' (escape_line i)) is') = s\<lparr> gsn_health_history := gsn_health_history s @ is' \<rparr>"
  "\<forall>i \<in> set is'. trimmed (escape_line i) \<Longrightarrow>
   foldl load_line s (map (\<lambda>i. kv ''decision_history'' (escape_line i)) is') = s\<lparr> gsn_decision_history := gsn_decision_history s @ is' \<rparr>"
  "\<forall>i \<in> set is'. trimmed (escape_line i) \<Longrightarrow>
   foldl load_line s (map (\<lambda>i. kv ''anomaly'' (escape_line i)) is') = s\<lparr> gsn_anomalies := gsn_anomalies s @ is' \<rparr>"
  by (induction is' arbitrary: s) (simp_all add: load_line_def split_kv trimmed_def unescape_escape)

lemma save_back:
  assumes "storable s"
  shows "fst (save WriteOk s f) \<and> load (snd (save WriteOk s f)) = Some s"
proof -
  have "foldl load_line default_snapshot (snapshot_lines s) = s"
    using assms unfolding snapshot_lines_def storable_def
    by (simp add: load_items) (simp add: load_line_def split_kv line_safe_trim num_back opt_back opt_num_safe unescape_plain
        default_snapshot_def split: option.split)
  then show ?thesis using snapshot_lines_back[OF assms] by (simp add: save_def load_def Let_def)
qed

text \<open>
  A snapshot comes back from its file as it was, when its free text has no white space at its ends, the names and the
  failure reason are single lines and the reason has no backslash. The history entries may contain anything in between, line
  breaks included.
\<close>

theorem snapshot_roundtrip:
  assumes "storable s"
  shows "fst (save WriteOk s f) \<and> load (snd (save WriteOk s f)) = Some s"
  using assms by (rule save_back)

text \<open>
  The maintenance run records only its last entry. All three entries are appended to the same copy of the snapshot, and each write
  replaces the file: the health and the decision entry are lost.
\<close>

theorem maintenance_last_entry:
  assumes "\<And>i. we i = WriteOk" and "load f = Some s" and "storable s" and "now < 2 ^ 64"
  shows "load (snd (run_maintenance we now f)) =
    Some (s\<lparr> gsn_last_beacon_ts := Some now, gsn_anomalies := gsn_anomalies s @ [''maintenance_anomaly_check''] \<rparr>)"
proof -
  let ?s = "s\<lparr> gsn_last_beacon_ts := Some now, gsn_anomalies := gsn_anomalies s @ [''maintenance_anomaly_check''] \<rparr>"
  have "snd (run_maintenance we now f) = snd (save WriteOk ?s f)"
    using assms(1,2) by (simp add: run_maintenance_def save_def append_anomaly_def append_decision_def append_health_def Let_def)
  moreover have "trimmed (escape_line ''maintenance_anomaly_check'')"
    by (simp add: escape_line_Cons trimmed_iff is_ws_def)
  then have "storable ?s" using assms(3,4) by (auto simp: storable_def)
  ultimately show ?thesis using save_back[of ?s f] by simp
qed

definition demo_snapshot :: GhostSnapshot where
  "demo_snapshot = default_snapshot\<lparr> gsn_node_id := ''n=1'', gsn_policy_version := 12, gsn_last_sync_ts := Some 7,
     gsn_last_failure_reason := Some ''a = b'', gsn_health_history := [[], ''x'' @ [CHR 0x0A, CHR 0x5C] @ ''=y''] \<rparr>"

lemma demo_snapshot_storable: "storable demo_snapshot"
  by (auto simp: storable_def demo_snapshot_def default_snapshot_def line_safe_def trimmed_iff is_ws_def escape_line_Cons)

theorem snapshot_roundtrip_witness: "load (snd (save WriteOk demo_snapshot None)) = Some demo_snapshot"
  using snapshot_roundtrip[OF demo_snapshot_storable] by simp

end
