(* ===== verification/Bootstrap_Cache.thy ===== *)
theory Bootstrap_Cache
  imports Text
begin

text \<open>
  The cache of known peers (\<^verbatim>\<open>bootstrap_cache.rs\<close>): which addresses count as public, the canonical form of an address, normalising the
  records, the migration of the old file format, reading, writing and loading. Addresses and peer identifiers are those of
  libp2p: their parsing and printing is a parameter. The theorems: the file keeps its form, and a saved peer is found again.
\<close>

section \<open>Addresses\<close>

datatype Protocol = Ip4 u8 u8 u8 u8 | Ip6 "u16 list" | Dns4 string | Dns6 string | P2p string | OtherProtocol

definition ip4_loopback :: "u8 \<Rightarrow> bool" where
  "ip4_loopback a \<longleftrightarrow> a = 127"

definition ip4_private :: "u8 \<Rightarrow> u8 \<Rightarrow> bool" where
  "ip4_private a b \<longleftrightarrow> a = 10 \<or> a = 172 \<and> 16 \<le> b \<and> b \<le> 31 \<or> a = 192 \<and> b = 168"

definition ip4_link_local :: "u8 \<Rightarrow> u8 \<Rightarrow> bool" where
  "ip4_link_local a b \<longleftrightarrow> a = 169 \<and> b = 254"

definition ip6_loopback :: "u16 list \<Rightarrow> bool" where
  "ip6_loopback s \<longleftrightarrow> s = [0, 0, 0, 0, 0, 0, 0, 1]"

text \<open>The addresses whose first seven bits are those of \<^verbatim>\<open>fc00::\<close>.\<close>

definition ip6_unique_local :: "u16 list \<Rightarrow> bool" where
  "ip6_unique_local s \<longleftrightarrow> s \<noteq> [] \<and> unat (hd s) div 512 = 126"

fun public_protocol :: "Protocol \<Rightarrow> bool" where
  "public_protocol (Ip4 a b c d) = (\<not> ip4_loopback a \<and> \<not> ip4_private a b \<and> \<not> ip4_link_local a b)"
| "public_protocol (Ip6 s) = (\<not> ip6_loopback s \<and> \<not> ip6_unique_local s)"
| "public_protocol (Dns4 n) = True"
| "public_protocol (Dns6 n) = True"
| "public_protocol (P2p p) = False"
| "public_protocol OtherProtocol = False"

record BootstrapPeerRecord =
  br_peer_id :: string
  br_addr :: string

text \<open>libp2p (a peer identifier is its text), the JSON codec of the file, and whether writing succeeds.\<close>

record 'a CacheEnv =
  ma_parse :: "string \<Rightarrow> 'a option"
  ma_text :: "'a \<Rightarrow> string"
  ma_protocols :: "'a \<Rightarrow> Protocol list"
  peer_parse :: "string \<Rightarrow> string option"
  records_ser :: "BootstrapPeerRecord list \<Rightarrow> string option"
  records_de :: "string \<Rightarrow> BootstrapPeerRecord list option"
  strings_de :: "string \<Rightarrow> string list option"
  cache_write_ok :: bool

definition is_public_addr :: "'a CacheEnv \<Rightarrow> 'a \<Rightarrow> bool" where
  "is_public_addr x a \<longleftrightarrow> list_ex public_protocol (ma_protocols x a)"

fun rsplit_once :: "string \<Rightarrow> string \<Rightarrow> (string \<times> string) option" where
  "rsplit_once p [] = None"
| "rsplit_once p (c # cs) =
     (case rsplit_once p cs of
        Some (a, b) \<Rightarrow> Some (c # a, b)
      | None \<Rightarrow> if starts_with p (c # cs) then Some ([], drop (length p) (c # cs)) else None)"

definition ends_with :: "string \<Rightarrow> string \<Rightarrow> bool" where
  "ends_with p s \<longleftrightarrow> length p \<le> length s \<and> drop (length s - length p) s = p"

definition canonicalize_addr_for_peer :: "'a CacheEnv \<Rightarrow> 'a \<Rightarrow> string \<Rightarrow> string" where
  "canonicalize_addr_for_peer x addr peer =
     (let s = ma_text x addr; suffix = ''/p2p/'' @ peer in
      if ends_with suffix s then s
      else case rsplit_once ''/p2p/'' s of
             Some (h, _) \<Rightarrow> h @ suffix
           | None \<Rightarrow> s @ suffix)"

definition peer_id_from_multiaddr :: "'a CacheEnv \<Rightarrow> 'a \<Rightarrow> string option" where
  "peer_id_from_multiaddr x addr =
     (case rsplit_once ''/p2p/'' (ma_text x addr) of None \<Rightarrow> None | Some (_, p) \<Rightarrow> peer_parse x p)"

definition record_from_addr :: "'a CacheEnv \<Rightarrow> 'a \<Rightarrow> BootstrapPeerRecord option" where
  "record_from_addr x addr =
     (if \<not> is_public_addr x addr then None
      else case peer_id_from_multiaddr x addr of
             None \<Rightarrow> None
           | Some p \<Rightarrow> Some \<lparr> br_peer_id = p, br_addr = canonicalize_addr_for_peer x addr p \<rparr>)"

section \<open>Records\<close>

definition normalize_record :: "'a CacheEnv \<Rightarrow> BootstrapPeerRecord \<Rightarrow> BootstrapPeerRecord option" where
  "normalize_record x r =
     (let p = str_trim (br_peer_id r); a = str_trim (br_addr r) in
      if p = [] \<or> a = [] then None
      else case peer_parse x p of
             None \<Rightarrow> None
           | Some peer \<Rightarrow>
               (case ma_parse x a of
                  None \<Rightarrow> None
                | Some addr \<Rightarrow>
                    if \<not> is_public_addr x addr then None
                    else Some \<lparr> br_peer_id = peer, br_addr = canonicalize_addr_for_peer x addr peer \<rparr>))"

definition migrate_record :: "'a CacheEnv \<Rightarrow> string \<Rightarrow> BootstrapPeerRecord option" where
  "migrate_record x raw =
     (let raw = str_trim raw in
      if raw = [] then None
      else case ma_parse x raw of None \<Rightarrow> None | Some addr \<Rightarrow> record_from_addr x addr)"

text \<open>The loop of both: the last record of a peer stands.\<close>

definition keep_last :: "('r \<Rightarrow> BootstrapPeerRecord option) \<Rightarrow> 'r \<Rightarrow> (string, BootstrapPeerRecord) btree \<Rightarrow> (string, BootstrapPeerRecord) btree" where
  "keep_last f r m = (case f r of None \<Rightarrow> m | Some r' \<Rightarrow> bt_put (br_peer_id r') r' m)"

definition normalize_records :: "'a CacheEnv \<Rightarrow> BootstrapPeerRecord list \<Rightarrow> BootstrapPeerRecord list" where
  "normalize_records x rs = map snd (fold (keep_last (normalize_record x)) rs [])"

definition migrate_legacy_cache :: "'a CacheEnv \<Rightarrow> string list \<Rightarrow> BootstrapPeerRecord list" where
  "migrate_legacy_cache x items = map snd (fold (keep_last (migrate_record x)) items [])"

definition MAX_BOOTSTRAP_PEERS :: nat where
  "MAX_BOOTSTRAP_PEERS = 100"

type_synonym cache_file = "string option"

definition write_cache_records :: "'a CacheEnv \<Rightarrow> BootstrapPeerRecord list \<Rightarrow> cache_file \<Rightarrow> bool \<times> cache_file" where
  "write_cache_records x items file =
     (let n = normalize_records x items; n = (if length n > MAX_BOOTSTRAP_PEERS then take MAX_BOOTSTRAP_PEERS n else n) in
      case records_ser x n of
        None \<Rightarrow> (False, file)
      | Some raw \<Rightarrow> if cache_write_ok x then (True, Some raw) else (False, file))"

text \<open>The result \<open>None\<close> is the error of an unknown format.\<close>

definition read_cache_records :: "'a CacheEnv \<Rightarrow> cache_file \<Rightarrow> BootstrapPeerRecord list option \<times> cache_file" where
  "read_cache_records x file =
     (case file of
        None \<Rightarrow> (Some [], file)
      | Some raw \<Rightarrow>
          if str_trim raw = [] then (Some [], file)
          else case records_de x raw of
                 Some rs \<Rightarrow>
                   let n = normalize_records x rs in (Some n, if n \<noteq> rs then snd (write_cache_records x n file) else file)
               | None \<Rightarrow>
                   (case strings_de x raw of
                      Some items \<Rightarrow> let n = migrate_legacy_cache x items in (Some n, snd (write_cache_records x n file))
                    | None \<Rightarrow> (None, file)))"

definition push_addr :: "'a CacheEnv \<Rightarrow> 'a \<Rightarrow> (string, 'a) btree \<Rightarrow> (string, 'a) btree" where
  "push_addr x addr m =
     (if \<not> is_public_addr x addr then m
      else case peer_id_from_multiaddr x addr of
             None \<Rightarrow> m
           | Some p \<Rightarrow> (case map_of m p of Some _ \<Rightarrow> m | None \<Rightarrow> bt_put p addr m))"

definition push_text :: "'a CacheEnv \<Rightarrow> string \<Rightarrow> (string, 'a) btree \<Rightarrow> (string, 'a) btree" where
  "push_text x raw m = (case ma_parse x raw of None \<Rightarrow> m | Some a \<Rightarrow> push_addr x a m)"

definition load_bootstrap_addrs :: "'a CacheEnv \<Rightarrow> string option \<Rightarrow> cache_file \<Rightarrow> 'a list \<times> cache_file" where
  "load_bootstrap_addrs x env_addrs file =
     (let m = (case env_addrs of
                 None \<Rightarrow> []
               | Some t \<Rightarrow> fold (push_text x) (filter (\<lambda>s. s \<noteq> []) (map str_trim (split_on (CHR '','') t))) []);
          (records, file) = read_cache_records x file;
          m = (case records of None \<Rightarrow> m | Some rs \<Rightarrow> fold (\<lambda>r. push_text x (br_addr r)) rs m)
      in (map snd m, file))"

definition save_bootstrap_peer_addr :: "'a CacheEnv \<Rightarrow> 'a \<Rightarrow> string \<Rightarrow> cache_file \<Rightarrow> bool \<times> cache_file" where
  "save_bootstrap_peer_addr x addr peer file =
     (if \<not> is_public_addr x addr then (True, file)
      else
        let (res, file) = read_cache_records x file;
            rs = filter (\<lambda>r. br_peer_id r \<noteq> peer) (case res of Some rs \<Rightarrow> rs | None \<Rightarrow> []) @
                 [\<lparr> br_peer_id = peer, br_addr = canonicalize_addr_for_peer x addr peer \<rparr>]
        in write_cache_records x (normalize_records x rs) file)"

section \<open>The form of the file\<close>

text \<open>What is relied on: the JSON codec of the records, which never fails on them and whose output is not blank.\<close>

definition cache_codec_ok :: "'a CacheEnv \<Rightarrow> bool" where
  "cache_codec_ok x \<longleftrightarrow> (\<forall>rs. \<exists>t. records_ser x rs = Some t \<and> records_de x t = Some rs \<and> str_trim t \<noteq> [])"

text \<open>A record that normalising leaves as it is, and a list of such records, one for each peer, in order.\<close>

definition stable :: "'a CacheEnv \<Rightarrow> BootstrapPeerRecord \<Rightarrow> bool" where
  "stable x r \<longleftrightarrow> normalize_record x r = Some r"

definition in_order :: "BootstrapPeerRecord list \<Rightarrow> bool" where
  "in_order rs \<longleftrightarrow> sorted_wrt (<) (map br_peer_id rs)"

definition keyed :: "BootstrapPeerRecord list \<Rightarrow> (string, BootstrapPeerRecord) btree" where
  "keyed rs = map (\<lambda>r. (br_peer_id r, r)) rs"

definition record_of :: "BootstrapPeerRecord list \<Rightarrow> string \<Rightarrow> BootstrapPeerRecord option" where
  "record_of rs p = map_of (keyed rs) p"

lemma keyed_simps: "bt_ok (keyed rs) \<longleftrightarrow> in_order rs" "map snd (keyed rs) = rs" "length (keyed rs) = length rs" "fst ` set (keyed rs) = br_peer_id ` set rs"
  by (simp_all add: keyed_def bt_ok_def in_order_def o_def image_image)

lemma keep_last_form:
  assumes "bt_ok m" "m = keyed (map snd m)"
  shows "bt_ok (fold (keep_last f) rs m) \<and> fold (keep_last f) rs m = keyed (map snd (fold (keep_last f) rs m))"
  using assms
proof (induction rs arbitrary: m)
  case (Cons r rs)
  have "bt_put (br_peer_id r') r' m = keyed (map snd (bt_put (br_peer_id r') r' m))" for r'
    using Cons.prems(2)
  proof (induction m)
    case (Cons e es)
    then show ?case by (cases e) (auto simp: keyed_def)
  qed (simp add: keyed_def)
  then show ?case using Cons by (simp add: keep_last_def bt_ok_put split: option.split)
qed simp

lemma keep_last_values: "(k, r) \<in> set (fold (keep_last f) rs m) \<Longrightarrow> (k, r) \<in> set m \<or> (\<exists>s \<in> set rs. f s = Some r)"
proof (induction rs arbitrary: m)
  case (Cons s rs)
  have put: "(k, r) \<in> set (bt_put k' r' m) \<Longrightarrow> (k, r) \<in> set m \<or> r = r'" for k' r'
    by (induction m) (auto split: if_splits)
  then show ?case using Cons.IH[of "keep_last f s m"] Cons.prems
    by (cases "f s") (force simp: keep_last_def)+
qed simp

lemma normalized_form:
  "in_order (normalize_records x rs)"
  "r \<in> set (normalize_records x rs) \<Longrightarrow> \<exists>s \<in> set rs. normalize_record x s = Some r"
proof -
  let ?m = "fold (keep_last (normalize_record x)) rs []"
  have "bt_ok ?m \<and> ?m = keyed (map snd ?m)" by (rule keep_last_form) (simp_all add: keyed_def)
  then show "in_order (normalize_records x rs)" using keyed_simps(1)[of "map snd ?m"] by (simp add: normalize_records_def)
  show "r \<in> set (normalize_records x rs) \<Longrightarrow> \<exists>s \<in> set rs. normalize_record x s = Some r"
    using keep_last_values[of _ r "normalize_record x" rs "[]"] by (auto simp: normalize_records_def)
qed


lemma bt_put_last: "\<forall>k' \<in> fst ` set m. k' < k \<Longrightarrow> bt_put k v m = m @ [(k, v)]"
  by (induction m) auto

lemma keep_sorted:
  assumes "\<forall>r \<in> set rs. f r = Some r" "bt_ok (m @ keyed rs)"
  shows "fold (keep_last f) rs m = m @ keyed rs"
  using assms
proof (induction rs arbitrary: m)
  case (Cons r rs)
  then have "\<forall>k \<in> fst ` set m. k < br_peer_id r" by (auto simp: bt_ok_def keyed_def sorted_wrt_append)
  then have "keep_last f r m = m @ [(br_peer_id r, r)]" using Cons.prems by (simp add: keep_last_def bt_put_last)
  then show ?case using Cons by (simp add: keyed_def)
qed (simp add: keyed_def)

lemma normalize_clean: "\<forall>r \<in> set rs. stable x r \<Longrightarrow> in_order rs \<Longrightarrow> normalize_records x rs = rs"
  using keep_sorted[of rs "normalize_record x" "[]"] by (simp add: normalize_records_def stable_def keyed_simps)

definition clean_file :: "'a CacheEnv \<Rightarrow> BootstrapPeerRecord list \<Rightarrow> cache_file \<Rightarrow> bool" where
  "clean_file x rs file \<longleftrightarrow> in_order rs \<and> length rs \<le> MAX_BOOTSTRAP_PEERS \<and> (\<forall>r \<in> set rs. stable x r) \<and>
     (file = None \<and> rs = [] \<or> (\<exists>raw. file = Some raw \<and> str_trim raw \<noteq> [] \<and> records_de x raw = Some rs))"

lemma clean_read: "clean_file x rs file \<Longrightarrow> read_cache_records x file = (Some rs, file)"
  by (auto simp: clean_file_def read_cache_records_def normalize_clean)

lemma write_clean:
  assumes "cache_codec_ok x" "cache_write_ok x" "in_order rs" "\<forall>r \<in> set rs. stable x r"
  shows "\<exists>file'. write_cache_records x rs file = (True, file') \<and> clean_file x (take MAX_BOOTSTRAP_PEERS rs) file'"
proof -
  let ?n = "take MAX_BOOTSTRAP_PEERS rs"
  obtain t where t: "records_ser x ?n = Some t" "records_de x t = Some ?n" "str_trim t \<noteq> []"
    using assms(1) unfolding cache_codec_ok_def by blast
  have "write_cache_records x rs file = (True, Some t)"
    using t(1) assms normalize_clean[of rs x]
    by (cases "MAX_BOOTSTRAP_PEERS < length rs") (simp_all add: write_cache_records_def Let_def)
  moreover have "clean_file x ?n (Some t)"
    using t assms by (auto simp: clean_file_def in_order_def take_map[symmetric] sorted_wrt_take dest: in_set_takeD)
  ultimately show ?thesis by blast
qed

lemma saved_records:
  assumes "in_order rs" "\<forall>r \<in> set rs. stable x r" "stable x new"
  shows "\<exists>ns. normalize_records x (filter (\<lambda>r. br_peer_id r \<noteq> br_peer_id new) rs @ [new]) = ns \<and> in_order ns \<and>
    (\<forall>r \<in> set ns. stable x r) \<and> keyed ns = bt_put (br_peer_id new) new (keyed (filter (\<lambda>r. br_peer_id r \<noteq> br_peer_id new) rs))"
proof -
  let ?rs = "filter (\<lambda>r. br_peer_id r \<noteq> br_peer_id new) rs"
  let ?m = "bt_put (br_peer_id new) new (keyed ?rs)"
  have "in_order ?rs" using assms(1) unfolding in_order_def sorted_wrt_map by (rule sorted_wrt_filter)
  then have "fold (keep_last (normalize_record x)) (?rs @ [new]) [] = ?m"
    using assms keep_sorted[of ?rs "normalize_record x" "[]"] by (simp add: stable_def keyed_simps keep_last_def)
  moreover have "bt_ok ?m \<and> ?m = keyed (map snd ?m)"
    using calculation keep_last_form[of "[]" "normalize_record x" "?rs @ [new]"] by (simp add: keyed_def)
  moreover have "\<forall>r \<in> set (map snd ?m). stable x r"
  proof
    fix r assume "r \<in> set (map snd ?m)"
    then obtain k where "(k, r) \<in> set ?m" by auto
    then have "r = new \<or> r \<in> set rs"
      using keep_last_values[of k r "normalize_record x" "?rs @ [new]" "[]"] calculation(1) assms(2,3) by (auto simp: stable_def)
    then show "stable x r" using assms by blast
  qed
  ultimately show ?thesis using keyed_simps(1)[of "map snd ?m"] by (auto simp: normalize_records_def)
qed

lemma bt_put_length: "k \<notin> fst ` set m \<Longrightarrow> length (bt_put k v m) = Suc (length m)"
  by (induction m) auto

text \<open>
  A saved peer is found again. When the file is in its normal form, saving a public address whose canonical form is stable
  keeps the file in normal form (records in order, one for each peer, all public, at most a hundred), the record of the peer becomes
  the new one and every other record stays, as long as there is room for one more peer.
\<close>

theorem cache_saved_peer:
  assumes "cache_codec_ok x" and "cache_write_ok x" and "clean_file x rs file" and "is_public_addr x addr"
    and "stable x \<lparr> br_peer_id = peer, br_addr = canonicalize_addr_for_peer x addr peer \<rparr>"
    and "length (filter (\<lambda>r. br_peer_id r \<noteq> peer) rs) < MAX_BOOTSTRAP_PEERS"
  shows "\<exists>rs' file'. save_bootstrap_peer_addr x addr peer file = (True, file') \<and> clean_file x rs' file' \<and>
    read_cache_records x file' = (Some rs', file') \<and>
    (\<forall>q. record_of rs' q = (if q = peer then Some \<lparr> br_peer_id = peer, br_addr = canonicalize_addr_for_peer x addr peer \<rparr> else record_of rs q))"
proof -
  let ?new = "\<lparr> br_peer_id = peer, br_addr = canonicalize_addr_for_peer x addr peer \<rparr>"
  let ?rs = "filter (\<lambda>r. br_peer_id r \<noteq> peer) rs"
  have rs: "in_order rs" "\<forall>r \<in> set rs. stable x r" using assms(3) by (simp_all add: clean_file_def)
  obtain ns where ns: "normalize_records x (?rs @ [?new]) = ns" "in_order ns" "\<forall>r \<in> set ns. stable x r" "keyed ns = bt_put peer ?new (keyed ?rs)"
    using saved_records[OF rs assms(5)] by auto
  obtain file' where f: "write_cache_records x ns file = (True, file')" "clean_file x (take MAX_BOOTSTRAP_PEERS ns) file'"
    using write_clean[OF assms(1,2) ns(2,3)] by blast
  have "peer \<notin> fst ` set (keyed ?rs)" by (auto simp: keyed_def)
  then have "length (keyed ns) = Suc (length (keyed ?rs))" using bt_put_length ns(4) by metis
  then have "length ns = Suc (length ?rs)" by (simp add: keyed_simps(3))
  then have "take MAX_BOOTSTRAP_PEERS ns = ns" using assms(6) by simp
  moreover have "record_of ns q = (if q = peer then Some ?new else record_of rs q)" for q
  proof -
    have "map_of (keyed ?rs) q = (if q = peer then None else map_of (keyed rs) q)"
      by (induction rs) (auto simp: keyed_def)
    then show ?thesis by (simp add: record_of_def ns(4) map_of_bt_put)
  qed
  moreover have "save_bootstrap_peer_addr x addr peer file = (True, file')"
    using assms(4) clean_read[OF assms(3)] f(1) ns(1) by (simp add: save_bootstrap_peer_addr_def)
  ultimately show ?thesis using f(2) clean_read[of x ns file'] by auto
qed

text \<open>
  A full cache forgets a peer whose identifier sorts last. The truncation keeps the first hundred records in the order of the
  identifiers: the address that was just saved is dropped, and the call still reports success.
\<close>

theorem full_cache_forgets:
  assumes "cache_codec_ok x" and "cache_write_ok x" and "clean_file x rs file" and "is_public_addr x addr"
    and "stable x \<lparr> br_peer_id = peer, br_addr = canonicalize_addr_for_peer x addr peer \<rparr>"
    and "length rs = MAX_BOOTSTRAP_PEERS" and "\<forall>r \<in> set rs. br_peer_id r < peer"
  shows "\<exists>file'. save_bootstrap_peer_addr x addr peer file = (True, file') \<and> read_cache_records x file' = (Some rs, file')"
proof -
  let ?new = "\<lparr> br_peer_id = peer, br_addr = canonicalize_addr_for_peer x addr peer \<rparr>"
  have rs: "in_order rs" "\<forall>r \<in> set rs. stable x r" using assms(3) by (simp_all add: clean_file_def)
  have all: "filter (\<lambda>r. br_peer_id r \<noteq> peer) rs = rs" using assms(7) by (auto intro!: filter_True)
  have o: "in_order (rs @ [?new])" "\<forall>r \<in> set (rs @ [?new]). stable x r"
    using rs assms(5,7) by (auto simp: in_order_def sorted_wrt_append)
  obtain file' where f: "write_cache_records x (rs @ [?new]) file = (True, file')" "clean_file x (take MAX_BOOTSTRAP_PEERS (rs @ [?new])) file'"
    using write_clean[OF assms(1,2) o] by blast
  have "save_bootstrap_peer_addr x addr peer file = (True, file')"
    using assms(4) clean_read[OF assms(3)] f(1) normalize_clean[OF o(2,1)] all by (simp add: save_bootstrap_peer_addr_def)
  then show ?thesis using clean_read[OF f(2)] assms(6) by simp
qed

section \<open>Witnesses\<close>

text \<open>A concrete codec: every character is preceded by a mark, and so is every record.\<close>

definition enc_text :: "string \<Rightarrow> string" where
  "enc_text s = concat (map (\<lambda>c. [CHR ''c'', c]) s) @ ''.''"

fun dec_text :: "string \<Rightarrow> string \<times> string" where
  "dec_text (m # c # cs) = (if m = CHR ''c'' then (let (a, b) = dec_text cs in (c # a, b)) else ([], c # cs))"
| "dec_text cs = ([], tl cs)"

fun enc_records :: "BootstrapPeerRecord list \<Rightarrow> string" where
  "enc_records [] = ''x''"
| "enc_records (r # rs) = CHR ''r'' # enc_text (br_peer_id r) @ enc_text (br_addr r) @ enc_records rs"

fun dec_records :: "nat \<Rightarrow> string \<Rightarrow> BootstrapPeerRecord list" where
  "dec_records 0 s = []"
| "dec_records (Suc n) s =
     (if s = [] \<or> hd s \<noteq> CHR ''r'' then []
      else let (p, s) = dec_text (tl s); (a, s) = dec_text s in \<lparr> br_peer_id = p, br_addr = a \<rparr> # dec_records n s)"

lemma dec_enc_text: "dec_text (enc_text s @ t) = (s, t)"
proof (induction s)
  case Nil
  then show ?case by (cases t) (simp_all add: enc_text_def)
qed (simp add: enc_text_def)

lemma enc_records_long: "length rs < length (enc_records rs)"
  by (induction rs) (auto simp: enc_text_def)

lemma dec_enc_records: "length rs < n \<Longrightarrow> dec_records n (enc_records rs) = rs"
proof (induction n arbitrary: rs)
  case (Suc n)
  then show ?case by (cases rs) (simp_all add: dec_enc_text)
qed simp

definition demo_cache_env :: "string CacheEnv" where
  "demo_cache_env = \<lparr> ma_parse = Some, ma_text = (\<lambda>a. a), ma_protocols = (\<lambda>a. [Ip4 8 8 8 8]), peer_parse = Some,
     records_ser = (\<lambda>rs. Some (enc_records rs)), records_de = (\<lambda>t. Some (dec_records (length t) t)), strings_de = (\<lambda>t. None),
     cache_write_ok = True \<rparr>"

lemma demo_cache_codec: "cache_codec_ok demo_cache_env"
proof -
  have "str_trim (enc_records rs) \<noteq> []" for rs
  proof -
    obtain u where "enc_records rs = u @ ''x''" by (induction rs) auto
    moreover have "\<not> is_ws (CHR ''x'')" by (simp add: is_ws_def)
    ultimately show ?thesis by (auto simp: str_trim_def dropWhile_append)
  qed
  then show ?thesis by (auto simp: cache_codec_ok_def demo_cache_env_def dec_enc_records[OF enc_records_long])
qed


theorem cache_saved_peer_witness:
  "\<exists>rs' file'. save_bootstrap_peer_addr demo_cache_env ''/a'' ''p'' None = (True, file') \<and> read_cache_records demo_cache_env file' = (Some rs', file') \<and>
     record_of rs' ''p'' = Some \<lparr> br_peer_id = ''p'', br_addr = ''/a/p2p/p'' \<rparr>"
proof -
  have canon: "canonicalize_addr_for_peer demo_cache_env ''/a'' ''p'' = ''/a/p2p/p''" by code_simp
  have "stable demo_cache_env \<lparr> br_peer_id = ''p'', br_addr = ''/a/p2p/p'' \<rparr>" unfolding stable_def by code_simp
  moreover have "clean_file demo_cache_env [] None" by (simp add: clean_file_def in_order_def)
  moreover have "cache_write_ok demo_cache_env" "is_public_addr demo_cache_env ''/a''"
    by (simp_all add: demo_cache_env_def is_public_addr_def ip4_loopback_def ip4_private_def ip4_link_local_def)
  ultimately show ?thesis
    using cache_saved_peer[OF demo_cache_codec, of "[]" None "''/a''" "''p''"] by (auto simp: canon MAX_BOOTSTRAP_PEERS_def)
qed

end
