(* ===== verification/Keys.thy ===== *)
theory Keys
  imports Authority Onboarding Text
begin

text \<open>
  The long-lived secrets of a node and the files that hold them: the identity key and its role file (\<^verbatim>\<open>identity.rs\<close>), the encrypted keystore
  (\<^verbatim>\<open>keystore.rs\<close>), the onion key, the profile and the onboarding of a new node (\<^verbatim>\<open>onboarding.rs\<close>). The cryptography and the
  key codecs are parameters. The theorems: the identity, the master key and the profile are the same after every restart.
\<close>

section \<open>Files and environment\<close>

record KeyDisk =
  kd_identity :: "u8 list option"
  kd_role :: "string option"
  kd_keystore :: "u8 list option"
  kd_x25519 :: "u8 list option"
  kd_profile :: "string option"
  kd_other_keys :: "u8 list option list"

text \<open>
  libp2p's key pairs, the hash, the password-based key derivation, AES-GCM, HKDF, X25519 and the JSON codec of the profile;
  \<open>ky_var\<close> is the environment of the process.
\<close>

record 'k KeyEnv =
  kp_decode :: "u8 list \<Rightarrow> 'k option"
  kp_from_bytes :: "u8 list \<Rightarrow> 'k option"
  kp_encode :: "'k \<Rightarrow> u8 list option"
  kp_peer :: "'k \<Rightarrow> string"
  kp_sign :: "'k \<Rightarrow> u8 list \<Rightarrow> u8 list option"
  kp_public :: "'k \<Rightarrow> u8 list"
  ky_sha256 :: "u8 list \<Rightarrow> u8 list"
  pbkdf2 :: "u8 list \<Rightarrow> u8 list \<Rightarrow> u8 list"
  ky_encrypt :: "u8 list \<Rightarrow> u8 list \<Rightarrow> u8 list \<Rightarrow> u8 list option"
  ky_decrypt :: "u8 list \<Rightarrow> u8 list \<Rightarrow> u8 list \<Rightarrow> u8 list option"
  ky_hkdf :: "u8 list \<Rightarrow> u8 list \<Rightarrow> u8 list"
  x25519_public :: "u8 list \<Rightarrow> u8 list"
  ky_hmac :: "u8 list \<Rightarrow> u8 list \<Rightarrow> u8 list"
  profile_ser :: "LocalProfile \<Rightarrow> string option"
  profile_de :: "string \<Rightarrow> LocalProfile option"
  ky_var :: "string \<Rightarrow> string option"
  ky_hostname :: "string option"

text \<open>The fresh random values a run draws.\<close>

record 'k KeyRandom =
  rnd_keypair :: 'k
  rnd_master :: "u8 list"
  rnd_salt :: "u8 list"
  rnd_nonce :: "u8 list"
  rnd_x25519 :: "u8 list"

definition var_or_empty :: "'k KeyEnv \<Rightarrow> string \<Rightarrow> string" where
  "var_or_empty x v = (case ky_var x v of Some s \<Rightarrow> s | None \<Rightarrow> [])"

section \<open>Identity\<close>

record 'k EssIdentity =
  ei_keypair :: 'k
  ei_peer_id :: string
  ei_ess_id :: string
  ei_role :: "NodeRole option"
  ei_authority_peer_id :: "string option"
  ei_authority_hash :: "string option"
  ei_authority_signature :: "string option"

definition parse_role_env_inner :: "string \<Rightarrow> NodeRole option" where
  "parse_role_env_inner raw =
     (let r = str_lower (str_trim raw) in
      if r = ''supernode'' then Some Supernode else if r = ''validator'' then Some Validator
      else if r = ''client'' then Some Client else if r = ''gateway'' then Some Gateway
      else if r = ''standard'' then Some Standard else if r = ''observer'' then Some Observer
      else if r = ''blocked'' then Some Blocked else None)"

definition parse_role_env :: "'k KeyEnv \<Rightarrow> string \<Rightarrow> NodeRole option" where
  "parse_role_env x name = Option.bind (ky_var x name) parse_role_env_inner"

definition is_truthy_env :: "'k KeyEnv \<Rightarrow> string \<Rightarrow> bool" where
  "is_truthy_env x name = (str_lower (str_trim (var_or_empty x name)) \<in> {''1'', ''true'', ''yes'', ''on''})"

definition from_keypair :: "'k KeyEnv \<Rightarrow> 'k \<Rightarrow> 'k EssIdentity" where
  "from_keypair x kp = \<lparr> ei_keypair = kp, ei_peer_id = kp_peer x kp, ei_ess_id = hex_encode (ky_sha256 x (as_bytes (kp_peer x kp))),
     ei_role = None, ei_authority_peer_id = None, ei_authority_hash = None, ei_authority_signature = None \<rparr>"

definition bind_role :: "NodeRole \<Rightarrow> 'k EssIdentity \<Rightarrow> 'k EssIdentity" where
  "bind_role r i = i\<lparr> ei_role := Some r \<rparr>"

definition bind_authority :: "NodeRole \<Rightarrow> string \<Rightarrow> string \<Rightarrow> string \<Rightarrow> 'k EssIdentity \<Rightarrow> 'k EssIdentity" where
  "bind_authority r p h sg i =
     i\<lparr> ei_role := Some r, ei_authority_peer_id := Some p, ei_authority_hash := Some h, ei_authority_signature := Some sg \<rparr>"

definition clear_authority_binding :: "'k EssIdentity \<Rightarrow> 'k EssIdentity" where
  "clear_authority_binding i =
     i\<lparr> ei_role := None, ei_authority_peer_id := None, ei_authority_hash := None, ei_authority_signature := None \<rparr>"

definition is_authority_bound :: "'k EssIdentity \<Rightarrow> bool" where
  "is_authority_bound i \<longleftrightarrow> ei_role i \<noteq> None \<and> ei_authority_peer_id i \<noteq> None \<and> ei_authority_hash i \<noteq> None \<and>
     ei_authority_signature i \<noteq> None"

definition load_keypair_file :: "'k KeyEnv \<Rightarrow> 'k KeyRandom \<Rightarrow> KeyDisk \<Rightarrow> (string + 'k) \<times> KeyDisk" where
  "load_keypair_file x rnd d =
     (case kd_identity d of
        Some bytes \<Rightarrow> (case kp_decode x bytes of Some kp \<Rightarrow> (Inr kp, d) | None \<Rightarrow> (Inl ''invalid key file'', d))
      | None \<Rightarrow>
          (case kp_encode x (rnd_keypair rnd) of
             Some bytes \<Rightarrow> (Inr (rnd_keypair rnd), d\<lparr> kd_identity := Some bytes \<rparr>)
           | None \<Rightarrow> (Inl ''encoding'', d)))"

text \<open>The role file, the variables that bind an authority and the one that clears the binding.\<close>

definition environment_role :: "'k KeyEnv \<Rightarrow> 'k EssIdentity \<Rightarrow> 'k EssIdentity" where
  "environment_role x i =
     (let i = (case parse_role_env x ''ESS_AUTHORITY_ROLE'' of
                 None \<Rightarrow> i
               | Some r \<Rightarrow>
                   let p = var_or_empty x ''ESS_AUTHORITY_PEER_ID''; h = var_or_empty x ''ESS_AUTHORITY_HASH'';
                       sg = var_or_empty x ''ESS_AUTHORITY_SIGNATURE'' in
                   if p \<noteq> [] \<and> h \<noteq> [] \<and> sg \<noteq> [] then bind_authority r p h sg i else i)
      in if is_truthy_env x ''ESS_CLEAR_AUTHORITY_BINDING'' then clear_authority_binding i else i)"

definition load_or_create :: "'k KeyEnv \<Rightarrow> 'k KeyRandom \<Rightarrow> KeyDisk \<Rightarrow> (string + 'k EssIdentity) \<times> KeyDisk" where
  "load_or_create x rnd d =
     (case load_keypair_file x rnd d of
        (Inl e, d) \<Rightarrow> (Inl e, d)
      | (Inr kp, d) \<Rightarrow>
          let i = (from_keypair x kp)\<lparr> ei_role := Option.bind (kd_role d) parse_role_env_inner \<rparr>;
              i = (if ei_role i = None then bind_role Client i else i);
              i = environment_role x i
          in case kp_sign x kp (as_bytes (''ess-bootstrap:'' @ ei_peer_id i)) of
               None \<Rightarrow> (Inl ''signing'', d)
             | Some sg \<Rightarrow> (Inr i, d))"

definition save_keypair :: "'k KeyEnv \<Rightarrow> 'k EssIdentity \<Rightarrow> KeyDisk \<Rightarrow> (string + unit) \<times> KeyDisk" where
  "save_keypair x i d =
     (case kp_encode x (ei_keypair i) of
        None \<Rightarrow> (Inl ''encoding'', d)
      | Some bytes \<Rightarrow> (Inr (), d\<lparr> kd_identity := Some bytes \<rparr>))"

definition save_role :: "'k EssIdentity \<Rightarrow> KeyDisk \<Rightarrow> KeyDisk" where
  "save_role i d = d\<lparr> kd_role := Some (case ei_role i of Some r \<Rightarrow> role_as_str r | None \<Rightarrow> ''client'') \<rparr>"

definition initialize_identity :: "'k KeyEnv \<Rightarrow> 'k KeyRandom \<Rightarrow> KeyDisk \<Rightarrow> (string + 'k \<times> string) \<times> KeyDisk" where
  "initialize_identity x rnd d =
     (case load_or_create x rnd d of
        (Inl e, d) \<Rightarrow> (Inl e, d)
      | (Inr i, d) \<Rightarrow>
          (case Option.bind (kp_encode x (ei_keypair i)) (kp_decode x) of
             None \<Rightarrow> (Inl ''encoding'', d)
           | Some kp \<Rightarrow> (Inr (kp, ei_peer_id i), d)))"

section \<open>Keystore\<close>

text \<open>A panic is an outcome of its own: the slice of a plaintext that is too short, a failed encryption.\<close>

datatype 'a outcome = Done 'a | Fails string | Panicked

definition keystore_password :: "'k KeyEnv \<Rightarrow> string option" where
  "keystore_password x = (case ky_var x ''ESS_KEYSTORE_PASSWORD'' of Some p \<Rightarrow> Some p | None \<Rightarrow> ky_var x ''ESS_MASTER_SECRET'')"

definition keystore_open :: "'k KeyEnv \<Rightarrow> string \<Rightarrow> u8 list \<Rightarrow> u8 list outcome" where
  "keystore_open x password data =
     (if length data < 16 + 12 then Fails ''Keystore file corrupted (too short)''
      else
        let salt = take 16 data; nonce = take 12 (drop 16 data); cipher = drop 28 data;
            key = pbkdf2 x (as_bytes password) salt in
        case ky_decrypt x key nonce cipher of
          None \<Rightarrow> Fails ''Decryption failed: wrong password or corrupted data''
        | Some plain \<Rightarrow> if length plain < 32 then Panicked else Done (take 32 plain))"

definition keystore_create :: "'k KeyEnv \<Rightarrow> 'k KeyRandom \<Rightarrow> string \<Rightarrow> KeyDisk \<Rightarrow> u8 list outcome \<times> KeyDisk" where
  "keystore_create x rnd password d =
     (let key = pbkdf2 x (as_bytes password) (rnd_salt rnd) in
      case ky_encrypt x key (rnd_nonce rnd) (rnd_master rnd) of
        None \<Rightarrow> (Panicked, d)
      | Some c \<Rightarrow> (Done (rnd_master rnd), d\<lparr> kd_keystore := Some (rnd_salt rnd @ rnd_nonce rnd @ c) \<rparr>))"

definition keystore_initialize :: "'k KeyEnv \<Rightarrow> 'k KeyRandom \<Rightarrow> KeyDisk \<Rightarrow> u8 list outcome \<times> KeyDisk" where
  "keystore_initialize x rnd d =
     (case keystore_password x of
        None \<Rightarrow> (Fails ''ESS_KEYSTORE_PASSWORD or ESS_MASTER_SECRET must be set'', d)
      | Some password \<Rightarrow>
          (case kd_keystore d of
             Some data \<Rightarrow> (keystore_open x password data, d)
           | None \<Rightarrow> keystore_create x rnd password d))"

definition derive_key :: "'k KeyEnv \<Rightarrow> u8 list \<Rightarrow> string \<Rightarrow> u8 list" where
  "derive_key x master purpose = ky_hkdf x master (as_bytes (''ESS-DERIVE-v2:'' @ purpose))"

section \<open>Onion key and profile\<close>

definition load_or_generate_x25519_secret :: "'k KeyRandom \<Rightarrow> KeyDisk \<Rightarrow> (string + u8 list) \<times> KeyDisk" where
  "load_or_generate_x25519_secret rnd d =
     (case kd_x25519 d of
        Some bytes \<Rightarrow> (if length bytes \<noteq> 32 then (Inl ''X25519 secret file corrupted (wrong length)'', d) else (Inr bytes, d))
      | None \<Rightarrow> (Inr (rnd_x25519 rnd), d\<lparr> kd_x25519 := Some (rnd_x25519 rnd) \<rparr>))"

definition get_master_secret :: "'k KeyEnv \<Rightarrow> u8 list option" where
  "get_master_secret x = map_option as_bytes (ky_var x ''ESS_MASTER_SECRET'')"

text \<open>
  The questions of the interactive mode. The answers are the lines of the standard input; after its end every answer is empty, so that
  the loop over the serial number, which asks again after a wrong one, goes on for ever: the result \<open>None\<close>.
\<close>

fun ask_serial :: "(string \<Rightarrow> bool) \<Rightarrow> string list \<Rightarrow> string option" where
  "ask_serial ok [] = None"
| "ask_serial ok (l # ls) = (if ok (str_trim l) then Some (str_trim l) else ask_serial ok ls)"

definition ask_profile :: "'k KeyEnv \<Rightarrow> string list \<Rightarrow> (string \<times> string \<times> string) option" where
  "ask_profile x input =
     (let line = (\<lambda>i. if i < length input then str_trim (input ! i) else []) in
      map_option (\<lambda>sn. (line 0, line 1, sn)) (ask_serial (verify_sn_checksum (ky_hmac x) (get_master_secret x)) (drop 2 input)))"

definition new_credentials :: "'k KeyEnv \<Rightarrow> string list \<Rightarrow> (string \<times> string \<times> string) option" where
  "new_credentials x input =
     (case (ky_var x ''ESS_NODE_NAME'', ky_var x ''ESS_NODE_EMAIL'') of
        (Some n, Some e) \<Rightarrow>
          Some (n, e, (case ky_var x ''ESS_SERIAL_NUMBER'' of
                         Some sn \<Rightarrow> sn
                       | None \<Rightarrow> auto_generate_sn (ky_hmac x) (get_master_secret x) (ky_hostname x)))
      | _ \<Rightarrow> ask_profile x input)"

text \<open>The outer \<open>None\<close> is the loop that does not end.\<close>

definition setup_identity :: "'k KeyEnv \<Rightarrow> 'k KeyRandom \<Rightarrow> string list \<Rightarrow> string \<Rightarrow> KeyDisk \<Rightarrow> ((string + LocalProfile) \<times> KeyDisk) option" where
  "setup_identity x rnd input local_peer_id d =
     (case load_or_generate_x25519_secret rnd d of
        (Inl e, d) \<Rightarrow> Some (Inl e, d)
      | (Inr sk, d) \<Rightarrow>
          let pk = hex_encode (x25519_public x sk) in
          (case kd_profile d of
             Some text \<Rightarrow>
               (case profile_de x text of
                  None \<Rightarrow> Some (Inl ''Profile format corrupted'', d)
                | Some p \<Rightarrow>
                    if lp_peer_id p \<noteq> local_peer_id then Some (Inl ''Identity Mismatch'', d)
                    else if lp_x25519_pubkey p = [] then
                      (let p = p\<lparr> lp_x25519_pubkey := pk \<rparr> in
                       case profile_ser x p of
                         None \<Rightarrow> Some (Inl ''serialization'', d)
                       | Some t \<Rightarrow> Some (Inr p, d\<lparr> kd_profile := Some t \<rparr>))
                    else Some (Inr p, d))
           | None \<Rightarrow>
               (case new_credentials x input of
                  None \<Rightarrow> None
                | Some (n, e, sn) \<Rightarrow>
                    let p = \<lparr> lp_name = n, lp_email = e, lp_peer_id = local_peer_id, lp_serial_number = sn, lp_is_activated = True,
                              lp_x25519_pubkey = pk \<rparr> in
                    (case profile_ser x p of
                       None \<Rightarrow> Some (Inl ''Serialization failed'', d)
                     | Some t \<Rightarrow> Some (Inr p, d\<lparr> kd_profile := Some t \<rparr>)))))"

text \<open>The key that signs the onboarding request: the first candidate file that holds a key in either encoding.\<close>

fun first_key :: "'k KeyEnv \<Rightarrow> u8 list option list \<Rightarrow> 'k option" where
  "first_key x [] = None"
| "first_key x (None # fs) = first_key x fs"
| "first_key x (Some bytes # fs) =
     (case kp_decode x bytes of
        Some kp \<Rightarrow> Some kp
      | None \<Rightarrow> (case kp_from_bytes x bytes of Some kp \<Rightarrow> Some kp | None \<Rightarrow> first_key x fs))"

definition load_keypair :: "'k KeyEnv \<Rightarrow> KeyDisk \<Rightarrow> 'k option" where
  "load_keypair x d = first_key x (kd_identity d # kd_other_keys d)"

section \<open>The onboarding request\<close>

text \<open>How an attempt ends: answered, refused with a text, or not within ten seconds. The clock and the nonce are those of the attempt.\<close>

datatype attempt_end = Answered | Refused string | TimedOut

record Attempt =
  at_nonce :: "u8 list"
  at_secs :: u64
  at_end :: attempt_end

definition attempt_error :: "string \<Rightarrow> nat \<Rightarrow> attempt_end \<Rightarrow> string" where
  "attempt_error target n r =
     (case r of
        Refused e \<Rightarrow> ''Onboarding request to '' @ target @ '' failed (attempt '' @ dec_str n @ ''): '' @ e
      | _ \<Rightarrow> ''Onboarding request to '' @ target @ '' timed out (attempt '' @ dec_str n @ '')'')"

text \<open>
  The loop over the attempts: the outcome, the requests that were sent and the seconds slept between them.
\<close>

function retry_loop :: "'k KeyEnv \<Rightarrow> 'k \<Rightarrow> LocalProfile \<Rightarrow> string \<Rightarrow> (nat \<Rightarrow> Attempt) \<Rightarrow> nat \<Rightarrow> string option \<Rightarrow>
    (string + unit) \<times> OnboardRequest list \<times> nat" where
  "retry_loop x kp profile target tries n last_error =
     (if n > 3 then (Inl (case last_error of Some e \<Rightarrow> e | None \<Rightarrow> ''Onboarding request failed after all retries''), [], 0)
      else
        let a = tries n;
            msg = build_signed_message (onboarding_attempt (\<lambda>m. []) [] profile (at_nonce a) (at_secs a)) in
        case kp_sign x kp (as_bytes msg) of
          None \<Rightarrow> (Inl ''Sign error'', [], 0)
        | Some sg \<Rightarrow>
            let rq = onboarding_attempt (\<lambda>m. sg) (kp_public x kp) profile (at_nonce a) (at_secs a) in
            if at_end a = Answered then (Inr (), [rq], 0)
            else
              let (res, sent, slept) = retry_loop x kp profile target tries (n + 1) (Some (attempt_error target n (at_end a)))
              in (res, rq # sent, (if n < 3 then 2 else 0) + slept))"
  by auto
termination
  by (relation "measure (\<lambda>(x, kp, profile, target, tries, n, e). 4 - n)") auto

declare retry_loop.simps [simp del]

definition send_onboarding_request :: "'k KeyEnv \<Rightarrow> string \<Rightarrow> (nat \<Rightarrow> Attempt) \<Rightarrow> KeyDisk \<Rightarrow>
    (string + unit) \<times> OnboardRequest list \<times> nat" where
  "send_onboarding_request x target tries d =
     (case kd_profile d of
        None \<Rightarrow> (Inl ''Local profile not found. Run onboarding setup first.'', [], 0)
      | Some text \<Rightarrow>
          (case profile_de x text of
             None \<Rightarrow> (Inl ''profile'', [], 0)
           | Some profile \<Rightarrow>
               (case load_keypair x d of
                  None \<Rightarrow> (Inl ''Keypair not found for signing onboarding request'', [], 0)
                | Some kp \<Rightarrow> retry_loop x kp profile target tries 1 None)))"

section \<open>What survives a restart\<close>

text \<open>What is relied on: the codecs and the cipher invert each other.\<close>

definition key_env_ok :: "'k KeyEnv \<Rightarrow> bool" where
  "key_env_ok x \<longleftrightarrow>
     (\<forall>kp b. kp_encode x kp = Some b \<longrightarrow> kp_decode x b = Some kp) \<and>
     (\<forall>k n m c. ky_encrypt x k n m = Some c \<longrightarrow> ky_decrypt x k n c = Some m) \<and>
     (\<forall>p t. profile_ser x p = Some t \<longrightarrow> profile_de x t = Some p) \<and>
     (\<forall>sk. length sk = 32 \<longrightarrow> x25519_public x sk \<noteq> [])"

definition random_ok :: "'k KeyRandom \<Rightarrow> bool" where
  "random_ok r \<longleftrightarrow> length (rnd_master r) = 32 \<and> length (rnd_salt r) = 16 \<and> length (rnd_nonce r) = 12 \<and> length (rnd_x25519 r) = 32"

lemma identity_stable:
  assumes "key_env_ok x" "load_or_create x r d = (Inr i, d')"
  shows "load_or_create x r' d' = (Inr i, d')"
proof -
  obtain kp where kp: "load_keypair_file x r d = (Inr kp, d')" "kd_role d' = kd_role d"
    using assms(2) by (auto simp: load_or_create_def load_keypair_file_def Let_def split: option.splits)
  then have "load_keypair_file x r' d' = (Inr kp, d')"
    using assms(1) by (auto simp: load_keypair_file_def key_env_ok_def split: option.splits)
  then show ?thesis using assms(2) kp by (simp add: load_or_create_def)
qed

lemma keystore_stable:
  assumes "key_env_ok x" "random_ok r" "keystore_initialize x r d = (Done k, d')"
  shows "keystore_initialize x r' d' = (Done k, d')"
  using assms
  by (auto simp: keystore_initialize_def keystore_create_def keystore_open_def key_env_ok_def random_ok_def Let_def split: option.splits if_splits)

lemma onion_key_file:
  assumes "random_ok r" "load_or_generate_x25519_secret r d = (Inr sk, d')"
  shows "kd_x25519 d' = Some sk \<and> length sk = 32 \<and> kd_profile d' = kd_profile d"
  using assms by (auto simp: load_or_generate_x25519_secret_def random_ok_def split: option.splits if_splits)

lemma onion_key_read: "kd_x25519 d = Some sk \<Longrightarrow> length sk = 32 \<Longrightarrow> load_or_generate_x25519_secret r d = (Inr sk, d)"
  by (simp add: load_or_generate_x25519_secret_def)

lemma hex_encode_Nil: "hex_encode bs = [] \<longleftrightarrow> bs = []"
  by (cases bs) (auto simp: hex_encode_def hex_fixed_def)

lemma setup_files:
  assumes "key_env_ok x" "random_ok r" "setup_identity x r inp me d = Some (Inr p, d')"
  shows "\<exists>sk t. kd_x25519 d' = Some sk \<and> length sk = 32 \<and> kd_profile d' = Some t \<and> profile_de x t = Some p \<and>
    lp_x25519_pubkey p \<noteq> [] \<and> lp_peer_id p = me"
proof -
  obtain sk d1 where sk: "load_or_generate_x25519_secret r d = (Inr sk, d1)"
    using assms(3) by (auto simp: setup_identity_def split: sum.splits prod.splits)
  have f: "kd_x25519 d1 = Some sk" "length sk = 32" using onion_key_file[OF assms(2) sk] by auto
  then have "hex_encode (x25519_public x sk) \<noteq> []" using assms(1) by (simp add: key_env_ok_def hex_encode_Nil)
  moreover have "\<And>p t. profile_ser x p = Some t \<Longrightarrow> profile_de x t = Some p" using assms(1) by (simp add: key_env_ok_def)
  ultimately show ?thesis
    using assms(3) sk f by (auto simp: setup_identity_def Let_def split: option.splits if_splits)
qed

lemma setup_again:
  assumes "key_env_ok x" "random_ok r" "setup_identity x r inp me d = Some (Inr p, d')"
  shows "setup_identity x r' inp' other d' = Some (if other = me then Inr p else Inl ''Identity Mismatch'', d')"
proof -
  obtain sk t where "kd_x25519 d' = Some sk" "length sk = 32" "kd_profile d' = Some t" "profile_de x t = Some p"
      "lp_x25519_pubkey p \<noteq> []" "lp_peer_id p = me"
    using setup_files[OF assms] by blast
  then show ?thesis by (simp add: setup_identity_def onion_key_read Let_def)
qed

text \<open>
  The secrets of a node are the same after every restart. Whatever random values a later run draws and whatever is typed
  in, it loads the identity, the master key, the onion key and the profile that the first run made, changes no file, and the profile
  stays bound to the peer identifier of the key; a key that does not belong to the profile is refused.
\<close>

theorem secrets_survive_restart:
  assumes "key_env_ok x" and "random_ok r"
  shows "(load_or_create x r d = (Inr i, d1) \<longrightarrow> load_or_create x r' d1 = (Inr i, d1)) \<and>
    (keystore_initialize x r d = (Done k, d2) \<longrightarrow> keystore_initialize x r' d2 = (Done k, d2)) \<and>
    (load_or_generate_x25519_secret r d = (Inr sk, d3) \<longrightarrow> load_or_generate_x25519_secret r' d3 = (Inr sk, d3)) \<and>
    (setup_identity x r inp me d = Some (Inr p, d4) \<longrightarrow>
       setup_identity x r' inp' me d4 = Some (Inr p, d4) \<and>
       (other \<noteq> me \<longrightarrow> setup_identity x r' inp' other d4 = Some (Inl ''Identity Mismatch'', d4)))"
  using identity_stable[OF assms(1), of r d i d1 r'] keystore_stable[OF assms, of d k d2 r'] onion_key_file[OF assms(2), of d sk d3]
    onion_key_read[of d3 sk r'] setup_again[OF assms, of inp me d p d4 r' inp' me] setup_again[OF assms, of inp me d p d4 r' inp' other]
  by simp

text \<open>
  The role file does not bring every role back. A gateway is written as \<^verbatim>\<open>relay\<close>, which the reader does not know, so that
  the node comes back as a client; standard nodes and observers become clients too.
\<close>

theorem role_file_reads:
  assumes "key_env_ok x" and "kp_encode x (ei_keypair i) = Some b" and "ei_role i = Some r"
    and "load_or_create x rnd (save_role i (d\<lparr> kd_identity := Some b \<rparr>)) = (Inr j, d')"
    and "ky_var x ''ESS_AUTHORITY_ROLE'' = None" and "ky_var x ''ESS_CLEAR_AUTHORITY_BINDING'' = None"
  shows "ei_keypair j = ei_keypair i \<and> ei_role j = Some (if r \<in> {Supernode, Validator, Blocked} then r else Client)"
proof -
  have roles: "parse_role_env_inner (role_as_str r) = (if r = Gateway then None else Some (if r \<in> {Supernode, Validator, Blocked} then r else Client))"
    by (cases r) (simp_all add: parse_role_env_inner_def str_trim_def is_ws_def str_lower_def to_lower_def char_of_eq_iff Let_def)
  have "kp_decode x b = Some (ei_keypair i)" using assms(1,2) by (simp add: key_env_ok_def)
  moreover have "str_lower (str_trim []) = []" by code_simp
  ultimately show ?thesis
    using assms(3-6) roles
    by (auto simp: load_or_create_def load_keypair_file_def save_role_def from_keypair_def bind_role_def environment_role_def
        parse_role_env_def is_truthy_env_def var_or_empty_def Let_def split: option.splits if_splits)
qed

section \<open>Termination\<close>

definition signed_request :: "'k KeyEnv \<Rightarrow> 'k \<Rightarrow> LocalProfile \<Rightarrow> OnboardRequest \<Rightarrow> bool" where
  "signed_request x kp profile rq \<longleftrightarrow> kp_sign x kp (as_bytes (build_signed_message rq)) = Some (ob_signature rq) \<and>
     ob_public_key rq = kp_public x kp \<and> ob_peer_id rq = lp_peer_id profile \<and> ob_serial_number rq = lp_serial_number profile"

lemma retry_step:
  assumes "n \<le> 3" "at_end (tries n) \<noteq> Answered"
    "kp_sign x kp (as_bytes (build_signed_message (onboarding_attempt (\<lambda>m. []) [] profile (at_nonce (tries n)) (at_secs (tries n))))) = Some sg"
    "retry_loop x kp profile target tries (n + 1) (Some (attempt_error target n (at_end (tries n)))) = (res, sent, slept)"
  shows "retry_loop x kp profile target tries n e =
    (res, onboarding_attempt (\<lambda>m. sg) (kp_public x kp) profile (at_nonce (tries n)) (at_secs (tries n)) # sent, (if n < 3 then 2 else 0) + slept)"
  using assms by (subst retry_loop.simps) (simp add: Let_def)

lemma retry_requests:
  assumes "retry_loop x kp profile target tries n e = (res, sent, slept)"
  shows "length sent \<le> 4 - n \<and> slept \<le> 2 * (3 - n) \<and> list_all (signed_request x kp profile) sent"
  using assms
proof (induction x kp profile target tries n e arbitrary: res sent slept rule: retry_loop.induct)
  case (1 x kp profile target tries n e)
  show ?case
  proof (cases "3 < n")
    case True
    then show ?thesis using "1.prems" by (subst (asm) retry_loop.simps) simp
  next
    case False
    let ?a = "tries n"
    let ?msg = "build_signed_message (onboarding_attempt (\<lambda>m. []) [] profile (at_nonce ?a) (at_secs ?a))"
    show ?thesis
    proof (cases "kp_sign x kp (as_bytes ?msg)")
      case None
      then show ?thesis using "1.prems" False by (subst (asm) retry_loop.simps) simp
    next
      case (Some sg)
      let ?rq = "onboarding_attempt (\<lambda>m. sg) (kp_public x kp) profile (at_nonce ?a) (at_secs ?a)"
      have rq: "signed_request x kp profile ?rq"
        using Some by (simp add: signed_request_def onboarding_attempt_def build_signed_message_def Let_def)
      show ?thesis
      proof (cases "at_end ?a = Answered")
        case True
        then show ?thesis using "1.prems" False Some rq by (subst (asm) retry_loop.simps) (auto simp: Let_def)
      next
        case na: False
        obtain res' sent' slept' where rest: "retry_loop x kp profile target tries (n + 1) (Some (attempt_error target n (at_end ?a))) = (res', sent', slept')"
          by (metis prod_cases3)
        have "sent = ?rq # sent'" "slept = (if n < 3 then 2 else 0) + slept'"
          using "1.prems" retry_step[of n tries, OF _ na Some rest] False by simp_all
        then show ?thesis using "1.IH"[OF False refl refl Some refl na rest] False rq by auto
      qed
    qed
  qed
qed

lemma retry_outcome:
  assumes "\<forall>m. kp_sign x kp m \<noteq> None"
  shows "fst (retry_loop x kp profile target tries 1 None) =
    (if \<exists>n \<in> {1, 2, 3}. at_end (tries n) = Answered then Inr () else Inl (attempt_error target 3 (at_end (tries 3))))"
proof -
  have sg: "\<exists>s. kp_sign x kp m = Some s" for m using assms by (metis option.exhaust)
  have one: "fst (retry_loop x kp profile target tries n e) =
      (if at_end (tries n) = Answered then Inr ()
       else fst (retry_loop x kp profile target tries k (Some (attempt_error target n (at_end (tries n))))))" if "n \<le> 3" "k = n + 1" for n k e
    using that sg[of "as_bytes (build_signed_message (onboarding_attempt (\<lambda>m. []) [] profile (at_nonce (tries n)) (at_secs (tries n))))"]
    by (subst retry_loop.simps) (auto simp: Let_def split_def)
  have last: "fst (retry_loop x kp profile target tries 4 (Some e)) = Inl e" for e by (subst retry_loop.simps) simp
  have steps: "1 \<le> (3 :: nat)" "2 \<le> (3 :: nat)" "3 \<le> (3 :: nat)" "2 = 1 + (1 :: nat)" "3 = 2 + (1 :: nat)" "4 = 3 + (1 :: nat)" by simp_all
  show ?thesis unfolding one[OF steps(1,4)] one[OF steps(2,5)] one[OF steps(3,6)] last by auto
qed

text \<open>
  C34: the onboarding request ends. The loop makes at most three attempts and sleeps at most four seconds between them, every request
  it sends carries the identity of the profile and a signature of the loaded key over its own content, and when the files are
  there it succeeds if and only if one of the three attempts is answered; otherwise it returns the error of the last.
\<close>

theorem onboarding_ends:
  assumes "send_onboarding_request x target tries d = (res, sent, slept)"
  shows "length sent \<le> 3 \<and> slept \<le> 4 \<and>
    (\<forall>text profile kp. kd_profile d = Some text \<and> profile_de x text = Some profile \<and> load_keypair x d = Some kp \<longrightarrow>
       list_all (signed_request x kp profile) sent \<and>
       ((\<forall>m. kp_sign x kp m \<noteq> None) \<longrightarrow>
          res = (if \<exists>n \<in> {1, 2, 3}. at_end (tries n) = Answered then Inr () else Inl (attempt_error target 3 (at_end (tries 3))))))"
proof (cases "kd_profile d")
  case None
  then show ?thesis using assms by (simp add: send_onboarding_request_def)
next
  case tx: (Some raw)
  show ?thesis
  proof (cases "profile_de x raw")
    case None
    then show ?thesis using assms tx by (simp add: send_onboarding_request_def)
  next
    case profile: (Some profile)
    show ?thesis
    proof (cases "load_keypair x d")
      case None
      then show ?thesis using assms tx profile by (simp add: send_onboarding_request_def)
    next
      case (Some kp)
      then have r: "retry_loop x kp profile target tries 1 None = (res, sent, slept)"
        using assms tx profile by (simp add: send_onboarding_request_def)
      then show ?thesis
        using retry_requests[OF r] retry_outcome[of x kp profile target tries] tx profile Some by auto
    qed
  qed
qed

lemma ask_serial_None: "ask_serial ok ls = None \<longleftrightarrow> (\<forall>l \<in> set ls. \<not> ok (str_trim l))"
  by (induction ls) auto

text \<open>
  The set-up of the identity returns, unless it has to ask. With a profile on disk, or with a name and an address in the
  environment, it returns whatever the input; in the interactive mode it returns if and only if the input has a valid serial
  number after the first two lines. At the end of the input the question is repeated for ever.
\<close>

theorem setup_returns:
  "setup_identity x r inp me d = None \<longleftrightarrow>
     (\<exists>sk. fst (load_or_generate_x25519_secret r d) = Inr sk) \<and> kd_profile d = None \<and>
     (ky_var x ''ESS_NODE_NAME'' = None \<or> ky_var x ''ESS_NODE_EMAIL'' = None) \<and>
     list_all (\<lambda>l. \<not> verify_sn_checksum (ky_hmac x) (get_master_secret x) (str_trim l)) (drop 2 inp)"
proof -
  have "new_credentials x inp = None \<longleftrightarrow> (ky_var x ''ESS_NODE_NAME'' = None \<or> ky_var x ''ESS_NODE_EMAIL'' = None) \<and>
      list_all (\<lambda>l. \<not> verify_sn_checksum (ky_hmac x) (get_master_secret x) (str_trim l)) (drop 2 inp)"
    by (auto simp: new_credentials_def ask_profile_def ask_serial_None list_all_iff Let_def split: option.split)
  then show ?thesis
    by (cases "kd_x25519 d"; cases "kd_profile d")
      (auto simp: setup_identity_def load_or_generate_x25519_secret_def Let_def split: option.split)
qed

section \<open>Witnesses\<close>

definition demo_profile :: LocalProfile where
  "demo_profile = \<lparr> lp_name = ''n'', lp_email = ''e'', lp_peer_id = ''me'', lp_serial_number = ''s'', lp_is_activated = True, lp_x25519_pubkey = ''k'' \<rparr>"

definition demo_key_env :: "unit KeyEnv" where
  "demo_key_env = \<lparr> kp_decode = (\<lambda>b. Some ()), kp_from_bytes = (\<lambda>b. None), kp_encode = (\<lambda>k. Some [1]), kp_peer = (\<lambda>k. ''me''),
     kp_sign = (\<lambda>k m. Some m), kp_public = (\<lambda>k. [2]), ky_sha256 = (\<lambda>b. b), pbkdf2 = (\<lambda>p s. p), ky_encrypt = (\<lambda>k n m. Some (k @ m)),
     ky_decrypt = (\<lambda>k n c. if take (length k) c = k then Some (drop (length k) c) else None), ky_hkdf = (\<lambda>k i. k @ i),
     x25519_public = (\<lambda>sk. sk), ky_hmac = (\<lambda>k d. d), profile_ser = (\<lambda>p. if p = demo_profile then Some ''p'' else None),
     profile_de = (\<lambda>t. Some demo_profile),
     ky_var = (\<lambda>v. if v = ''ESS_MASTER_SECRET'' then Some ''pw'' else None), ky_hostname = None \<rparr>"

definition demo_random :: "unit KeyRandom" where
  "demo_random = \<lparr> rnd_keypair = (), rnd_master = replicate 32 7, rnd_salt = replicate 16 8, rnd_nonce = replicate 12 9, rnd_x25519 = replicate 32 5 \<rparr>"

definition demo_disk :: KeyDisk where
  "demo_disk = \<lparr> kd_identity = None, kd_role = None, kd_keystore = None, kd_x25519 = None, kd_profile = Some ''p'', kd_other_keys = [] \<rparr>"

lemma demo_keys_ok: "key_env_ok demo_key_env" "random_ok demo_random"
  by (auto simp: key_env_ok_def demo_key_env_def random_ok_def demo_random_def split: if_splits)

definition demo_disk_keystore :: KeyDisk where
  "demo_disk_keystore = demo_disk\<lparr> kd_keystore := Some (replicate 16 8 @ replicate 12 9 @ as_bytes ''pw'' @ replicate 32 7) \<rparr>"

theorem secrets_survive_restart_witness:
  "keystore_initialize demo_key_env demo_random demo_disk = (Done (replicate 32 7), demo_disk_keystore) \<and>
   keystore_initialize demo_key_env (demo_random\<lparr> rnd_master := [] \<rparr>) demo_disk_keystore = (Done (replicate 32 7), demo_disk_keystore)"
proof -
  have "keystore_initialize demo_key_env demo_random demo_disk = (Done (replicate 32 7), demo_disk_keystore)"
    by (simp add: keystore_initialize_def keystore_create_def keystore_password_def demo_key_env_def demo_random_def demo_disk_def
        demo_disk_keystore_def)
  then show ?thesis
    using secrets_survive_restart[OF demo_keys_ok, where r' = "demo_random\<lparr> rnd_master := [] \<rparr>"] by blast
qed

definition demo_tries :: "nat \<Rightarrow> Attempt" where
  "demo_tries n = \<lparr> at_nonce = [of_nat n], at_secs = 7, at_end = (if n = 2 then Answered else TimedOut) \<rparr>"

theorem onboarding_ends_witness:
  "fst (send_onboarding_request demo_key_env ''sn'' demo_tries (demo_disk\<lparr> kd_identity := Some [1] \<rparr>)) = Inr ()"
proof -
  let ?d = "demo_disk\<lparr> kd_identity := Some [1] \<rparr>"
  obtain res sent slept where s: "send_onboarding_request demo_key_env ''sn'' demo_tries ?d = (res, sent, slept)" by (rule prod_cases3)
  have "kd_profile ?d = Some ''p''" "profile_de demo_key_env ''p'' = Some demo_profile" "load_keypair demo_key_env ?d = Some ()"
      "\<forall>m. kp_sign demo_key_env () m \<noteq> None" "at_end (demo_tries 2) = Answered"
    by (simp_all add: demo_disk_def demo_key_env_def load_keypair_def demo_tries_def)
  then show ?thesis using onboarding_ends[OF s] s by auto
qed

end
