(* ===== verification/Pqc.thy ===== *)
theory Pqc
  imports Prelude
begin

text \<open>
  The hybrid key exchange (\<^verbatim>\<open>pqc.rs\<close>): ML-KEM-1024 and X25519, whose two shared secrets are joined and expanded to the session key. The two
  primitives, HKDF and base64 are parameters. The theorems: both sides get the same key, and every malformed input is an error.
\<close>

datatype PqcError = EncapsulationFailed | DecapsulationFailed string | InvalidPublicKey string | InvalidCiphertext string

record HybridPublicKey =
  hp_ml_kem_ek :: string
  hp_x25519_pk :: string
  hp_node_id :: string

record HybridCiphertext =
  hc_ml_kem_ct :: string
  hc_x25519_ephemeral_pk :: string
  hc_context :: string

text \<open>
  \<open>kem_encaps\<close> fails on bytes that are no encapsulation key; \<open>kem_ct_ok\<close> says that bytes have the length of a ciphertext. The
  decapsulation never fails: ML-KEM answers a wrong ciphertext with a pseudo-random secret.
\<close>

record PqcEnv =
  kem_public :: "u8 list \<Rightarrow> u8 list"
  kem_encaps :: "u8 list \<Rightarrow> u8 list \<Rightarrow> (u8 list \<times> u8 list) option"
  kem_ct_ok :: "u8 list \<Rightarrow> bool"
  kem_decaps :: "u8 list \<Rightarrow> u8 list \<Rightarrow> u8 list"
  dh_public :: "u8 list \<Rightarrow> u8 list"
  dh_shared :: "u8 list \<Rightarrow> u8 list \<Rightarrow> u8 list"
  pq_hkdf :: "u8 list \<Rightarrow> u8 list \<Rightarrow> u8 list \<Rightarrow> u8 list option"
  pq_b64 :: "u8 list \<Rightarrow> string"
  pq_unb64 :: "string \<Rightarrow> string + u8 list"

record HybridKeyPair =
  hk_public_key :: HybridPublicKey
  hk_ml_kem_dk :: "u8 list"
  hk_x25519_sk :: "u8 list"

definition hybrid_generate :: "PqcEnv \<Rightarrow> u8 list \<Rightarrow> u8 list \<Rightarrow> string \<Rightarrow> HybridKeyPair" where
  "hybrid_generate x dk sk node_id =
     \<lparr> hk_public_key = \<lparr> hp_ml_kem_ek = pq_b64 x (kem_public x dk), hp_x25519_pk = pq_b64 x (dh_public x sk), hp_node_id = node_id \<rparr>,
       hk_ml_kem_dk = dk, hk_x25519_sk = sk \<rparr>"

definition hkdf_extract_expand :: "PqcEnv \<Rightarrow> u8 list \<Rightarrow> u8 list \<Rightarrow> u8 list \<Rightarrow> PqcError + u8 list" where
  "hkdf_extract_expand x ikm info salt = (case pq_hkdf x salt ikm info of Some k \<Rightarrow> Inr k | None \<Rightarrow> Inl EncapsulationFailed)"

definition kdf :: "PqcEnv \<Rightarrow> u8 list \<Rightarrow> u8 list \<Rightarrow> u8 list \<Rightarrow> PqcError + u8 list" where
  "kdf x ss_pq ss_x context = hkdf_extract_expand x (ss_pq @ ss_x) context (as_bytes ''ESS-HYBRID-KEM-CONCAT-v1'')"

definition decapsulate :: "PqcEnv \<Rightarrow> HybridKeyPair \<Rightarrow> HybridCiphertext \<Rightarrow> PqcError + u8 list" where
  "decapsulate x kp ct =
     (case pq_unb64 x (hc_ml_kem_ct ct) of
        Inl e \<Rightarrow> Inl (InvalidCiphertext e)
      | Inr bytes \<Rightarrow>
          if \<not> kem_ct_ok x bytes then Inl (InvalidCiphertext ''ML-KEM CT parse failed'')
          else
            let ss_pq = kem_decaps x (hk_ml_kem_dk kp) bytes in
            if ss_pq = replicate 32 0 then Inl (DecapsulationFailed ''ML-KEM shared secret is all-zero'')
            else case pq_unb64 x (hc_x25519_ephemeral_pk ct) of
                   Inl e \<Rightarrow> Inl (InvalidPublicKey e)
                 | Inr epk \<Rightarrow>
                     if length epk \<noteq> 32 then Inl (InvalidPublicKey ''X25519 pk length'')
                     else kdf x ss_pq (dh_shared x (hk_x25519_sk kp) epk) (as_bytes (hc_context ct)))"

text \<open>\<open>seed\<close> and \<open>esk\<close> are the randomness of the encapsulation and the ephemeral key.\<close>

definition encapsulate :: "PqcEnv \<Rightarrow> u8 list \<Rightarrow> u8 list \<Rightarrow> HybridPublicKey \<Rightarrow> string \<Rightarrow> PqcError + HybridCiphertext \<times> u8 list" where
  "encapsulate x seed esk bob context =
     (case pq_unb64 x (hp_ml_kem_ek bob) of
        Inl e \<Rightarrow> Inl (InvalidPublicKey e)
      | Inr ek \<Rightarrow>
          (case kem_encaps x ek seed of
             None \<Rightarrow> Inl (InvalidPublicKey ''ML-KEM EK parse failed'')
           | Some (ct, ss_pq) \<Rightarrow>
               (case pq_unb64 x (hp_x25519_pk bob) of
                  Inl e \<Rightarrow> Inl (InvalidPublicKey e)
                | Inr bob_pk \<Rightarrow>
                    if length bob_pk \<noteq> 32 then Inl (InvalidPublicKey ''X25519 pk length'')
                    else
                      (case kdf x ss_pq (dh_shared x esk bob_pk) (as_bytes context) of
                         Inl e \<Rightarrow> Inl e
                       | Inr key \<Rightarrow>
                           if key = replicate 32 0 then Inl EncapsulationFailed
                           else Inr (\<lparr> hc_ml_kem_ct = pq_b64 x ct, hc_x25519_ephemeral_pk = pq_b64 x (dh_public x esk),
                                       hc_context = context \<rparr>, key)))))"

text \<open>What is relied on: base64, the correctness of ML-KEM, and that both sides of X25519 compute the same secret.\<close>

definition pqc_env_ok :: "PqcEnv \<Rightarrow> bool" where
  "pqc_env_ok x \<longleftrightarrow>
     (\<forall>b. pq_unb64 x (pq_b64 x b) = Inr b) \<and>
     (\<forall>dk seed ct ss. kem_encaps x (kem_public x dk) seed = Some (ct, ss) \<longrightarrow> kem_ct_ok x ct \<and> kem_decaps x dk ct = ss) \<and>
     (\<forall>a b. dh_shared x a (dh_public x b) = dh_shared x b (dh_public x a)) \<and>
     (\<forall>a. length (dh_public x a) = 32)"

text \<open>
  Both sides of the hybrid exchange have the same session key. The receiver recovers the key from the ciphertext made for its public key,
  unless the post-quantum secret is all zero, which is an error; the context is part of the key derivation on both sides.
\<close>

theorem hybrid_agreement:
  assumes "pqc_env_ok x" and "encapsulate x seed esk (hk_public_key (hybrid_generate x dk sk node)) context = Inr (ct, key)"
  shows "\<exists>ss. decapsulate x (hybrid_generate x dk sk node) ct =
      (if ss = replicate 32 0 then Inl (DecapsulationFailed ''ML-KEM shared secret is all-zero'') else Inr key) \<and>
    Some ss = map_option snd (kem_encaps x (kem_public x dk) seed) \<and> hc_context ct = context \<and> key \<noteq> replicate 32 0"
proof -
  have b64: "\<And>b. pq_unb64 x (pq_b64 x b) = Inr b" and len: "\<And>a. length (dh_public x a) = 32"
    and dh: "dh_shared x esk (dh_public x sk) = dh_shared x sk (dh_public x esk)"
    using assms(1) by (simp_all add: pqc_env_ok_def)
  obtain c ss where c: "kem_encaps x (kem_public x dk) seed = Some (c, ss)"
    using assms(2) by (auto simp: encapsulate_def hybrid_generate_def b64 split: option.splits)
  have "kem_ct_ok x c" "kem_decaps x dk c = ss" using assms(1) c by (simp_all add: pqc_env_ok_def)
  then show ?thesis
    using assms(2) c b64 len dh
    by (auto simp: encapsulate_def decapsulate_def hybrid_generate_def Let_def split: if_splits sum.splits)
qed

definition demo_pqc_env :: PqcEnv where
  "demo_pqc_env = \<lparr> kem_public = (\<lambda>dk. dk), kem_encaps = (\<lambda>ek seed. Some (seed, ek @ seed)), kem_ct_ok = (\<lambda>c. True),
     kem_decaps = (\<lambda>dk c. dk @ c), dh_public = (\<lambda>sk. replicate 32 3), dh_shared = (\<lambda>a b. [4]), pq_hkdf = (\<lambda>s i c. Some i),
     pq_b64 = map (\<lambda>b. char_of (unat b)), pq_unb64 = (\<lambda>t. Inr (as_bytes t)) \<rparr>"

lemma demo_pqc_ok: "pqc_env_ok demo_pqc_env"
proof -
  have u: "(of_char (char_of (unat b)) :: u8) = b" for b :: u8
  proof -
    have "unat b < 2 ^ LENGTH(8)" by (rule unsigned_less)
    then have "(of_char (char_of (unat b)) :: nat) = unat b" by simp
    then have "(of_nat (of_char (char_of (unat b))) :: u8) = b" by simp
    then show ?thesis by (metis of_nat_of_char)
  qed
  have "map (of_char \<circ> (\<lambda>b. char_of (unat b))) bs = (bs :: u8 list)" for bs by (rule map_idI) (simp add: u)
  then show ?thesis by (simp add: pqc_env_ok_def demo_pqc_env_def as_bytes_def)
qed

theorem hybrid_agreement_witness:
  "\<exists>ct key. encapsulate demo_pqc_env [1] [2] (hk_public_key (hybrid_generate demo_pqc_env [5] [6] ''n'')) ''ctx'' = Inr (ct, key) \<and>
     decapsulate demo_pqc_env (hybrid_generate demo_pqc_env [5] [6] ''n'') ct = Inr key"
proof -
  have "pq_unb64 demo_pqc_env (pq_b64 demo_pqc_env b) = Inr b" for b using demo_pqc_ok by (simp add: pqc_env_ok_def)
  moreover have "kem_public demo_pqc_env [5] = [5]" "kem_encaps demo_pqc_env [5] [1] = Some ([1], [5, 1])" "length (dh_public demo_pqc_env [6]) = 32"
      "dh_shared demo_pqc_env a b = [4]" "kdf demo_pqc_env p q c = Inr (p @ q)" for a b p q c
    by (simp_all add: demo_pqc_env_def kdf_def hkdf_extract_expand_def)
  moreover have "[5, 1, 4] \<noteq> replicate 32 (0 :: u8)" by (auto dest: arg_cong[of _ _ length])
  ultimately obtain ct key where e: "encapsulate demo_pqc_env [1] [2] (hk_public_key (hybrid_generate demo_pqc_env [5] [6] ''n'')) ''ctx'' = Inr (ct, key)"
    by (simp add: encapsulate_def hybrid_generate_def)
  have "Some ss = map_option snd (kem_encaps demo_pqc_env (kem_public demo_pqc_env [5]) [1]) \<Longrightarrow> ss \<noteq> replicate 32 0" for ss
    by (auto simp: demo_pqc_env_def dest: arg_cong[of _ _ length])
  then show ?thesis using hybrid_agreement[OF demo_pqc_ok e] e by auto
qed

end
