(* ===== verification/Boot.thy ===== *)
theory Boot
  imports Sss Network_Proofs Dashboard_Http Bootstrap_Cache Keys Ghost_Store
begin

text \<open>
  The start of the program, \<^verbatim>\<open>main.rs\<close>: the guards of \<^verbatim>\<open>main\<close>, the boot sequence that builds every component from the
  disk and the environment, the policy sync with the known peers, the save at shutdown and the life cycle that boots again after
  a failure. The components are those of the other theories; the codecs, the clock, random values and the
  outcome of system calls are arguments.
\<close>

section \<open>Disk and environment\<close>

text \<open>\<open>bd_authority\<close> is the file that \<^verbatim>\<open>AUTHORITY_FILE\<close> names, \<open>bd_files\<close> the directory of the world state.\<close>

record BootDisk =
  bd_keys :: KeyDisk
  bd_shards :: file_system
  bd_crdt :: "u8 list option"
  bd_authority :: "u8 list option"
  bd_files :: files
  bd_activation :: activation_file
  bd_cache :: cache_file
  bd_gov :: gov_disk

record ('k, 'pk, 'a, 'g) BootEnv =
  bx_keys :: "'k KeyEnv"
  bx_auth :: "'pk AuthEnv"
  bx_auth_ser :: "AuthorityState \<Rightarrow> u8 list option"
  bx_sec :: "'pk SecEnv"
  bx_policy :: "string \<Rightarrow> string option"
  bx_gov :: GovEnv
  bx_acd :: ActivationCodec
  bx_codec :: "'g StoreCodec"
  bx_cache :: "'a CacheEnv"
  bx_storage :: StorageEnv
  bx_shard_ser :: "Shard \<Rightarrow> u8 list option"
  bx_shard_de :: "u8 list \<Rightarrow> Shard option"
  bx_payload_de :: "u8 list \<Rightarrow> CrdtWorldState option"
  bx_request_ser :: "ConfigRequest \<Rightarrow> u8 list option"
  bx_response_de :: "u8 list \<Rightarrow> ConfigResponse option"
  bx_rnd :: "real \<Rightarrow> real"

text \<open>What one boot draws from outside: random values, the clock, the outcome of the system calls, the opened databases.\<close>

record 'k BootNow =
  bw_random :: "'k KeyRandom"
  bw_coeffs :: "nat \<Rightarrow> nat \<Rightarrow> u8"
  bw_shard_fails :: "string \<Rightarrow> bool"
  bw_clock :: WsClock
  bw_ms :: nat
  bw_authority_write :: write_end
  bw_manifest :: SaveCalls
  bw_compute :: "ComputeStore option"
  bw_wasm :: bool
  bw_objects :: "(u8 list, u8 list) btree option"

abbreviation bx_var :: "('k, 'pk, 'a, 'g) BootEnv \<Rightarrow> string \<Rightarrow> string option" where
  "bx_var x \<equiv> ky_var (bx_keys x)"

abbreviation bw_secs :: "'k BootNow \<Rightarrow> u64" where
  "bw_secs w \<equiv> wc_secs (bw_clock w)"

section \<open>Authority and role\<close>

definition save_to_file :: "('k, 'pk, 'a, 'g) BootEnv \<Rightarrow> write_end \<Rightarrow> AuthorityState \<Rightarrow> u8 list option \<Rightarrow>
    (AuthorityError + unit) \<times> u8 list option" where
  "save_to_file x we st file =
     (case bx_auth_ser x st of
        None \<Rightarrow> (Inl (AuthorityError.SerializationError []), file)
      | Some bytes \<Rightarrow>
          (case we of
             WriteOk \<Rightarrow> (Inr (), Some bytes)
           | CreateFailed \<Rightarrow> (Inl (AuthorityError.IoError []), file)
           | WriteFailed n \<Rightarrow> (Inl (AuthorityError.IoError []), Some (take n bytes))))"

definition bootstrap_authority :: "('k, 'pk, 'a, 'g) BootEnv \<Rightarrow> write_end \<Rightarrow> u8 list option \<Rightarrow>
    (AuthorityError + AuthorityState \<times> bool) \<times> u8 list option" where
  "bootstrap_authority x we file =
     (case file of
        None \<Rightarrow>
          let st = default_authority (bx_auth x) in
          (case save_to_file x we st file of (Inl e, file) \<Rightarrow> (Inl e, file) | (Inr u, file) \<Rightarrow> (Inr (st, True), file))
      | Some data \<Rightarrow>
          (case load_authority (bx_auth x) file of Inl e \<Rightarrow> (Inl e, file) | Inr st \<Rightarrow> (Inr (st, False), file)))"

definition add_supernode :: "string \<Rightarrow> AuthorityState \<Rightarrow> AuthorityState" where
  "add_supernode sn st =
     (if sn \<in> set (AuthorityState.supernodes st) then st
      else st\<lparr> AuthorityState.supernodes := AuthorityState.supernodes st @ [sn] \<rparr>)"

text \<open>The genesis block: only when the file does not exist after the call above.\<close>

definition genesis :: "('k, 'pk, 'a, 'g) BootEnv \<Rightarrow> write_end \<Rightarrow> AuthorityState \<Rightarrow> u8 list option \<Rightarrow> AuthorityState \<times> u8 list option" where
  "genesis x we st file =
     (case (file, bx_var x ''AUTHORITY_SUPERNODES'') of
        (None, Some names) \<Rightarrow>
          let incoming = filter (\<lambda>s. s \<noteq> []) (map str_trim (split_on (CHR '','') names));
              st = canonicalize (bx_auth x) (fold add_supernode incoming st)
          in (st, snd (save_to_file x we st file))
      | _ \<Rightarrow> (st, file))"

definition resolve_role :: "AuthorityState \<Rightarrow> string \<Rightarrow> string \<Rightarrow> NodeRole" where
  "resolve_role a peer claimed =
     (if claimed = ''supernode'' then (if peer \<in> set (AuthorityState.supernodes a) then Supernode else Client)
      else if claimed = ''gateway'' then (if map_of (allowed_peers a) peer = Some Gateway then Gateway else Client)
      else Client)"

definition claimed_role :: "('k, 'pk, 'a, 'g) BootEnv \<Rightarrow> string" where
  "claimed_role x = str_lower (case bx_var x ''NODE_ROLE'' of Some r \<Rightarrow> r | None \<Rightarrow> ''client'')"

definition role_name :: "NodeRole \<Rightarrow> string" where
  "role_name r = (case r of Supernode \<Rightarrow> ''supernode'' | Gateway \<Rightarrow> ''gateway'' | _ \<Rightarrow> ''client'')"

section \<open>Components\<close>

definition boot_crdt :: "('k, 'pk, 'a, 'g) BootEnv \<Rightarrow> nat \<Rightarrow> string \<Rightarrow> u8 list option \<Rightarrow> CrdtWorldState" where
  "boot_crdt x ms peer file = crdt_tick
     (case Option.bind file (bx_payload_de x) of Some s \<Rightarrow> s | None \<Rightarrow> crdt_new ms peer)"

text \<open>The loaded engine replaces the one that was given the key.\<close>

definition boot_governance :: "('k, 'pk, 'a, 'g) BootEnv \<Rightarrow> u64 \<Rightarrow> u8 list \<Rightarrow> gov_disk \<Rightarrow> GovernanceEngine" where
  "boot_governance x now key disk =
     (let gov = set_hmac_key key (new_engine now [] (66 / 100)) in
      case load_governance (bx_gov x) now key disk of Some loaded \<Rightarrow> loaded | None \<Rightarrow> gov)"

definition default_ghost_config :: "'k KeyEnv \<Rightarrow> GhostConfig" where
  "default_ghost_config k =
     \<lparr> beacon_interval = 30, sync_interval = 120,
       idle_to_sleep_after_cycles = (case parse_uint 64 (case ky_var k ''GHOST_MIN_AWAKE_CYCLES'' of Some s \<Rightarrow> s | None \<Rightarrow> ''10'') of
          Some n \<Rightarrow> n | None \<Rightarrow> 10),
       sync_batch_limit = 32, zeroize_on_panic = True, auto_sleep_when_idle = True \<rparr>"

definition boot_registry :: "u64 \<Rightarrow> AuthorityManager \<Rightarrow> string \<Rightarrow> (string + string) \<times> ServiceRegistry" where
  "boot_registry ts auth peer =
     registry_publish auth peer (sv_normalized (sv_new ts ''node'' ''backbone'' (''p2p://'' @ peer) peer peer)) []"

definition boot_compute :: "('k, 'pk, 'a, 'g) BootEnv \<Rightarrow> 'k BootNow \<Rightarrow> AuthorityManager \<Rightarrow> Scheduler option" where
  "boot_compute x w auth =
     (if str_lower (case bx_var x ''ESS_COMPUTE_ENABLED'' of Some s \<Rightarrow> s | None \<Rightarrow> ''false'') \<noteq> ''true'' then None
      else case bw_compute w of
        None \<Rightarrow> None
      | Some st \<Rightarrow>
          if \<not> bw_wasm w then None
          else Some (spawn_scheduler
            \<lparr> max_concurrent_jobs = (case Option.bind (bx_var x ''ESS_COMPUTE_MAX_JOBS'') (parse_uint 64) of Some n \<Rightarrow> n | None \<Rightarrow> 4),
              poll_interval_ms = 500, accept_remote_jobs = True \<rparr> st auth))"

definition boot_messages :: "string \<Rightarrow> string \<Rightarrow> string \<Rightarrow> DashboardBridgeInput list" where
  "boot_messages ts peer rl =
     [BrNodeInfo \<lparr> ni_node_id = [], ni_peer_id = peer, ni_role = rl, ni_state = [], ni_health_level = None,
        ni_public_listen = None, ni_location = None, ni_last_seen = None \<rparr>,
      BrNodeHealth (default_health\<lparr> nh_peer_id := peer, nh_state := ''active'', nh_health_level := ''healthy'' \<rparr>),
      BrRoute \<lparr> ri_from_peer = peer, ri_to_peer = ''self'', ri_hops = [''self''], ri_latency_ms = Some 0, ri_trusted = True,
        ri_active = True, ri_updated_at = ts \<rparr>,
      BrLog \<lparr> le_ts = ts, le_node_id = peer, le_level = ''info'', le_event = ''System booted.'', le_message = ''System booted.'' \<rparr>,
      BrTelemetry \<lparr> tu_peer_id = peer, tu_connected_peers = 0, tu_latency_ms = 0 \<rparr>]"

section \<open>The boot sequence\<close>

record ('k, 'pk, 'a) BootContext =
  bc_ess :: "'k EssIdentity"
  bc_master :: "u8 list"
  bc_gov_key :: "u8 list"
  bc_rotation_seed :: "u8 list"
  bc_authority :: AuthorityManager
  bc_world :: WorldState
  bc_security :: "'pk SecurityRuntime"
  bc_controller :: "'pk Controller"
  bc_gov :: GovernanceEngine
  bc_crdt :: CrdtWorldState
  bc_engine :: GhostEngine
  bc_runtime :: GhostRuntime
  bc_compute :: "Scheduler option"
  bc_storage :: StorageLayer
  bc_dashboard :: "'pk DashboardService"
  bc_addrs :: "'a list"

definition boot_authority :: "('k, 'pk, 'a, 'g) BootEnv \<Rightarrow> write_end \<Rightarrow> u8 list option \<Rightarrow> (AuthorityError + AuthorityState) \<times> u8 list option" where
  "boot_authority x we file =
     (case bootstrap_authority x we file of
        (Inl e, file) \<Rightarrow> (Inl e, file)
      | (Inr (st, fresh), file) \<Rightarrow> let (st, file) = genesis x we st file in (Inr st, file))"

text \<open>The world state is recovered, gets the profile of the node, and the node marks itself as activated.\<close>

definition boot_world :: "('k, 'pk, 'a, 'g) BootEnv \<Rightarrow> 'k BootNow \<Rightarrow> AuthorityState \<Rightarrow> LocalProfile \<Rightarrow> string \<Rightarrow> BootDisk \<Rightarrow>
    (string + WorldState) \<times> BootDisk" where
  "boot_world x w a profile peer d =
     (case recover_bundle (bx_auth x) (bx_acd x) (bx_codec x) (bw_clock w) (bd_activation d) (bw_manifest w) ''data/world_state'' a (bd_files d) of
        (Inl e, fs) \<Rightarrow> (Inl e, d\<lparr> bd_files := fs \<rparr>)
      | (Inr world, fs) \<Rightarrow>
          let (world, afile) = mark_peer_activated (bx_acd x) peer (set_local_profile (bx_acd x) profile (world, bd_activation d))
          in (Inr world, d\<lparr> bd_files := fs, bd_activation := afile \<rparr>))"

definition boot_service :: "string \<Rightarrow> string \<Rightarrow> string \<Rightarrow> WorldState \<Rightarrow> 'pk SecurityRuntime \<Rightarrow> AuthorityManager \<Rightarrow> 'pk Controller \<Rightarrow>
    Scheduler option \<Rightarrow> StorageLayer \<Rightarrow> 'pk DashboardService" where
  "boot_service ts peer rl world sec auth ct compute storage =
     (service_new (bridge_run (boot_messages ts peer rl) store_new))\<lparr> dv_security := Some sec, dv_world := Some world,
        dv_authority := Some auth, dv_controller := Some ct, dv_compute := compute,
        dv_compute_store := map_option sd_store compute, dv_storage := Some storage \<rparr>"

definition policy_path :: "('k, 'pk, 'a, 'g) BootEnv \<Rightarrow> string" where
  "policy_path x = (case bx_var x ''POLICY_INNER_CONFIG'' of Some p \<Rightarrow> p | None \<Rightarrow> ''data/policy_inner.toml'')"

text \<open>From the open world state on, only the files of the identity and the database of the storage layer can fail.\<close>

definition boot_runtime :: "('k, 'pk, 'a, 'g) BootEnv \<Rightarrow> 'k BootNow \<Rightarrow> 'k EssIdentity \<Rightarrow> u8 list \<Rightarrow> 'pk SecurityRuntime \<Rightarrow> AuthorityManager \<Rightarrow>
    CrdtWorldState \<Rightarrow> WorldState \<Rightarrow> BootDisk \<Rightarrow> ('k, 'pk, 'a) BootContext outcome \<times> BootDisk" where
  "boot_runtime x w ess master sec auth crdt world d =
     (let k = bx_keys x; peer = ei_peer_id ess;
          (addrs, cache) = load_bootstrap_addrs (bx_cache x) (bx_var x ''BOOTSTRAP_P2P_MULTIADDRS'') (bd_cache d);
          d = d\<lparr> bd_cache := cache \<rparr>;
          gov_key = derive_key k master ''ess-governance-hmac-v1'';
          gov = boot_governance x (bw_secs w) gov_key (bd_gov d);
          ct = (attach_security sec (ct_new peer True))\<lparr> ct_onion_secret := Some (derive_key k master ''ess-onion-static-key-v1'') \<rparr>;
          seed = derive_key k master ''ess-id-rotation-seed-v1'';
          rl = resolve_role (mgr_get auth) peer (claimed_role x);
          ess = bind_role rl ess
      in case save_keypair k ess (bd_keys d) of
           (Inl e, kd) \<Rightarrow> (Fails e, d\<lparr> bd_keys := kd \<rparr>)
         | (Inr u, kd) \<Rightarrow>
             let d = d\<lparr> bd_keys := save_role ess kd \<rparr>;
                 world = observe_signal (bw_clock w) ''system_boot_complete'' (set_authority (bx_auth x) (bw_clock w) (mgr_get auth) world);
                 compute = boot_compute x w auth
             in case storage_new (bx_storage x) default_storage_config master auth (bw_objects w) False of
                  None \<Rightarrow> (Panicked, d)
                | Some storage \<Rightarrow>
                    (Done \<lparr> bc_ess = ess, bc_master = master, bc_gov_key = gov_key, bc_rotation_seed = seed, bc_authority = auth,
                       bc_world = world, bc_security = sec, bc_controller = ct, bc_gov = gov, bc_crdt = crdt,
                       bc_engine = spawn_inner (ei_ess_id ess) (role_name rl) (default_ghost_config k) True,
                       bc_runtime = spawn_ghost_runtime (ei_ess_id ess) (role_name rl) (default_runtime_config (bx_rnd x)) world,
                       bc_compute = compute, bc_storage = storage,
                       bc_dashboard = boot_service (wc_rfc3339 (bw_clock w)) peer (role_name rl) world sec auth ct compute storage,
                       bc_addrs = addrs \<rparr>, d))"

definition bootstrap_runtime :: "('k, 'pk, 'a, 'g) BootEnv \<Rightarrow> 'k BootNow \<Rightarrow> 'k \<Rightarrow> LocalProfile \<Rightarrow> BootDisk \<Rightarrow>
    ('k, 'pk, 'a) BootContext outcome \<times> BootDisk" where
  "bootstrap_runtime x w kp profile d =
     (let ess = from_keypair (bx_keys x) kp; peer = ei_peer_id ess in
      case keystore_initialize (bx_keys x) (bw_random w) (bd_keys d) of
        (Fails e, kd) \<Rightarrow> (Fails e, d\<lparr> bd_keys := kd \<rparr>)
      | (Panicked, kd) \<Rightarrow> (Panicked, d\<lparr> bd_keys := kd \<rparr>)
      | (Done master, kd) \<Rightarrow>
          let d = d\<lparr> bd_keys := kd,
                bd_shards := snd (split_key_to_files (bw_coeffs w) (bx_shard_ser x) (bw_shard_fails w) master 2 3 ''data/identity'' (bd_shards d)) \<rparr>;
              crdt = boot_crdt x (bw_ms w) peer (bd_crdt d)
          in case rt_load_policy_from_file (bx_sec x) (bx_policy x (policy_path x)) rt_new of
               (Inl e, sec) \<Rightarrow> (Fails ''policy'', d)
             | (Inr u, sec) \<Rightarrow>
                 (case boot_authority x (bw_authority_write w) (bd_authority d) of
                    (Inl e, file) \<Rightarrow> (Fails ''authority'', d\<lparr> bd_authority := file \<rparr>)
                  | (Inr st, file) \<Rightarrow>
                      let d = d\<lparr> bd_authority := file \<rparr>; auth = \<lparr> inner = st, poisoned = False \<rparr>
                      in case boot_world x w st profile peer d of
                           (Inl e, d) \<Rightarrow> (Fails e, d)
                         | (Inr world, d) \<Rightarrow> boot_runtime x w ess master (rt_attach_authority auth sec) auth crdt world d))"

definition shutdown_save :: "('k, 'pk, 'a, 'g) BootEnv \<Rightarrow> WsClock \<Rightarrow> SaveCalls \<Rightarrow> WorldState \<Rightarrow> GovernanceEngine \<Rightarrow> u8 list \<Rightarrow> BootDisk \<Rightarrow> BootDisk" where
  "shutdown_save x ck calls world gov key d =
     d\<lparr> bd_files := snd (persist (bx_codec x) ck calls calls ''data/world_state'' world None (bd_files d)),
        bd_gov := save_governance (bx_gov x) gov key (bd_gov d) \<rparr>"

text \<open>The tasks that start after a boot: the control loop works on the controller of the boot, the network task on its own.\<close>

definition start_tasks :: "('pk, 'ed) NetEnv \<Rightarrow> NetNow \<Rightarrow> activation_file \<Rightarrow> files \<Rightarrow> kad_db \<Rightarrow> u8 list \<Rightarrow> ('k, 'pk, 'a) BootContext \<Rightarrow>
    'pk ControlLoop \<times> 'pk Node" where
  "start_tasks ne t afile fs kad sk c =
     (let n = run_with_dashboard_and_authority ne t (ei_peer_id (bc_ess c)) (bc_authority c) (bc_world c) afile (bc_security c)
                (Some (bc_crdt c)) kad sk
      in (control_loop_new (t_now t) (bc_controller c) (nd_ct n) (bc_runtime c) None (bc_compute c) fs, n))"

section \<open>Policy sync\<close>

text \<open>One try: the clock and the nonce of the request, what the awaited message gave (\<open>None\<close> is the timeout), the clock at the answer.\<close>

record SyncTry =
  st_secs :: u64
  st_nonce :: string
  st_answer :: "(string + u8 list) option"
  st_answer_secs :: u64

fun first_p2p :: "Protocol list \<Rightarrow> string option" where
  "first_p2p [] = None"
| "first_p2p (P2p peer # ps) = Some peer"
| "first_p2p (_ # ps) = first_p2p ps"

definition ask_config :: "('k, 'pk, 'a, 'g) BootEnv \<Rightarrow> string \<Rightarrow> SyncTry \<Rightarrow> string \<Rightarrow> 'pk SecurityRuntime \<Rightarrow> ConfigResponse option" where
  "ask_config x local t remote sec =
     (case rt_build_config_request (bx_sec x) (st_secs t) (st_nonce t) local remote ''client'' sec of
        Inl e \<Rightarrow> None
      | Inr req \<Rightarrow>
          (case (bx_request_ser x req, st_answer t) of
             (Some body, Some (Inr data)) \<Rightarrow> bx_response_de x data
           | _ \<Rightarrow> None))"

fun sync_policy_with_supernode :: "('k, 'pk, 'a, 'g) BootEnv \<Rightarrow> string \<Rightarrow> (SyncTry \<times> 'a) list \<Rightarrow> 'pk SecurityRuntime \<Rightarrow> AuthorityManager \<Rightarrow>
    bool \<times> 'pk SecurityRuntime \<times> AuthorityManager" where
  "sync_policy_with_supernode x local [] sec auth = (False, sec, auth)"
| "sync_policy_with_supernode x local ((t, addr) # rest) sec auth =
     (case first_p2p (ma_protocols (bx_cache x) addr) of
        None \<Rightarrow> sync_policy_with_supernode x local rest sec auth
      | Some remote \<Rightarrow>
          (case ask_config x local t remote sec of
             None \<Rightarrow> sync_policy_with_supernode x local rest sec auth
           | Some resp \<Rightarrow>
               (case rt_verify_config_response (bx_sec x) (unat (st_answer_secs t)) local remote resp sec of
                  (Inl e, sec) \<Rightarrow> sync_policy_with_supernode x local rest sec auth
                | (Inr bundle, sec) \<Rightarrow>
                    (case apply_bundle bundle sec of
                       (Inl e, sec) \<Rightarrow> sync_policy_with_supernode x local rest sec auth
                     | (Inr u, sec) \<Rightarrow> (True, sec, snd (apply_config_bundle (cb_allowed_peers bundle) auth))))))"

section \<open>Life cycle\<close>

datatype LifecyclePhase = PhBoot | PhReady | PhRecovery | PhShutdown

text \<open>Where the loop of \<^verbatim>\<open>execute\<close> is: at its head, in the boot, waiting for the runner, after it, in the pause after a crash, returned.\<close>

datatype LoopPoint = AtHead | InBoot | InRunner | AfterRunner | InPause | Returned

text \<open>\<open>lc_bridge\<close>: a bridge handle was given; \<open>lc_pending\<close>: a message is in the shutdown channel. The counters are for the theorems.\<close>

record Lifecycle =
  lc_phase :: LifecyclePhase
  lc_point :: LoopPoint
  lc_bridge :: bool
  lc_pending :: bool
  lc_saves :: nat
  lc_boots_failed :: nat
  lc_crashes :: nat
  lc_paused_secs :: nat

definition lifecycle_new :: "bool \<Rightarrow> Lifecycle" where
  "lifecycle_new bridge = \<lparr> lc_phase = PhBoot, lc_point = AtHead, lc_bridge = bridge, lc_pending = False, lc_saves = 0,
     lc_boots_failed = 0, lc_crashes = 0, lc_paused_secs = 0 \<rparr>"

inductive life_step :: "Lifecycle \<Rightarrow> Lifecycle \<Rightarrow> bool" where
  stop: "lc_point s = AtHead \<Longrightarrow> lc_phase s = PhShutdown \<Longrightarrow> life_step s (s\<lparr> lc_point := Returned \<rparr>)"
| enter: "lc_point s = AtHead \<Longrightarrow> lc_phase s \<noteq> PhShutdown \<Longrightarrow> life_step s (s\<lparr> lc_phase := PhBoot, lc_point := InBoot \<rparr>)"
| booted: "lc_point s = InBoot \<Longrightarrow> life_step s (s\<lparr> lc_phase := PhReady, lc_point := InRunner \<rparr>)"
| boot_failed: "lc_point s = InBoot \<Longrightarrow>
    life_step s (s\<lparr> lc_phase := PhRecovery, lc_point := AtHead, lc_boots_failed := lc_boots_failed s + 1 \<rparr>)"
| runner_failed: "lc_point s = InRunner \<Longrightarrow>
    life_step s (s\<lparr> lc_phase := PhRecovery, lc_point := AfterRunner, lc_crashes := lc_crashes s + 1 \<rparr>)"
| runner_ended: "lc_point s = InRunner \<Longrightarrow> life_step s (s\<lparr> lc_point := AfterRunner \<rparr>)"
| after_runner: "lc_point s = AfterRunner \<Longrightarrow>
    life_step s (s\<lparr> lc_point := (if lc_phase s = PhRecovery then InPause else AtHead) \<rparr>)"
| signalled: "lc_point s = InRunner \<Longrightarrow> lc_pending s \<Longrightarrow>
    life_step s (s\<lparr> lc_phase := PhShutdown, lc_point := AtHead, lc_pending := False, lc_saves := lc_saves s + 1 \<rparr>)"
| rested: "lc_point s = InPause \<Longrightarrow> life_step s (s\<lparr> lc_point := AtHead, lc_paused_secs := lc_paused_secs s + 15 \<rparr>)"
| interrupt: "lc_bridge s \<Longrightarrow> lc_point s \<noteq> Returned \<Longrightarrow> life_step s (s\<lparr> lc_phase := PhShutdown, lc_pending := True \<rparr>)"

inductive_cases life_stepE: "life_step s t"

section \<open>The program\<close>

datatype 'k program_end = Exited | MainFails string | WaitsForInput | Started 'k LocalProfile

definition weak_secret :: "string option \<Rightarrow> bool" where
  "weak_secret v = (case v of None \<Rightarrow> False | Some s \<Rightarrow> contains ''change-this'' (str_lower s) \<or> contains ''syndicate'' (str_lower s))"

definition ess_main :: "('k, 'pk, 'a, 'g) BootEnv \<Rightarrow> 'k KeyRandom \<Rightarrow> string list \<Rightarrow> KeyDisk \<Rightarrow> 'k program_end \<times> KeyDisk" where
  "ess_main x r inp d =
     (if kd_profile d \<noteq> None \<and> kd_identity d = None then (Exited, d)
      else case initialize_identity (bx_keys x) r d of
        (Inl e, d) \<Rightarrow> (MainFails e, d)
      | (Inr (kp, peer), d) \<Rightarrow>
          (case setup_identity (bx_keys x) r inp peer d of
             None \<Rightarrow> (WaitsForInput, d)
           | Some (Inl e, d) \<Rightarrow> (MainFails e, d)
           | Some (Inr profile, d) \<Rightarrow>
               if weak_secret (bx_var x ''ESS_MASTER_SECRET'') then (Exited, d) else (Started kp profile, d)))"

end
