(* ===== verification/Boot_Proofs.thy ===== *)
theory Boot_Proofs
  imports Boot
begin

text \<open>
  What a boot guarantees: the role of the node, the rights after the first boot, what a restart brings back, what a policy sync may
  change, and the runs of the life cycle.
\<close>

section \<open>The shape of a successful boot\<close>

lemma boot_done:
  assumes "bootstrap_runtime x w kp profile d = (Done c, d')"
  obtains master kd sh sec st afile world d1 where
    "keystore_initialize (bx_keys x) (bw_random w) (bd_keys d) = (Done master, kd)"
    "rt_load_policy_from_file (bx_sec x) (bx_policy x (policy_path x)) rt_new = (Inr (), sec)"
    "boot_authority x (bw_authority_write w) (bd_authority d) = (Inr st, afile)"
    "boot_world x w st profile (kp_peer (bx_keys x) kp) (d\<lparr> bd_keys := kd, bd_shards := sh, bd_authority := afile \<rparr>) = (Inr world, d1)"
    "boot_runtime x w (from_keypair (bx_keys x) kp) master (rt_attach_authority \<lparr> inner = st, poisoned = False \<rparr> sec)
       \<lparr> inner = st, poisoned = False \<rparr> (boot_crdt x (bw_ms w) (kp_peer (bx_keys x) kp) (bd_crdt d)) world d1 = (Done c, d')"
  using assms
  by (auto simp: bootstrap_runtime_def from_keypair_def Let_def split: prod.splits outcome.splits sum.splits)

lemma bootI:
  assumes "keystore_initialize (bx_keys x) (bw_random w) (bd_keys d) = (Done master, kd)"
    and "rt_load_policy_from_file (bx_sec x) (bx_policy x (policy_path x)) rt_new = (Inr (), sec)"
    and "boot_authority x (bw_authority_write w) (bd_authority d) = (Inr st, afile)"
    and "boot_world x w st profile (kp_peer (bx_keys x) kp) (d\<lparr> bd_keys := kd,
       bd_shards := snd (split_key_to_files (bw_coeffs w) (bx_shard_ser x) (bw_shard_fails w) master 2 3 ''data/identity'' (bd_shards d)),
       bd_authority := afile \<rparr>) = (Inr world, d1)"
  shows "bootstrap_runtime x w kp profile d =
    boot_runtime x w (from_keypair (bx_keys x) kp) master (rt_attach_authority \<lparr> inner = st, poisoned = False \<rparr> sec)
      \<lparr> inner = st, poisoned = False \<rparr> (boot_crdt x (bw_ms w) (kp_peer (bx_keys x) kp) (bd_crdt d)) world d1"
  using assms by (simp add: bootstrap_runtime_def from_keypair_def Let_def)

lemma boot_runtime_done:
  assumes "boot_runtime x w ess master sec auth crdt world d = (Done c, d')"
  defines "r \<equiv> resolve_role (mgr_get auth) (ei_peer_id ess) (claimed_role x)"
  shows "bc_ess c = bind_role r ess" "bc_master c = master" "bc_authority c = auth" "bc_security c = sec" "bc_crdt c = crdt"
    "bc_gov_key c = derive_key (bx_keys x) master ''ess-governance-hmac-v1''"
    "bc_rotation_seed c = derive_key (bx_keys x) master ''ess-id-rotation-seed-v1''"
    "bc_gov c = boot_governance x (bw_secs w) (bc_gov_key c) (bd_gov d)"
    "ct_onion_secret (bc_controller c) = Some (derive_key (bx_keys x) master ''ess-onion-static-key-v1'')"
    "bc_world c = observe_signal (bw_clock w) ''system_boot_complete'' (set_authority (bx_auth x) (bw_clock w) (mgr_get auth) world)"
    "GhostEngine.role (bc_engine c) = role_name r" "gr_role (bc_runtime c) = role_name r"
    "\<exists>bytes. kp_encode (bx_keys x) (ei_keypair ess) = Some bytes \<and>
       bd_keys d' = (bd_keys d)\<lparr> kd_identity := Some bytes, kd_role := Some (role_as_str r) \<rparr>"
    "bd_authority d' = bd_authority d" "bd_files d' = bd_files d" "bd_gov d' = bd_gov d" "bd_activation d' = bd_activation d"
    "bw_objects w \<noteq> None"
  using assms(1)
  by (auto simp: boot_runtime_def r_def save_keypair_def save_role_def bind_role_def spawn_inner_def spawn_ghost_runtime_def
      storage_new_def Let_def split: prod.splits sum.splits option.splits)

lemma boot_world_frame:
  assumes "boot_world x w a profile peer d = (Inr world, d')"
  shows "bd_keys d' = bd_keys d" "bd_authority d' = bd_authority d" "bd_gov d' = bd_gov d" "bd_crdt d' = bd_crdt d"
  using assms by (auto simp: boot_world_def Let_def split: prod.splits sum.splits)

lemma boot_role:
  assumes "bootstrap_runtime x w kp profile d = (Done c, d')"
  shows "ei_role (bc_ess c) = Some (resolve_role (mgr_get (bc_authority c)) (kp_peer (bx_keys x) kp) (claimed_role x))"
    "ei_keypair (bc_ess c) = kp" "ei_peer_id (bc_ess c) = kp_peer (bx_keys x) kp"
    "kd_role (bd_keys d') = map_option role_as_str (ei_role (bc_ess c))"
    "GhostEngine.role (bc_engine c) = role_name (the (ei_role (bc_ess c)))" "gr_role (bc_runtime c) = role_name (the (ei_role (bc_ess c)))"
proof -
  obtain master sec st crdt world d1 where
    B: "boot_runtime x w (from_keypair (bx_keys x) kp) master sec \<lparr> inner = st, poisoned = False \<rparr> crdt world d1 = (Done c, d')"
    by (rule boot_done[OF assms]) blast
  note R = boot_runtime_done[OF B]
  show "ei_role (bc_ess c) = Some (resolve_role (mgr_get (bc_authority c)) (kp_peer (bx_keys x) kp) (claimed_role x))"
    "ei_keypair (bc_ess c) = kp" "ei_peer_id (bc_ess c) = kp_peer (bx_keys x) kp"
    using R(1,3) by (simp_all add: bind_role_def from_keypair_def)
  then show "GhostEngine.role (bc_engine c) = role_name (the (ei_role (bc_ess c)))"
    "gr_role (bc_runtime c) = role_name (the (ei_role (bc_ess c)))"
    using R(3,11,12) by (simp_all add: from_keypair_def)
  show "kd_role (bd_keys d') = map_option role_as_str (ei_role (bc_ess c))"
    using R(1,13) by (auto simp: bind_role_def)
qed

lemma genesis_skipped:
  assumes "boot_authority x we file = (Inr st, file')"
  shows "if file = None then st = default_authority (bx_auth x) \<and> (\<exists>bytes. bx_auth_ser x st = Some bytes \<and> file' = Some bytes)
    else load_authority (bx_auth x) file = Inr st \<and> file' = file"
  using assms
  by (auto simp: boot_authority_def bootstrap_authority_def genesis_def save_to_file_def Let_def
      split: option.splits sum.splits prod.splits write_end.splits)


section \<open>Properties\<close>


text \<open>
  A new network starts closed, and the environment cannot open it. After a boot without an authority file nobody is a supernode and nobody
  may do anything, the node itself included, whatever \<^verbatim>\<open>AUTHORITY_SUPERNODES\<close> lists: the file is created before the variable is
  looked at. The service record of the node is refused.
\<close>

theorem first_boot_closed:
  assumes "bootstrap_runtime x w kp profile d = (Done c, d')" and "bd_authority d = None"
  shows "AuthorityState.supernodes (mgr_get (bc_authority c)) = [] \<and> ei_role (bc_ess c) = Some Client \<and>
    \<not> is_allowed (bc_authority c) peer action \<and> snd (boot_registry ts (bc_authority c) peer) = [] \<and>
    (\<exists>bytes. bd_authority d' = Some bytes \<and> bx_auth_ser x (mgr_get (bc_authority c)) = Some bytes)"
proof -
  obtain st afile sec master crdt world d1 kd sh where
    A: "boot_authority x (bw_authority_write w) (bd_authority d) = (Inr st, afile)" and
    W: "boot_world x w st profile (kp_peer (bx_keys x) kp) (d\<lparr> bd_keys := kd, bd_shards := sh, bd_authority := afile \<rparr>) = (Inr world, d1)" and
    B: "boot_runtime x w (from_keypair (bx_keys x) kp) master sec \<lparr> inner = st, poisoned = False \<rparr> crdt world d1 = (Done c, d')"
    by (rule boot_done[OF assms(1)]) blast
  have c: "bc_authority c = \<lparr> inner = st, poisoned = False \<rparr>" using boot_runtime_done(3)[OF B] .
  have st: "st = default_authority (bx_auth x)" "\<exists>bytes. afile = Some bytes \<and> bx_auth_ser x st = Some bytes"
    using genesis_skipped[OF A] assms(2) by auto
  have none: "AuthorityState.supernodes st = []" "allowed_peers st = []" "allow_unknown_peers (policies st) = False"
    using st(1) by (simp_all add: default_authority_def default_state_def canonicalize_def Let_def)
  then have "\<not> is_allowed (bc_authority c) p a" for p a
    by (simp add: c is_allowed_def evaluate_action_def get_role_def)
  moreover have "role_of (bc_authority c) p = None" for p using none by (simp add: c role_of_def get_role_def)
  moreover have "bd_authority d' = afile"
    using boot_world_frame(2)[OF W] boot_runtime_done(14)[OF B] by simp
  ultimately show ?thesis
    using none st boot_role(1)[OF assms(1)]
    by (simp add: c mgr_get_def resolve_role_def boot_registry_def registry_publish_def can_publish_service_def Let_def)
qed

section \<open>Restart\<close>

text \<open>What is relied on: the codecs of the files read back what they wrote, and a derived key is not empty.\<close>

definition boot_codecs_ok :: "('k, 'pk, 'a, 'g) BootEnv \<Rightarrow> bool" where
  "boot_codecs_ok x \<longleftrightarrow> key_env_ok (bx_keys x) \<and> (\<forall>m i. ky_hkdf (bx_keys x) m i \<noteq> []) \<and>
     (\<forall>st b. bx_auth_ser x st = Some b \<longrightarrow> de_bincode (bx_auth x) b = Some st) \<and>
     (\<forall>d m. envelope_from_json (bx_gov x) (envelope_to_json (bx_gov x) d m) = Some (d, m)) \<and> write_ok (bx_gov x) \<and>
     (\<forall>s js. StoreCodec.snap_to_json (bx_codec x) s = Some js \<longrightarrow> StoreCodec.snap_from_json (bx_codec x) js = Some s)"

lemma boot_authority_again:
  assumes "boot_codecs_ok x" "boot_authority x we file = (Inr st, file')"
  shows "boot_authority x we' file' = (Inr st, file')"
proof -
  have "file' \<noteq> None" "load_authority (bx_auth x) file' = Inr st"
    using genesis_skipped[OF assms(2)] assms(1) by (auto simp: boot_codecs_ok_def load_authority_def split: if_splits)
  then show ?thesis by (auto simp: boot_authority_def bootstrap_authority_def genesis_def)
qed

lemma boot_world_saved:
  assumes "persist (bx_codec x) ck calls calls ''data/world_state'' world None fs = (Inr (), bd_files d)" "boot_codecs_ok x"
  obtains w1 d' where "boot_world x w a profile peer d = (Inr w1, d')" "gh_state (ws_ghost w1) = gh_state (ws_ghost world)"
    "gh_health_level (ws_ghost w1) = gh_health_level (ws_ghost world)" "WorldState.network_status w1 = WorldState.network_status world"
    "revision w1 = revision world + 2" "peer_registry w1 = []" "local_profile w1 = Some profile"
proof -
  obtain w1 fs'' where "recover_bundle (bx_auth x) (bx_acd x) (bx_codec x) (bw_clock w) (bd_activation d) (bw_manifest w) ''data/world_state'' a (bd_files d) =
      (Inr w1, fs'')" "gh_state (ws_ghost w1) = gh_state (ws_ghost world)"
    "gh_health_level (ws_ghost w1) = gh_health_level (ws_ghost world)" "WorldState.network_status w1 = WorldState.network_status world"
    "revision w1 = revision world + 2" "peer_registry w1 = []"
    using recover_saved[OF assms(1), of "bx_auth x" "bx_acd x" "bw_clock w" "bd_activation d" "bw_manifest w" a] assms(2)
    by (auto simp: boot_codecs_ok_def)
  then show thesis
    using that[of "fst (mark_peer_activated (bx_acd x) peer (set_local_profile (bx_acd x) profile (w1, bd_activation d)))"]
    by (simp add: boot_world_def mark_peer_activated_def set_local_profile_def Let_def)
qed

lemma boot_runtime_returns:
  assumes "kp_encode (bx_keys x) (ei_keypair ess) \<noteq> None" "bw_objects w \<noteq> None"
  shows "\<exists>c d'. boot_runtime x w ess master sec auth crdt world d = (Done c, d')"
  using assms by (auto simp: boot_runtime_def save_keypair_def bind_role_def storage_new_def Let_def split: prod.splits)

lemma keystore_again:
  assumes "key_env_ok k" "random_ok r" "keystore_initialize k r d = (Done master, d')" "kd_keystore e = kd_keystore d'"
  shows "keystore_initialize k r' e = (Done master, e)"
  using assms
  by (auto simp: keystore_initialize_def keystore_create_def keystore_open_def key_env_ok_def random_ok_def Let_def split: option.splits if_splits)

lemma loaded_without_key: "load_governance env now key disk = Some e \<Longrightarrow> hmac_key e = []"
  by (auto simp: load_governance_def restore_from_snapshot_def new_engine_def split: option.splits if_splits)

lemma boot_governance_saved:
  assumes "boot_codecs_ok x" "gov_ok gov" "key \<noteq> []"
    and "GovEnv.snap_to_json (bx_gov x) (snapshot gov) = Some js" "GovEnv.snap_from_json (bx_gov x) js = Some (snapshot gov)"
  shows "map_of (proposals (boot_governance x now key (save_governance (bx_gov x) gov key disk))) = map_of (proposals gov)"
    "quorum_ratio (boot_governance x now key (save_governance (bx_gov x) gov key disk)) = quorum_ratio gov"
    "bootstrap_exited (boot_governance x now key (save_governance (bx_gov x) gov key disk)) = bootstrap_exited gov"
    "hmac_key (boot_governance x now key (save_governance (bx_gov x) gov key disk)) = []"
proof -
  obtain e where e: "load_governance (bx_gov x) now key (save_governance (bx_gov x) gov key disk) = Some e"
      "map_of (proposals e) = map_of (proposals gov)" "quorum_ratio e = quorum_ratio gov" "bootstrap_exited e = bootstrap_exited gov"
    using load_save[OF assms(2,4,5) _ assms(3), of now disk] assms(1) by (auto simp: boot_codecs_ok_def)
  then show "map_of (proposals (boot_governance x now key (save_governance (bx_gov x) gov key disk))) = map_of (proposals gov)"
    "quorum_ratio (boot_governance x now key (save_governance (bx_gov x) gov key disk)) = quorum_ratio gov"
    "bootstrap_exited (boot_governance x now key (save_governance (bx_gov x) gov key disk)) = bootstrap_exited gov"
    "hmac_key (boot_governance x now key (save_governance (bx_gov x) gov key disk)) = []"
    using loaded_without_key by (auto simp: boot_governance_def Let_def)
qed


section \<open>The program\<close>

lemma load_or_create_kp:
  assumes "load_or_create k r d = (Inr i, d')"
  shows "\<exists>b. kd_identity d' = Some b \<and> (key_env_ok k \<longrightarrow> kp_decode k b = Some (ei_keypair i))"
    "kp_sign k (ei_keypair i) (as_bytes (''ess-bootstrap:'' @ kp_peer k (ei_keypair i))) \<noteq> None" "ei_peer_id i = kp_peer k (ei_keypair i)"
    "kd_profile d' = kd_profile d" "kd_x25519 d' = kd_x25519 d"
  using assms
  by (auto simp: load_or_create_def load_keypair_file_def from_keypair_def bind_role_def environment_role_def bind_authority_def
      clear_authority_binding_def key_env_ok_def Let_def split: option.splits if_splits)

lemma load_or_create_file:
  assumes "kd_identity e = Some b" "kp_decode k b = Some kp" "kp_sign k kp (as_bytes (''ess-bootstrap:'' @ kp_peer k kp)) \<noteq> None"
  shows "\<exists>i. load_or_create k r e = (Inr i, e) \<and> ei_keypair i = kp \<and> ei_peer_id i = kp_peer k kp"
  using assms
  by (auto simp: load_or_create_def load_keypair_file_def from_keypair_def bind_role_def environment_role_def bind_authority_def
      clear_authority_binding_def Let_def split: option.splits)

lemma main_started:
  assumes "key_env_ok (bx_keys x)" "ess_main x r inp d = (Started kp p, d')"
  obtains i d1 where "load_or_create (bx_keys x) r d = (Inr i, d1)" "ei_keypair i = kp" "kp_encode (bx_keys x) kp \<noteq> None"
    "setup_identity (bx_keys x) r inp (kp_peer (bx_keys x) kp) d1 = Some (Inr p, d')" "\<not> weak_secret (bx_var x ''ESS_MASTER_SECRET'')"
proof -
  obtain i d1 where i: "load_or_create (bx_keys x) r d = (Inr i, d1)"
    using assms(2) by (auto simp: ess_main_def initialize_identity_def split: if_splits prod.splits sum.splits)
  have "Option.bind (kp_encode (bx_keys x) (ei_keypair i)) (kp_decode (bx_keys x)) \<in> {None, Some (ei_keypair i)}"
    using assms(1) by (auto simp: key_env_ok_def bind_eq_Some_conv split: Option.bind_splits)
  then show thesis
    using that[of i d1] assms(2) i load_or_create_kp(3)[OF i]
    by (auto simp: ess_main_def initialize_identity_def bind_eq_Some_conv split: if_splits option.splits prod.splits sum.splits)
qed

lemma main_again:
  assumes "key_env_ok (bx_keys x)" "random_ok r" "ess_main x r inp d = (Started kp p, d')"
    and "kd_profile e = kd_profile d'" "kd_x25519 e = kd_x25519 d'" "kd_identity e = Some b" "kp_decode (bx_keys x) b = Some kp"
  shows "ess_main x r' inp' e = (Started kp p, e) \<and> lp_peer_id p = kp_peer (bx_keys x) kp"
proof -
  let ?k = "bx_keys x"
  obtain i d1 where i: "load_or_create ?k r d = (Inr i, d1)" "ei_keypair i = kp" "kp_encode ?k kp \<noteq> None"
    and su: "setup_identity ?k r inp (kp_peer ?k kp) d1 = Some (Inr p, d')" and ok: "\<not> weak_secret (bx_var x ''ESS_MASTER_SECRET'')"
    by (rule main_started[OF assms(1,3)])
  obtain sk t where f: "kd_x25519 e = Some sk" "length sk = 32" "kd_profile e = Some t" "profile_de ?k t = Some p"
      "lp_x25519_pubkey p \<noteq> []" "lp_peer_id p = kp_peer ?k kp"
    using setup_files[OF assms(1,2) su] assms(4,5) by auto
  obtain j where j: "load_or_create ?k r' e = (Inr j, e)" "ei_keypair j = kp" "ei_peer_id j = kp_peer ?k kp"
    using load_or_create_file[OF assms(6,7)] load_or_create_kp(2)[OF i(1)] i(2) by blast
  obtain bytes where "kp_encode ?k kp = Some bytes" "kp_decode ?k bytes = Some kp" using i(3) assms(1) by (auto simp: key_env_ok_def)
  then have "initialize_identity ?k r' e = (Inr (kp, kp_peer ?k kp), e)" using j by (simp add: initialize_identity_def)
  moreover have "setup_identity ?k r' inp' (kp_peer ?k kp) e = Some (Inr p, e)"
    using f by (simp add: setup_identity_def onion_key_read Let_def)
  ultimately show ?thesis using f ok assms(6) by (simp add: ess_main_def)
qed


section \<open>Policy sync\<close>

lemma pending_no_rights: "evaluate_action now (s\<lparr> pending_peers := ps \<rparr>) peer action = evaluate_action now s peer action"
proof -
  have "check_role_permission (s\<lparr> pending_peers := ps \<rparr>) r action = check_role_permission s r action" for r
    by (cases action) (simp_all add: check_role_permission_def)
  then show ?thesis by (simp add: evaluate_action_def get_role_def Let_def split: option.split)
qed

lemma staged_rights: "is_allowed (snd (apply_config_bundle ps auth)) peer action = is_allowed auth peer action"
proof -
  obtain s n where st: "stage_loop ps (inner auth) 0 = (s, n)" by force
  from stage_loop_frame[OF st] show ?thesis
    by (auto simp: apply_config_bundle_def st is_allowed_def pending_no_rights)
qed

lemma verify_keeps_policy:
  "rt_verify_config_response env now local remote resp sec = (v, sec') \<Longrightarrow> policy_config (rt_inner sec') = policy_config (rt_inner sec)"
  by (auto simp: rt_verify_config_response_def write_protected_def returning_def verify_config_response_def after_common_def check_common_def Let_def
      split: prod.splits sum.splits if_splits option.splits)

lemma apply_bundle_policy:
  "apply_bundle b sec = (Inr u, sec') \<Longrightarrow> policy_config (rt_inner sec') =
     (policy_config (rt_inner sec))\<lparr> pc_allowed_peers := pc_allowed_peers (policy_config (rt_inner sec)) \<union> set (cb_allowed_peers b),
       pc_bootstrap_addrs := cb_bootstrap_addrs b \<rparr>"
  by (auto simp: apply_bundle_def write_protected_def pi_apply_config_bundle_def split: if_splits)

lemma apply_bundle_refused: "apply_bundle b sec = (Inl e, sec') \<Longrightarrow> sec' = sec"
  by (auto simp: apply_bundle_def write_protected_def split: if_splits)

lemma first_p2p_in: "first_p2p ps = Some peer \<Longrightarrow> P2p peer \<in> set ps"
  by (induction ps rule: first_p2p.induct) auto

lemma ask_config_answer:
  "ask_config x local t remote sec = Some resp \<Longrightarrow> \<exists>data. st_answer t = Some (Inr data) \<and> bx_response_de x data = Some resp"
  by (auto simp: ask_config_def split: option.splits sum.splits)

definition verified_bundle :: "('k, 'pk, 'a, 'g) BootEnv \<Rightarrow> string \<Rightarrow> SyncTry \<Rightarrow> 'a \<Rightarrow> ConfigBundle \<Rightarrow> bool" where
  "verified_bundle x local t addr b \<longleftrightarrow> (\<exists>remote data resp sec. P2p remote \<in> set (ma_protocols (bx_cache x) addr) \<and> st_answer t = Some (Inr data) \<and>
     bx_response_de x data = Some resp \<and> fst (rt_verify_config_response (bx_sec x) (unat (st_answer_secs t)) local remote resp sec) = Inr b)"


section \<open>Life cycle\<close>

definition pause_due :: "Lifecycle \<Rightarrow> bool" where
  "pause_due s \<longleftrightarrow> lc_point s = InPause \<or> lc_point s = AfterRunner \<and> lc_phase s = PhRecovery"

text \<open>What holds in every run without a bridge.\<close>

definition life_inv :: "Lifecycle \<Rightarrow> bool" where
  "life_inv s \<longleftrightarrow> \<not> lc_bridge s \<and> \<not> lc_pending s \<and> lc_point s \<noteq> Returned \<and> lc_phase s \<noteq> PhShutdown \<and> lc_saves s = 0 \<and>
     (lc_point s = InRunner \<longrightarrow> lc_phase s = PhReady) \<and>
     15 * lc_crashes s = lc_paused_secs s + (if pause_due s then 15 else 0)"

lemma life_inv_step: "life_step s t \<Longrightarrow> life_inv s \<Longrightarrow> life_inv t"
  by (erule life_stepE) (auto simp: life_inv_def pause_due_def)

lemma life_inv_reach: "life_step\<^sup>*\<^sup>* (lifecycle_new False) s \<Longrightarrow> life_inv s"
proof (induction rule: rtranclp_induct)
  case base
  show ?case by (simp add: lifecycle_new_def life_inv_def pause_due_def)
qed (rule life_inv_step)

lemma life_progress: "lc_point s \<noteq> Returned \<Longrightarrow> \<exists>t. life_step s t"
proof (cases "lc_point s")
  case AtHead
  then show ?thesis by (cases "lc_phase s = PhShutdown") (blast intro: life_step.intros)+
qed (blast intro: life_step.intros)+

lemma spinning: "\<exists>t. life_step\<^sup>*\<^sup>* (lifecycle_new b) t \<and> lc_boots_failed t = n \<and> lc_paused_secs t = 0 \<and> lc_point t = AtHead \<and> lc_phase t \<noteq> PhShutdown"
proof (induction n)
  case 0
  then show ?case by (intro exI[of _ "lifecycle_new b"]) (simp add: lifecycle_new_def)
next
  case (Suc n)
  then obtain t where t: "life_step\<^sup>*\<^sup>* (lifecycle_new b) t" "lc_boots_failed t = n" "lc_paused_secs t = 0" "lc_point t = AtHead" "lc_phase t \<noteq> PhShutdown"
    by blast
  let ?u = "t\<lparr> lc_phase := PhBoot, lc_point := InBoot \<rparr>"
  have "life_step t ?u" using t by (intro life_step.enter)
  moreover have "life_step ?u (?u\<lparr> lc_phase := PhRecovery, lc_point := AtHead, lc_boots_failed := lc_boots_failed ?u + 1 \<rparr>)"
    by (intro life_step.boot_failed) simp
  ultimately have "life_step\<^sup>*\<^sup>* (lifecycle_new b) (?u\<lparr> lc_phase := PhRecovery, lc_point := AtHead, lc_boots_failed := lc_boots_failed ?u + 1 \<rparr>)"
    using t(1) by (meson rtranclp.rtrancl_into_rtrancl)
  then show ?case using t(2,3) by (intro exI conjI) (assumption, simp_all)
qed


text \<open>
  The restored governance is not used. The network task that starts after the boot has an engine of its own, without proposals and without a
  key, whatever the boot has loaded; and the control loop has no replicated state.
\<close>

theorem restored_state_unused:
  "proposals (fst (nd_gov (snd (start_tasks ne t afile fs kad sk c)))) = [] \<and> hmac_key (fst (nd_gov (snd (start_tasks ne t afile fs kad sk c)))) = [] \<and>
   cl_crdt (fst (start_tasks ne t afile fs kad sk c)) = None"
  by (simp add: start_tasks_def run_with_dashboard_and_authority_def control_loop_new_def new_engine_def Let_def)

section \<open>Witnesses\<close>

definition demo_open :: AuthorityState where
  "demo_open = default_state\<lparr> AuthorityState.supernodes := [''me''] \<rparr>"

definition demo_closed :: AuthorityState where
  "demo_closed = default_authority demo_auth_env"

definition demo_boot_auth :: "unit AuthEnv" where
  "demo_boot_auth = demo_auth_env\<lparr> de_bincode := (\<lambda>b. Some (if b = [1] then demo_open else demo_closed)) \<rparr>"

definition demo_boot :: "(unit, unit, string, unit) BootEnv" where
  "demo_boot = \<lparr> bx_keys = demo_key_env\<lparr> ky_var := (\<lambda>v. if v = ''NODE_ROLE'' then Some ''Supernode'' else
        if v = ''AUTHORITY_SUPERNODES'' then Some ''me'' else ky_var demo_key_env v),
        ky_hkdf := (\<lambda>k i. 1 # k @ i) \<rparr>,
     bx_auth = demo_boot_auth,
     bx_auth_ser = (\<lambda>st. if st = demo_open then Some [1] else if st = demo_closed then Some [2] else None),
     bx_sec = demo_sec_env\<lparr> policy_from_json := (\<lambda>t. Some default_policy_config) \<rparr>, bx_policy = (\<lambda>p. Some []),
     bx_gov = demo_gov_env, bx_acd = demo_acd, bx_codec = demo_store_codec, bx_cache = demo_cache_env, bx_storage = demo_storage_env,
     bx_shard_ser = (\<lambda>s. None), bx_shard_de = (\<lambda>b. None), bx_payload_de = (\<lambda>b. None), bx_request_ser = (\<lambda>r. Some []),
     bx_response_de = (\<lambda>b. None), bx_rnd = (\<lambda>r. r) \<rparr>"

definition demo_now_boot :: "unit BootNow" where
  "demo_now_boot = \<lparr> bw_random = demo_random, bw_coeffs = (\<lambda>i j. 0), bw_shard_fails = (\<lambda>p. False), bw_clock = demo_store_ck, bw_ms = 0,
     bw_authority_write = WriteOk, bw_manifest = all_calls_ok, bw_compute = None, bw_wasm = True, bw_objects = Some [] \<rparr>"

definition demo_started :: KeyDisk where
  "demo_started = demo_disk\<lparr> kd_identity := Some [1], kd_x25519 := Some (replicate 32 5) \<rparr>"

definition demo_boot_disk :: "u8 list option \<Rightarrow> BootDisk" where
  "demo_boot_disk a = \<lparr> bd_keys = demo_started, bd_shards = (\<lambda>p. None), bd_crdt = None, bd_authority = a,
     bd_files = (\<lambda>p. None), bd_activation = None, bd_cache = None, bd_gov = None \<rparr>"

lemma demo_boot_fields [simp]:
  "bw_random demo_now_boot = demo_random" "bw_objects demo_now_boot = Some []" "bw_authority_write demo_now_boot = WriteOk"
  "bx_auth demo_boot = demo_boot_auth" "bx_gov demo_boot = demo_gov_env" "bx_codec demo_boot = demo_store_codec"
  "bd_authority (demo_boot_disk a) = a" "kp_peer (bx_keys demo_boot) k = ''me''" "kp_encode (bx_keys demo_boot) k = Some [1]"
  by (simp_all add: demo_now_boot_def demo_boot_def demo_boot_disk_def demo_key_env_def)

lemma demo_default: "default_authority demo_boot_auth = demo_closed"
  by (simp add: demo_closed_def demo_boot_auth_def default_authority_def canonicalize_def compute_hash_def Let_def)

lemma demo_differ: "demo_open \<noteq> demo_closed"
proof -
  have "AuthorityState.supernodes demo_closed = []"
    by (simp add: demo_closed_def default_authority_def default_state_def canonicalize_def Let_def)
  moreover have "AuthorityState.supernodes demo_open = [''me'']" by (simp add: demo_open_def)
  ultimately show ?thesis by auto
qed

lemma demo_boot_ok: "boot_codecs_ok demo_boot"
proof -
  have "write_ok demo_gov_env" by (simp add: demo_gov_env_def)
  then show ?thesis
    unfolding boot_codecs_ok_def using demo_keys_ok demo_differ
    by (auto simp: demo_boot_def demo_boot_auth_def demo_envelope key_env_ok_def demo_store_codec_def demo_key_env_def split: if_splits)
qed

lemma demo_boots:
  assumes "a = None \<or> a = Some [1]"
  shows "\<exists>c d'. bootstrap_runtime demo_boot demo_now_boot () demo_profile (demo_boot_disk a) = (Done c, d')"
proof -
  let ?k = "bx_keys demo_boot" and ?d = "demo_boot_disk a"
  obtain master kd where K: "keystore_initialize ?k demo_random (bd_keys ?d) = (Done master, kd)"
    by (auto simp: keystore_initialize_def keystore_create_def keystore_password_def demo_boot_def demo_key_env_def demo_boot_disk_def
        demo_started_def demo_disk_def Let_def)
  obtain sec :: "unit SecurityRuntime" where
    P: "rt_load_policy_from_file (bx_sec demo_boot) (bx_policy demo_boot (policy_path demo_boot)) rt_new = (Inr (), sec)"
    by (simp add: rt_load_policy_from_file_def write_protected_def returning_def load_policy_from_file_def rt_new_def demo_boot_def)
  obtain st afile where A: "boot_authority demo_boot (bw_authority_write demo_now_boot) (bd_authority ?d) = (Inr st, afile)"
    using assms demo_differ demo_default
    by (auto simp: boot_authority_def bootstrap_authority_def save_to_file_def genesis_def load_authority_def demo_boot_def demo_boot_auth_def Let_def)
  let ?e = "?d\<lparr> bd_keys := kd, bd_shards := snd (split_key_to_files (bw_coeffs demo_now_boot) (bx_shard_ser demo_boot) (bw_shard_fails demo_now_boot)
      master 2 3 ''data/identity'' (bd_shards ?d)), bd_authority := afile \<rparr>"
  obtain world d1 where W: "boot_world demo_boot demo_now_boot st demo_profile (kp_peer ?k ()) ?e = (Inr world, d1)"
    by (simp add: boot_world_def recover_bundle_def load_json_def demo_boot_disk_def mark_peer_activated_def set_local_profile_def Let_def)
  show ?thesis
    using bootI[OF _ P A W] K boot_runtime_returns[of demo_boot "from_keypair ?k ()" demo_now_boot]
    by (simp add: from_keypair_def)
qed


theorem first_boot_closed_witness:
  "\<exists>c d'. bootstrap_runtime demo_boot demo_now_boot () demo_profile (demo_boot_disk None) = (Done c, d') \<and>
     bx_var demo_boot ''AUTHORITY_SUPERNODES'' = Some ''me'' \<and> \<not> is_allowed (bc_authority c) ''me'' Connect"
proof -
  obtain c d' where b: "bootstrap_runtime demo_boot demo_now_boot () demo_profile (demo_boot_disk None) = (Done c, d')"
    using demo_boots by blast
  then show ?thesis using first_boot_closed[OF b, of "''me''" Connect] by (auto simp: demo_boot_def)
qed


lemma demo_main: "ess_main demo_boot demo_random [] demo_started = (Started () demo_profile, demo_started)"
proof -
  have "\<not> weak_secret (bx_var demo_boot ''ESS_MASTER_SECRET'')" by (simp add: demo_boot_def demo_key_env_def) code_simp
  moreover have "bx_var demo_boot ''ESS_AUTHORITY_ROLE'' = None" "bx_var demo_boot ''ESS_CLEAR_AUTHORITY_BINDING'' = None"
    by (simp_all add: demo_boot_def demo_key_env_def)
  ultimately show ?thesis
    by (simp add: ess_main_def initialize_identity_def load_or_create_def load_keypair_file_def from_keypair_def bind_role_def
        environment_role_def parse_role_env_def is_truthy_env_def var_or_empty_def clear_authority_binding_def
        setup_identity_def onion_key_read demo_started_def demo_disk_def demo_profile_def demo_boot_def demo_key_env_def Let_def)
qed



definition demo_bundle :: ConfigBundle where
  "demo_bundle = \<lparr> cb_role = ''client'', cb_policy_version = 1, cb_allowed_peers = [''new''], cb_bootstrap_addrs = [], cb_issued_at = 7 \<rparr>"

definition demo_response :: ConfigResponse where
  "demo_response = \<lparr> cs_message_id = ''m'', cs_in_reply_to = ''q'', cs_from = ''sn'', cs_to = ''me'', cs_ok = True, cs_kind = ''config'',
     cs_body = ''b'', cs_nonce = ''n'', cs_ts = 7, cs_encrypted = False, cs_sender_pubkey = [], cs_signature = ''s'' \<rparr>"

definition demo_sync :: "(unit, unit, string, unit) BootEnv" where
  "demo_sync = demo_boot\<lparr> bx_sec := demo_sec_env\<lparr> sec_verify := (\<lambda>pk m sg. sg = [7]), b64_decode := (\<lambda>t. Some [7]),
       bundle_from_json := (\<lambda>t. Some demo_bundle) \<rparr>,
     bx_cache := demo_cache_env\<lparr> ma_protocols := (\<lambda>a. [P2p a]) \<rparr>, bx_response_de := (\<lambda>b. Some demo_response) \<rparr>"

definition demo_sync_sec :: "unit SecurityRuntime" where
  "demo_sync_sec = rt_new\<lparr> rt_inner := pi_new\<lparr> peer_public_keys := [(''sn'', ())] \<rparr> \<rparr>"

definition demo_try :: SyncTry where
  "demo_try = \<lparr> st_secs = 7, st_nonce = ''n'', st_answer = Some (Inr []), st_answer_secs = 7 \<rparr>"


end
