(* ===== verification/Support.thy ===== *)
theory Support
  imports Boot
begin

text \<open>
  The helpers around the network task: the health and node reports of \<^verbatim>\<open>network/runtime/support.rs\<close>, the waiting and sending
  functions of \<^verbatim>\<open>network_controller.rs\<close> that the event loop does not use itself, and the start of the network task in
  \<^verbatim>\<open>network/runtime/runner.rs\<close> with its background sync.
\<close>

section \<open>Reports\<close>

definition ping_average_ms :: "u64 \<Rightarrow> nat \<Rightarrow> u64 option" where
  "ping_average_ms total_ms samples = (if samples = 0 then None else Some (total_ms div of_nat samples))"

definition dashboard_health_level :: "bool \<Rightarrow> bool \<Rightarrow> nat \<Rightarrow> nat \<Rightarrow> string \<times> string \<times> string" where
  "dashboard_health_level bootstrap_ok config_ok failures linked =
     (let (level, reason) =
            (if failures \<ge> 5 then (''critical'', ''failure_threshold_reached'')
             else if \<not> bootstrap_ok then (''degraded'', ''bootstrap_not_ready'')
             else if \<not> config_ok then (''degraded'', ''config_not_ready'')
             else if linked = 0 then (''degraded'', ''no_connected_peers'')
             else if failures > 0 then (''degraded'', ''degraded_but_operational'')
             else (''healthy'', ''healthy''));
          st = (if bootstrap_ok \<and> config_ok \<and> linked > 0 then ''Idle'' else ''Wake'')
      in (level, st, reason))"

text \<open>The figures every report is built from.\<close>

record HealthFigures =
  hf_node_id :: string
  hf_role :: string
  hf_connected :: nat
  hf_known :: nat
  hf_route :: nat
  hf_trusted :: nat
  hf_bootstrap_ok :: bool
  hf_gateway_ok :: bool
  hf_web_ok :: bool
  hf_config_ok :: bool
  hf_failures :: nat
  hf_last_failure :: "string option"
  hf_ping_total :: u64
  hf_ping_samples :: nat
  hf_public_listen :: "string option"
  hf_location :: "string option"

definition build_dashboard_health_snapshot :: "string \<Rightarrow> string \<Rightarrow> HealthFigures \<Rightarrow> NodeHealth" where
  "build_dashboard_health_snapshot now peer f =
     (case dashboard_health_level (hf_bootstrap_ok f) (hf_config_ok f) (hf_failures f) (hf_connected f) of (level, st, reason) \<Rightarrow>
       \<lparr> nh_node_id = hf_node_id f, nh_peer_id = peer, nh_role = hf_role f, nh_state = st, nh_health_level = level, nh_decision = ''Noop'',
         nh_reason = reason, nh_connected_peers = of_nat (hf_connected f), nh_known_peers = of_nat (hf_known f),
         nh_route_peers = of_nat (hf_route f), nh_trusted_peers = of_nat (hf_trusted f),
         nh_ping_ms_avg = ping_average_ms (hf_ping_total f) (hf_ping_samples f), nh_bootstrap_ok = hf_bootstrap_ok f,
         nh_gateway_ok = hf_gateway_ok f, nh_web_ok = hf_web_ok f, nh_config_ok = hf_config_ok f, nh_tamper_detected = False,
         nh_failure_count = of_nat (hf_failures f), nh_last_failure_reason = hf_last_failure f, nh_updated_at = now,
         nh_public_listen = hf_public_listen f, nh_location = hf_location f \<rparr>)"

definition build_dashboard_node_info :: "string \<Rightarrow> string \<Rightarrow> string \<Rightarrow> string \<Rightarrow> string \<Rightarrow> string option \<Rightarrow> string option \<Rightarrow> string option \<Rightarrow> NodeInfo" where
  "build_dashboard_node_info now node peer rl st level listen loc =
     \<lparr> ni_node_id = node, ni_peer_id = peer, ni_role = rl, ni_state = st, ni_health_level = level, ni_public_listen = listen,
       ni_location = loc, ni_last_seen = Some now \<rparr>"

definition build_dashboard_route :: "string \<Rightarrow> string \<Rightarrow> string \<Rightarrow> string list \<Rightarrow> bool \<Rightarrow> bool \<Rightarrow> u64 option \<Rightarrow> RouteInfo" where
  "build_dashboard_route now src dst hops tr act_flag latency =
     \<lparr> ri_from_peer = src, ri_to_peer = dst, ri_hops = hops, ri_latency_ms = latency, ri_trusted = tr, ri_active = act_flag,
       ri_updated_at = now \<rparr>"

definition build_dashboard_log :: "string \<Rightarrow> string \<Rightarrow> string \<Rightarrow> string \<Rightarrow> string \<Rightarrow> LogEvent" where
  "build_dashboard_log now node level category msg =
     \<lparr> le_ts = now, le_node_id = node, le_level = level,
       le_event = ''['' @ level @ '']['' @ category @ ''] '' @ msg @ '' | node='' @ node, le_message = msg \<rparr>"

text \<open>What a report sends to the dashboard bridge; without a channel nothing is sent.\<close>

definition dashboard_emit :: "bool \<Rightarrow> DashboardBridgeInput \<Rightarrow> DashboardBridgeInput list" where
  "dashboard_emit tx m = (if tx then [m] else [])"

definition publish_dashboard_log :: "bool \<Rightarrow> string \<Rightarrow> string \<Rightarrow> string \<Rightarrow> string \<Rightarrow> string \<Rightarrow> DashboardBridgeInput list" where
  "publish_dashboard_log tx now node level category msg = dashboard_emit tx (BrLog (build_dashboard_log now node level category msg))"

definition publish_dashboard_health :: "bool \<Rightarrow> NodeHealth \<Rightarrow> DashboardBridgeInput list" where
  "publish_dashboard_health tx h = dashboard_emit tx (BrNodeHealth h)"

definition publish_dashboard_node :: "bool \<Rightarrow> NodeInfo \<Rightarrow> DashboardBridgeInput list" where
  "publish_dashboard_node tx i = dashboard_emit tx (BrNodeInfo i)"

definition publish_dashboard_route :: "bool \<Rightarrow> RouteInfo \<Rightarrow> DashboardBridgeInput list" where
  "publish_dashboard_route tx r = dashboard_emit tx (BrRoute r)"

definition build_health_snapshot :: "HealthFigures \<Rightarrow> GhostHealthSnapshot" where
  "build_health_snapshot f =
     \<lparr> hs_node_id = hf_node_id f, hs_role = hf_role f, hs_connected_peers = hf_connected f, hs_known_peers = hf_known f,
       hs_route_peers = hf_route f, hs_trusted_peers = hf_trusted f, hs_bootstrap_ok = hf_bootstrap_ok f, hs_gateway_ok = hf_gateway_ok f,
       hs_web_ok = hf_web_ok f, hs_config_ok = hf_config_ok f, hs_tamper_detected = False, hs_last_failure_reason = hf_last_failure f \<rparr>"

definition publish_health :: "GhostRuntime option \<Rightarrow> GhostHealthSnapshot \<Rightarrow> RtOut list" where
  "publish_health rt s = (case rt of None \<Rightarrow> [] | Some r \<Rightarrow> snd (gr_health s r))"

definition publish_current_health :: "GhostRuntime option \<Rightarrow> bool \<Rightarrow> string \<Rightarrow> string \<Rightarrow> HealthFigures \<Rightarrow> RtOut list \<times> DashboardBridgeInput list" where
  "publish_current_health rt tx now local f =
     (let h = build_dashboard_health_snapshot now local f;
          st = (if hf_bootstrap_ok f \<and> hf_config_ok f \<and> hf_connected f > 0 then ''Idle'' else ''Wake'');
          info = build_dashboard_node_info now (hf_node_id f) local (hf_role f) st (Some (nh_health_level h)) (hf_public_listen f) (hf_location f)
      in (publish_health rt (build_health_snapshot f), publish_dashboard_health tx h @ publish_dashboard_node tx info))"

section \<open>Waiting and sending\<close>

text \<open>
  The loop that waits for the swarm: \<open>ready i\<close> is what the poll number \<open>i\<close> sees, \<open>elapsed i\<close> the time since the start when it compares.
\<close>

partial_function (option) wait_for_swarm_ready :: "(nat \<Rightarrow> bool) \<Rightarrow> (nat \<Rightarrow> nat) \<Rightarrow> nat \<Rightarrow> nat \<Rightarrow> (string + unit) option" where
  "wait_for_swarm_ready ready elapsed timeout i =
     (if ready i then Some (Inr ())
      else if elapsed i \<ge> timeout then Some (Inl ''Timed out waiting for swarm initialization'')
      else wait_for_swarm_ready ready elapsed timeout (Suc i))"

text \<open>\<open>swarm\<close> is what the wait for the swarm and the lock on it return, \<open>parse\<close> reads a peer id.\<close>

definition send_onion_message :: "'ed OnionEnv \<Rightarrow> (nat \<Rightarrow> u8 list \<times> u8 list) \<Rightarrow> (string list \<Rightarrow> string list) \<Rightarrow> (string \<Rightarrow> string option) \<Rightarrow>
    string + unit \<Rightarrow> (nat \<times> (string \<Rightarrow> u8 list option)) option \<Rightarrow> WorldState option \<Rightarrow> 'pk Controller \<Rightarrow> u8 list \<Rightarrow> string \<Rightarrow> string + OnionSend" where
  "send_onion_message env rand shuffle parse swarm cfg world c payload destination =
     (case cfg of
        None \<Rightarrow> Inl ''Onion routing is disabled or not configured''
      | Some (hops, keys) \<Rightarrow>
          if hops = 0 then Inl ''Onion routing is disabled or not configured''
          else
            let known = (case world of None \<Rightarrow> [] | Some w \<Rightarrow> List.map_filter (\<lambda>(p, _). parse p) (peer_registry w)) in
            case ct_onion_secret c of
              None \<Rightarrow> Inl ''Onion static secret is not initialized''
            | Some sk \<Rightarrow>
                (case swarm of
                   Inl e \<Rightarrow> Inl e
                 | Inr u \<Rightarrow> Inr (send_via_onion env rand shuffle (ct_local c)
                     \<lparr> onion_hops = hops, onion_payload_size = 1400, pubkey_store = keys, authority_pubkey = None \<rparr>
                     destination payload known)))"

definition fetch_chunk_from_peer :: "(StorageRequest \<Rightarrow> u8 list option) \<Rightarrow> (u8 list \<Rightarrow> StorageResponse option) \<Rightarrow> (u8 list \<Rightarrow> Chunk option option) \<Rightarrow>
    (u8 list \<Rightarrow> string + u8 list) \<Rightarrow> string \<Rightarrow> nat \<Rightarrow> string + Chunk option" where
  "fetch_chunk_from_peer ser de de_chunk send oid i =
     (case ser (StGet oid i) of
        None \<Rightarrow> Inl ''serialize''
      | Some payload \<Rightarrow>
          (case send payload of
             Inl e \<Rightarrow> Inl e
           | Inr bytes \<Rightarrow>
               (case de bytes of
                  None \<Rightarrow> Inl ''deserialize''
                | Some (RespChunk n data) \<Rightarrow> (case de_chunk data of None \<Rightarrow> Inl ''deserialize'' | Some r \<Rightarrow> Inr r)
                | Some (RespObject data) \<Rightarrow> Inl ''Unexpected Object response for single chunk''
                | Some _ \<Rightarrow> Inl ''Invalid response'')))"

section \<open>Start of the network task\<close>

definition p2p_port :: "'k KeyEnv \<Rightarrow> nat" where
  "p2p_port k = (case parse_uint 16 (case ky_var k ''P2P_PORT'' of Some s \<Rightarrow> s | None \<Rightarrow> ''5001'') of Some n \<Rightarrow> n | None \<Rightarrow> 5001)"

text \<open>The onboarding requests to the known addresses one after the other, then the policy sync; a failed request is only logged.\<close>

fun onboard_all :: "'k KeyEnv \<Rightarrow> 'a CacheEnv \<Rightarrow> (string \<Rightarrow> nat \<Rightarrow> Attempt) \<Rightarrow> KeyDisk \<Rightarrow> 'a list \<Rightarrow> (string \<times> (string + unit)) list" where
  "onboard_all k x tries d [] = []"
| "onboard_all k x tries d (addr # rest) =
     (case first_p2p (ma_protocols x addr) of
        None \<Rightarrow> onboard_all k x tries d rest
      | Some pid \<Rightarrow> (pid, fst (send_onboarding_request k pid (tries pid) d)) # onboard_all k x tries d rest)"

definition background_sync :: "('k, 'pk, 'a, 'g) BootEnv \<Rightarrow> (string \<Rightarrow> nat \<Rightarrow> Attempt) \<Rightarrow> ('a \<Rightarrow> SyncTry) \<Rightarrow> string \<Rightarrow> KeyDisk \<Rightarrow> 'a list \<Rightarrow>
    'pk SecurityRuntime \<Rightarrow> AuthorityManager \<Rightarrow> (string \<times> (string + unit)) list \<times> bool \<times> 'pk SecurityRuntime \<times> AuthorityManager" where
  "background_sync x tries syncs local d addrs sec auth =
     (onboard_all (bx_keys x) (bx_cache x) tries d addrs,
      sync_policy_with_supernode x local (map (\<lambda>a. (syncs a, a)) addrs) sec auth)"

section \<open>Properties\<close>

text \<open>
  The dashboard shows one health of the node. After a report, whatever was sent before, the entry of the node has the reported health, and its
  announcement has the same state and level. The level is critical exactly from five failures on, healthy exactly without
  failures, with bootstrap and configuration and at least one connection; the node is idle exactly when it is ready, whatever its failures.
\<close>

theorem published_health_consistent:
  assumes "publish_current_health rt True now local f = (cmds, msgs)"
  shows "\<exists>sp h. map_of (ds_nodes (bridge_run (xs @ msgs) store_new)) (nh_key (build_dashboard_health_snapshot now local f)) = Some sp \<and> sn_health sp = Some h \<and> ni_state (sn_info sp) = nh_state h \<and>
    ni_health_level (sn_info sp) = Some (nh_health_level h) \<and>
    (nh_health_level h = ''critical'' \<longleftrightarrow> hf_failures f \<ge> 5) \<and>
    (nh_health_level h = ''healthy'' \<longleftrightarrow> hf_failures f = 0 \<and> hf_bootstrap_ok f \<and> hf_config_ok f \<and> hf_connected f > 0) \<and>
    (nh_state h = ''Idle'' \<longleftrightarrow> hf_bootstrap_ok f \<and> hf_config_ok f \<and> hf_connected f > 0)"
proof -
  let ?h = "build_dashboard_health_snapshot now local f"
  obtain i where msgs: "msgs = [BrNodeHealth ?h, BrNodeInfo i]" and i: "ni_node_id i = nh_node_id ?h" "ni_peer_id i = nh_peer_id ?h"
      "ni_state i = nh_state ?h" "ni_health_level i = Some (nh_health_level ?h)"
    using assms(1) by (auto simp: publish_current_health_def publish_dashboard_health_def publish_dashboard_node_def dashboard_emit_def
        build_dashboard_node_info_def build_dashboard_health_snapshot_def dashboard_health_level_def Let_def split: prod.splits)
  have key: "ni_key i = nh_key ?h" using i(1,2) by (simp add: ni_key_def nh_key_def)
  let ?k = "nh_key ?h"
  have "infos ?k (xs @ msgs) = infos ?k xs @ [i]" "healths ?k (xs @ msgs) = healths ?k xs @ [?h]"
    by (simp_all add: msgs infos_def healths_def key)
  then have "map_of (ds_nodes (bridge_run (xs @ msgs) store_new)) ?k = Some \<lparr> sn_info = i, sn_health = Some ?h \<rparr>"
    unfolding bridge_nodes by (simp add: entry_of_def)
  moreover have "nh_health_level ?h = ''critical'' \<longleftrightarrow> hf_failures f \<ge> 5"
      "nh_health_level ?h = ''healthy'' \<longleftrightarrow> hf_failures f = 0 \<and> hf_bootstrap_ok f \<and> hf_config_ok f \<and> hf_connected f > 0"
      "nh_state ?h = ''Idle'' \<longleftrightarrow> hf_bootstrap_ok f \<and> hf_config_ok f \<and> hf_connected f > 0"
    by (auto simp: build_dashboard_health_snapshot_def dashboard_health_level_def Let_def)
  ultimately show ?thesis using i by simp
qed

lemma wait_from:
  assumes "\<forall>j < n. \<not> ready (i + j)" "\<forall>j < n. elapsed (i + j) < timeout" "ready (i + n) \<or> timeout \<le> elapsed (i + n)"
  shows "wait_for_swarm_ready ready elapsed timeout i =
    Some (if ready (i + n) then Inr () else Inl ''Timed out waiting for swarm initialization'')"
  using assms
proof (induction n arbitrary: i)
  case 0
  then show ?case by (subst wait_for_swarm_ready.simps) auto
next
  case (Suc n)
  have "\<forall>j < n. \<not> ready (Suc i + j)" "\<forall>j < n. elapsed (Suc i + j) < timeout"
    using Suc.prems(1,2) by (metis Suc_less_eq add_Suc add_Suc_right)+
  moreover have "ready (Suc i + n) \<or> timeout \<le> elapsed (Suc i + n)" using Suc.prems(3) by simp
  ultimately have "wait_for_swarm_ready ready elapsed timeout (Suc i) =
      Some (if ready (Suc i + n) then Inr () else Inl ''Timed out waiting for swarm initialization'')"
    by (rule Suc.IH)
  moreover have "\<not> ready i" "elapsed i < timeout" using Suc.prems(1,2) by (metis add_0_right zero_less_Suc)+
  ultimately show ?case by (simp add: wait_for_swarm_ready.simps[of ready elapsed timeout i])
qed

text \<open>
  No sender waits for ever. As each pause between two polls lasts at least 100 milliseconds, the wait for the swarm returns after at
  most \<open>timeout / 100 + 2\<close> polls; it fails only if no poll saw a swarm, and its success means that the last poll saw one.
\<close>

theorem swarm_wait_ends:
  assumes "\<forall>i. elapsed i + 100 \<le> elapsed (Suc i)"
  shows "\<exists>n \<le> timeout div 100 + 1. (\<forall>j < n. \<not> ready j) \<and>
    wait_for_swarm_ready ready elapsed timeout 0 =
      Some (if ready n then Inr () else Inl ''Timed out waiting for swarm initialization'')"
proof -
  have grow: "100 * i \<le> elapsed i" for i
  proof (induction i)
    case (Suc i)
    then show ?case using spec[OF assms, of i] by simp
  qed simp
  define stops where "stops i \<longleftrightarrow> ready i \<or> timeout \<le> elapsed i" for i
  have last: "stops (timeout div 100 + 1)"
    using grow[of "timeout div 100 + 1"] by (simp add: stops_def) linarith
  define n where "n = (LEAST i. stops i)"
  have "stops n" unfolding n_def by (rule LeastI[of stops, OF last])
  moreover have "n \<le> timeout div 100 + 1" unfolding n_def by (rule Least_le[of stops, OF last])
  moreover have "\<forall>j < n. \<not> stops j" unfolding n_def using not_less_Least[of _ stops] by blast
  moreover have "wait_for_swarm_ready ready elapsed timeout 0 =
      Some (if ready n then Inr () else Inl ''Timed out waiting for swarm initialization'')"
    using wait_from[of n ready 0 elapsed timeout] calculation unfolding stops_def add_0 by (meson not_le)
  ultimately show ?thesis unfolding stops_def by blast
qed

theorem swarm_wait_ends_witness:
  "\<exists>n \<le> (101::nat). (\<forall>j < n. j \<noteq> 3) \<and>
    wait_for_swarm_ready (\<lambda>i. i = 3) (\<lambda>i. 100 * i) 10000 0 =
      Some (if n = 3 then Inr () else Inl ''Timed out waiting for swarm initialization'')"
proof -
  have n: "(10000::nat) div 100 + 1 = 101" by simp
  have "\<forall>i::nat. 100 * i + 100 \<le> 100 * Suc i" by simp
  from swarm_wait_ends[of "\<lambda>i. 100 * i" 10000 "\<lambda>i. i = 3", OF this] show ?thesis unfolding n .
qed

text \<open>
  What a storage node answers to a request for a chunk is the whole object or an error, so \<^verbatim>\<open>fetch_chunk_from_peer\<close> never returns a
  chunk.
\<close>

lemma get_object_answer:
  "(\<exists>data. fst (get_object env oid sl) = RespObject data) \<or> (\<exists>e. fst (get_object env oid sl) = RespError e)"
  by (auto simp: get_object_def get_object_erasure_def get_object_chunked_def Let_def split: sum.splits option.splits prod.splits if_splits)

theorem fetch_chunk_fails:
  assumes "handle_request env rng (StGet oid i) peer sl = Some (r, sl')" "send = (\<lambda>_. Inr (ser_r r))" "de (ser_r r) = Some r"
  shows "\<exists>e. fetch_chunk_from_peer ser de de_chunk send oid i = Inl e"
proof -
  have "(\<exists>data. r = RespObject data) \<or> (\<exists>e. r = RespError e)"
    using assms(1) get_object_answer[of env oid sl] by (auto simp: handle_request_def split: if_splits)
  then show ?thesis using assms(2,3) by (auto simp: fetch_chunk_from_peer_def split: option.splits)
qed

end
