(* ===== verification/Spec2Isabelle.thy ===== *)
theory Spec2Isabelle
  imports Sss Network_Proofs Dashboard_Http Ghost_Store Bootstrap_Cache Keys Pqc Boot_Proofs Support
begin

text \<open>
  ESS, the node software of a peer-to-peer infrastructure (\<^verbatim>\<open>src/src\<close>, Rust), as a library of
  theories.

  \<^bold>\<open>The program.\<close> A node has an identity and a role. The authority manager decides which peer may
  do what; supernodes change membership by governance votes; every message between nodes is signed
  and checked by the security runtime, which also guards against replays and floods; the network
  controller enforces these decisions, keeps the reputation of peers and carries out what the
  ghost engine, an autonomous state machine, decides. The world state is the local picture of the
  network; the CRDT state is its replicated part, with a hash chain as audit trail. Messages can
  travel through onion packets. Keys are shared out with Shamir's scheme and rotated by epoch. A
  sharded object store and a compute layer serve other peers. The control loop reacts to what the
  components report, the dashboard shows it, and \<^verbatim>\<open>main.rs\<close> puts the parts together.

  \<^bold>\<open>Theories.\<close>
  \<^item> \<open>Prelude\<close>: machine words, results, strings, \<^verbatim>\<open>BTreeMap\<close> as a sorted association list (\<open>bt_\<close>),
    \<^verbatim>\<open>HashMap\<close> as an association list with distinct keys (\<open>hm_\<close>), and the locale \<open>keyed_map\<close>, interpreted on both.
  \<^item> \<open>Gf256\<close>, \<open>Sss\<close> (\<^verbatim>\<open>sss.rs\<close>): the field tables, an instance of the class \<open>field\<close>, splitting, reconstruction and
    the shard files. Every \<open>k\<close> shards give the secret, \<open>k - 1\<close> say nothing about it.
  \<^item> \<open>Ghost\<close> (\<^verbatim>\<open>ghost.rs\<close>): one function for every input of the engine loop (command, beacon tick,
    sync tick) from the engine to the engine and the messages it sends. Panic, zeroization, the queue and the event log.
    The locale \<open>op_spec\<close> states what every operation of the engine promises and is interpreted on each.
  \<^item> \<open>Merkle_Dag\<close> (\<^verbatim>\<open>merkle_dag.rs\<close>), \<open>Crdt_State\<close> (\<^verbatim>\<open>crdt_state.rs\<close>): the audit chain and the replicated data
    types. The locale \<open>convergent\<close> gives convergence from the laws of one merge; it is interpreted on
    every data type and on the composite.
  \<^item> \<open>Authority\<close> (\<^verbatim>\<open>authority.rs\<close>): roles (an instance of \<open>linorder\<close>), decisions, verification and updates.
  \<^item> \<open>Governance\<close> (\<^verbatim>\<open>governance/\<close>): proposals, votes, quorum, bootstrap, and the file they are kept in; reachable
    engines are an inductive predicate.
  \<^item> \<open>Message\<close> (\<^verbatim>\<open>message.rs\<close>, \<^verbatim>\<open>config.rs\<close>, \<^verbatim>\<open>gateway.rs\<close>, \<^verbatim>\<open>web.rs\<close>, \<^verbatim>\<open>security.rs\<close>): envelopes, normalization and the
    bytes that are signed. \<open>Onboarding\<close> (\<^verbatim>\<open>onboarding.rs\<close>): serial numbers and the signed request.
  \<^item> \<open>Security_Runtime\<close> (definitions) and \<open>Security_Proofs\<close> (\<^verbatim>\<open>security_runtime.rs\<close>): builders and verifiers of the
    message kinds, replay cache, nonce cache, rate limiter, onboarding check. The locale \<open>verifier\<close> is
    the contract of a message verifier, interpreted on all of them.
  \<^item> \<open>Gateway_Limiter\<close> (\<^verbatim>\<open>gateway.rs\<close>), \<open>Web_Registry\<close> (\<^verbatim>\<open>web.rs\<close>), \<open>World_State\<close> (\<^verbatim>\<open>world_state.rs\<close>), \<open>World_Store\<close>
    (\<^verbatim>\<open>storage.rs\<close>), \<open>Id_Rotation\<close> (\<^verbatim>\<open>id_rotation.rs\<close>), \<open>Controller\<close> (\<^verbatim>\<open>network_controller.rs\<close>, \<^verbatim>\<open>system_event.rs\<close>), \<open>Onion\<close>
    (\<^verbatim>\<open>onion.rs\<close>, the sending and relaying parts of \<^verbatim>\<open>network/runtime/\<close>): admission rates, publication rights, the
    consistency of the counters, what a saved world state brings back, quarantine and verified replies, and that an
    onion packet arrives when every hop peels its layer.
  \<^item> \<open>Storage_Layer\<close> (\<^verbatim>\<open>storage_layer/\<close>): encrypted chunks, Reed-Solomon shards, metadata and the request handler; an object
    that was put is got back, also after the loss of as many shards as there are parity shards.
  \<^item> \<open>Compute_Store\<close>, \<open>Compute_Scheduler\<close> (\<^verbatim>\<open>compute/\<close>): jobs, their validation, the queue as a refinement of a priority
    queue, and the scheduler as a step function on the inputs of its loop.
  \<^item> \<open>Ghost_Policy\<close> (\<^verbatim>\<open>ghost_health.rs\<close>, \<^verbatim>\<open>ghost_policy.rs\<close>), \<open>Ghost_Runtime\<close> (\<^verbatim>\<open>ghost_runtime.rs\<close>), \<open>Ghost_Bridge\<close>
    (\<^verbatim>\<open>ghost_bridge.rs\<close>), \<open>Ghost_Store\<close> (\<^verbatim>\<open>ghost_store.rs\<close>), \<open>Control_Loop\<close> (\<^verbatim>\<open>control_loop.rs\<close>): what the node decides by itself, how it
    acts on violations, and what is published and kept of it.
  \<^item> \<open>Codec\<close> (\<^verbatim>\<open>codec.rs\<close>, \<^verbatim>\<open>kad_store.rs\<close>), \<open>Network_Events\<close> (definitions) and \<open>Network_Proofs\<close> (\<^verbatim>\<open>network/\<close>): frames and
    records, and all handlers of the network task as operations on the node (\<open>Node\<close>), joined in \<open>net_step\<close>. Every request is answered,
    only authorised ones are served, activation needs a quorum; and which messages the wiring of the parts loses.
  \<^item> \<open>Text\<close>, \<open>Dashboard\<close>, \<open>Dashboard_Http\<close> (\<^verbatim>\<open>dashboard/\<close>, \<^verbatim>\<open>dashboard_bridge.rs\<close>): the store and its view, and a
    connection of the server from the bytes read to the bytes written.
  \<^item> \<open>Bootstrap_Cache\<close> (\<^verbatim>\<open>bootstrap_cache.rs\<close>), \<open>Keys\<close> (\<^verbatim>\<open>identity.rs\<close>, \<^verbatim>\<open>keystore.rs\<close>, \<^verbatim>\<open>onboarding.rs\<close>), \<open>Pqc\<close> (\<^verbatim>\<open>pqc.rs\<close>): the files
    of a node, its secrets and its onboarding.
  \<^item> \<open>Boot\<close> (definitions) and \<open>Boot_Proofs\<close> (\<^verbatim>\<open>main.rs\<close>): the guards of \<^verbatim>\<open>main\<close>, the boot of all components from the disk
    and the environment (\<open>bootstrap_runtime\<close>), the save at shutdown, the policy sync, and the life cycle as the step relation
    \<open>life_step\<close>. The role of the node is one the authority grants, a restart brings the node back, a policy sync
    takes only verified answers, and the life cycle never returns.
  \<^item> \<open>Support\<close> (\<^verbatim>\<open>network/runtime/support.rs\<close>, \<^verbatim>\<open>network/runtime/runner.rs\<close>, \<^verbatim>\<open>network_controller.rs\<close>): the reports of the network task,
    the wait for the swarm, the background sync.

  \<^bold>\<open>Conventions.\<close> Structures are records with the fields of the source, enumerations are
  datatypes, machine integers are words where their width can be observed. Functions that mutate
  take the state and return it. Errors are the left summand of a result. Locks run their critical
  section whole; a poisoned lock is a flag where the code tests for it. Clocks, random bytes and
  identifiers are arguments. Cryptography (ed25519, X25519, AEAD, SHA-256, HMAC), base64,
  JSON, bincode and the file system are functions in an environment argument, and a theorem that
  needs a law of one of them names it as a hypothesis: that decoding inverts encoding, that a
  signature made with a key verifies under its public key. Floating-point numbers are reals, with
  a rounding function as argument where it matters. All strings are byte strings. Every function
  is total by structural recursion or by a termination proof, but for \<open>wait_for_swarm_ready\<close>, which
  is a partial function into options and is proved to return: there is no fuel. Tasks that run for
  ever (the ghost engine, the schedulers, the control loop, the network task) are functions of one
  input, and the theorems range over all sequences of inputs.

  \<^bold>\<open>What is not modelled.\<close> The construction of the libp2p swarm (\<^verbatim>\<open>network/runtime/swarm.rs\<close>) and what
  libp2p does with a message that it is handed; the run of a WebAssembly module by wasmtime; the fixed text of
  the HTML page; the setters of shared handles and the tables of one-shot
  channels in the controller, which the model passes as arguments; the conversions between the event types of \<^verbatim>\<open>network/runtime/types.rs\<close>; log output and the texts on
  the console; unit tests. The first three are libraries or data, which the model takes as
  arguments; the others carry no decision of the program.
\<close>

end
